(* ===== verification/Base.thy ===== *)
theory Base
  imports Main "HOL-Library.Word"
begin

unbundle bit_operations_syntax

text \<open>
  Shared vocabulary of the development: the C integer types the sources use
  (\<open>common/types.h\<close> and \<open>eibd/libserver/common.h\<close>), the split of 16 and 32 bit values into the
  bytes that go on the wire, the outcome of a piece of C++ code that can trip an
  \<open>assert\<close>, and the generic list and word lemmas the components share.

  \<^item> \<open>uchar\<close>, \<open>eibaddr_t\<close> and their kin are words of the width the C types have.
  \<^item> \<open>CArray\<close> (the class \<open>Array<uchar>\<close>) is a list of bytes; its class is modelled
    operation by operation in theory \<open>Arrays\<close>.
  \<^item> an \<open>option\<close> result is \<open>None\<close> where the C++ program aborts on a failed \<open>assert\<close>.
\<close>

section \<open>The C types\<close>

type_synonym uchar = "8 word"
type_synonym CArray = "8 word list"
type_synonym eibaddr_t = "16 word"
type_synonym eibkey_type = "32 word"
type_synonym domainaddr_t = "16 word"
type_synonym memaddr_t = "16 word"
type_synonym objectno_t = "8 word"
type_synonym propertyid_t = "8 word"
type_synonym timestamp_t = int

section \<open>Lemma collections\<close>

named_theorems byte_simps "rewriting of byte splitting and joining"
named_theorems codec_init "the init methods, unfolded"
named_theorems codec_unfold "definitions an encoder or decoder unfolds to"

section \<open>Bytes of wider integers\<close>

text \<open>
  The sources write \<open>(x >> 8) & 0xff\<close> and \<open>x & 0xff\<close> to split, and
  \<open>(c[i] << 8) | c[i+1]\<close> to join; the operations below are these expressions.
\<close>

definition hi8 :: "16 word \<Rightarrow> 8 word" where
  "hi8 x = ucast (drop_bit 8 x AND 0xFF)"

definition lo8 :: "16 word \<Rightarrow> 8 word" where
  "lo8 x = ucast (x AND 0xFF)"

definition mk16 :: "8 word \<Rightarrow> 8 word \<Rightarrow> 16 word" where
  "mk16 h l = push_bit 8 (ucast h) OR ucast l"

definition byte32 :: "nat \<Rightarrow> 32 word \<Rightarrow> 8 word" where
  "byte32 s x = ucast (drop_bit s x AND 0xFF)"

definition mk32 :: "8 word \<Rightarrow> 8 word \<Rightarrow> 8 word \<Rightarrow> 8 word \<Rightarrow> 32 word" where
  "mk32 a b c d = push_bit 24 (ucast a) OR push_bit 16 (ucast b) OR push_bit 8 (ucast c) OR ucast d"

lemma mask8_eq: "(0xFF :: 'a::len word) = mask 8"
  by (simp add: mask_eq_exp_minus_1)

lemma bit_beyond_8 [simp]: "8 \<le> n \<Longrightarrow> \<not> bit (x :: 8 word) n"
  by (auto dest: bit_imp_le_length)

lemma hi8_mk16 [byte_simps, simp]: "hi8 (mk16 h l) = h"
  unfolding hi8_def mk16_def mask8_eq by (rule bit_word_eqI) (auto simp: bit_simps)

lemma lo8_mk16 [byte_simps, simp]: "lo8 (mk16 h l) = l"
  unfolding lo8_def mk16_def mask8_eq by (rule bit_word_eqI) (auto simp: bit_simps)

lemma mk16_hi8_lo8 [byte_simps, simp]: "mk16 (hi8 x) (lo8 x) = x"
  unfolding hi8_def lo8_def mk16_def mask8_eq
  by (rule bit_word_eqI) (auto simp: bit_simps)

lemma mk32_byte32 [byte_simps, simp]:
  "mk32 (byte32 24 x) (byte32 16 x) (byte32 8 x) (byte32 0 x) = x"
proof (rule bit_word_eqI)
  fix n assume "n < LENGTH(32)"
  then consider "n < 8" | "8 \<le> n \<and> n < 16" | "16 \<le> n \<and> n < 24" | "24 \<le> n \<and> n < 32"
    by fastforce
  then show "bit (mk32 (byte32 24 x) (byte32 16 x) (byte32 8 x) (byte32 0 x)) n = bit x n"
    by cases (auto simp: byte32_def mk32_def mask8_eq bit_simps)
qed

lemma byte32_mk32 [byte_simps, simp]:
  "byte32 24 (mk32 a b c d) = a" "byte32 16 (mk32 a b c d) = b"
  "byte32 8 (mk32 a b c d) = c" "byte32 0 (mk32 a b c d) = d"
  unfolding byte32_def mk32_def mask8_eq
  by ((rule bit_word_eqI, simp add: bit_simps)+)

section \<open>Counting with machine words\<close>

lemma unat_inc: "i < n \<Longrightarrow> unat (i + 1) = unat i + 1" for i n :: "'a::len word"
proof -
  assume "i < n"
  then have "unat i < unat n" by (simp add: word_less_nat_alt)
  also have "unat n < 2 ^ LENGTH('a)" by (rule unsigned_less)
  finally have "unat i + 1 < 2 ^ LENGTH('a)" using \<open>unat i < unat n\<close>
    by (metis Suc_eq_plus1 Suc_lessI \<open>unat n < 2 ^ LENGTH('a)\<close> not_less_eq)
  then show "unat (i + 1) = unat i + 1"
    by (simp add: unat_word_ariths)
qed

lemma unat_sub_le: "j \<le> i \<Longrightarrow> unat (i - j) = unat i - unat j" for i j :: "'a::len word"
  by (simp add: unat_sub)

end
