(* ===== verification/Arrays.thy ===== *)
theory Arrays
  imports Base "HOL-Library.Multiset"
begin

text \<open>
  The container templates of \<open>common/\<close>: \<open>Array<T>\<close> (\<open>array.h\<close>), \<open>Stack<T>\<close>
  (\<open>stack.h\<close>) and the class \<open>String\<close> (\<open>my_strings.h\<close>).

  An array object is the list of its cells; \<open>count\<close> is the list's length. Indices and
  counts are C \<open>unsigned\<close> (32 bit words), so the sums in \<open>setpart\<close> and
  \<open>deletepart\<close> wrap as they do in C. Cells of a fresh \<open>new T[n]\<close> are indeterminate:
  they are taken from a parameter \<open>junk\<close> that says what the memory held. An access outside
  the array is undefined behaviour and is the result \<open>None\<close>.
\<close>

type_synonym unsigned = "32 word"
type_synonym 'a memory = "nat \<Rightarrow> 'a"

section \<open>Checked cell access\<close>

definition rd :: "'a list \<Rightarrow> nat \<Rightarrow> 'a option" where
  "rd xs i = (if i < length xs then Some (xs ! i) else None)"

definition wr :: "'a list \<Rightarrow> nat \<Rightarrow> 'a \<Rightarrow> 'a list option" where
  "wr xs i v = (if i < length xs then Some (xs[i := v]) else None)"

text \<open>\<open>for (k = 0; k < n; k++) dst[d + k] = src[s + k]\<close>\<close>

fun copy_cells :: "'a list \<Rightarrow> nat \<Rightarrow> nat \<Rightarrow> nat \<Rightarrow> 'a list \<Rightarrow> 'a list option" where
  "copy_cells src s d 0 dst = Some dst"
| "copy_cells src s d (Suc n) dst =
     (case rd src s of None \<Rightarrow> None
      | Some v \<Rightarrow> (case wr dst d v of None \<Rightarrow> None
                  | Some dst' \<Rightarrow> copy_cells src (Suc s) (Suc d) n dst'))"

lemma copy_cells_eq:
  "s + n \<le> length src \<Longrightarrow> d + n \<le> length dst \<Longrightarrow>
   copy_cells src s d n dst = Some (take d dst @ take n (drop s src) @ drop (d + n) dst)"
proof (induction n arbitrary: s d dst)
  case 0
  then show ?case by simp
next
  case (Suc n)
  from Suc.prems have "take n (drop (Suc s) src) = tl (take (Suc n) (drop s src))"
    and hd: "take (Suc n) (drop s src) = src ! s # take n (drop (Suc s) src)"
    by (simp_all add: Cons_nth_drop_Suc [symmetric])
  moreover from Suc.prems have "take (Suc d) (dst[d := src ! s]) = take d dst @ [src ! s]"
    by (simp add: take_Suc_conv_app_nth)
  ultimately show ?case
    using Suc.prems by (simp add: rd_def wr_def Suc.IH)
qed

section \<open>Array\<close>

text \<open>\<open>new T[n]\<close>: cells hold whatever the memory held.\<close>

definition Array_new :: "'a memory \<Rightarrow> nat \<Rightarrow> 'a list" where
  "Array_new junk n = map junk [0..<n]"

definition Array_resize :: "'a memory \<Rightarrow> unsigned \<Rightarrow> 'a list \<Rightarrow> 'a list option" where
  "Array_resize junk newcount xs =
     (if newcount = 0 then Some []
      else copy_cells xs 0 0 (min (length xs) (unat newcount)) (Array_new junk (unat newcount)))"

definition Array_set :: "'a memory \<Rightarrow> 'a list \<Rightarrow> unsigned \<Rightarrow> 'a list \<Rightarrow> 'a list option" where
  "Array_set junk elem cnt xs =
     (case Array_resize junk cnt xs of None \<Rightarrow> None
      | Some ys \<Rightarrow> copy_cells elem 0 0 (unat cnt) ys)"

definition Array_setpart ::
    "'a memory \<Rightarrow> 'a list \<Rightarrow> unsigned \<Rightarrow> unsigned \<Rightarrow> 'a list \<Rightarrow> 'a list option" where
  "Array_setpart junk elem start cnt xs =
     (case (if cnt + start > of_nat (length xs) then Array_resize junk (cnt + start) xs else Some xs)
      of None \<Rightarrow> None
      | Some ys \<Rightarrow> copy_cells elem 0 (unat start) (unat cnt) ys)"

text \<open>\<open>for (i = start + cnt; i < count; i++) data[i - cnt] = data[i]\<close>\<close>

function Array_shift_down :: "unsigned \<Rightarrow> unsigned \<Rightarrow> unsigned \<Rightarrow> 'a list \<Rightarrow> 'a list option" where
  "Array_shift_down cells cnt i xs =
     (if i < cells
      then (case rd xs (unat i) of None \<Rightarrow> None
            | Some v \<Rightarrow> (case wr xs (unat (i - cnt)) v of None \<Rightarrow> None
                        | Some xs' \<Rightarrow> Array_shift_down cells cnt (i + 1) xs'))
      else Some xs)"
  by pat_completeness auto
termination
proof (relation "measure (\<lambda>(cells, cnt, i, xs). unat cells - unat i)")
  fix cells cnt i :: unsigned and xs xs' :: "'a list" and v
  assume "i < cells"
  then have "unat (i + 1) = unat i + 1" and "unat i < unat cells"
    by (simp_all add: unat_inc word_less_nat_alt)
  then show "((cells, cnt, i + 1, xs'), (cells, cnt, i, xs))
      \<in> measure (\<lambda>(cells, cnt, i, xs). unat cells - unat i)"
    by simp
qed simp

declare Array_shift_down.simps [simp del]

definition Array_deletepart ::
    "'a memory \<Rightarrow> unsigned \<Rightarrow> unsigned \<Rightarrow> 'a list \<Rightarrow> 'a list option" where
  "Array_deletepart junk start cnt xs =
     (let cells = of_nat (length xs) in
      if start \<ge> cells then Some xs
      else if cnt \<le> 0 then Some xs
      else let cnt' = (if start + cnt \<ge> cells then cnt - (start + cnt - cells) else cnt) in
           case Array_shift_down cells cnt' (start + cnt') xs of None \<Rightarrow> None
           | Some ys \<Rightarrow> Array_resize junk (cells - cnt') ys)"

definition Array_add :: "'a memory \<Rightarrow> 'a \<Rightarrow> 'a list \<Rightarrow> 'a list option" where
  "Array_add junk e xs =
     (case Array_resize junk (of_nat (length xs) + 1) xs of None \<Rightarrow> None
      | Some ys \<Rightarrow> wr ys (length ys - 1) e)"

definition Array_insert :: "'a memory \<Rightarrow> unsigned \<Rightarrow> 'a \<Rightarrow> 'a list \<Rightarrow> 'a list option" where
  "Array_insert junk pos e xs =
     (if pos \<ge> of_nat (length xs) then Array_add junk e xs
      else
        case copy_cells xs 0 0 (unat pos) (Array_new junk (length xs + 1)) of None \<Rightarrow> None
        | Some d1 \<Rightarrow> (case wr xs (unat pos) e of None \<Rightarrow> None
            | Some xs' \<Rightarrow>
                copy_cells xs' (unat pos) (unat pos + 1) (length xs - unat pos) d1))"

fun Array_eq_from :: "'a list \<Rightarrow> 'a list \<Rightarrow> nat \<Rightarrow> nat \<Rightarrow> bool" where
  "Array_eq_from xs ys i 0 = True"
| "Array_eq_from xs ys i (Suc n) = (if ys ! i \<noteq> xs ! i then False else Array_eq_from xs ys (Suc i) n)"

definition Array_eq :: "'a list \<Rightarrow> 'a list \<Rightarrow> bool" where
  "Array_eq xs ys = (if length ys \<noteq> length xs then False else Array_eq_from xs ys 0 (length xs))"

text \<open>\<open>sort\<close>: two nested loops of exchanges.\<close>

function Array_sort_inner :: "nat \<Rightarrow> nat \<Rightarrow> 'a::linorder list \<Rightarrow> 'a list" where
  "Array_sort_inner i j xs =
     (if j < length xs
      then Array_sort_inner i (Suc j)
             (if xs ! i > xs ! j then xs[i := xs ! j, j := xs ! i] else xs)
      else xs)"
  by pat_completeness auto
termination
  by (relation "measure (\<lambda>(i, j, xs). length xs - j)") auto

declare Array_sort_inner.simps [simp del]

lemma length_sort_inner [simp]: "length (Array_sort_inner i j xs) = length xs"
  by (induction i j xs rule: Array_sort_inner.induct) (subst Array_sort_inner.simps, simp)

function Array_sort_outer :: "nat \<Rightarrow> 'a::linorder list \<Rightarrow> 'a list" where
  "Array_sort_outer i xs =
     (if i < length xs then Array_sort_outer (Suc i) (Array_sort_inner i (Suc i) xs) else xs)"
  by pat_completeness auto
termination
  by (relation "measure (\<lambda>(i, xs). length xs - i)") auto

declare Array_sort_outer.simps [simp del]

definition Array_sort :: "'a::linorder list \<Rightarrow> 'a list" where
  "Array_sort xs = Array_sort_outer 0 xs"

section \<open>What the array operations compute\<close>

lemma length_Array_new [simp]: "length (Array_new junk n) = n"
  by (simp add: Array_new_def)

lemma Array_resize_eq [simp]:
  "Array_resize junk n xs = Some (take (unat n) xs @ map junk [length xs..<unat n])"
proof (cases "n = 0")
  case True
  then show ?thesis by (simp add: Array_resize_def)
next
  case False
  have "drop (min (length xs) (unat n)) (Array_new junk (unat n)) = map junk [length xs..<unat n]"
    by (auto simp: Array_new_def drop_map min_def)
  moreover have "take (min (length xs) (unat n)) xs = take (unat n) xs"
    by (simp add: min_def)
  ultimately show ?thesis using False
    by (simp add: Array_resize_def copy_cells_eq)
qed

lemma Array_set_eq:
  "unat cnt \<le> length elem \<Longrightarrow> Array_set junk elem cnt xs = Some (take (unat cnt) elem)"
  by (simp add: Array_set_def copy_cells_eq)

lemma Array_add_eq:
  assumes "length xs + 1 < 2 ^ 32"
  shows "Array_add junk e xs = Some (xs @ [e])"
proof -
  have "unat (of_nat (length xs) + 1 :: unsigned) = length xs + 1"
    using assms by (simp add: unat_word_ariths unat_of_nat)
  then show ?thesis
    by (simp add: Array_add_def wr_def)
qed

lemma Array_setpart_eq:
  assumes "unat start + unat cnt < 2 ^ 32" and "unat cnt \<le> length elem" and "length xs < 2 ^ 32"
  shows "Array_setpart junk elem start cnt xs =
    (let ys = xs @ map junk [length xs..<unat start + unat cnt]
     in Some (take (unat start) ys @ take (unat cnt) elem @ drop (unat start + unat cnt) ys))"
proof -
  have sum: "unat (cnt + start) = unat start + unat cnt"
    using assms(1) by (simp add: unat_word_ariths)
  have len: "unat (of_nat (length xs) :: unsigned) = length xs"
    using assms(3) by (simp add: unat_of_nat)
  show ?thesis
    using assms(2) by (auto simp: Array_setpart_def word_less_nat_alt sum len copy_cells_eq Let_def)
qed

lemma Array_shift_down_eq:
  "length xs = unat cells \<Longrightarrow> cnt \<le> i \<Longrightarrow> i \<le> cells \<Longrightarrow>
   Array_shift_down cells cnt i xs =
     Some (take (unat i - unat cnt) xs @ drop (unat i) xs @ drop (unat cells - unat cnt) xs)"
proof (induction cells cnt i xs rule: Array_shift_down.induct)
  case (1 cells cnt i xs)
  show ?case
  proof (cases "i < cells")
    case False
    with "1.prems" have "i = cells" by simp
    with "1.prems" show ?thesis
      by (subst Array_shift_down.simps) simp
  next
    case True
    let ?i = "unat i" and ?c = "unat cnt" and ?n = "unat cells"
    have nat: "?i < ?n" "?c \<le> ?i" "?n = length xs" "?i - ?c < length xs"
      using True "1.prems" by (simp_all add: word_less_nat_alt word_le_nat_alt)
    define ys where "ys = xs[?i - ?c := xs ! ?i]"
    have step: "Array_shift_down cells cnt i xs = Array_shift_down cells cnt (i + 1) ys"
      using True nat "1.prems"(2)
      by (subst Array_shift_down.simps) (simp add: rd_def wr_def unat_sub_le ys_def)
    have inc: "unat (i + 1) = Suc ?i" using True by (simp add: unat_inc)
    have "Array_shift_down cells cnt (i + 1) ys =
        Some (take (unat (i + 1) - ?c) ys @ drop (unat (i + 1)) ys @ drop (?n - ?c) ys)"
    proof (rule "1.IH" [OF True, of "xs ! ?i" ys])
      show "rd xs ?i = Some (xs ! ?i)" using nat by (simp add: rd_def)
      show "wr xs (unat (i - cnt)) (xs ! ?i) = Some ys"
        using nat "1.prems"(2) by (simp add: wr_def unat_sub_le ys_def)
      show "length ys = ?n" using nat by (simp add: ys_def)
      show "cnt \<le> i + 1" using nat inc by (simp add: word_le_nat_alt)
      show "i + 1 \<le> cells" using nat inc by (simp add: word_le_nat_alt)
    qed
    moreover have "take (Suc ?i - ?c) ys = take (?i - ?c) xs @ [xs ! ?i]"
      using nat by (simp add: ys_def Suc_diff_le take_Suc_conv_app_nth)
    moreover have "drop (Suc ?i) ys = drop (Suc ?i) xs" and "drop (?n - ?c) ys = drop (?n - ?c) xs"
      using nat by (simp_all add: ys_def)
    moreover have "drop ?i xs = xs ! ?i # drop (Suc ?i) xs"
      using nat by (simp add: Cons_nth_drop_Suc)
    ultimately show ?thesis
      unfolding step inc by simp
  qed
qed

lemma Array_deletepart_eq:
  assumes "unat start + unat cnt < 2 ^ 32" and "length xs < 2 ^ 32"
  shows "Array_deletepart junk start cnt xs = Some (take (unat start) xs @ drop (unat start + unat cnt) xs)"
proof -
  define cells :: unsigned where "cells = of_nat (length xs)"
  have len: "unat cells = length xs"
    using assms(2) by (simp add: cells_def unat_of_nat)
  have sum: "unat (start + cnt) = unat start + unat cnt"
    using assms(1) by (simp add: unat_word_ariths)
  define cnt' where "cnt' = (if start + cnt \<ge> cells then cnt - (start + cnt - cells) else cnt)"
  show ?thesis
  proof (cases "start \<ge> cells \<or> cnt = 0")
    case True
    then show ?thesis
      using len by (auto simp: Array_deletepart_def word_le_nat_alt cells_def Let_def)
  next
    case False
    then have lt: "start < cells" "cnt \<noteq> 0" by auto
    have "cnt' = (if start + cnt \<ge> cells then cells - start else cnt)"
      by (simp add: cnt'_def)
    then have c': "unat start + unat cnt' = min (unat start + unat cnt) (length xs)"
      using lt len sum by (auto simp: word_le_nat_alt word_less_nat_alt unat_sub_le min_def)
    have "unat start + unat cnt' < 2 ^ 32"
      using c' assms(1) by simp
    then have sum': "unat (start + cnt') = unat start + unat cnt'"
      by (simp add: unat_word_ariths)
    have le: "cnt' \<le> start + cnt'" "start + cnt' \<le> cells" "cnt' \<le> cells"
      using c' sum' len by (auto simp: word_le_nat_alt min_def split: if_splits)
    have "Array_shift_down cells cnt' (start + cnt') xs =
        Some (take (unat start) xs @ drop (unat start + unat cnt') xs @ drop (length xs - unat cnt') xs)"
      using Array_shift_down_eq [of xs cells cnt' "start + cnt'"] le len sum' by simp
    moreover have "unat (cells - cnt') = length xs - unat cnt'"
      using le len by (simp add: unat_sub_le)
    moreover have "drop (unat start + unat cnt') xs = drop (unat start + unat cnt) xs"
      using c' by (auto simp: min_def split: if_splits)
    ultimately show ?thesis
      using lt c' by (simp add: Array_deletepart_def Let_def cells_def [symmetric] cnt'_def [symmetric]
          not_le)
  qed
qed

text \<open>
  \<open>insert\<close> before the end writes the new element into the old array before it copies the
  tail: the element that was at \<open>pos\<close> is lost and the cell \<open>pos\<close> of the result is never set.
\<close>

lemma Array_insert_inside:
  assumes "length xs < 2 ^ 32" and "unat pos < length xs"
  shows "Array_insert junk pos e xs =
    Some (take (unat pos) xs @ [junk (unat pos), e] @ drop (unat pos + 1) xs)"
proof -
  have len: "unat (of_nat (length xs) :: unsigned) = length xs"
    using assms(1) by (simp add: unat_of_nat)
  let ?p = "unat pos" and ?n = "length xs"
  let ?d1 = "take ?p xs @ drop ?p (Array_new junk (?n + 1))"
  have "copy_cells xs 0 0 ?p (Array_new junk (?n + 1)) = Some ?d1"
    using assms by (simp add: copy_cells_eq)
  moreover have "copy_cells (xs[?p := e]) ?p (?p + 1) (?n - ?p) ?d1 =
      Some (take (?p + 1) ?d1 @ drop ?p (xs[?p := e]))"
    using assms by (simp add: copy_cells_eq)
  moreover have "take (?p + 1) ?d1 = take ?p xs @ [junk ?p]"
    using assms by (simp add: Array_new_def take_Suc_conv_app_nth drop_map take_map)
  moreover have "drop ?p (xs[?p := e]) = e # drop (?p + 1) xs"
    using assms by (simp add: drop_update_swap Cons_nth_drop_Suc [symmetric])
  ultimately show ?thesis
    using assms by (simp add: Array_insert_def wr_def word_le_nat_alt len not_le)
qed

lemma Array_eq_from_iff:
  "length ys = length xs \<Longrightarrow> i + n = length xs \<Longrightarrow>
   Array_eq_from xs ys i n \<longleftrightarrow> drop i xs = drop i ys"
proof (induction n arbitrary: i)
  case 0
  then show ?case by simp
next
  case (Suc n)
  then have "drop i xs = xs ! i # drop (Suc i) xs" and "drop i ys = ys ! i # drop (Suc i) ys"
    by (simp_all add: Cons_nth_drop_Suc)
  with Suc show ?case by auto
qed

lemma Array_eq_iff [simp]: "Array_eq xs ys \<longleftrightarrow> xs = ys"
  by (auto simp: Array_eq_def Array_eq_from_iff)

subsection \<open>sort\<close>

lemma Array_sort_inner_spec:
  assumes "i < j" and "i < length xs" and "\<forall>k. i < k \<and> k < j \<and> k < length xs \<longrightarrow> xs ! i \<le> xs ! k"
  shows "mset (Array_sort_inner i j xs) = mset xs \<and> take i (Array_sort_inner i j xs) = take i xs \<and>
    (\<forall>k. i < k \<and> k < length xs \<longrightarrow> Array_sort_inner i j xs ! i \<le> Array_sort_inner i j xs ! k)"
  using assms
proof (induction i j xs rule: Array_sort_inner.induct)
  case (1 i j xs)
  show ?case
  proof (cases "j < length xs")
    case False
    then have "Array_sort_inner i j xs = xs" by (subst Array_sort_inner.simps) simp
    with "1.prems" False show ?thesis by auto
  next
    case True
    define ys where "ys = (if xs ! i > xs ! j then xs[i := xs ! j, j := xs ! i] else xs)"
    have step: "Array_sort_inner i j xs = Array_sort_inner i (Suc j) ys"
      using True by (subst Array_sort_inner.simps) (simp add: ys_def)
    have "\<forall>k. i < k \<and> k < Suc j \<and> k < length ys \<longrightarrow> ys ! i \<le> ys ! k"
      using "1.prems" True by (auto simp: ys_def nth_list_update less_Suc_eq not_less
          intro: order_trans [OF less_imp_le])
    moreover have "mset ys = mset xs" "length ys = length xs" "take i ys = take i xs"
      using "1.prems" True by (auto simp: ys_def mset_swap)
    ultimately show ?thesis
      using "1.IH" [OF True] "1.prems" by (simp add: step ys_def [symmetric])
  qed
qed

lemma Array_sort_outer_spec:
  assumes "\<forall>a b. a < i \<and> a < b \<and> b < length xs \<longrightarrow> xs ! a \<le> xs ! b"
  shows "mset (Array_sort_outer i xs) = mset xs \<and> sorted (Array_sort_outer i xs)"
  using assms
proof (induction i xs rule: Array_sort_outer.induct)
  case (1 i xs)
  show ?case
  proof (cases "i < length xs")
    case False
    then have "Array_sort_outer i xs = xs" by (subst Array_sort_outer.simps) simp
    with False "1.prems" show ?thesis
      by (auto simp: sorted_iff_nth_mono_less)
  next
    case True
    define ys where "ys = Array_sort_inner i (Suc i) xs"
    have spec: "mset ys = mset xs" "take i ys = take i xs" "length ys = length xs"
      "\<forall>k. i < k \<and> k < length xs \<longrightarrow> ys ! i \<le> ys ! k"
    proof -
      have "\<forall>k. i < k \<and> k < Suc i \<and> k < length xs \<longrightarrow> xs ! i \<le> xs ! k" by auto
      from Array_sort_inner_spec [OF lessI True this]
      show "mset ys = mset xs" "take i ys = take i xs" "length ys = length xs"
        "\<forall>k. i < k \<and> k < length xs \<longrightarrow> ys ! i \<le> ys ! k"
        by (simp_all add: ys_def)
    qed
    have low: "ys ! a = xs ! a" if "a < i" for a
      using spec(2) that by (metis nth_take)
    have "mset (drop i ys) = mset (drop i xs)"
      using spec(1,2) by (metis add_left_cancel append_take_drop_id mset_append)
    then have rest: "set (drop i ys) = set (drop i xs)"
      by (metis set_mset_mset)
    have "ys ! a \<le> ys ! b" if "a < Suc i" "a < b" "b < length ys" for a b
    proof (cases "a = i")
      case True
      with that spec show ?thesis by auto
    next
      case False
      with that have "a < i" by simp
      show ?thesis
      proof (cases "b < i")
        case True
        with \<open>a < i\<close> "1.prems" that spec(3) show ?thesis by (simp add: low)
      next
        case False
        with that have "ys ! b = drop i ys ! (b - i)" "b - i < length (drop i ys)"
          by simp_all
        then have "ys ! b \<in> set (drop i xs)"
          unfolding rest [symmetric] by (simp only: nth_mem)
        then obtain c where "i \<le> c" "c < length xs" "ys ! b = xs ! c"
          by (auto simp: in_set_conv_nth) (metis add.commute le_add2 less_diff_conv)
        with \<open>a < i\<close> "1.prems" show ?thesis by (simp add: low)
      qed
    qed
    then have "mset (Array_sort_outer (Suc i) ys) = mset ys \<and> sorted (Array_sort_outer (Suc i) ys)"
      using "1.IH" [OF True] by (simp add: ys_def)
    moreover have "Array_sort_outer i xs = Array_sort_outer (Suc i) ys"
      using True by (subst Array_sort_outer.simps) (simp add: ys_def)
    ultimately show ?thesis using spec by simp
  qed
qed

lemma mset_Array_sort [simp]: "mset (Array_sort xs) = mset xs"
  and sorted_Array_sort [simp]: "sorted (Array_sort xs)"
  using Array_sort_outer_spec [of 0 xs] by (simp_all add: Array_sort_def)

lemma Array_sort_eq_sort: "Array_sort xs = sort xs"
  by (rule properties_for_sort [symmetric]) simp_all

section \<open>Stack\<close>

text \<open>\<open>Stack<T>\<close> keeps its elements in an array; \<open>pop\<close> and \<open>top\<close> index cell \<open>count - 1\<close>.\<close>

definition Stack_push :: "'a memory \<Rightarrow> 'a \<Rightarrow> 'a list \<Rightarrow> 'a list option" where
  "Stack_push junk el st =
     (case Array_resize junk (of_nat (length st) + 1) st of None \<Rightarrow> None
      | Some ys \<Rightarrow> wr ys (unat (of_nat (length ys) - 1 :: unsigned)) el)"

definition Stack_pop :: "'a memory \<Rightarrow> 'a list \<Rightarrow> ('a \<times> 'a list) option" where
  "Stack_pop junk st =
     (case rd st (unat (of_nat (length st) - 1 :: unsigned)) of None \<Rightarrow> None
      | Some a \<Rightarrow> map_option (Pair a) (Array_resize junk (of_nat (length st) - 1) st))"

definition Stack_top :: "'a list \<Rightarrow> 'a option" where
  "Stack_top st = rd st (unat (of_nat (length st) - 1 :: unsigned))"

definition Stack_isempty :: "'a list \<Rightarrow> bool" where
  "Stack_isempty st = (length st = 0)"

lemma unat_count_pred:
  "0 < n \<Longrightarrow> n < 2 ^ 32 \<Longrightarrow> unat (of_nat n - 1 :: unsigned) = n - 1"
proof -
  assume n: "0 < n" "n < 2 ^ 32"
  then have "unat (of_nat n :: unsigned) = n" by (simp add: unat_of_nat)
  moreover from this n have "(1 :: unsigned) \<le> of_nat n"
    by (simp add: word_le_nat_alt)
  ultimately show ?thesis by (simp add: unat_sub_le)
qed

lemma Stack_push_eq:
  "length st + 1 < 2 ^ 32 \<Longrightarrow> Stack_push junk el st = Some (st @ [el])"
proof -
  assume len: "length st + 1 < 2 ^ 32"
  then have "unat (of_nat (length st) + 1 :: unsigned) = length st + 1"
    by (simp add: unat_word_ariths unat_of_nat)
  moreover have "unat (of_nat (length st + 1) - 1 :: unsigned) = length st"
    using len unat_count_pred [of "length st + 1"] by simp
  ultimately show ?thesis
    by (simp add: Stack_push_def wr_def)
qed

lemma Stack_pop_push:
  assumes "length st + 1 < 2 ^ 32"
  shows "Stack_pop junk (st @ [el]) = Some (el, st)"
  using assms unat_count_pred [of "length st + 1"]
  by (simp add: Stack_pop_def rd_def nth_append)

lemma Stack_pop_empty: "Stack_pop junk [] = None" "Stack_top [] = None"
  by (simp_all add: Stack_pop_def Stack_top_def rd_def)

section \<open>String\<close>

text \<open>
  A \<open>String\<close> is a heap copy of a C string with \<open>len\<close> counting the final NUL, or no buffer
  at all (\<open>data = 0\<close>, \<open>len = 0\<close>), which is \<open>None\<close>. The empty C string is \<open>Some []\<close>, with \<open>len = 1\<close>.
\<close>

type_synonym mystring = "string option"

definition String_len :: "mystring \<Rightarrow> nat" where
  "String_len a = (case a of None \<Rightarrow> 0 | Some s \<Rightarrow> length s + 1)"

definition String_from :: "string option \<Rightarrow> mystring" where
  "String_from msg = (case msg of None \<Rightarrow> None | Some s \<Rightarrow> Some (takeWhile (\<lambda>c. c \<noteq> CHR 0x00) s))"

definition String_plus :: "mystring \<Rightarrow> mystring \<Rightarrow> mystring" where
  "String_plus s a =
     (if String_len s = 0 then a
      else if String_len a = 0 then s
      else Some (the s @ the a))"

definition String_eq :: "mystring \<Rightarrow> mystring \<Rightarrow> bool" where
  "String_eq s a =
     (if String_len a = 0 \<and> String_len s = 0 then True
      else if String_len a \<noteq> String_len s then False
      else the s = the a)"

lemma String_eq_iff [simp]: "String_eq s a \<longleftrightarrow> s = a"
  by (auto simp: String_eq_def String_len_def split: option.splits)

lemma String_plus_simps [simp]:
  "String_plus None a = a" "String_plus s None = s"
  "String_plus (Some x) (Some y) = Some (x @ y)"
  by (auto simp: String_plus_def String_len_def split: option.splits)

lemma String_plus_assoc: "String_plus (String_plus a b) c = String_plus a (String_plus b c)"
  by (cases a; cases b; cases c) simp_all

end
