(* ===== verification/Queues.thy ===== *)
theory Queues
  imports Base
begin

text \<open>
  The FIFO template \<open>Queue<T>\<close> (\<open>eibd/libserver/queue.h\<close>), modelled on its heap: the nodes,
  the pointer \<open>akt\<close> to the first one and the pointer \<open>head\<close> to the cell where the next
  node's address is stored, which is \<open>akt\<close> itself or the \<open>Next\<close> field of the last node.
  A failed \<open>assert\<close> and an access to memory that is not a node are the result \<open>None\<close>.

  The locale \<open>fifo\<close> is the contract the layers above rely on when they treat a queue as the
  list of its elements; it is interpreted here on the heap model.
\<close>

section \<open>The queue on the heap\<close>

text \<open>Where \<open>head\<close> points: the member \<open>akt\<close> or the \<open>Next\<close> field of a node.\<close>

datatype slot = Akt_Slot | Next_Slot nat

text \<open>\<open>qnodes\<close> are the live \<open>Entry\<close> objects; \<open>new\<close> hands out the address \<open>qbrk\<close>.\<close>

record 'a queue =
  qnodes :: "nat \<rightharpoonup> 'a \<times> nat option"
  akt :: "nat option"
  qhead :: slot
  qbrk :: nat

definition Queue_new :: "'a queue" where
  "Queue_new = \<lparr>qnodes = Map.empty, akt = None, qhead = Akt_Slot, qbrk = 0\<rparr>"

definition Queue_put :: "'a \<Rightarrow> 'a queue \<Rightarrow> 'a queue option" where
  "Queue_put el q =
     (let elem = qbrk q; m = (qnodes q)(elem \<mapsto> (el, None)); q' = q\<lparr>qbrk := Suc elem\<rparr> in
      case qhead q of
        Akt_Slot \<Rightarrow> Some (q'\<lparr>qnodes := m, akt := Some elem, qhead := Next_Slot elem\<rparr>)
      | Next_Slot a \<Rightarrow>
          (case m a of None \<Rightarrow> None
           | Some (x, _) \<Rightarrow>
               Some (q'\<lparr>qnodes := m(a \<mapsto> (x, Some elem)), qhead := Next_Slot elem\<rparr>)))"

definition Queue_get :: "'a queue \<Rightarrow> ('a \<times> 'a queue) option" where
  "Queue_get q =
     (case akt q of None \<Rightarrow> None
      | Some e \<Rightarrow>
         (case qnodes q e of None \<Rightarrow> None
          | Some (a, nxt) \<Rightarrow>
              let q' = q\<lparr>akt := nxt, qnodes := (qnodes q)(e := None)\<rparr>
              in Some (a, if nxt = None then q'\<lparr>qhead := Akt_Slot\<rparr> else q')))"

definition Queue_top :: "'a queue \<Rightarrow> 'a option" where
  "Queue_top q = (case akt q of None \<Rightarrow> None | Some e \<Rightarrow> map_option fst (qnodes q e))"

definition Queue_isempty :: "'a queue \<Rightarrow> bool" where
  "Queue_isempty q = (akt q = None)"

text \<open>\<open>while (akt) get ();\<close> with fuel; the invariant below bounds the fuel that is needed.\<close>

fun Queue_clear :: "nat \<Rightarrow> 'a queue \<Rightarrow> 'a queue option" where
  "Queue_clear 0 q = None"
| "Queue_clear (Suc fuel) q =
     (if akt q = None then Some q
      else case Queue_get q of None \<Rightarrow> None | Some (_, q') \<Rightarrow> Queue_clear fuel q')"

text \<open>The walk of \<open>operator =\<close> over the nodes of its argument.\<close>

fun Queue_put_from :: "nat \<Rightarrow> (nat \<rightharpoonup> 'a \<times> nat option) \<Rightarrow> nat option \<Rightarrow> 'a queue \<Rightarrow> 'a queue option" where
  "Queue_put_from 0 m a q = None"
| "Queue_put_from (Suc fuel) m a q =
     (case a of None \<Rightarrow> Some q
      | Some p \<Rightarrow>
         (case m p of None \<Rightarrow> None
          | Some (x, nxt) \<Rightarrow>
              (case Queue_put x q of None \<Rightarrow> None
               | Some q' \<Rightarrow> Queue_put_from fuel m nxt q')))"

definition Queue_assign :: "'a queue \<Rightarrow> 'a queue \<Rightarrow> 'a queue option" where
  "Queue_assign q c =
     (case Queue_clear (Suc (qbrk q)) q of None \<Rightarrow> None
      | Some q' \<Rightarrow> Queue_put_from (Suc (qbrk c)) (qnodes c) (akt c) q')"

section \<open>Abstraction: the list of elements\<close>

fun chain :: "(nat \<rightharpoonup> 'a \<times> nat option) \<Rightarrow> nat option \<Rightarrow> (nat \<times> 'a) list \<Rightarrow> bool" where
  "chain m p [] = (p = None)"
| "chain m p ((a, x) # ns) = (p = Some a \<and> (\<exists>n. m a = Some (x, n) \<and> chain m n ns))"

fun follow :: "nat \<Rightarrow> (nat \<rightharpoonup> 'a \<times> nat option) \<Rightarrow> nat option \<Rightarrow> 'a list" where
  "follow 0 m p = []"
| "follow (Suc k) m p =
     (case p of None \<Rightarrow> [] | Some a \<Rightarrow> (case m a of None \<Rightarrow> [] | Some (x, n) \<Rightarrow> x # follow k m n))"

definition queue_list :: "'a queue \<Rightarrow> 'a list" where
  "queue_list q = follow (Suc (qbrk q)) (qnodes q) (akt q)"

text \<open>The nodes form one chain from \<open>akt\<close>, no node is leaked, \<open>head\<close> points behind the last one.\<close>

definition queue_shape :: "'a queue \<Rightarrow> (nat \<times> 'a) list \<Rightarrow> bool" where
  "queue_shape q ns \<longleftrightarrow>
     chain (qnodes q) (akt q) ns \<and> distinct (map fst ns) \<and> dom (qnodes q) = set (map fst ns) \<and>
     (\<forall>a \<in> set (map fst ns). a < qbrk q) \<and>
     qhead q = (if ns = [] then Akt_Slot else Next_Slot (fst (last ns)))"

definition queue_inv :: "'a queue \<Rightarrow> bool" where
  "queue_inv q \<longleftrightarrow> (\<exists>ns. queue_shape q ns)"

lemma chain_cong: "\<forall>a \<in> set (map fst ns). m a = m' a \<Longrightarrow> chain m p ns = chain m' p ns"
  by (induction m p ns rule: chain.induct) auto

lemma chain_snoc:
  "chain m p (ns @ [(a, x)]) \<Longrightarrow> distinct (map fst (ns @ [(a, x)])) \<Longrightarrow> b \<notin> set (map fst (ns @ [(a, x)])) \<Longrightarrow>
   chain (m(b \<mapsto> (y, None), a \<mapsto> (x, Some b))) p (ns @ [(a, x), (b, y)])"
proof (induction m p ns rule: chain.induct)
  case (1 m p)
  then show ?case by auto
next
  case (2 m p c z ns)
  then show ?case by auto
qed

lemma chain_last: "chain m p (ns @ [(a, x)]) \<Longrightarrow> m a = Some (x, None)"
  by (induction m p ns rule: chain.induct) auto

lemma follow_chain: "chain m p ns \<Longrightarrow> length ns \<le> k \<Longrightarrow> follow (Suc k) m p = map snd ns"
proof (induction ns arbitrary: p k)
  case Nil
  then show ?case by simp
next
  case (Cons n ns)
  obtain a x where n: "n = (a, x)" by (cases n)
  with Cons.prems obtain nxt k' where "p = Some a" "m a = Some (x, nxt)" "chain m nxt ns" "k = Suc k'"
    by (cases k) auto
  with Cons show ?case by (simp add: n)
qed

lemma queue_shape_length: "queue_shape q ns \<Longrightarrow> length ns \<le> qbrk q"
proof -
  assume shape: "queue_shape q ns"
  then have "set (map fst ns) \<subseteq> {..<qbrk q}" and d: "distinct (map fst ns)"
    unfolding queue_shape_def by auto
  then have "card (set (map fst ns)) \<le> qbrk q"
    using card_mono [of "{..<qbrk q}" "set (map fst ns)"] by simp
  with d show ?thesis by (metis distinct_card length_map)
qed

lemma queue_list_shape: "queue_shape q ns \<Longrightarrow> queue_list q = map snd ns"
  unfolding queue_list_def
  by (rule follow_chain) (auto simp: queue_shape_def dest: queue_shape_length intro: queue_shape_length)

section \<open>The operations on the abstraction\<close>

lemma queue_shape_new: "queue_shape Queue_new []"
  by (simp add: queue_shape_def Queue_new_def)

lemma Queue_put_shape:
  assumes "queue_shape q ns"
  shows "\<exists>q'. Queue_put x q = Some q' \<and> queue_shape q' (ns @ [(qbrk q, x)])"
proof (cases ns rule: rev_cases)
  case Nil
  with assms show ?thesis
    by (auto simp: queue_shape_def Queue_put_def Let_def)
next
  case (snoc ms n)
  obtain a y where n: "n = (a, y)" by (cases n)
  let ?e = "qbrk q" and ?m = "qnodes q"
  have ch: "chain ?m (akt q) (ms @ [(a, y)])" and d: "distinct (map fst (ms @ [(a, y)]))"
    and dm: "dom ?m = set (map fst (ms @ [(a, y)]))" and lt: "\<forall>b \<in> set (map fst (ms @ [(a, y)])). b < ?e"
    and hd: "qhead q = Next_Slot a"
    using assms snoc n by (auto simp: queue_shape_def)
  have fresh: "?e \<notin> set (map fst (ms @ [(a, y)]))" and "a \<noteq> ?e"
    using lt by auto
  have ma: "?m a = Some (y, None)" using ch by (rule chain_last)
  let ?q' = "q\<lparr>qbrk := Suc ?e, qnodes := ?m(?e \<mapsto> (x, None), a \<mapsto> (y, Some ?e)), qhead := Next_Slot ?e\<rparr>"
  have "Queue_put x q = Some ?q'"
    using \<open>a \<noteq> ?e\<close> by (simp add: Queue_put_def Let_def hd ma)
  moreover have "queue_shape ?q' ((ms @ [(a, y)]) @ [(?e, x)])"
    using chain_snoc [OF ch d fresh, of x] d dm lt fresh by (auto simp: queue_shape_def)
  ultimately show ?thesis
    using snoc n by auto
qed

lemma Queue_get_shape:
  assumes "queue_shape q ((a, x) # ns)"
  shows "\<exists>q'. Queue_get q = Some (x, q') \<and> queue_shape q' ns"
proof -
  obtain nxt where nxt: "akt q = Some a" "qnodes q a = Some (x, nxt)" "chain (qnodes q) nxt ns"
    and a: "a \<notin> set (map fst ns)" and d: "distinct (map fst ns)"
    using assms by (auto simp: queue_shape_def)
  have "chain ((qnodes q)(a := None)) nxt ns"
    using nxt(3) a by (subst chain_cong [of ns _ "qnodes q"]) auto
  moreover have "nxt = None \<longleftrightarrow> ns = []"
    using nxt(3) by (cases ns) auto
  ultimately show ?thesis
    using assms nxt a d by (auto simp: Queue_get_def Let_def queue_shape_def)
qed

lemma Queue_get_empty: "queue_shape q [] \<Longrightarrow> Queue_get q = None"
  by (simp add: Queue_get_def queue_shape_def)

lemma Queue_isempty_shape: "queue_shape q ns \<Longrightarrow> Queue_isempty q \<longleftrightarrow> ns = []"
  by (cases ns) (auto simp: queue_shape_def Queue_isempty_def)

lemma Queue_top_shape: "queue_shape q ((a, x) # ns) \<Longrightarrow> Queue_top q = Some x"
  by (auto simp: queue_shape_def Queue_top_def)

lemma Queue_clear_shape:
  "queue_shape q ns \<Longrightarrow> length ns < fuel \<Longrightarrow> \<exists>q'. Queue_clear fuel q = Some q' \<and> queue_shape q' []"
proof (induction ns arbitrary: q fuel)
  case Nil
  then obtain f where "fuel = Suc f" by (cases fuel) auto
  with Nil show ?case by (auto simp: queue_shape_def)
next
  case (Cons n ns)
  obtain a x where n: "n = (a, x)" by (cases n)
  obtain f where f: "fuel = Suc f" "length ns < f" using Cons.prems by (cases fuel) auto
  obtain q' where q': "Queue_get q = Some (x, q')" "queue_shape q' ns"
    using Queue_get_shape [of q a x ns] Cons.prems(1) n by auto
  moreover have "akt q \<noteq> None"
    using Cons.prems(1) n by (auto simp: queue_shape_def)
  ultimately show ?case
    using Cons.IH [OF q'(2) f(2)] f by auto
qed

lemma Queue_put_from_shape:
  "chain m p ns \<Longrightarrow> length ns < fuel \<Longrightarrow> queue_shape q ms \<Longrightarrow>
   \<exists>q' ks. Queue_put_from fuel m p q = Some q' \<and> queue_shape q' ks \<and> map snd ks = map snd ms @ map snd ns"
proof (induction ns arbitrary: p q ms fuel)
  case Nil
  then obtain f where "fuel = Suc f" by (cases fuel) auto
  with Nil show ?case by auto
next
  case (Cons n ns)
  obtain a x nxt f where n: "n = (a, x)" "p = Some a" "m a = Some (x, nxt)" "chain m nxt ns"
    and f: "fuel = Suc f" "length ns < f"
    using Cons.prems by (cases n; cases fuel) auto
  obtain q' where q': "Queue_put x q = Some q'" "queue_shape q' (ms @ [(qbrk q, x)])"
    using Queue_put_shape [OF Cons.prems(3), of x] by auto
  from Cons.IH [OF n(4) f(2) q'(2)] obtain r ks where
    "Queue_put_from f m nxt q' = Some r" "queue_shape r ks"
    "map snd ks = (map snd ms @ [x]) @ map snd ns"
    by auto
  then show ?case
    using n f q' by simp blast
qed

text \<open>Assignment leaves a queue with the elements of its argument, and none of the old nodes.\<close>

lemma Queue_assign_list:
  assumes "queue_inv q" and "queue_inv c"
  shows "\<exists>q'. Queue_assign q c = Some q' \<and> queue_inv q' \<and> queue_list q' = queue_list c"
proof -
  obtain ns ms where ns: "queue_shape q ns" and ms: "queue_shape c ms"
    using assms by (auto simp: queue_inv_def)
  obtain q1 where q1: "Queue_clear (Suc (qbrk q)) q = Some q1" "queue_shape q1 []"
    using Queue_clear_shape [OF ns] queue_shape_length [OF ns] le_imp_less_Suc by blast
  have "chain (qnodes c) (akt c) ms" "length ms < Suc (qbrk c)"
    using ms queue_shape_length [OF ms] by (simp_all add: queue_shape_def)
  from Queue_put_from_shape [OF this q1(2)] obtain q2 ks where
    "Queue_put_from (Suc (qbrk c)) (qnodes c) (akt c) q1 = Some q2" "queue_shape q2 ks"
    "map snd ks = map snd ms"
    by auto
  then show ?thesis
    using q1 ms queue_list_shape unfolding Queue_assign_def queue_inv_def
    by (metis option.simps(5))
qed

section \<open>The contract of a queue\<close>

text \<open>A client's use of a queue: elements put, elements taken.\<close>

datatype 'a queue_op = Put 'a | Get

text \<open>A run over a queue: what \<open>get\<close> returned, in order; \<open>None\<close> when an operation fails.\<close>

fun queue_run ::
    "('a \<Rightarrow> 'q \<Rightarrow> 'q option) \<Rightarrow> ('q \<Rightarrow> ('a \<times> 'q) option) \<Rightarrow> 'a queue_op list \<Rightarrow> 'q \<Rightarrow> ('a list \<times> 'q) option" where
  "queue_run put get [] q = Some ([], q)"
| "queue_run put get (Put x # ops) q =
     (case put x q of None \<Rightarrow> None | Some q' \<Rightarrow> queue_run put get ops q')"
| "queue_run put get (Get # ops) q =
     (case get q of None \<Rightarrow> None
      | Some (x, q') \<Rightarrow> map_option (\<lambda>(xs, q''). (x # xs, q'')) (queue_run put get ops q'))"

text \<open>The queue as a list: \<open>put\<close> appends, \<open>get\<close> takes the head.\<close>

definition list_put :: "'a \<Rightarrow> 'a list \<Rightarrow> 'a list option" where
  "list_put = (\<lambda>x xs. Some (xs @ [x]))"

definition list_get :: "'a list \<Rightarrow> ('a \<times> 'a list) option" where
  "list_get = (\<lambda>xs. case xs of [] \<Rightarrow> None | x # ys \<Rightarrow> Some (x, ys))"

fun puts :: "'a queue_op list \<Rightarrow> 'a list" where
  "puts [] = []"
| "puts (Put x # ops) = x # puts ops"
| "puts (Get # ops) = puts ops"

locale fifo =
  fixes put :: "'a \<Rightarrow> 'q \<Rightarrow> 'q option"
    and get :: "'q \<Rightarrow> ('a \<times> 'q) option"
    and contents :: "'q \<Rightarrow> 'a list"
    and inv :: "'q \<Rightarrow> bool"
  assumes put_contents: "inv q \<Longrightarrow> \<exists>q'. put x q = Some q' \<and> inv q' \<and> contents q' = contents q @ [x]"
    and get_contents: "inv q \<Longrightarrow> contents q = x # xs \<Longrightarrow>
          \<exists>q'. get q = Some (x, q') \<and> inv q' \<and> contents q' = xs"
    and get_empty: "inv q \<Longrightarrow> contents q = [] \<Longrightarrow> get q = None"
begin

lemma run_refines:
  "inv q \<Longrightarrow>
   map_option (map_prod id contents) (queue_run put get ops q) = queue_run list_put list_get ops (contents q)"
proof (induction ops arbitrary: q)
  case Nil
  then show ?case by simp
next
  case (Cons op ops)
  show ?case
  proof (cases op)
    case (Put x)
    with Cons put_contents [OF Cons.prems, of x] show ?thesis
      by (auto simp: list_put_def)
  next
    case Get
    show ?thesis
    proof (cases "contents q")
      case Nil
      with Get Cons.prems show ?thesis by (simp add: get_empty list_get_def)
    next
      case (Cons x xs)
      from get_contents [OF Cons.prems this] obtain q' where
        q': "get q = Some (x, q')" "inv q'" "contents q' = xs" by blast
      have "queue_run list_put list_get ops xs =
          map_option (map_prod id contents) (queue_run put get ops q')"
        using Cons.IH [OF q'(2)] unfolding q'(3) by (rule sym)
      then show ?thesis
        using q' Cons Get
        by (simp add: list_get_def option.map_comp comp_def split_beta map_prod_def)
    qed
  qed
qed

end

lemma list_run_order: "queue_run list_put list_get ops xs = Some (out, ys) \<Longrightarrow> out @ ys = xs @ puts ops"
proof (induction ops arbitrary: xs out)
  case Nil
  then show ?case by simp
next
  case (Cons op ops)
  show ?case
  proof (cases op)
    case (Put x)
    with Cons.prems have "queue_run list_put list_get ops (xs @ [x]) = Some (out, ys)"
      by (simp add: list_put_def)
    from Cons.IH [OF this] Put show ?thesis by simp
  next
    case Get
    with Cons.prems obtain x zs out' where "xs = x # zs" "out = x # out'"
      and "queue_run list_put list_get ops zs = Some (out', ys)"
      by (cases xs) (auto simp: list_get_def)
    with Cons.IH [of zs out'] Get show ?thesis by simp
  qed
qed

interpretation heap_queue: fifo Queue_put Queue_get queue_list queue_inv
proof
  fix q :: "'a queue" and x
  assume "queue_inv q"
  then obtain ns where ns: "queue_shape q ns" by (auto simp: queue_inv_def)
  from Queue_put_shape [OF this, of x] ns
  show "\<exists>q'. Queue_put x q = Some q' \<and> queue_inv q' \<and> queue_list q' = queue_list q @ [x]"
    unfolding queue_inv_def by (auto simp: queue_list_shape)
next
  fix q :: "'a queue" and x xs
  assume "queue_inv q" and "queue_list q = x # xs"
  then obtain a ns where "queue_shape q ((a, x) # ns)" "map snd ns = xs"
    unfolding queue_inv_def by (auto simp: queue_list_shape)
  then show "\<exists>q'. Queue_get q = Some (x, q') \<and> queue_inv q' \<and> queue_list q' = xs"
    using Queue_get_shape unfolding queue_inv_def by (metis queue_list_shape)
next
  fix q :: "'a queue"
  assume "queue_inv q" and "queue_list q = []"
  then show "Queue_get q = None"
    unfolding queue_inv_def by (auto simp: queue_list_shape intro: Queue_get_empty)
qed

lemma queue_new_inv [simp]: "queue_inv Queue_new" "queue_list Queue_new = []"
  using queue_shape_new queue_list_shape [OF queue_shape_new] by (auto simp: queue_inv_def)

end
