(* ===== verification/ContainerProps.thy ===== *)
theory ContainerProps
  imports Arrays Queues
begin

text \<open>
  The properties of the container templates of \<open>common/\<close> and of \<open>queue.h\<close>: what each does to
  the list of its elements, with a machine word for every index and count.
\<close>

text \<open>\<open>Array::insert\<close> at a position inside the array stores the new element in the old
  buffer before it copies that buffer: the element that was at the position is lost, the new
  one lands one place further on and the cell at the position keeps what the fresh memory held.\<close>

theorem Array_insert_loses_element:
  assumes "length xs < 2 ^ 32" and "unat pos < length xs"
  shows "Array_insert junk pos e xs =
    Some (take (unat pos) xs @ [junk (unat pos), e] @ drop (unat pos + 1) xs)"
  using assms by (rule Array_insert_inside)

lemma Array_insert_loses_element_witness:
  "Array_insert (\<lambda>_. 77) 1 9 [1, 2, 3 :: int] = Some [1, 77, 9, 3]"
  using Array_insert_loses_element [of "[1, 2, 3 :: int]" 1 "\<lambda>_. 77" 9] by simp

text \<open>\<open>Array::sort\<close> is a sorting function: it returns the elements of the array in
  ascending order, as the library's stable sort does.\<close>

theorem Array_sort_is_sort: "Array_sort xs = sort xs"
  by (rule Array_sort_eq_sort)

text \<open>\<open>Array::deletepart\<close> removes exactly the elements from \<open>start\<close> on, at most \<open>cnt\<close> of them,
  also when the part reaches beyond the end, as long as \<open>start + cnt\<close> does not wrap around.\<close>

theorem Array_deletepart_removes:
  assumes "unat start + unat cnt < 2 ^ 32" and "length xs < 2 ^ 32"
  shows "Array_deletepart junk start cnt xs = Some (take (unat start) xs @ drop (unat start + unat cnt) xs)"
  using assms by (rule Array_deletepart_eq)

lemma Array_deletepart_removes_witness:
  "Array_deletepart (\<lambda>_. 0) 1 7 [1, 2, 3 :: int] = Some [1] \<and> Array_deletepart (\<lambda>_. 0) 1 1 [1, 2, 3 :: int] = Some [1, 3]"
  using Array_deletepart_removes [of 1 7 "[1, 2, 3 :: int]" "\<lambda>_. 0"] Array_deletepart_removes [of 1 1 "[1, 2, 3 :: int]" "\<lambda>_. 0"]
  by simp

text \<open>the linked list of \<open>Queue\<close> refines a list: for every sequence of \<open>put\<close> and \<open>get\<close> calls on
  a new queue the calls return what they return on a list, the queue then holds the same
  elements, and a call fails exactly when it takes from an empty list.\<close>

theorem Queue_refines_list:
  "map_option (map_prod id queue_list) (queue_run Queue_put Queue_get ops Queue_new) = queue_run list_put list_get ops []"
  using heap_queue.run_refines [of Queue_new ops] by simp

text \<open>a queue is first in, first out: what was taken, followed by what is left, is what was
  put, in order.\<close>

theorem Queue_first_in_first_out:
  assumes "queue_run Queue_put Queue_get ops Queue_new = Some (out, q)"
  shows "out @ queue_list q = puts ops"
proof -
  have "queue_run list_put list_get ops [] = Some (out, queue_list q)"
    using heap_queue.run_refines [of Queue_new ops] assms by simp
  from list_run_order [OF this] show ?thesis by simp
qed

lemma Queue_first_in_first_out_witness:
  "\<exists>q. queue_run Queue_put Queue_get [Put 1, Put (2 :: int), Get] Queue_new = Some ([1], q) \<and> [1] @ queue_list q = [1, 2]"
proof -
  obtain q where q: "queue_run Queue_put Queue_get [Put 1, Put (2 :: int), Get] Queue_new = Some ([1], q)"
    by (simp add: Queue_put_def Queue_get_def Queue_new_def)
  from Queue_first_in_first_out [OF this] q show ?thesis by auto
qed

end
