(* ===== verification/Formats.thy ===== *)
theory Formats
  imports Base
begin

text \<open>
  The text formatting helpers of \<open>eibd/libserver/common.cpp\<close>. The conversions of \<open>sprintf\<close>
  that the sources use are written out: \<open>%d\<close> of a value that is never negative, and \<open>%0nX\<close>.
  Strings are the characters before the final NUL.
\<close>

section \<open>sprintf conversions\<close>

definition hex_digit :: "nat \<Rightarrow> char" where
  "hex_digit n = (if n < 10 then char_of (48 + n) else char_of (55 + n))"

text \<open>\<open>%0nX\<close> of a value below \<open>16 ^ n\<close>.\<close>

fun hex_fixed :: "nat \<Rightarrow> nat \<Rightarrow> string" where
  "hex_fixed 0 v = []"
| "hex_fixed (Suc n) v = hex_fixed n (v div 16) @ [hex_digit (v mod 16)]"

text \<open>\<open>%d\<close> of a natural number.\<close>

fun dec_str :: "nat \<Rightarrow> string" where
  "dec_str n = (if n < 10 then [char_of (48 + n)] else dec_str (n div 10) @ [char_of (48 + n mod 10)])"

declare dec_str.simps [simp del]

section \<open>common.cpp\<close>

definition hex2 :: "uchar \<Rightarrow> string" where
  "hex2 c = hex_fixed 2 (unat c) @ '' ''"

definition hex4 :: "16 word \<Rightarrow> string" where
  "hex4 c = hex_fixed 4 (unat c) @ '' ''"

definition addHex :: "string \<Rightarrow> uchar \<Rightarrow> string" where
  "addHex s c = s @ hex2 c"

definition add16Hex :: "string \<Rightarrow> 16 word \<Rightarrow> string" where
  "add16Hex s c = s @ hex4 c"

text \<open>\<open>for (i = 0; i < data (); i++) addHex (s, data[i]);\<close>\<close>

definition hex_from :: "string \<Rightarrow> CArray \<Rightarrow> string" where
  "hex_from s cs = foldl addHex s cs"

definition FormatEIBAddr :: "eibaddr_t \<Rightarrow> string" where
  "FormatEIBAddr addr =
     dec_str (unat (drop_bit 12 addr AND 0xF)) @ ''.'' @
     dec_str (unat (drop_bit 8 addr AND 0xF)) @ ''.'' @
     dec_str (unat (addr AND 0xFF))"

definition FormatGroupAddr :: "eibaddr_t \<Rightarrow> string" where
  "FormatGroupAddr addr =
     dec_str (unat (drop_bit 11 addr AND 0x1F)) @ ''/'' @
     dec_str (unat (drop_bit 8 addr AND 0x7)) @ ''/'' @
     dec_str (unat (addr AND 0xFF))"

definition FormatDomainAddr :: "domainaddr_t \<Rightarrow> string" where
  "FormatDomainAddr addr = hex_fixed 4 (unat addr)"

definition FormatEIBKey :: "eibkey_type \<Rightarrow> string" where
  "FormatEIBKey key = hex_fixed 8 (unat key)"

section \<open>Facts about the conversions\<close>

lemma length_hex_fixed [simp]: "length (hex_fixed n v) = n"
  by (induction n arbitrary: v) auto

lemma hex_from_concat: "hex_from s cs = s @ concat (map hex2 cs)"
  unfolding hex_from_def by (induction cs arbitrary: s) (auto simp: addHex_def)

lemma dec_str_nonempty [simp]: "dec_str n \<noteq> []"
  by (subst dec_str.simps) simp

lemma dec_str_digits: "\<forall>c \<in> set (dec_str n). 48 \<le> (of_char c :: nat) \<and> (of_char c :: nat) < 58"
proof (induction n rule: dec_str.induct)
  case (1 n)
  show ?case
  proof (cases "n < 10")
    case True
    then show ?thesis by (subst dec_str.simps) (simp add: of_char_of take_bit_eq_mod)
  next
    case False
    then show ?thesis
      using 1 by (subst dec_str.simps) (auto simp: of_char_of take_bit_eq_mod)
  qed
qed

text \<open>Reading a decimal number back, digit by digit.\<close>

definition dec_value :: "string \<Rightarrow> nat" where
  "dec_value s = foldl (\<lambda>v c. 10 * v + (of_char c - 48)) 0 s"

lemma dec_value_dec_str [simp]: "dec_value (dec_str n) = n"
proof (induction n rule: dec_str.induct)
  case (1 n)
  show ?case
  proof (cases "n < 10")
    case True
    then show ?thesis
      by (subst dec_str.simps) (simp add: dec_value_def of_char_of take_bit_eq_mod)
  next
    case False
    then have "dec_value (dec_str n) = 10 * dec_value (dec_str (n div 10)) + n mod 10"
      by (subst dec_str.simps) (simp add: dec_value_def of_char_of take_bit_eq_mod)
    with 1 False show ?thesis by simp
  qed
qed

end
