(* ===== verification/Apdu.thy ===== *)
theory Apdu
  imports Base Formats Arrays
begin

text \<open>
  Application layer PDUs, \<open>eibd/libserver/apdu.cpp\<close> and \<open>apdu.h\<close>. The class hierarchy below
  \<open>APDU\<close> is the datatype \<open>apdu\<close>: one constructor per class, with the members of the class in
  their order (\<open>serialnumber_t\<close> members are lists of six bytes). For a class \<open>X_PDU\<close>:
  \<^item> \<open>X_init\<close> is the default constructor followed by \<open>init\<close>: \<open>None\<close> when \<open>init\<close> returns false;
  \<^item> \<open>X_ToPacket\<close> and \<open>X_Decode\<close> are the methods on the members; \<open>None\<close> when an
    \<open>assert\<close> fails. Every \<open>ToPacket\<close> but one allocates its array at the final size and sets all
    of its cells, so the packet is written as the list of these cells; the exception,
    \<open>A_DomainAddressSelective_Read\<close>, leaves cells unset and keeps the assignments;
  \<^item> \<open>X_isResponse\<close> is the method where it is not constantly false.
  \<open>APDU_ToPacket\<close>, \<open>APDU_Decode\<close>, \<open>APDU_getType\<close> and \<open>APDU_isResponse\<close> are the virtual
  dispatch and \<open>APDU_fromPacket\<close> the parser.
\<close>

section \<open>Types\<close>

datatype APDU_type =
    A_Unknown
  | A_GroupValue_Read
  | A_GroupValue_Response
  | A_GroupValue_Write
  | A_IndividualAddress_Read
  | A_IndividualAddress_Response
  | A_IndividualAddress_Write
  | A_IndividualAddressSerialNumber_Read
  | A_IndividualAddressSerialNumber_Response
  | A_IndividualAddressSerialNumber_Write
  | A_ServiceInformation_Indication_Write
  | A_DomainAddress_Write
  | A_DomainAddress_Read
  | A_DomainAddress_Response
  | A_DomainAddressSelective_Read
  | A_PropertyValue_Read
  | A_PropertyValue_Response
  | A_PropertyValue_Write
  | A_PropertyDescription_Read
  | A_PropertyDescription_Response
  | A_DeviceDescriptor_Read
  | A_DeviceDescriptor_Response
  | A_ADC_Read
  | A_ADC_Response
  | A_Memory_Read
  | A_Memory_Response
  | A_Memory_Write
  | A_MemoryBit_Write
  | A_UserMemory_Read
  | A_UserMemory_Response
  | A_UserMemory_Write
  | A_UserMemoryBit_Write
  | A_UserManufacturerInfo_Read
  | A_UserManufacturerInfo_Response
  | A_Restart
  | A_Authorize_Request
  | A_Authorize_Response
  | A_Key_Write
  | A_Key_Response

datatype apdu =
    A_Unknown_PDU CArray
  | A_GroupValue_Read_PDU
  | A_GroupValue_Response_PDU bool CArray
  | A_GroupValue_Write_PDU bool CArray
  | A_IndividualAddress_Write_PDU eibaddr_t
  | A_IndividualAddress_Read_PDU
  | A_IndividualAddress_Response_PDU
  | A_IndividualAddressSerialNumber_Read_PDU CArray
  | A_IndividualAddressSerialNumber_Response_PDU CArray domainaddr_t
  | A_IndividualAddressSerialNumber_Write_PDU CArray eibaddr_t
  | A_ServiceInformation_Indication_Write_PDU bool bool bool
  | A_DomainAddress_Write_PDU domainaddr_t
  | A_DomainAddress_Read_PDU
  | A_DomainAddress_Response_PDU domainaddr_t
  | A_DomainAddressSelective_Read_PDU domainaddr_t eibaddr_t uchar
  | A_PropertyValue_Read_PDU objectno_t propertyid_t uchar "16 word"
  | A_PropertyValue_Response_PDU objectno_t propertyid_t uchar "16 word" CArray
  | A_PropertyValue_Write_PDU objectno_t propertyid_t uchar "16 word" CArray
  | A_PropertyDescription_Read_PDU objectno_t propertyid_t uchar
  | A_PropertyDescription_Response_PDU objectno_t propertyid_t uchar uchar "16 word" uchar
  | A_DeviceDescriptor_Read_PDU uchar
  | A_DeviceDescriptor_Response_PDU uchar "16 word"
  | A_ADC_Read_PDU uchar uchar
  | A_ADC_Response_PDU uchar uchar "16 word"
  | A_Memory_Read_PDU uchar memaddr_t
  | A_Memory_Response_PDU uchar memaddr_t CArray
  | A_Memory_Write_PDU uchar memaddr_t CArray
  | A_MemoryBit_Write_PDU uchar memaddr_t CArray CArray
  | A_UserMemory_Read_PDU uchar uchar memaddr_t
  | A_UserMemory_Response_PDU uchar uchar memaddr_t CArray
  | A_UserMemory_Write_PDU uchar uchar memaddr_t CArray
  | A_UserMemoryBit_Write_PDU uchar uchar memaddr_t CArray CArray
  | A_UserManufacturerInfo_Read_PDU
  | A_UserManufacturerInfo_Response_PDU uchar "16 word"
  | A_Restart_PDU
  | A_Authorize_Request_PDU eibkey_type
  | A_Authorize_Response_PDU uchar
  | A_Key_Write_PDU uchar eibkey_type
  | A_Key_Response_PDU uchar

text \<open>\<open>getType\<close> as the classes override it; the description response answers as the read does.\<close>

primrec APDU_getType :: "apdu \<Rightarrow> APDU_type" where
  "APDU_getType (A_Unknown_PDU x0) = A_Unknown"
| "APDU_getType A_GroupValue_Read_PDU = A_GroupValue_Read"
| "APDU_getType (A_GroupValue_Response_PDU x0 x1) = A_GroupValue_Response"
| "APDU_getType (A_GroupValue_Write_PDU x0 x1) = A_GroupValue_Write"
| "APDU_getType (A_IndividualAddress_Write_PDU x0) = A_IndividualAddress_Write"
| "APDU_getType A_IndividualAddress_Read_PDU = A_IndividualAddress_Read"
| "APDU_getType A_IndividualAddress_Response_PDU = A_IndividualAddress_Response"
| "APDU_getType (A_IndividualAddressSerialNumber_Read_PDU x0) = A_IndividualAddressSerialNumber_Read"
| "APDU_getType (A_IndividualAddressSerialNumber_Response_PDU x0 x1) = A_IndividualAddressSerialNumber_Response"
| "APDU_getType (A_IndividualAddressSerialNumber_Write_PDU x0 x1) = A_IndividualAddressSerialNumber_Write"
| "APDU_getType (A_ServiceInformation_Indication_Write_PDU x0 x1 x2) = A_ServiceInformation_Indication_Write"
| "APDU_getType (A_DomainAddress_Write_PDU x0) = A_DomainAddress_Write"
| "APDU_getType A_DomainAddress_Read_PDU = A_DomainAddress_Read"
| "APDU_getType (A_DomainAddress_Response_PDU x0) = A_DomainAddress_Response"
| "APDU_getType (A_DomainAddressSelective_Read_PDU x0 x1 x2) = A_DomainAddressSelective_Read"
| "APDU_getType (A_PropertyValue_Read_PDU x0 x1 x2 x3) = A_PropertyValue_Read"
| "APDU_getType (A_PropertyValue_Response_PDU x0 x1 x2 x3 x4) = A_PropertyValue_Response"
| "APDU_getType (A_PropertyValue_Write_PDU x0 x1 x2 x3 x4) = A_PropertyValue_Write"
| "APDU_getType (A_PropertyDescription_Read_PDU x0 x1 x2) = A_PropertyDescription_Read"
| "APDU_getType (A_PropertyDescription_Response_PDU x0 x1 x2 x3 x4 x5) = A_PropertyDescription_Read"
| "APDU_getType (A_DeviceDescriptor_Read_PDU x0) = A_DeviceDescriptor_Read"
| "APDU_getType (A_DeviceDescriptor_Response_PDU x0 x1) = A_DeviceDescriptor_Response"
| "APDU_getType (A_ADC_Read_PDU x0 x1) = A_ADC_Read"
| "APDU_getType (A_ADC_Response_PDU x0 x1 x2) = A_ADC_Response"
| "APDU_getType (A_Memory_Read_PDU x0 x1) = A_Memory_Read"
| "APDU_getType (A_Memory_Response_PDU x0 x1 x2) = A_Memory_Response"
| "APDU_getType (A_Memory_Write_PDU x0 x1 x2) = A_Memory_Write"
| "APDU_getType (A_MemoryBit_Write_PDU x0 x1 x2 x3) = A_MemoryBit_Write"
| "APDU_getType (A_UserMemory_Read_PDU x0 x1 x2) = A_UserMemory_Read"
| "APDU_getType (A_UserMemory_Response_PDU x0 x1 x2 x3) = A_UserMemory_Response"
| "APDU_getType (A_UserMemory_Write_PDU x0 x1 x2 x3) = A_UserMemory_Write"
| "APDU_getType (A_UserMemoryBit_Write_PDU x0 x1 x2 x3 x4) = A_UserMemoryBit_Write"
| "APDU_getType A_UserManufacturerInfo_Read_PDU = A_UserManufacturerInfo_Read"
| "APDU_getType (A_UserManufacturerInfo_Response_PDU x0 x1) = A_UserManufacturerInfo_Response"
| "APDU_getType A_Restart_PDU = A_Restart"
| "APDU_getType (A_Authorize_Request_PDU x0) = A_Authorize_Request"
| "APDU_getType (A_Authorize_Response_PDU x0) = A_Authorize_Response"
| "APDU_getType (A_Key_Write_PDU x0 x1) = A_Key_Write"
| "APDU_getType (A_Key_Response_PDU x0) = A_Key_Response"

section \<open>The classes\<close>

subsection \<open>\<open>A_Unknown\<close>\<close>

definition A_Unknown_init :: "CArray \<Rightarrow> apdu option" where
  "A_Unknown_init c =
     Some (A_Unknown_PDU c)"

definition A_Unknown_ToPacket :: "CArray \<Rightarrow> CArray option" where
  "A_Unknown_ToPacket pdu =
     Some pdu"

definition A_Unknown_Decode :: "CArray \<Rightarrow> string option" where
  "A_Unknown_Decode pdu =
     Some (if length pdu = 0 then ''empty APDU''
      else hex_from (''Unknown APDU: '' @ hex2 (pdu ! 0 AND 0x03)) (tl pdu))"

subsection \<open>\<open>A_GroupValue_Read\<close>\<close>

definition A_GroupValue_Read_init :: "CArray \<Rightarrow> apdu option" where
  "A_GroupValue_Read_init c =
     (if length c \<noteq> 2 then None
      else Some A_GroupValue_Read_PDU)"

definition A_GroupValue_Read_ToPacket :: "CArray option" where
  "A_GroupValue_Read_ToPacket =
     Some [0x00, 0x00]"

definition A_GroupValue_Read_Decode :: "string option" where
  "A_GroupValue_Read_Decode =
     Some ''A_GroupValue_Read''"

subsection \<open>\<open>A_GroupValue_Response\<close>\<close>

definition A_GroupValue_Response_init :: "CArray \<Rightarrow> apdu option" where
  "A_GroupValue_Response_init c =
     (if length c < 2 then None
      else Some (if length c = 2 then A_GroupValue_Response_PDU True [c ! 1 AND 0x3F]
        else A_GroupValue_Response_PDU False (take (length c - 2) (drop 2 c))))"

definition A_GroupValue_Response_ToPacket :: "bool \<Rightarrow> CArray \<Rightarrow> CArray option" where
  "A_GroupValue_Response_ToPacket issmall data =
     (if \<not> (issmall \<longrightarrow> length data = 1 \<and> data ! 0 AND 0xC0 = 0) then None
      else Some (if issmall then [0x00, 0x40 OR (data ! 0 AND 0x3F)] else [0x00, 0x40] @ data))"

definition A_GroupValue_Response_Decode :: "bool \<Rightarrow> CArray \<Rightarrow> string option" where
  "A_GroupValue_Response_Decode issmall data =
     (if \<not> (issmall \<longrightarrow> length data = 1 \<and> data ! 0 AND 0xC0 = 0) then None
      else Some (hex_from (''A_GroupValue_Response '' @ (if issmall then ''(small) '' else [])) data))"

definition A_GroupValue_Response_isResponse :: "bool \<Rightarrow> CArray \<Rightarrow> apdu \<Rightarrow> bool" where
  "A_GroupValue_Response_isResponse issmall data req =
     (APDU_getType req = A_GroupValue_Read)"

subsection \<open>\<open>A_GroupValue_Write\<close>\<close>

definition A_GroupValue_Write_init :: "CArray \<Rightarrow> apdu option" where
  "A_GroupValue_Write_init c =
     (if length c < 2 then None
      else Some (if length c = 2 then A_GroupValue_Write_PDU True [c ! 1 AND 0x3F]
        else A_GroupValue_Write_PDU False (take (length c - 2) (drop 2 c))))"

definition A_GroupValue_Write_ToPacket :: "bool \<Rightarrow> CArray \<Rightarrow> CArray option" where
  "A_GroupValue_Write_ToPacket issmall data =
     (if \<not> (issmall \<longrightarrow> length data = 1 \<and> data ! 0 AND 0xC0 = 0) then None
      else Some (if issmall then [0x00, 0x80 OR (data ! 0 AND 0x3F)] else [0x00, 0x80] @ data))"

definition A_GroupValue_Write_Decode :: "bool \<Rightarrow> CArray \<Rightarrow> string option" where
  "A_GroupValue_Write_Decode issmall data =
     (if \<not> (issmall \<longrightarrow> length data = 1 \<and> data ! 0 AND 0xC0 = 0) then None
      else Some (hex_from (''A_GroupValue_Write '' @ (if issmall then ''(small) '' else [])) data))"

subsection \<open>\<open>A_IndividualAddress_Write\<close>\<close>

definition A_IndividualAddress_Write_init :: "CArray \<Rightarrow> apdu option" where
  "A_IndividualAddress_Write_init c =
     (if length c \<noteq> 4 then None
      else Some (A_IndividualAddress_Write_PDU (mk16 (c ! 2) (c ! 3))))"

definition A_IndividualAddress_Write_ToPacket :: "eibaddr_t \<Rightarrow> CArray option" where
  "A_IndividualAddress_Write_ToPacket addr =
     Some [0, 0xC0, hi8 addr, lo8 addr]"

definition A_IndividualAddress_Write_Decode :: "eibaddr_t \<Rightarrow> string option" where
  "A_IndividualAddress_Write_Decode addr =
     Some (''A_IndividualAddress_Write '' @ FormatEIBAddr addr)"

subsection \<open>\<open>A_IndividualAddress_Read\<close>\<close>

definition A_IndividualAddress_Read_init :: "CArray \<Rightarrow> apdu option" where
  "A_IndividualAddress_Read_init c =
     (if length c \<noteq> 2 then None
      else Some A_IndividualAddress_Read_PDU)"

definition A_IndividualAddress_Read_ToPacket :: "CArray option" where
  "A_IndividualAddress_Read_ToPacket =
     Some [0x01, 0x00]"

definition A_IndividualAddress_Read_Decode :: "string option" where
  "A_IndividualAddress_Read_Decode =
     Some ''A_IndividualAddress_Read''"

subsection \<open>\<open>A_IndividualAddress_Response\<close>\<close>

definition A_IndividualAddress_Response_init :: "CArray \<Rightarrow> apdu option" where
  "A_IndividualAddress_Response_init c =
     (if length c \<noteq> 2 then None
      else Some A_IndividualAddress_Response_PDU)"

definition A_IndividualAddress_Response_ToPacket :: "CArray option" where
  "A_IndividualAddress_Response_ToPacket =
     Some [0x01, 0x40]"

definition A_IndividualAddress_Response_Decode :: "string option" where
  "A_IndividualAddress_Response_Decode =
     Some ''A_IndividualAddress_Response''"

definition A_IndividualAddress_Response_isResponse :: "apdu \<Rightarrow> bool" where
  "A_IndividualAddress_Response_isResponse req =
     (APDU_getType req = A_IndividualAddress_Read)"

subsection \<open>\<open>A_IndividualAddressSerialNumber_Read\<close>\<close>

definition A_IndividualAddressSerialNumber_Read_init :: "CArray \<Rightarrow> apdu option" where
  "A_IndividualAddressSerialNumber_Read_init c =
     (if length c \<noteq> 8 then None
      else Some (A_IndividualAddressSerialNumber_Read_PDU (take 6 (drop 2 c))))"

definition A_IndividualAddressSerialNumber_Read_ToPacket :: "CArray \<Rightarrow> CArray option" where
  "A_IndividualAddressSerialNumber_Read_ToPacket serno =
     Some ([0x03, 0xDC] @ take 6 serno)"

definition A_IndividualAddressSerialNumber_Read_Decode :: "CArray \<Rightarrow> string option" where
  "A_IndividualAddressSerialNumber_Read_Decode serno =
     Some (''A_IndividualAddressSerialNumber_Read '' @ hex2 (serno ! 0) @ hex2 (serno ! 1) @ hex2 (serno ! 2) @
      hex2 (serno ! 3) @ hex2 (serno ! 4) @ hex2 (serno ! 5))"

subsection \<open>\<open>A_IndividualAddressSerialNumber_Response\<close>\<close>

definition A_IndividualAddressSerialNumber_Response_init :: "CArray \<Rightarrow> apdu option" where
  "A_IndividualAddressSerialNumber_Response_init c =
     (if length c \<noteq> 12 then None
      else Some (A_IndividualAddressSerialNumber_Response_PDU (take 6 (drop 2 c)) (mk16 (c ! 8) (c ! 9))))"

definition A_IndividualAddressSerialNumber_Response_ToPacket :: "CArray \<Rightarrow> domainaddr_t \<Rightarrow> CArray option" where
  "A_IndividualAddressSerialNumber_Response_ToPacket serno addr =
     Some ([0x03, 0xDD] @ take 6 serno @ [hi8 addr, lo8 addr, 0, 0])"

definition A_IndividualAddressSerialNumber_Response_Decode :: "CArray \<Rightarrow> domainaddr_t \<Rightarrow> string option" where
  "A_IndividualAddressSerialNumber_Response_Decode serno addr =
     Some (''A_IndividualAddressSerialNumber_Response '' @ hex2 (serno ! 0) @ hex2 (serno ! 1) @ hex2 (serno ! 2) @
      hex2 (serno ! 3) @ hex2 (serno ! 4) @ hex2 (serno ! 5) @
      ''Addr: '' @ hex4 addr)"

definition A_IndividualAddressSerialNumber_Response_isResponse :: "CArray \<Rightarrow> domainaddr_t \<Rightarrow> apdu \<Rightarrow> bool" where
  "A_IndividualAddressSerialNumber_Response_isResponse serno addr req =
     (case req of A_IndividualAddressSerialNumber_Read_PDU aserno \<Rightarrow> aserno = serno | _ \<Rightarrow> False)"

subsection \<open>\<open>A_IndividualAddressSerialNumber_Write\<close>\<close>

definition A_IndividualAddressSerialNumber_Write_init :: "CArray \<Rightarrow> apdu option" where
  "A_IndividualAddressSerialNumber_Write_init c =
     (if length c \<noteq> 14 then None
      else Some (A_IndividualAddressSerialNumber_Write_PDU (take 6 (drop 2 c)) (mk16 (c ! 8) (c ! 9))))"

definition A_IndividualAddressSerialNumber_Write_ToPacket :: "CArray \<Rightarrow> eibaddr_t \<Rightarrow> CArray option" where
  "A_IndividualAddressSerialNumber_Write_ToPacket serno addr =
     Some ([0x03, 0xDD] @ take 6 serno @ [hi8 addr, lo8 addr, 0, 0, 0, 0])"

definition A_IndividualAddressSerialNumber_Write_Decode :: "CArray \<Rightarrow> eibaddr_t \<Rightarrow> string option" where
  "A_IndividualAddressSerialNumber_Write_Decode serno addr =
     Some (''A_IndividualAddressSerialNumber_Write '' @ hex2 (serno ! 0) @ hex2 (serno ! 1) @ hex2 (serno ! 2) @
      hex2 (serno ! 3) @ hex2 (serno ! 4) @ hex2 (serno ! 5) @
      ''Addr: '' @ FormatEIBAddr addr)"

subsection \<open>\<open>A_ServiceInformation_Indication_Write\<close>\<close>

definition A_ServiceInformation_Indication_Write_init :: "CArray \<Rightarrow> apdu option" where
  "A_ServiceInformation_Indication_Write_init c =
     (if length c \<noteq> 5 then None
      else Some (A_ServiceInformation_Indication_Write_PDU (c ! 2 AND 0x04 \<noteq> 0) (c ! 3 AND 0x02 \<noteq> 0) (c ! 2 AND 0x01 \<noteq> 0)))"

definition A_ServiceInformation_Indication_Write_ToPacket :: "bool \<Rightarrow> bool \<Rightarrow> bool \<Rightarrow> CArray option" where
  "A_ServiceInformation_Indication_Write_ToPacket verify_mode duplicate_address appl_stopped =
     Some [0x03, 0xDF, 0x00 OR (if verify_mode then 0x04 else 0x00) OR (if duplicate_address then 0x02 else 0x00) OR
      (if appl_stopped then 0x01 else 0x00), 0x00, 0x00]"

definition A_ServiceInformation_Indication_Write_Decode :: "bool \<Rightarrow> bool \<Rightarrow> bool \<Rightarrow> string option" where
  "A_ServiceInformation_Indication_Write_Decode verify_mode duplicate_address appl_stopped =
     Some (''A_ServiceInformation_Indication_Write '' @ (if verify_mode then ''verify '' else []) @
      (if duplicate_address then ''dupplicate_address '' else []) @
      (if appl_stopped then ''appl_stopped '' else []))"

subsection \<open>\<open>A_DomainAddress_Write\<close>\<close>

definition A_DomainAddress_Write_init :: "CArray \<Rightarrow> apdu option" where
  "A_DomainAddress_Write_init c =
     (if length c \<noteq> 4 then None
      else Some (A_DomainAddress_Write_PDU (mk16 (c ! 2) (c ! 3))))"

definition A_DomainAddress_Write_ToPacket :: "domainaddr_t \<Rightarrow> CArray option" where
  "A_DomainAddress_Write_ToPacket addr =
     Some [0x03, 0xE0, hi8 addr, lo8 addr]"

definition A_DomainAddress_Write_Decode :: "domainaddr_t \<Rightarrow> string option" where
  "A_DomainAddress_Write_Decode addr =
     Some (''A_DomainAddress_Write '' @ FormatDomainAddr addr)"

subsection \<open>\<open>A_DomainAddress_Read\<close>\<close>

definition A_DomainAddress_Read_init :: "CArray \<Rightarrow> apdu option" where
  "A_DomainAddress_Read_init c =
     (if length c \<noteq> 2 then None
      else Some A_DomainAddress_Read_PDU)"

definition A_DomainAddress_Read_ToPacket :: "CArray option" where
  "A_DomainAddress_Read_ToPacket =
     Some [0x03, 0xE1]"

definition A_DomainAddress_Read_Decode :: "string option" where
  "A_DomainAddress_Read_Decode =
     Some ''A_DomainAddress_Read''"

subsection \<open>\<open>A_DomainAddress_Response\<close>\<close>

definition A_DomainAddress_Response_init :: "CArray \<Rightarrow> apdu option" where
  "A_DomainAddress_Response_init c =
     (if length c \<noteq> 4 then None
      else Some (A_DomainAddress_Response_PDU (mk16 (c ! 2) (c ! 3))))"

definition A_DomainAddress_Response_ToPacket :: "domainaddr_t \<Rightarrow> CArray option" where
  "A_DomainAddress_Response_ToPacket addr =
     Some [0x03, 0xE2, hi8 addr, lo8 addr]"

definition A_DomainAddress_Response_Decode :: "domainaddr_t \<Rightarrow> string option" where
  "A_DomainAddress_Response_Decode addr =
     Some (''A_DomainAddress_Response'' @ FormatDomainAddr addr)"

definition A_DomainAddress_Response_isResponse :: "domainaddr_t \<Rightarrow> apdu \<Rightarrow> bool" where
  "A_DomainAddress_Response_isResponse addr req =
     (APDU_getType req = A_DomainAddress_Read)"

subsection \<open>\<open>A_DomainAddressSelective_Read\<close>\<close>

definition A_DomainAddressSelective_Read_init :: "CArray \<Rightarrow> apdu option" where
  "A_DomainAddressSelective_Read_init c =
     (if length c \<noteq> 7 then None
      else Some (A_DomainAddressSelective_Read_PDU (mk16 (c ! 2) (c ! 3)) (mk16 (c ! 4) (c ! 5)) (c ! 6)))"

definition A_DomainAddressSelective_Read_ToPacket :: "uchar memory \<Rightarrow> domainaddr_t \<Rightarrow> eibaddr_t \<Rightarrow> uchar \<Rightarrow> CArray option" where
  "A_DomainAddressSelective_Read_ToPacket junk domainaddr addr rnge =
     Some ((Array_new junk 7)[0 := 0x03, 1 := 0xE2, 2 := hi8 domainaddr, 3 := lo8 domainaddr,
      2 := hi8 addr, 3 := lo8 addr, 6 := rnge])"

definition A_DomainAddressSelective_Read_Decode :: "domainaddr_t \<Rightarrow> eibaddr_t \<Rightarrow> uchar \<Rightarrow> string option" where
  "A_DomainAddressSelective_Read_Decode domainaddr addr rnge =
     Some (''A_DomainAddressSelective_Read '' @ FormatDomainAddr domainaddr @ '' '' @ FormatEIBAddr addr @ '' '' @ hex2 rnge)"

subsection \<open>\<open>A_PropertyValue_Read\<close>\<close>

definition A_PropertyValue_Read_init :: "CArray \<Rightarrow> apdu option" where
  "A_PropertyValue_Read_init c =
     (if length c \<noteq> 6 then None
      else Some (A_PropertyValue_Read_PDU (c ! 2) (c ! 3) (drop_bit 4 (c ! 4) AND 0x0F) (mk16 (c ! 4 AND 0x0F) (c ! 5))))"

definition A_PropertyValue_Read_ToPacket :: "objectno_t \<Rightarrow> propertyid_t \<Rightarrow> uchar \<Rightarrow> 16 word \<Rightarrow> CArray option" where
  "A_PropertyValue_Read_ToPacket obj prop cnt start =
     (if \<not> (cnt AND 0xF0 = 0 \<and> start AND 0xF000 = 0) then None
      else Some [0x03, 0xD5, obj, prop, push_bit 4 (cnt AND 0x0F) OR (hi8 start AND 0x0F), lo8 start])"

definition A_PropertyValue_Read_Decode :: "objectno_t \<Rightarrow> propertyid_t \<Rightarrow> uchar \<Rightarrow> 16 word \<Rightarrow> string option" where
  "A_PropertyValue_Read_Decode obj prop cnt start =
     (if \<not> (cnt AND 0xF0 = 0 \<and> start AND 0xF000 = 0) then None
      else Some (''A_PropertyValue_Read Obj:'' @ hex2 obj @ '' Prop: '' @ hex2 prop @
      '' start: '' @ hex2 (ucast start) @ '' max_nr: '' @ hex2 cnt))"

subsection \<open>\<open>A_PropertyValue_Response\<close>\<close>

definition A_PropertyValue_Response_init :: "CArray \<Rightarrow> apdu option" where
  "A_PropertyValue_Response_init c =
     (if length c < 6 then None
      else Some (A_PropertyValue_Response_PDU (c ! 2) (c ! 3) (drop_bit 4 (c ! 4) AND 0x0F) (mk16 (c ! 4 AND 0x0F) (c ! 5))
        (take (length c - 6) (drop 6 c))))"

definition A_PropertyValue_Response_ToPacket :: "objectno_t \<Rightarrow> propertyid_t \<Rightarrow> uchar \<Rightarrow> 16 word \<Rightarrow> CArray \<Rightarrow> CArray option" where
  "A_PropertyValue_Response_ToPacket obj prop cnt start data =
     (if \<not> (cnt AND 0xF0 = 0 \<and> start AND 0xF000 = 0) then None
      else Some ([0x03, 0xD6, obj, prop, push_bit 4 (cnt AND 0x0F) OR (hi8 start AND 0x0F), lo8 start] @ data))"

definition A_PropertyValue_Response_Decode :: "objectno_t \<Rightarrow> propertyid_t \<Rightarrow> uchar \<Rightarrow> 16 word \<Rightarrow> CArray \<Rightarrow> string option" where
  "A_PropertyValue_Response_Decode obj prop cnt start data =
     (if \<not> (cnt AND 0xF0 = 0 \<and> start AND 0xF000 = 0) then None
      else Some (hex_from (''A_PropertyValue_Response Obj:'' @ hex2 obj @ '' Prop: '' @ hex2 prop @
      '' start: '' @ hex2 (ucast start) @ '' max_nr: '' @ hex2 cnt @ ''data: '') data))"

definition A_PropertyValue_Response_isResponse :: "objectno_t \<Rightarrow> propertyid_t \<Rightarrow> uchar \<Rightarrow> 16 word \<Rightarrow> CArray \<Rightarrow> apdu \<Rightarrow> bool" where
  "A_PropertyValue_Response_isResponse obj prop cnt start data req =
     (case req of
        A_PropertyValue_Write_PDU aobj aprop acount astart _ \<Rightarrow>
          aobj = obj \<and> aprop = prop \<and> astart = start \<and> acount = cnt
      | A_PropertyValue_Read_PDU aobj aprop acount astart \<Rightarrow>
          (if aobj \<noteq> obj then False else if aprop \<noteq> prop then False
           else if astart \<noteq> start then False else if acount \<noteq> cnt then False else True)
      | _ \<Rightarrow> False)"

subsection \<open>\<open>A_PropertyValue_Write\<close>\<close>

definition A_PropertyValue_Write_init :: "CArray \<Rightarrow> apdu option" where
  "A_PropertyValue_Write_init c =
     (if length c < 6 then None
      else Some (A_PropertyValue_Write_PDU (c ! 2) (c ! 3) (drop_bit 4 (c ! 4) AND 0x0F) (mk16 (c ! 4 AND 0x0F) (c ! 5))
        (take (length c - 6) (drop 6 c))))"

definition A_PropertyValue_Write_ToPacket :: "objectno_t \<Rightarrow> propertyid_t \<Rightarrow> uchar \<Rightarrow> 16 word \<Rightarrow> CArray \<Rightarrow> CArray option" where
  "A_PropertyValue_Write_ToPacket obj prop cnt start data =
     (if \<not> (cnt AND 0xF0 = 0 \<and> start AND 0xF000 = 0) then None
      else Some ([0x03, 0xD7, obj, prop, push_bit 4 (cnt AND 0x0F) OR (hi8 start AND 0x0F), lo8 start] @ data))"

definition A_PropertyValue_Write_Decode :: "objectno_t \<Rightarrow> propertyid_t \<Rightarrow> uchar \<Rightarrow> 16 word \<Rightarrow> CArray \<Rightarrow> string option" where
  "A_PropertyValue_Write_Decode obj prop cnt start data =
     (if \<not> (cnt AND 0xF0 = 0 \<and> start AND 0xF000 = 0) then None
      else Some (hex_from (''A_PropertyValue_Write Obj:'' @ hex2 obj @ '' Prop: '' @ hex2 prop @
      '' start: '' @ hex2 (ucast start) @ '' max_nr: '' @ hex2 cnt @ ''data: '') data))"

subsection \<open>\<open>A_PropertyDescription_Read\<close>\<close>

definition A_PropertyDescription_Read_init :: "CArray \<Rightarrow> apdu option" where
  "A_PropertyDescription_Read_init c =
     (if length c \<noteq> 5 then None
      else Some (A_PropertyDescription_Read_PDU (c ! 2) (c ! 3) (c ! 4)))"

definition A_PropertyDescription_Read_ToPacket :: "objectno_t \<Rightarrow> propertyid_t \<Rightarrow> uchar \<Rightarrow> CArray option" where
  "A_PropertyDescription_Read_ToPacket obj prop property_index =
     Some [0x03, 0xD8, obj, prop, property_index]"

definition A_PropertyDescription_Read_Decode :: "objectno_t \<Rightarrow> propertyid_t \<Rightarrow> uchar \<Rightarrow> string option" where
  "A_PropertyDescription_Read_Decode obj prop property_index =
     Some (''A_PropertyDescription_Read Obj: '' @ hex2 obj @ '' Property: '' @ hex2 prop @
      '' Property_index: '' @ hex2 property_index)"

subsection \<open>\<open>A_PropertyDescription_Response\<close>\<close>

definition A_PropertyDescription_Response_init :: "CArray \<Rightarrow> apdu option" where
  "A_PropertyDescription_Response_init c =
     (if length c \<noteq> 9 then None
      else Some (A_PropertyDescription_Response_PDU (c ! 2) (c ! 3) (c ! 4) (c ! 5) (mk16 (c ! 6) (c ! 7)) (c ! 8)))"

definition A_PropertyDescription_Response_ToPacket :: "objectno_t \<Rightarrow> propertyid_t \<Rightarrow> uchar \<Rightarrow> uchar \<Rightarrow> 16 word \<Rightarrow> uchar \<Rightarrow> CArray option" where
  "A_PropertyDescription_Response_ToPacket obj prop property_index ptype cnt access =
     Some [0x03, 0xD9, obj, prop, property_index, ptype, hi8 cnt, lo8 cnt, access]"

definition A_PropertyDescription_Response_Decode :: "objectno_t \<Rightarrow> propertyid_t \<Rightarrow> uchar \<Rightarrow> uchar \<Rightarrow> 16 word \<Rightarrow> uchar \<Rightarrow> string option" where
  "A_PropertyDescription_Response_Decode obj prop property_index ptype cnt access =
     Some (''A_PropertyDescription_Response Obj:'' @ hex2 obj @ '' Property: '' @ hex2 prop @
      '' Property_index: '' @ hex2 property_index @ '' Type: '' @ hex2 ptype @
      ''max_elements: '' @ hex4 cnt @ '' acces: '' @ hex2 access)"

definition A_PropertyDescription_Response_isResponse :: "objectno_t \<Rightarrow> propertyid_t \<Rightarrow> uchar \<Rightarrow> uchar \<Rightarrow> 16 word \<Rightarrow> uchar \<Rightarrow> apdu \<Rightarrow> bool" where
  "A_PropertyDescription_Response_isResponse obj prop property_index ptype cnt access req =
     (if APDU_getType req \<noteq> A_PropertyDescription_Read then False
      else case req of
             A_PropertyDescription_Read_PDU aobj _ _ \<Rightarrow> aobj = obj
           | A_PropertyDescription_Response_PDU aobj _ _ _ _ _ \<Rightarrow> aobj = obj
           | _ \<Rightarrow> False)"

subsection \<open>\<open>A_DeviceDescriptor_Read\<close>\<close>

definition A_DeviceDescriptor_Read_init :: "CArray \<Rightarrow> apdu option" where
  "A_DeviceDescriptor_Read_init c =
     (if length c \<noteq> 2 then None
      else Some (A_DeviceDescriptor_Read_PDU (c ! 1 AND 0x3F)))"

definition A_DeviceDescriptor_Read_ToPacket :: "uchar \<Rightarrow> CArray option" where
  "A_DeviceDescriptor_Read_ToPacket ptype =
     (if \<not> (ptype AND 0xC0 = 0) then None
      else Some [0x03, 0x00 OR (ptype AND 0x3F)])"

definition A_DeviceDescriptor_Read_Decode :: "uchar \<Rightarrow> string option" where
  "A_DeviceDescriptor_Read_Decode ptype =
     (if \<not> (ptype AND 0xC0 = 0) then None
      else Some (''A_DeviceDescriptor_Read Type:'' @ hex2 ptype))"

subsection \<open>\<open>A_DeviceDescriptor_Response\<close>\<close>

definition A_DeviceDescriptor_Response_init :: "CArray \<Rightarrow> apdu option" where
  "A_DeviceDescriptor_Response_init c =
     (if length c \<noteq> 4 then None
      else Some (A_DeviceDescriptor_Response_PDU (c ! 1 AND 0x3F) (mk16 (c ! 2) (c ! 3))))"

definition A_DeviceDescriptor_Response_ToPacket :: "uchar \<Rightarrow> 16 word \<Rightarrow> CArray option" where
  "A_DeviceDescriptor_Response_ToPacket ptype descriptor =
     (if \<not> (ptype AND 0xC0 = 0) then None
      else Some [0x03, 0x01 OR (ptype AND 0x3F), hi8 descriptor, lo8 descriptor])"

definition A_DeviceDescriptor_Response_Decode :: "uchar \<Rightarrow> 16 word \<Rightarrow> string option" where
  "A_DeviceDescriptor_Response_Decode ptype descriptor =
     (if \<not> (ptype AND 0xC0 = 0) then None
      else Some (''A_DeviceDescriptor_Response Type:'' @ hex2 ptype @ '' Descriptor: '' @ hex4 descriptor))"

definition A_DeviceDescriptor_Response_isResponse :: "uchar \<Rightarrow> 16 word \<Rightarrow> apdu \<Rightarrow> bool" where
  "A_DeviceDescriptor_Response_isResponse ptype descriptor req =
     (case req of A_DeviceDescriptor_Read_PDU atype \<Rightarrow> atype = ptype | _ \<Rightarrow> False)"

subsection \<open>\<open>A_ADC_Read\<close>\<close>

definition A_ADC_Read_init :: "CArray \<Rightarrow> apdu option" where
  "A_ADC_Read_init c =
     (if length c \<noteq> 3 then None
      else Some (A_ADC_Read_PDU (c ! 1 AND 0x3F) (c ! 2)))"

definition A_ADC_Read_ToPacket :: "uchar \<Rightarrow> uchar \<Rightarrow> CArray option" where
  "A_ADC_Read_ToPacket channel cnt =
     (if \<not> (channel AND 0xC0 = 0) then None
      else Some [0x01, 0x80 OR (channel AND 0x3F), cnt])"

definition A_ADC_Read_Decode :: "uchar \<Rightarrow> uchar \<Rightarrow> string option" where
  "A_ADC_Read_Decode channel cnt =
     (if \<not> (channel AND 0xC0 = 0) then None
      else Some (''A_ADC_Read Channel:'' @ hex2 channel @ '' Count: '' @ hex2 cnt))"

subsection \<open>\<open>A_ADC_Response\<close>\<close>

definition A_ADC_Response_init :: "CArray \<Rightarrow> apdu option" where
  "A_ADC_Response_init c =
     (if length c \<noteq> 5 then None
      else Some (A_ADC_Response_PDU (c ! 1 AND 0x3F) (c ! 2) (mk16 (c ! 3) (c ! 4))))"

definition A_ADC_Response_ToPacket :: "uchar \<Rightarrow> uchar \<Rightarrow> 16 word \<Rightarrow> CArray option" where
  "A_ADC_Response_ToPacket channel cnt val =
     (if \<not> (channel AND 0xC0 = 0) then None
      else Some [0x01, 0xC0 OR (channel AND 0x3F), cnt, hi8 val, lo8 val])"

definition A_ADC_Response_Decode :: "uchar \<Rightarrow> uchar \<Rightarrow> 16 word \<Rightarrow> string option" where
  "A_ADC_Response_Decode channel cnt val =
     (if \<not> (channel AND 0xC0 = 0) then None
      else Some (''A_ADC_Response Channel:'' @ hex2 channel @ '' Count: '' @ hex2 cnt @ ''Value: '' @ hex2 (ucast val)))"

definition A_ADC_Response_isResponse :: "uchar \<Rightarrow> uchar \<Rightarrow> 16 word \<Rightarrow> apdu \<Rightarrow> bool" where
  "A_ADC_Response_isResponse channel cnt val req =
     (case req of A_ADC_Read_PDU achannel acount \<Rightarrow> acount = cnt \<and> achannel = channel | _ \<Rightarrow> False)"

subsection \<open>\<open>A_Memory_Read\<close>\<close>

definition A_Memory_Read_init :: "CArray \<Rightarrow> apdu option" where
  "A_Memory_Read_init c =
     (if length c \<noteq> 4 then None
      else Some (A_Memory_Read_PDU (c ! 1 AND 0xF) (mk16 (c ! 2) (c ! 3))))"

definition A_Memory_Read_ToPacket :: "uchar \<Rightarrow> memaddr_t \<Rightarrow> CArray option" where
  "A_Memory_Read_ToPacket cnt addr =
     (if \<not> (cnt AND 0xF0 = 0) then None
      else Some [0x02, 0x00 OR (cnt AND 0x0F), hi8 addr, lo8 addr])"

definition A_Memory_Read_Decode :: "uchar \<Rightarrow> memaddr_t \<Rightarrow> string option" where
  "A_Memory_Read_Decode cnt addr =
     (if \<not> (cnt AND 0xF0 = 0) then None
      else Some (''A_Memory_Read Len: '' @ hex2 cnt @ '' Addr: '' @ hex4 addr))"

subsection \<open>\<open>A_Memory_Response\<close>\<close>

definition A_Memory_Response_init :: "CArray \<Rightarrow> apdu option" where
  "A_Memory_Response_init c =
     (if length c < 4 then None
      else if length (drop 4 c) \<noteq> unat (c ! 1 AND 0xF) then None
      else Some (A_Memory_Response_PDU (c ! 1 AND 0xF) (mk16 (c ! 2) (c ! 3)) (take (length c - 4) (drop 4 c))))"

definition A_Memory_Response_ToPacket :: "uchar \<Rightarrow> memaddr_t \<Rightarrow> CArray \<Rightarrow> CArray option" where
  "A_Memory_Response_ToPacket cnt addr data =
     (if \<not> (cnt AND 0xF0 = 0 \<and> length data = unat cnt) then None
      else Some ([0x02, 0x40 OR (cnt AND 0x0F), hi8 addr, lo8 addr] @ data))"

definition A_Memory_Response_Decode :: "uchar \<Rightarrow> memaddr_t \<Rightarrow> CArray \<Rightarrow> string option" where
  "A_Memory_Response_Decode cnt addr data =
     (if \<not> (cnt AND 0xF0 = 0 \<and> length data = unat cnt) then None
      else Some (hex_from (''A_Memory_Response Len:'' @ hex2 cnt @ '' Addr: '' @ hex4 addr @ ''Data: '') data))"

definition A_Memory_Response_isResponse :: "uchar \<Rightarrow> memaddr_t \<Rightarrow> CArray \<Rightarrow> apdu \<Rightarrow> bool" where
  "A_Memory_Response_isResponse cnt addr data req =
     (case req of A_Memory_Read_PDU acount aaddr \<Rightarrow> acount = cnt \<and> aaddr = addr | _ \<Rightarrow> False)"

subsection \<open>\<open>A_Memory_Write\<close>\<close>

definition A_Memory_Write_init :: "CArray \<Rightarrow> apdu option" where
  "A_Memory_Write_init c =
     (if length c < 4 then None
      else if length (drop 4 c) \<noteq> unat (c ! 1 AND 0xF) then None
      else Some (A_Memory_Write_PDU (c ! 1 AND 0xF) (mk16 (c ! 2) (c ! 3)) (take (length c - 4) (drop 4 c))))"

definition A_Memory_Write_ToPacket :: "uchar \<Rightarrow> memaddr_t \<Rightarrow> CArray \<Rightarrow> CArray option" where
  "A_Memory_Write_ToPacket cnt addr data =
     (if \<not> (cnt AND 0xF0 = 0 \<and> length data = unat cnt) then None
      else Some ([0x02, 0x80 OR (cnt AND 0x0F), hi8 addr, lo8 addr] @ data))"

definition A_Memory_Write_Decode :: "uchar \<Rightarrow> memaddr_t \<Rightarrow> CArray \<Rightarrow> string option" where
  "A_Memory_Write_Decode cnt addr data =
     (if \<not> (cnt AND 0xF0 = 0 \<and> length data = unat cnt) then None
      else Some (hex_from (''A_Memory_Write Len:'' @ hex2 cnt @ '' Addr: '' @ hex4 addr @ ''Data: '') data))"

subsection \<open>\<open>A_MemoryBit_Write\<close>\<close>

definition A_MemoryBit_Write_init :: "CArray \<Rightarrow> apdu option" where
  "A_MemoryBit_Write_init c =
     (if length c < 5 then None
      else if length c - 5 \<noteq> unat (c ! 2) * 2 then None
      else Some (A_MemoryBit_Write_PDU (c ! 2) (mk16 (c ! 3) (c ! 4))
        (take (unat (c ! 2)) (drop 5 c)) (take (unat (c ! 2)) (drop (5 + unat (c ! 2)) c))))"

definition A_MemoryBit_Write_ToPacket :: "uchar \<Rightarrow> memaddr_t \<Rightarrow> CArray \<Rightarrow> CArray \<Rightarrow> CArray option" where
  "A_MemoryBit_Write_ToPacket cnt addr andmask xormask =
     (if \<not> (length andmask = unat cnt \<and> length xormask = unat cnt) then None
      else Some ([0x03, 0xD0, cnt, hi8 addr, lo8 addr] @ andmask @ xormask))"

definition A_MemoryBit_Write_Decode :: "uchar \<Rightarrow> memaddr_t \<Rightarrow> CArray \<Rightarrow> CArray \<Rightarrow> string option" where
  "A_MemoryBit_Write_Decode cnt addr andmask xormask =
     (if \<not> (length andmask = unat cnt \<and> length xormask = unat cnt) then None
      else Some (hex_from (hex_from (''A_MemoryBit_Write Len:'' @ hex2 cnt @ ''Addr: '' @ hex4 addr @ ''And: '') andmask @
      ''xor: '') xormask))"

subsection \<open>\<open>A_UserMemory_Read\<close>\<close>

definition A_UserMemory_Read_init :: "CArray \<Rightarrow> apdu option" where
  "A_UserMemory_Read_init c =
     (if length c \<noteq> 5 then None
      else Some (A_UserMemory_Read_PDU (drop_bit 4 (c ! 2) AND 0xF) (c ! 2 AND 0xF) (mk16 (c ! 3) (c ! 4))))"

definition A_UserMemory_Read_ToPacket :: "uchar \<Rightarrow> uchar \<Rightarrow> memaddr_t \<Rightarrow> CArray option" where
  "A_UserMemory_Read_ToPacket addr_extension cnt addr =
     (if \<not> (cnt AND 0xF0 = 0 \<and> addr_extension AND 0xF0 = 0) then None
      else Some [0x02, 0xC0, push_bit 4 (addr_extension AND 0x0F) OR (cnt AND 0x0F), hi8 addr, lo8 addr])"

definition A_UserMemory_Read_Decode :: "uchar \<Rightarrow> uchar \<Rightarrow> memaddr_t \<Rightarrow> string option" where
  "A_UserMemory_Read_Decode addr_extension cnt addr =
     (if \<not> (cnt AND 0xF0 = 0 \<and> addr_extension AND 0xF0 = 0) then None
      else Some (''A_UserMemory_Read Addr_ext:'' @ hex2 addr_extension @ '' Len: '' @ hex2 cnt @ '' Addr: '' @ hex4 addr))"

subsection \<open>\<open>A_UserMemory_Response\<close>\<close>

definition A_UserMemory_Response_init :: "CArray \<Rightarrow> apdu option" where
  "A_UserMemory_Response_init c =
     (if length c < 5 then None
      else if length (drop 5 c) \<noteq> unat (c ! 2 AND 0xF) then None
      else Some (A_UserMemory_Response_PDU (drop_bit 4 (c ! 2) AND 0xF) (c ! 2 AND 0xF) (mk16 (c ! 3) (c ! 4)) (take (length c - 5) (drop 5 c))))"

definition A_UserMemory_Response_ToPacket :: "uchar \<Rightarrow> uchar \<Rightarrow> memaddr_t \<Rightarrow> CArray \<Rightarrow> CArray option" where
  "A_UserMemory_Response_ToPacket addr_extension cnt addr data =
     (if \<not> (cnt AND 0xF0 = 0 \<and> addr_extension AND 0xF0 = 0 \<and> length data = unat cnt) then None
      else Some ([0x02, 0xC1, push_bit 4 (addr_extension AND 0x0F) OR (cnt AND 0x0F), hi8 addr, lo8 addr] @ data))"

definition A_UserMemory_Response_Decode :: "uchar \<Rightarrow> uchar \<Rightarrow> memaddr_t \<Rightarrow> CArray \<Rightarrow> string option" where
  "A_UserMemory_Response_Decode addr_extension cnt addr data =
     (if \<not> (cnt AND 0xF0 = 0 \<and> addr_extension AND 0xF0 = 0 \<and> length data = unat cnt) then None
      else Some (hex_from (''A_UserMemory_Response Addr_ext:'' @ hex2 addr_extension @ '' Len: '' @ hex2 cnt @
      '' Addr: '' @ hex4 addr @ '' Data: '') data))"

definition A_UserMemory_Response_isResponse :: "uchar \<Rightarrow> uchar \<Rightarrow> memaddr_t \<Rightarrow> CArray \<Rightarrow> apdu \<Rightarrow> bool" where
  "A_UserMemory_Response_isResponse addr_extension cnt addr data req =
     (case req of A_UserMemory_Read_PDU aext acount aaddr \<Rightarrow> acount = cnt \<and> aaddr = addr \<and> aext = addr_extension | _ \<Rightarrow> False)"

subsection \<open>\<open>A_UserMemory_Write\<close>\<close>

definition A_UserMemory_Write_init :: "CArray \<Rightarrow> apdu option" where
  "A_UserMemory_Write_init c =
     (if length c < 5 then None
      else if length (drop 5 c) \<noteq> unat (c ! 2 AND 0xF) then None
      else Some (A_UserMemory_Write_PDU (drop_bit 4 (c ! 2) AND 0xF) (c ! 2 AND 0xF) (mk16 (c ! 3) (c ! 4)) (take (length c - 5) (drop 5 c))))"

definition A_UserMemory_Write_ToPacket :: "uchar \<Rightarrow> uchar \<Rightarrow> memaddr_t \<Rightarrow> CArray \<Rightarrow> CArray option" where
  "A_UserMemory_Write_ToPacket addr_extension cnt addr data =
     (if \<not> (cnt AND 0xF0 = 0 \<and> addr_extension AND 0xF0 = 0 \<and> length data = unat cnt) then None
      else Some ([0x02, 0xC2, push_bit 4 (addr_extension AND 0x0F) OR (cnt AND 0x0F), hi8 addr, lo8 addr] @ data))"

definition A_UserMemory_Write_Decode :: "uchar \<Rightarrow> uchar \<Rightarrow> memaddr_t \<Rightarrow> CArray \<Rightarrow> string option" where
  "A_UserMemory_Write_Decode addr_extension cnt addr data =
     (if \<not> (cnt AND 0xF0 = 0 \<and> addr_extension AND 0xF0 = 0 \<and> length data = unat cnt) then None
      else Some (hex_from (''A_UserMemory_Write Addr_ext:'' @ hex2 addr_extension @ '' Len: '' @ hex2 cnt @
      '' Addr: '' @ hex4 addr @ '' Data: '') data))"

subsection \<open>\<open>A_UserMemoryBit_Write\<close>\<close>

definition A_UserMemoryBit_Write_init :: "CArray \<Rightarrow> apdu option" where
  "A_UserMemoryBit_Write_init c =
     (if length c < 5 then None
      else if length c - 5 \<noteq> unat (c ! 2) * 2 then None
      else Some (A_UserMemoryBit_Write_PDU 0 (c ! 2) (mk16 (c ! 3) (c ! 4))
        (take (unat (c ! 2)) (drop 5 c)) (take (unat (c ! 2)) (drop (5 + unat (c ! 2)) c))))"

definition A_UserMemoryBit_Write_ToPacket :: "uchar \<Rightarrow> uchar \<Rightarrow> memaddr_t \<Rightarrow> CArray \<Rightarrow> CArray \<Rightarrow> CArray option" where
  "A_UserMemoryBit_Write_ToPacket addr_extension cnt addr andmask xormask =
     (if \<not> (length andmask = unat cnt \<and> length xormask = unat cnt) then None
      else Some ([0x02, 0xC4, cnt, hi8 addr, lo8 addr] @ andmask @ xormask))"

definition A_UserMemoryBit_Write_Decode :: "uchar \<Rightarrow> uchar \<Rightarrow> memaddr_t \<Rightarrow> CArray \<Rightarrow> CArray \<Rightarrow> string option" where
  "A_UserMemoryBit_Write_Decode addr_extension cnt addr andmask xormask =
     (if \<not> (length andmask = unat cnt \<and> length xormask = unat cnt) then None
      else Some (hex_from (hex_from (''A_UserMemoryBit_Write Len:'' @ hex2 cnt @ ''Addr: '' @ hex4 addr @ ''And: '') andmask @
      ''xor: '') xormask))"

subsection \<open>\<open>A_UserManufacturerInfo_Read\<close>\<close>

definition A_UserManufacturerInfo_Read_init :: "CArray \<Rightarrow> apdu option" where
  "A_UserManufacturerInfo_Read_init c =
     (if length c \<noteq> 2 then None
      else Some A_UserManufacturerInfo_Read_PDU)"

definition A_UserManufacturerInfo_Read_ToPacket :: "CArray option" where
  "A_UserManufacturerInfo_Read_ToPacket =
     Some [0x02, 0xC5]"

definition A_UserManufacturerInfo_Read_Decode :: "string option" where
  "A_UserManufacturerInfo_Read_Decode =
     Some ''A_UserManufacturerInfo_Read''"

subsection \<open>\<open>A_UserManufacturerInfo_Response\<close>\<close>

definition A_UserManufacturerInfo_Response_init :: "CArray \<Rightarrow> apdu option" where
  "A_UserManufacturerInfo_Response_init c =
     (if length c \<noteq> 5 then None
      else Some (A_UserManufacturerInfo_Response_PDU (c ! 2) (mk16 (c ! 3) (c ! 4))))"

definition A_UserManufacturerInfo_Response_ToPacket :: "uchar \<Rightarrow> 16 word \<Rightarrow> CArray option" where
  "A_UserManufacturerInfo_Response_ToPacket manufacturerid mdata =
     Some [0x02, 0xC6, manufacturerid, hi8 mdata, lo8 mdata]"

definition A_UserManufacturerInfo_Response_Decode :: "uchar \<Rightarrow> 16 word \<Rightarrow> string option" where
  "A_UserManufacturerInfo_Response_Decode manufacturerid mdata =
     Some (''A_UserManufactueerInfo_Response Manufacturer:'' @ hex2 manufacturerid @ '' data: '' @ hex4 mdata)"

definition A_UserManufacturerInfo_Response_isResponse :: "uchar \<Rightarrow> 16 word \<Rightarrow> apdu \<Rightarrow> bool" where
  "A_UserManufacturerInfo_Response_isResponse manufacturerid mdata req =
     (APDU_getType req = A_UserManufacturerInfo_Read)"

subsection \<open>\<open>A_Restart\<close>\<close>

definition A_Restart_init :: "CArray \<Rightarrow> apdu option" where
  "A_Restart_init c =
     (if length c \<noteq> 2 then None
      else Some A_Restart_PDU)"

definition A_Restart_ToPacket :: "CArray option" where
  "A_Restart_ToPacket =
     Some [0x03, 0x80]"

definition A_Restart_Decode :: "string option" where
  "A_Restart_Decode =
     Some ''A_Restart''"

subsection \<open>\<open>A_Authorize_Request\<close>\<close>

definition A_Authorize_Request_init :: "CArray \<Rightarrow> apdu option" where
  "A_Authorize_Request_init c =
     (if length c \<noteq> 7 then None
      else Some (A_Authorize_Request_PDU (mk32 (c ! 3) (c ! 4) (c ! 5) (c ! 6))))"

definition A_Authorize_Request_ToPacket :: "eibkey_type \<Rightarrow> CArray option" where
  "A_Authorize_Request_ToPacket key =
     Some [0x03, 0xD1, 0x00, byte32 24 key, byte32 16 key, byte32 8 key, byte32 0 key]"

definition A_Authorize_Request_Decode :: "eibkey_type \<Rightarrow> string option" where
  "A_Authorize_Request_Decode key =
     Some (''A_Authorize_Request Key:'' @ FormatEIBKey key)"

subsection \<open>\<open>A_Authorize_Response\<close>\<close>

definition A_Authorize_Response_init :: "CArray \<Rightarrow> apdu option" where
  "A_Authorize_Response_init c =
     (if length c \<noteq> 3 then None
      else Some (A_Authorize_Response_PDU (c ! 2)))"

definition A_Authorize_Response_ToPacket :: "uchar \<Rightarrow> CArray option" where
  "A_Authorize_Response_ToPacket level =
     Some [0x03, 0xD2, level]"

definition A_Authorize_Response_Decode :: "uchar \<Rightarrow> string option" where
  "A_Authorize_Response_Decode level =
     Some (''A_Authorize_Response Level:'' @ hex2 level)"

definition A_Authorize_Response_isResponse :: "uchar \<Rightarrow> apdu \<Rightarrow> bool" where
  "A_Authorize_Response_isResponse level req =
     (APDU_getType req = A_Authorize_Request)"

subsection \<open>\<open>A_Key_Write\<close>\<close>

definition A_Key_Write_init :: "CArray \<Rightarrow> apdu option" where
  "A_Key_Write_init c =
     (if length c \<noteq> 7 then None
      else Some (A_Key_Write_PDU (c ! 2) (mk32 (c ! 3) (c ! 4) (c ! 5) (c ! 6))))"

definition A_Key_Write_ToPacket :: "uchar \<Rightarrow> eibkey_type \<Rightarrow> CArray option" where
  "A_Key_Write_ToPacket level key =
     Some [0x03, 0xD3, level, byte32 24 key, byte32 16 key, byte32 8 key, byte32 0 key]"

definition A_Key_Write_Decode :: "uchar \<Rightarrow> eibkey_type \<Rightarrow> string option" where
  "A_Key_Write_Decode level key =
     Some (''A_Key_Write Level:'' @ hex2 level @ '' Key: '' @ FormatEIBKey key)"

subsection \<open>\<open>A_Key_Response\<close>\<close>

definition A_Key_Response_init :: "CArray \<Rightarrow> apdu option" where
  "A_Key_Response_init c =
     (if length c \<noteq> 3 then None
      else Some (A_Key_Response_PDU (c ! 2)))"

definition A_Key_Response_ToPacket :: "uchar \<Rightarrow> CArray option" where
  "A_Key_Response_ToPacket level =
     Some [0x03, 0xD4, level]"

definition A_Key_Response_Decode :: "uchar \<Rightarrow> string option" where
  "A_Key_Response_Decode level =
     Some (''A_Key_Response Level:'' @ hex2 level)"

definition A_Key_Response_isResponse :: "uchar \<Rightarrow> apdu \<Rightarrow> bool" where
  "A_Key_Response_isResponse level req =
     (case req of A_Key_Write_PDU alevel _ \<Rightarrow> alevel = level | _ \<Rightarrow> False)"

section \<open>Virtual dispatch\<close>

primrec APDU_ToPacket :: "uchar memory \<Rightarrow> apdu \<Rightarrow> CArray option" where
  "APDU_ToPacket junk (A_Unknown_PDU pdu) = A_Unknown_ToPacket pdu"
| "APDU_ToPacket junk A_GroupValue_Read_PDU = A_GroupValue_Read_ToPacket"
| "APDU_ToPacket junk (A_GroupValue_Response_PDU issmall data) = A_GroupValue_Response_ToPacket issmall data"
| "APDU_ToPacket junk (A_GroupValue_Write_PDU issmall data) = A_GroupValue_Write_ToPacket issmall data"
| "APDU_ToPacket junk (A_IndividualAddress_Write_PDU addr) = A_IndividualAddress_Write_ToPacket addr"
| "APDU_ToPacket junk A_IndividualAddress_Read_PDU = A_IndividualAddress_Read_ToPacket"
| "APDU_ToPacket junk A_IndividualAddress_Response_PDU = A_IndividualAddress_Response_ToPacket"
| "APDU_ToPacket junk (A_IndividualAddressSerialNumber_Read_PDU serno) = A_IndividualAddressSerialNumber_Read_ToPacket serno"
| "APDU_ToPacket junk (A_IndividualAddressSerialNumber_Response_PDU serno addr) = A_IndividualAddressSerialNumber_Response_ToPacket serno addr"
| "APDU_ToPacket junk (A_IndividualAddressSerialNumber_Write_PDU serno addr) = A_IndividualAddressSerialNumber_Write_ToPacket serno addr"
| "APDU_ToPacket junk (A_ServiceInformation_Indication_Write_PDU verify_mode duplicate_address appl_stopped) = A_ServiceInformation_Indication_Write_ToPacket verify_mode duplicate_address appl_stopped"
| "APDU_ToPacket junk (A_DomainAddress_Write_PDU addr) = A_DomainAddress_Write_ToPacket addr"
| "APDU_ToPacket junk A_DomainAddress_Read_PDU = A_DomainAddress_Read_ToPacket"
| "APDU_ToPacket junk (A_DomainAddress_Response_PDU addr) = A_DomainAddress_Response_ToPacket addr"
| "APDU_ToPacket junk (A_DomainAddressSelective_Read_PDU domainaddr addr rnge) = A_DomainAddressSelective_Read_ToPacket junk domainaddr addr rnge"
| "APDU_ToPacket junk (A_PropertyValue_Read_PDU obj prop cnt start) = A_PropertyValue_Read_ToPacket obj prop cnt start"
| "APDU_ToPacket junk (A_PropertyValue_Response_PDU obj prop cnt start data) = A_PropertyValue_Response_ToPacket obj prop cnt start data"
| "APDU_ToPacket junk (A_PropertyValue_Write_PDU obj prop cnt start data) = A_PropertyValue_Write_ToPacket obj prop cnt start data"
| "APDU_ToPacket junk (A_PropertyDescription_Read_PDU obj prop property_index) = A_PropertyDescription_Read_ToPacket obj prop property_index"
| "APDU_ToPacket junk (A_PropertyDescription_Response_PDU obj prop property_index ptype cnt access) = A_PropertyDescription_Response_ToPacket obj prop property_index ptype cnt access"
| "APDU_ToPacket junk (A_DeviceDescriptor_Read_PDU ptype) = A_DeviceDescriptor_Read_ToPacket ptype"
| "APDU_ToPacket junk (A_DeviceDescriptor_Response_PDU ptype descriptor) = A_DeviceDescriptor_Response_ToPacket ptype descriptor"
| "APDU_ToPacket junk (A_ADC_Read_PDU channel cnt) = A_ADC_Read_ToPacket channel cnt"
| "APDU_ToPacket junk (A_ADC_Response_PDU channel cnt val) = A_ADC_Response_ToPacket channel cnt val"
| "APDU_ToPacket junk (A_Memory_Read_PDU cnt addr) = A_Memory_Read_ToPacket cnt addr"
| "APDU_ToPacket junk (A_Memory_Response_PDU cnt addr data) = A_Memory_Response_ToPacket cnt addr data"
| "APDU_ToPacket junk (A_Memory_Write_PDU cnt addr data) = A_Memory_Write_ToPacket cnt addr data"
| "APDU_ToPacket junk (A_MemoryBit_Write_PDU cnt addr andmask xormask) = A_MemoryBit_Write_ToPacket cnt addr andmask xormask"
| "APDU_ToPacket junk (A_UserMemory_Read_PDU addr_extension cnt addr) = A_UserMemory_Read_ToPacket addr_extension cnt addr"
| "APDU_ToPacket junk (A_UserMemory_Response_PDU addr_extension cnt addr data) = A_UserMemory_Response_ToPacket addr_extension cnt addr data"
| "APDU_ToPacket junk (A_UserMemory_Write_PDU addr_extension cnt addr data) = A_UserMemory_Write_ToPacket addr_extension cnt addr data"
| "APDU_ToPacket junk (A_UserMemoryBit_Write_PDU addr_extension cnt addr andmask xormask) = A_UserMemoryBit_Write_ToPacket addr_extension cnt addr andmask xormask"
| "APDU_ToPacket junk A_UserManufacturerInfo_Read_PDU = A_UserManufacturerInfo_Read_ToPacket"
| "APDU_ToPacket junk (A_UserManufacturerInfo_Response_PDU manufacturerid mdata) = A_UserManufacturerInfo_Response_ToPacket manufacturerid mdata"
| "APDU_ToPacket junk A_Restart_PDU = A_Restart_ToPacket"
| "APDU_ToPacket junk (A_Authorize_Request_PDU key) = A_Authorize_Request_ToPacket key"
| "APDU_ToPacket junk (A_Authorize_Response_PDU level) = A_Authorize_Response_ToPacket level"
| "APDU_ToPacket junk (A_Key_Write_PDU level key) = A_Key_Write_ToPacket level key"
| "APDU_ToPacket junk (A_Key_Response_PDU level) = A_Key_Response_ToPacket level"

primrec APDU_Decode :: "apdu \<Rightarrow> string option" where
  "APDU_Decode (A_Unknown_PDU pdu) = A_Unknown_Decode pdu"
| "APDU_Decode A_GroupValue_Read_PDU = A_GroupValue_Read_Decode"
| "APDU_Decode (A_GroupValue_Response_PDU issmall data) = A_GroupValue_Response_Decode issmall data"
| "APDU_Decode (A_GroupValue_Write_PDU issmall data) = A_GroupValue_Write_Decode issmall data"
| "APDU_Decode (A_IndividualAddress_Write_PDU addr) = A_IndividualAddress_Write_Decode addr"
| "APDU_Decode A_IndividualAddress_Read_PDU = A_IndividualAddress_Read_Decode"
| "APDU_Decode A_IndividualAddress_Response_PDU = A_IndividualAddress_Response_Decode"
| "APDU_Decode (A_IndividualAddressSerialNumber_Read_PDU serno) = A_IndividualAddressSerialNumber_Read_Decode serno"
| "APDU_Decode (A_IndividualAddressSerialNumber_Response_PDU serno addr) = A_IndividualAddressSerialNumber_Response_Decode serno addr"
| "APDU_Decode (A_IndividualAddressSerialNumber_Write_PDU serno addr) = A_IndividualAddressSerialNumber_Write_Decode serno addr"
| "APDU_Decode (A_ServiceInformation_Indication_Write_PDU verify_mode duplicate_address appl_stopped) = A_ServiceInformation_Indication_Write_Decode verify_mode duplicate_address appl_stopped"
| "APDU_Decode (A_DomainAddress_Write_PDU addr) = A_DomainAddress_Write_Decode addr"
| "APDU_Decode A_DomainAddress_Read_PDU = A_DomainAddress_Read_Decode"
| "APDU_Decode (A_DomainAddress_Response_PDU addr) = A_DomainAddress_Response_Decode addr"
| "APDU_Decode (A_DomainAddressSelective_Read_PDU domainaddr addr rnge) = A_DomainAddressSelective_Read_Decode domainaddr addr rnge"
| "APDU_Decode (A_PropertyValue_Read_PDU obj prop cnt start) = A_PropertyValue_Read_Decode obj prop cnt start"
| "APDU_Decode (A_PropertyValue_Response_PDU obj prop cnt start data) = A_PropertyValue_Response_Decode obj prop cnt start data"
| "APDU_Decode (A_PropertyValue_Write_PDU obj prop cnt start data) = A_PropertyValue_Write_Decode obj prop cnt start data"
| "APDU_Decode (A_PropertyDescription_Read_PDU obj prop property_index) = A_PropertyDescription_Read_Decode obj prop property_index"
| "APDU_Decode (A_PropertyDescription_Response_PDU obj prop property_index ptype cnt access) = A_PropertyDescription_Response_Decode obj prop property_index ptype cnt access"
| "APDU_Decode (A_DeviceDescriptor_Read_PDU ptype) = A_DeviceDescriptor_Read_Decode ptype"
| "APDU_Decode (A_DeviceDescriptor_Response_PDU ptype descriptor) = A_DeviceDescriptor_Response_Decode ptype descriptor"
| "APDU_Decode (A_ADC_Read_PDU channel cnt) = A_ADC_Read_Decode channel cnt"
| "APDU_Decode (A_ADC_Response_PDU channel cnt val) = A_ADC_Response_Decode channel cnt val"
| "APDU_Decode (A_Memory_Read_PDU cnt addr) = A_Memory_Read_Decode cnt addr"
| "APDU_Decode (A_Memory_Response_PDU cnt addr data) = A_Memory_Response_Decode cnt addr data"
| "APDU_Decode (A_Memory_Write_PDU cnt addr data) = A_Memory_Write_Decode cnt addr data"
| "APDU_Decode (A_MemoryBit_Write_PDU cnt addr andmask xormask) = A_MemoryBit_Write_Decode cnt addr andmask xormask"
| "APDU_Decode (A_UserMemory_Read_PDU addr_extension cnt addr) = A_UserMemory_Read_Decode addr_extension cnt addr"
| "APDU_Decode (A_UserMemory_Response_PDU addr_extension cnt addr data) = A_UserMemory_Response_Decode addr_extension cnt addr data"
| "APDU_Decode (A_UserMemory_Write_PDU addr_extension cnt addr data) = A_UserMemory_Write_Decode addr_extension cnt addr data"
| "APDU_Decode (A_UserMemoryBit_Write_PDU addr_extension cnt addr andmask xormask) = A_UserMemoryBit_Write_Decode addr_extension cnt addr andmask xormask"
| "APDU_Decode A_UserManufacturerInfo_Read_PDU = A_UserManufacturerInfo_Read_Decode"
| "APDU_Decode (A_UserManufacturerInfo_Response_PDU manufacturerid mdata) = A_UserManufacturerInfo_Response_Decode manufacturerid mdata"
| "APDU_Decode A_Restart_PDU = A_Restart_Decode"
| "APDU_Decode (A_Authorize_Request_PDU key) = A_Authorize_Request_Decode key"
| "APDU_Decode (A_Authorize_Response_PDU level) = A_Authorize_Response_Decode level"
| "APDU_Decode (A_Key_Write_PDU level key) = A_Key_Write_Decode level key"
| "APDU_Decode (A_Key_Response_PDU level) = A_Key_Response_Decode level"

definition APDU_isResponse :: "apdu \<Rightarrow> apdu \<Rightarrow> bool" where
  "APDU_isResponse a req =
     (case a of
        A_GroupValue_Response_PDU issmall data \<Rightarrow> A_GroupValue_Response_isResponse issmall data req
      | A_IndividualAddress_Response_PDU \<Rightarrow> A_IndividualAddress_Response_isResponse req
      | A_IndividualAddressSerialNumber_Response_PDU serno addr \<Rightarrow> A_IndividualAddressSerialNumber_Response_isResponse serno addr req
      | A_DomainAddress_Response_PDU addr \<Rightarrow> A_DomainAddress_Response_isResponse addr req
      | A_PropertyValue_Response_PDU obj prop cnt start data \<Rightarrow> A_PropertyValue_Response_isResponse obj prop cnt start data req
      | A_PropertyDescription_Response_PDU obj prop property_index ptype cnt access \<Rightarrow> A_PropertyDescription_Response_isResponse obj prop property_index ptype cnt access req
      | A_DeviceDescriptor_Response_PDU ptype descriptor \<Rightarrow> A_DeviceDescriptor_Response_isResponse ptype descriptor req
      | A_ADC_Response_PDU channel cnt val \<Rightarrow> A_ADC_Response_isResponse channel cnt val req
      | A_Memory_Response_PDU cnt addr data \<Rightarrow> A_Memory_Response_isResponse cnt addr data req
      | A_UserMemory_Response_PDU addr_extension cnt addr data \<Rightarrow> A_UserMemory_Response_isResponse addr_extension cnt addr data req
      | A_UserManufacturerInfo_Response_PDU manufacturerid mdata \<Rightarrow> A_UserManufacturerInfo_Response_isResponse manufacturerid mdata req
      | A_Authorize_Response_PDU level \<Rightarrow> A_Authorize_Response_isResponse level req
      | A_Key_Response_PDU level \<Rightarrow> A_Key_Response_isResponse level req
      | _ \<Rightarrow> False)"

section \<open>The parser\<close>

text \<open>The nested \<open>switch\<close>: the class whose \<open>init\<close> the packet is offered to, if any.\<close>

definition APDU_select :: "CArray \<Rightarrow> (CArray \<Rightarrow> apdu option) option" where
  "APDU_select c =
     (let s = c ! 1 AND 0xC0 in
      if c ! 0 AND 0x03 = 0 then
        (if s = 0x00 then Some A_GroupValue_Read_init
         else if s = 0x40 then Some A_GroupValue_Response_init
         else if s = 0x80 then Some A_GroupValue_Write_init
         else if s = 0xC0 then Some A_IndividualAddress_Write_init
         else None)
      else if c ! 0 AND 0x03 = 1 then
        (if s = 0x00 then Some A_IndividualAddress_Read_init
         else if s = 0x40 then Some A_IndividualAddress_Response_init
         else if s = 0x80 then Some A_ADC_Read_init
         else if s = 0xC0 then Some A_ADC_Response_init
         else None)
      else if c ! 0 AND 0x03 = 2 then
        (if s = 0x00 then Some A_Memory_Read_init
         else if s = 0x40 then Some A_Memory_Response_init
         else if s = 0x80 then Some A_Memory_Write_init
         else if s = 0xC0 then
           (if c ! 1 = 0xC0 then Some A_UserMemory_Read_init
            else if c ! 1 = 0xC1 then Some A_UserMemory_Response_init
            else if c ! 1 = 0xC2 then Some A_UserMemory_Write_init
            else if c ! 1 = 0xC4 then Some A_UserMemoryBit_Write_init
            else if c ! 1 = 0xC5 then Some A_UserManufacturerInfo_Read_init
            else if c ! 1 = 0xC6 then Some A_UserManufacturerInfo_Response_init
            else None)
         else None)
      else if c ! 0 AND 0x03 = 3 then
        (if s = 0x00 then Some A_DeviceDescriptor_Read_init
         else if s = 0x40 then Some A_DeviceDescriptor_Response_init
         else if s = 0x80 then Some A_Restart_init
         else if s = 0xC0 then
           (if c ! 1 = 0xD0 then Some A_MemoryBit_Write_init
            else if c ! 1 = 0xD1 then Some A_Authorize_Request_init
            else if c ! 1 = 0xD2 then Some A_Authorize_Response_init
            else if c ! 1 = 0xD3 then Some A_Key_Write_init
            else if c ! 1 = 0xD4 then Some A_Key_Response_init
            else if c ! 1 = 0xD5 then Some A_PropertyValue_Read_init
            else if c ! 1 = 0xD6 then Some A_PropertyValue_Response_init
            else if c ! 1 = 0xD7 then Some A_PropertyValue_Write_init
            else if c ! 1 = 0xD8 then Some A_PropertyDescription_Read_init
            else if c ! 1 = 0xD9 then Some A_PropertyDescription_Response_init
            else if c ! 1 = 0xDC then Some A_IndividualAddressSerialNumber_Read_init
            else if c ! 1 = 0xDD then Some A_IndividualAddressSerialNumber_Response_init
            else if c ! 1 = 0xDE then Some A_IndividualAddressSerialNumber_Write_init
            else if c ! 1 = 0xDF then Some A_ServiceInformation_Indication_Write_init
            else if c ! 1 = 0xE0 then Some A_DomainAddress_Write_init
            else if c ! 1 = 0xE1 then Some A_DomainAddress_Read_init
            else if c ! 1 = 0xE2 then Some A_DomainAddress_Response_init
            else if c ! 1 = 0xE3 then Some A_DomainAddressSelective_Read_init
            else None)
         else None)
      else None)"

definition APDU_fromPacket :: "CArray \<Rightarrow> apdu" where
  "APDU_fromPacket c =
     (case (if length c \<ge> 2 then APDU_select c else None) of
        None \<Rightarrow> A_Unknown_PDU c
      | Some init \<Rightarrow> (case init c of Some a \<Rightarrow> a | None \<Rightarrow> A_Unknown_PDU c))"

lemmas APDU_init_defs =
  A_Unknown_init_def
  A_GroupValue_Read_init_def
  A_GroupValue_Response_init_def
  A_GroupValue_Write_init_def
  A_IndividualAddress_Write_init_def
  A_IndividualAddress_Read_init_def
  A_IndividualAddress_Response_init_def
  A_IndividualAddressSerialNumber_Read_init_def
  A_IndividualAddressSerialNumber_Response_init_def
  A_IndividualAddressSerialNumber_Write_init_def
  A_ServiceInformation_Indication_Write_init_def
  A_DomainAddress_Write_init_def
  A_DomainAddress_Read_init_def
  A_DomainAddress_Response_init_def
  A_DomainAddressSelective_Read_init_def
  A_PropertyValue_Read_init_def
  A_PropertyValue_Response_init_def
  A_PropertyValue_Write_init_def
  A_PropertyDescription_Read_init_def
  A_PropertyDescription_Response_init_def
  A_DeviceDescriptor_Read_init_def
  A_DeviceDescriptor_Response_init_def
  A_ADC_Read_init_def
  A_ADC_Response_init_def
  A_Memory_Read_init_def
  A_Memory_Response_init_def
  A_Memory_Write_init_def
  A_MemoryBit_Write_init_def
  A_UserMemory_Read_init_def
  A_UserMemory_Response_init_def
  A_UserMemory_Write_init_def
  A_UserMemoryBit_Write_init_def
  A_UserManufacturerInfo_Read_init_def
  A_UserManufacturerInfo_Response_init_def
  A_Restart_init_def
  A_Authorize_Request_init_def
  A_Authorize_Response_init_def
  A_Key_Write_init_def
  A_Key_Response_init_def

lemmas APDU_ToPacket_defs =
  A_Unknown_ToPacket_def
  A_GroupValue_Read_ToPacket_def
  A_GroupValue_Response_ToPacket_def
  A_GroupValue_Write_ToPacket_def
  A_IndividualAddress_Write_ToPacket_def
  A_IndividualAddress_Read_ToPacket_def
  A_IndividualAddress_Response_ToPacket_def
  A_IndividualAddressSerialNumber_Read_ToPacket_def
  A_IndividualAddressSerialNumber_Response_ToPacket_def
  A_IndividualAddressSerialNumber_Write_ToPacket_def
  A_ServiceInformation_Indication_Write_ToPacket_def
  A_DomainAddress_Write_ToPacket_def
  A_DomainAddress_Read_ToPacket_def
  A_DomainAddress_Response_ToPacket_def
  A_DomainAddressSelective_Read_ToPacket_def
  A_PropertyValue_Read_ToPacket_def
  A_PropertyValue_Response_ToPacket_def
  A_PropertyValue_Write_ToPacket_def
  A_PropertyDescription_Read_ToPacket_def
  A_PropertyDescription_Response_ToPacket_def
  A_DeviceDescriptor_Read_ToPacket_def
  A_DeviceDescriptor_Response_ToPacket_def
  A_ADC_Read_ToPacket_def
  A_ADC_Response_ToPacket_def
  A_Memory_Read_ToPacket_def
  A_Memory_Response_ToPacket_def
  A_Memory_Write_ToPacket_def
  A_MemoryBit_Write_ToPacket_def
  A_UserMemory_Read_ToPacket_def
  A_UserMemory_Response_ToPacket_def
  A_UserMemory_Write_ToPacket_def
  A_UserMemoryBit_Write_ToPacket_def
  A_UserManufacturerInfo_Read_ToPacket_def
  A_UserManufacturerInfo_Response_ToPacket_def
  A_Restart_ToPacket_def
  A_Authorize_Request_ToPacket_def
  A_Authorize_Response_ToPacket_def
  A_Key_Write_ToPacket_def
  A_Key_Response_ToPacket_def

lemmas APDU_Decode_defs =
  A_Unknown_Decode_def
  A_GroupValue_Read_Decode_def
  A_GroupValue_Response_Decode_def
  A_GroupValue_Write_Decode_def
  A_IndividualAddress_Write_Decode_def
  A_IndividualAddress_Read_Decode_def
  A_IndividualAddress_Response_Decode_def
  A_IndividualAddressSerialNumber_Read_Decode_def
  A_IndividualAddressSerialNumber_Response_Decode_def
  A_IndividualAddressSerialNumber_Write_Decode_def
  A_ServiceInformation_Indication_Write_Decode_def
  A_DomainAddress_Write_Decode_def
  A_DomainAddress_Read_Decode_def
  A_DomainAddress_Response_Decode_def
  A_DomainAddressSelective_Read_Decode_def
  A_PropertyValue_Read_Decode_def
  A_PropertyValue_Response_Decode_def
  A_PropertyValue_Write_Decode_def
  A_PropertyDescription_Read_Decode_def
  A_PropertyDescription_Response_Decode_def
  A_DeviceDescriptor_Read_Decode_def
  A_DeviceDescriptor_Response_Decode_def
  A_ADC_Read_Decode_def
  A_ADC_Response_Decode_def
  A_Memory_Read_Decode_def
  A_Memory_Response_Decode_def
  A_Memory_Write_Decode_def
  A_MemoryBit_Write_Decode_def
  A_UserMemory_Read_Decode_def
  A_UserMemory_Response_Decode_def
  A_UserMemory_Write_Decode_def
  A_UserMemoryBit_Write_Decode_def
  A_UserManufacturerInfo_Read_Decode_def
  A_UserManufacturerInfo_Response_Decode_def
  A_Restart_Decode_def
  A_Authorize_Request_Decode_def
  A_Authorize_Response_Decode_def
  A_Key_Write_Decode_def
  A_Key_Response_Decode_def

end
