(* ===== verification/Tpdu.thy ===== *)
theory Tpdu
  imports Apdu
begin

text \<open>
  Transport layer PDUs, \<open>eibd/libserver/tpdu.cpp\<close> and \<open>tpdu.h\<close>: the class hierarchy below
  \<open>TPDU\<close> as a datatype with the members of each class, and per class \<open>init\<close>, \<open>ToPacket\<close>
  and \<open>Decode\<close> in the shape of theory \<open>Apdu\<close>. The \<open>data\<close> member of the data PDUs is the
  whole packet: its first byte carries transport and application bits together.
\<close>

datatype TPDU_Type =
    T_UNKNOWN | T_DATA_XXX_REQ | T_DATA_CONNECTED_REQ | T_CONNECT_REQ | T_DISCONNECT_REQ | T_ACK | T_NACK

datatype tpdu =
    T_UNKNOWN_PDU CArray
  | T_DATA_XXX_REQ_PDU CArray
  | T_DATA_CONNECTED_REQ_PDU uchar CArray
  | T_CONNECT_REQ_PDU
  | T_DISCONNECT_REQ_PDU
  | T_ACK_PDU uchar
  | T_NACK_PDU uchar

primrec TPDU_getType :: "tpdu \<Rightarrow> TPDU_Type" where
  "TPDU_getType (T_UNKNOWN_PDU pdu) = T_UNKNOWN"
| "TPDU_getType (T_DATA_XXX_REQ_PDU data) = T_DATA_XXX_REQ"
| "TPDU_getType (T_DATA_CONNECTED_REQ_PDU serno data) = T_DATA_CONNECTED_REQ"
| "TPDU_getType T_CONNECT_REQ_PDU = T_CONNECT_REQ"
| "TPDU_getType T_DISCONNECT_REQ_PDU = T_DISCONNECT_REQ"
| "TPDU_getType (T_ACK_PDU serno) = T_ACK"
| "TPDU_getType (T_NACK_PDU serno) = T_NACK"

section \<open>The classes\<close>

definition T_UNKNOWN_init :: "CArray \<Rightarrow> tpdu option" where
  "T_UNKNOWN_init c = Some (T_UNKNOWN_PDU c)"

definition T_UNKNOWN_ToPacket :: "CArray \<Rightarrow> CArray option" where
  "T_UNKNOWN_ToPacket pdu = Some pdu"

definition T_UNKNOWN_Decode :: "CArray \<Rightarrow> string option" where
  "T_UNKNOWN_Decode pdu =
     Some (if length pdu = 0 then ''empty TPDU'' else hex_from ''Unknown TPDU: '' pdu)"

definition T_DATA_XXX_REQ_init :: "CArray \<Rightarrow> tpdu option" where
  "T_DATA_XXX_REQ_init c = (if length c < 1 then None else Some (T_DATA_XXX_REQ_PDU c))"

definition T_DATA_XXX_REQ_ToPacket :: "CArray \<Rightarrow> CArray option" where
  "T_DATA_XXX_REQ_ToPacket data =
     (if \<not> (length data > 0) then None
      else Some (data[0 := data ! 0 AND 0x3]))"

definition T_DATA_XXX_REQ_Decode :: "CArray \<Rightarrow> string option" where
  "T_DATA_XXX_REQ_Decode data =
     map_option (\<lambda>s. ''T_DATA_XXX_REQ '' @ s) (APDU_Decode (APDU_fromPacket data))"

definition T_DATA_CONNECTED_REQ_init :: "CArray \<Rightarrow> tpdu option" where
  "T_DATA_CONNECTED_REQ_init c =
     (if length c < 1 then None
      else Some (T_DATA_CONNECTED_REQ_PDU (drop_bit 2 (c ! 0) AND 0x0F) c))"

definition T_DATA_CONNECTED_REQ_ToPacket :: "uchar \<Rightarrow> CArray \<Rightarrow> CArray option" where
  "T_DATA_CONNECTED_REQ_ToPacket serno data =
     (if \<not> (length data > 0) then None
      else if \<not> (serno AND 0xF0 = 0) then None
      else Some (data[0 := (data ! 0 AND 0x3) OR 0x40 OR push_bit 2 (serno AND 0x0F)]))"

definition T_DATA_CONNECTED_REQ_Decode :: "uchar \<Rightarrow> CArray \<Rightarrow> string option" where
  "T_DATA_CONNECTED_REQ_Decode serno data =
     (if \<not> (serno AND 0xF0 = 0) then None
      else map_option (\<lambda>s. ''T_DATA_CONNECTED_REQ serno:'' @ hex2 serno @ s)
             (APDU_Decode (APDU_fromPacket data)))"

definition T_CONNECT_REQ_init :: "CArray \<Rightarrow> tpdu option" where
  "T_CONNECT_REQ_init c = (if length c \<noteq> 1 then None else Some T_CONNECT_REQ_PDU)"

definition T_CONNECT_REQ_ToPacket :: "CArray option" where
  "T_CONNECT_REQ_ToPacket = Some [0x80]"

definition T_CONNECT_REQ_Decode :: "string option" where
  "T_CONNECT_REQ_Decode = Some ''T_CONNECT_REQ''"

definition T_DISCONNECT_REQ_init :: "CArray \<Rightarrow> tpdu option" where
  "T_DISCONNECT_REQ_init c = (if length c \<noteq> 1 then None else Some T_DISCONNECT_REQ_PDU)"

definition T_DISCONNECT_REQ_ToPacket :: "CArray option" where
  "T_DISCONNECT_REQ_ToPacket = Some [0x81]"

definition T_DISCONNECT_REQ_Decode :: "string option" where
  "T_DISCONNECT_REQ_Decode = Some ''T_DISCONNECT_REQ''"

definition T_ACK_init :: "CArray \<Rightarrow> tpdu option" where
  "T_ACK_init c =
     (if length c \<noteq> 1 then None else Some (T_ACK_PDU (drop_bit 2 (c ! 0) AND 0x0F)))"

definition T_ACK_ToPacket :: "uchar \<Rightarrow> CArray option" where
  "T_ACK_ToPacket serno =
     (if \<not> (serno AND 0xF0 = 0) then None else Some [0xC2 OR push_bit 2 (serno AND 0x0F)])"

definition T_ACK_Decode :: "uchar \<Rightarrow> string option" where
  "T_ACK_Decode serno =
     (if \<not> (serno AND 0xF0 = 0) then None else Some (''T_ACK Serno:'' @ hex2 serno))"

definition T_NACK_init :: "CArray \<Rightarrow> tpdu option" where
  "T_NACK_init c =
     (if length c \<noteq> 1 then None else Some (T_NACK_PDU (drop_bit 2 (c ! 0) AND 0x0F)))"

definition T_NACK_ToPacket :: "uchar \<Rightarrow> CArray option" where
  "T_NACK_ToPacket serno =
     (if \<not> (serno AND 0xF0 = 0) then None else Some [0xC3 OR push_bit 2 (serno AND 0x0F)])"

definition T_NACK_Decode :: "uchar \<Rightarrow> string option" where
  "T_NACK_Decode serno =
     (if \<not> (serno AND 0xF0 = 0) then None else Some (''T_NACK Serno:'' @ hex2 serno))"

section \<open>Dispatch and parser\<close>

primrec TPDU_ToPacket :: "tpdu \<Rightarrow> CArray option" where
  "TPDU_ToPacket (T_UNKNOWN_PDU pdu) = T_UNKNOWN_ToPacket pdu"
| "TPDU_ToPacket (T_DATA_XXX_REQ_PDU data) = T_DATA_XXX_REQ_ToPacket data"
| "TPDU_ToPacket (T_DATA_CONNECTED_REQ_PDU serno data) = T_DATA_CONNECTED_REQ_ToPacket serno data"
| "TPDU_ToPacket T_CONNECT_REQ_PDU = T_CONNECT_REQ_ToPacket"
| "TPDU_ToPacket T_DISCONNECT_REQ_PDU = T_DISCONNECT_REQ_ToPacket"
| "TPDU_ToPacket (T_ACK_PDU serno) = T_ACK_ToPacket serno"
| "TPDU_ToPacket (T_NACK_PDU serno) = T_NACK_ToPacket serno"

primrec TPDU_Decode :: "tpdu \<Rightarrow> string option" where
  "TPDU_Decode (T_UNKNOWN_PDU pdu) = T_UNKNOWN_Decode pdu"
| "TPDU_Decode (T_DATA_XXX_REQ_PDU data) = T_DATA_XXX_REQ_Decode data"
| "TPDU_Decode (T_DATA_CONNECTED_REQ_PDU serno data) = T_DATA_CONNECTED_REQ_Decode serno data"
| "TPDU_Decode T_CONNECT_REQ_PDU = T_CONNECT_REQ_Decode"
| "TPDU_Decode T_DISCONNECT_REQ_PDU = T_DISCONNECT_REQ_Decode"
| "TPDU_Decode (T_ACK_PDU serno) = T_ACK_Decode serno"
| "TPDU_Decode (T_NACK_PDU serno) = T_NACK_Decode serno"

text \<open>
  The chain of tests in \<open>fromPacket\<close>: every test that holds replaces the object of the
  previous one, so the last test that holds decides.
\<close>

definition TPDU_select :: "CArray \<Rightarrow> (CArray \<Rightarrow> tpdu option) option" where
  "TPDU_select c =
     (let t = None;
          t = (if c ! 0 AND 0xFC = 0 then Some T_DATA_XXX_REQ_init else t);
          t = (if c ! 0 = 0x80 then Some T_CONNECT_REQ_init else t);
          t = (if c ! 0 = 0x81 then Some T_DISCONNECT_REQ_init else t);
          t = (if c ! 0 AND 0xC3 = 0xC2 then Some T_ACK_init else t);
          t = (if c ! 0 AND 0xC3 = 0xC3 then Some T_NACK_init else t);
          t = (if c ! 0 AND 0xC0 = 0x40 then Some T_DATA_CONNECTED_REQ_init else t)
      in t)"

definition TPDU_fromPacket :: "CArray \<Rightarrow> tpdu" where
  "TPDU_fromPacket c =
     (case (if length c \<ge> 1 then TPDU_select c else None) of
        None \<Rightarrow> T_UNKNOWN_PDU c
      | Some init \<Rightarrow> (case init c of Some t \<Rightarrow> t | None \<Rightarrow> T_UNKNOWN_PDU c))"

lemmas TPDU_init_defs =
  T_UNKNOWN_init_def T_DATA_XXX_REQ_init_def T_DATA_CONNECTED_REQ_init_def T_CONNECT_REQ_init_def
  T_DISCONNECT_REQ_init_def T_ACK_init_def T_NACK_init_def

lemmas TPDU_ToPacket_defs =
  T_UNKNOWN_ToPacket_def T_DATA_XXX_REQ_ToPacket_def T_DATA_CONNECTED_REQ_ToPacket_def
  T_CONNECT_REQ_ToPacket_def T_DISCONNECT_REQ_ToPacket_def T_ACK_ToPacket_def T_NACK_ToPacket_def

lemmas TPDU_Decode_defs =
  T_UNKNOWN_Decode_def T_DATA_XXX_REQ_Decode_def T_DATA_CONNECTED_REQ_Decode_def
  T_CONNECT_REQ_Decode_def T_DISCONNECT_REQ_Decode_def T_ACK_Decode_def T_NACK_Decode_def

end
