(* ===== verification/Lpdu.thy ===== *)
theory Lpdu
  imports Tpdu
begin

text \<open>
  Link layer frames, \<open>eibd/libserver/lpdu.cpp\<close> and \<open>lpdu.h\<close>. The members of \<open>L_Data_PDU\<close> are
  a record, the classes below \<open>LPDU\<close> a datatype, and per class there are \<open>init\<close>, \<open>ToPacket\<close>
  and \<open>Decode\<close> in the shape of theory \<open>Apdu\<close>. \<open>L_Data_Ind_PDU\<close> and \<open>L_Busmonitor_PDU\<close> are
  never built by the parser: the layers above wrap frames into them. The member \<open>object\<close> of
  the base class, a tag the dispatcher sets, is not part of a PDU here.
\<close>

datatype EIB_Priority = PRIO_LOW | PRIO_NORMAL | PRIO_URGENT | PRIO_SYSTEM

datatype EIB_AddrType = GroupAddress | IndividualAddress

datatype LPDU_Type =
    L_Unknown | L_Data | L_Data_Ind | L_Data_Part | L_ACK | L_NACK | L_BUSY | L_Busmonitor

record l_data =
  prio :: EIB_Priority
  repeated :: bool
  valid_checksum :: bool
  valid_length :: bool
  AddrType :: EIB_AddrType
  source :: eibaddr_t
  dest :: eibaddr_t
  hopcount :: uchar
  data :: CArray

definition L_Data_new :: l_data where
  "L_Data_new = \<lparr>prio = PRIO_LOW, repeated = False, valid_checksum = True, valid_length = True,
     AddrType = IndividualAddress, source = 0, dest = 0, hopcount = 7, data = []\<rparr>"

datatype lpdu =
    L_Unknown_PDU CArray
  | L_Data_PDU l_data
  | L_Busmonitor_PDU CArray uchar "32 word"
  | L_Data_Ind_PDU l_data
  | L_ACK_PDU
  | L_NACK_PDU
  | L_BUSY_PDU

primrec LPDU_getType :: "lpdu \<Rightarrow> LPDU_Type" where
  "LPDU_getType (L_Unknown_PDU pdu) = L_Unknown"
| "LPDU_getType (L_Data_PDU d) = (if valid_length d then L_Data else L_Data_Part)"
| "LPDU_getType (L_Busmonitor_PDU pdu status timestamp) = L_Busmonitor"
| "LPDU_getType (L_Data_Ind_PDU d) = L_Data_Ind"
| "LPDU_getType L_ACK_PDU = L_ACK"
| "LPDU_getType L_NACK_PDU = L_NACK"
| "LPDU_getType L_BUSY_PDU = L_BUSY"

section \<open>L\_NACK, L\_ACK, L\_BUSY, L\_Unknown\<close>

definition L_NACK_init :: "CArray \<Rightarrow> lpdu option" where
  "L_NACK_init c = (if length c \<noteq> 1 then None else Some L_NACK_PDU)"

definition L_NACK_ToPacket :: "CArray option" where
  "L_NACK_ToPacket = Some [0x0C]"

definition L_NACK_Decode :: "string option" where
  "L_NACK_Decode = Some ''NACK''"

definition L_ACK_init :: "CArray \<Rightarrow> lpdu option" where
  "L_ACK_init c = (if length c \<noteq> 1 then None else Some L_ACK_PDU)"

definition L_ACK_ToPacket :: "CArray option" where
  "L_ACK_ToPacket = Some [0xCC]"

definition L_ACK_Decode :: "string option" where
  "L_ACK_Decode = Some ''ACK''"

definition L_BUSY_init :: "CArray \<Rightarrow> lpdu option" where
  "L_BUSY_init c = (if length c \<noteq> 1 then None else Some L_BUSY_PDU)"

definition L_BUSY_ToPacket :: "CArray option" where
  "L_BUSY_ToPacket = Some [0xC0]"

definition L_BUSY_Decode :: "string option" where
  "L_BUSY_Decode = Some ''BUSY''"

definition L_Unknown_init :: "CArray \<Rightarrow> lpdu option" where
  "L_Unknown_init c = Some (L_Unknown_PDU c)"

definition L_Unknown_ToPacket :: "CArray \<Rightarrow> CArray option" where
  "L_Unknown_ToPacket pdu = Some pdu"

definition L_Unknown_Decode :: "CArray \<Rightarrow> string option" where
  "L_Unknown_Decode pdu =
     Some (if length pdu = 0 then ''empty LPDU'' else hex_from ''Unknown LPDU: '' pdu)"

section \<open>L\_Data\<close>

text \<open>\<open>for (i = 0; i < c () - 1; i++) c1 ^= c[i];\<close> started with zero, on a nonempty array.\<close>

definition xor_but_last :: "CArray \<Rightarrow> uchar" where
  "xor_but_last c = foldl (XOR) 0 (butlast c)"

text \<open>The two \<open>switch\<close>es over the priority, of \<open>init\<close> and of \<open>ToPacket\<close>.\<close>

definition EIB_Priority_read :: "uchar \<Rightarrow> EIB_Priority" where
  "EIB_Priority_read k =
     (if k = 0 then PRIO_SYSTEM else if k = 1 then PRIO_URGENT else if k = 2 then PRIO_NORMAL else PRIO_LOW)"

definition EIB_Priority_bits :: "EIB_Priority \<Rightarrow> uchar" where
  "EIB_Priority_bits p =
     (case p of PRIO_LOW \<Rightarrow> 0x3 | PRIO_NORMAL \<Rightarrow> 0x1 | PRIO_URGENT \<Rightarrow> 0x2 | PRIO_SYSTEM \<Rightarrow> 0x0)"

definition L_Data_init :: "CArray \<Rightarrow> l_data option" where
  "L_Data_init c =
     (if length c < 6 then None
      else if c ! 0 AND 0x53 \<noteq> 0x10 then None
      else
        let repeated = (c ! 0 AND 0x20 = 0);
            pr = drop_bit 2 (c ! 0) AND 0x3;
            prio = EIB_Priority_read pr;
            valid_checksum = (c ! (length c - 1) = NOT (xor_but_last c))
        in if c ! 0 AND 0x80 \<noteq> 0 then
             (let len = unat (c ! 5 AND 0x0f) + 1
              in if len + 7 \<noteq> length c then None
                 else Some \<lparr>prio = prio, repeated = repeated, valid_checksum = valid_checksum,
                        valid_length = True,
                        AddrType = (if c ! 5 AND 0x80 \<noteq> 0 then GroupAddress else IndividualAddress),
                        source = mk16 (c ! 1) (c ! 2), dest = mk16 (c ! 3) (c ! 4),
                        hopcount = drop_bit 4 (c ! 5) AND 0x07,
                        data = take len (drop 6 c)\<rparr>)
           else if c ! 1 AND 0x0f \<noteq> 0 then None
           else if length c < 7 then None
           else
             (let len = unat (c ! 6) + 1;
                  frame = (\<lambda>valid_length data.
                    \<lparr>prio = prio, repeated = repeated, valid_checksum = valid_checksum,
                     valid_length = valid_length,
                     AddrType = (if c ! 1 AND 0x80 \<noteq> 0 then GroupAddress else IndividualAddress),
                     source = mk16 (c ! 2) (c ! 3), dest = mk16 (c ! 4) (c ! 5),
                     hopcount = drop_bit 4 (c ! 1) AND 0x07, data = data\<rparr>)
              in if len + 8 \<noteq> length c then
                   if length c = 23 then Some (frame False (take 8 (drop 7 c))) else None
                 else Some (frame True (take len (drop 7 c)))))"

text \<open>The \<open>assert\<close>s at the start of \<open>ToPacket\<close> and of \<open>Decode\<close>.\<close>

definition L_Data_asserts :: "l_data \<Rightarrow> bool" where
  "L_Data_asserts d \<longleftrightarrow> length (data d) \<ge> 1 \<and> length (data d) \<le> 0xff \<and> hopcount d AND 0xf8 = 0"

text \<open>The bytes before the payload: six in a standard frame, seven in an extended one.\<close>

definition L_Data_standard_header :: "l_data \<Rightarrow> CArray" where
  "L_Data_standard_header d =
     [0x90 OR push_bit 2 (EIB_Priority_bits (prio d)) OR (if repeated d then 0x00 else 0x20),
      hi8 (source d), lo8 (source d), hi8 (dest d), lo8 (dest d),
      push_bit 4 (hopcount d AND 0x07) OR (of_nat (length (data d) - 1) AND 0x0f)
        OR (if AddrType d = GroupAddress then 0x80 else 0x00)]"

definition L_Data_extended_header :: "l_data \<Rightarrow> CArray" where
  "L_Data_extended_header d =
     [0x10 OR push_bit 2 (EIB_Priority_bits (prio d)) OR (if repeated d then 0x00 else 0x20),
      push_bit 4 (hopcount d AND 0x07) OR (if AddrType d = GroupAddress then 0x80 else 0x00),
      hi8 (source d), lo8 (source d), hi8 (dest d), lo8 (dest d),
      of_nat (length (data d) - 1) AND 0xff]"

definition L_Data_ToPacket :: "l_data \<Rightarrow> CArray option" where
  "L_Data_ToPacket d =
     (if \<not> L_Data_asserts d then None
      else
        let header = (if length (data d) - 1 \<le> 0x0f then L_Data_standard_header d
                      else L_Data_extended_header d);
            pdu = header @ data d @ [0]
        in Some (pdu[length pdu - 1 := NOT (xor_but_last pdu)]))"

definition L_Data_Decode :: "l_data \<Rightarrow> string option" where
  "L_Data_Decode d =
     (if \<not> L_Data_asserts d then None
      else map_option (\<lambda>t.
        ''L_Data'' @ (if \<not> valid_length d then '' (incomplete)'' else '''')
        @ (if repeated d then '' (repeated)'' else '''')
        @ (case prio d of PRIO_LOW \<Rightarrow> '' low'' | PRIO_NORMAL \<Rightarrow> '' normal''
             | PRIO_URGENT \<Rightarrow> '' urgent'' | PRIO_SYSTEM \<Rightarrow> '' system'')
        @ (if \<not> valid_checksum d then '' INVALID CHECKSUM'' else '''')
        @ '' from '' @ FormatEIBAddr (source d) @ '' to ''
        @ (if AddrType d = GroupAddress then FormatGroupAddr (dest d) else FormatEIBAddr (dest d))
        @ '' hops: '' @ hex2 (hopcount d) @ t)
        (TPDU_Decode (TPDU_fromPacket (data d))))"

section \<open>Dispatch and parser\<close>

definition LPDU_select :: "CArray \<Rightarrow> (CArray \<Rightarrow> lpdu option) option" where
  "LPDU_select c =
     (let l = None;
          l = (if c ! 0 = 0xCC then Some L_ACK_init else l);
          l = (if c ! 0 = 0xC0 then Some L_BUSY_init else l);
          l = (if c ! 0 = 0x0C then Some L_NACK_init else l);
          l = (if c ! 0 AND 0x53 = 0x10 then Some (\<lambda>c. map_option L_Data_PDU (L_Data_init c)) else l)
      in l)"

definition LPDU_fromPacket :: "CArray \<Rightarrow> lpdu" where
  "LPDU_fromPacket c =
     (case (if length c \<ge> 1 then LPDU_select c else None) of
        None \<Rightarrow> L_Unknown_PDU c
      | Some init \<Rightarrow> (case init c of Some l \<Rightarrow> l | None \<Rightarrow> L_Unknown_PDU c))"

definition L_Busmonitor_new :: lpdu where
  "L_Busmonitor_new = L_Busmonitor_PDU [] 0 0"

definition L_Busmonitor_ToPacket :: "CArray \<Rightarrow> CArray option" where
  "L_Busmonitor_ToPacket pdu = Some pdu"

primrec LPDU_ToPacket :: "lpdu \<Rightarrow> CArray option" where
  "LPDU_ToPacket (L_Unknown_PDU pdu) = L_Unknown_ToPacket pdu"
| "LPDU_ToPacket (L_Data_PDU d) = L_Data_ToPacket d"
| "LPDU_ToPacket (L_Busmonitor_PDU pdu status timestamp) = L_Busmonitor_ToPacket pdu"
| "LPDU_ToPacket (L_Data_Ind_PDU d) = L_Data_ToPacket d"
| "LPDU_ToPacket L_ACK_PDU = L_ACK_ToPacket"
| "LPDU_ToPacket L_NACK_PDU = L_NACK_ToPacket"
| "LPDU_ToPacket L_BUSY_PDU = L_BUSY_ToPacket"

text \<open>
  \<open>L_Busmonitor_PDU::Decode\<close> decodes the frame it carries; the parser never returns a second
  busmonitor frame, so the frame inside is decoded by the function for the other classes.
\<close>

primrec LPDU_Decode_frame :: "lpdu \<Rightarrow> string option" where
  "LPDU_Decode_frame (L_Unknown_PDU pdu) = L_Unknown_Decode pdu"
| "LPDU_Decode_frame (L_Data_PDU d) = L_Data_Decode d"
| "LPDU_Decode_frame (L_Busmonitor_PDU pdu status timestamp) = None"
| "LPDU_Decode_frame (L_Data_Ind_PDU d) = L_Data_Decode d"
| "LPDU_Decode_frame L_ACK_PDU = L_ACK_Decode"
| "LPDU_Decode_frame L_NACK_PDU = L_NACK_Decode"
| "LPDU_Decode_frame L_BUSY_PDU = L_BUSY_Decode"

definition L_Busmonitor_Decode :: "CArray \<Rightarrow> string option" where
  "L_Busmonitor_Decode pdu =
     (if length pdu = 0 then Some ''empty LPDU''
      else map_option (\<lambda>s. hex_from ''LPDU: '' pdu @ '':'' @ s) (LPDU_Decode_frame (LPDU_fromPacket pdu)))"

definition LPDU_Decode :: "lpdu \<Rightarrow> string option" where
  "LPDU_Decode l =
     (case l of L_Busmonitor_PDU pdu _ _ \<Rightarrow> L_Busmonitor_Decode pdu | _ \<Rightarrow> LPDU_Decode_frame l)"

end
