(* ===== verification/Codec.thy ===== *)
theory Codec
  imports Base
begin

text \<open>
  The contract between a protocol layer and the codec of the layer above it: what
  \<open>ToPacket\<close> and \<open>fromPacket\<close> of a PDU hierarchy promise. An encoder may abort (\<open>None\<close>, a
  failed \<open>assert\<close>); \<open>ok\<close> says for which PDUs it must not. Theories \<open>ApduCodec\<close>,
  \<open>TpduCodec\<close> and \<open>LpduCodec\<close> interpret the locales on the models of the three hierarchies.
\<close>

text \<open>Encoding one PDU after the other; aborts with the first one that aborts.\<close>

fun encode_all :: "('p \<Rightarrow> CArray option) \<Rightarrow> 'p list \<Rightarrow> CArray list option" where
  "encode_all enc [] = Some []"
| "encode_all enc (p # ps) =
     (case enc p of None \<Rightarrow> None | Some c \<Rightarrow> map_option ((#) c) (encode_all enc ps))"

locale pdu_codec =
  fixes enc :: "'p \<Rightarrow> CArray option"
    and dec :: "CArray \<Rightarrow> 'p"
    and ok :: "'p \<Rightarrow> bool"
  assumes enc_total: "ok p \<Longrightarrow> \<exists>c. enc p = Some c"
    and dec_enc: "ok p \<Longrightarrow> enc p = Some c \<Longrightarrow> dec c = p"
begin

lemma enc_dec: "ok p \<Longrightarrow> \<exists>c. enc p = Some c \<and> dec c = p"
  using enc_total dec_enc by blast

lemma enc_injective: "ok p \<Longrightarrow> ok q \<Longrightarrow> enc p = enc q \<Longrightarrow> p = q"
  using enc_total dec_enc by metis

lemma stream: "\<forall>p \<in> set ps. ok p \<Longrightarrow> \<exists>cs. encode_all enc ps = Some cs \<and> map dec cs = ps"
proof (induction ps)
  case Nil
  then show ?case by simp
next
  case (Cons p ps)
  then obtain c cs where "enc p = Some c" "dec c = p" "encode_all enc ps = Some cs" "map dec cs = ps"
    using enc_dec [of p] by auto
  then show ?case by simp
qed

end

text \<open>A codec whose parser only yields PDUs that can be sent again.\<close>

locale closed_codec = pdu_codec +
  assumes dec_ok: "ok (dec c)"
begin

lemma reencode: "\<exists>c'. enc (dec c) = Some c' \<and> dec c' = dec c"
  using enc_dec [OF dec_ok] by blast

end

text \<open>A codec that loses no bit: sending a received PDU again gives the received packet.\<close>

locale exact_codec = closed_codec +
  assumes exact: "enc (dec c) = Some c"
begin

lemma dec_injective: "dec c = dec c' \<Longrightarrow> c = c'"
  using exact by (metis option.inject)

lemma enc_surjective: "\<exists>p. ok p \<and> enc p = Some c"
  using exact dec_ok by blast

end

end
