(* ===== verification/ApduCodec.thy ===== *)
theory ApduCodec
  imports Apdu Codec
begin

text \<open>
  What the application layer codec guarantees: which PDUs a program may encode
  (\<open>apdu_ok\<close>), that the parser yields only such PDUs, the round trip for the classes whose
  encoder is right, and what the other encoders produce instead.
\<close>

section \<open>Masks\<close>

lemmas mask_and_simps = bit.conj_disj_distrib2 and.assoc

lemma and_all_ones8: "x AND 0xFF = x" for x :: uchar
proof -
  have "(0xFF :: uchar) = -1" by simp
  then show ?thesis by (simp only: and.right_neutral)
qed

lemma and_all_ones16: "x AND 0xFFFF = x" for x :: "16 word"
proof -
  have "(0xFFFF :: 16 word) = -1" by simp
  then show ?thesis by (simp only: and.right_neutral)
qed

lemma keep_low6: "x AND 0xC0 = 0 \<Longrightarrow> x AND 0x3F = x" for x :: uchar
proof -
  assume "x AND 0xC0 = 0"
  moreover have "x = (x AND 0xC0) OR (x AND 0x3F)"
    by (simp add: and_all_ones8 flip: bit.conj_disj_distrib)
  ultimately show ?thesis by simp
qed

lemma keep_low4: "x AND 0xF0 = 0 \<Longrightarrow> x AND 0x0F = x" for x :: uchar
proof -
  assume "x AND 0xF0 = 0"
  moreover have "x = (x AND 0xF0) OR (x AND 0x0F)"
    by (simp add: and_all_ones8 flip: bit.conj_disj_distrib)
  ultimately show ?thesis by simp
qed

lemma low4_low6: "x AND 0xF0 = 0 \<Longrightarrow> x AND 0xC0 = 0" for x :: uchar
proof -
  assume "x AND 0xF0 = 0"
  then have "(x AND 0xF0) AND 0xC0 = 0" by simp
  then show ?thesis by (simp add: and.assoc)
qed

lemma mask4_eq: "(0xF :: 'a::len word) = mask 4"
  by (simp add: mask_eq_exp_minus_1)

lemma push4_low [simp]: "push_bit 4 x AND 0xF = 0" for x :: uchar
  unfolding mask4_eq by (rule bit_word_eqI) (auto simp: bit_simps)

lemma drop_push4: "x AND 0xF0 = 0 \<Longrightarrow> drop_bit 4 (push_bit 4 x) AND 0xF = x" for x :: uchar
proof -
  assume "x AND 0xF0 = 0"
  then have x: "x AND mask 4 = x" using keep_low4 [of x] by (simp add: mask4_eq)
  have "drop_bit 4 (push_bit 4 (x AND mask 4)) AND mask 4 = x AND mask 4"
    by (rule bit_word_eqI) (auto simp: bit_simps)
  then show ?thesis by (simp add: x mask4_eq)
qed

lemma drop4_low: "x AND 0xF0 = 0 \<Longrightarrow> drop_bit 4 x AND 0xF = 0" for x :: uchar
proof -
  assume "x AND 0xF0 = 0"
  then have x: "x AND mask 4 = x" using keep_low4 [of x] by (simp add: mask4_eq)
  have "drop_bit 4 (x AND mask 4) AND mask 4 = 0"
    by (rule bit_word_eqI) (auto simp: bit_simps)
  then show ?thesis by (simp add: x mask4_eq)
qed

lemma mk16_12bit: "start AND 0xF000 = 0 \<Longrightarrow> mk16 (hi8 start AND 0x0F) (lo8 start) = start"
proof -
  assume z: "start AND 0xF000 = 0"
  have "start = (start AND 0xF000) OR (start AND 0x0FFF)"
    by (simp add: and_all_ones16 flip: bit.conj_disj_distrib)
  then have "start = start AND 0x0FFF" using z by simp
  moreover have "(0x0FFF :: 16 word) = mask 12" by (simp add: mask_eq_exp_minus_1)
  ultimately have s: "start = start AND mask 12" by simp
  have "mk16 (hi8 (start AND mask 12) AND 0x0F) (lo8 (start AND mask 12)) = start AND mask 12"
    unfolding mk16_def hi8_def lo8_def mask4_eq mask8_eq
    by (rule bit_word_eqI) (auto simp: bit_simps)
  then show ?thesis by (simp flip: s)
qed

lemma mk16_nibble_high: "mk16 (h AND 0x0F) l AND 0xF000 = 0"
proof -
  have m: "(0xF000 :: 16 word) = push_bit 12 (mask 4)" by (simp add: mask_eq_exp_minus_1)
  show ?thesis unfolding m mk16_def mask4_eq
    by (rule bit_word_eqI) (auto simp: bit_simps)
qed

lemmas codec_masks = mask_and_simps keep_low6 keep_low4 low4_low6 drop_push4 drop4_low mk16_12bit mk16_nibble_high

section \<open>PDUs a program may encode\<close>

text \<open>
  The conditions the encoders \<open>assert\<close>, the length of serial numbers, and, for group values,
  that a value sent after the two header bytes has at least one byte: an empty one would be
  read back as a value in the header. An unknown PDU is one the parser does not recognise.
\<close>

definition apdu_ok :: "apdu \<Rightarrow> bool" where
  "apdu_ok a =
     (case a of
        A_Unknown_PDU pdu \<Rightarrow> APDU_fromPacket pdu = A_Unknown_PDU pdu
      | A_GroupValue_Response_PDU issmall data \<Rightarrow>
          (if issmall then length data = 1 \<and> data ! 0 AND 0xC0 = 0 else data \<noteq> [])
      | A_GroupValue_Write_PDU issmall data \<Rightarrow>
          (if issmall then length data = 1 \<and> data ! 0 AND 0xC0 = 0 else data \<noteq> [])
      | A_IndividualAddressSerialNumber_Read_PDU serno \<Rightarrow> length serno = 6
      | A_IndividualAddressSerialNumber_Response_PDU serno _ \<Rightarrow> length serno = 6
      | A_IndividualAddressSerialNumber_Write_PDU serno _ \<Rightarrow> length serno = 6
      | A_PropertyValue_Read_PDU _ _ cnt start \<Rightarrow> cnt AND 0xF0 = 0 \<and> start AND 0xF000 = 0
      | A_PropertyValue_Response_PDU _ _ cnt start _ \<Rightarrow> cnt AND 0xF0 = 0 \<and> start AND 0xF000 = 0
      | A_PropertyValue_Write_PDU _ _ cnt start _ \<Rightarrow> cnt AND 0xF0 = 0 \<and> start AND 0xF000 = 0
      | A_DeviceDescriptor_Read_PDU ptype \<Rightarrow> ptype AND 0xC0 = 0
      | A_DeviceDescriptor_Response_PDU ptype _ \<Rightarrow> ptype AND 0xC0 = 0
      | A_ADC_Read_PDU channel _ \<Rightarrow> channel AND 0xC0 = 0
      | A_ADC_Response_PDU channel _ _ \<Rightarrow> channel AND 0xC0 = 0
      | A_Memory_Read_PDU cnt _ \<Rightarrow> cnt AND 0xF0 = 0
      | A_Memory_Response_PDU cnt _ data \<Rightarrow> cnt AND 0xF0 = 0 \<and> length data = unat cnt
      | A_Memory_Write_PDU cnt _ data \<Rightarrow> cnt AND 0xF0 = 0 \<and> length data = unat cnt
      | A_MemoryBit_Write_PDU cnt _ andmask xormask \<Rightarrow>
          length andmask = unat cnt \<and> length xormask = unat cnt
      | A_UserMemory_Read_PDU ext cnt _ \<Rightarrow> cnt AND 0xF0 = 0 \<and> ext AND 0xF0 = 0
      | A_UserMemory_Response_PDU ext cnt _ data \<Rightarrow>
          cnt AND 0xF0 = 0 \<and> ext AND 0xF0 = 0 \<and> length data = unat cnt
      | A_UserMemory_Write_PDU ext cnt _ data \<Rightarrow>
          cnt AND 0xF0 = 0 \<and> ext AND 0xF0 = 0 \<and> length data = unat cnt
      | A_UserMemoryBit_Write_PDU ext cnt _ andmask xormask \<Rightarrow>
          ext = 0 \<and> length andmask = unat cnt \<and> length xormask = unat cnt
      | _ \<Rightarrow> True)"

text \<open>The PDUs whose \<open>ToPacket\<close> writes something else than \<open>init\<close> reads.\<close>

definition apdu_misencoded :: "apdu \<Rightarrow> bool" where
  "apdu_misencoded a =
     (case a of
        A_IndividualAddressSerialNumber_Write_PDU _ _ \<Rightarrow> True
      | A_DomainAddressSelective_Read_PDU _ _ _ \<Rightarrow> True
      | A_DeviceDescriptor_Response_PDU _ _ \<Rightarrow> True
      | A_ServiceInformation_Indication_Write_PDU _ duplicate_address _ \<Rightarrow> duplicate_address
      | _ \<Rightarrow> False)"

lemma apdu_ok_encodes: "apdu_ok a \<Longrightarrow> \<exists>p. APDU_ToPacket junk a = Some p"
  by (cases a) (simp_all add: apdu_ok_def APDU_ToPacket_defs split: if_splits)

lemma apdu_ok_decodes: "apdu_ok a \<Longrightarrow> \<exists>s. APDU_Decode a = Some s"
  by (cases a) (simp_all add: apdu_ok_def APDU_Decode_defs split: if_splits)

section \<open>The round trip\<close>

lemma drop5_add: "drop (5 + n) (a # b # c # d # e # xs) = drop n xs"
  by (simp add: eval_nat_numeral)

text \<open>The classes the parser selects by the two top bits of the second byte alone.\<close>

lemma APDU_select_short:
  "c ! 0 AND 0x03 = 0 \<Longrightarrow> c ! 1 AND 0xC0 = 0x00 \<Longrightarrow> APDU_select c = Some A_GroupValue_Read_init"
  "c ! 0 AND 0x03 = 0 \<Longrightarrow> c ! 1 AND 0xC0 = 0x40 \<Longrightarrow> APDU_select c = Some A_GroupValue_Response_init"
  "c ! 0 AND 0x03 = 0 \<Longrightarrow> c ! 1 AND 0xC0 = 0x80 \<Longrightarrow> APDU_select c = Some A_GroupValue_Write_init"
  "c ! 0 AND 0x03 = 0 \<Longrightarrow> c ! 1 AND 0xC0 = 0xC0 \<Longrightarrow> APDU_select c = Some A_IndividualAddress_Write_init"
  "c ! 0 AND 0x03 = 1 \<Longrightarrow> c ! 1 AND 0xC0 = 0x00 \<Longrightarrow> APDU_select c = Some A_IndividualAddress_Read_init"
  "c ! 0 AND 0x03 = 1 \<Longrightarrow> c ! 1 AND 0xC0 = 0x40 \<Longrightarrow> APDU_select c = Some A_IndividualAddress_Response_init"
  "c ! 0 AND 0x03 = 1 \<Longrightarrow> c ! 1 AND 0xC0 = 0x80 \<Longrightarrow> APDU_select c = Some A_ADC_Read_init"
  "c ! 0 AND 0x03 = 1 \<Longrightarrow> c ! 1 AND 0xC0 = 0xC0 \<Longrightarrow> APDU_select c = Some A_ADC_Response_init"
  "c ! 0 AND 0x03 = 2 \<Longrightarrow> c ! 1 AND 0xC0 = 0x00 \<Longrightarrow> APDU_select c = Some A_Memory_Read_init"
  "c ! 0 AND 0x03 = 2 \<Longrightarrow> c ! 1 AND 0xC0 = 0x40 \<Longrightarrow> APDU_select c = Some A_Memory_Response_init"
  "c ! 0 AND 0x03 = 2 \<Longrightarrow> c ! 1 AND 0xC0 = 0x80 \<Longrightarrow> APDU_select c = Some A_Memory_Write_init"
  "c ! 0 AND 0x03 = 3 \<Longrightarrow> c ! 1 AND 0xC0 = 0x00 \<Longrightarrow> APDU_select c = Some A_DeviceDescriptor_Read_init"
  "c ! 0 AND 0x03 = 3 \<Longrightarrow> c ! 1 AND 0xC0 = 0x40 \<Longrightarrow> APDU_select c = Some A_DeviceDescriptor_Response_init"
  "c ! 0 AND 0x03 = 3 \<Longrightarrow> c ! 1 AND 0xC0 = 0x80 \<Longrightarrow> APDU_select c = Some A_Restart_init"
  by (simp_all add: APDU_select_def)

text \<open>The classes selected by the whole second byte.\<close>

lemma APDU_select_escape:
  "c ! 0 AND 0x03 = 2 \<Longrightarrow> c ! 1 = 0xC0 \<Longrightarrow> APDU_select c = Some A_UserMemory_Read_init"
  "c ! 0 AND 0x03 = 2 \<Longrightarrow> c ! 1 = 0xC1 \<Longrightarrow> APDU_select c = Some A_UserMemory_Response_init"
  "c ! 0 AND 0x03 = 2 \<Longrightarrow> c ! 1 = 0xC2 \<Longrightarrow> APDU_select c = Some A_UserMemory_Write_init"
  "c ! 0 AND 0x03 = 2 \<Longrightarrow> c ! 1 = 0xC4 \<Longrightarrow> APDU_select c = Some A_UserMemoryBit_Write_init"
  "c ! 0 AND 0x03 = 2 \<Longrightarrow> c ! 1 = 0xC5 \<Longrightarrow> APDU_select c = Some A_UserManufacturerInfo_Read_init"
  "c ! 0 AND 0x03 = 2 \<Longrightarrow> c ! 1 = 0xC6 \<Longrightarrow> APDU_select c = Some A_UserManufacturerInfo_Response_init"
  "c ! 0 AND 0x03 = 3 \<Longrightarrow> c ! 1 = 0xD0 \<Longrightarrow> APDU_select c = Some A_MemoryBit_Write_init"
  "c ! 0 AND 0x03 = 3 \<Longrightarrow> c ! 1 = 0xD1 \<Longrightarrow> APDU_select c = Some A_Authorize_Request_init"
  "c ! 0 AND 0x03 = 3 \<Longrightarrow> c ! 1 = 0xD2 \<Longrightarrow> APDU_select c = Some A_Authorize_Response_init"
  "c ! 0 AND 0x03 = 3 \<Longrightarrow> c ! 1 = 0xD3 \<Longrightarrow> APDU_select c = Some A_Key_Write_init"
  "c ! 0 AND 0x03 = 3 \<Longrightarrow> c ! 1 = 0xD4 \<Longrightarrow> APDU_select c = Some A_Key_Response_init"
  "c ! 0 AND 0x03 = 3 \<Longrightarrow> c ! 1 = 0xD5 \<Longrightarrow> APDU_select c = Some A_PropertyValue_Read_init"
  "c ! 0 AND 0x03 = 3 \<Longrightarrow> c ! 1 = 0xD6 \<Longrightarrow> APDU_select c = Some A_PropertyValue_Response_init"
  "c ! 0 AND 0x03 = 3 \<Longrightarrow> c ! 1 = 0xD7 \<Longrightarrow> APDU_select c = Some A_PropertyValue_Write_init"
  "c ! 0 AND 0x03 = 3 \<Longrightarrow> c ! 1 = 0xD8 \<Longrightarrow> APDU_select c = Some A_PropertyDescription_Read_init"
  "c ! 0 AND 0x03 = 3 \<Longrightarrow> c ! 1 = 0xD9 \<Longrightarrow> APDU_select c = Some A_PropertyDescription_Response_init"
  "c ! 0 AND 0x03 = 3 \<Longrightarrow> c ! 1 = 0xDC \<Longrightarrow> APDU_select c = Some A_IndividualAddressSerialNumber_Read_init"
  "c ! 0 AND 0x03 = 3 \<Longrightarrow> c ! 1 = 0xDD \<Longrightarrow> APDU_select c = Some A_IndividualAddressSerialNumber_Response_init"
  "c ! 0 AND 0x03 = 3 \<Longrightarrow> c ! 1 = 0xDE \<Longrightarrow> APDU_select c = Some A_IndividualAddressSerialNumber_Write_init"
  "c ! 0 AND 0x03 = 3 \<Longrightarrow> c ! 1 = 0xDF \<Longrightarrow> APDU_select c = Some A_ServiceInformation_Indication_Write_init"
  "c ! 0 AND 0x03 = 3 \<Longrightarrow> c ! 1 = 0xE0 \<Longrightarrow> APDU_select c = Some A_DomainAddress_Write_init"
  "c ! 0 AND 0x03 = 3 \<Longrightarrow> c ! 1 = 0xE1 \<Longrightarrow> APDU_select c = Some A_DomainAddress_Read_init"
  "c ! 0 AND 0x03 = 3 \<Longrightarrow> c ! 1 = 0xE2 \<Longrightarrow> APDU_select c = Some A_DomainAddress_Response_init"
  "c ! 0 AND 0x03 = 3 \<Longrightarrow> c ! 1 = 0xE3 \<Longrightarrow> APDU_select c = Some A_DomainAddressSelective_Read_init"
  by (simp_all add: APDU_select_def)

lemma A_GroupValue_Response_small:
  "d AND 0xC0 = 0 \<Longrightarrow> APDU_fromPacket [0, 0x40 OR (d AND 0x3F)] = A_GroupValue_Response_PDU True [d]"
  by (simp add: APDU_fromPacket_def APDU_select_short A_GroupValue_Response_init_def codec_masks drop5_add)

lemma A_GroupValue_Write_small:
  "d AND 0xC0 = 0 \<Longrightarrow> APDU_fromPacket [0, 0x80 OR (d AND 0x3F)] = A_GroupValue_Write_PDU True [d]"
  by (simp add: APDU_fromPacket_def APDU_select_short A_GroupValue_Write_init_def codec_masks drop5_add)

lemma A_GroupValue_Response_large:
  "data \<noteq> [] \<Longrightarrow> APDU_fromPacket (0 # 0x40 # data) = A_GroupValue_Response_PDU False data"
  by (simp add: APDU_fromPacket_def APDU_select_short A_GroupValue_Response_init_def)

lemma A_GroupValue_Write_large:
  "data \<noteq> [] \<Longrightarrow> APDU_fromPacket (0 # 0x80 # data) = A_GroupValue_Write_PDU False data"
  by (simp add: APDU_fromPacket_def APDU_select_short A_GroupValue_Write_init_def)

lemma group_value_roundtrip:
  assumes "if issmall then length data = 1 \<and> data ! 0 AND 0xC0 = 0 else data \<noteq> []"
  shows "A_GroupValue_Response_ToPacket issmall data = Some p \<Longrightarrow> APDU_fromPacket p = A_GroupValue_Response_PDU issmall data"
    and "A_GroupValue_Write_ToPacket issmall data = Some p \<Longrightarrow> APDU_fromPacket p = A_GroupValue_Write_PDU issmall data"
proof -
  consider d where "issmall" "data = [d]" "d AND 0xC0 = 0" | "\<not> issmall" "data \<noteq> []"
    using assms by (cases issmall; cases data) auto
  then show "A_GroupValue_Response_ToPacket issmall data = Some p \<Longrightarrow> APDU_fromPacket p = A_GroupValue_Response_PDU issmall data"
    and "A_GroupValue_Write_ToPacket issmall data = Some p \<Longrightarrow> APDU_fromPacket p = A_GroupValue_Write_PDU issmall data"
    by (cases; auto simp: A_GroupValue_Response_ToPacket_def A_GroupValue_Write_ToPacket_def
        A_GroupValue_Response_small A_GroupValue_Write_small A_GroupValue_Response_large A_GroupValue_Write_large)+
qed

lemma service_information_parse:
  "APDU_fromPacket [3, 0xDF, x, 0, 0] = A_ServiceInformation_Indication_Write_PDU (x AND 4 \<noteq> 0) False (x AND 1 \<noteq> 0)"
  by (simp add: APDU_fromPacket_def APDU_select_escape A_ServiceInformation_Indication_Write_init_def)

lemma service_information_packet:
  "A_ServiceInformation_Indication_Write_ToPacket v d a = Some p \<Longrightarrow>
   p = [3, 0xDF, (if v then 4 else 0) OR (if d then 2 else 0) OR (if a then 1 else 0), 0, 0]"
  by (simp add: A_ServiceInformation_Indication_Write_ToPacket_def)

lemmas apdu_roundtrip_simps =
  apdu_ok_def apdu_misencoded_def APDU_ToPacket_defs APDU_fromPacket_def APDU_select_short
  APDU_select_escape APDU_init_defs codec_masks drop5_add nth_append

lemma apdu_encode_parse:
  assumes "apdu_ok a" and "\<not> apdu_misencoded a" and "APDU_ToPacket junk a = Some p"
  shows "APDU_fromPacket p = a"
  using assms
proof (cases a)
  case (A_Unknown_PDU pdu)
  with assms show ?thesis by (simp add: apdu_ok_def A_Unknown_ToPacket_def)
next
  case (A_GroupValue_Response_PDU issmall data)
  with assms show ?thesis by (simp add: apdu_ok_def group_value_roundtrip)
next
  case (A_GroupValue_Write_PDU issmall data)
  with assms show ?thesis by (simp add: apdu_ok_def group_value_roundtrip)
next
  case (A_ServiceInformation_Indication_Write_PDU v d s)
  with assms have "p = [3, 0xDF, (if v then 4 else 0) OR (if s then 1 else 0), 0, 0]" and "\<not> d"
    by (auto dest!: service_information_packet simp: apdu_misencoded_def)
  with A_ServiceInformation_Indication_Write_PDU show ?thesis
    by (cases v; cases s) (simp_all add: service_information_parse)
qed (clarsimp simp: apdu_roundtrip_simps)+

section \<open>What the parser returns\<close>

text \<open>Every \<open>init\<close> the parser can pick leaves members an encoder accepts.\<close>

definition APDU_inits :: "(CArray \<Rightarrow> apdu option) list" where
  "APDU_inits = [
     A_GroupValue_Read_init,
     A_GroupValue_Response_init,
     A_GroupValue_Write_init,
     A_IndividualAddress_Write_init,
     A_IndividualAddress_Read_init,
     A_IndividualAddress_Response_init,
     A_IndividualAddressSerialNumber_Read_init,
     A_IndividualAddressSerialNumber_Response_init,
     A_IndividualAddressSerialNumber_Write_init,
     A_ServiceInformation_Indication_Write_init,
     A_DomainAddress_Write_init,
     A_DomainAddress_Read_init,
     A_DomainAddress_Response_init,
     A_DomainAddressSelective_Read_init,
     A_PropertyValue_Read_init,
     A_PropertyValue_Response_init,
     A_PropertyValue_Write_init,
     A_PropertyDescription_Read_init,
     A_PropertyDescription_Response_init,
     A_DeviceDescriptor_Read_init,
     A_DeviceDescriptor_Response_init,
     A_ADC_Read_init,
     A_ADC_Response_init,
     A_Memory_Read_init,
     A_Memory_Response_init,
     A_Memory_Write_init,
     A_MemoryBit_Write_init,
     A_UserMemory_Read_init,
     A_UserMemory_Response_init,
     A_UserMemory_Write_init,
     A_UserMemoryBit_Write_init,
     A_UserManufacturerInfo_Read_init,
     A_UserManufacturerInfo_Response_init,
     A_Restart_init,
     A_Authorize_Request_init,
     A_Authorize_Response_init,
     A_Key_Write_init,
     A_Key_Response_init]"

lemma APDU_select_inits: "APDU_select c = Some init \<Longrightarrow> init \<in> set APDU_inits"
  unfolding APDU_select_def Let_def by (simp add: APDU_inits_def split: if_splits)

lemma apdu_ok_init: "init \<in> set APDU_inits \<Longrightarrow> init c = Some a \<Longrightarrow> apdu_ok a"
  unfolding APDU_inits_def
  by (auto simp: APDU_init_defs apdu_ok_def mask_and_simps mk16_nibble_high split: if_splits)

lemma apdu_ok_fromPacket: "apdu_ok (APDU_fromPacket c)"
proof (cases "if length c \<ge> 2 then APDU_select c else None")
  case None
  then show ?thesis by (simp add: apdu_ok_def APDU_fromPacket_def)
next
  case (Some init)
  then have "init \<in> set APDU_inits"
    by (auto intro: APDU_select_inits split: if_splits)
  with Some show ?thesis
    by (cases "init c") (auto intro: apdu_ok_init simp: APDU_fromPacket_def [of c] apdu_ok_def [of "A_Unknown_PDU c"])
qed

section \<open>The codec of the correctly encoded classes\<close>

text \<open>
  Encoding never aborts and parsing inverts it for the PDUs that are \<open>apdu_ok\<close> and not
  \<open>apdu_misencoded\<close>, whatever the fresh cells of a grown packet hold.
\<close>

interpretation apdu: pdu_codec "APDU_ToPacket junk" APDU_fromPacket "\<lambda>a. apdu_ok a \<and> \<not> apdu_misencoded a" for junk
  by unfold_locales (auto intro: apdu_ok_encodes apdu_encode_parse)

end
