(* ===== verification/TpduCodec.thy ===== *)
theory TpduCodec
  imports Tpdu ApduCodec
begin

text \<open>
  The transport layer codec loses nothing: parsing any packet and sending the result gives
  the packet back, and no packet can trip an \<open>assert\<close> of the PDU it is parsed to.
\<close>

section \<open>Bits of the first byte\<close>

lemma uchar_eqI:
  fixes x y :: uchar
  assumes "bit x 0 = bit y 0" "bit x 1 = bit y 1" "bit x 2 = bit y 2" "bit x 3 = bit y 3"
    and "bit x 4 = bit y 4" "bit x 5 = bit y 5" "bit x 6 = bit y 6" "bit x 7 = bit y 7"
  shows "x = y"
proof (rule bit_word_eqI)
  fix n assume "n < LENGTH(8)"
  then have "n \<in> {0, 1, 2, 3, 4, 5, 6, 7}" by auto
  then show "bit x n = bit y n" using assms by auto
qed

lemma masked_bit: "b AND m = v \<Longrightarrow> bit m i \<Longrightarrow> bit b i = bit v i" for b m v :: uchar
  by (auto simp: bit_simps)

lemma mask_bits:
  fixes b :: uchar
  shows "b AND 0xC0 = 0x40 \<Longrightarrow> bit b 6 \<and> \<not> bit b 7"
    and "b AND 0xC3 = 0xC2 \<Longrightarrow> bit b 6 \<and> bit b 7 \<and> \<not> bit b 0 \<and> bit b 1"
    and "b AND 0xC3 = 0xC3 \<Longrightarrow> bit b 6 \<and> bit b 7 \<and> bit b 0 \<and> bit b 1"
    and "b AND 0xFC = 0 \<Longrightarrow> \<not> bit b 2 \<and> \<not> bit b 3 \<and> \<not> bit b 4 \<and> \<not> bit b 5 \<and> \<not> bit b 6 \<and> \<not> bit b 7"
    and "b AND 0xF0 = 0 \<Longrightarrow> \<not> bit b 4 \<and> \<not> bit b 5 \<and> \<not> bit b 6 \<and> \<not> bit b 7"
  by (simp_all add: masked_bit)

lemma connected_bits:
  "b AND 0xC0 = 0x40 \<Longrightarrow> (b AND 0x3) OR 0x40 OR push_bit 2 (drop_bit 2 b AND 0xF) = b" for b :: uchar
  by (frule mask_bits) (intro uchar_eqI; simp only: bit_simps; simp add: bit_simps)

lemma ack_bits:
  "b AND 0xC3 = 0xC2 \<Longrightarrow> 0xC2 OR push_bit 2 (drop_bit 2 b AND 0xF) = b"
  "b AND 0xC3 = 0xC3 \<Longrightarrow> 0xC3 OR push_bit 2 (drop_bit 2 b AND 0xF) = b" for b :: uchar
   by (frule mask_bits, intro uchar_eqI; simp only: bit_simps; simp add: bit_simps)+

lemma serno_back:
  "s AND 0xF0 = 0 \<Longrightarrow> drop_bit 2 (0xC2 OR push_bit 2 (s AND 0xF)) AND 0xF = s"
  "s AND 0xF0 = 0 \<Longrightarrow> drop_bit 2 (0xC3 OR push_bit 2 (s AND 0xF)) AND 0xF = s"
  "s AND 0xF0 = 0 \<Longrightarrow> drop_bit 2 ((d AND 0x3) OR 0x40 OR push_bit 2 (s AND 0xF)) AND 0xF = s" for s d :: uchar
   by (frule mask_bits, intro uchar_eqI; simp only: bit_simps; simp add: bit_simps)+

lemma connected_class: "((d AND 0x3) OR 0x40 OR push_bit 2 (s AND 0xF)) AND 0xC0 = 0x40" for s d :: uchar
   by (intro uchar_eqI; simp only: bit_simps; simp add: bit_simps)
lemma ack_class:
  "(0xC2 OR push_bit 2 (s AND 0xF)) AND 0xC3 = 0xC2"
  "(0xC3 OR push_bit 2 (s AND 0xF)) AND 0xC3 = 0xC3" for s :: uchar
   by (intro uchar_eqI; simp only: bit_simps; simp add: bit_simps)+

lemma serno_small: "(x AND 0xF) AND 0xF0 = 0" for x :: uchar
  by (simp add: mask_and_simps)

declare push_bit_and [simp del] drop_bit_or [simp del]

section \<open>PDUs a program may encode\<close>

text \<open>
  The \<open>assert\<close>s of the encoders, and the bits of the first data byte the encoder overwrites:
  they already hold what is written there in every PDU the parser returns.
\<close>

definition tpdu_ok :: "tpdu \<Rightarrow> bool" where
  "tpdu_ok t =
     (case t of
        T_UNKNOWN_PDU pdu \<Rightarrow> TPDU_fromPacket pdu = T_UNKNOWN_PDU pdu
      | T_DATA_XXX_REQ_PDU data \<Rightarrow> data \<noteq> [] \<and> data ! 0 AND 0xFC = 0
      | T_DATA_CONNECTED_REQ_PDU serno data \<Rightarrow>
          data \<noteq> [] \<and> serno AND 0xF0 = 0 \<and> data ! 0 AND 0xFC = 0x40 OR push_bit 2 serno
      | T_ACK_PDU serno \<Rightarrow> serno AND 0xF0 = 0
      | T_NACK_PDU serno \<Rightarrow> serno AND 0xF0 = 0
      | _ \<Rightarrow> True)"

text \<open>The tests of the parser are disjoint, so their order does not matter.\<close>

lemma TPDU_select_class:
  "c ! 0 AND 0xFC = 0 \<Longrightarrow> TPDU_select c = Some T_DATA_XXX_REQ_init"
  "c ! 0 = 0x80 \<Longrightarrow> TPDU_select c = Some T_CONNECT_REQ_init"
  "c ! 0 = 0x81 \<Longrightarrow> TPDU_select c = Some T_DISCONNECT_REQ_init"
  "c ! 0 AND 0xC3 = 0xC2 \<Longrightarrow> TPDU_select c = Some T_ACK_init"
  "c ! 0 AND 0xC3 = 0xC3 \<Longrightarrow> TPDU_select c = Some T_NACK_init"
  "c ! 0 AND 0xC0 = 0x40 \<Longrightarrow> TPDU_select c = Some T_DATA_CONNECTED_REQ_init"
  unfolding TPDU_select_def
  by (auto dest!: mask_bits simp: Let_def mask_bits masked_bit)

lemma TPDU_select_cases:
  assumes "TPDU_select c = Some init"
  obtains "c ! 0 AND 0xFC = 0" "init = T_DATA_XXX_REQ_init"
    | "c ! 0 = 0x80" "init = T_CONNECT_REQ_init"
    | "c ! 0 = 0x81" "init = T_DISCONNECT_REQ_init"
    | "c ! 0 AND 0xC3 = 0xC2" "init = T_ACK_init"
    | "c ! 0 AND 0xC3 = 0xC3" "init = T_NACK_init"
    | "c ! 0 AND 0xC0 = 0x40" "init = T_DATA_CONNECTED_REQ_init"
  using assms unfolding TPDU_select_def Let_def by (simp split: if_splits)

lemma TPDU_fromPacket_cases:
  obtains "TPDU_fromPacket c = T_UNKNOWN_PDU c"
    | init t where "c \<noteq> []" "TPDU_select c = Some init" "init c = Some t" "TPDU_fromPacket c = t"
proof (cases "TPDU_select c")
  case None
  then have "TPDU_fromPacket c = T_UNKNOWN_PDU c" by (simp add: TPDU_fromPacket_def)
  then show ?thesis by (rule that(1))
next
  case (Some init)
  show ?thesis
  proof (cases "c = [] \<or> init c = None")
    case True
    with Some have "TPDU_fromPacket c = T_UNKNOWN_PDU c" by (auto simp: TPDU_fromPacket_def)
    then show ?thesis by (rule that(1))
  next
    case False
    then obtain t where "init c = Some t" "c \<noteq> []" by auto
    with Some show ?thesis by (intro that(2) [of init t]) (simp_all add: TPDU_fromPacket_def Suc_le_eq)
  qed
qed

lemma high6: "b AND 0xC0 = 0x40 \<Longrightarrow> b AND 0xFC = 0x40 OR push_bit 2 (drop_bit 2 b AND 0xF)" for b :: uchar
  by (frule mask_bits) (intro uchar_eqI; simp only: bit_simps; simp add: bit_simps)

lemma low2: "b AND 0xFC = 0 \<Longrightarrow> b AND 0x3 = b" for b :: uchar
  by (frule mask_bits) (intro uchar_eqI; simp only: bit_simps; simp add: bit_simps)

lemma singleton_byte: "length c = Suc 0 \<Longrightarrow> [c ! 0] = c"
  by (cases c) auto

lemma TPDU_lossless_init:
  assumes "TPDU_select c = Some init" and "init c = Some t"
  shows "TPDU_ToPacket t = Some c \<and> tpdu_ok t"
  using assms(1)
proof (cases rule: TPDU_select_cases)
  case 1
  with assms(2) show ?thesis
    by (auto simp: T_DATA_XXX_REQ_init_def T_DATA_XXX_REQ_ToPacket_def tpdu_ok_def low2 split: if_splits)
next
  case 2
  with assms(2) show ?thesis
    by (auto simp: T_CONNECT_REQ_init_def T_CONNECT_REQ_ToPacket_def tpdu_ok_def dest: singleton_byte split: if_splits)
next
  case 3
  with assms(2) show ?thesis
    by (auto simp: T_DISCONNECT_REQ_init_def T_DISCONNECT_REQ_ToPacket_def tpdu_ok_def dest: singleton_byte split: if_splits)
next
  case 4
  with assms(2) show ?thesis
    by (auto simp: T_ACK_init_def T_ACK_ToPacket_def tpdu_ok_def serno_small and.assoc ack_bits singleton_byte split: if_splits)
next
  case 5
  with assms(2) show ?thesis
    by (auto simp: T_NACK_init_def T_NACK_ToPacket_def tpdu_ok_def serno_small and.assoc ack_bits singleton_byte split: if_splits)
next
  case 6
  then have "c[0 := (c ! 0 AND 0x3) OR 0x40 OR push_bit 2 (drop_bit 2 (c ! 0) AND 0xF)] = c"
    by (simp add: connected_bits)
  with 6 assms(2) show ?thesis
    by (auto simp: T_DATA_CONNECTED_REQ_init_def T_DATA_CONNECTED_REQ_ToPacket_def tpdu_ok_def serno_small and.assoc high6
        split: if_splits)
qed

lemma TPDU_exact: "TPDU_ToPacket (TPDU_fromPacket c) = Some c"
  by (rule TPDU_fromPacket_cases [of c]) (simp_all add: T_UNKNOWN_ToPacket_def TPDU_lossless_init)

lemma tpdu_ok_fromPacket: "tpdu_ok (TPDU_fromPacket c)"
  by (rule TPDU_fromPacket_cases [of c]) (simp add: tpdu_ok_def, metis TPDU_lossless_init)

text \<open>A connected data PDU may be sent with any bits where the encoder writes its own.\<close>

lemma T_DATA_CONNECTED_REQ_sent:
  assumes "data \<noteq> []" and "serno AND 0xF0 = 0"
  shows "\<exists>p. T_DATA_CONNECTED_REQ_ToPacket serno data = Some p
           \<and> TPDU_fromPacket p = T_DATA_CONNECTED_REQ_PDU serno p
           \<and> tl p = tl data \<and> p ! 0 AND 0x3 = data ! 0 AND 0x3"
proof -
  let ?b = "(data ! 0 AND 0x3) OR 0x40 OR push_bit 2 (serno AND 0xF)"
  have low: "?b AND 0x3 = data ! 0 AND 0x3"
    by (intro uchar_eqI; simp only: bit_simps; simp add: bit_simps)
  from assms low show ?thesis
    by (cases data)
       (simp_all add: T_DATA_CONNECTED_REQ_ToPacket_def TPDU_fromPacket_def TPDU_select_class connected_class
          T_DATA_CONNECTED_REQ_init_def serno_back low)
qed

lemma tpdu_ok_encodes: "tpdu_ok t \<Longrightarrow> \<exists>p. TPDU_ToPacket t = Some p"
  by (cases t) (auto simp: tpdu_ok_def TPDU_ToPacket_defs)

lemma TPDU_encode_parse:
  assumes "tpdu_ok t" and "TPDU_ToPacket t = Some p"
  shows "TPDU_fromPacket p = t"
proof (cases t)
  case (T_UNKNOWN_PDU pdu)
  with assms show ?thesis by (simp add: tpdu_ok_def T_UNKNOWN_ToPacket_def)
next
  case (T_DATA_XXX_REQ_PDU data)
  with assms have "p = data" by (auto simp: tpdu_ok_def T_DATA_XXX_REQ_ToPacket_def low2)
  with T_DATA_XXX_REQ_PDU assms show ?thesis
    by (cases data) (simp_all add: tpdu_ok_def TPDU_fromPacket_def TPDU_select_class T_DATA_XXX_REQ_init_def)
next
  case (T_DATA_CONNECTED_REQ_PDU serno data)
  with assms have s: "serno AND 0xF = serno" and b: "data ! 0 AND 0xFC = 0x40 OR push_bit 2 serno" "data \<noteq> []"
    by (auto simp: tpdu_ok_def keep_low4)
  have "data ! 0 = (data ! 0 AND 0x3) OR (data ! 0 AND 0xFC)"
    by (simp add: and_all_ones8 flip: bit.conj_disj_distrib)
  with b have "(data ! 0 AND 0x3) OR 0x40 OR push_bit 2 serno = data ! 0"
    by (simp add: or.assoc)
  then have "p = data" using T_DATA_CONNECTED_REQ_PDU assms s
    by (auto simp: tpdu_ok_def T_DATA_CONNECTED_REQ_ToPacket_def)
  with T_DATA_CONNECTED_REQ_PDU assms T_DATA_CONNECTED_REQ_sent [OF b(2), of serno] show ?thesis
    by (auto simp: tpdu_ok_def)
qed (use assms in \<open>auto simp: tpdu_ok_def TPDU_ToPacket_defs TPDU_fromPacket_def TPDU_select_class TPDU_init_defs
       ack_class serno_back\<close>)

lemma tpdu_ok_decodes: "tpdu_ok t \<Longrightarrow> \<exists>s. TPDU_Decode t = Some s"
  by (cases t) (auto simp: tpdu_ok_def TPDU_Decode_defs
      intro: apdu_ok_decodes [OF apdu_ok_fromPacket])

interpretation tpdu: exact_codec TPDU_ToPacket TPDU_fromPacket tpdu_ok
  by unfold_locales (simp_all add: tpdu_ok_encodes TPDU_encode_parse tpdu_ok_fromPacket TPDU_exact)

end
