(* ===== verification/LpduCodec.thy ===== *)
theory LpduCodec
  imports Lpdu TpduCodec
begin

text \<open>
  What the link layer codec guarantees: frames a program sends are parsed to the same frame
  up to the priority code, the checksum finds every change of one byte, and every parsed
  frame can be sent again except an extended one of 256 data bytes.
\<close>

section \<open>The checksum\<close>

definition xor_all :: "CArray \<Rightarrow> uchar" where
  "xor_all c = foldl (XOR) 0 c"

lemma foldl_xor: "foldl (XOR) a c = a XOR foldl (XOR) 0 c" for a :: uchar
proof (induction c arbitrary: a)
  case (Cons b c)
  show ?case by (simp only: foldl_Cons Cons [of "a XOR b"] Cons [of "0 XOR b"]) (simp add: ac_simps)
qed simp

lemma xor_all_simps [simp]:
  "xor_all [] = 0" "xor_all (b # c) = b XOR xor_all c"
  unfolding xor_all_def by (simp_all, subst foldl_xor, simp)

lemma xor_all_append [simp]: "xor_all (c @ d) = xor_all c XOR xor_all d"
  by (induction c) (simp_all add: ac_simps)

lemma xor_all_update: "i < length c \<Longrightarrow> xor_all (c[i := x]) = xor_all c XOR c ! i XOR x"
proof (induction c arbitrary: i)
  case (Cons b c)
  then show ?case by (cases i) (simp_all add: ac_simps)
qed simp

lemma checksum_holds: "c \<noteq> [] \<Longrightarrow> c ! (length c - 1) = NOT (xor_but_last c) \<longleftrightarrow> xor_all c = -1"
proof -
  assume "c \<noteq> []"
  then have c: "c = butlast c @ [last c]" and l: "c ! (length c - 1) = last c"
    by (simp, simp add: last_conv_nth)
  have "xor_all c = xor_but_last c XOR last c"
    by (subst c) (simp add: xor_but_last_def xor_all_def)
  moreover have "y = NOT x \<longleftrightarrow> x XOR y = -1" for x y :: uchar
    by (auto simp: bit_eq_iff bit_simps)
  ultimately show ?thesis unfolding l by simp
qed

lemma checksum_written: "c \<noteq> [] \<Longrightarrow> xor_all (c[length c - 1 := NOT (xor_but_last c)]) = -1"
proof -
  assume "c \<noteq> []"
  then have "(c[length c - 1 := NOT (xor_but_last c)]) ! (length c - 1) = NOT (xor_but_last (c[length c - 1 := NOT (xor_but_last c)]))"
    by (simp add: xor_but_last_def butlast_list_update)
  then show ?thesis
    using checksum_holds [of "c[length c - 1 := NOT (xor_but_last c)]"] \<open>c \<noteq> []\<close> by simp
qed

lemma L_Data_init_checksum: "L_Data_init c = Some d \<Longrightarrow> valid_checksum d \<longleftrightarrow> xor_all c = -1"
proof -
  assume d: "L_Data_init c = Some d"
  then have "c \<noteq> []" by (auto simp: L_Data_init_def)
  from d have "valid_checksum d \<longleftrightarrow> c ! (length c - 1) = NOT (xor_but_last c)"
    unfolding L_Data_init_def by (auto simp: Let_def split: if_splits)
  then show ?thesis using checksum_holds [OF \<open>c \<noteq> []\<close>] by simp
qed

section \<open>Sending and parsing a frame\<close>

text \<open>The priority codes of \<open>init\<close> and \<open>ToPacket\<close> disagree on two of the four priorities.\<close>

definition priority_read_back :: "EIB_Priority \<Rightarrow> EIB_Priority" where
  "priority_read_back p =
     (case p of PRIO_NORMAL \<Rightarrow> PRIO_URGENT | PRIO_URGENT \<Rightarrow> PRIO_NORMAL | _ \<Rightarrow> p)"

lemma control_bits:
  fixes r :: bool
  defines "b k p \<equiv> k OR push_bit 2 (EIB_Priority_bits p) OR (if r then 0x00 else 0x20 :: uchar)"
  shows "b 0x90 p AND 0x53 = 0x10" "b 0x10 p AND 0x53 = 0x10"
    and "b 0x90 p AND 0x80 \<noteq> 0" "b 0x10 p AND 0x80 = 0"
    and "b 0x90 p AND 0x20 = 0 \<longleftrightarrow> r" "b 0x10 p AND 0x20 = 0 \<longleftrightarrow> r"
    and "drop_bit 2 (b 0x90 p) AND 0x3 = EIB_Priority_bits p" "drop_bit 2 (b 0x10 p) AND 0x3 = EIB_Priority_bits p"
  unfolding b_def by (cases p; cases r; simp add: EIB_Priority_bits_def)+

lemma priority_decoded:
  "EIB_Priority_read (EIB_Priority_bits p) = priority_read_back p"
  by (cases p) (simp_all add: EIB_Priority_bits_def EIB_Priority_read_def priority_read_back_def)

lemma hop_bits:
  fixes h n :: uchar and g :: bool
  assumes "h AND 0xf8 = 0"
  defines "b \<equiv> push_bit 4 (h AND 7) OR (n AND 0xf) OR (if g then 0x80 else 0)"
  shows "drop_bit 4 b AND 7 = h" "b AND 0xf = n AND 0xf" "b AND 0x80 = 0 \<longleftrightarrow> \<not> g"
proof -
  have h: "\<not> bit h 3" "\<not> bit h 4" "\<not> bit h 5" "\<not> bit h 6" "\<not> bit h 7"
    using masked_bit [OF assms(1)] by (simp_all add: bit_simps)
  show "drop_bit 4 b AND 7 = h" unfolding b_def
    by (cases g; intro uchar_eqI; simp only: bit_simps; simp add: bit_simps h)
  show "b AND 0xf = n AND 0xf" unfolding b_def
    by (cases g; intro uchar_eqI; simp only: bit_simps; simp add: bit_simps h)
  have "b AND 0x80 = (if g then 0x80 else 0)" unfolding b_def
    by (cases g; intro uchar_eqI; simp only: bit_simps; simp add: bit_simps h)
  then show "b AND 0x80 = 0 \<longleftrightarrow> \<not> g" by simp
qed

lemma low_nibble_nat: "n \<le> 0xf \<Longrightarrow> unat ((of_nat n :: uchar) AND 0xf) = n"
  unfolding mask4_eq
  by (simp add: unsigned_take_bit_eq unsigned_of_nat take_bit_nat_eq_self flip: take_bit_eq_mask)

lemma byte_nat: "n < 256 \<Longrightarrow> unat ((of_nat n :: uchar) AND 0xff) = n"
  by (simp add: and_all_ones8 unsigned_of_nat take_bit_nat_eq_self)

text \<open>The frame before its checksum is written, and what the parser makes of it.\<close>

definition frame_read_back :: "l_data \<Rightarrow> l_data" where
  "frame_read_back d = d\<lparr>prio := priority_read_back (prio d), valid_checksum := True, valid_length := True\<rparr>"

lemma frame_read_back_eq:
  "frame_read_back d\<lparr>valid_checksum := v\<rparr> =
   \<lparr>prio = priority_read_back (prio d), repeated = repeated d, valid_checksum = v, valid_length = True,
    AddrType = AddrType d, source = source d, dest = dest d, hopcount = hopcount d, data = data d\<rparr>"
  by (simp add: frame_read_back_def)

lemma addr_type_decoded:
  "(if a \<noteq> GroupAddress then IndividualAddress else GroupAddress) = a"
  "(if a = GroupAddress then GroupAddress else IndividualAddress) = a"
  by (cases a; simp)+

lemma L_Data_ToPacket_shape:
  assumes "L_Data_ToPacket d = Some c"
  shows "L_Data_asserts d"
    and "\<exists>k. c = (if length (data d) \<le> 16 then L_Data_standard_header d else L_Data_extended_header d) @ data d @ [k]"
    and "xor_all c = -1"
proof -
  define h where "h = (if length (data d) - 1 \<le> 0x0f then L_Data_standard_header d else L_Data_extended_header d)"
  show ok: "L_Data_asserts d"
    using assms by (auto simp: L_Data_ToPacket_def split: if_splits)
  then have c: "c = (h @ data d @ [0])[length (h @ data d @ [0]) - 1 := NOT (xor_but_last (h @ data d @ [0]))]"
    using assms by (simp add: L_Data_ToPacket_def Let_def h_def)
  also have "\<dots> = h @ data d @ [NOT (xor_but_last (h @ data d @ [0]))]"
    by (simp add: list_update_append)
  finally show "\<exists>k. c = (if length (data d) \<le> 16 then L_Data_standard_header d else L_Data_extended_header d) @ data d @ [k]"
    by (auto simp: h_def)
  show "xor_all c = -1"
    by (subst c, rule checksum_written) simp
qed

lemma standard_frame_parsed:
  assumes "L_Data_asserts d" and "length (data d) \<le> 16"
  shows "\<exists>v. L_Data_init (L_Data_standard_header d @ data d @ [k]) = Some (frame_read_back d\<lparr>valid_checksum := v\<rparr>)"
proof -
  define b0 where "b0 = 0x90 OR push_bit 2 (EIB_Priority_bits (prio d)) OR (if repeated d then 0x00 else 0x20)"
  define b5 where "b5 = push_bit 4 (hopcount d AND 0x07) OR (of_nat (length (data d) - 1) AND 0x0f)
             OR (if AddrType d = GroupAddress then 0x80 else 0x00)"
  have n: "1 \<le> length (data d)" "hopcount d AND 0xf8 = 0" using assms by (simp_all add: L_Data_asserts_def)
  have b5: "drop_bit 4 b5 AND 7 = hopcount d" "b5 AND 0xf = of_nat (length (data d) - 1) AND 0xf"
    "b5 AND 0x80 = 0 \<longleftrightarrow> \<not> AddrType d = GroupAddress"
    unfolding b5_def using hop_bits [OF n(2)] by auto
  have len: "Suc (unat (b5 AND 0xf)) = length (data d)"
    unfolding b5(2) using n assms(2) low_nibble_nat [of "length (data d) - 1"] by simp
  show ?thesis
    unfolding L_Data_standard_header_def b0_def [symmetric] b5_def [symmetric] L_Data_init_def
    using n len b5(1,3) control_bits [of "prio d" "repeated d", folded b0_def] priority_decoded [of "prio d"]
    by (simp add: Let_def frame_read_back_eq addr_type_decoded)
qed

lemma extended_frame_parsed:
  assumes "L_Data_asserts d"
  shows "\<exists>v. L_Data_init (L_Data_extended_header d @ data d @ [k]) = Some (frame_read_back d\<lparr>valid_checksum := v\<rparr>)"
proof -
  define b0 where "b0 = 0x10 OR push_bit 2 (EIB_Priority_bits (prio d)) OR (if repeated d then 0x00 else 0x20)"
  define b1 where "b1 = push_bit 4 (hopcount d AND 0x07) OR (if AddrType d = GroupAddress then 0x80 else 0x00)"
  define b6 where "b6 = (of_nat (length (data d) - 1) AND 0xff :: uchar)"
  have n: "1 \<le> length (data d)" "hopcount d AND 0xf8 = 0" using assms by (simp_all add: L_Data_asserts_def)
  have b1: "drop_bit 4 b1 AND 7 = hopcount d" "b1 AND 0xf = 0" "b1 AND 0x80 = 0 \<longleftrightarrow> \<not> AddrType d = GroupAddress"
    unfolding b1_def using hop_bits [OF n(2), of 0] by auto
  have len: "Suc (unat b6) = length (data d)"
    unfolding b6_def using assms byte_nat [of "length (data d) - 1"] by (auto simp: L_Data_asserts_def)
  show ?thesis
    unfolding L_Data_extended_header_def b0_def [symmetric] b1_def [symmetric] b6_def [symmetric] L_Data_init_def
    using n len b1 control_bits [of "prio d" "repeated d", folded b0_def] priority_decoded [of "prio d"]
    by (simp add: Let_def frame_read_back_eq addr_type_decoded)
qed

lemma L_Data_send_parse: "L_Data_ToPacket d = Some c \<Longrightarrow> L_Data_init c = Some (frame_read_back d)"
proof -
  assume c: "L_Data_ToPacket d = Some c"
  note shape = L_Data_ToPacket_shape [OF c]
  obtain k where k: "c = (if length (data d) \<le> 16 then L_Data_standard_header d
      else L_Data_extended_header d) @ data d @ [k]"
    using shape(2) by blast
  obtain v where v: "L_Data_init c = Some (frame_read_back d\<lparr>valid_checksum := v\<rparr>)"
    using standard_frame_parsed [OF shape(1), of k] extended_frame_parsed [OF shape(1), of k]
    by (cases "length (data d) \<le> 16") (auto simp: k)
  then have "v" using L_Data_init_checksum [OF v] shape(3) by simp
  with v show ?thesis by (simp add: frame_read_back_def)
qed

lemma L_Data_corrupted:
  assumes "L_Data_ToPacket d = Some c" and "i < length c" and "x \<noteq> c ! i" and "L_Data_init (c[i := x]) = Some d'"
  shows "\<not> valid_checksum d'"
proof
  assume "valid_checksum d'"
  then have "xor_all (c[i := x]) = -1" using L_Data_init_checksum [OF assms(4)] by simp
  then have "xor_all c XOR (c ! i XOR x) = -1" using assms(2) by (simp add: xor_all_update xor.assoc)
  then have "c ! i XOR x = 0"
    using L_Data_ToPacket_shape(3) [OF assms(1)] by (metis bit.double_compl bit.xor_one_left xor.right_neutral bit.compl_zero bit.xor_left_self)
  then show False using assms(3) by (metis xor.right_neutral bit.xor_left_self)
qed

section \<open>Received frames\<close>

lemma hop_small: "(x AND 0x7) AND 0xf8 = 0" for x :: uchar
  by (simp add: mask_and_simps)

lemma L_Data_init_shape:
  assumes "L_Data_init c = Some d"
  shows "hopcount d AND 0xf8 = 0 \<and> 1 \<le> length (data d) \<and> length (data d) \<le> 256"
    and "length (data d) = 256 \<longleftrightarrow> c ! 0 AND 0x80 = 0 \<and> c ! 6 = 0xff \<and> length c = 264"
    and "valid_length d \<or> length c = 23 \<and> length (data d) = 8"
proof -
  have b: "unat (c ! 6) < 256" "unat (c ! 5 AND 0xf) < 16"
    using unsigned_less [of "c ! 6", where ?'a = nat] take_bit_nat_less_exp [of 4 "unat (c ! 5)"]
    by (simp, unfold mask4_eq, simp add: unsigned_take_bit_eq flip: take_bit_eq_mask)
  have f: "unat (c ! 6) = 255 \<longleftrightarrow> c ! 6 = 0xff" by (simp add: word_unat_eq_iff)
  show "hopcount d AND 0xf8 = 0 \<and> 1 \<le> length (data d) \<and> length (data d) \<le> 256"
    using assms b unfolding L_Data_init_def by (auto simp: Let_def hop_small split: if_splits)
  show "length (data d) = 256 \<longleftrightarrow> c ! 0 AND 0x80 = 0 \<and> c ! 6 = 0xff \<and> length c = 264"
    using assms b f unfolding L_Data_init_def by (auto simp: Let_def split: if_splits)
  show "valid_length d \<or> length c = 23 \<and> length (data d) = 8"
    using assms unfolding L_Data_init_def by (auto simp: Let_def split: if_splits)
qed

lemma L_Data_received_ok:
  "L_Data_init c = Some d \<Longrightarrow> L_Data_asserts d \<longleftrightarrow> \<not> (c ! 0 AND 0x80 = 0 \<and> c ! 6 = 0xff \<and> length c = 264)"
  using L_Data_init_shape [of c d] by (auto simp: L_Data_asserts_def)

section \<open>Sending a received frame again\<close>

lemma mask2_eq: "(0x3 :: 'a::len word) = mask 2"
  by (simp add: mask_eq_exp_minus_1)

lemma single_bit_tests: "b AND 0x80 = 0 \<longleftrightarrow> \<not> bit b 7" "b AND 0x20 = 0 \<longleftrightarrow> \<not> bit b 5" for b :: uchar
proof -
  have "b AND 0x80 = (if bit b 7 then 0x80 else 0)" "b AND 0x20 = (if bit b 5 then 0x20 else 0)"
    by ((cases "bit b 7"; intro uchar_eqI; simp only: bit_simps; simp add: bit_simps),
        (cases "bit b 5"; intro uchar_eqI; simp only: bit_simps; simp add: bit_simps))
  then show "b AND 0x80 = 0 \<longleftrightarrow> \<not> bit b 7" "b AND 0x20 = 0 \<longleftrightarrow> \<not> bit b 5" by simp_all
qed

lemma control_rebuilt:
  fixes b :: uchar
  assumes "b AND 0x53 = 0x10"
  shows "(if b AND 0x80 = 0 then 0x10 else 0x90) OR push_bit 2 (drop_bit 2 b AND 0x3)
           OR (if b AND 0x20 = 0 then 0x00 else 0x20) = b"
proof -
  have "\<not> bit b 0" "\<not> bit b 1" "bit b 4" "\<not> bit b 6"
    using masked_bit [OF assms] by (simp_all add: bit_simps)
  then show ?thesis unfolding single_bit_tests
    by (cases "bit b 7"; cases "bit b 5"; intro uchar_eqI; simp only: bit_simps if_True if_False simp_thms; simp add: bit_simps)
qed

lemma hop_rebuilt:
  "push_bit 4 ((drop_bit 4 b AND 0x07) AND 0x07) OR ((b AND 0xf) AND 0xf)
     OR (if b AND 0x80 = 0 then 0x00 else 0x80) = b" for b :: uchar
  unfolding single_bit_tests
  by (cases "bit b 7"; intro uchar_eqI; simp only: bit_simps if_True if_False simp_thms; simp add: bit_simps)

lemma priority_bits_back:
  assumes "priority_read_back p = p"
    and "p = EIB_Priority_read k"
    and "k AND 0x3 = k"
  shows "EIB_Priority_bits p = k"
proof -
  have "k \<in> {0, 1, 2, 3}"
  proof -
    have "take_bit 2 k = k" using assms(3) by (simp add: mask2_eq take_bit_eq_mask)
    then have "unat k = take_bit 2 (unat k)" by (metis unsigned_take_bit_eq)
    then have "unat k < 4" using take_bit_nat_less_exp [of 2 "unat k"] by simp
    then have "unat k \<in> {0, 1, 2, 3}" by auto
    then show ?thesis by (auto simp: word_unat_eq_iff)
  qed
  with assms show ?thesis by (auto simp: priority_read_back_def EIB_Priority_bits_def EIB_Priority_read_def)
qed

lemma same_checksum: "xor_all (h @ [k]) = -1 \<Longrightarrow> xor_all (h @ [k']) = -1 \<Longrightarrow> k = k'"
  by simp (metis bit.xor_left_self xor.left_commute)

lemma frame_pieces:
  assumes "length c = n + len + 1"
  shows "c = take n c @ take len (drop n c) @ [c ! (n + len)]"
proof -
  have "c = take n c @ take len (drop n c) @ drop (n + len) c"
    by (metis append_take_drop_id drop_drop add.commute)
  moreover have "drop (n + len) c = [c ! (n + len)]"
    using assms Cons_nth_drop_Suc [of "n + len" c] by simp
  ultimately show ?thesis by simp
qed

lemma take_list6: "6 \<le> length c \<Longrightarrow> take 6 c = [c ! 0, c ! 1, c ! 2, c ! 3, c ! 4, c ! 5]"
  by (simp add: list_eq_iff_nth_eq less_Suc_eq numeral_eq_Suc) 
lemma take_list7: "7 \<le> length c \<Longrightarrow> take 7 c = [c ! 0, c ! 1, c ! 2, c ! 3, c ! 4, c ! 5, c ! 6]"
  by (simp add: list_eq_iff_nth_eq less_Suc_eq numeral_eq_Suc) 

lemma standard_header_back:
  assumes "L_Data_init c = Some d" and "c ! 0 AND 0x80 \<noteq> 0" and "priority_read_back (prio d) = prio d"
  shows "c = L_Data_standard_header d @ data d @ [c ! (length c - 1)] \<and> length (data d) \<le> 16"
proof -
  let ?n = "unat (c ! 5 AND 0xf)"
  have l: "length c = ?n + 8" and f: "c ! 0 AND 0x53 = 0x10"
    and d: "data d = take (?n + 1) (drop 6 c)" "source d = mk16 (c ! 1) (c ! 2)" "dest d = mk16 (c ! 3) (c ! 4)"
      "hopcount d = drop_bit 4 (c ! 5) AND 0x07" "repeated d = (c ! 0 AND 0x20 = 0)"
      "(if AddrType d = GroupAddress then 0x80 else 0x00) = (if c ! 5 AND 0x80 = 0 then 0x00 else 0x80 :: uchar)"
    and p: "prio d = EIB_Priority_read (drop_bit 2 (c ! 0) AND 0x3)"
    using assms(1,2) unfolding L_Data_init_def by (auto simp: Let_def split: if_splits)
  have len: "length (data d) = ?n + 1" using l by (simp add: d)
  have b: "EIB_Priority_bits (prio d) = drop_bit 2 (c ! 0) AND 0x3"
    by (rule priority_bits_back [OF assms(3) p]) (simp add: and.assoc)
  have "of_nat (length (data d) - 1) = c ! 5 AND 0xf" by (simp add: len)
  then have "L_Data_standard_header d = [c ! 0, c ! 1, c ! 2, c ! 3, c ! 4, c ! 5]"
    unfolding L_Data_standard_header_def d(2-6) b
    using control_rebuilt [OF f] hop_rebuilt [of "c ! 5"] assms(2) by simp
  moreover have "c = take 6 c @ data d @ [c ! (length c - 1)]"
    using frame_pieces [of c 6 "?n + 1"] l by (simp add: d(1))
  moreover have "?n < 16" using take_bit_nat_less_exp [of 4 "unat (c ! 5)"]
    unfolding mask4_eq by (simp add: unsigned_take_bit_eq flip: take_bit_eq_mask)
  ultimately show ?thesis using l len by (simp add: take_list6)
qed

lemma extended_header_back:
  assumes "L_Data_init c = Some d" and "c ! 0 AND 0x80 = 0" and "priority_read_back (prio d) = prio d" and "valid_length d"
  shows "c = L_Data_extended_header d @ data d @ [c ! (length c - 1)]"
proof -
  let ?n = "unat (c ! 6)"
  have l: "length c = ?n + 9" and f: "c ! 0 AND 0x53 = 0x10" and z: "c ! 1 AND 0xf = 0"
    and d: "data d = take (?n + 1) (drop 7 c)" "source d = mk16 (c ! 2) (c ! 3)" "dest d = mk16 (c ! 4) (c ! 5)"
      "hopcount d = drop_bit 4 (c ! 1) AND 0x07" "repeated d = (c ! 0 AND 0x20 = 0)"
      "(if AddrType d = GroupAddress then 0x80 else 0x00) = (if c ! 1 AND 0x80 = 0 then 0x00 else 0x80 :: uchar)"
    and p: "prio d = EIB_Priority_read (drop_bit 2 (c ! 0) AND 0x3)"
    using assms(1,2,4) unfolding L_Data_init_def by (auto simp: Let_def split: if_splits)
  have len: "length (data d) = ?n + 1" using l by (simp add: d)
  have b: "EIB_Priority_bits (prio d) = drop_bit 2 (c ! 0) AND 0x3"
    by (rule priority_bits_back [OF assms(3) p]) (simp add: and.assoc)
  have "of_nat (length (data d) - 1) AND 0xff = c ! 6" by (simp add: len and_all_ones8)
  then have "L_Data_extended_header d = [c ! 0, c ! 1, c ! 2, c ! 3, c ! 4, c ! 5, c ! 6]"
    unfolding L_Data_extended_header_def d(2-6) b
    using control_rebuilt [OF f] hop_rebuilt [of "c ! 1"] assms(2) z by simp
  moreover have "c = take 7 c @ data d @ [c ! (length c - 1)]"
    using frame_pieces [of c 7 "?n + 1"] l by (simp add: d(1))
  ultimately show ?thesis using l by (simp add: take_list7)
qed

lemma L_Data_resend:
  assumes "L_Data_init c = Some d" and "valid_checksum d" and "valid_length d"
    and "priority_read_back (prio d) = prio d" and "L_Data_asserts d"
    and "c ! 0 AND 0x80 = 0 \<Longrightarrow> 16 < length (data d)"
  shows "L_Data_ToPacket d = Some c"
proof -
  obtain p where p: "L_Data_ToPacket d = Some p"
    using assms(5) by (simp add: L_Data_ToPacket_def Let_def)
  define h where "h = (if length (data d) \<le> 16 then L_Data_standard_header d else L_Data_extended_header d) @ data d"
  have c: "c = h @ [c ! (length c - 1)]"
    using standard_header_back [OF assms(1) _ assms(4)] extended_header_back [OF assms(1) _ assms(4,3)] assms(6)
    by (cases "c ! 0 AND 0x80 = 0") (auto simp: h_def)
  moreover obtain k where k: "p = h @ [k]" using L_Data_ToPacket_shape(2) [OF p] by (auto simp: h_def)
  moreover have "xor_all c = -1" "xor_all p = -1"
    using L_Data_init_checksum [OF assms(1)] assms(2) L_Data_ToPacket_shape(3) [OF p] by simp_all
  ultimately have "p = c" using same_checksum [of h k "c ! (length c - 1)"] by metis
  with p show ?thesis by simp
qed

section \<open>The hierarchy\<close>

text \<open>The PDUs that survive the trip; the parser builds no busmonitor or indication PDU.\<close>

definition lpdu_ok :: "lpdu \<Rightarrow> bool" where
  "lpdu_ok l =
     (case l of
        L_Unknown_PDU pdu \<Rightarrow> LPDU_fromPacket pdu = L_Unknown_PDU pdu
      | L_Data_PDU d \<Rightarrow> L_Data_asserts d \<and> valid_checksum d \<and> valid_length d \<and> priority_read_back (prio d) = prio d
      | L_Busmonitor_PDU _ _ _ \<Rightarrow> False
      | L_Data_Ind_PDU _ \<Rightarrow> False
      | _ \<Rightarrow> True)"

lemma LPDU_fromPacket_frame: "L_Data_init c = Some d \<Longrightarrow> LPDU_fromPacket c = L_Data_PDU d"
proof -
  assume d: "L_Data_init c = Some d"
  then have "1 \<le> length c" "c ! 0 AND 0x53 = 0x10" by (auto simp: L_Data_init_def split: if_splits)
  with d show ?thesis by (auto simp: LPDU_fromPacket_def LPDU_select_def)
qed

lemma LPDU_encode_parse: "lpdu_ok l \<Longrightarrow> LPDU_ToPacket l = Some c \<Longrightarrow> LPDU_fromPacket c = l"
proof (cases l)
  case (L_Data_PDU d)
  moreover assume "lpdu_ok l" "LPDU_ToPacket l = Some c"
  ultimately have "frame_read_back d = d" "L_Data_init c = Some (frame_read_back d)"
    by (auto simp: lpdu_ok_def frame_read_back_def L_Data_send_parse)
  with L_Data_PDU show ?thesis by (simp add: LPDU_fromPacket_frame)
qed (auto simp: lpdu_ok_def L_Unknown_ToPacket_def L_ACK_ToPacket_def L_NACK_ToPacket_def L_BUSY_ToPacket_def
       LPDU_fromPacket_def LPDU_select_def L_ACK_init_def L_NACK_init_def L_BUSY_init_def)

lemma lpdu_ok_encodes: "lpdu_ok l \<Longrightarrow> \<exists>c. LPDU_ToPacket l = Some c"
  by (cases l) (auto simp: lpdu_ok_def L_Unknown_ToPacket_def L_ACK_ToPacket_def L_NACK_ToPacket_def
      L_BUSY_ToPacket_def L_Data_ToPacket_def Let_def)

interpretation lpdu: pdu_codec LPDU_ToPacket LPDU_fromPacket lpdu_ok
  by unfold_locales (auto intro: lpdu_ok_encodes LPDU_encode_parse)

text \<open>Tracing a frame never trips an \<open>assert\<close> of the upper layers.\<close>

lemma L_Data_decodes: "L_Data_asserts d \<Longrightarrow> \<exists>s. L_Data_Decode d = Some s"
  using tpdu_ok_decodes [OF tpdu_ok_fromPacket [of "data d"]] by (auto simp: L_Data_Decode_def)

text \<open>An extended frame with as many data bytes as its length can say.\<close>

definition longest :: "CArray \<Rightarrow> bool" where
  "longest c \<longleftrightarrow> c ! 0 AND 0x80 = 0 \<and> c ! 6 = 0xff \<and> length c = 264"

lemma LPDU_fromPacket_other:
  "L_Data_init c = None \<Longrightarrow> LPDU_fromPacket c \<in> {L_Unknown_PDU c, L_ACK_PDU, L_NACK_PDU, L_BUSY_PDU}"
  by (simp add: LPDU_fromPacket_def LPDU_select_def Let_def L_ACK_init_def L_NACK_init_def L_BUSY_init_def)

lemma LPDU_fromPacket_no_monitor: "LPDU_fromPacket c \<noteq> L_Busmonitor_PDU pdu status timestamp"
  using LPDU_fromPacket_frame [of c] LPDU_fromPacket_other [of c] by (cases "L_Data_init c") auto

lemma packet_printable:
  assumes "\<not> longest c"
  shows "(\<exists>s. LPDU_Decode (LPDU_fromPacket c) = Some s) \<and> (\<exists>s. LPDU_Decode (L_Busmonitor_PDU c status timestamp) = Some s)"
proof -
  have frame: "\<exists>s. LPDU_Decode_frame (LPDU_fromPacket c) = Some s \<and> LPDU_Decode (LPDU_fromPacket c) = Some s"
  proof (cases "L_Data_init c")
    case (Some d)
    then obtain s where "L_Data_Decode d = Some s"
      using L_Data_received_ok [OF Some] assms L_Data_decodes unfolding longest_def by blast
    then show ?thesis by (simp add: LPDU_fromPacket_frame [OF Some] LPDU_Decode_def)
  next
    case None
    from LPDU_fromPacket_other [OF this] show ?thesis
      by (auto simp: LPDU_Decode_def L_Unknown_Decode_def L_ACK_Decode_def L_NACK_Decode_def L_BUSY_Decode_def)
  qed
  then show ?thesis by (auto simp: LPDU_Decode_def [of "L_Busmonitor_PDU c status timestamp"] L_Busmonitor_Decode_def)
qed

end
