(* ===== verification/CodecProps.thy ===== *)
theory CodecProps
  imports LpduCodec
begin

text \<open>
  The properties of the three codecs, application, transport and link layer: round trips, what
  the parsers return, the checksum, and the PDUs whose encoder and parser disagree.
\<close>

section \<open>Application layer\<close>

text \<open>C16: every application PDU a program may encode is encoded without tripping an \<open>assert\<close>, and
  parsing the packet gives the PDU back, for all classes but the four whose encoder is wrong.\<close>

theorem APDU_round_trip:
  assumes "apdu_ok a" and "\<not> apdu_misencoded a"
  shows "\<exists>p. APDU_ToPacket junk a = Some p \<and> APDU_fromPacket p = a"
  using assms apdu.enc_dec by blast

lemma APDU_round_trip_witness:
  "\<exists>p. APDU_ToPacket (\<lambda>_. 0) (A_Memory_Write_PDU 2 0x1234 [7, 8]) = Some p
     \<and> APDU_fromPacket p = A_Memory_Write_PDU 2 0x1234 [7, 8]"
  by (rule APDU_round_trip) (simp_all add: apdu_ok_def apdu_misencoded_def)

text \<open>C17: no packet, however malformed, makes the server abort: the PDU the parser returns can be
  encoded and printed without tripping an \<open>assert\<close>.\<close>

theorem APDU_parsed_is_safe:
  "(\<exists>p. APDU_ToPacket junk (APDU_fromPacket c) = Some p) \<and> (\<exists>s. APDU_Decode (APDU_fromPacket c) = Some s)"
  using apdu_ok_encodes apdu_ok_decodes apdu_ok_fromPacket by blast

text \<open>a sequence of encodable PDUs survives the trip over the wire: encoding it gives a packet
  for each, and parsing the packets gives the sequence.\<close>

theorem APDU_stream_round_trip:
  assumes "\<forall>a \<in> set as. apdu_ok a \<and> \<not> apdu_misencoded a"
  shows "\<exists>cs. encode_all (APDU_ToPacket junk) as = Some cs \<and> map APDU_fromPacket cs = as"
  using assms by (rule apdu.stream)

lemma APDU_stream_round_trip_witness:
  "\<exists>cs. encode_all (APDU_ToPacket (\<lambda>_. 0)) [A_GroupValue_Write_PDU True [1], A_Restart_PDU] = Some cs
     \<and> map APDU_fromPacket cs = [A_GroupValue_Write_PDU True [1], A_Restart_PDU]"
  by (rule APDU_stream_round_trip) (simp add: apdu_ok_def apdu_misencoded_def)

text \<open>the request to write an individual address by serial number is sent with the code of the
  response and the length of the request: no receiver recognises it.\<close>

theorem serial_number_write_not_recognised:
  assumes "length serno = 6"
  shows "\<exists>p. APDU_ToPacket junk (A_IndividualAddressSerialNumber_Write_PDU serno addr) = Some p
    \<and> APDU_fromPacket p = A_Unknown_PDU p"
  using assms
  by (simp add: A_IndividualAddressSerialNumber_Write_ToPacket_def APDU_fromPacket_def APDU_select_escape
      A_IndividualAddressSerialNumber_Response_init_def)

lemma serial_number_write_not_recognised_witness:
  "\<exists>p. APDU_ToPacket (\<lambda>_. 0) (A_IndividualAddressSerialNumber_Write_PDU [1, 2, 3, 4, 5, 6] 0x1101) = Some p
    \<and> APDU_fromPacket p = A_Unknown_PDU p"
  by (rule serial_number_write_not_recognised) simp

text \<open>the selective domain address request is sent with the code of the domain address response
  and with two bytes that were never written: what goes over the bus depends on old memory.\<close>

theorem domain_selective_read_leaks_memory:
  "\<exists>p. APDU_ToPacket junk (A_DomainAddressSelective_Read_PDU domain addr rnge) = Some p
    \<and> p ! 1 = 0xE2 \<and> p ! 4 = junk 4 \<and> p ! 5 = junk 5"
  by (simp add: A_DomainAddressSelective_Read_ToPacket_def Array_new_def)

text \<open>a device descriptor response is encoded without the bit that makes it a response: the
  receiver finds an unknown PDU instead, whatever the descriptor.\<close>

theorem device_descriptor_response_not_recognised:
  assumes "ptype AND 0xC0 = 0"
  shows "\<exists>p. APDU_ToPacket junk (A_DeviceDescriptor_Response_PDU ptype descriptor) = Some p
    \<and> APDU_fromPacket p = A_Unknown_PDU p"
proof -
  have "(0x01 OR (ptype AND 0x3F)) AND 0xC0 = 0"
    by (simp add: mask_and_simps)
  then show ?thesis
    using assms
    by (simp add: A_DeviceDescriptor_Response_ToPacket_def APDU_fromPacket_def APDU_select_short(12)
        A_DeviceDescriptor_Read_init_def)
qed

lemma device_descriptor_response_not_recognised_witness:
  "\<exists>p. APDU_ToPacket (\<lambda>_. 0) (A_DeviceDescriptor_Response_PDU 0 0x0701) = Some p
    \<and> APDU_fromPacket p = A_Unknown_PDU p"
  by (rule device_descriptor_response_not_recognised) simp

section \<open>Transport layer\<close>

text \<open>the transport layer loses no bit: whatever packet arrives, sending the PDU it is parsed
  to gives the same packet.\<close>

theorem TPDU_lossless: "TPDU_ToPacket (TPDU_fromPacket c) = Some c"
  by (rule TPDU_exact)

text \<open>encoding and parsing are inverse to each other on the PDUs with a four bit sequence
  number, and no PDU the parser returns can trip an \<open>assert\<close> when it is printed.\<close>

theorem TPDU_round_trip:
  assumes "tpdu_ok t"
  shows "(\<exists>p. TPDU_ToPacket t = Some p \<and> TPDU_fromPacket p = t) \<and> (\<exists>s. TPDU_Decode t = Some s)"
  using assms tpdu.enc_dec tpdu_ok_decodes by blast

lemma TPDU_round_trip_witness:
  "(\<exists>p. TPDU_ToPacket (T_ACK_PDU 5) = Some p \<and> TPDU_fromPacket p = T_ACK_PDU 5)
     \<and> (\<exists>s. TPDU_Decode (T_ACK_PDU 5) = Some s)"
  by (rule TPDU_round_trip) (simp add: tpdu_ok_def)

section \<open>Link layer\<close>

text \<open>a frame the server sends is parsed by any receiver running the same code to the same
  frame with a valid checksum, except that the priorities normal and urgent change places.\<close>

theorem L_Data_round_trip:
  assumes "L_Data_asserts d"
  shows "\<exists>c. L_Data_ToPacket d = Some c \<and>
    L_Data_init c = Some (d\<lparr>prio := priority_read_back (prio d), valid_checksum := True, valid_length := True\<rparr>)"
proof -
  obtain c where c: "L_Data_ToPacket d = Some c" using assms by (auto simp: L_Data_ToPacket_def Let_def)
  from L_Data_send_parse [OF c] c show ?thesis by (simp add: frame_read_back_def)
qed

text \<open>A frame from 1.1.1 to group 0/0/1.\<close>

definition sample_frame :: l_data where
  "sample_frame = L_Data_new\<lparr>prio := PRIO_NORMAL, AddrType := GroupAddress, source := 0x1101, dest := 1, data := [0x00, 0x81]\<rparr>"

lemma sample_frame_asserts: "L_Data_asserts sample_frame"
  by (simp add: L_Data_asserts_def sample_frame_def L_Data_new_def)

lemma L_Data_round_trip_witness:
  "\<exists>c. L_Data_ToPacket sample_frame = Some c \<and>
    L_Data_init c = Some (sample_frame\<lparr>prio := PRIO_URGENT, valid_checksum := True, valid_length := True\<rparr>)"
  using L_Data_round_trip [OF sample_frame_asserts] by (simp add: sample_frame_def priority_read_back_def)

text \<open>C18: the checksum finds every change of a single byte of a sent frame: the changed frame is
  refused, or delivered with its checksum marked invalid.\<close>

theorem L_Data_corruption_detected:
  assumes "L_Data_ToPacket d = Some c" and "i < length c" and "x \<noteq> c ! i"
  shows "case L_Data_init (c[i := x]) of None \<Rightarrow> True | Some d' \<Rightarrow> \<not> valid_checksum d'"
  using L_Data_corrupted [OF assms] by (auto split: option.split)

lemma sample_frame_bytes:
  "L_Data_ToPacket sample_frame = Some [0xB4, 0x11, 0x01, 0x00, 0x01, 0xF1, 0x00, 0x81, 0x2A]"
  by (simp add: L_Data_ToPacket_def sample_frame_asserts)
     (simp add: sample_frame_def L_Data_new_def L_Data_standard_header_def EIB_Priority_bits_def xor_but_last_def
       hi8_def lo8_def Let_def)

lemma L_Data_corruption_detected_witness:
  "case L_Data_init ([0xB4, 0x11, 0x01, 0x00, 0x01, 0xF1, 0x00, 0x81, 0x2A][7 := 0x80]) of
     None \<Rightarrow> True | Some d' \<Rightarrow> \<not> valid_checksum d'"
  by (rule L_Data_corruption_detected [OF sample_frame_bytes]) simp_all

text \<open>every frame the server accepts can be sent on, except an extended frame of 256 data
  bytes: that one trips an \<open>assert\<close>.\<close>

theorem L_Data_received_is_safe:
  assumes "L_Data_init c = Some d"
  shows "(\<exists>p. L_Data_ToPacket d = Some p) \<longleftrightarrow> \<not> (c ! 0 AND 0x80 = 0 \<and> c ! 6 = 0xff \<and> length c = 264)"
    (is "?sent \<longleftrightarrow> ?safe")
proof -
  have "?sent \<longleftrightarrow> L_Data_asserts d" by (simp add: L_Data_ToPacket_def Let_def)
  with L_Data_received_ok [OF assms] show ?thesis by simp
qed

definition sample_bytes :: CArray where
  "sample_bytes = [0xB4, 0x11, 0x01, 0x00, 0x01, 0xF1, 0x00, 0x81, 0x2A]"

lemma sample_bytes_parsed: "L_Data_init sample_bytes = Some (sample_frame\<lparr>prio := PRIO_URGENT\<rparr>)"
  using L_Data_send_parse [OF sample_frame_bytes]
  by (simp add: sample_bytes_def frame_read_back_def sample_frame_def L_Data_new_def priority_read_back_def)

lemma L_Data_received_is_safe_witness: "\<exists>p. L_Data_ToPacket (sample_frame\<lparr>prio := PRIO_URGENT\<rparr>) = Some p"
  using L_Data_received_is_safe [OF sample_bytes_parsed] by (simp add: sample_bytes_def)

text \<open>C19: forwarding loses nothing: a frame received with a valid checksum and complete length, of
  priority low or system, is sent on as exactly the same bytes, unless it came as an extended
  frame that a standard frame can hold, or as an extended frame of 256 data bytes, for which \<open>ToPacket\<close> asserts.
\<close>

theorem L_Data_forwarded_unchanged:
  assumes "L_Data_init c = Some d" and "valid_checksum d" and "valid_length d"
    and "prio d = PRIO_LOW \<or> prio d = PRIO_SYSTEM" and "length (data d) \<noteq> 256"
    and "c ! 0 AND 0x80 \<noteq> 0 \<or> 16 < length (data d)"
  shows "L_Data_ToPacket d = Some c"
proof (rule L_Data_resend [OF assms(1-3)])
  show "L_Data_asserts d" using L_Data_init_shape(1) [OF assms(1)] assms(5) by (simp add: L_Data_asserts_def)
qed (use assms(4,6) in \<open>auto simp: priority_read_back_def\<close>)

lemma low_frame_parsed:
  "L_Data_init [0xBC, 0x11, 0x01, 0x00, 0x01, 0xF1, 0x00, 0x81, 0x22] = Some (sample_frame\<lparr>prio := PRIO_LOW\<rparr>)"
  by (simp add: L_Data_init_def sample_frame_def L_Data_new_def EIB_Priority_read_def xor_but_last_def mk16_def Let_def)

lemma L_Data_forwarded_unchanged_witness:
  "L_Data_ToPacket (sample_frame\<lparr>prio := PRIO_LOW\<rparr>) = Some [0xBC, 0x11, 0x01, 0x00, 0x01, 0xF1, 0x00, 0x81, 0x22]"
  by (rule L_Data_forwarded_unchanged [OF low_frame_parsed])
     (simp_all add: sample_frame_def L_Data_new_def L_Data_asserts_def)

text \<open>tracing any packet from the bus, as a frame or as a busmonitor frame, never trips an
  \<open>assert\<close> of any layer, unless the packet is an extended frame of 256 data bytes.\<close>

theorem LPDU_parsed_is_printable:
  assumes "\<not> (c ! 0 AND 0x80 = 0 \<and> c ! 6 = 0xff \<and> length c = 264)"
  shows "(\<exists>s. LPDU_Decode (LPDU_fromPacket c) = Some s) \<and> (\<exists>s. LPDU_Decode (L_Busmonitor_PDU c status timestamp) = Some s)"
  using packet_printable [of c status timestamp] assms by (simp add: longest_def)

lemma LPDU_parsed_is_printable_witness:
  "(\<exists>s. LPDU_Decode (LPDU_fromPacket [0x12, 0x34]) = Some s) \<and> (\<exists>s. LPDU_Decode (L_Busmonitor_PDU [0x12, 0x34] 0 0) = Some s)"
  by (rule LPDU_parsed_is_printable) simp

end
