(* ===== verification/Layer4.thy ===== *)
theory Layer4
  imports LpduCodec Queues
begin

text \<open>
  The transport layer endpoints of \<open>eibd/libserver/layer4.cpp\<close>: the connectionless ones
  (\<open>T_Broadcast\<close>, \<open>T_Group\<close>, \<open>GroupSocket\<close>, \<open>T_TPDU\<close>, \<open>T_Individual\<close>) and the state
  machine of a connection, \<open>T_Connection\<close>. A call of \<open>layer3->send_L_Data\<close> is a frame in the
  result; a failed \<open>assert\<close> is \<open>None\<close>. The queues are the lists of their elements (theory
  \<open>Queues\<close> shows that the class \<open>Queue\<close> behaves like this), a semaphore is its value. The
  answer of the layer 3 registration a constructor makes is an argument.
\<close>

text \<open>The record types of \<open>layer4.h\<close>: what a client receives.\<close>

record BroadcastComm =
  bc_data :: CArray
  bc_src :: eibaddr_t

record GroupComm =
  gc_data :: CArray
  gc_src :: eibaddr_t

record TpduComm =
  tp_data :: CArray
  tp_addr :: eibaddr_t

record GroupAPDU =
  ga_data :: CArray
  ga_src :: eibaddr_t
  ga_dst :: eibaddr_t

text \<open>The members of the five connectionless classes; \<open>address\<close> is \<open>groupaddr\<close>, \<open>src\<close> or \<open>dest\<close>.\<close>

record 'a endpoint =
  outqueue :: "'a list"
  sem :: nat
  address :: eibaddr_t
  init_ok :: bool

definition endpoint_new :: "eibaddr_t \<Rightarrow> bool \<Rightarrow> 'a endpoint" where
  "endpoint_new a ok = \<lparr>outqueue = [], sem = 0, address = a, init_ok = ok\<rparr>"

text \<open>\<open>outqueue.put (c); pth_sem_inc (&sem, 0);\<close>\<close>

definition endpoint_put :: "'a \<Rightarrow> 'a endpoint \<Rightarrow> 'a endpoint" where
  "endpoint_put c e = e\<lparr>outqueue := outqueue e @ [c], sem := sem e + 1\<rparr>"

text \<open>
  \<open>Get\<close> of the five classes: waits until the semaphore is up or \<open>stop\<close> occurs. \<open>None\<close>: the
  \<open>assert\<close> of an empty queue; \<open>Some (None, e)\<close>: stopped; \<open>Some (Some c, e)\<close>: an element.
\<close>

definition endpoint_get :: "'a endpoint \<Rightarrow> ('a option \<times> 'a endpoint) option" where
  "endpoint_get e =
     (if sem e > 0 then
        (case list_get (outqueue e) of None \<Rightarrow> None
         | Some (c, q) \<Rightarrow> Some (Some c, e\<lparr>outqueue := q, sem := sem e - 1\<rparr>))
      else Some (None, e))"

text \<open>The frame a \<open>new L_Data_PDU\<close> becomes before it is handed to layer 3.\<close>

definition L_Data_request :: "eibaddr_t \<Rightarrow> eibaddr_t \<Rightarrow> EIB_AddrType \<Rightarrow> EIB_Priority \<Rightarrow> CArray \<Rightarrow> l_data" where
  "L_Data_request src dst at p c =
     L_Data_new\<lparr>source := src, dest := dst, AddrType := at, prio := p, data := c\<rparr>"

section \<open>T\_Broadcast\<close>

definition T_Broadcast_new :: "bool \<Rightarrow> bool \<Rightarrow> BroadcastComm endpoint" where
  "T_Broadcast_new write_only registered = endpoint_new 0 (write_only \<or> registered)"

definition T_Broadcast_Get_L_Data :: "l_data \<Rightarrow> BroadcastComm endpoint \<Rightarrow> BroadcastComm endpoint" where
  "T_Broadcast_Get_L_Data l e =
     (case TPDU_fromPacket (data l) of
        T_DATA_XXX_REQ_PDU d \<Rightarrow> endpoint_put \<lparr>bc_data = d, bc_src = source l\<rparr> e
      | _ \<Rightarrow> e)"

definition T_Broadcast_Send :: "CArray \<Rightarrow> l_data option" where
  "T_Broadcast_Send c =
     (case T_DATA_XXX_REQ_Decode c of None \<Rightarrow> None
      | Some s \<Rightarrow> map_option (L_Data_request 0 0 GroupAddress PRIO_LOW) (T_DATA_XXX_REQ_ToPacket c))"

definition T_Broadcast_Get :: "BroadcastComm endpoint \<Rightarrow> (BroadcastComm option \<times> BroadcastComm endpoint) option" where
  "T_Broadcast_Get = endpoint_get"

section \<open>T\_Group\<close>

definition T_Group_new :: "eibaddr_t \<Rightarrow> bool \<Rightarrow> bool \<Rightarrow> GroupComm endpoint" where
  "T_Group_new g write_only registered =
     endpoint_new g (g \<noteq> 0 \<and> (write_only \<or> registered))"

definition T_Group_Get_L_Data :: "l_data \<Rightarrow> GroupComm endpoint \<Rightarrow> GroupComm endpoint" where
  "T_Group_Get_L_Data l e =
     (case TPDU_fromPacket (data l) of
        T_DATA_XXX_REQ_PDU d \<Rightarrow> endpoint_put \<lparr>gc_data = d, gc_src = source l\<rparr> e
      | _ \<Rightarrow> e)"

definition T_Group_Send :: "CArray \<Rightarrow> GroupComm endpoint \<Rightarrow> l_data option" where
  "T_Group_Send c e =
     (case T_DATA_XXX_REQ_Decode c of None \<Rightarrow> None
      | Some s \<Rightarrow> map_option (L_Data_request 0 (address e) GroupAddress PRIO_LOW) (T_DATA_XXX_REQ_ToPacket c))"

definition T_Group_Get :: "GroupComm endpoint \<Rightarrow> (GroupComm option \<times> GroupComm endpoint) option" where
  "T_Group_Get = endpoint_get"

section \<open>T\_TPDU\<close>

definition T_TPDU_new :: "eibaddr_t \<Rightarrow> bool \<Rightarrow> TpduComm endpoint" where
  "T_TPDU_new d registered = endpoint_new d registered"

definition T_TPDU_Get_L_Data :: "l_data \<Rightarrow> TpduComm endpoint \<Rightarrow> TpduComm endpoint" where
  "T_TPDU_Get_L_Data l e = endpoint_put \<lparr>tp_data = data l, tp_addr = source l\<rparr> e"

definition T_TPDU_Send :: "TpduComm \<Rightarrow> TpduComm endpoint \<Rightarrow> l_data option" where
  "T_TPDU_Send c e = Some (L_Data_request (address e) (tp_addr c) IndividualAddress PRIO_LOW (tp_data c))"

definition T_TPDU_Get :: "TpduComm endpoint \<Rightarrow> (TpduComm option \<times> TpduComm endpoint) option" where
  "T_TPDU_Get = endpoint_get"

section \<open>T\_Individual\<close>

definition T_Individual_new :: "eibaddr_t \<Rightarrow> bool \<Rightarrow> bool \<Rightarrow> CArray endpoint" where
  "T_Individual_new d write_only registered = endpoint_new d (write_only \<or> registered)"

definition T_Individual_Get_L_Data :: "l_data \<Rightarrow> CArray endpoint \<Rightarrow> CArray endpoint" where
  "T_Individual_Get_L_Data l e =
     (case TPDU_fromPacket (data l) of T_DATA_XXX_REQ_PDU d \<Rightarrow> endpoint_put d e | _ \<Rightarrow> e)"

definition T_Individual_Send :: "CArray \<Rightarrow> CArray endpoint \<Rightarrow> l_data option" where
  "T_Individual_Send c e =
     (case T_DATA_XXX_REQ_Decode c of None \<Rightarrow> None
      | Some s \<Rightarrow> map_option (L_Data_request 0 (address e) IndividualAddress PRIO_LOW) (T_DATA_XXX_REQ_ToPacket c))"

definition T_Individual_Get :: "CArray endpoint \<Rightarrow> (CArray option \<times> CArray endpoint) option" where
  "T_Individual_Get = endpoint_get"

section \<open>GroupSocket\<close>

definition GroupSocket_new :: "bool \<Rightarrow> bool \<Rightarrow> GroupAPDU endpoint" where
  "GroupSocket_new write_only registered = endpoint_new 0 (write_only \<or> registered)"

definition GroupSocket_Get_L_Data :: "l_data \<Rightarrow> GroupAPDU endpoint \<Rightarrow> GroupAPDU endpoint" where
  "GroupSocket_Get_L_Data l e =
     (case TPDU_fromPacket (data l) of
        T_DATA_XXX_REQ_PDU d \<Rightarrow> endpoint_put \<lparr>ga_data = d, ga_src = source l, ga_dst = dest l\<rparr> e
      | _ \<Rightarrow> e)"

definition GroupSocket_Send :: "GroupAPDU \<Rightarrow> l_data option" where
  "GroupSocket_Send c =
     (case T_DATA_XXX_REQ_Decode (ga_data c) of None \<Rightarrow> None
      | Some s \<Rightarrow> map_option (L_Data_request 0 (ga_dst c) GroupAddress PRIO_LOW) (T_DATA_XXX_REQ_ToPacket (ga_data c)))"

definition GroupSocket_Get :: "GroupAPDU endpoint \<Rightarrow> (GroupAPDU option \<times> GroupAPDU endpoint) option" where
  "GroupSocket_Get = endpoint_get"

section \<open>T\_Connection\<close>

text \<open>
  The members of \<open>T_Connection\<close>; \<open>tc_mode\<close> is 0 closed, 1 idle, 2 waiting for an
  acknowledgement. The local variable \<open>timeout\<close> of \<open>Run\<close> is the number of seconds it was last
  armed with, and \<open>tc_running\<close> tells whether the thread is inside its loop.
\<close>

record t_connection =
  tc_in :: "CArray list"
  tc_buf :: "l_data list"
  tc_out :: "CArray list"
  tc_recvno :: int
  tc_sendno :: int
  tc_mode :: int
  tc_repcount :: int
  tc_dest :: eibaddr_t
  tc_insem :: nat
  tc_bufsem :: nat
  tc_outsem :: nat
  tc_timeout :: nat
  tc_running :: bool
  tc_init_ok :: bool

definition T_Connection_new :: "eibaddr_t \<Rightarrow> bool \<Rightarrow> t_connection" where
  "T_Connection_new d registered =
     \<lparr>tc_in = [], tc_buf = [], tc_out = [], tc_recvno = 0, tc_sendno = 0, tc_mode = 0, tc_repcount = 0,
      tc_dest = d, tc_insem = 0, tc_bufsem = 0, tc_outsem = 0, tc_timeout = 0, tc_running = False,
      tc_init_ok = registered\<rparr>"

definition T_Connection_Get_L_Data :: "l_data \<Rightarrow> t_connection \<Rightarrow> t_connection" where
  "T_Connection_Get_L_Data l s = s\<lparr>tc_buf := tc_buf s @ [l], tc_bufsem := tc_bufsem s + 1\<rparr>"

definition T_Connection_Send :: "CArray \<Rightarrow> t_connection \<Rightarrow> t_connection" where
  "T_Connection_Send c s = s\<lparr>tc_in := tc_in s @ [c], tc_insem := tc_insem s + 1\<rparr>"

definition T_Connection_Get :: "t_connection \<Rightarrow> (CArray option \<times> t_connection) option" where
  "T_Connection_Get s =
     (if tc_outsem s > 0 then
        (case list_get (tc_out s) of None \<Rightarrow> None
         | Some (c, q) \<Rightarrow> Some (Some c, s\<lparr>tc_out := q, tc_outsem := tc_outsem s - 1\<rparr>))
      else Some (None, s))"

definition SendConnect :: "t_connection \<Rightarrow> l_data option" where
  "SendConnect s = map_option (L_Data_request 0 (tc_dest s) IndividualAddress PRIO_SYSTEM) T_CONNECT_REQ_ToPacket"

definition SendDisconnect :: "t_connection \<Rightarrow> l_data option" where
  "SendDisconnect s = map_option (L_Data_request 0 (tc_dest s) IndividualAddress PRIO_SYSTEM) T_DISCONNECT_REQ_ToPacket"

definition SendAck :: "int \<Rightarrow> t_connection \<Rightarrow> l_data option" where
  "SendAck serno s =
     map_option (L_Data_request 0 (tc_dest s) IndividualAddress PRIO_LOW) (T_ACK_ToPacket (word_of_int serno))"

text \<open>\<open>p.Decode ()\<close> is an argument of the trace macro, evaluated only when tracing is on.\<close>

definition SendData :: "int \<Rightarrow> CArray \<Rightarrow> t_connection \<Rightarrow> l_data option" where
  "SendData serno c s =
     map_option (L_Data_request 0 (tc_dest s) IndividualAddress PRIO_LOW)
       (T_DATA_CONNECTED_REQ_ToPacket (word_of_int serno) c)"

text \<open>\<open>Run\<close> up to its loop.\<close>

definition T_Connection_start :: "t_connection \<Rightarrow> (t_connection \<times> l_data list) option" where
  "T_Connection_start s =
     map_option (\<lambda>f. (s\<lparr>tc_buf := [], tc_bufsem := 0, tc_mode := 1, tc_sendno := 0, tc_recvno := 0,
       tc_repcount := 0, tc_timeout := 6, tc_running := True\<rparr>, [f]))
       (SendConnect s)"

text \<open>The cases of the \<open>switch\<close> over the type of a received TPDU.\<close>

definition T_Connection_data :: "uchar \<Rightarrow> CArray \<Rightarrow> t_connection \<Rightarrow> (t_connection \<times> l_data list) option" where
  "T_Connection_data serno d s =
     (let n = uint serno;
          r = (if n \<noteq> tc_recvno s \<and> n \<noteq> (tc_recvno s - 1) AND 0x0f then Some (s\<lparr>tc_mode := 0\<rparr>, [])
               else if n = tc_recvno s then
                 map_option (\<lambda>f. (s\<lparr>tc_out := tc_out s @ [d[0 := d ! 0 AND 0x03]],
                   tc_outsem := tc_outsem s + 1,
                   tc_recvno := (tc_recvno s + 1) AND 0x0f\<rparr>, [f])) (SendAck (tc_recvno s) s)
               else if n = (tc_recvno s - 1) AND 0x0f then
                 map_option (\<lambda>f. (s, [f])) (SendAck n s)
               else Some (s, []))
      in map_option (\<lambda>(s, fs). (if tc_mode s = 1 then s\<lparr>tc_timeout := 6\<rparr> else s, fs)) r)"

definition T_Connection_nack :: "uchar \<Rightarrow> t_connection \<Rightarrow> (t_connection \<times> l_data list) option" where
  "T_Connection_nack serno s =
     (if uint serno \<noteq> tc_sendno s then Some (s\<lparr>tc_mode := 0\<rparr>, [])
      else case tc_in s of
        [] \<Rightarrow> Some (s\<lparr>tc_mode := 0\<rparr>, [])
      | c # _ \<Rightarrow>
          if tc_repcount s \<ge> 3 \<or> tc_mode s \<noteq> 2 then Some (s\<lparr>tc_mode := 0\<rparr>, [])
          else map_option (\<lambda>f. (s\<lparr>tc_repcount := tc_repcount s + 1, tc_timeout := 3\<rparr>, [f]))
                 (SendData (tc_sendno s) c s))"

definition T_Connection_ack :: "uchar \<Rightarrow> t_connection \<Rightarrow> (t_connection \<times> l_data list) option" where
  "T_Connection_ack serno s =
     (if uint serno \<noteq> tc_sendno s then Some (s\<lparr>tc_mode := 0\<rparr>, [])
      else if tc_mode s \<noteq> 2 then Some (s\<lparr>tc_mode := 0\<rparr>, [])
      else map_option (\<lambda>(_, q). (s\<lparr>tc_timeout := 6, tc_mode := 1, tc_in := q,
                         tc_sendno := (tc_sendno s + 1) AND 0x0f\<rparr>, []))
             (list_get (tc_in s)))"

definition T_Connection_frame :: "l_data \<Rightarrow> t_connection \<Rightarrow> (t_connection \<times> l_data list) option" where
  "T_Connection_frame l s =
     (case TPDU_fromPacket (data l) of
        T_DISCONNECT_REQ_PDU \<Rightarrow> Some (s\<lparr>tc_mode := 0\<rparr>, [])
      | T_CONNECT_REQ_PDU \<Rightarrow> Some (s\<lparr>tc_mode := 0\<rparr>, [])
      | T_DATA_CONNECTED_REQ_PDU serno d \<Rightarrow> T_Connection_data serno d s
      | T_NACK_PDU serno \<Rightarrow> T_Connection_nack serno s
      | T_ACK_PDU serno \<Rightarrow> T_Connection_ack serno s
      | _ \<Rightarrow> Some (s, []))"

text \<open>The element \<open>in.top ()\<close> is sent with the current sequence number.\<close>

definition T_Connection_transmit :: "t_connection \<Rightarrow> l_data option" where
  "T_Connection_transmit s = (case tc_in s of [] \<Rightarrow> None | c # _ \<Rightarrow> SendData (tc_sendno s) c s)"

text \<open>
  The body of the loop after a wait: the three events are tested in this order, and only
  \<open>bufev\<close> and \<open>inev\<close> are known from the semaphores; \<open>timeout\<close> says whether the timer ran out.
\<close>

definition T_Connection_body :: "bool \<Rightarrow> t_connection \<Rightarrow> (t_connection \<times> l_data list) option" where
  "T_Connection_body timeout s =
     (if tc_bufsem s > 0 then
        (case list_get (tc_buf s) of None \<Rightarrow> None
         | Some (l, q) \<Rightarrow> T_Connection_frame l (s\<lparr>tc_buf := q, tc_bufsem := tc_bufsem s - 1\<rparr>))
      else if tc_insem s > 0 \<and> tc_mode s = 1 then
        map_option (\<lambda>f. (s\<lparr>tc_repcount := 0, tc_insem := tc_insem s - 1, tc_mode := 2, tc_timeout := 3\<rparr>, [f]))
          (T_Connection_transmit s)
      else if timeout then
        (if tc_mode s = 2 \<and> tc_repcount s < 3 then
           map_option (\<lambda>f. (s\<lparr>tc_repcount := tc_repcount s + 1, tc_timeout := 3\<rparr>, [f]))
             (T_Connection_transmit s)
         else Some (s\<lparr>tc_mode := 0\<rparr>, []))
      else Some (s, []))"

text \<open>\<open>Run\<close> after its loop; layer 3 is also told to drop the callback.\<close>

definition T_Connection_finish :: "t_connection \<Rightarrow> (t_connection \<times> l_data list) option" where
  "T_Connection_finish s =
     map_option (\<lambda>f. (s\<lparr>tc_mode := 0, tc_out := tc_out s @ [[]], tc_outsem := tc_outsem s + 1,
       tc_running := False\<rparr>, [f])) (SendDisconnect s)"

text \<open>One turn of the loop, and what follows the loop when its condition fails.\<close>

definition T_Connection_turn :: "bool \<Rightarrow> bool \<Rightarrow> t_connection \<Rightarrow> (t_connection \<times> l_data list) option" where
  "T_Connection_turn stop timeout s =
     (if \<not> tc_running s then Some (s, [])
      else case T_Connection_body timeout s of None \<Rightarrow> None
      | Some (s', fs) \<Rightarrow>
          if stop \<or> tc_mode s' = 0
          then map_option (\<lambda>(s'', gs). (s'', fs @ gs)) (T_Connection_finish s')
          else Some (s', fs))"

text \<open>Everything that happens to a connection: frames and payloads arrive, the thread takes a turn.\<close>

datatype tc_event =
    Tc_Frame l_data
  | Tc_Send CArray
  | Tc_Get
  | Tc_Turn bool bool

fun T_Connection_event :: "tc_event \<Rightarrow> t_connection \<Rightarrow> (t_connection \<times> l_data list) option" where
  "T_Connection_event (Tc_Frame l) s = Some (T_Connection_Get_L_Data l s, [])"
| "T_Connection_event (Tc_Send c) s = Some (T_Connection_Send c s, [])"
| "T_Connection_event Tc_Get s = map_option (\<lambda>(_, s'). (s', [])) (T_Connection_Get s)"
| "T_Connection_event (Tc_Turn stop timeout) s = T_Connection_turn stop timeout s"

fun T_Connection_events :: "tc_event list \<Rightarrow> t_connection \<Rightarrow> (t_connection \<times> l_data list) option" where
  "T_Connection_events [] s = Some (s, [])"
| "T_Connection_events (e # es) s =
     (case T_Connection_event e s of None \<Rightarrow> None
      | Some (s', fs) \<Rightarrow> map_option (\<lambda>(s'', gs). (s'', fs @ gs)) (T_Connection_events es s'))"

end
