(* ===== verification/Endpoints.thy ===== *)
theory Endpoints
  imports Layer4
begin

text \<open>
  The contract of the connectionless endpoints: each turns some of the frames layer 3 hands it
  into an element for its client, and a client that keeps fetching gets these elements in
  order, without loss and without an aborted \<open>get\<close>. The locale is interpreted on the five classes.
\<close>

section \<open>The contract\<close>

text \<open>Fetching until nothing is left; \<open>None\<close> if a \<open>get\<close> aborts.\<close>

fun endpoint_drain :: "nat \<Rightarrow> 'a endpoint \<Rightarrow> 'a list option" where
  "endpoint_drain 0 e = Some []"
| "endpoint_drain (Suc n) e =
     (case endpoint_get e of
        None \<Rightarrow> None
      | Some (None, e') \<Rightarrow> Some []
      | Some (Some c, e') \<Rightarrow> map_option ((#) c) (endpoint_drain n e'))"

definition endpoint_inv :: "'a endpoint \<Rightarrow> bool" where
  "endpoint_inv e \<longleftrightarrow> sem e = length (outqueue e)"

lemma endpoint_inv_new [simp]: "endpoint_inv (endpoint_new a ok)" "outqueue (endpoint_new a ok) = []"
  by (simp_all add: endpoint_inv_def endpoint_new_def)

lemma endpoint_put_simps [simp]:
  "endpoint_inv (endpoint_put c e) = endpoint_inv e" "outqueue (endpoint_put c e) = outqueue e @ [c]"
  by (simp_all add: endpoint_inv_def endpoint_put_def)

lemma endpoint_drain_all: "endpoint_inv e \<Longrightarrow> length (outqueue e) \<le> n \<Longrightarrow> endpoint_drain n e = Some (outqueue e)"
proof (induction n arbitrary: e)
  case (Suc n)
  show ?case
  proof (cases "outqueue e")
    case Nil
    with Suc.prems show ?thesis by (simp add: endpoint_inv_def endpoint_get_def)
  next
    case (Cons c q)
    define e' where "e' = e\<lparr>outqueue := q, sem := sem e - 1\<rparr>"
    have g: "endpoint_get e = Some (Some c, e')"
      using Suc.prems(1) Cons by (simp add: endpoint_inv_def endpoint_get_def list_get_def e'_def)
    have "endpoint_drain n e' = Some (outqueue e')"
      by (rule Suc.IH) (use Suc.prems Cons in \<open>simp_all add: endpoint_inv_def e'_def\<close>)
    then show ?thesis by (simp add: g Cons) (simp add: e'_def)
  qed
qed (simp add: endpoint_inv_def)

locale receiver =
  fixes receive :: "l_data \<Rightarrow> 'a endpoint \<Rightarrow> 'a endpoint"
    and element :: "l_data \<Rightarrow> 'a option"
  assumes receive_element: "receive l e = (case element l of None \<Rightarrow> e | Some c \<Rightarrow> endpoint_put c e)"
begin

lemma receive_inv: "endpoint_inv e \<Longrightarrow> endpoint_inv (receive l e)"
  by (simp add: receive_element split: option.split)

lemma fold_receive:
  "endpoint_inv e \<Longrightarrow>
   endpoint_inv (fold receive ls e) \<and> outqueue (fold receive ls e) = outqueue e @ List.map_filter element ls"
  by (induction ls arbitrary: e) (auto simp: receive_element map_filter_simps split: option.splits)

lemma drained:
  assumes "length ls \<le> n"
  shows "endpoint_drain n (fold receive ls (endpoint_new a ok)) = Some (List.map_filter element ls)"
proof -
  have "length (List.map_filter element ls) \<le> length ls"
    by (induction ls) (auto simp: map_filter_simps split: option.split)
  then show ?thesis using assms fold_receive [of "endpoint_new a ok" ls]
    by (subst endpoint_drain_all) auto
qed

end

section \<open>The five classes\<close>

text \<open>What a frame carries for a client of a connectionless endpoint.\<close>

definition unnumbered :: "l_data \<Rightarrow> CArray option" where
  "unnumbered l = (case TPDU_fromPacket (data l) of T_DATA_XXX_REQ_PDU d \<Rightarrow> Some d | _ \<Rightarrow> None)"

lemma unnumbered_iff: "unnumbered l = (if data l \<noteq> [] \<and> data l ! 0 AND 0xFC = 0 then Some (data l) else None)"
proof (cases "data l \<noteq> [] \<and> data l ! 0 AND 0xFC = 0")
  case True
  then have "1 \<le> length (data l)" by (cases "data l") auto
  with True show ?thesis
    by (simp add: unnumbered_def TPDU_fromPacket_def TPDU_select_class T_DATA_XXX_REQ_init_def)
next
  case False
  have "unnumbered l = None"
  proof (cases "TPDU_fromPacket (data l)")
    case (T_DATA_XXX_REQ_PDU d)
    then have "tpdu_ok (T_DATA_XXX_REQ_PDU d)" "T_DATA_XXX_REQ_ToPacket d = Some (data l)"
      using tpdu_ok_fromPacket [of "data l"] TPDU_exact [of "data l"] by simp_all
    then have "data l = d" by (auto simp: tpdu_ok_def T_DATA_XXX_REQ_ToPacket_def low2)
    with False \<open>tpdu_ok (T_DATA_XXX_REQ_PDU d)\<close> show ?thesis by (simp add: tpdu_ok_def)
  qed (simp_all add: unnumbered_def)
  with False show ?thesis by auto
qed

interpretation broadcast: receiver T_Broadcast_Get_L_Data
  "\<lambda>l. map_option (\<lambda>d. \<lparr>bc_data = d, bc_src = source l\<rparr>) (unnumbered l)"
  by unfold_locales (simp add: T_Broadcast_Get_L_Data_def unnumbered_def split: tpdu.split)

interpretation t_group: receiver T_Group_Get_L_Data
  "\<lambda>l. map_option (\<lambda>d. \<lparr>gc_data = d, gc_src = source l\<rparr>) (unnumbered l)"
  by unfold_locales (simp add: T_Group_Get_L_Data_def unnumbered_def split: tpdu.split)

interpretation t_tpdu: receiver T_TPDU_Get_L_Data "\<lambda>l. Some \<lparr>tp_data = data l, tp_addr = source l\<rparr>"
  by unfold_locales (simp add: T_TPDU_Get_L_Data_def)

interpretation individual: receiver T_Individual_Get_L_Data unnumbered
  by unfold_locales (simp add: T_Individual_Get_L_Data_def unnumbered_def split: tpdu.split)

interpretation group_socket: receiver GroupSocket_Get_L_Data
  "\<lambda>l. map_option (\<lambda>d. \<lparr>ga_data = d, ga_src = source l, ga_dst = dest l\<rparr>) (unnumbered l)"
  by unfold_locales (simp add: GroupSocket_Get_L_Data_def unnumbered_def split: tpdu.split)

section \<open>What clients see\<close>

text \<open>a group socket shows its client every group telegram that carries unnumbered data, in the
  order they arrived and with source and destination, and nothing else; no \<open>get\<close> aborts.\<close>

theorem GroupSocket_delivers_in_order:
  assumes "length ls \<le> n"
  shows "endpoint_drain n (fold GroupSocket_Get_L_Data ls (GroupSocket_new write_only registered)) =
    Some (map (\<lambda>l. \<lparr>ga_data = data l, ga_src = source l, ga_dst = dest l\<rparr>)
      (filter (\<lambda>l. data l \<noteq> [] \<and> data l ! 0 AND 0xFC = 0) ls))"
proof -
  have "List.map_filter (\<lambda>l. map_option (\<lambda>d. \<lparr>ga_data = d, ga_src = source l, ga_dst = dest l\<rparr>) (unnumbered l)) ls =
      map (\<lambda>l. \<lparr>ga_data = data l, ga_src = source l, ga_dst = dest l\<rparr>) (filter (\<lambda>l. data l \<noteq> [] \<and> data l ! 0 AND 0xFC = 0) ls)"
    by (induction ls) (simp_all add: map_filter_simps unnumbered_iff)
  then show ?thesis using group_socket.drained [OF assms] by (simp add: GroupSocket_new_def)
qed

lemma GroupSocket_delivers_in_order_witness:
  "endpoint_drain 2 (fold GroupSocket_Get_L_Data [L_Data_request 0x1101 1 GroupAddress PRIO_LOW [0, 0x81],
       L_Data_request 0x1102 1 GroupAddress PRIO_LOW [0x80]] (GroupSocket_new False True)) =
   Some [\<lparr>ga_data = [0, 0x81], ga_src = 0x1101, ga_dst = 1\<rparr>]"
  using GroupSocket_delivers_in_order [of "[L_Data_request 0x1101 1 GroupAddress PRIO_LOW [0, 0x81],
       L_Data_request 0x1102 1 GroupAddress PRIO_LOW [0x80]]" 2 False True]
  by (simp add: L_Data_request_def L_Data_new_def)

text \<open>what a client sends through a group socket reaches the clients of another one that
  listens: the same payload with its six transport bits cleared. An empty payload trips an
  \<open>assert\<close> in the sender.\<close>

theorem GroupSocket_end_to_end:
  "(case GroupSocket_Send c of
      None \<Rightarrow> ga_data c = []
    | Some l \<Rightarrow> ga_data c \<noteq> [] \<and>
        endpoint_drain 1 (GroupSocket_Get_L_Data l (GroupSocket_new False True)) =
          Some [\<lparr>ga_data = (ga_data c)[0 := ga_data c ! 0 AND 0x3], ga_src = 0, ga_dst = ga_dst c\<rparr>])"
proof (cases "ga_data c")
  case Nil
  then show ?thesis by (simp add: GroupSocket_Send_def T_DATA_XXX_REQ_ToPacket_def split: option.split)
next
  case (Cons b bs)
  define l where "l = L_Data_request 0 (ga_dst c) GroupAddress PRIO_LOW ((b AND 0x3) # bs)"
  have "\<exists>s. T_DATA_XXX_REQ_Decode (b # bs) = Some s"
    using apdu_ok_decodes [OF apdu_ok_fromPacket [of "b # bs"]] by (auto simp: T_DATA_XXX_REQ_Decode_def)
  then have s: "GroupSocket_Send c = Some l"
    using Cons by (auto simp: GroupSocket_Send_def T_DATA_XXX_REQ_ToPacket_def l_def)
  have "data l = (b AND 0x3) # bs" "source l = 0" "dest l = ga_dst c"
    by (simp_all add: l_def L_Data_request_def L_Data_new_def)
  then have "endpoint_drain 1 (fold GroupSocket_Get_L_Data [l] (GroupSocket_new False True)) =
      Some [\<lparr>ga_data = (b AND 0x3) # bs, ga_src = 0, ga_dst = ga_dst c\<rparr>]"
    using group_socket.drained [of "[l]" 1 0 True]
    by (simp add: GroupSocket_new_def map_filter_simps unnumbered_iff and.assoc del: endpoint_drain.simps)
  then show ?thesis using s Cons by simp
qed

end
