(* ===== verification/Transport.thy ===== *)
theory Transport
  imports Layer4 "HOL-Library.Sublist"
begin

text \<open>
  What a transport layer connection guarantees. The state invariant \<open>tc_inv\<close> ties the
  semaphores to the queues and is kept by every event; from it follow that no event aborts,
  that one payload is sent at most four times, and that a connection whose peer is silent
  closes. An abstract protocol over views of the state, \<open>proto\<close>, is refined by the loop of
  \<open>Run\<close>; two endpoints over a channel that may lose frames deliver every payload once, in
  order.
\<close>

section \<open>The frames a connection sends\<close>

lemma int_low_nibble: "(x :: int) AND 0x0f = x mod 16"
  using take_bit_eq_mask [of 4 x] take_bit_eq_mod [of 4 x] by (simp add: mask_eq_exp_minus_1)

lemma uint_of_low [simp]: "0 \<le> n \<Longrightarrow> n < 16 \<Longrightarrow> uint (word_of_int n :: uchar) = n"
  by (simp add: uint_word_of_int_eq take_bit_int_eq_self)

lemma low_serno: "0 \<le> n \<Longrightarrow> n < 16 \<Longrightarrow> (word_of_int n :: uchar) AND 0xF0 = 0"
proof -
  assume n: "0 \<le> n" "n < 16"
  then have "(word_of_int n :: uchar) = take_bit 4 (word_of_int n)"
    by (simp add: take_bit_of_int take_bit_int_eq_self)
  moreover have "take_bit 4 x AND 0xF0 = 0" for x :: uchar
    by (simp add: take_bit_eq_mask flip: mask4_eq) (simp add: mask_and_simps)
  ultimately show ?thesis by metis
qed

text \<open>What a receiver sees of a frame.\<close>

datatype tmsg = MData int CArray | MAck int | MNack int | MClose | MOther

definition payload :: "CArray \<Rightarrow> CArray" where
  "payload c = c[0 := c ! 0 AND 0x03]"

definition tmsg_of :: "l_data \<Rightarrow> tmsg" where
  "tmsg_of l =
     (case TPDU_fromPacket (data l) of
        T_DATA_CONNECTED_REQ_PDU serno d \<Rightarrow> MData (uint serno) (payload d)
      | T_ACK_PDU serno \<Rightarrow> MAck (uint serno)
      | T_NACK_PDU serno \<Rightarrow> MNack (uint serno)
      | T_CONNECT_REQ_PDU \<Rightarrow> MClose
      | T_DISCONNECT_REQ_PDU \<Rightarrow> MClose
      | _ \<Rightarrow> MOther)"

lemma data_L_Data_request [simp]: "data (L_Data_request a b t p c) = c"
  by (simp add: L_Data_request_def)

lemma payload_eq:
  "c \<noteq> [] \<Longrightarrow> p \<noteq> [] \<Longrightarrow> tl p = tl c \<Longrightarrow> p ! 0 AND 0x3 = c ! 0 AND 0x3 \<Longrightarrow> payload p = payload c"
  by (cases c; cases p) (simp_all add: payload_def)

lemma payload_nonempty [simp]: "payload c = [] \<longleftrightarrow> c = []"
  by (simp add: payload_def)

lemma SendData_frame:
  assumes "c \<noteq> []" and "0 \<le> n" and "n < 16"
  shows "\<exists>f. SendData n c s = Some f \<and> tmsg_of f = MData n (payload c)"
proof -
  obtain p where p: "T_DATA_CONNECTED_REQ_ToPacket (word_of_int n) c = Some p"
    "TPDU_fromPacket p = T_DATA_CONNECTED_REQ_PDU (word_of_int n) p"
    "tl p = tl c" "p ! 0 AND 0x3 = c ! 0 AND 0x3"
    using T_DATA_CONNECTED_REQ_sent [OF assms(1) low_serno [OF assms(2,3)]] by blast
  have "p \<noteq> []" using p(1) assms(1) by (auto simp: T_DATA_CONNECTED_REQ_ToPacket_def split: if_splits)
  then have "payload p = payload c" using payload_eq assms(1) p(3,4) by blast
  then show ?thesis using p(1,2) assms(2,3) by (simp add: SendData_def tmsg_of_def)
qed

lemma SendAck_frame:
  assumes "0 \<le> n" and "n < 16"
  shows "\<exists>f. SendAck n s = Some f \<and> tmsg_of f = MAck n"
proof -
  have "tpdu_ok (T_ACK_PDU (word_of_int n))" using low_serno [OF assms] by (simp add: tpdu_ok_def)
  from tpdu.enc_dec [OF this] obtain p where "T_ACK_ToPacket (word_of_int n) = Some p"
    "TPDU_fromPacket p = T_ACK_PDU (word_of_int n)"
    by auto
  then show ?thesis using assms by (simp add: SendAck_def tmsg_of_def)
qed

lemma SendDisconnect_frame: "\<exists>f. SendDisconnect s = Some f \<and> tmsg_of f = MClose"
  using tpdu.enc_dec [of T_DISCONNECT_REQ_PDU] by (auto simp: SendDisconnect_def tmsg_of_def tpdu_ok_def)

lemma SendConnect_frame: "\<exists>f. SendConnect s = Some f \<and> tmsg_of f = MClose"
  using tpdu.enc_dec [of T_CONNECT_REQ_PDU] by (auto simp: SendConnect_def tmsg_of_def tpdu_ok_def)

section \<open>The state invariant\<close>

definition tc_inv :: "t_connection \<Rightarrow> bool" where
  "tc_inv s \<longleftrightarrow>
     tc_bufsem s = length (tc_buf s) \<and> tc_outsem s = length (tc_out s) \<and>
     (\<forall>c \<in> set (tc_in s). c \<noteq> []) \<and>
     0 \<le> tc_recvno s \<and> tc_recvno s < 16 \<and> 0 \<le> tc_sendno s \<and> tc_sendno s < 16 \<and>
     0 \<le> tc_repcount s \<and> tc_repcount s \<le> 3 \<and> tc_mode s \<in> {0, 1, 2} \<and>
     (tc_mode s = 1 \<longrightarrow> tc_insem s = length (tc_in s)) \<and>
     (tc_mode s = 2 \<longrightarrow> Suc (tc_insem s) = length (tc_in s)) \<and>
     (tc_running s \<longrightarrow> tc_mode s \<noteq> 0)"

text \<open>The invariant between the body of the loop and the test of its condition.\<close>

abbreviation tc_inv_mid :: "t_connection \<Rightarrow> bool" where
  "tc_inv_mid s \<equiv> tc_inv (s\<lparr>tc_running := False\<rparr>)"

section \<open>The abstract protocol\<close>

text \<open>
  What the protocol is about: the payloads not yet acknowledged, the messages that wait to be
  handled, the payloads delivered (not the empty array that reports the end), the two
  sequence numbers, the mode and how often the current payload was repeated.
\<close>

record tview =
  vin :: "CArray list"
  vmsgs :: "tmsg list"
  vout :: "CArray list"
  vrecv :: int
  vsend :: int
  vmode :: int
  vrep :: int

definition tc_view :: "t_connection \<Rightarrow> tview" where
  "tc_view s = \<lparr>vin = tc_in s, vmsgs = map tmsg_of (tc_buf s), vout = filter (\<lambda>c. c \<noteq> []) (tc_out s),
     vrecv = tc_recvno s, vsend = tc_sendno s, vmode = tc_mode s, vrep = tc_repcount s\<rparr>"

inductive proto :: "tview \<Rightarrow> tmsg list \<Rightarrow> tview \<Rightarrow> bool" where
  deliver: "vmsgs v = MData (vrecv v) p # q \<Longrightarrow> p \<noteq> [] \<Longrightarrow>
     proto v [MAck (vrecv v)] (v\<lparr>vmsgs := q, vout := vout v @ [p], vrecv := (vrecv v + 1) mod 16\<rparr>)"
| duplicate: "vmsgs v = MData k p # q \<Longrightarrow> k = (vrecv v - 1) mod 16 \<Longrightarrow> proto v [MAck k] (v\<lparr>vmsgs := q\<rparr>)"
| acked: "vmsgs v = MAck (vsend v) # q \<Longrightarrow> vmode v = 2 \<Longrightarrow> vin v = c # cs \<Longrightarrow>
     proto v [] (v\<lparr>vmsgs := q, vin := cs, vsend := (vsend v + 1) mod 16, vmode := 1\<rparr>)"
| send: "vmode v = 1 \<Longrightarrow> vin v = c # cs \<Longrightarrow>
     proto v [MData (vsend v) (payload c)] (v\<lparr>vmode := 2, vrep := 0\<rparr>)"
| again: "vmode v = 2 \<Longrightarrow> vrep v < 3 \<Longrightarrow> vin v = c # cs \<Longrightarrow>
     proto v [MData (vsend v) (payload c)] (v\<lparr>vrep := vrep v + 1\<rparr>)"
| resend: "vmsgs v = MNack (vsend v) # q \<Longrightarrow> vmode v = 2 \<Longrightarrow> vrep v < 3 \<Longrightarrow> vin v = c # cs \<Longrightarrow>
     proto v [MData (vsend v) (payload c)] (v\<lparr>vmsgs := q, vrep := vrep v + 1\<rparr>)"
| ignored: "vmsgs v = MOther # q \<Longrightarrow> proto v [] (v\<lparr>vmsgs := q\<rparr>)"
| refused: "vmsgs v = m # q \<Longrightarrow> proto v [] (v\<lparr>vmsgs := q, vmode := 0\<rparr>)"
| expired: "proto v [] (v\<lparr>vmode := 0\<rparr>)"
| spurious: "proto v [] v"


section \<open>The body of the loop refines the protocol\<close>

lemma tmsg_of_cases:
  obtains serno d where "TPDU_fromPacket (data l) = T_DATA_CONNECTED_REQ_PDU serno d" "d \<noteq> []" "tmsg_of l = MData (uint serno) (payload d)"
    | serno where "TPDU_fromPacket (data l) = T_ACK_PDU serno" "tmsg_of l = MAck (uint serno)"
    | serno where "TPDU_fromPacket (data l) = T_NACK_PDU serno" "tmsg_of l = MNack (uint serno)"
    | "TPDU_fromPacket (data l) = T_CONNECT_REQ_PDU \<or> TPDU_fromPacket (data l) = T_DISCONNECT_REQ_PDU" "tmsg_of l = MClose"
    | d where "TPDU_fromPacket (data l) = T_UNKNOWN_PDU d \<or> TPDU_fromPacket (data l) = T_DATA_XXX_REQ_PDU d" "tmsg_of l = MOther"
proof (cases "TPDU_fromPacket (data l)")
  case (T_DATA_CONNECTED_REQ_PDU serno d)
  moreover have "d \<noteq> []"
    using tpdu_ok_fromPacket [of "data l"] T_DATA_CONNECTED_REQ_PDU by (simp add: tpdu_ok_def)
  ultimately show ?thesis by (intro that(1)) (auto simp: tmsg_of_def)
qed (auto simp: tmsg_of_def intro: that(2-))

lemma view_simps [simp]:
  "vin (tc_view s) = tc_in s" "vmsgs (tc_view s) = map tmsg_of (tc_buf s)"
  "vout (tc_view s) = filter (\<lambda>c. c \<noteq> []) (tc_out s)" "vrecv (tc_view s) = tc_recvno s"
  "vsend (tc_view s) = tc_sendno s" "vmode (tc_view s) = tc_mode s" "vrep (tc_view s) = tc_repcount s"
  by (simp_all add: tc_view_def)

definition body_ok :: "t_connection \<Rightarrow> (t_connection \<times> l_data list) option \<Rightarrow> bool" where
  "body_ok s r \<longleftrightarrow>
     (\<exists>s' fs. r = Some (s', fs) \<and> tc_inv_mid s' \<and> tc_running s' = tc_running s \<and>
        proto (tc_view s) (map tmsg_of fs) (tc_view s'))"

lemma body_okI:
  "r = Some (s', fs) \<Longrightarrow> tc_inv_mid s' \<Longrightarrow> tc_running s' = tc_running s \<Longrightarrow>
   map tmsg_of fs = ms \<Longrightarrow> tc_view s' = v' \<Longrightarrow> proto (tc_view s) ms v' \<Longrightarrow> body_ok s r"
  unfolding body_ok_def by blast

text \<open>The state while the frame that was taken from \<open>buf\<close> is handled.\<close>

abbreviation taken :: "t_connection \<Rightarrow> t_connection" where
  "taken s \<equiv> s\<lparr>tc_buf := tl (tc_buf s), tc_bufsem := tc_bufsem s - 1\<rparr>"

lemma payload_fold: "d[0 := d ! 0 AND 0x03] = payload d"
  by (simp add: payload_def)

lemma data_ok:
  assumes "tc_inv s" and "tc_buf s = l # q" and "tmsg_of l = MData (uint serno) (payload d)" and "d \<noteq> []"
  shows "body_ok s (T_Connection_data serno d (taken s))"
proof -
  let ?n = "uint serno"
  let ?t = "\<lambda>s. if tc_mode s = 1 then s\<lparr>tc_timeout := 6\<rparr> else s"
  note inv = assms(1) [unfolded tc_inv_def]
  consider "?n = tc_recvno s" | "?n \<noteq> tc_recvno s" "?n = (tc_recvno s - 1) mod 16"
    | "?n \<noteq> tc_recvno s" "?n \<noteq> (tc_recvno s - 1) mod 16" by blast
  then show ?thesis
  proof cases
    case 1
    define s' where "s' = ?t ((taken s)\<lparr>tc_out := tc_out s @ [payload d], tc_outsem := tc_outsem s + 1,
                              tc_recvno := (tc_recvno s + 1) mod 16\<rparr>)"
    obtain f where f: "SendAck (tc_recvno s) (taken s) = Some f" "tmsg_of f = MAck (tc_recvno s)"
      using SendAck_frame inv by blast
    have r: "T_Connection_data serno d (taken s) = Some (s', [f])"
      using 1 f by (simp add: T_Connection_data_def Let_def int_low_nibble payload_fold s'_def)
    have "tc_inv_mid s'" "tc_running s' = tc_running s"
      using inv assms(2) by (auto simp: tc_inv_def s'_def)
    moreover have "proto (tc_view s) [MAck (tc_recvno s)] (tc_view s')"
      using proto.deliver [of "tc_view s" "payload d" "map tmsg_of q"] assms 1
      by (cases "tc_mode s = 1") (simp_all add: tc_view_def s'_def)
    ultimately show ?thesis using r f(2) by (intro body_okI) auto
  next
    case 2
    obtain f where f: "SendAck ?n (taken s) = Some f" "tmsg_of f = MAck ?n"
      using SendAck_frame [of ?n] 2 by auto
    have r: "T_Connection_data serno d (taken s) = Some (?t (taken s), [f])"
      using 2 f by (simp add: T_Connection_data_def Let_def int_low_nibble)
    have "tc_inv_mid (?t (taken s))" "tc_running (?t (taken s)) = tc_running s"
      using inv assms(2) by (auto simp: tc_inv_def)
    moreover have "proto (tc_view s) [MAck ?n] (tc_view (?t (taken s)))"
      using proto.duplicate [of "tc_view s" ?n "payload d" "map tmsg_of q"] assms 2
      by (cases "tc_mode s = 1") (simp_all add: tc_view_def)
    ultimately show ?thesis using r f(2) by (intro body_okI) auto
  next
    case 3
    have r: "T_Connection_data serno d (taken s) = Some ((taken s)\<lparr>tc_mode := 0\<rparr>, [])"
      using 3 by (simp add: T_Connection_data_def Let_def int_low_nibble)
    have "tc_inv_mid ((taken s)\<lparr>tc_mode := 0\<rparr>)"
      using inv assms(2) by (auto simp: tc_inv_def)
    moreover have "proto (tc_view s) [] (tc_view ((taken s)\<lparr>tc_mode := 0\<rparr>))"
      using proto.refused [of "tc_view s" "tmsg_of l" "map tmsg_of q"] assms by (simp add: tc_view_def)
    ultimately show ?thesis using r by (intro body_okI) auto
  qed
qed

lemma refused_ok:
  assumes "tc_inv s" and "tc_buf s = l # q" and "r = Some ((taken s)\<lparr>tc_mode := 0\<rparr>, [])"
  shows "body_ok s r"
proof -
  have "tc_inv_mid ((taken s)\<lparr>tc_mode := 0\<rparr>)"
    using assms(1,2) by (auto simp: tc_inv_def)
  moreover have "proto (tc_view s) [] (tc_view ((taken s)\<lparr>tc_mode := 0\<rparr>))"
    using proto.refused [of "tc_view s" "tmsg_of l" "map tmsg_of q"] assms by (simp add: tc_view_def)
  ultimately show ?thesis using assms(3) by (intro body_okI) auto
qed

lemma expired_ok:
  assumes "tc_inv s"
  shows "body_ok s (Some (s\<lparr>tc_mode := 0\<rparr>, []))"
proof -
  have "tc_inv_mid (s\<lparr>tc_mode := 0\<rparr>)"
    using assms by (auto simp: tc_inv_def)
  moreover have "proto (tc_view s) [] (tc_view (s\<lparr>tc_mode := 0\<rparr>))"
    using proto.expired [of "tc_view s"] by (simp add: tc_view_def)
  ultimately show ?thesis by (intro body_okI) auto
qed

lemma send_payload:
  "tc_inv s \<Longrightarrow> c \<noteq> [] \<Longrightarrow> \<exists>f. SendData (tc_sendno s) c s' = Some f \<and> tmsg_of f = MData (tc_sendno s) (payload c)"
  by (rule SendData_frame) (simp_all add: tc_inv_def)

lemma waiting_payload:
  assumes "tc_inv s" and "tc_mode s = 2"
  shows "\<exists>c cs. tc_in s = c # cs \<and> c \<noteq> [] \<and> tc_insem s = length cs"
proof -
  have "Suc (tc_insem s) = length (tc_in s)" "\<forall>c \<in> set (tc_in s). c \<noteq> []"
    using assms by (simp_all add: tc_inv_def)
  then show ?thesis by (cases "tc_in s") simp_all
qed

lemma nack_ok:
  assumes "tc_inv s" and "tc_buf s = l # q" and "tmsg_of l = MNack (uint serno)"
  shows "body_ok s (T_Connection_nack serno (taken s))"
proof (cases "uint serno = tc_sendno s \<and> tc_mode s = 2 \<and> tc_repcount s < 3")
  case True
  note inv = assms(1) [unfolded tc_inv_def]
  obtain c cs where c: "tc_in s = c # cs" "c \<noteq> []"
    using waiting_payload [OF assms(1)] True by blast
  obtain f where f: "SendData (tc_sendno s) c (taken s) = Some f" "tmsg_of f = MData (tc_sendno s) (payload c)"
    using send_payload [OF assms(1) c(2)] by blast
  define s' where "s' = (taken s)\<lparr>tc_repcount := tc_repcount s + 1, tc_timeout := 3\<rparr>"
  have "T_Connection_nack serno (taken s) = Some (s', [f])"
    using True f c by (simp add: T_Connection_nack_def s'_def)
  moreover have "tc_inv_mid s'" "tc_running s' = tc_running s"
    using inv True assms(2) by (auto simp: tc_inv_def s'_def)
  moreover have "proto (tc_view s) [MData (tc_sendno s) (payload c)] (tc_view s')"
    using proto.resend [of "tc_view s" "map tmsg_of q" c cs] assms True c by (simp add: tc_view_def s'_def)
  ultimately show ?thesis using f(2) by (intro body_okI) auto
next
  case False
  then have "T_Connection_nack serno (taken s) = Some ((taken s)\<lparr>tc_mode := 0\<rparr>, [])"
    by (cases "tc_in s") (auto simp: T_Connection_nack_def not_le)
  with assms(1,2) show ?thesis by (rule refused_ok)
qed

lemma ack_ok:
  assumes "tc_inv s" and "tc_buf s = l # q" and "tmsg_of l = MAck (uint serno)"
  shows "body_ok s (T_Connection_ack serno (taken s))"
proof (cases "uint serno = tc_sendno s \<and> tc_mode s = 2")
  case True
  note inv = assms(1) [unfolded tc_inv_def]
  from True inv obtain c cs where c: "tc_in s = c # cs" by (cases "tc_in s") auto
  define s' where "s' = (taken s)\<lparr>tc_timeout := 6, tc_mode := 1, tc_in := cs, tc_sendno := (tc_sendno s + 1) mod 16\<rparr>"
  have "T_Connection_ack serno (taken s) = Some (s', [])"
    using True c by (simp add: T_Connection_ack_def s'_def list_get_def int_low_nibble)
  moreover have "tc_inv_mid s'" "tc_running s' = tc_running s"
    using inv True assms(2) c by (auto simp: tc_inv_def s'_def)
  moreover have "proto (tc_view s) [] (tc_view s')"
    using proto.acked [of "tc_view s" "map tmsg_of q" c cs] assms True c by (simp add: tc_view_def s'_def)
  ultimately show ?thesis by (intro body_okI) auto
next
  case False
  then have "T_Connection_ack serno (taken s) = Some ((taken s)\<lparr>tc_mode := 0\<rparr>, [])"
    by (auto simp: T_Connection_ack_def)
  with assms(1,2) show ?thesis by (rule refused_ok)
qed

lemma frame_ok:
  assumes "tc_inv s" and "tc_buf s = l # q"
  shows "body_ok s (T_Connection_frame l (taken s))"
proof (cases l rule: tmsg_of_cases)
  case (1 serno d)
  with data_ok [OF assms 1(3,2)] show ?thesis by (simp add: T_Connection_frame_def)
next
  case (2 serno)
  with ack_ok [OF assms 2(2)] show ?thesis by (simp add: T_Connection_frame_def)
next
  case (3 serno)
  with nack_ok [OF assms 3(2)] show ?thesis by (simp add: T_Connection_frame_def)
next
  case 4
  with assms show ?thesis
    by (intro refused_ok [OF assms]) (auto simp: T_Connection_frame_def)
next
  case (5 d)
  then have "T_Connection_frame l (taken s) = Some (taken s, [])"
    by (auto simp: T_Connection_frame_def)
  moreover have "tc_inv_mid (taken s)" using assms by (auto simp: tc_inv_def)
  moreover have "proto (tc_view s) [] (tc_view (taken s))"
    using proto.ignored [of "tc_view s" "map tmsg_of q"] assms 5 by (simp add: tc_view_def)
  ultimately show ?thesis by (intro body_okI) auto
qed

text \<open>Sending the first payload of \<open>in\<close>, at first or again.\<close>

lemma transmit_ok:
  assumes "tc_inv s" and "tc_in s = c # cs"
    and "tc_mode s = 1 \<and> n = 0 \<or> tc_mode s = 2 \<and> tc_repcount s < 3 \<and> n = tc_repcount s + 1"
    and "s' = s\<lparr>tc_repcount := n, tc_insem := length cs, tc_mode := 2, tc_timeout := 3\<rparr>"
    and "r = map_option (\<lambda>f. (s', [f])) (T_Connection_transmit s)"
  shows "body_ok s r"
proof -
  note inv = assms(1) [unfolded tc_inv_def]
  have "0 \<le> tc_repcount s" using inv by simp
  with assms(3) have n: "0 \<le> n" "n \<le> 3" by auto
  obtain f where f: "SendData (tc_sendno s) c s = Some f" "tmsg_of f = MData (tc_sendno s) (payload c)"
    using send_payload [OF assms(1), of c] inv assms(2) by auto
  have "r = Some (s', [f])"
    using f assms(2,5) by (simp add: T_Connection_transmit_def)
  moreover have "tc_inv_mid s'" "tc_running s' = tc_running s"
    using inv n assms(2,4) by (simp_all add: tc_inv_def)
  moreover have "proto (tc_view s) [MData (tc_sendno s) (payload c)] (tc_view s')"
    using assms(3)
  proof
    assume "tc_mode s = 1 \<and> n = 0"
    then show ?thesis using proto.send [of "tc_view s" c cs] assms(2,4) by (simp add: tc_view_def)
  next
    assume "tc_mode s = 2 \<and> tc_repcount s < 3 \<and> n = tc_repcount s + 1"
    then show ?thesis using proto.again [of "tc_view s" c cs] assms(2,4) by (simp add: tc_view_def)
  qed
  ultimately show ?thesis using f(2) by (intro body_okI) auto
qed

lemma T_Connection_body_ok:
  assumes "tc_inv s"
  shows "body_ok s (T_Connection_body timeout s)"
proof -
  note inv = assms [unfolded tc_inv_def]
  consider "tc_bufsem s > 0" | "tc_bufsem s = 0" "tc_insem s > 0" "tc_mode s = 1"
    | "tc_bufsem s = 0" "\<not> (tc_insem s > 0 \<and> tc_mode s = 1)" by auto
  then show ?thesis
  proof cases
    case 1
    with inv obtain l q where l: "tc_buf s = l # q" by (cases "tc_buf s") auto
    with 1 have "T_Connection_body timeout s = T_Connection_frame l (taken s)"
      by (simp add: T_Connection_body_def list_get_def)
    with frame_ok [OF assms l] show ?thesis by simp
  next
    case 2
    with inv obtain c cs where c: "tc_in s = c # cs" by (cases "tc_in s") auto
    show ?thesis
      by (rule transmit_ok [OF assms c, of 0])
        (use 2 c inv in \<open>auto simp: T_Connection_body_def\<close>)
  next
    case 3
    show ?thesis
    proof (cases "timeout \<and> tc_mode s = 2 \<and> tc_repcount s < 3")
      case True
      with inv obtain c cs where c: "tc_in s = c # cs" by (cases "tc_in s") auto
      show ?thesis
        by (rule transmit_ok [OF assms c, of "tc_repcount s + 1"])
          (use True 3 c inv in \<open>auto simp: T_Connection_body_def\<close>)
    next
      case False
      have "body_ok s (Some (s, []))"
        using assms proto.spurious by (intro body_okI) (auto simp: tc_inv_def)
      with False 3 expired_ok [OF assms] show ?thesis
        by (auto simp: T_Connection_body_def)
    qed
  qed
qed

section \<open>Every event keeps the invariant\<close>

lemma finish_ok:
  assumes "tc_inv_mid s"
  shows "\<exists>f. T_Connection_finish s = Some (s\<lparr>tc_mode := 0, tc_out := tc_out s @ [[]],
           tc_outsem := tc_outsem s + 1, tc_running := False\<rparr>, [f]) \<and> tmsg_of f = MClose
         \<and> tc_inv (s\<lparr>tc_mode := 0, tc_out := tc_out s @ [[]], tc_outsem := tc_outsem s + 1, tc_running := False\<rparr>)"
  using SendDisconnect_frame [of s] assms by (auto simp: T_Connection_finish_def tc_inv_def)

text \<open>A turn is a protocol step, followed by the end of the loop or not.\<close>

lemma T_Connection_turn_cases:
  assumes "tc_inv s" and "tc_running s"
  obtains s1 fs where "T_Connection_body timeout s = Some (s1, fs)" "T_Connection_turn stop timeout s = Some (s1, fs)"
      "tc_inv s1" "tc_running s1" "proto (tc_view s) (map tmsg_of fs) (tc_view s1)" "\<not> stop"
    | s1 fs f s2 where "T_Connection_body timeout s = Some (s1, fs)" "T_Connection_turn stop timeout s = Some (s2, fs @ [f])"
      "tc_inv s2" "\<not> tc_running s2" "proto (tc_view s) (map tmsg_of fs) (tc_view s1)" "tmsg_of f = MClose"
      "s2 = s1\<lparr>tc_mode := 0, tc_out := tc_out s1 @ [[]], tc_outsem := tc_outsem s1 + 1, tc_running := False\<rparr>"
proof -
  from T_Connection_body_ok [OF assms(1), of timeout] obtain s1 fs where
    b: "T_Connection_body timeout s = Some (s1, fs)" "tc_inv_mid s1" "tc_running s1 = tc_running s"
       "proto (tc_view s) (map tmsg_of fs) (tc_view s1)"
    unfolding body_ok_def by blast
  show ?thesis
  proof (cases "stop \<or> tc_mode s1 = 0")
    case True
    from finish_ok [OF b(2)] obtain f where f: "T_Connection_finish s1 = Some (s1\<lparr>tc_mode := 0, tc_out := tc_out s1 @ [[]],
           tc_outsem := tc_outsem s1 + 1, tc_running := False\<rparr>, [f])" "tmsg_of f = MClose"
       "tc_inv (s1\<lparr>tc_mode := 0, tc_out := tc_out s1 @ [[]], tc_outsem := tc_outsem s1 + 1, tc_running := False\<rparr>)"
      by blast
    have "T_Connection_turn stop timeout s = Some (s1\<lparr>tc_mode := 0, tc_out := tc_out s1 @ [[]],
           tc_outsem := tc_outsem s1 + 1, tc_running := False\<rparr>, fs @ [f])"
      using True b(1) f(1) assms(2) by (simp add: T_Connection_turn_def)
    then show ?thesis using b f by (intro that(2)) auto
  next
    case False
    then have "T_Connection_turn stop timeout s = Some (s1, fs)"
      using b(1) assms(2) by (simp add: T_Connection_turn_def)
    then show ?thesis using b False assms(2) by (intro that(1)) (auto simp: tc_inv_def)
  qed
qed

lemma T_Connection_turn_ok:
  assumes "tc_inv s"
  shows "\<exists>s' fs. T_Connection_turn stop timeout s = Some (s', fs) \<and> tc_inv s'"
proof (cases "tc_running s")
  case True
  with assms show ?thesis by (cases rule: T_Connection_turn_cases [of s timeout stop]) auto
qed (use assms in \<open>simp add: T_Connection_turn_def\<close>)

text \<open>A client must not send an empty payload.\<close>

definition tc_event_ok :: "tc_event \<Rightarrow> bool" where
  "tc_event_ok e = (case e of Tc_Send c \<Rightarrow> c \<noteq> [] | _ \<Rightarrow> True)"

lemma T_Connection_event_ok:
  assumes "tc_inv s" and "tc_event_ok e"
  shows "\<exists>s' fs. T_Connection_event e s = Some (s', fs) \<and> tc_inv s'"
proof (cases e)
  case (Tc_Turn stop timeout)
  then show ?thesis using T_Connection_turn_ok [OF assms(1)] by simp
next
  case Tc_Get
  show ?thesis
  proof (cases "tc_out s")
    case Nil
    with assms Tc_Get show ?thesis by (simp add: tc_inv_def T_Connection_Get_def)
  next
    case (Cons c q)
    with assms Tc_Get show ?thesis
      by (auto simp: tc_inv_def T_Connection_Get_def list_get_def)
  qed
qed (use assms in \<open>auto simp: tc_event_ok_def tc_inv_def T_Connection_Get_L_Data_def T_Connection_Send_def\<close>)

lemma T_Connection_events_ok:
  "tc_inv s \<Longrightarrow> list_all tc_event_ok es \<Longrightarrow> \<exists>s' fs. T_Connection_events es s = Some (s', fs) \<and> tc_inv s'"
proof (induction es arbitrary: s)
  case (Cons e es)
  then obtain s1 fs where e: "T_Connection_event e s = Some (s1, fs)" "tc_inv s1"
    using T_Connection_event_ok [of s e] by auto
  moreover obtain s2 gs where "T_Connection_events es s1 = Some (s2, gs)" "tc_inv s2"
    using Cons.IH [OF e(2)] Cons.prems(2) by auto
  ultimately show ?case by simp
qed simp

lemma T_Connection_start_ok:
  assumes "tc_inv s" and "tc_insem s = length (tc_in s)"
  shows "\<exists>s' f. T_Connection_start s = Some (s', [f]) \<and> tc_inv s' \<and> tc_running s' \<and> tc_mode s' = 1
    \<and> tc_in s' = tc_in s \<and> tc_out s' = tc_out s \<and> tc_buf s' = [] \<and> tc_sendno s' = 0 \<and> tc_recvno s' = 0 \<and> tc_repcount s' = 0"
  using SendConnect_frame [of s] assms by (auto simp: T_Connection_start_def tc_inv_def)

lemma T_Connection_new_inv: "tc_inv (T_Connection_new d r)"
  by (simp add: T_Connection_new_def tc_inv_def)

section \<open>Two endpoints\<close>

text \<open>
  One direction of a conversation: endpoint \<open>A\<close> sends the payloads \<open>S\<close>, of which \<open>n\<close> are
  acknowledged, and \<open>B\<close> has delivered \<open>m\<close>, of which \<open>tk\<close> were fetched by its client. The messages
  under way are of the payload before the current one, or after these of the current one.
\<close>

fun datas :: "tmsg list \<Rightarrow> (int \<times> CArray) list" where
  "datas [] = []"
| "datas (MData k p # ms) = (k, p) # datas ms"
| "datas (m # ms) = datas ms"

fun acks :: "tmsg list \<Rightarrow> int list" where
  "acks [] = []"
| "acks (MAck k # ms) = k # acks ms"
| "acks (m # ms) = acks ms"

lemma datas_append [simp]: "datas (xs @ ys) = datas xs @ datas ys"
  by (induction xs rule: datas.induct) auto

lemma acks_append [simp]: "acks (xs @ ys) = acks xs @ acks ys"
  by (induction xs rule: acks.induct) auto

definition old_then_new :: "'b \<Rightarrow> 'b \<Rightarrow> ('a \<Rightarrow> 'b) \<Rightarrow> bool \<Rightarrow> bool \<Rightarrow> 'a list \<Rightarrow> bool" where
  "old_then_new old new f may_old may_new xs \<longleftrightarrow>
     (\<exists>ys zs. xs = ys @ zs \<and> (\<forall>y \<in> set ys. f y = old) \<and> (\<forall>z \<in> set zs. f z = new) \<and>
        (ys \<noteq> [] \<longrightarrow> may_old) \<and> (zs \<noteq> [] \<longrightarrow> may_new))"

lemma otn_nil [simp]: "old_then_new old new f a b []"
  by (simp add: old_then_new_def)

lemma otn_mono: "old_then_new old new f a b xs \<Longrightarrow> (a \<Longrightarrow> a') \<Longrightarrow> (b \<Longrightarrow> b') \<Longrightarrow> old_then_new old new f a' b' xs"
  unfolding old_then_new_def by blast

lemma otn_tl: "old_then_new old new f a b (x # xs) \<Longrightarrow> old_then_new old new f a b xs"
  unfolding old_then_new_def
proof (elim exE conjE)
  fix ys zs
  assume *: "x # xs = ys @ zs" "\<forall>y \<in> set ys. f y = old" "\<forall>z \<in> set zs. f z = new" "ys \<noteq> [] \<longrightarrow> a" "zs \<noteq> [] \<longrightarrow> b"
  show "\<exists>ys zs. xs = ys @ zs \<and> (\<forall>y \<in> set ys. f y = old) \<and> (\<forall>z \<in> set zs. f z = new) \<and> (ys \<noteq> [] \<longrightarrow> a) \<and> (zs \<noteq> [] \<longrightarrow> b)"
  proof (cases ys)
    case Nil
    with * show ?thesis by (intro exI [of _ "[]"] exI [of _ xs]) auto
  next
    case (Cons y ys')
    with * show ?thesis by (intro exI [of _ ys'] exI [of _ zs]) auto
  qed
qed

lemma otn_head: "old_then_new old new f a b (x # xs) \<Longrightarrow> (f x = old \<and> a) \<or> (f x = new \<and> b \<and> (\<forall>z \<in> set xs. f z = new))"
  unfolding old_then_new_def by (auto simp: Cons_eq_append_conv)

lemma otn_snoc_new: "old_then_new old new f a b xs \<Longrightarrow> f x = new \<Longrightarrow> b \<Longrightarrow> old_then_new old new f a b (xs @ [x])"
  unfolding old_then_new_def
proof (elim exE conjE)
  fix ys zs
  assume *: "f x = new" "b" "xs = ys @ zs" "\<forall>y \<in> set ys. f y = old" "\<forall>z \<in> set zs. f z = new" "ys \<noteq> [] \<longrightarrow> a" "zs \<noteq> [] \<longrightarrow> b"
  then show "\<exists>ys zs. xs @ [x] = ys @ zs \<and> (\<forall>y \<in> set ys. f y = old) \<and> (\<forall>z \<in> set zs. f z = new) \<and> (ys \<noteq> [] \<longrightarrow> a) \<and> (zs \<noteq> [] \<longrightarrow> b)"
    by (intro exI [of _ ys] exI [of _ "zs @ [x]"]) auto
qed

lemma otn_snoc_old: "old_then_new old new f a False xs \<Longrightarrow> f x = old \<Longrightarrow> a \<Longrightarrow> old_then_new old new f a b (xs @ [x])"
  unfolding old_then_new_def by (elim exE conjE, rule exI [of _ "xs @ [x]"], rule exI [of _ "[]"]) auto

lemma otn_all_new: "\<forall>z \<in> set xs. f z = new \<Longrightarrow> a \<Longrightarrow> old_then_new new new' f a b xs"
  unfolding old_then_new_def by (rule exI [of _ xs], rule exI [of _ "[]"]) auto

lemma otn_all_new': "\<forall>z \<in> set xs. f z = new \<Longrightarrow> b \<Longrightarrow> old_then_new old new f a b xs"
  unfolding old_then_new_def by (rule exI [of _ "[]"], rule exI [of _ xs]) auto

lemma otn_no_old: "old_then_new old new f False b xs \<Longrightarrow> \<forall>z \<in> set xs. f z = new"
  unfolding old_then_new_def by auto

definition dir :: "nat \<Rightarrow> nat \<Rightarrow> tview \<Rightarrow> tview \<Rightarrow> CArray list \<Rightarrow> CArray list \<Rightarrow> bool" where
  "dir n m A B S tk \<longleftrightarrow>
     (m = n \<or> m = Suc n) \<and> m \<le> length S \<and> vin A = drop n S \<and>
     vsend A = int n mod 16 \<and> vrecv B = int m mod 16 \<and>
     map payload (take m S) = tk @ vout B \<and> (vmode A = 1 \<longrightarrow> m = n) \<and>
     old_then_new ((int n - 1) mod 16) (int n mod 16) fst (m = n) (vmode A \<noteq> 1 \<and> n < length S) (datas (vmsgs B)) \<and>
     (\<forall>(k, p) \<in> set (datas (vmsgs B)). k = int n mod 16 \<longrightarrow> p = payload (S ! n)) \<and>
     old_then_new ((int n - 1) mod 16) (int n mod 16) id True (m = Suc n) (acks (vmsgs A))"

definition recv :: "tmsg list \<Rightarrow> tview \<Rightarrow> tview" where
  "recv ms v = v\<lparr>vmsgs := vmsgs v @ ms\<rparr>"

lemma recv_simps [simp]:
  "vin (recv ms v) = vin v" "vmsgs (recv ms v) = vmsgs v @ ms" "vout (recv ms v) = vout v"
  "vrecv (recv ms v) = vrecv v" "vsend (recv ms v) = vsend v" "vmode (recv ms v) = vmode v"
  by (simp_all add: recv_def)

lemma mod16_differ: "(k - 1) mod 16 \<noteq> k mod (16 :: int)" "(k + 1) mod 16 \<noteq> k mod (16 :: int)" "(k + 1) mod 16 \<noteq> (k - 1) mod (16 :: int)"
  by (simp_all add: mod_eq_dvd_iff)

lemma mod16_succ: "(int n mod 16 + 1) mod 16 = int (Suc n) mod 16"
  using mod_add_left_eq [of "int n" 16 1] by (simp add: add.commute)

lemma mod16_pred: "(int n mod 16 - 1) mod 16 = (int n - 1) mod 16"
  by (simp add: mod_diff_left_eq)

lemma mod16_Suc_differ: "int (Suc n) mod 16 \<noteq> int n mod 16" "int (Suc n) mod 16 \<noteq> (int n - 1) mod 16"
  using mod16_differ [of "int n"] by (simp_all add: add.commute)

lemma dir_recv_neutral:
  "dir n m A B S tk \<Longrightarrow> acks ms = [] \<Longrightarrow> dir n m (recv ms A) B S tk"
  "dir n m A B S tk \<Longrightarrow> datas ms = [] \<Longrightarrow> dir n m A (recv ms B) S tk"
  by (simp_all add: dir_def)

text \<open>Steps that leave what the direction depends on as it is.\<close>

lemma dir_same_sender:
  "dir n m A B S tk \<Longrightarrow> vin A' = vin A \<Longrightarrow> vsend A' = vsend A \<Longrightarrow> (vmode A' = 1 \<longrightarrow> vmode A = 1) \<Longrightarrow>
   acks (vmsgs A') = acks (vmsgs A) \<or> (\<exists>k. acks (vmsgs A) = k # acks (vmsgs A')) \<Longrightarrow> dir n m A' B S tk"
  unfolding dir_def by (auto intro: otn_mono otn_tl)

lemma dir_same_receiver:
  "dir n m A B S tk \<Longrightarrow> vout B' = vout B \<Longrightarrow> vrecv B' = vrecv B \<Longrightarrow>
   datas (vmsgs B') = datas (vmsgs B) \<or> (\<exists>k. datas (vmsgs B) = k # datas (vmsgs B')) \<Longrightarrow> dir n m A B' S tk"
  unfolding dir_def by (auto intro: otn_tl)

lemma dirD:
  assumes "dir n m A B S tk"
  shows "m = n \<or> m = Suc n" "m \<le> length S" "vin A = drop n S" "vsend A = int n mod 16" "vrecv B = int m mod 16"
    and "map payload (take m S) = tk @ vout B" "vmode A = 1 \<Longrightarrow> m = n"
    and "old_then_new ((int n - 1) mod 16) (int n mod 16) fst (m = n) (vmode A \<noteq> 1 \<and> n < length S) (datas (vmsgs B))"
    and "\<forall>(k, p) \<in> set (datas (vmsgs B)). k = int n mod 16 \<longrightarrow> p = payload (S ! n)"
    and "old_then_new ((int n - 1) mod 16) (int n mod 16) id True (m = Suc n) (acks (vmsgs A))"
  using assms unfolding dir_def by blast+

lemma dir_acked:
  assumes d: "dir n m A B S tk" and A: "vmsgs A = MAck (vsend A) # q" "vmode A = 2" "vin A = c # cs"
    and A': "A' = A\<lparr>vmsgs := q, vin := cs, vsend := (vsend A + 1) mod 16, vmode := 1\<rparr>"
  shows "dir (Suc n) m A' B S tk"
proof -
  have h: "old_then_new ((int n - 1) mod 16) (int n mod 16) id True (m = Suc n) ((int n mod 16) # acks q)"
    using dirD(10) [OF d] A(1) dirD(4) [OF d] by simp
  have m: "m = Suc n" and new: "\<forall>z \<in> set (acks q). id z = int n mod 16"
    using otn_head [OF h] mod16_differ(1) [of "int n"] by auto
  have cs: "cs = drop (Suc n) S" using dirD(3) [OF d] A(3) by (metis drop_Suc drop_tl list.sel(3))
  have dn: "\<forall>z \<in> set (datas (vmsgs B)). fst z = int n mod 16"
  proof (rule otn_no_old)
    show "old_then_new ((int n - 1) mod 16) (int n mod 16) fst False (vmode A \<noteq> 1 \<and> n < length S) (datas (vmsgs B))"
      by (rule otn_mono [OF dirD(8) [OF d]]) (simp_all add: m)
  qed
  have e: "(int (Suc n) - 1) mod 16 = int n mod 16" by simp
  have k: "(vsend A + 1) mod 16 = int (Suc n) mod 16" unfolding dirD(4) [OF d] by (rule mod16_succ)
  have ne: "int n mod 16 \<noteq> int (Suc n) mod 16" using mod16_Suc_differ(1) by metis
  show ?thesis
    unfolding dir_def
  proof (intro conjI)
    show "old_then_new ((int (Suc n) - 1) mod 16) (int (Suc n) mod 16) fst (m = Suc n) (vmode A' \<noteq> 1 \<and> Suc n < length S) (datas (vmsgs B))"
      unfolding e by (rule otn_all_new [OF dn m])
    show "old_then_new ((int (Suc n) - 1) mod 16) (int (Suc n) mod 16) id True (m = Suc (Suc n)) (acks (vmsgs A'))"
      unfolding e using otn_all_new [where f = id, OF new TrueI] by (simp add: A' del: of_nat_Suc)
    show "\<forall>(k, p) \<in> set (datas (vmsgs B)). k = int (Suc n) mod 16 \<longrightarrow> p = payload (S ! Suc n)"
      using dn ne by fastforce
  qed (use m cs k dirD(2,5,6) [OF d] A' in simp_all)
qed

lemma dir_send:
  assumes d: "dir n m A B S tk" and A: "vmode A = 1 \<or> vmode A = 2" "vin A = c # cs" "vin A' = vin A" "vsend A' = vsend A" "vmode A' = 2"
    and q: "acks (vmsgs A') = acks (vmsgs A)"
  shows "dir n m A' (recv [MData (vsend A) (payload c)] B) S tk"
proof -
  have n: "n < length S" using dirD(3) [OF d] A(2) by (metis drop_all leI list.distinct(1))
  have c: "c = S ! n" using dirD(3) [OF d] A(2) n by (metis hd_drop_conv_nth list.sel(1))
  have o: "old_then_new ((int n - 1) mod 16) (int n mod 16) fst (m = n) True (datas (vmsgs B))"
    by (rule otn_mono [OF dirD(8) [OF d]]) auto
  have "old_then_new ((int n - 1) mod 16) (int n mod 16) fst (m = n) True (datas (vmsgs B) @ [(int n mod 16, payload c)])"
    by (rule otn_snoc_new [OF o]) simp_all
  moreover have "\<forall>(k, p) \<in> set (datas (vmsgs B) @ [(int n mod 16, payload c)]). k = int n mod 16 \<longrightarrow> p = payload (S ! n)"
    using dirD(9) [OF d] c by auto
  ultimately show ?thesis
    using dirD(1-6,10) [OF d] A n q unfolding dir_def by simp
qed

lemma dir_deliver:
  assumes d: "dir n m A B S tk" and B: "vmsgs B = MData (vrecv B) p # q"
    and B': "B' = B\<lparr>vmsgs := q, vout := vout B @ [p], vrecv := (vrecv B + 1) mod 16\<rparr>"
  shows "dir n (Suc m) A B' S tk \<and> dir n (Suc m) (recv [MAck (vrecv B)] A) B' S tk"
proof -
  have h: "old_then_new ((int n - 1) mod 16) (int n mod 16) fst (m = n) (vmode A \<noteq> 1 \<and> n < length S) ((int m mod 16, p) # datas q)"
    using dirD(8) [OF d] B dirD(5) [OF d] by simp
  have m: "m = n" and new: "vmode A \<noteq> 1" "n < length S" "\<forall>z \<in> set (datas q). fst z = int n mod 16"
    using otn_head [OF h] dirD(1) [OF d] mod16_differ(1) [of "int n"] mod16_Suc_differ [of n] by auto
  have p: "p = payload (S ! n)" using dirD(9) [OF d] B dirD(5) [OF d] m by simp
  have out: "map payload (take (Suc m) S) = tk @ vout B @ [p]"
    using dirD(6) [OF d] new(2) m p by (simp add: take_Suc_conv_app_nth)
  have k: "(vrecv B + 1) mod 16 = int (Suc m) mod 16" unfolding dirD(5) [OF d] by (rule mod16_succ)
  have o: "old_then_new ((int n - 1) mod 16) (int n mod 16) id True False (acks (vmsgs A))"
    by (rule otn_mono [OF dirD(10) [OF d]]) (simp_all add: m)
  have a: "old_then_new ((int n - 1) mod 16) (int n mod 16) id True True (acks (vmsgs A))"
    by (rule otn_mono [OF o]) simp_all
  have a': "old_then_new ((int n - 1) mod 16) (int n mod 16) id True True (acks (vmsgs A) @ [vrecv B])"
    by (rule otn_snoc_new [OF a]) (simp_all add: dirD(5) [OF d] m)
  have q: "old_then_new ((int n - 1) mod 16) (int n mod 16) fst False True (datas q)"
    by (rule otn_all_new' [OF new(3) TrueI])
  have "\<forall>(k, p) \<in> set (datas q). k = int n mod 16 \<longrightarrow> p = payload (S ! n)"
    using dirD(9) [OF d] B by simp
  then show ?thesis
    using m new k out a a' q dirD(3,4) [OF d] B' unfolding dir_def by simp
qed

lemma dir_duplicate:
  assumes d: "dir n m A B S tk" and B: "vmsgs B = MData k p # q" "k = (vrecv B - 1) mod 16"
    and B': "B' = B\<lparr>vmsgs := q\<rparr>"
  shows "dir n m A B' S tk \<and> dir n m (recv [MAck k] A) B' S tk"
proof -
  have same: "dir n m A B' S tk"
    by (rule dir_same_receiver [OF d]) (simp_all add: B' B)
  have k: "k = (int m - 1) mod 16" unfolding B(2) dirD(5) [OF d] by (rule mod16_pred)
  have h: "old_then_new ((int n - 1) mod 16) (int n mod 16) fst (m = n) (vmode A \<noteq> 1 \<and> n < length S) ((k, p) # datas q)"
    using dirD(8) [OF d] B by simp
  have "old_then_new ((int n - 1) mod 16) (int n mod 16) id True (m = Suc n) (acks (vmsgs A) @ [k])"
  proof (cases "m = n")
    case True
    have o: "old_then_new ((int n - 1) mod 16) (int n mod 16) id True False (acks (vmsgs A))"
      by (rule otn_mono [OF dirD(10) [OF d]]) (simp_all add: True)
    show ?thesis by (rule otn_snoc_old [OF o]) (simp_all add: k True)
  next
    case False
    then have "m = Suc n" using dirD(1) [OF d] by simp
    then show ?thesis
      by (intro otn_snoc_new [OF dirD(10) [OF d]]) (simp_all add: k)
  qed
  with same show ?thesis unfolding dir_def by simp
qed

text \<open>Both roles of an endpoint keep the direction they take part in.\<close>

lemma dir_proto_sender:
  assumes "proto A ms A'" and d: "dir n m A B S tk"
  shows "\<exists>n'. dir n' m A' B S tk \<and> dir n' m A' (recv ms B) S tk"
proof -
  have same: "\<exists>n'. dir n' m A' B S tk \<and> dir n' m A' (recv ms B) S tk"
    if "dir n' m A' B S tk" "datas ms = []" for n'
    using that dir_recv_neutral(2) by blast
  from assms(1) show ?thesis
  proof cases
    case (deliver p q)
    show ?thesis by (rule same [OF dir_same_sender [OF d]]) (use deliver in simp_all)
  next
    case (duplicate k p q)
    show ?thesis by (rule same [OF dir_same_sender [OF d]]) (use duplicate in simp_all)
  next
    case (acked q c cs)
    show ?thesis by (rule same [OF dir_acked [OF d acked(3,4,5,2)]]) (use acked in simp)
  next
    case (send c cs)
    have "dir n m A' B S tk" by (rule dir_same_sender [OF d]) (use send in simp_all)
    moreover have "dir n m A' (recv [MData (vsend A) (payload c)] B) S tk"
      by (rule dir_send [OF d]) (use send in simp_all)
    ultimately show ?thesis using send by blast
  next
    case (again c cs)
    have "dir n m A' B S tk" by (rule dir_same_sender [OF d]) (use again in simp_all)
    moreover have "dir n m A' (recv [MData (vsend A) (payload c)] B) S tk"
      by (rule dir_send [OF d]) (use again in simp_all)
    ultimately show ?thesis using again by blast
  next
    case (resend q c cs)
    have "dir n m A' B S tk" by (rule dir_same_sender [OF d]) (use resend in simp_all)
    moreover have "dir n m A' (recv [MData (vsend A) (payload c)] B) S tk"
      by (rule dir_send [OF d]) (use resend in simp_all)
    ultimately show ?thesis using resend by blast
  next
    case (ignored q)
    show ?thesis by (rule same [OF dir_same_sender [OF d]]) (use ignored in simp_all)
  next
    case (refused x q)
    have "acks (vmsgs A') = acks (vmsgs A) \<or> (\<exists>k. acks (vmsgs A) = k # acks (vmsgs A'))"
      using refused by (cases x) simp_all
    then show ?thesis by (intro same [OF dir_same_sender [OF d]]) (use refused in simp_all)
  next
    case expired
    show ?thesis by (rule same [OF dir_same_sender [OF d]]) (use expired in simp_all)
  next
    case spurious
    then show ?thesis using same d by simp
  qed
qed

lemma dir_proto_receiver:
  assumes "proto B ms B'" and d: "dir n m A B S tk"
  shows "\<exists>m'. dir n m' A B' S tk \<and> dir n m' (recv ms A) B' S tk"
proof -
  have same: "\<exists>m'. dir n m' A B' S tk \<and> dir n m' (recv ms A) B' S tk"
    if "dir n m' A B' S tk" "acks ms = []" for m'
    using that dir_recv_neutral(1) by blast
  from assms(1) show ?thesis
  proof cases
    case (deliver p q)
    then show ?thesis using dir_deliver [OF d deliver(3)] by blast
  next
    case (duplicate k p q)
    then show ?thesis using dir_duplicate [OF d duplicate(3,4)] by blast
  next
    case (refused x q)
    have "datas (vmsgs B') = datas (vmsgs B) \<or> (\<exists>k. datas (vmsgs B) = k # datas (vmsgs B'))"
      using refused by (cases x) simp_all
    then show ?thesis by (intro same [OF dir_same_receiver [OF d]]) (use refused in simp_all)
  next
    case (acked q c cs)
    show ?thesis by (rule same [OF dir_same_receiver [OF d]]) (use acked in simp_all)
  next
    case (send c cs)
    show ?thesis by (rule same [OF dir_same_receiver [OF d]]) (use send in simp_all)
  next
    case (again c cs)
    show ?thesis by (rule same [OF dir_same_receiver [OF d]]) (use again in simp_all)
  next
    case (resend q c cs)
    show ?thesis by (rule same [OF dir_same_receiver [OF d]]) (use resend in simp_all)
  next
    case (ignored q)
    show ?thesis by (rule same [OF dir_same_receiver [OF d]]) (use ignored in simp_all)
  next
    case expired
    show ?thesis by (rule same [OF dir_same_receiver [OF d]]) (use expired in simp_all)
  next
    case spurious
    then show ?thesis using same d by simp
  qed
qed

section \<open>A conversation over a lossy channel\<close>

text \<open>
  Two connections whose frames end up in the \<open>buf\<close> of the other one, in order, unless they are
  lost; the payloads each client sent and fetched are recorded. Stray frames that are neither
  connected data nor acknowledgements may arrive at any time, and the threads take their turns
  in any order, with or without a timeout.
\<close>

record tnet =
  endA :: t_connection
  endB :: t_connection
  sentA :: "CArray list"
  sentB :: "CArray list"
  takenA :: "CArray list"
  takenB :: "CArray list"

definition swap_ends :: "tnet \<Rightarrow> tnet" where
  "swap_ends n = \<lparr>endA = endB n, endB = endA n, sentA = sentB n, sentB = sentA n,
     takenA = takenB n, takenB = takenA n\<rparr>"

inductive tnet_act :: "tnet \<Rightarrow> tnet \<Rightarrow> bool" where
  act_send: "c \<noteq> [] \<Longrightarrow> tnet_act n (n\<lparr>endA := T_Connection_Send c (endA n), sentA := sentA n @ [c]\<rparr>)"
| act_get: "T_Connection_Get (endA n) = Some (Some c, s) \<Longrightarrow>
     tnet_act n (n\<lparr>endA := s, takenA := takenA n @ filter (\<lambda>c. c \<noteq> []) [c]\<rparr>)"
| act_turn: "T_Connection_turn stop timeout (endA n) = Some (s, fs) \<Longrightarrow> subseq gs fs \<Longrightarrow>
     tnet_act n (n\<lparr>endA := s, endB := fold T_Connection_Get_L_Data gs (endB n)\<rparr>)"
| act_stray: "datas [tmsg_of l] = [] \<Longrightarrow> acks [tmsg_of l] = [] \<Longrightarrow>
     tnet_act n (n\<lparr>endA := T_Connection_Get_L_Data l (endA n)\<rparr>)"

inductive tnet_reachable :: "tnet \<Rightarrow> bool" where
  net_start: "T_Connection_start (T_Connection_new a True) = Some (A, fs) \<Longrightarrow>
     T_Connection_start (T_Connection_new b True) = Some (B, gs) \<Longrightarrow>
     tnet_reachable \<lparr>endA = A, endB = B, sentA = [], sentB = [], takenA = [], takenB = []\<rparr>"
| net_A: "tnet_reachable n \<Longrightarrow> tnet_act n n' \<Longrightarrow> tnet_reachable n'"
| net_B: "tnet_reachable n \<Longrightarrow> tnet_act (swap_ends n) n' \<Longrightarrow> tnet_reachable (swap_ends n')"

definition tnet_inv :: "tnet \<Rightarrow> bool" where
  "tnet_inv x \<longleftrightarrow> tc_inv (endA x) \<and> tc_inv (endB x) \<and>
     (\<exists>n m. dir n m (tc_view (endA x)) (tc_view (endB x)) (sentA x) (takenB x)) \<and>
     (\<exists>n m. dir n m (tc_view (endB x)) (tc_view (endA x)) (sentB x) (takenA x))"

lemma tnet_inv_swap: "tnet_inv (swap_ends x) = tnet_inv x"
  by (auto simp: tnet_inv_def swap_ends_def)

lemma Get_L_Data_one:
  "tc_view (T_Connection_Get_L_Data l s) = recv [tmsg_of l] (tc_view s)"
  "tc_inv s \<Longrightarrow> tc_inv (T_Connection_Get_L_Data l s)"
  by (simp_all add: tc_view_def recv_def T_Connection_Get_L_Data_def tc_inv_def)

lemma recv_recv [simp]: "recv ms (recv ms' v) = recv (ms' @ ms) v" "recv [] v = v"
  by (simp_all add: recv_def)

lemma fold_Get_L_Data:
  "tc_view (fold T_Connection_Get_L_Data gs s) = recv (map tmsg_of gs) (tc_view s)"
  "tc_inv s \<Longrightarrow> tc_inv (fold T_Connection_Get_L_Data gs s)"
  by (induction gs arbitrary: s) (simp_all add: Get_L_Data_one)

lemma dir_more_payloads:
  assumes d: "dir n m A B S tk"
  shows "dir n m (A\<lparr>vin := vin A @ [c]\<rparr>) B (S @ [c]) tk"
proof -
  have n: "n \<le> length S" using dirD(1,2) [OF d] by auto
  have o: "old_then_new ((int n - 1) mod 16) (int n mod 16) fst (m = n) (vmode A \<noteq> 1 \<and> n < length (S @ [c])) (datas (vmsgs B))"
    by (rule otn_mono [OF dirD(8) [OF d]]) auto
  have "k = int n mod 16 \<longrightarrow> p = payload ((S @ [c]) ! n)" if kp: "(k, p) \<in> set (datas (vmsgs B))" for k p
  proof (cases "n < length S")
    case True
    then show ?thesis using dirD(9) [OF d] kp by (auto simp: nth_append)
  next
    case False
    then have "fst (k, p) = (int n - 1) mod 16"
      using dirD(8) [OF d] kp by (auto simp: old_then_new_def)
    then show ?thesis using mod16_differ(1) [of "int n"] by simp
  qed
  then show ?thesis
    using dirD(1-7,10) [OF d] n o unfolding dir_def by auto
qed

lemma proto_short: "proto v ms v' \<Longrightarrow> length ms \<le> 1"
  by (cases rule: proto.cases) auto

lemma subseq_short: "subseq gs fs \<Longrightarrow> length fs \<le> 1 \<Longrightarrow> gs = [] \<or> gs = fs"
  by (cases fs) (auto simp: subseq_Cons2_iff elim: list_emb.cases)

text \<open>What one turn of \<open>A\<close> does to both directions, whichever frames are lost.\<close>

lemma turn_dirs:
  assumes inv: "tc_inv s" and t: "T_Connection_turn stop timeout s = Some (s', fs)" and g: "subseq gs fs"
    and out: "dir n m (tc_view s) B S tk" and inn: "dir n' m' B (tc_view s) S' tk'"
  shows "tc_inv s' \<and> (\<exists>n m. dir n m (tc_view s') (recv (map tmsg_of gs) B) S tk)
     \<and> (\<exists>n m. dir n m (recv (map tmsg_of gs) B) (tc_view s') S' tk')"
proof (cases "tc_running s")
  case False
  with t g have "s' = s" "gs = []" by (auto simp: T_Connection_turn_def)
  with inv out inn show ?thesis by auto
next
  case True
  have steps: "(\<exists>n m. dir n m (tc_view s1) (recv ms B) S tk) \<and> (\<exists>n m. dir n m (recv ms B) (tc_view s1) S' tk')"
    if p: "proto (tc_view s) (map tmsg_of hs) (tc_view s1)" and "ms = [] \<or> ms = map tmsg_of hs" for s1 hs ms
    using dir_proto_sender [OF p out] dir_proto_receiver [OF p inn] that(2) by (elim disjE) auto
  from inv True show ?thesis
  proof (cases rule: T_Connection_turn_cases [of s timeout stop])
    case (1 s1 hs)
    then have "fs = hs" "s' = s1" using t by simp_all
    with 1 g proto_short [OF 1(5)] have "gs = [] \<or> gs = hs" by (intro subseq_short) auto
    with steps [OF 1(5), of "map tmsg_of gs"] 1(3) \<open>s' = s1\<close> show ?thesis by blast
  next
    case (2 s1 hs f s2)
    then have fs: "fs = hs @ [f]" and s': "s' = s2" using t by simp_all
    from g fs obtain g1 g2 where gs: "gs = g1 @ g2" "subseq g1 hs" "subseq g2 [f]"
      by (auto simp: subseq_append_iff)
    have g1: "g1 = [] \<or> g1 = hs" using subseq_short [OF gs(2)] proto_short [OF 2(5)] by simp
    have g2: "map tmsg_of g2 = [] \<or> map tmsg_of g2 = [MClose]" using subseq_short [OF gs(3)] 2(6) by auto
    let ?B = "recv (map tmsg_of g1) B"
    have e: "recv (map tmsg_of gs) B = recv (map tmsg_of g2) ?B" by (simp add: gs)
    have v: "tc_view s2 = tc_view s1\<lparr>vmode := 0\<rparr>" using 2(7) by (simp add: tc_view_def)
    from g1 have "map tmsg_of g1 = [] \<or> map tmsg_of g1 = map tmsg_of hs" by blast
    from steps [OF 2(5) this] obtain n1 m1 n2 m2 where
      d: "dir n1 m1 (tc_view s1) ?B S tk" "dir n2 m2 ?B (tc_view s1) S' tk'" by blast
    have "dir n1 m1 (tc_view s2) ?B S tk" by (rule dir_same_sender [OF d(1)]) (simp_all add: v)
    moreover have "dir n2 m2 ?B (tc_view s2) S' tk'" by (rule dir_same_receiver [OF d(2)]) (simp_all add: v)
    moreover have "datas (map tmsg_of g2) = []" "acks (map tmsg_of g2) = []" using g2 by auto
    ultimately have "dir n1 m1 (tc_view s2) (recv (map tmsg_of g2) ?B) S tk"
      and "dir n2 m2 (recv (map tmsg_of g2) ?B) (tc_view s2) S' tk'"
      by (simp_all only: dir_recv_neutral)
    with 2(3) s' e show ?thesis by auto
  qed
qed

lemma tnet_act_inv: "tnet_act x x' \<Longrightarrow> tnet_inv x \<Longrightarrow> tnet_inv x'"
proof (induction rule: tnet_act.induct)
  case (act_send c x)
  then obtain n m n' m' where d: "dir n m (tc_view (endA x)) (tc_view (endB x)) (sentA x) (takenB x)"
    "dir n' m' (tc_view (endB x)) (tc_view (endA x)) (sentB x) (takenA x)" "tc_inv (endA x)" "tc_inv (endB x)"
    by (auto simp: tnet_inv_def)
  have v: "tc_view (T_Connection_Send c (endA x)) = tc_view (endA x)\<lparr>vin := vin (tc_view (endA x)) @ [c]\<rparr>"
    by (simp add: tc_view_def T_Connection_Send_def)
  have "tc_inv (T_Connection_Send c (endA x))"
    using d(3) act_send(1) by (auto simp: tc_inv_def T_Connection_Send_def)
  moreover have "dir n' m' (tc_view (endB x)) (tc_view (T_Connection_Send c (endA x))) (sentB x) (takenA x)"
    by (rule dir_same_receiver [OF d(2)]) (simp_all add: v)
  ultimately show ?case using dir_more_payloads [OF d(1), of c] d(4) by (auto simp: tnet_inv_def v)
next
  case (act_get x c s)
  then obtain n m n' m' where d: "dir n m (tc_view (endA x)) (tc_view (endB x)) (sentA x) (takenB x)"
    "dir n' m' (tc_view (endB x)) (tc_view (endA x)) (sentB x) (takenA x)" "tc_inv (endA x)" "tc_inv (endB x)"
    by (auto simp: tnet_inv_def)
  from act_get(1) obtain q where q: "tc_out (endA x) = c # q"
    and s: "s = endA x\<lparr>tc_out := q, tc_outsem := tc_outsem (endA x) - 1\<rparr>"
    by (auto simp: T_Connection_Get_def list_get_def split: if_splits option.splits list.splits)
  have "tc_inv s" using d(3) q s by (simp add: tc_inv_def)
  moreover have "dir n m (tc_view s) (tc_view (endB x)) (sentA x) (takenB x)"
    by (rule dir_same_sender [OF d(1)]) (simp_all add: s)
  moreover have "dir n' m' (tc_view (endB x)) (tc_view s) (sentB x) (takenA x @ filter (\<lambda>c. c \<noteq> []) [c])"
    using d(2) q s unfolding dir_def by auto
  ultimately show ?case using d(4) unfolding tnet_inv_def by (intro conjI exI) simp_all
next
  case (act_turn stop timeout x s fs gs)
  then obtain n m n' m' where d: "dir n m (tc_view (endA x)) (tc_view (endB x)) (sentA x) (takenB x)"
    "dir n' m' (tc_view (endB x)) (tc_view (endA x)) (sentB x) (takenA x)" "tc_inv (endA x)" "tc_inv (endB x)"
    by (auto simp: tnet_inv_def)
  from turn_dirs [OF d(3) act_turn(1,2) d(1,2)] d(4) show ?case
    by (simp add: tnet_inv_def fold_Get_L_Data)
next
  case (act_stray l x)
  then obtain n m n' m' where d: "dir n m (tc_view (endA x)) (tc_view (endB x)) (sentA x) (takenB x)"
    "dir n' m' (tc_view (endB x)) (tc_view (endA x)) (sentB x) (takenA x)" "tc_inv (endA x)" "tc_inv (endB x)"
    by (auto simp: tnet_inv_def)
  then show ?case
    using dir_recv_neutral(1) [OF d(1) act_stray(2)] dir_recv_neutral(2) [OF d(2) act_stray(1)]
    by (auto simp: tnet_inv_def Get_L_Data_one)
qed

lemma T_Connection_start_view:
  assumes "T_Connection_start (T_Connection_new a True) = Some (A, fs)"
  shows "tc_inv A \<and> tc_view A = \<lparr>vin = [], vmsgs = [], vout = [], vrecv = 0, vsend = 0, vmode = 1, vrep = 0\<rparr>"
proof -
  have "tc_insem (T_Connection_new a True) = length (tc_in (T_Connection_new a True))"
    by (simp add: T_Connection_new_def)
  from T_Connection_start_ok [OF T_Connection_new_inv this] assms show ?thesis
    by (auto simp: tc_view_def T_Connection_new_def)
qed

lemma tnet_reachable_inv: "tnet_reachable x \<Longrightarrow> tnet_inv x"
proof (induction rule: tnet_reachable.induct)
  case (net_start a A fs b B gs)
  then have "dir 0 0 (tc_view A) (tc_view B) [] []" "dir 0 0 (tc_view B) (tc_view A) [] []"
    by (simp_all add: dir_def T_Connection_start_view)
  then show ?case
    using T_Connection_start_view [OF net_start(1)] T_Connection_start_view [OF net_start(2)]
    by (auto simp: tnet_inv_def)
next
  case (net_A x x')
  then show ?case using tnet_act_inv by blast
next
  case (net_B x x')
  then show ?case using tnet_act_inv tnet_inv_swap by blast
qed

section \<open>At most four transmissions\<close>

text \<open>Transmissions of the payload at the head of \<open>in\<close> so far, at most four.\<close>

definition attempts :: "tview \<Rightarrow> int" where
  "attempts v = (if vmode v = 2 then vrep v + 1 else if vmode v = 0 then 4 else 0)"

fun sends :: "tc_event list \<Rightarrow> CArray list" where
  "sends [] = []"
| "sends (Tc_Send c # es) = c # sends es"
| "sends (e # es) = sends es"

abbreviation data_count :: "l_data list \<Rightarrow> int" where
  "data_count fs \<equiv> int (length (datas (map tmsg_of fs)))"

lemma proto_attempts:
  assumes "proto v ms v'" and "vmode v \<in> {0, 1, 2}" and "vrep v \<le> 3"
  shows "int (length (datas ms)) + attempts v + 4 * int (length (vin v')) \<le> attempts v' + 4 * int (length (vin v))"
  using assms by cases (auto simp: attempts_def)

lemma turn_attempts:
  assumes "tc_inv s" and "T_Connection_turn stop timeout s = Some (s', fs)"
  shows "data_count fs + attempts (tc_view s) + 4 * int (length (tc_in s'))
         \<le> attempts (tc_view s') + 4 * int (length (tc_in s))"
proof (cases "tc_running s")
  case False
  with assms(2) show ?thesis by (simp add: T_Connection_turn_def)
next
  case True
  have v: "vmode (tc_view s) \<in> {0, 1, 2}" "vrep (tc_view s) \<le> 3"
    using assms(1) by (auto simp: tc_inv_def)
  from assms(1) True show ?thesis
  proof (cases rule: T_Connection_turn_cases [of s timeout stop])
    case (1 s1 hs)
    then show ?thesis using proto_attempts [OF 1(5) v] assms(2) by simp
  next
    case (2 s1 hs f s2)
    have "attempts (tc_view s1) \<le> attempts (tc_view s2)"
      using 2(3,7) by (auto simp: attempts_def tc_inv_def)
    moreover have "s' = s2" "fs = hs @ [f]" using 2(2) assms(2) by simp_all
    ultimately show ?thesis using proto_attempts [OF 2(5) v] 2(6,7) by simp
  qed
qed

lemma event_attempts:
  assumes "tc_inv s" and "T_Connection_event e s = Some (s', fs)"
  shows "data_count fs + attempts (tc_view s) + 4 * int (length (tc_in s'))
         \<le> attempts (tc_view s') + 4 * int (length (tc_in s) + length (sends [e]))"
proof (cases e)
  case (Tc_Turn stop timeout)
  with turn_attempts [OF assms(1)] assms(2) show ?thesis by simp
next
  case Tc_Get
  with assms(2) have "fs = []" "tc_in s' = tc_in s" "tc_mode s' = tc_mode s" "tc_repcount s' = tc_repcount s"
    by (auto simp: T_Connection_Get_def list_get_def split: if_splits list.splits)
  with Tc_Get show ?thesis by (simp add: attempts_def)
qed (use assms(2) in \<open>auto simp: attempts_def T_Connection_Get_L_Data_def T_Connection_Send_def\<close>)

lemma events_attempts:
  "tc_inv s \<Longrightarrow> list_all tc_event_ok es \<Longrightarrow> T_Connection_events es s = Some (s', fs) \<Longrightarrow>
   data_count fs + attempts (tc_view s) + 4 * int (length (tc_in s'))
     \<le> attempts (tc_view s') + 4 * int (length (tc_in s) + length (sends es))"
proof (induction es arbitrary: s fs)
  case (Cons e es)
  then obtain s1 fs1 where e: "T_Connection_event e s = Some (s1, fs1)" "tc_inv s1"
    using T_Connection_event_ok [of s e] by auto
  then obtain fs2 where r: "T_Connection_events es s1 = Some (s', fs2)" "fs = fs1 @ fs2"
    using Cons.prems(3) by (auto split: option.splits)
  have "sends (e # es) = sends [e] @ sends es" by (cases e) simp_all
  with event_attempts [OF Cons.prems(1) e(1)] Cons.IH [OF e(2) _ r(1)] Cons.prems(2) r(2)
  show ?case by simp
qed simp

lemma attempts_le: "tc_inv s \<Longrightarrow> attempts (tc_view s) \<le> 4"
  by (auto simp: attempts_def tc_inv_def)

section \<open>A silent peer\<close>

text \<open>Turns left until the connection closes when nothing arrives and the timer runs out each time.\<close>

definition turns_left :: "t_connection \<Rightarrow> nat" where
  "turns_left s =
     (if \<not> tc_running s then 0
      else 6 * length (tc_buf s) + (if tc_mode s = 2 then nat (4 - tc_repcount s) else 5))"

lemma T_Connection_data_buf: "T_Connection_data serno d s = Some (s', fs) \<Longrightarrow> tc_buf s' = tc_buf s"
  by (cases "uint serno = tc_recvno s"; cases "uint serno = (tc_recvno s - 1) AND 0x0f")
     (clarsimp simp: T_Connection_data_def Let_def)+

lemma T_Connection_nack_buf: "T_Connection_nack serno s = Some (s', fs) \<Longrightarrow> tc_buf s' = tc_buf s"
  by (auto simp: T_Connection_nack_def split: if_splits list.splits)

lemma T_Connection_ack_buf: "T_Connection_ack serno s = Some (s', fs) \<Longrightarrow> tc_buf s' = tc_buf s"
  by (auto simp: T_Connection_ack_def split: if_splits)

lemma T_Connection_frame_buf: "T_Connection_frame l s = Some (s', fs) \<Longrightarrow> tc_buf s' = tc_buf s"
  unfolding T_Connection_frame_def
  by (cases "TPDU_fromPacket (data l)")
     (auto dest: T_Connection_data_buf T_Connection_nack_buf T_Connection_ack_buf)

lemma body_progress:
  assumes inv: "tc_inv s" and run: "tc_running s" and b: "T_Connection_body True s = Some (s1, fs)" and m: "tc_mode s1 \<noteq> 0"
  shows "6 * length (tc_buf s1) + (if tc_mode s1 = 2 then nat (4 - tc_repcount s1) else 5) < turns_left s"
proof -
  from T_Connection_body_ok [OF inv, of True] b have "tc_inv_mid s1" by (simp add: body_ok_def)
  then have "0 \<le> tc_repcount s1" by (simp add: tc_inv_def)
  then have r: "nat (4 - tc_repcount s1) \<le> 4" by linarith
  have n: "tc_bufsem s = length (tc_buf s)" and mode: "tc_mode s = 1 \<or> tc_mode s = 2"
    and c: "0 \<le> tc_repcount s" "tc_repcount s \<le> 3"
    using inv run by (auto simp: tc_inv_def)
  show ?thesis
  proof (cases "tc_buf s")
    case (Cons l q)
    then have "T_Connection_frame l (taken s) = Some (s1, fs)"
      using b n by (simp add: T_Connection_body_def list_get_def)
    then have "tc_buf s1 = q" using T_Connection_frame_buf Cons by fastforce
    then show ?thesis using Cons run r c mode by (simp add: turns_left_def)
  next
    case Nil
    show ?thesis
    proof (cases "tc_insem s > 0 \<and> tc_mode s = 1 \<or> tc_mode s = 2 \<and> tc_repcount s < 3")
      case True
      then show ?thesis using b n Nil run mode c
        by (auto simp: T_Connection_body_def turns_left_def)
    next
      case False
      then have "T_Connection_body True s = Some (s\<lparr>tc_mode := 0\<rparr>, [])"
        using n Nil by (auto simp: T_Connection_body_def)
      with b m show ?thesis by auto
    qed
  qed
qed

lemma turn_progress:
  assumes "tc_inv s" and "tc_running s"
  shows "\<exists>s' fs. T_Connection_turn False True s = Some (s', fs) \<and> tc_inv s' \<and>
           (if tc_running s' then turns_left s' < turns_left s else tc_out s' \<noteq> [] \<and> last (tc_out s') = [])"
  using assms
proof (cases rule: T_Connection_turn_cases [of s True False])
  case (1 s1 fs)
  then have "tc_mode s1 \<noteq> 0" by (simp add: tc_inv_def)
  from body_progress [OF assms 1(1) this] 1 show ?thesis by (auto simp: turns_left_def)
next
  case (2 s1 fs f s2)
  then show ?thesis by auto
qed

lemma silence_closes:
  "tc_inv s \<Longrightarrow> tc_running s \<Longrightarrow>
   \<exists>k s' fs. k \<le> turns_left s \<and> T_Connection_events (replicate k (Tc_Turn False True)) s = Some (s', fs) \<and>
     \<not> tc_running s' \<and> tc_out s' \<noteq> [] \<and> last (tc_out s') = []"
proof (induction "turns_left s" arbitrary: s rule: less_induct)
  case less
  from turn_progress [OF less.prems] obtain s1 fs1 where
    t: "T_Connection_turn False True s = Some (s1, fs1)" "tc_inv s1"
       "if tc_running s1 then turns_left s1 < turns_left s else tc_out s1 \<noteq> [] \<and> last (tc_out s1) = []"
    by blast
  have pos: "0 < turns_left s"
    using less.prems by (auto simp: turns_left_def tc_inv_def)
  show ?case
  proof (cases "tc_running s1")
    case True
    with t obtain k s' fs where k: "k \<le> turns_left s1" "T_Connection_events (replicate k (Tc_Turn False True)) s1 = Some (s', fs)"
      "\<not> tc_running s'" "tc_out s' \<noteq> []" "last (tc_out s') = []"
      using less.hyps [of s1] by auto
    then show ?thesis using t True by (intro exI [of _ "Suc k"] exI [of _ s'] exI [of _ "fs1 @ fs"]) simp
  next
    case False
    then show ?thesis using t pos by (intro exI [of _ 1] exI [of _ s1] exI [of _ fs1]) simp
  qed
qed

lemma turns_left_bound: "tc_inv s \<Longrightarrow> turns_left s \<le> 6 * length (tc_buf s) + 5"
proof -
  assume "tc_inv s"
  then have "0 \<le> tc_repcount s" by (simp add: tc_inv_def)
  then have "nat (4 - tc_repcount s) \<le> 5" by linarith
  then show ?thesis by (simp add: turns_left_def)
qed

end
