(* ===== verification/TransportProps.thy ===== *)
theory TransportProps
  imports Transport
begin

text \<open>
  The properties of a transport layer connection, in the order: it never aborts, except on an
  empty payload; what it does is a step of the abstract protocol; it sends a payload at most
  four times and closes when the peer is silent; two of them deliver every payload once.
\<close>

text \<open>A connection after \<open>Run\<close> was entered, with the payloads clients sent before that.\<close>

definition connected :: "eibaddr_t \<Rightarrow> CArray list \<Rightarrow> t_connection" where
  "connected d ps = (T_Connection_new d True)\<lparr>tc_in := ps, tc_insem := length ps, tc_mode := 1, tc_timeout := 6, tc_running := True\<rparr>"

lemma connected_start:
  "map_option fst (T_Connection_start (fold T_Connection_Send ps (T_Connection_new d True))) = Some (connected d ps)"
proof -
  have "fold T_Connection_Send ps s = s\<lparr>tc_in := tc_in s @ ps, tc_insem := tc_insem s + length ps\<rparr>" for s
    by (induction ps arbitrary: s) (simp_all add: T_Connection_Send_def)
  then show ?thesis
    by (simp add: T_Connection_start_def SendConnect_def T_CONNECT_REQ_ToPacket_def connected_def T_Connection_new_def)
qed

lemma connected_inv: "[] \<notin> set ps \<Longrightarrow> tc_inv (connected d ps)"
  by (auto simp: connected_def tc_inv_def T_Connection_new_def)

text \<open>C5: as long as clients send no empty payload, no sequence of frames, client calls, timeouts
  and stops makes a connection abort, and the state invariant holds after each: semaphores
  count their queues, sequence numbers have four bits, at most three repetitions.\<close>

theorem T_Connection_never_aborts:
  assumes "[] \<notin> set ps" and "list_all tc_event_ok es"
  shows "\<exists>s fs. T_Connection_events es (connected d ps) = Some (s, fs) \<and> tc_inv s"
  using T_Connection_events_ok [OF connected_inv [OF assms(1)] assms(2)] by blast

lemma T_Connection_never_aborts_witness:
  "\<exists>s fs. T_Connection_events [Tc_Send [0, 0x81], Tc_Turn False False, Tc_Turn True True] (connected 0x1101 []) = Some (s, fs) \<and> tc_inv s"
  by (rule T_Connection_never_aborts) (simp_all add: tc_event_ok_def)

text \<open>an empty payload, which a local client can send with a message of two bytes, trips the
  \<open>assert\<close> of the encoder when its turn comes: the whole server aborts.\<close>

theorem T_Connection_empty_payload_aborts:
  "T_Connection_events [Tc_Send [], Tc_Turn stop timeout] (connected d []) = None"
  by (simp add: connected_def T_Connection_new_def T_Connection_Send_def T_Connection_turn_def T_Connection_body_def
      T_Connection_transmit_def SendData_def T_DATA_CONNECTED_REQ_ToPacket_def)

text \<open>C6: the body of the loop refines the abstract protocol: whatever event it handles, it does not
  abort, keeps the invariant, and changes the view of the state by one protocol step that sends
  the same messages.\<close>

theorem T_Connection_refines_protocol:
  assumes "tc_inv s"
  shows "\<exists>s' fs. T_Connection_body timeout s = Some (s', fs) \<and> tc_inv (s'\<lparr>tc_running := False\<rparr>)
    \<and> proto (tc_view s) (map tmsg_of fs) (tc_view s')"
  using T_Connection_body_ok [OF assms, of timeout] unfolding body_ok_def by blast

lemma T_Connection_refines_protocol_witness:
  "\<exists>s' fs. T_Connection_body True (connected 1 [[0]]) = Some (s', fs) \<and> tc_inv (s'\<lparr>tc_running := False\<rparr>)
    \<and> proto (tc_view (connected 1 [[0]])) (map tmsg_of fs) (tc_view s')"
  by (rule T_Connection_refines_protocol) (simp add: connected_inv)

text \<open>C7: a payload is transmitted at most four times: in every run of a connection the number of
  data frames sent is at most four times the number of payloads acknowledged, plus four.\<close>

theorem T_Connection_at_most_four_transmissions:
  assumes "[] \<notin> set ps" and "list_all tc_event_ok es"
    and "T_Connection_events es (connected d ps) = Some (s, fs)"
  shows "length (datas (map tmsg_of fs)) + 4 * length (tc_in s) \<le> 4 * length (ps @ sends es) + 4"
proof -
  note inv = connected_inv [OF assms(1), of d]
  have "tc_inv s" using T_Connection_events_ok [OF inv assms(2)] assms(3) by auto
  from attempts_le [OF this] events_attempts [OF inv assms(2,3)] show ?thesis
    by (simp add: attempts_def connected_def T_Connection_new_def)
qed

lemma T_Connection_at_most_four_transmissions_witness:
  "\<exists>s fs. T_Connection_events (replicate 3 (Tc_Turn False True)) (connected 1 [[0]]) = Some (s, fs) \<and>
     length (datas (map tmsg_of fs)) + 4 * length (tc_in s) \<le> 8"
proof -
  have ok: "list_all tc_event_ok (replicate 3 (Tc_Turn False True))" by (simp add: tc_event_ok_def eval_nat_numeral)
  obtain s fs where r: "T_Connection_events (replicate 3 (Tc_Turn False True)) (connected 1 [[0]]) = Some (s, fs)"
    using T_Connection_events_ok [OF connected_inv [of "[[0]]" 1] ok] by auto
  from T_Connection_at_most_four_transmissions [OF _ ok r] r show ?thesis by (simp add: eval_nat_numeral)
qed

text \<open>C8: a connection whose peer is silent ends: after at most six turns for each frame that is
  still buffered and five more, each with the timer run out, the thread has left its loop and
  the last thing its client will fetch is the empty array that reports the end.\<close>

theorem T_Connection_silence_closes:
  assumes "tc_inv s" and "tc_running s"
  shows "\<exists>k s' fs. k \<le> 6 * length (tc_buf s) + 5 \<and>
    T_Connection_events (replicate k (Tc_Turn False True)) s = Some (s', fs) \<and>
    \<not> tc_running s' \<and> tc_out s' \<noteq> [] \<and> last (tc_out s') = []"
  using silence_closes [OF assms] turns_left_bound [OF assms(1)] order.trans by blast

lemma T_Connection_silence_closes_witness:
  "\<exists>k s' fs. k \<le> 5 \<and> T_Connection_events (replicate k (Tc_Turn False True)) (connected 1 [[0]]) = Some (s', fs) \<and>
    \<not> tc_running s' \<and> tc_out s' \<noteq> [] \<and> last (tc_out s') = []"
  using T_Connection_silence_closes [of "connected 1 [[0]]"] connected_inv [of "[[0]]" 1]
  by (simp add: connected_def T_Connection_new_def)

text \<open>C4: two connections over a channel that may lose any frame and hands the others on in order
  deliver every payload at most once and in order, with the two bits of the first byte that belong to the application and without
  the six that the transport layer uses for itself: in
  both directions and at every moment of every run, what the client of one end fetched
  and what still waits for it is a prefix of what the client of the other end sent, and only acknowledged payloads leave the
  sender. Payloads are not empty, and frames that carry neither data nor an acknowledgement may arrive at any time.
\<close>

theorem T_Connection_exactly_once:
  assumes "tnet_reachable x"
  shows "(\<exists>n m. n \<le> m \<and> m \<le> Suc n \<and> m \<le> length (sentA x)
      \<and> takenB x @ filter (\<lambda>c. c \<noteq> []) (tc_out (endB x)) = map payload (take m (sentA x))
      \<and> tc_in (endA x) = drop n (sentA x))
    \<and> (\<exists>n m. n \<le> m \<and> m \<le> Suc n \<and> m \<le> length (sentB x)
      \<and> takenA x @ filter (\<lambda>c. c \<noteq> []) (tc_out (endA x)) = map payload (take m (sentB x))
      \<and> tc_in (endB x) = drop n (sentB x))"
proof -
  from tnet_reachable_inv [OF assms] obtain n m n' m' where
    d: "dir n m (tc_view (endA x)) (tc_view (endB x)) (sentA x) (takenB x)" and
    d': "dir n' m' (tc_view (endB x)) (tc_view (endA x)) (sentB x) (takenA x)"
    unfolding tnet_inv_def by blast
  show ?thesis
  proof
    show "\<exists>n m. n \<le> m \<and> m \<le> Suc n \<and> m \<le> length (sentA x)
        \<and> takenB x @ filter (\<lambda>c. c \<noteq> []) (tc_out (endB x)) = map payload (take m (sentA x)) \<and> tc_in (endA x) = drop n (sentA x)"
      using dirD(1) [OF d] dirD(2,3,6) [OF d] by (intro exI [of _ n] exI [of _ m]) auto
    show "\<exists>n m. n \<le> m \<and> m \<le> Suc n \<and> m \<le> length (sentB x)
        \<and> takenA x @ filter (\<lambda>c. c \<noteq> []) (tc_out (endA x)) = map payload (take m (sentB x)) \<and> tc_in (endB x) = drop n (sentB x)"
      using dirD(1) [OF d'] dirD(2,3,6) [OF d'] by (intro exI [of _ n'] exI [of _ m']) auto
  qed
qed


text \<open>A run in which one payload is sent and delivered; its acknowledgement is lost.\<close>

definition sample_payload :: CArray where
  "sample_payload = [0x03, 0xD5, 0x07]"

definition sample_data_frame :: l_data where
  "sample_data_frame = L_Data_request 0 0x1102 IndividualAddress PRIO_LOW [0x43, 0xD5, 0x07]"

definition sender_waiting :: t_connection where
  "sender_waiting = (connected 0x1102 [sample_payload])\<lparr>tc_insem := 0, tc_mode := 2, tc_timeout := 3\<rparr>"

definition receiver_done :: t_connection where
  "receiver_done = (connected 0x1101 [])\<lparr>tc_out := [sample_payload], tc_outsem := 1, tc_recvno := 1\<rparr>"

lemma sample_sender_turn:
  "T_Connection_turn False False (connected 0x1102 [sample_payload]) = Some (sender_waiting, [sample_data_frame])"
  by (simp add: connected_def sender_waiting_def sample_payload_def sample_data_frame_def T_Connection_new_def
      T_Connection_turn_def T_Connection_body_def T_Connection_transmit_def SendData_def T_DATA_CONNECTED_REQ_ToPacket_def)

lemma sample_receiver_turn:
  "\<exists>fs. T_Connection_turn False False (T_Connection_Get_L_Data sample_data_frame (connected 0x1101 [])) = Some (receiver_done, fs)"
  by (simp add: connected_def receiver_done_def sample_payload_def sample_data_frame_def T_Connection_new_def
      T_Connection_Get_L_Data_def T_Connection_turn_def T_Connection_body_def list_get_def T_Connection_frame_def
      TPDU_fromPacket_def TPDU_select_def T_DATA_CONNECTED_REQ_init_def T_Connection_data_def Let_def
      SendAck_def T_ACK_ToPacket_def)

lemma sample_run:
  "tnet_reachable \<lparr>endA = sender_waiting, endB = receiver_done, sentA = [sample_payload], sentB = [], takenA = [], takenB = []\<rparr>"
proof -
  let ?net = "\<lambda>a b s. \<lparr>endA = a, endB = b, sentA = s, sentB = [], takenA = [], takenB = []\<rparr>"
  have start: "\<exists>fs. T_Connection_start (T_Connection_new d True) = Some (connected d [], fs)" for d
    using connected_start [of "[]" d] by auto
  obtain fs gs where "T_Connection_start (T_Connection_new 0x1102 True) = Some (connected 0x1102 [], fs)"
    "T_Connection_start (T_Connection_new 0x1101 True) = Some (connected 0x1101 [], gs)"
    using start by blast
  then have "tnet_reachable (?net (connected 0x1102 []) (connected 0x1101 []) [])" by (rule net_start)
  moreover have "tnet_act (?net (connected 0x1102 []) (connected 0x1101 []) [])
      (?net (connected 0x1102 [sample_payload]) (connected 0x1101 []) [sample_payload])"
    using act_send [of sample_payload "?net (connected 0x1102 []) (connected 0x1101 []) []"]
    by (simp add: sample_payload_def connected_def T_Connection_new_def T_Connection_Send_def)
  ultimately have "tnet_reachable (?net (connected 0x1102 [sample_payload]) (connected 0x1101 []) [sample_payload])"
    by (rule net_A)
  moreover have "tnet_act (?net (connected 0x1102 [sample_payload]) (connected 0x1101 []) [sample_payload])
      (?net sender_waiting (T_Connection_Get_L_Data sample_data_frame (connected 0x1101 [])) [sample_payload])"
    using act_turn [of False False "?net (connected 0x1102 [sample_payload]) (connected 0x1101 []) [sample_payload]"
        sender_waiting "[sample_data_frame]" "[sample_data_frame]"] sample_sender_turn by simp
  ultimately have r: "tnet_reachable (?net sender_waiting (T_Connection_Get_L_Data sample_data_frame (connected 0x1101 [])) [sample_payload])"
    by (rule net_A)
  obtain hs where "T_Connection_turn False False (T_Connection_Get_L_Data sample_data_frame (connected 0x1101 [])) = Some (receiver_done, hs)"
    using sample_receiver_turn by blast
  then have "tnet_act (swap_ends (?net sender_waiting (T_Connection_Get_L_Data sample_data_frame (connected 0x1101 [])) [sample_payload]))
      (swap_ends (?net sender_waiting receiver_done [sample_payload]))"
    using act_turn [of False False "swap_ends (?net sender_waiting (T_Connection_Get_L_Data sample_data_frame (connected 0x1101 [])) [sample_payload])"
        receiver_done hs "[]"] by (simp add: swap_ends_def)
  from net_B [OF r this] show ?thesis by (simp add: swap_ends_def)
qed

lemma T_Connection_exactly_once_witness:
  "(\<exists>n m. n \<le> m \<and> m \<le> Suc n \<and> m \<le> 1 \<and> [sample_payload] = map payload (take m [sample_payload])
      \<and> [sample_payload] = drop n [sample_payload])
    \<and> tc_in receiver_done = [] \<and> tc_out sender_waiting = []"
  using T_Connection_exactly_once [OF sample_run]
  by (simp add: sender_waiting_def receiver_done_def connected_def T_Connection_new_def sample_payload_def)

end
