(* ===== verification/Layer3.thy ===== *)
theory Layer3
  imports LpduCodec
begin

text \<open>
  The dispatcher, \<open>eibd/libserver/layer3.cpp\<close> and \<open>layer3.h\<close>: the lists of registered
  callbacks, the working mode, the registration and deregistration methods, and the body of
  \<open>Run\<close> that hands a frame from the bus to the callbacks. A callback is the number of the
  object behind the pointer. The bus driver behind \<open>Layer2Interface\<close> is not part of this
  class: its calls are recorded in order, and the answers of those that can fail are arguments.
\<close>

section \<open>State\<close>

datatype Individual_Lock = Individual_Lock_None | Individual_Lock_Connection

record Group_Info =
  gi_cb :: nat
  gi_dest :: eibaddr_t

record Individual_Info =
  ii_cb :: nat
  ii_src :: eibaddr_t
  ii_dest :: eibaddr_t
  ii_lock :: Individual_Lock

record IgnoreInfo =
  ig_data :: CArray
  ig_end :: timestamp_t

text \<open>The calls of \<open>Layer2Interface\<close>, with the answer where the caller looks at it.\<close>

datatype l2call =
    L2_Open
  | L2_Close
  | L2_enterBusmonitor bool
  | L2_leaveBusmonitor
  | L2_openVBusmonitor bool
  | L2_closeVBusmonitor
  | L2_addAddress eibaddr_t bool
  | L2_removeAddress eibaddr_t
  | L2_addGroupAddress eibaddr_t bool
  | L2_removeGroupAddress eibaddr_t
  | L2_Send_L_Data l_data

record layer3 =
  l3_mode :: int
  l3_ignore :: "IgnoreInfo list"
  l3_busmonitor :: "nat list"
  l3_vbusmonitor :: "nat list"
  l3_broadcast :: "nat list"
  l3_group :: "Group_Info list"
  l3_individual :: "Individual_Info list"
  l3_calls :: "l2call list"

definition Layer3_call :: "l2call \<Rightarrow> layer3 \<Rightarrow> layer3" where
  "Layer3_call c s = s\<lparr>l3_calls := l3_calls s @ [c]\<rparr>"

definition Layer3_new :: layer3 where
  "Layer3_new = \<lparr>l3_mode = 0, l3_ignore = [], l3_busmonitor = [], l3_vbusmonitor = [], l3_broadcast = [],
     l3_group = [], l3_individual = [], l3_calls = [L2_Open]\<rparr>"

text \<open>Index of the first entry a search loop stops at.\<close>

fun first_idx :: "('a \<Rightarrow> bool) \<Rightarrow> 'a list \<Rightarrow> nat option" where
  "first_idx P [] = None"
| "first_idx P (x # xs) = (if P x then Some 0 else map_option Suc (first_idx P xs))"

text \<open>\<open>a[i] = a[a () - 1]; a.resize (a () - 1);\<close>\<close>

definition swap_remove :: "nat \<Rightarrow> 'a list \<Rightarrow> 'a list" where
  "swap_remove i xs = butlast (xs[i := last xs])"

definition Layer3_send_L_Data :: "eibaddr_t \<Rightarrow> l_data \<Rightarrow> layer3 \<Rightarrow> layer3" where
  "Layer3_send_L_Data defaultAddr l s =
     Layer3_call (L2_Send_L_Data (if source l = 0 then l\<lparr>source := defaultAddr\<rparr> else l)) s"

section \<open>Deregistration\<close>

definition deregisterBusmonitor :: "nat \<Rightarrow> layer3 \<Rightarrow> bool \<times> layer3" where
  "deregisterBusmonitor c s =
     (case first_idx (\<lambda>b. b = c) (l3_busmonitor s) of
        None \<Rightarrow> (False, s)
      | Some i \<Rightarrow>
          let s = s\<lparr>l3_busmonitor := swap_remove i (l3_busmonitor s)\<rparr>
          in (True, if l3_busmonitor s = []
                    then Layer3_call L2_Open (Layer3_call L2_leaveBusmonitor (s\<lparr>l3_mode := 0\<rparr>))
                    else s))"

definition deregisterVBusmonitor :: "nat \<Rightarrow> layer3 \<Rightarrow> bool \<times> layer3" where
  "deregisterVBusmonitor c s =
     (case first_idx (\<lambda>b. b = c) (l3_vbusmonitor s) of
        None \<Rightarrow> (False, s)
      | Some i \<Rightarrow>
          let s = s\<lparr>l3_vbusmonitor := swap_remove i (l3_vbusmonitor s)\<rparr>
          in (True, if l3_vbusmonitor s = [] then Layer3_call L2_closeVBusmonitor s else s))"

definition deregisterBroadcastCallBack :: "nat \<Rightarrow> layer3 \<Rightarrow> bool \<times> layer3" where
  "deregisterBroadcastCallBack c s =
     (case first_idx (\<lambda>b. b = c) (l3_broadcast s) of
        None \<Rightarrow> (False, s)
      | Some i \<Rightarrow> (True, s\<lparr>l3_broadcast := swap_remove i (l3_broadcast s)\<rparr>))"

definition deregisterGroupCallBack :: "nat \<Rightarrow> eibaddr_t \<Rightarrow> layer3 \<Rightarrow> bool \<times> layer3" where
  "deregisterGroupCallBack c addr s =
     (case first_idx (\<lambda>g. gi_cb g = c \<and> gi_dest g = addr) (l3_group s) of
        None \<Rightarrow> (False, s)
      | Some i \<Rightarrow>
          let s = s\<lparr>l3_group := swap_remove i (l3_group s)\<rparr>
          in if first_idx (\<lambda>g. gi_dest g = addr) (l3_group s) \<noteq> None then (True, s)
             else (True, if addr \<noteq> 0 then Layer3_call (L2_removeGroupAddress addr) s else s))"

definition deregisterIndividualCallBack :: "nat \<Rightarrow> eibaddr_t \<Rightarrow> eibaddr_t \<Rightarrow> layer3 \<Rightarrow> bool \<times> layer3" where
  "deregisterIndividualCallBack c src dst s =
     (case first_idx (\<lambda>i. ii_cb i = c \<and> ii_src i = src \<and> ii_dest i = dst) (l3_individual s) of
        None \<Rightarrow> (False, s)
      | Some i \<Rightarrow>
          let s = s\<lparr>l3_individual := swap_remove i (l3_individual s)\<rparr>
          in if first_idx (\<lambda>i. ii_dest i = dst) (l3_individual s) \<noteq> None then (True, s)
             else (True, if dst \<noteq> 0 then Layer3_call (L2_removeAddress dst) s else s))"

section \<open>Registration\<close>

definition registerBusmonitor :: "bool \<Rightarrow> nat \<Rightarrow> layer3 \<Rightarrow> bool \<times> layer3" where
  "registerBusmonitor entered c s =
     (if l3_individual s \<noteq> [] then (False, s)
      else if l3_group s \<noteq> [] then (False, s)
      else if l3_broadcast s \<noteq> [] then (False, s)
      else
        let s' = (if l3_mode s = 0
                  then Layer3_call (L2_enterBusmonitor entered) (Layer3_call L2_Close s) else s)
        in if l3_mode s = 0 \<and> \<not> entered then (False, Layer3_call L2_Open s')
           else (True, s'\<lparr>l3_mode := 1, l3_busmonitor := l3_busmonitor s' @ [c]\<rparr>))"

definition registerVBusmonitor :: "bool \<Rightarrow> nat \<Rightarrow> layer3 \<Rightarrow> bool \<times> layer3" where
  "registerVBusmonitor opened c s =
     (let s' = (if l3_vbusmonitor s = [] then Layer3_call (L2_openVBusmonitor opened) s else s)
      in if l3_vbusmonitor s = [] \<and> \<not> opened then (False, s')
         else (True, s'\<lparr>l3_vbusmonitor := l3_vbusmonitor s' @ [c]\<rparr>))"

definition registerBroadcastCallBack :: "nat \<Rightarrow> layer3 \<Rightarrow> bool \<times> layer3" where
  "registerBroadcastCallBack c s =
     (if l3_mode s = 1 then (False, s) else (True, s\<lparr>l3_broadcast := l3_broadcast s @ [c]\<rparr>))"

definition registerGroupCallBack :: "bool \<Rightarrow> nat \<Rightarrow> eibaddr_t \<Rightarrow> layer3 \<Rightarrow> bool \<times> layer3" where
  "registerGroupCallBack added c addr s =
     (if l3_mode s = 1 then (False, s)
      else
        let ask = (first_idx (\<lambda>g. gi_dest g = addr) (l3_group s) = None \<and> addr \<noteq> 0);
            s' = (if ask then Layer3_call (L2_addGroupAddress addr added) s else s)
        in if ask \<and> \<not> added then (False, s')
           else (True, s'\<lparr>l3_group := l3_group s' @ [\<lparr>gi_cb = c, gi_dest = addr\<rparr>]\<rparr>))"

definition registerIndividualCallBack ::
    "bool \<Rightarrow> nat \<Rightarrow> Individual_Lock \<Rightarrow> eibaddr_t \<Rightarrow> eibaddr_t \<Rightarrow> layer3 \<Rightarrow> bool \<times> layer3" where
  "registerIndividualCallBack added c lock src dst s =
     (if l3_mode s = 1 then (False, s)
      else if first_idx (\<lambda>i. lock = Individual_Lock_Connection \<and> ii_src i = src
                \<and> ii_lock i = Individual_Lock_Connection) (l3_individual s) \<noteq> None then (False, s)
      else
        let ask = (first_idx (\<lambda>i. ii_dest i = dst) (l3_individual s) = None \<and> dst \<noteq> 0);
            s' = (if ask then Layer3_call (L2_addAddress dst added) s else s)
        in if ask \<and> \<not> added then (False, s')
           else (True, s'\<lparr>l3_individual := l3_individual s' @
                  [\<lparr>ii_cb = c, ii_src = src, ii_dest = dst, ii_lock = lock\<rparr>]\<rparr>))"

section \<open>Dispatching a frame\<close>

text \<open>What a callback receives: \<open>Get_L_Data\<close> or \<open>Get_L_Busmonitor\<close> of the object.\<close>

datatype delivery = Deliver_Data nat l_data | Deliver_Busmonitor nat CArray uchar "32 word"

text \<open>
  \<open>redel:\<close> every entry whose time is over is deleted, the scan starting anew after each; the
  clock is read once for a scan of the whole array.
\<close>

function Layer3_redel :: "timestamp_t \<Rightarrow> IgnoreInfo list \<Rightarrow> IgnoreInfo list" where
  "Layer3_redel now ig =
     (case first_idx (\<lambda>e. ig_end e < now) ig of
        None \<Rightarrow> ig
      | Some i \<Rightarrow> if i < length ig then Layer3_redel now (take i ig @ drop (Suc i) ig) else ig)"
  by pat_completeness auto
termination by (relation "measure (\<lambda>(now, ig). length ig)") auto

declare Layer3_redel.simps [simp del]

definition Layer3_deliver :: "l_data \<Rightarrow> layer3 \<Rightarrow> delivery list" where
  "Layer3_deliver l s =
     (if AddrType l = GroupAddress \<and> dest l = 0
      then map (\<lambda>c. Deliver_Data c l) (l3_broadcast s) else []) @
     (if AddrType l = GroupAddress \<and> dest l \<noteq> 0
      then map (\<lambda>g. Deliver_Data (gi_cb g) l) (filter (\<lambda>g. gi_dest g = dest l \<or> gi_dest g = 0) (l3_group s)) else []) @
     (if AddrType l = IndividualAddress
      then map (\<lambda>i. Deliver_Data (ii_cb i) l)
             (filter (\<lambda>i. ii_dest i = dest l \<and> (ii_src i = source l \<or> ii_src i = 0)) (l3_individual s)) else [])"

text \<open>
  The handling of an \<open>L_Data\<close> frame. \<open>now\<close> is the clock when the frame is recorded; the result
  \<open>None\<close> is an \<open>assert\<close> of \<open>ToPacket\<close>. The \<open>bool\<close> tells whether the frame was dropped as a
  repetition, in which case the clean-up at \<open>redel\<close> is skipped.
\<close>

definition Layer3_data :: "eibaddr_t \<Rightarrow> timestamp_t \<Rightarrow> l_data \<Rightarrow> layer3 \<Rightarrow> (delivery list \<times> bool \<times> layer3) option" where
  "Layer3_data defaultAddr now l s =
     (case (if repeated l then map_option (\<lambda>d1. first_idx (\<lambda>e. ig_data e = d1) (l3_ignore s) \<noteq> None) (L_Data_ToPacket l)
            else Some False) of
        None \<Rightarrow> None
      | Some True \<Rightarrow> Some ([], True, s)
      | Some False \<Rightarrow>
          (case L_Data_ToPacket (l\<lparr>repeated := True\<rparr>) of
             None \<Rightarrow> None
           | Some d \<Rightarrow>
               let s' = s\<lparr>l3_ignore := l3_ignore s @ [\<lparr>ig_data = d, ig_end = now + 1000000\<rparr>]\<rparr>;
                   l1 = l\<lparr>repeated := False\<rparr>;
                   l2 = (if AddrType l1 = IndividualAddress \<and> dest l1 = defaultAddr then l1\<lparr>dest := 0\<rparr> else l1)
               in Some (Layer3_deliver l2 s', False, s')))"

text \<open>The body of the loop of \<open>Run\<close> for a frame of the driver.\<close>

definition Layer3_frame ::
    "eibaddr_t \<Rightarrow> timestamp_t \<Rightarrow> timestamp_t \<Rightarrow> lpdu \<Rightarrow> layer3 \<Rightarrow> (delivery list \<times> layer3) option" where
  "Layer3_frame defaultAddr now later l s =
     (case l of
        L_Busmonitor_PDU pdu status timestamp \<Rightarrow>
          Some (map (\<lambda>c. Deliver_Busmonitor c pdu status timestamp) (l3_busmonitor s) @
                map (\<lambda>c. Deliver_Busmonitor c pdu status timestamp) (l3_vbusmonitor s),
                s\<lparr>l3_ignore := Layer3_redel later (l3_ignore s)\<rparr>)
      | L_Data_PDU d \<Rightarrow>
          (if LPDU_getType l = L_Data then
             (case Layer3_data defaultAddr now d s of
                None \<Rightarrow> None
              | Some (ds, dropped, s') \<Rightarrow>
                  Some (ds, if dropped then s' else s'\<lparr>l3_ignore := Layer3_redel later (l3_ignore s')\<rparr>))
           else Some ([], s\<lparr>l3_ignore := Layer3_redel later (l3_ignore s)\<rparr>))
      | _ \<Rightarrow> Some ([], s\<lparr>l3_ignore := Layer3_redel later (l3_ignore s)\<rparr>))"

section \<open>Closing\<close>

text \<open>The destructor: the loops end because each deregistration removes the entry it is given.\<close>

fun Layer3_close_loop :: "nat \<Rightarrow> layer3 \<Rightarrow> layer3 option" where
  "Layer3_close_loop 0 s = None"
| "Layer3_close_loop (Suc fuel) s =
     (case l3_vbusmonitor s of
        c # _ \<Rightarrow> Layer3_close_loop fuel (snd (deregisterVBusmonitor c s))
      | [] \<Rightarrow>
         (case l3_group s of
            g # _ \<Rightarrow> Layer3_close_loop fuel (snd (deregisterGroupCallBack (gi_cb g) (gi_dest g) s))
          | [] \<Rightarrow>
             (case l3_individual s of
                i # _ \<Rightarrow> Layer3_close_loop fuel (snd (deregisterIndividualCallBack (ii_cb i) (ii_src i) (ii_dest i) s))
              | [] \<Rightarrow> Some s)))"

definition Layer3_close :: "layer3 \<Rightarrow> layer3 option" where
  "Layer3_close s =
     Layer3_close_loop (Suc (length (l3_vbusmonitor s) + length (l3_group s) + length (l3_individual s)))
       (Layer3_call (if l3_mode s \<noteq> 0 then L2_leaveBusmonitor else L2_Close) s)"

end
