(* ===== verification/Dispatch.thy ===== *)
theory Dispatch
  imports Layer3 "HOL-Library.Multiset"
begin

text \<open>
  What the dispatcher guarantees. Towards the bus driver: the calls it makes follow the
  driver's protocol, and the addresses the driver was told are those of the registered
  callbacks. Towards the clients: the registrations exclude each other as they should, and a
  frame that is repeated within a second is delivered once.
\<close>

section \<open>Searching and removing\<close>

lemma first_idx_None: "first_idx P xs = None \<longleftrightarrow> (\<forall>x \<in> set xs. \<not> P x)"
  by (induction xs) auto

lemma first_idx_Some: "first_idx P xs = Some i \<Longrightarrow> i < length xs \<and> P (xs ! i)"
  by (induction xs arbitrary: i) (auto split: if_splits)

lemma mset_swap_remove:
  assumes "i < length xs"
  shows "mset (swap_remove i xs) = mset xs - {#xs ! i#}"
proof (cases xs rule: rev_cases)
  case (snoc ys y)
  show ?thesis
  proof (cases "i < length ys")
    case True
    then have "ys ! i \<in># mset ys" by simp
    with True snoc show ?thesis
      by (simp add: swap_remove_def list_update_append mset_update nth_append)
  next
    case False
    with assms snoc have "i = length ys" by simp
    with snoc show ?thesis by (simp add: swap_remove_def list_update_append)
  qed
qed (use assms in simp)

lemma set_swap_remove: "i < length xs \<Longrightarrow> set (swap_remove i xs) \<subseteq> set xs \<and> set xs = insert (xs ! i) (set (swap_remove i xs))"
proof -
  assume i: "i < length xs"
  have "mset xs = add_mset (xs ! i) (mset (swap_remove i xs))"
    using i by (simp add: mset_swap_remove)
  then have "set xs = insert (xs ! i) (set (swap_remove i xs))"
    by (metis set_mset_add_mset_insert set_mset_mset)
  then show ?thesis by auto
qed

lemma length_swap_remove [simp]: "length (swap_remove i xs) = length xs - 1"
  by (simp add: swap_remove_def)

lemma distinct_sub_mset:
  assumes "mset ys \<subseteq># mset xs" and "distinct xs"
  shows "distinct ys"
proof -
  have "count (mset ys) a \<le> 1" for a
    using mset_subset_eq_count [OF assms(1), of a] assms(2)
    by (cases "a \<in> set xs") (simp_all add: distinct_count_atmost_1 count_eq_zero_iff [THEN iffD2])
  then show ?thesis
    by (auto simp: distinct_count_atmost_1 le_Suc_eq count_eq_zero_iff)
qed

lemma distinct_map_filter_swap_remove:
  assumes "i < length xs" and "distinct (map f (filter P xs))"
  shows "distinct (map f (filter P (swap_remove i xs)))"
proof -
  have "mset (swap_remove i xs) \<subseteq># mset xs" using assms(1) by (simp add: mset_swap_remove)
  then have "mset (map f (filter P (swap_remove i xs))) \<subseteq># mset (map f (filter P xs))"
    by (simp add: image_mset_subseteq_mono multiset_filter_mono)
  with assms(2) show ?thesis by (rule distinct_sub_mset [rotated])
qed

section \<open>The protocol of the bus driver\<close>

text \<open>
  What a driver may expect of its client: it is opened when it is closed, the busmonitor mode
  is entered from the closed state, an address is added only once, and not as long as the
  driver is closed, and only what was added is removed. \<open>None\<close> is a violation.
\<close>

record l2state =
  l2_opened :: bool
  l2_busmonitor :: bool
  l2_vbusmonitor :: bool
  l2_addresses :: "eibaddr_t set"
  l2_groups :: "eibaddr_t set"

fun l2_step :: "l2call \<Rightarrow> l2state \<Rightarrow> l2state option" where
  "l2_step L2_Open d = (if l2_opened d \<or> l2_busmonitor d then None else Some (d\<lparr>l2_opened := True\<rparr>))"
| "l2_step L2_Close d = (if \<not> l2_opened d then None else Some (d\<lparr>l2_opened := False\<rparr>))"
| "l2_step (L2_enterBusmonitor ok) d =
     (if l2_opened d \<or> l2_busmonitor d then None else Some (d\<lparr>l2_busmonitor := ok\<rparr>))"
| "l2_step L2_leaveBusmonitor d = (if \<not> l2_busmonitor d then None else Some (d\<lparr>l2_busmonitor := False\<rparr>))"
| "l2_step (L2_openVBusmonitor ok) d = (if l2_vbusmonitor d then None else Some (d\<lparr>l2_vbusmonitor := ok\<rparr>))"
| "l2_step L2_closeVBusmonitor d = (if \<not> l2_vbusmonitor d then None else Some (d\<lparr>l2_vbusmonitor := False\<rparr>))"
| "l2_step (L2_addAddress a ok) d =
     (if \<not> l2_opened d \<or> a = 0 \<or> a \<in> l2_addresses d then None
      else Some (if ok then d\<lparr>l2_addresses := insert a (l2_addresses d)\<rparr> else d))"
| "l2_step (L2_removeAddress a) d =
     (if a \<notin> l2_addresses d then None else Some (d\<lparr>l2_addresses := l2_addresses d - {a}\<rparr>))"
| "l2_step (L2_addGroupAddress a ok) d =
     (if \<not> l2_opened d \<or> a = 0 \<or> a \<in> l2_groups d then None
      else Some (if ok then d\<lparr>l2_groups := insert a (l2_groups d)\<rparr> else d))"
| "l2_step (L2_removeGroupAddress a) d =
     (if a \<notin> l2_groups d then None else Some (d\<lparr>l2_groups := l2_groups d - {a}\<rparr>))"
| "l2_step (L2_Send_L_Data l) d = Some d"

fun l2_run :: "l2call list \<Rightarrow> l2state \<Rightarrow> l2state option" where
  "l2_run [] d = Some d"
| "l2_run (c # cs) d = (case l2_step c d of None \<Rightarrow> None | Some d' \<Rightarrow> l2_run cs d')"

definition l2_closed :: l2state where
  "l2_closed = \<lparr>l2_opened = False, l2_busmonitor = False, l2_vbusmonitor = False, l2_addresses = {}, l2_groups = {}\<rparr>"

lemma l2_run_append: "l2_run (cs @ cs') d = (case l2_run cs d of None \<Rightarrow> None | Some d' \<Rightarrow> l2_run cs' d')"
  by (induction cs arbitrary: d) (auto split: option.split)

text \<open>The state of the driver that the dispatcher's state stands for.\<close>

definition driver_with :: "bool \<Rightarrow> bool \<Rightarrow> layer3 \<Rightarrow> l2state" where
  "driver_with opened busmonitor s = \<lparr>l2_opened = opened, l2_busmonitor = busmonitor, l2_vbusmonitor = (l3_vbusmonitor s \<noteq> []),
     l2_addresses = ii_dest ` set (l3_individual s) - {0}, l2_groups = gi_dest ` set (l3_group s) - {0}\<rparr>"

definition driver_of :: "layer3 \<Rightarrow> l2state" where
  "driver_of s = driver_with (l3_mode s = 0) (l3_mode s = 1) s"

definition l3_locks :: "layer3 \<Rightarrow> eibaddr_t list" where
  "l3_locks s = map ii_src (filter (\<lambda>i. ii_lock i = Individual_Lock_Connection) (l3_individual s))"

definition l3_inv :: "layer3 \<Rightarrow> bool" where
  "l3_inv s \<longleftrightarrow>
     (l3_mode s = 0 \<and> l3_busmonitor s = [] \<or>
      l3_mode s = 1 \<and> l3_busmonitor s \<noteq> [] \<and> l3_group s = [] \<and> l3_individual s = [] \<and> l3_broadcast s = []) \<and>
     distinct (l3_locks s) \<and>
     l2_run (l3_calls s) l2_closed = Some (driver_of s)"

lemma l3_inv_new: "l3_inv Layer3_new"
  by (simp add: l3_inv_def Layer3_new_def l3_locks_def driver_of_def driver_with_def l2_closed_def)

lemma l3_inv_call:
  assumes "l2_run (l3_calls s) l2_closed = Some d" and "l2_step c d = Some d'"
  shows "l2_run (l3_calls (Layer3_call c s)) l2_closed = Some d'"
  using assms by (simp add: Layer3_call_def l2_run_append)

lemma Layer3_call_simps [simp]:
  "l3_mode (Layer3_call c s) = l3_mode s" "l3_ignore (Layer3_call c s) = l3_ignore s"
  "l3_busmonitor (Layer3_call c s) = l3_busmonitor s" "l3_vbusmonitor (Layer3_call c s) = l3_vbusmonitor s"
  "l3_broadcast (Layer3_call c s) = l3_broadcast s" "l3_group (Layer3_call c s) = l3_group s"
  "l3_individual (Layer3_call c s) = l3_individual s" "l3_calls (Layer3_call c s) = l3_calls s @ [c]"
  by (simp_all add: Layer3_call_def)

lemma l3_invD:
  assumes "l3_inv s"
  shows "l2_run (l3_calls s) l2_closed = Some (driver_of s)" and "distinct (l3_locks s)"
    and "l3_mode s = 0 \<Longrightarrow> l3_busmonitor s = []"
    and "l3_mode s \<noteq> 0 \<Longrightarrow> l3_mode s = 1 \<and> l3_busmonitor s \<noteq> [] \<and> l3_group s = [] \<and> l3_individual s = [] \<and> l3_broadcast s = []"
  using assms by (auto simp: l3_inv_def)

text \<open>The driver state and the locks only depend on these members.\<close>

lemma driver_with_cong:
  "(l3_vbusmonitor s' = []) = (l3_vbusmonitor s = []) \<Longrightarrow>
   ii_dest ` set (l3_individual s') - {0} = ii_dest ` set (l3_individual s) - {0} \<Longrightarrow>
   gi_dest ` set (l3_group s') - {0} = gi_dest ` set (l3_group s) - {0} \<Longrightarrow> driver_with p q s' = driver_with p q s"
  by (simp add: driver_with_def)

section \<open>Every operation keeps the invariant\<close>

lemma registerBusmonitor_inv:
  assumes "l3_inv s"
  shows "l3_inv (snd (registerBusmonitor ok c s))"
proof (cases "l3_individual s = [] \<and> l3_group s = [] \<and> l3_broadcast s = []")
  case True
  note inv = l3_invD [OF assms]
  show ?thesis
  proof (cases "l3_mode s = 0")
    case True
    with \<open>_ \<and> _\<close> inv show ?thesis
      by (auto simp: registerBusmonitor_def Let_def l3_inv_def l3_locks_def l2_run_append driver_of_def driver_with_def)
  next
    case False
    with \<open>_ \<and> _\<close> inv show ?thesis
      by (auto simp: registerBusmonitor_def Let_def l3_inv_def l3_locks_def driver_of_def driver_with_def)
  qed
qed (use assms in \<open>auto simp: registerBusmonitor_def\<close>)

lemma deregisterBusmonitor_inv:
  assumes "l3_inv s"
  shows "l3_inv (snd (deregisterBusmonitor c s))"
proof (cases "first_idx (\<lambda>b. b = c) (l3_busmonitor s)")
  case (Some i)
  note inv = l3_invD [OF assms]
  from Some have i: "i < length (l3_busmonitor s)" by (simp add: first_idx_Some)
  with inv have m: "l3_mode s = 1" by fastforce
  show ?thesis
    using Some i m inv unfolding deregisterBusmonitor_def
    by (auto simp: Let_def l3_inv_def l3_locks_def l2_run_append driver_of_def driver_with_def)
qed (use assms in \<open>simp add: deregisterBusmonitor_def\<close>)

lemma registerVBusmonitor_inv:
  assumes "l3_inv s"
  shows "l3_inv (snd (registerVBusmonitor ok c s))"
  using l3_invD [OF assms] assms
  by (auto simp: registerVBusmonitor_def Let_def l3_inv_def l3_locks_def l2_run_append driver_of_def driver_with_def)

lemma broadcast_inv:
  assumes "l3_inv s"
  shows "l3_inv (snd (registerBroadcastCallBack c s))" and "l3_inv (snd (deregisterBroadcastCallBack c s))"
proof -
  show "l3_inv (snd (registerBroadcastCallBack c s))"
    using assms by (auto simp: registerBroadcastCallBack_def l3_inv_def l3_locks_def driver_of_def driver_with_def)
  show "l3_inv (snd (deregisterBroadcastCallBack c s))"
  proof (cases "first_idx (\<lambda>b. b = c) (l3_broadcast s)")
    case (Some i)
    then have "l3_broadcast s \<noteq> []" by auto
    with Some assms show ?thesis
      by (auto simp: deregisterBroadcastCallBack_def l3_inv_def l3_locks_def driver_of_def driver_with_def)
  qed (use assms in \<open>simp add: deregisterBroadcastCallBack_def\<close>)
qed

lemma registerGroupCallBack_inv:
  assumes "l3_inv s"
  shows "l3_inv (snd (registerGroupCallBack ok c addr s))"
proof (cases "l3_mode s = 1")
  case False
  note inv = l3_invD [OF assms]
  from False inv have m: "l3_mode s = 0" by blast
  show ?thesis
  proof (cases "first_idx (\<lambda>g. gi_dest g = addr) (l3_group s) = None \<and> addr \<noteq> 0")
    case True
    then have "addr \<notin> gi_dest ` set (l3_group s)" by (auto simp: first_idx_None)
    with True m inv show ?thesis
      by (cases ok) (auto simp: registerGroupCallBack_def Let_def l3_inv_def l3_locks_def l2_run_append driver_of_def driver_with_def)
  next
    case False
    then have "addr = 0 \<or> addr \<in> gi_dest ` set (l3_group s)" by (auto simp: first_idx_None)
    then have "gi_dest ` set (l3_group s @ [\<lparr>gi_cb = c, gi_dest = addr\<rparr>]) - {0} = gi_dest ` set (l3_group s) - {0}"
      by auto
    moreover have "registerGroupCallBack ok c addr s = (True, s\<lparr>l3_group := l3_group s @ [\<lparr>gi_cb = c, gi_dest = addr\<rparr>]\<rparr>)"
      using False m by (auto simp: registerGroupCallBack_def)
    ultimately show ?thesis
      using m inv by (simp add: l3_inv_def l3_locks_def driver_of_def driver_with_def del: set_append image_Un)
  qed
qed (use assms in \<open>simp add: registerGroupCallBack_def\<close>)

lemma swap_remove_rest:
  assumes "first_idx P xs = Some i" and "\<forall>x. P x \<longrightarrow> f x = a"
  shows "f ` set (swap_remove i xs) - {0} =
    (if a \<in> f ` set (swap_remove i xs) then f ` set xs - {0} else f ` set xs - {0} - {a})" (is "?L = ?R")
    and "a \<in> f ` set xs"
proof -
  from first_idx_Some [OF assms(1)] have i: "i < length xs" "f (xs ! i) = a" using assms(2) by auto
  with set_swap_remove [of i xs] have "f ` set xs = insert a (f ` set (swap_remove i xs))" by auto
  then show "?L = ?R" "a \<in> f ` set xs" by auto
qed

text \<open>Deregistration keeps the driver in step, whether it is open or closed.\<close>

lemma deregisterVBusmonitor_driver:
  assumes "l2_run (l3_calls s) l2_closed = Some (driver_with p q s)"
  shows "l2_run (l3_calls (snd (deregisterVBusmonitor c s))) l2_closed = Some (driver_with p q (snd (deregisterVBusmonitor c s)))"
proof (cases "first_idx (\<lambda>b. b = c) (l3_vbusmonitor s)")
  case (Some i)
  then have "l3_vbusmonitor s \<noteq> []" by auto
  with Some assms show ?thesis
    unfolding deregisterVBusmonitor_def by (auto simp: Let_def l2_run_append driver_with_def)
qed (use assms in \<open>simp add: deregisterVBusmonitor_def\<close>)

lemma deregisterGroupCallBack_driver:
  assumes "l2_run (l3_calls s) l2_closed = Some (driver_with p q s)"
  shows "l2_run (l3_calls (snd (deregisterGroupCallBack c addr s))) l2_closed
    = Some (driver_with p q (snd (deregisterGroupCallBack c addr s)))"
proof (cases "first_idx (\<lambda>g. gi_cb g = c \<and> gi_dest g = addr) (l3_group s)")
  case (Some i)
  have rest: "gi_dest ` set (swap_remove i (l3_group s)) - {0} =
      (if addr \<in> gi_dest ` set (swap_remove i (l3_group s)) then gi_dest ` set (l3_group s) - {0}
       else gi_dest ` set (l3_group s) - {0} - {addr})" "addr \<in> gi_dest ` set (l3_group s)"
    using swap_remove_rest [OF Some, of gi_dest addr] by simp_all
  let ?s = "s\<lparr>l3_group := swap_remove i (l3_group s)\<rparr>"
  show ?thesis
  proof (cases "addr \<in> gi_dest ` set (swap_remove i (l3_group s)) \<or> addr = 0")
    case True
    then have "snd (deregisterGroupCallBack c addr s) = ?s"
      using Some by (auto simp: deregisterGroupCallBack_def Let_def first_idx_None)
    moreover have "driver_with p q ?s = driver_with p q s"
      by (rule driver_with_cong) (use True rest(1) in auto)
    ultimately show ?thesis using assms by simp
  next
    case False
    then have "snd (deregisterGroupCallBack c addr s) = Layer3_call (L2_removeGroupAddress addr) ?s"
      using Some by (auto simp: deregisterGroupCallBack_def Let_def first_idx_None)
    moreover have "l2_step (L2_removeGroupAddress addr) (driver_with p q s) = Some (driver_with p q ?s)"
      using False rest by (simp add: driver_with_def)
    ultimately show ?thesis using assms by (simp add: l2_run_append driver_with_def)
  qed
qed (use assms in \<open>simp add: deregisterGroupCallBack_def\<close>)

lemma deregisterIndividualCallBack_driver:
  assumes "l2_run (l3_calls s) l2_closed = Some (driver_with p q s)"
  shows "l2_run (l3_calls (snd (deregisterIndividualCallBack c src addr s))) l2_closed
    = Some (driver_with p q (snd (deregisterIndividualCallBack c src addr s)))"
proof (cases "first_idx (\<lambda>i. ii_cb i = c \<and> ii_src i = src \<and> ii_dest i = addr) (l3_individual s)")
  case (Some i)
  have rest: "ii_dest ` set (swap_remove i (l3_individual s)) - {0} =
      (if addr \<in> ii_dest ` set (swap_remove i (l3_individual s)) then ii_dest ` set (l3_individual s) - {0}
       else ii_dest ` set (l3_individual s) - {0} - {addr})" "addr \<in> ii_dest ` set (l3_individual s)"
    using swap_remove_rest [OF Some, of ii_dest addr] by simp_all
  let ?s = "s\<lparr>l3_individual := swap_remove i (l3_individual s)\<rparr>"
  show ?thesis
  proof (cases "addr \<in> ii_dest ` set (swap_remove i (l3_individual s)) \<or> addr = 0")
    case True
    then have "snd (deregisterIndividualCallBack c src addr s) = ?s"
      using Some by (auto simp: deregisterIndividualCallBack_def Let_def first_idx_None)
    moreover have "driver_with p q ?s = driver_with p q s"
      by (rule driver_with_cong) (use True rest(1) in auto)
    ultimately show ?thesis using assms by simp
  next
    case False
    then have "snd (deregisterIndividualCallBack c src addr s) = Layer3_call (L2_removeAddress addr) ?s"
      using Some by (auto simp: deregisterIndividualCallBack_def Let_def first_idx_None)
    moreover have "l2_step (L2_removeAddress addr) (driver_with p q s) = Some (driver_with p q ?s)"
      using False rest by (simp add: driver_with_def)
    ultimately show ?thesis using assms by (simp add: l2_run_append driver_with_def)
  qed
qed (use assms in \<open>simp add: deregisterIndividualCallBack_def\<close>)

text \<open>What the three leave alone.\<close>

lemma dereg_same:
  "l3_mode (snd (deregisterVBusmonitor c s)) = l3_mode s" "l3_busmonitor (snd (deregisterVBusmonitor c s)) = l3_busmonitor s"
  "l3_broadcast (snd (deregisterVBusmonitor c s)) = l3_broadcast s" "l3_group (snd (deregisterVBusmonitor c s)) = l3_group s"
  "l3_individual (snd (deregisterVBusmonitor c s)) = l3_individual s"
  "l3_mode (snd (deregisterGroupCallBack c a s)) = l3_mode s" "l3_busmonitor (snd (deregisterGroupCallBack c a s)) = l3_busmonitor s"
  "l3_broadcast (snd (deregisterGroupCallBack c a s)) = l3_broadcast s" "l3_vbusmonitor (snd (deregisterGroupCallBack c a s)) = l3_vbusmonitor s"
  "l3_individual (snd (deregisterGroupCallBack c a s)) = l3_individual s"
  "l3_mode (snd (deregisterIndividualCallBack c src a s)) = l3_mode s" "l3_busmonitor (snd (deregisterIndividualCallBack c src a s)) = l3_busmonitor s"
  "l3_broadcast (snd (deregisterIndividualCallBack c src a s)) = l3_broadcast s"
  "l3_vbusmonitor (snd (deregisterIndividualCallBack c src a s)) = l3_vbusmonitor s"
  "l3_group (snd (deregisterIndividualCallBack c src a s)) = l3_group s"
  by (simp_all add: deregisterVBusmonitor_def deregisterGroupCallBack_def deregisterIndividualCallBack_def Let_def split: option.split)

lemma dereg_lists:
  "l3_group (snd (deregisterGroupCallBack c a s)) =
     (case first_idx (\<lambda>g. gi_cb g = c \<and> gi_dest g = a) (l3_group s) of None \<Rightarrow> l3_group s | Some i \<Rightarrow> swap_remove i (l3_group s))"
  "l3_individual (snd (deregisterIndividualCallBack c src a s)) =
     (case first_idx (\<lambda>i. ii_cb i = c \<and> ii_src i = src \<and> ii_dest i = a) (l3_individual s) of
        None \<Rightarrow> l3_individual s | Some i \<Rightarrow> swap_remove i (l3_individual s))"
  "l3_vbusmonitor (snd (deregisterVBusmonitor c s)) =
     (case first_idx (\<lambda>b. b = c) (l3_vbusmonitor s) of None \<Rightarrow> l3_vbusmonitor s | Some i \<Rightarrow> swap_remove i (l3_vbusmonitor s))"
  by (simp_all add: deregisterVBusmonitor_def deregisterGroupCallBack_def deregisterIndividualCallBack_def Let_def split: option.split)

lemma deregisterVBusmonitor_inv: "l3_inv s \<Longrightarrow> l3_inv (snd (deregisterVBusmonitor c s))"
  using deregisterVBusmonitor_driver [of s "l3_mode s = 0" "l3_mode s = 1" c]
  by (auto simp: l3_inv_def dereg_same l3_locks_def driver_of_def)

lemma deregisterGroupCallBack_inv: "l3_inv s \<Longrightarrow> l3_inv (snd (deregisterGroupCallBack c a s))"
  using deregisterGroupCallBack_driver [of s "l3_mode s = 0" "l3_mode s = 1" c a]
  by (auto simp: l3_inv_def dereg_same dereg_lists l3_locks_def driver_of_def)

lemma deregisterIndividualCallBack_inv: "l3_inv s \<Longrightarrow> l3_inv (snd (deregisterIndividualCallBack c src a s))"
proof -
  assume inv: "l3_inv s"
  have "distinct (l3_locks (snd (deregisterIndividualCallBack c src a s)))"
    using l3_invD(2) [OF inv]
    by (auto simp: l3_locks_def dereg_lists distinct_map_filter_swap_remove split: option.split dest: first_idx_Some)
  then show ?thesis
    using inv deregisterIndividualCallBack_driver [of s "l3_mode s = 0" "l3_mode s = 1" c src a]
    by (auto simp: l3_inv_def dereg_same dereg_lists driver_of_def)
qed

lemma registerIndividualCallBack_inv:
  assumes "l3_inv s"
  shows "l3_inv (snd (registerIndividualCallBack ok c lock src addr s))"
proof (cases "l3_mode s = 1 \<or> first_idx (\<lambda>i. lock = Individual_Lock_Connection \<and> ii_src i = src
                \<and> ii_lock i = Individual_Lock_Connection) (l3_individual s) \<noteq> None")
  case False
  note inv = l3_invD [OF assms]
  from False inv have m: "l3_mode s = 0" "l3_busmonitor s = []" by blast+
  let ?new = "\<lparr>ii_cb = c, ii_src = src, ii_dest = addr, ii_lock = lock\<rparr>"
  let ?s = "s\<lparr>l3_individual := l3_individual s @ [?new]\<rparr>"
  have "distinct (l3_locks ?s)"
    using inv(2) False by (auto simp: l3_locks_def first_idx_None)
  then have locks: "distinct (l3_locks s)" "distinct (l3_locks ?s)" using inv(2) by simp_all
  show ?thesis
  proof (cases "first_idx (\<lambda>i. ii_dest i = addr) (l3_individual s) = None \<and> addr \<noteq> 0")
    case True
    then have new: "addr \<notin> ii_dest ` set (l3_individual s)" by (auto simp: first_idx_None)
    have "snd (registerIndividualCallBack ok c lock src addr s) =
        (if ok then ?s else s)\<lparr>l3_calls := l3_calls s @ [L2_addAddress addr ok]\<rparr>"
      using True False by (simp add: registerIndividualCallBack_def Layer3_call_def Let_def)
    moreover have "l2_step (L2_addAddress addr ok) (driver_of s) = Some (driver_of (if ok then ?s else s))"
      using new m True by (auto simp: driver_of_def driver_with_def)
    ultimately show ?thesis
      using m inv locks by (auto simp: l3_inv_def l3_locks_def l2_run_append driver_of_def driver_with_def)
  next
    case ask: False
    then have "snd (registerIndividualCallBack ok c lock src addr s) = ?s"
      using False by (auto simp: registerIndividualCallBack_def)
    moreover have "driver_of ?s = driver_of s"
      unfolding driver_of_def by (simp, rule driver_with_cong) (use ask in \<open>auto simp: first_idx_None\<close>)
    ultimately show ?thesis using m inv locks by (simp add: l3_inv_def)
  qed
qed (use assms in \<open>auto simp: registerIndividualCallBack_def\<close>)

lemma Layer3_frame_inv:
  assumes "l3_inv s" and "Layer3_frame da now later l s = Some (ds, s')"
  shows "l3_inv s'"
proof -
  have same: "l3_inv (s\<lparr>l3_ignore := ig\<rparr>)" for ig
    using assms(1) by (simp add: l3_inv_def l3_locks_def driver_of_def driver_with_def)
  have "\<exists>ig. s' = s\<lparr>l3_ignore := ig\<rparr>"
  proof (cases l)
    case (L_Data_PDU d)
    then show ?thesis
      using assms(2) unfolding Layer3_frame_def Layer3_data_def
      by (auto simp: Let_def split: if_splits option.splits bool.splits
          intro: exI [of _ "l3_ignore s"] exI [of _ "Layer3_redel later (l3_ignore s)"])
  qed (use assms(2) in \<open>auto simp: Layer3_frame_def\<close>)
  then show ?thesis using same by auto
qed

section \<open>Sequences of operations\<close>

datatype l3_request =
    Op_registerBusmonitor bool nat
  | Op_deregisterBusmonitor nat
  | Op_registerVBusmonitor bool nat
  | Op_deregisterVBusmonitor nat
  | Op_registerBroadcast nat
  | Op_deregisterBroadcast nat
  | Op_registerGroup bool nat eibaddr_t
  | Op_deregisterGroup nat eibaddr_t
  | Op_registerIndividual bool nat Individual_Lock eibaddr_t eibaddr_t
  | Op_deregisterIndividual nat eibaddr_t eibaddr_t
  | Op_send eibaddr_t l_data
  | Op_frame eibaddr_t timestamp_t timestamp_t lpdu

fun l3_op :: "l3_request \<Rightarrow> layer3 \<Rightarrow> layer3 option" where
  "l3_op (Op_registerBusmonitor ok c) s = Some (snd (registerBusmonitor ok c s))"
| "l3_op (Op_deregisterBusmonitor c) s = Some (snd (deregisterBusmonitor c s))"
| "l3_op (Op_registerVBusmonitor ok c) s = Some (snd (registerVBusmonitor ok c s))"
| "l3_op (Op_deregisterVBusmonitor c) s = Some (snd (deregisterVBusmonitor c s))"
| "l3_op (Op_registerBroadcast c) s = Some (snd (registerBroadcastCallBack c s))"
| "l3_op (Op_deregisterBroadcast c) s = Some (snd (deregisterBroadcastCallBack c s))"
| "l3_op (Op_registerGroup ok c a) s = Some (snd (registerGroupCallBack ok c a s))"
| "l3_op (Op_deregisterGroup c a) s = Some (snd (deregisterGroupCallBack c a s))"
| "l3_op (Op_registerIndividual ok c lock src dst) s = Some (snd (registerIndividualCallBack ok c lock src dst s))"
| "l3_op (Op_deregisterIndividual c src dst) s = Some (snd (deregisterIndividualCallBack c src dst s))"
| "l3_op (Op_send da l) s = Some (Layer3_send_L_Data da l s)"
| "l3_op (Op_frame da now later l) s = map_option snd (Layer3_frame da now later l s)"

fun l3_ops :: "l3_request list \<Rightarrow> layer3 \<Rightarrow> layer3 option" where
  "l3_ops [] s = Some s"
| "l3_ops (p # ps) s = (case l3_op p s of None \<Rightarrow> None | Some s' \<Rightarrow> l3_ops ps s')"

lemma Layer3_send_inv: "l3_inv s \<Longrightarrow> l3_inv (Layer3_send_L_Data da l s)"
  by (simp add: Layer3_send_L_Data_def l3_inv_def l3_locks_def l2_run_append driver_of_def driver_with_def)

lemmas l3_op_invs = registerBusmonitor_inv deregisterBusmonitor_inv registerVBusmonitor_inv deregisterVBusmonitor_inv
  broadcast_inv registerGroupCallBack_inv deregisterGroupCallBack_inv registerIndividualCallBack_inv
  deregisterIndividualCallBack_inv Layer3_send_inv Layer3_frame_inv

lemma l3_op_inv: "l3_inv s \<Longrightarrow> l3_op p s = Some s' \<Longrightarrow> l3_inv s'"
  by (cases p) (auto intro: l3_op_invs)

lemma l3_ops_inv: "l3_inv s \<Longrightarrow> l3_ops ps s = Some s' \<Longrightarrow> l3_inv s'"
  by (induction ps arbitrary: s) (auto split: option.splits intro: l3_op_inv)

section \<open>Repeated frames\<close>

lemma first_idx_delete:
  assumes "first_idx P xs = Some i" and "\<And>x. P x \<Longrightarrow> \<not> Q x"
  shows "filter Q (take i xs @ drop (Suc i) xs) = filter Q xs"
proof -
  from first_idx_Some [OF assms(1)] have i: "i < length xs" "\<not> Q (xs ! i)" using assms(2) by auto
  then show ?thesis by (subst (3) id_take_nth_drop [OF i(1)]) simp
qed

lemma Layer3_redel_filter: "Layer3_redel now ig = filter (\<lambda>e. now \<le> ig_end e) ig"
proof (induction now ig rule: Layer3_redel.induct)
  case (1 now ig)
  show ?case
  proof (cases "first_idx (\<lambda>e. ig_end e < now) ig")
    case None
    then have "\<forall>e \<in> set ig. now \<le> ig_end e" by (auto simp: first_idx_None)
    with None show ?thesis by (subst Layer3_redel.simps) simp
  next
    case (Some i)
    then have "i < length ig" by (simp add: first_idx_Some)
    with Some "1.IH" [OF Some] show ?thesis
      using first_idx_delete [OF Some, of "\<lambda>e. now \<le> ig_end e"] by (subst Layer3_redel.simps) simp
  qed
qed

text \<open>A recorded frame stays recorded as long as its time is not over.\<close>

lemma ignore_kept:
  assumes "Layer3_frame da now later l s = Some (ds, s')" and "e \<in> set (l3_ignore s)" and "later \<le> ig_end e"
  shows "e \<in> set (l3_ignore s')"
proof (cases l)
  case (L_Data_PDU d)
  then show ?thesis
    using assms unfolding Layer3_frame_def Layer3_data_def
    by (auto simp: Let_def Layer3_redel_filter split: if_splits option.splits bool.splits)
qed (use assms in \<open>auto simp: Layer3_frame_def Layer3_redel_filter\<close>)

lemma frame_recorded:
  assumes "Layer3_frame da now later (L_Data_PDU d) s = Some (ds, s')" and "valid_length d" and "\<not> repeated d" and "later \<le> now + 1000000"
  shows "\<exists>p. L_Data_ToPacket (d\<lparr>repeated := True\<rparr>) = Some p \<and> \<lparr>ig_data = p, ig_end = now + 1000000\<rparr> \<in> set (l3_ignore s')"
  using assms unfolding Layer3_frame_def Layer3_data_def
  by (auto simp: Let_def Layer3_redel_filter split: option.splits)

lemma recorded_dropped:
  assumes "L_Data_ToPacket (d\<lparr>repeated := True\<rparr>) = Some p" and "e \<in> set (l3_ignore s)" and "ig_data e = p" and "valid_length d"
  shows "Layer3_frame da now later (L_Data_PDU (d\<lparr>repeated := True\<rparr>)) s = Some ([], s)"
proof -
  have "first_idx (\<lambda>e. ig_data e = p) (l3_ignore s) \<noteq> None" using assms(2,3) by (auto simp: first_idx_None)
  then show ?thesis using assms(1,4) by (auto simp: Layer3_frame_def Layer3_data_def)
qed

text \<open>The operations other than the arrival of a frame do not look at what is recorded.\<close>

lemma l3_op_ignore_kept:
  assumes "l3_op p s = Some s'" and "e \<in> set (l3_ignore s)"
    and "\<And>da now later l. p = Op_frame da now later l \<Longrightarrow> later \<le> ig_end e"
  shows "e \<in> set (l3_ignore s')"
  using assms
  by (cases p)
     (auto simp: registerBusmonitor_def deregisterBusmonitor_def registerVBusmonitor_def deregisterVBusmonitor_def
       registerBroadcastCallBack_def deregisterBroadcastCallBack_def registerGroupCallBack_def deregisterGroupCallBack_def
       registerIndividualCallBack_def deregisterIndividualCallBack_def Layer3_send_L_Data_def Let_def
       split: option.splits intro: ignore_kept)

lemma l3_ops_ignore_kept:
  "l3_ops ps s = Some s' \<Longrightarrow> e \<in> set (l3_ignore s) \<Longrightarrow> \<forall>da now later l. Op_frame da now later l \<in> set ps \<longrightarrow> later \<le> ig_end e \<Longrightarrow>
   e \<in> set (l3_ignore s')"
proof (induction ps arbitrary: s)
  case (Cons p ps)
  then obtain s1 where s1: "l3_op p s = Some s1" "l3_ops ps s1 = Some s'" by (auto split: option.splits)
  have "e \<in> set (l3_ignore s1)"
    by (rule l3_op_ignore_kept [OF s1(1) Cons.prems(2)]) (use Cons.prems(3) in auto)
  then show ?case using Cons.IH [OF s1(2)] Cons.prems(3) by auto
qed simp

section \<open>The destructor\<close>

lemma first_idx_head: "P x \<Longrightarrow> first_idx P (x # xs) = Some 0"
  by simp

lemma Layer3_close_loop_ends:
  "length (l3_vbusmonitor s) + length (l3_group s) + length (l3_individual s) < fuel \<Longrightarrow>
   l2_run (l3_calls s) l2_closed = Some (driver_with False False s) \<Longrightarrow>
   \<exists>s'. Layer3_close_loop fuel s = Some s' \<and> l3_vbusmonitor s' = [] \<and> l3_group s' = [] \<and> l3_individual s' = [] \<and>
     l2_run (l3_calls s') l2_closed = Some l2_closed"
proof (induction fuel arbitrary: s)
  case (Suc fuel)
  show ?case
  proof (cases "l3_vbusmonitor s")
    case (Cons c cs)
    with Suc.prems show ?thesis
      by (simp, intro Suc.IH) (simp_all add: dereg_same dereg_lists deregisterVBusmonitor_driver)
  next
    case v: Nil
    show ?thesis
    proof (cases "l3_group s")
      case (Cons g gs)
      with v Suc.prems show ?thesis
        by (simp, intro Suc.IH) (simp_all add: dereg_same dereg_lists deregisterGroupCallBack_driver)
    next
      case g: Nil
      show ?thesis
      proof (cases "l3_individual s")
        case (Cons i xs)
        with v g Suc.prems show ?thesis
          by (simp, intro Suc.IH) (simp_all add: dereg_same dereg_lists deregisterIndividualCallBack_driver)
      next
        case Nil
        with v g Suc.prems show ?thesis by (simp add: driver_with_def l2_closed_def)
      qed
    qed
  qed
qed simp

lemma Layer3_close_ends:
  assumes "l3_inv s"
  shows "\<exists>s'. Layer3_close s = Some s' \<and> l3_vbusmonitor s' = [] \<and> l3_group s' = [] \<and> l3_individual s' = [] \<and>
     l2_run (l3_calls s') l2_closed = Some l2_closed"
proof -
  let ?c = "if l3_mode s \<noteq> 0 then L2_leaveBusmonitor else L2_Close"
  note inv = l3_invD [OF assms]
  have "l2_step ?c (driver_of s) = Some (driver_with False False s)"
    using inv(3,4) by (auto simp: driver_of_def driver_with_def)
  then have "l2_run (l3_calls (Layer3_call ?c s)) l2_closed = Some (driver_with False False (Layer3_call ?c s))"
    using inv(1) by (simp add: l2_run_append driver_with_def)
  then show ?thesis unfolding Layer3_close_def
    by (intro Layer3_close_loop_ends) simp_all
qed

section \<open>The frame that stops the daemon\<close>

lemma Layer3_frame_None:
  "Layer3_frame da t t' (LPDU_fromPacket c) s = None \<longleftrightarrow> L_Data_init c \<noteq> None \<and> longest c"
proof (cases "L_Data_init c")
  case (Some d)
  have "valid_length d" if "length c = 264" using L_Data_init_shape(3) [OF Some] that by auto
  have sent: "L_Data_ToPacket (d\<lparr>repeated := b\<rparr>) = None \<longleftrightarrow> \<not> L_Data_asserts d" for b
    by (simp add: L_Data_ToPacket_def L_Data_asserts_def Let_def)
  have sent': "L_Data_ToPacket d = None \<longleftrightarrow> \<not> L_Data_asserts d"
    by (simp add: L_Data_ToPacket_def Let_def)
  have "L_Data_asserts d" if "\<not> valid_length d"
    using L_Data_init_shape [OF Some] that by (auto simp: L_Data_asserts_def)
  then have "Layer3_frame da t t' (L_Data_PDU d) s = None \<longleftrightarrow> \<not> L_Data_asserts d"
    using sent sent' unfolding Layer3_frame_def Layer3_data_def
    by (auto simp: Let_def split: option.splits bool.splits)
  then show ?thesis using L_Data_received_ok [OF Some] Some by (auto simp: LPDU_fromPacket_frame longest_def)
next
  case None
  with LPDU_fromPacket_other [OF None] show ?thesis by (auto simp: Layer3_frame_def)
qed

end
