(* ===== verification/DispatchProps.thy ===== *)
theory DispatchProps
  imports Dispatch
begin

text \<open>The properties of the dispatcher.\<close>







text \<open>C20: a frame that the bus delivers again with its repeat flag set, within a second of the first
  time, is dropped, whatever requests and other frames came in between.\<close>

theorem repetition_is_dropped:
  assumes "Layer3_frame da t t' (L_Data_PDU d) s = Some (ds, s1)" and "valid_length d" and "\<not> repeated d"
    and "t' \<le> t + 1000000"
    and "l3_ops ps s1 = Some s2" and "\<forall>da now later l. Op_frame da now later l \<in> set ps \<longrightarrow> later \<le> t + 1000000"
  shows "Layer3_frame da' u u' (L_Data_PDU (d\<lparr>repeated := True\<rparr>)) s2 = Some ([], s2)"
proof -
  from frame_recorded [OF assms(1-4)] obtain p where p: "L_Data_ToPacket (d\<lparr>repeated := True\<rparr>) = Some p"
    "\<lparr>ig_data = p, ig_end = t + 1000000\<rparr> \<in> set (l3_ignore s1)" by blast
  from l3_ops_ignore_kept [OF assms(5) p(2)] assms(6)
  have "\<lparr>ig_data = p, ig_end = t + 1000000\<rparr> \<in> set (l3_ignore s2)" by simp
  from recorded_dropped [OF p(1) this _ assms(2)] show ?thesis by simp
qed

definition sample_telegram :: l_data where
  "sample_telegram = L_Data_new\<lparr>AddrType := GroupAddress, source := 0x1101, dest := 1, data := [0x00, 0x81]\<rparr>"

definition listening :: layer3 where
  "listening = Layer3_new\<lparr>l3_group := [\<lparr>gi_cb = 7, gi_dest = 1\<rparr>], l3_calls := [L2_Open, L2_addGroupAddress 1 True]\<rparr>"

lemma sample_delivery:
  "\<exists>s1. Layer3_frame 0x1100 0 10 (L_Data_PDU sample_telegram) listening = Some ([Deliver_Data 7 sample_telegram], s1)"
proof -
  obtain p where "L_Data_ToPacket (sample_telegram\<lparr>repeated := True\<rparr>) = Some p"
    by (simp add: L_Data_ToPacket_def L_Data_asserts_def sample_telegram_def L_Data_new_def Let_def)
  then show ?thesis
    by (simp add: Layer3_frame_def Layer3_data_def Layer3_deliver_def listening_def Layer3_new_def
        sample_telegram_def L_Data_new_def Let_def)
qed

lemma repetition_is_dropped_witness:
  "\<exists>s1. Layer3_frame 0x1100 0 10 (L_Data_PDU sample_telegram) listening = Some ([Deliver_Data 7 sample_telegram], s1)
    \<and> Layer3_frame 0x1100 20 30 (L_Data_PDU (sample_telegram\<lparr>repeated := True\<rparr>)) s1 = Some ([], s1)"
proof -
  obtain s1 where s1: "Layer3_frame 0x1100 0 10 (L_Data_PDU sample_telegram) listening = Some ([Deliver_Data 7 sample_telegram], s1)"
    using sample_delivery by blast
  have "Layer3_frame 0x1100 20 30 (L_Data_PDU (sample_telegram\<lparr>repeated := True\<rparr>)) s1 = Some ([], s1)"
    by (rule repetition_is_dropped [OF s1, where ps = "[]"]) (simp_all add: sample_telegram_def L_Data_new_def)
  with s1 show ?thesis by blast
qed

text \<open>C21: a frame that is not marked as repeated is handed to exactly the callbacks registered for
  it, with the repeat flag cleared: a broadcast to the broadcast callbacks, a group telegram to
  the callbacks of the group or of all groups, an individually addressed frame to those that
  match its destination, where the device's own address counts as 0, and its source.\<close>

theorem frame_reaches_registered_callbacks:
  assumes "Layer3_frame da t t' (L_Data_PDU d) s = Some (ds, s')" and "valid_length d" and "\<not> repeated d"
  shows "Deliver_Data c m \<in> set ds \<longleftrightarrow>
    (m = (if AddrType d = IndividualAddress \<and> dest d = da then d\<lparr>dest := 0\<rparr> else d)) \<and>
    (if AddrType d = IndividualAddress
     then \<exists>i \<in> set (l3_individual s). ii_cb i = c \<and> ii_dest i = dest m \<and> ii_src i \<in> {0, source d}
     else if dest d = 0 then c \<in> set (l3_broadcast s)
     else \<exists>g \<in> set (l3_group s). gi_cb g = c \<and> gi_dest g \<in> {0, dest d})"
proof -
  have clear: "d\<lparr>repeated := False\<rparr> = d" using assms(3) by simp
  have "ds = Layer3_deliver (if AddrType d = IndividualAddress \<and> dest d = da then d\<lparr>dest := 0\<rparr> else d) s"
    using assms clear unfolding Layer3_frame_def Layer3_data_def
    by (auto simp: Let_def Layer3_deliver_def split: option.splits)
  then show ?thesis
    by (cases "AddrType d") (auto simp: Layer3_deliver_def)
qed

lemma frame_reaches_registered_callbacks_witness:
  "\<exists>ds s'. Layer3_frame 0x1100 0 10 (L_Data_PDU sample_telegram) listening = Some (ds, s')
    \<and> Deliver_Data 7 sample_telegram \<in> set ds \<and> Deliver_Data 8 sample_telegram \<notin> set ds"
proof -
  obtain s1 where s1: "Layer3_frame 0x1100 0 10 (L_Data_PDU sample_telegram) listening = Some ([Deliver_Data 7 sample_telegram], s1)"
    using sample_delivery by blast
  have "valid_length sample_telegram" "\<not> repeated sample_telegram" by (simp_all add: sample_telegram_def L_Data_new_def)
  from frame_reaches_registered_callbacks [OF s1 this, of 7 sample_telegram]
    frame_reaches_registered_callbacks [OF s1 this, of 8 sample_telegram] s1
  show ?thesis by simp
qed

text \<open>one packet from the bus stops the daemon: the dispatcher trips an \<open>assert\<close> on a packet
  exactly when it is an extended frame of 256 data bytes that parses.\<close>

theorem dispatcher_aborts_on_longest_frame:
  "Layer3_frame da t t' (LPDU_fromPacket c) s = None \<longleftrightarrow>
     L_Data_init c \<noteq> None \<and> c ! 0 AND 0x80 = 0 \<and> c ! 6 = 0xff \<and> length c = 264"
  using Layer3_frame_None [of da t t' c s] by (simp add: longest_def)

text \<open>the destructor ends: after any history its loops deregister every callback but the
  broadcast and busmonitor ones, which they leave to their owners, and the driver is
  left closed, with no address and no monitor open.\<close>

theorem dispatcher_close_ends:
  assumes "l3_ops ps Layer3_new = Some s"
  shows "\<exists>s'. Layer3_close s = Some s' \<and> l3_vbusmonitor s' = [] \<and> l3_group s' = [] \<and> l3_individual s' = []
    \<and> l2_run (l3_calls s') l2_closed = Some l2_closed"
  by (rule Layer3_close_ends [OF l3_ops_inv [OF l3_inv_new assms]])

definition sample_openings :: "l3_request list" where
  "sample_openings = [Op_registerGroup True 7 1, Op_registerGroup True 8 1]"

lemma sample_openings_run:
  "l3_ops sample_openings Layer3_new = Some (Layer3_new\<lparr>l3_group := [\<lparr>gi_cb = 7, gi_dest = 1\<rparr>, \<lparr>gi_cb = 8, gi_dest = 1\<rparr>],
     l3_calls := [L2_Open, L2_addGroupAddress 1 True]\<rparr>)"
  by (simp add: sample_openings_def Layer3_new_def registerGroupCallBack_def Layer3_call_def Let_def)

lemma dispatcher_close_ends_witness:
  "\<exists>s'. Layer3_close (Layer3_new\<lparr>l3_group := [\<lparr>gi_cb = 7, gi_dest = 1\<rparr>, \<lparr>gi_cb = 8, gi_dest = 1\<rparr>],
     l3_calls := [L2_Open, L2_addGroupAddress 1 True]\<rparr>) = Some s' \<and> l3_group s' = []"
  using dispatcher_close_ends [OF sample_openings_run] by blast

end
