(* ===== verification/Framing.thy ===== *)
theory Framing
  imports Base
begin

text \<open>
  Messages on the socket between the daemon and its clients: \<open>readmessage\<close>, \<open>sendmessage\<close> and
  \<open>sendreject\<close> of \<open>ClientConnection\<close> (\<open>eibd/libserver/client.cpp\<close>) on one side,
  \<open>eibd/client/c/io.c\<close> and \<open>pollcomplete.c\<close> on the other. A message is two bytes of length and
  as many bytes of data. The bytes arrive in pieces: the stream is the list of what successive
  reads find, a piece longer than the read asks for is found again by the next one.
\<close>

section \<open>The socket\<close>

datatype piece = Arrived CArray | Interrupted | Broken

datatype read_result = Read CArray | Read_EINTR | Read_error

text \<open>
  \<open>read (fd, p, n)\<close> on a blocking socket: at most \<open>n\<close> bytes of the next piece, nothing at the end
  of the stream.
\<close>

fun sock_read :: "nat \<Rightarrow> piece list \<Rightarrow> read_result \<times> piece list" where
  "sock_read n [] = (Read [], [])"
| "sock_read n (Interrupted # ps) = (Read_EINTR, ps)"
| "sock_read n (Broken # ps) = (Read_error, ps)"
| "sock_read n (Arrived s # ps) = (Read (take n s), if length s \<le> n then ps else Arrived (drop n s) # ps)"

text \<open>The bytes in a stream, and a measure of what is left to read.\<close>

fun stream_bytes :: "piece list \<Rightarrow> CArray" where
  "stream_bytes [] = []"
| "stream_bytes (Arrived s # ps) = s @ stream_bytes ps"
| "stream_bytes (_ # ps) = stream_bytes ps"

text \<open>\<open>buf[start ..] = d\<close>: the bytes a read stores.\<close>

definition store :: "nat \<Rightarrow> CArray \<Rightarrow> CArray \<Rightarrow> CArray" where
  "store start d buf = take start buf @ d @ drop (start + length d) buf"

definition frame :: "CArray \<Rightarrow> CArray" where
  "frame m = [hi8 (of_nat (length m)), lo8 (of_nat (length m))] @ m"

section \<open>The daemon's side\<close>

text \<open>The members \<open>buf\<close> (\<open>buflen\<close> is its length) and \<open>size\<close>.\<close>

record client_connection =
  cc_buf :: CArray
  cc_size :: nat

definition ClientConnection_new :: client_connection where
  "ClientConnection_new = \<lparr>cc_buf = [], cc_size = 0\<rparr>"

text \<open>The loop \<open>lp\<close> of \<open>readmessage\<close>; \<open>False\<close> is the result -1.\<close>

function readmessage_lp :: "nat \<Rightarrow> client_connection \<Rightarrow> piece list \<Rightarrow> bool \<times> client_connection \<times> piece list" where
  "readmessage_lp start c ps =
     (case sock_read (cc_size c - start) ps of
        (Read d, ps') \<Rightarrow>
          if d = [] then (False, c, ps')
          else
            let c' = c\<lparr>cc_buf := store start d (cc_buf c)\<rparr>
            in if start + length d < cc_size c then readmessage_lp (start + length d) c' ps' else (True, c', ps')
      | (_, ps') \<Rightarrow> (False, c, ps'))"
  by pat_completeness auto
termination by (relation "measure (\<lambda>(start, c, ps). cc_size c - start)") (auto simp flip: length_greater_0_conv)

declare readmessage_lp.simps [simp del]

text \<open>\<open>fresh\<close> is what \<open>new uchar[size]\<close> finds in memory.\<close>

definition readmessage :: "(nat \<Rightarrow> CArray) \<Rightarrow> client_connection \<Rightarrow> piece list \<Rightarrow> bool \<times> client_connection \<times> piece list" where
  "readmessage fresh c ps =
     (case sock_read 2 ps of
        (Read [h, l], ps') \<Rightarrow>
          let c = c\<lparr>cc_size := unat (mk16 h l)\<rparr>
          in if cc_size c < 2 then (False, c, ps')
             else readmessage_lp 0 (if cc_size c > length (cc_buf c) then c\<lparr>cc_buf := fresh (cc_size c)\<rparr> else c) ps'
      | (_, ps') \<Rightarrow> (False, c, ps'))"

text \<open>The message a successful \<open>readmessage\<close> leaves in \<open>buf\<close>.\<close>

definition cc_message :: "client_connection \<Rightarrow> CArray" where
  "cc_message c = take (cc_size c) (cc_buf c)"

text \<open>
  \<open>sendmessage\<close>: \<open>takes\<close> says how many bytes the socket takes at each write after the first; the
  bytes written are the result, \<open>None\<close> a failed \<open>assert\<close>.
\<close>

fun sendmessage_lp :: "nat list \<Rightarrow> CArray \<Rightarrow> bool \<times> CArray" where
  "sendmessage_lp [] msg = (False, [])"
| "sendmessage_lp (k # ks) msg =
     (if k = 0 then (False, [])
      else if k < length msg then (let (ok, w) = sendmessage_lp ks (drop k msg) in (ok, take k msg @ w))
      else (True, msg))"

definition sendmessage :: "nat list \<Rightarrow> CArray \<Rightarrow> (bool \<times> CArray) option" where
  "sendmessage takes msg =
     (if length msg < 2 then None
      else
        let head = [hi8 (of_nat (length msg)), lo8 (of_nat (length msg))]
        in case takes of
             k # ks \<Rightarrow> if k \<ge> 2 then (let (ok, w) = sendmessage_lp ks msg in Some (ok, head @ w))
                       else Some (False, take k head)
           | [] \<Rightarrow> Some (False, []))"

definition sendreject :: "nat list \<Rightarrow> 16 word \<Rightarrow> (bool \<times> CArray) option" where
  "sendreject takes t = sendmessage takes [hi8 t, lo8 t]"

section \<open>The client library's side\<close>

text \<open>The members of \<open>struct _EIBConnection\<close> that \<open>io.c\<close> uses.\<close>

record eib_io =
  ei_readlen :: nat
  ei_buf :: CArray
  ei_size :: nat

definition eib_io_new :: eib_io where
  "eib_io_new = \<lparr>ei_readlen = 0, ei_buf = [], ei_size = 0\<rparr>"

text \<open>\<open>_EIB_SendRequest\<close>: the same loops as \<open>sendmessage\<close>, an interrupted write is tried again.\<close>

datatype write_answer = Took nat | Write_EINTR | Write_error

fun SendRequest_lp :: "write_answer list \<Rightarrow> CArray \<Rightarrow> bool \<times> CArray" where
  "SendRequest_lp [] d = (False, [])"
| "SendRequest_lp (Write_EINTR # ks) d = SendRequest_lp ks d"
| "SendRequest_lp (Write_error # ks) d = (False, [])"
| "SendRequest_lp (Took k # ks) d =
     (if k = 0 then (False, [])
      else if k < length d then (let (ok, w) = SendRequest_lp ks (drop k d) in (ok, take k d @ w))
      else (True, d))"

fun SendRequest_head :: "write_answer list \<Rightarrow> CArray \<Rightarrow> CArray \<Rightarrow> bool \<times> CArray" where
  "SendRequest_head [] h d = (False, [])"
| "SendRequest_head (Write_EINTR # ks) h d = SendRequest_head ks h d"
| "SendRequest_head (Write_error # ks) h d = (False, [])"
| "SendRequest_head (Took k # ks) h d =
     (if k \<ge> 2 then (let (ok, w) = SendRequest_lp ks d in (ok, h @ w)) else (False, take k h))"

definition EIB_SendRequest :: "write_answer list \<Rightarrow> CArray \<Rightarrow> bool \<times> CArray" where
  "EIB_SendRequest answers d =
     (if length d > 0xffff \<or> length d < 2 then (False, [])
      else SendRequest_head answers [hi8 (of_nat (length d)), lo8 (of_nat (length d))] d)"

text \<open>
  \<open>_EIB_CheckRequest\<close> with a length that is still incomplete. \<open>head\<close> is a local array: after one
  byte, the second call finds \<open>head[1]\<close> uninitialised, and \<open>&head + con->readlen\<close> is the address
  behind the array, so that the read writes outside it: the result \<open>None\<close>. The byte
  \<open>junk\<close> is what \<open>head[1]\<close> holds; \<open>grow\<close> is \<open>realloc\<close>, which keeps the old bytes in front.
\<close>

definition CheckRequest_head ::
    "uchar \<Rightarrow> (nat \<Rightarrow> CArray) \<Rightarrow> eib_io \<Rightarrow> piece list \<Rightarrow> (bool \<times> eib_io \<times> piece list) option" where
  "CheckRequest_head junk fresh e ps =
     (case sock_read (2 - ei_readlen e) ps of
        (Read d, ps') \<Rightarrow>
          if d = [] then Some (False, e, ps')
          else if ei_readlen e \<noteq> 0 then None
          else
            let e = e\<lparr>ei_readlen := ei_readlen e + length d,
                     ei_size := unat (mk16 (d ! 0) (if length d = 2 then d ! 1 else junk))\<rparr>
            in if ei_size e < 2 then Some (False, e, ps')
               else Some (True, if ei_size e > length (ei_buf e)
                                then e\<lparr>ei_buf := ei_buf e @ drop (length (ei_buf e)) (fresh (ei_size e))\<rparr> else e, ps')
      | (Read_EINTR, ps') \<Rightarrow> Some (True, e, ps')
      | (Read_error, ps') \<Rightarrow> Some (False, e, ps'))"

definition CheckRequest_body :: "eib_io \<Rightarrow> piece list \<Rightarrow> bool \<times> eib_io \<times> piece list" where
  "CheckRequest_body e ps =
     (if ei_readlen e < ei_size e + 2 then
        (case sock_read (ei_size e - (ei_readlen e - 2)) ps of
           (Read d, ps') \<Rightarrow>
             if d = [] then (False, e, ps')
             else (True, e\<lparr>ei_buf := store (ei_readlen e - 2) d (ei_buf e), ei_readlen := ei_readlen e + length d\<rparr>, ps')
         | (Read_EINTR, ps') \<Rightarrow> (True, e, ps')
         | (Read_error, ps') \<Rightarrow> (False, e, ps'))
      else (True, e, ps))"

text \<open>\<open>ready\<close> is what \<open>select\<close> answers: \<open>Some True\<close> when a read would not block.\<close>

definition EIB_CheckRequest ::
    "uchar \<Rightarrow> (nat \<Rightarrow> CArray) \<Rightarrow> bool \<Rightarrow> bool option \<Rightarrow> eib_io \<Rightarrow> piece list \<Rightarrow> (bool \<times> eib_io \<times> piece list) option" where
  "EIB_CheckRequest junk fresh block ready e ps =
     (if \<not> block \<and> ready = None then Some (False, e, ps)
      else if \<not> block \<and> ready = Some False then Some (True, e, ps)
      else if ei_readlen e < 2 then CheckRequest_head junk fresh e ps
      else Some (CheckRequest_body e ps))"

definition EIB_complete :: "eib_io \<Rightarrow> bool" where
  "EIB_complete e \<longleftrightarrow> \<not> (ei_readlen e < 2 \<or> ei_readlen e \<ge> 2 \<and> ei_readlen e < ei_size e + 2)"

text \<open>What is left to read: every read of at least one byte makes it smaller.\<close>

fun stream_work :: "piece list \<Rightarrow> nat" where
  "stream_work [] = 0"
| "stream_work (Arrived s # ps) = Suc (length s + stream_work ps)"
| "stream_work (_ # ps) = Suc (stream_work ps)"

lemma sock_read_work:
  "sock_read n ps = (r, ps') \<Longrightarrow> 0 < n \<Longrightarrow> r \<noteq> Read [] \<Longrightarrow> stream_work ps' < stream_work ps"
  by (induction n ps rule: sock_read.induct) (auto split: if_splits)

lemma CheckRequest_work:
  assumes "EIB_CheckRequest junk fresh True ready e ps = Some (True, e', ps')" and "\<not> EIB_complete e'"
  shows "stream_work ps' < stream_work ps"
proof (cases "ei_readlen e < 2")
  case True
  with assms(1) show ?thesis
    by (auto simp: EIB_CheckRequest_def CheckRequest_head_def Let_def split: prod.splits read_result.splits if_splits
        intro!: sock_read_work)
next
  case False
  with assms show ?thesis
    by (auto simp: EIB_CheckRequest_def CheckRequest_body_def EIB_complete_def split: prod.splits read_result.splits if_splits
        intro!: sock_read_work)
qed

text \<open>\<open>_EIB_GetRequest\<close>.\<close>

function EIB_GetRequest ::
    "uchar \<Rightarrow> (nat \<Rightarrow> CArray) \<Rightarrow> eib_io \<Rightarrow> piece list \<Rightarrow> (bool \<times> eib_io \<times> piece list) option" where
  "EIB_GetRequest junk fresh e ps =
     (case EIB_CheckRequest junk fresh True None e ps of
        None \<Rightarrow> None
      | Some (ok, e', ps') \<Rightarrow>
          if \<not> ok then Some (False, e', ps')
          else if EIB_complete e' then Some (True, e'\<lparr>ei_readlen := 0\<rparr>, ps')
          else EIB_GetRequest junk fresh e' ps')"
  by pat_completeness auto
termination
  by (relation "measure (\<lambda>(junk, fresh, e, ps). stream_work ps)") (auto dest: CheckRequest_work)

declare EIB_GetRequest.simps [simp del]

text \<open>\<open>EIB_Poll_Complete\<close>: \<open>Inl\<close> an error, \<open>Inr\<close> whether a message is complete.\<close>

definition EIB_Poll_Complete ::
    "uchar \<Rightarrow> (nat \<Rightarrow> CArray) \<Rightarrow> bool option \<Rightarrow> eib_io \<Rightarrow> piece list \<Rightarrow> ((unit + bool) \<times> eib_io \<times> piece list) option" where
  "EIB_Poll_Complete junk fresh ready e ps =
     map_option (\<lambda>(ok, e', ps'). (if ok then Inr (ei_readlen e' \<ge> 2 \<and> ei_readlen e' \<ge> ei_size e' + 2) else Inl (), e', ps'))
       (EIB_CheckRequest junk fresh False ready e ps)"

definition ei_message :: "eib_io \<Rightarrow> CArray" where
  "ei_message e = take (ei_size e) (ei_buf e)"

end
