(* ===== verification/FramingProofs.thy ===== *)
theory FramingProofs
  imports Framing
begin

text \<open>
  Both sides of the socket reassemble messages from any pieces they arrive in, as long as
  the two bytes of a length arrive together.
\<close>

section \<open>Streams\<close>

text \<open>What is left of a stream after \<open>n\<close> bytes of it were read.\<close>

fun drop_bytes :: "nat \<Rightarrow> piece list \<Rightarrow> piece list" where
  "drop_bytes n [] = []"
| "drop_bytes n (Arrived s # ps) =
     (if n = 0 then Arrived s # ps
      else if length s \<le> n then drop_bytes (n - length s) ps else Arrived (drop n s) # ps)"
| "drop_bytes n (p # ps) = (if n = 0 then p # ps else drop_bytes n ps)"

text \<open>No read fails, and none but the last is empty.\<close>

definition intact :: "piece list \<Rightarrow> bool" where
  "intact ps \<longleftrightarrow> Broken \<notin> set ps \<and> Arrived [] \<notin> set ps"

text \<open>The next read of at least two bytes gets at least two.\<close>

fun whole_head :: "piece list \<Rightarrow> bool" where
  "whole_head (Interrupted # ps) = whole_head ps"
| "whole_head (Arrived s # ps) = (2 \<le> length s)"
| "whole_head _ = False"

text \<open>The messages \<open>ms\<close> arrive next, each with its length in one piece.\<close>

fun arriving :: "CArray list \<Rightarrow> piece list \<Rightarrow> bool" where
  "arriving [] ps = True"
| "arriving (m # ms) ps = (whole_head ps \<and> arriving ms (drop_bytes (length m + 2) ps))"

definition messages_ok :: "CArray list \<Rightarrow> bool" where
  "messages_ok ms \<longleftrightarrow> (\<forall>m \<in> set ms. 2 \<le> length m \<and> length m < 65536)"

lemma intact_Cons [simp]: "intact (p # ps) \<longleftrightarrow> p \<noteq> Broken \<and> p \<noteq> Arrived [] \<and> intact ps"
  by (auto simp: intact_def)

lemma drop_bytes_0 [simp]: "drop_bytes 0 ps = ps"
  by (cases ps rule: stream_bytes.cases) auto

lemma drop_bytes_intact: "intact ps \<Longrightarrow> intact (drop_bytes n ps)"
  by (induction n ps rule: drop_bytes.induct) auto

lemma drop_bytes_Interrupted: "Interrupted \<notin> set ps \<Longrightarrow> Interrupted \<notin> set (drop_bytes n ps)"
  by (induction n ps rule: drop_bytes.induct) auto

lemma stream_bytes_drop: "stream_bytes (drop_bytes n ps) = drop n (stream_bytes ps)"
  by (induction n ps rule: drop_bytes.induct) auto

lemma drop_bytes_add: "drop_bytes b (drop_bytes a ps) = drop_bytes (a + b) ps"
proof (induction a ps rule: drop_bytes.induct)
  case (2 n s ps)
  then show ?case by (cases "n = 0"; cases "b = 0") (auto simp: add.commute)
qed auto

lemma sock_read_bytes:
  assumes "0 < n" and "n \<le> length (stream_bytes ps)" and "intact ps" and "Interrupted \<notin> set ps"
  shows "\<exists>d. sock_read n ps = (Read d, drop_bytes (length d) ps) \<and> d \<noteq> [] \<and> length d \<le> n
    \<and> stream_bytes ps = d @ stream_bytes (drop_bytes (length d) ps)"
proof (cases ps)
  case (Cons p ps')
  with assms obtain s where "p = Arrived s" "s \<noteq> []" by (cases p) auto
  with Cons assms(1) show ?thesis by (cases "length s \<le> n") auto
qed (use assms in auto)

lemma store_take: "length b \<ge> start \<Longrightarrow> take (start + length d) (store start d b) = take start b @ d"
  by (simp add: store_def)

lemma store_length: "length b \<ge> start + length d \<Longrightarrow> length (store start d b) = length b"
  by (simp add: store_def)

lemma frame_length [simp]: "length (frame m) = length m + 2"
  by (simp add: frame_def)

lemma drop_frame [simp]: "drop (Suc (Suc (length m))) (frame m @ xs) = xs"
  by (simp add: frame_def)

lemma unat_16 [simp]: "n < 65536 \<Longrightarrow> unat (word_of_nat n :: 16 word) = n"
  by (simp add: unat_of_nat)

section \<open>The daemon\<close>

lemma readmessage_lp_reads:
  assumes "intact ps" and "Interrupted \<notin> set ps" and "stream_bytes ps = m @ rest"
    and "start + length m = cc_size c" and "m \<noteq> []" and "cc_size c \<le> length (cc_buf c)"
  shows "\<exists>b. readmessage_lp start c ps = (True, c\<lparr>cc_buf := b\<rparr>, drop_bytes (length m) ps)
    \<and> take (cc_size c) b = take start (cc_buf c) @ m \<and> length b = length (cc_buf c)"
  using assms
proof (induction start c ps arbitrary: m rule: readmessage_lp.induct)
  case (1 start c ps)
  have n: "cc_size c - start = length m" using "1.prems"(4) by simp
  obtain d where d: "sock_read (length m) ps = (Read d, drop_bytes (length d) ps)" "d \<noteq> []" "length d \<le> length m"
    "stream_bytes ps = d @ stream_bytes (drop_bytes (length d) ps)"
    using sock_read_bytes [of "length m" ps] "1.prems" by auto
  define c' where "c' = c\<lparr>cc_buf := store start d (cc_buf c)\<rparr>"
  have bufs: "length (cc_buf c') = length (cc_buf c)" "take (start + length d) (cc_buf c') = take start (cc_buf c) @ d"
    "cc_size c' = cc_size c" "\<And>b. c'\<lparr>cc_buf := b\<rparr> = c\<lparr>cc_buf := b\<rparr>"
    using "1.prems"(4,6) d(3) by (simp_all add: c'_def store_take store_length)
  have m: "m = d @ drop (length d) m" using d(3,4) "1.prems"(3) by (metis append_eq_append_conv_if append_take_drop_id)
  have left: "stream_bytes (drop_bytes (length d) ps) = drop (length d) m @ rest"
    using d(3) "1.prems"(3) by (simp add: stream_bytes_drop)
  show ?case
  proof (cases "start + length d < cc_size c")
    case True
    have "\<exists>b. readmessage_lp (start + length d) c' (drop_bytes (length d) ps) =
        (True, c'\<lparr>cc_buf := b\<rparr>, drop_bytes (length (drop (length d) m)) (drop_bytes (length d) ps))
      \<and> take (cc_size c') b = take (start + length d) (cc_buf c') @ drop (length d) m \<and> length b = length (cc_buf c')"
    proof (rule "1.IH" [OF d(1) [unfolded n [symmetric], symmetric] refl d(2) c'_def True _ _ left])
      show "start + length d + length (drop (length d) m) = cc_size c'" using "1.prems"(4) d(3) by (simp add: bufs)
      show "drop (length d) m \<noteq> []" using True "1.prems"(4) by simp
    qed (use "1.prems" bufs in \<open>simp_all add: drop_bytes_intact drop_bytes_Interrupted\<close>)
    then show ?thesis using True d m n bufs
      by (subst readmessage_lp.simps) (auto simp: c'_def drop_bytes_add)
  next
    case False
    then have "length d = length m" "d = m" using d(3) "1.prems"(4) m by auto
    with False d n bufs "1.prems"(4) show ?thesis
      by (subst readmessage_lp.simps) (auto simp: c'_def)
  qed
qed

lemma readmessage_reads:
  assumes "intact ps" and "Interrupted \<notin> set ps" and "stream_bytes ps = frame m @ rest" and "whole_head ps"
    and "2 \<le> length m" and "length m < 65536" and "\<And>n. length (fresh n) = n"
  shows "\<exists>c'. readmessage fresh c ps = (True, c', drop_bytes (length m + 2) ps) \<and> cc_message c' = m"
proof -
  obtain s ps' where ps: "ps = Arrived s # ps'" "2 \<le> length s" using assms(2,4)
    by (cases ps rule: whole_head.cases) auto
  define h where "h = hi8 (of_nat (length m))"
  define l where "l = lo8 (of_nat (length m))"
  have hl: "take 2 (stream_bytes ps) = [h, l]" "drop 2 (stream_bytes ps) = m @ rest"
    using assms(3) by (simp_all add: frame_def h_def l_def)
  then have s: "sock_read 2 ps = (Read [h, l], drop_bytes 2 ps)" using ps by auto
  define c0 where "c0 = c\<lparr>cc_size := length m\<rparr>"
  define c1 where "c1 = (if length m > length (cc_buf c0) then c0\<lparr>cc_buf := fresh (length m)\<rparr> else c0)"
  have c1: "cc_size c1 = length m" "length m \<le> length (cc_buf c1)"
    using assms(7) by (auto simp: c1_def c0_def)
  have "m \<noteq> []" using assms(5) by auto
  then obtain b where b: "readmessage_lp 0 c1 (drop_bytes 2 ps) = (True, c1\<lparr>cc_buf := b\<rparr>, drop_bytes (length m) (drop_bytes 2 ps))"
    "take (cc_size c1) b = m"
    using readmessage_lp_reads [of "drop_bytes 2 ps" m rest 0 c1] assms(1,2,5) hl(2) c1
    by (auto simp: drop_bytes_intact drop_bytes_Interrupted stream_bytes_drop)
  have "readmessage fresh c ps = readmessage_lp 0 c1 (drop_bytes 2 ps)"
    using s assms(5,6) by (simp add: readmessage_def h_def l_def c1_def c0_def Let_def)
  with b c1 show ?thesis by (auto simp: cc_message_def drop_bytes_add)
qed

text \<open>Reading message after message, until a read fails.\<close>

fun readmessages :: "nat \<Rightarrow> (nat \<Rightarrow> CArray) \<Rightarrow> client_connection \<Rightarrow> piece list \<Rightarrow> CArray list" where
  "readmessages 0 fresh c ps = []"
| "readmessages (Suc n) fresh c ps =
     (case readmessage fresh c ps of
        (True, c', ps') \<Rightarrow> cc_message c' # readmessages n fresh c' ps'
      | (False, _) \<Rightarrow> [])"

lemma readmessages_all:
  assumes "intact ps" and "Interrupted \<notin> set ps" and "stream_bytes ps = concat (map frame ms)" and "arriving ms ps"
    and "messages_ok ms" and "\<And>n. length (fresh n) = n"
  shows "readmessages (length ms) fresh c ps = ms"
  using assms(1-5)
proof (induction ms arbitrary: ps c)
  case (Cons m ms)
  obtain c' where c': "readmessage fresh c ps = (True, c', drop_bytes (length m + 2) ps)" "cc_message c' = m"
    using readmessage_reads [of ps m "concat (map frame ms)" fresh c] Cons.prems assms(6) by (auto simp: messages_ok_def)
  have "readmessages (length ms) fresh c' (drop_bytes (length m + 2) ps) = ms"
    using Cons.prems by (intro Cons.IH)
      (auto simp: drop_bytes_intact drop_bytes_Interrupted stream_bytes_drop messages_ok_def simp del: drop_append)
  with c' show ?case by simp
qed simp

section \<open>The client library\<close>

text \<open>
  The connection is somewhere in the reception of \<open>m\<close>, the stream after which will be \<open>after\<close>:
  either nothing is read yet, or the length and a part of the data.
\<close>

definition receiving :: "CArray \<Rightarrow> piece list \<Rightarrow> eib_io \<Rightarrow> piece list \<Rightarrow> bool" where
  "receiving m after e ps \<longleftrightarrow> intact ps \<and> drop_bytes (length m + 2 - ei_readlen e) ps = after \<and>
     (if ei_readlen e = 0
      then whole_head ps \<and> take (length m + 2) (stream_bytes ps) = frame m
      else 2 \<le> ei_readlen e \<and> ei_readlen e \<le> length m + 2 \<and> ei_size e = length m \<and> length m \<le> length (ei_buf e) \<and>
        take (ei_readlen e - 2) (ei_buf e) = take (ei_readlen e - 2) m \<and>
        take (length m + 2 - ei_readlen e) (stream_bytes ps) = drop (ei_readlen e - 2) m)"

lemma EIB_complete_iff: "EIB_complete e \<longleftrightarrow> 2 \<le> ei_readlen e \<and> ei_size e + 2 \<le> ei_readlen e"
  by (auto simp: EIB_complete_def)

lemma CheckRequest_head_receiving:
  assumes "receiving m after e ps" and "ei_readlen e = 0" and "2 \<le> length m" and "length m < 65536"
    and "\<And>n. length (fresh n) = n"
  shows "\<exists>e' ps'. CheckRequest_head junk fresh e ps = Some (True, e', ps') \<and> receiving m after e' ps'"
proof (cases ps)
  case Nil
  with assms(1,2) show ?thesis by (simp add: receiving_def)
next
  case (Cons p ps')
  note r = assms(1) [unfolded receiving_def assms(2), simplified]
  show ?thesis
  proof (cases p)
    case Interrupted
    then show ?thesis using Cons r assms(2) by (simp add: CheckRequest_head_def receiving_def)
  next
    case (Arrived s)
    define h where "h = hi8 (of_nat (length m))"
    define l where "l = lo8 (of_nat (length m))"
    have s: "2 \<le> length s" using Cons Arrived r by simp
    have bytes: "take (length m + 2) (s @ stream_bytes ps') = h # l # m"
      using Cons Arrived r by (simp add: frame_def h_def l_def)
    have hl: "take 2 s = [h, l]" using s arg_cong [OF bytes, of "take 2"] by (simp add: numeral_2_eq_2)
    have size: "unat (mk16 h l) = length m" using assms(4) by (simp add: h_def l_def)
    define e1 where "e1 = e\<lparr>ei_readlen := 2, ei_size := length m\<rparr>"
    define e2 where "e2 = (if length m > length (ei_buf e1)
       then e1\<lparr>ei_buf := ei_buf e1 @ drop (length (ei_buf e1)) (fresh (length m))\<rparr> else e1)"
    define rest where "rest = drop_bytes 2 ps"
    have read: "sock_read 2 ps = (Read [h, l], rest)" using Cons Arrived hl s by (auto simp: rest_def)
    have "CheckRequest_head junk fresh e ps = Some (True, e2, rest)"
      using read size assms(2,3) by (simp add: CheckRequest_head_def e1_def e2_def Let_def)
    moreover have "receiving m after e2 rest"
    proof -
      have "take (length m) (stream_bytes rest) = m"
      proof -
        have "take (length m + 2) (stream_bytes ps) = h # l # m" using r by (simp add: frame_def h_def l_def)
        from arg_cong [OF this, of "drop 2"] show ?thesis by (simp add: rest_def stream_bytes_drop drop_take)
      qed
      moreover have "drop_bytes (length m) rest = after" using r by (simp add: rest_def drop_bytes_add)
      ultimately show ?thesis using r assms(5) Cons Arrived
        by (auto simp: receiving_def e2_def e1_def rest_def intro!: drop_bytes_intact)
    qed
    ultimately show ?thesis by blast
  qed (use Cons r in simp)
qed

lemma CheckRequest_body_receiving:
  assumes "receiving m after e ps" and "ei_readlen e \<noteq> 0"
  shows "\<exists>e' ps'. CheckRequest_body e ps = (True, e', ps') \<and> receiving m after e' ps'"
proof (cases "ei_readlen e < ei_size e + 2")
  case False
  with assms show ?thesis by (simp add: CheckRequest_body_def)
next
  case True
  note r = assms(1) [unfolded receiving_def, simplified assms(2) if_False]
  define k where "k = ei_readlen e - 2"
  have k: "ei_readlen e = k + 2" "k < length m" "ei_size e = length m" "length m \<le> length (ei_buf e)"
    using r True by (auto simp: k_def)
  have m: "take (length m - k) (stream_bytes ps) = drop k m" "take k (ei_buf e) = take k m" using r k by simp_all
  show ?thesis
  proof (cases ps)
    case Nil
    with m k(2) show ?thesis by simp
  next
    case (Cons p ps')
    show ?thesis
    proof (cases p)
      case Interrupted
      then show ?thesis using Cons assms r k by (simp add: CheckRequest_body_def receiving_def)
    next
      case (Arrived s)
      define d where "d = take (length m - k) s"
      define rest where "rest = drop_bytes (length d) ps"
      have s: "s \<noteq> []" using Cons Arrived r by auto
      then have d: "d \<noteq> []" "length d \<le> length m - k" using k(2) by (auto simp: d_def)
      have read: "sock_read (length m - k) ps = (Read d, rest)"
        using Cons Arrived k(2) s by (auto simp: d_def rest_def)
      define e' where "e' = e\<lparr>ei_buf := store k d (ei_buf e), ei_readlen := k + 2 + length d\<rparr>"
      have "CheckRequest_body e ps = (True, e', rest)"
        using read d k by (simp add: CheckRequest_body_def e'_def)
      moreover have "receiving m after e' rest"
      proof -
        have dm: "d = take (length d) (drop k m)"
          using m(1) Cons Arrived d(2) by (simp add: d_def flip: m(1)) (simp add: min_def)
        have "take (k + length d) (store k d (ei_buf e)) = take (k + length d) m"
        proof -
          have "take (k + length d) (store k d (ei_buf e)) = take k (ei_buf e) @ d" using k by (intro store_take) simp
          also have "\<dots> = take k m @ take (length d) (drop k m)" using m(2) dm by metis
          finally show ?thesis by (simp add: take_add)
        qed
        moreover have "take (length m - (k + length d)) (stream_bytes rest) = drop (k + length d) m"
          using m(1) by (simp add: rest_def stream_bytes_drop take_drop add.commute flip: drop_drop)
            (metis add.commute drop_drop drop_take diff_diff_left take_drop)
        moreover have "drop_bytes (length m - (k + length d)) rest = after"
          using r k d(2) by (simp add: rest_def drop_bytes_add)
        moreover have "k + length d \<le> length m" "length (store k d (ei_buf e)) = length (ei_buf e)"
          using k d(2) by (simp_all add: store_length)
        ultimately show ?thesis using k d r
          by (simp add: receiving_def e'_def rest_def drop_bytes_intact)
      qed
      ultimately show ?thesis by blast
    qed (use Cons r in simp)
  qed
qed

lemma CheckRequest_receiving:
  assumes "receiving m after e ps" and "2 \<le> length m" and "length m < 65536"
    and "\<And>n. length (fresh n) = n" and "block \<or> ready \<noteq> None"
  shows "\<exists>e' ps'. EIB_CheckRequest junk fresh block ready e ps = Some (True, e', ps') \<and> receiving m after e' ps'"
proof -
  have "ei_readlen e = 0 \<or> 2 \<le> ei_readlen e" using assms(1) by (auto simp: receiving_def split: if_splits)
  then show ?thesis
    using CheckRequest_head_receiving [OF assms(1) _ assms(2-4), of junk] CheckRequest_body_receiving [OF assms(1)] assms(1,5)
    by (auto simp: EIB_CheckRequest_def)
qed

lemma receiving_complete:
  "receiving m after e ps \<Longrightarrow> EIB_complete e \<Longrightarrow> ps = after \<and> ei_message e = m"
  by (auto simp: receiving_def EIB_complete_iff ei_message_def split: if_splits)

lemma GetRequest_receiving:
  assumes "receiving m after e ps" and "2 \<le> length m" and "length m < 65536" and "\<And>n. length (fresh n) = n"
  shows "\<exists>e'. EIB_GetRequest junk fresh e ps = Some (True, e', after) \<and> ei_message e' = m \<and> ei_readlen e' = 0"
  using assms
proof (induction junk fresh e ps rule: EIB_GetRequest.induct)
  case (1 junk fresh e ps)
  obtain e' ps' where e': "EIB_CheckRequest junk fresh True None e ps = Some (True, e', ps')" "receiving m after e' ps'"
    using CheckRequest_receiving [OF "1.prems", of True None junk] by blast
  show ?case
  proof (cases "EIB_complete e'")
    case True
    with receiving_complete [OF e'(2)] e'(1) show ?thesis
      by (subst EIB_GetRequest.simps) (simp add: ei_message_def)
  next
    case False
    with "1.IH" [OF e'(1) refl refl _ _ e'(2)] "1.prems"(2-4) e'(1) show ?thesis
      by (subst EIB_GetRequest.simps) auto
  qed
qed

end
