(* ===== verification/FramingProps.thy ===== *)
theory FramingProps
  imports FramingProofs
begin

text \<open>
  What the two ends of a client connection guarantee each other: whole messages, in order,
  however the bytes are cut; and the one cut they do not survive.
\<close>

section \<open>Writing\<close>

lemma unat_mk16: "unat (mk16 h l) = 256 * unat h + unat l"
proof -
  have "mk16 h l = push_bit 8 (ucast h) + ucast l"
    unfolding mk16_def by (rule disjunctive_add [symmetric]) (auto simp: bit_simps)
  moreover have "unat h < 256" "unat l < 256"
    using unsigned_less [of h] unsigned_less [of l] by simp_all
  moreover from this have "unat (ucast h :: 16 word) = unat h" "unat (ucast l :: 16 word) = unat l"
    by (simp_all add: unsigned_ucast_eq take_bit_nat_eq_self)
  ultimately show ?thesis
    by (simp add: push_bit_eq_mult unat_word_ariths)
qed

lemma sendmessage_lp_ok: "sendmessage_lp ks m = (True, w) \<Longrightarrow> w = m"
  by (induction ks m arbitrary: w rule: sendmessage_lp.induct) (auto split: if_splits prod.splits)

lemma SendRequest_lp_ok: "SendRequest_lp ks m = (True, w) \<Longrightarrow> w = m"
  by (induction ks m arbitrary: w rule: SendRequest_lp.induct) (auto split: if_splits prod.splits)

lemma SendRequest_head_ok: "SendRequest_head ks h m = (True, w) \<Longrightarrow> w = h @ m"
  by (induction ks h m arbitrary: w rule: SendRequest_head.induct)
    (auto split: if_splits prod.splits dest: SendRequest_lp_ok)

lemma sendmessage_ok: "sendmessage ks m = Some (True, w) \<Longrightarrow> w = frame m \<and> 2 \<le> length m"
  by (auto simp: sendmessage_def frame_def Let_def split: if_splits list.splits prod.splits dest: sendmessage_lp_ok)

lemma SendRequest_ok: "EIB_SendRequest ks m = (True, w) \<Longrightarrow> w = frame m \<and> 2 \<le> length m \<and> length m < 65536"
  by (auto simp: EIB_SendRequest_def frame_def split: if_splits dest: SendRequest_head_ok)

text \<open>A sequence of messages, each with what the socket takes; the bytes on the wire if no write fails.\<close>

fun daemon_writes :: "(nat list \<times> CArray) list \<Rightarrow> CArray option" where
  "daemon_writes [] = Some []"
| "daemon_writes ((ks, m) # sends) =
     (case sendmessage ks m of
        Some (True, w) \<Rightarrow> map_option ((@) w) (daemon_writes sends)
      | _ \<Rightarrow> None)"

fun client_writes :: "(write_answer list \<times> CArray) list \<Rightarrow> CArray option" where
  "client_writes [] = Some []"
| "client_writes ((ks, m) # sends) =
     (case EIB_SendRequest ks m of
        (True, w) \<Rightarrow> map_option ((@) w) (client_writes sends)
      | _ \<Rightarrow> None)"

lemma daemon_writes_frames:
  "daemon_writes sends = Some bs \<Longrightarrow> bs = concat (map frame (map snd sends)) \<and> (\<forall>m \<in> snd ` set sends. 2 \<le> length m)"
  by (induction sends arbitrary: bs) (fastforce split: option.splits bool.splits prod.splits dest!: sendmessage_ok)+

lemma client_writes_frames:
  "client_writes sends = Some bs \<Longrightarrow> bs = concat (map frame (map snd sends)) \<and> messages_ok (map snd sends)"
  by (induction sends arbitrary: bs)
    (fastforce simp: messages_ok_def split: bool.splits prod.splits dest!: SendRequest_ok)+

section \<open>Receiving with polls in between\<close>

fun EIB_polls ::
    "uchar \<Rightarrow> (nat \<Rightarrow> CArray) \<Rightarrow> bool list \<Rightarrow> eib_io \<Rightarrow> piece list \<Rightarrow> (eib_io \<times> piece list) option" where
  "EIB_polls junk fresh [] e ps = Some (e, ps)"
| "EIB_polls junk fresh (ready # rs) e ps =
     (case EIB_Poll_Complete junk fresh (Some ready) e ps of
        Some (Inr _, e', ps') \<Rightarrow> EIB_polls junk fresh rs e' ps'
      | _ \<Rightarrow> None)"

text \<open>For each message any number of polls, then \<open>_EIB_GetRequest\<close>.\<close>

fun EIB_receive ::
    "uchar \<Rightarrow> (nat \<Rightarrow> CArray) \<Rightarrow> bool list list \<Rightarrow> eib_io \<Rightarrow> piece list \<Rightarrow> CArray list option" where
  "EIB_receive junk fresh [] e ps = Some []"
| "EIB_receive junk fresh (rs # rss) e ps =
     (case EIB_polls junk fresh rs e ps of
        None \<Rightarrow> None
      | Some (e', ps') \<Rightarrow>
          (case EIB_GetRequest junk fresh e' ps' of
             Some (True, e'', ps'') \<Rightarrow> map_option ((#) (ei_message e'')) (EIB_receive junk fresh rss e'' ps'')
           | _ \<Rightarrow> None))"

lemma EIB_polls_receiving:
  assumes "receiving m after e ps" and "2 \<le> length m" and "length m < 65536" and "\<And>n. length (fresh n) = n"
  shows "\<exists>e' ps'. EIB_polls junk fresh rs e ps = Some (e', ps') \<and> receiving m after e' ps'"
  using assms(1)
proof (induction rs arbitrary: e ps)
  case (Cons r rs)
  obtain e' ps' where "EIB_CheckRequest junk fresh False (Some r) e ps = Some (True, e', ps')" "receiving m after e' ps'"
    using CheckRequest_receiving [OF Cons.prems assms(2-4), of False "Some r" junk] by blast
  with Cons.IH [of e' ps'] show ?case by (auto simp: EIB_Poll_Complete_def)
qed auto

lemma EIB_receive_all:
  assumes "intact ps" and "stream_bytes ps = concat (map frame ms)" and "arriving ms ps" and "messages_ok ms"
    and "ei_readlen e = 0" and "length rss = length ms" and "\<And>n. length (fresh n) = n"
  shows "EIB_receive junk fresh rss e ps = Some ms"
  using assms(1-6)
proof (induction ms arbitrary: ps e rss)
  case (Cons m ms)
  then obtain rs rss' where rss: "rss = rs # rss'" "length rss' = length ms" by (cases rss) auto
  have m: "2 \<le> length m" "length m < 65536" using Cons.prems(4) by (simp_all add: messages_ok_def)
  have "receiving m (drop_bytes (length m + 2) ps) e ps"
    using Cons.prems by (simp add: receiving_def frame_def)
  then obtain e' ps' where e': "EIB_polls junk fresh rs e ps = Some (e', ps')" "receiving m (drop_bytes (length m + 2) ps) e' ps'"
    using EIB_polls_receiving [OF _ m assms(7)] by blast
  then obtain e'' where e'': "EIB_GetRequest junk fresh e' ps' = Some (True, e'', drop_bytes (length m + 2) ps)"
    "ei_message e'' = m" "ei_readlen e'' = 0"
    using GetRequest_receiving [OF _ m assms(7)] by blast
  have "EIB_receive junk fresh rss' e'' (drop_bytes (length m + 2) ps) = Some ms"
    using Cons.prems rss e''(3) by (intro Cons.IH)
      (auto simp: drop_bytes_intact stream_bytes_drop messages_ok_def simp del: drop_append)
  then show ?case using rss e' e'' by simp
qed simp

section \<open>Properties\<close>

text \<open>C9: every message the daemon sends arrives at the client library as it was sent and in order,
  into whatever pieces the network cuts the bytes, whatever interruptions there are and
  however often the client polls in between, provided the two bytes of a length stay together.\<close>

theorem client_receives_daemon_messages:
  assumes "daemon_writes sends = Some (stream_bytes ps)" and "\<forall>m \<in> snd ` set sends. length m < 65536"
    and "intact ps" and "arriving (map snd sends) ps" and "length polls = length sends" and "\<And>n. length (fresh n) = n"
  shows "EIB_receive junk fresh polls eib_io_new ps = Some (map snd sends)"
  using daemon_writes_frames [OF assms(1)] assms(2-6)
  by (intro EIB_receive_all) (auto simp: messages_ok_def eib_io_new_def)

lemma client_receives_daemon_messages_witness:
  "EIB_receive 0 (\<lambda>n. replicate n 0) [[False, True, True], []] eib_io_new
     [Interrupted, Arrived [0, 4, 0], Interrupted, Arrived [0x27, 1], Arrived [2, 0, 2, 0], Arrived [4]] =
   Some [[0, 0x27, 1, 2], [0, 4]]"
  using client_receives_daemon_messages [of "[([2, 1, 3], [0, 0x27, 1, 2]), ([2, 5], [0, 4])]"
      "[Interrupted, Arrived [0, 4, 0], Interrupted, Arrived [0x27, 1], Arrived [2, 0, 2, 0], Arrived [4]]"
      "[[False, True, True], []]" "\<lambda>n. replicate n 0" 0]
  by (simp add: sendmessage_def hi8_def lo8_def intact_def)

text \<open>the other direction: the daemon reads the messages of a client as they were sent, into whatever
  pieces the bytes are cut, provided the two bytes of a length stay together.\<close>

theorem daemon_receives_client_messages:
  assumes "client_writes sends = Some (stream_bytes ps)" and "intact ps" and "Interrupted \<notin> set ps"
    and "arriving (map snd sends) ps" and "\<And>n. length (fresh n) = n"
  shows "readmessages (length sends) fresh ClientConnection_new ps = map snd sends"
  using readmessages_all [of ps "map snd sends" fresh] client_writes_frames [OF assms(1)] assms(2-5) by simp

lemma daemon_receives_client_messages_witness:
  "readmessages (Suc (Suc 0)) (\<lambda>n. replicate n 0) ClientConnection_new
     [Arrived [0, 5, 0], Arrived [0x26, 0, 0, 0, 0, 2, 0], Arrived [4]] = [[0, 0x26, 0, 0, 0], [0, 4]]"
  using daemon_receives_client_messages [of "[([Write_EINTR, Took 2, Took 1, Took 9], [0, 0x26, 0, 0, 0]), ([Took 2, Took 5], [0, 4])]"
      "[Arrived [0, 5, 0], Arrived [0x26, 0, 0, 0, 0, 2, 0], Arrived [4]]" "\<lambda>n. replicate n 0"]
  by (simp add: EIB_SendRequest_def hi8_def lo8_def intact_def del: readmessages.simps)

text \<open>when the two bytes of a length arrive one after the other, the daemon gives the connection
  up, and the client library, unless it takes the length for less than two, reads
  the second byte to an address outside its array.\<close>

theorem split_length_breaks_both_sides:
  "readmessage fresh c (Arrived [h] # ps) = (False, c, ps) \<and>
   EIB_GetRequest junk fresh eib_io_new (Arrived [h] # Arrived (b # bs) # ps) =
     (if h = 0 \<and> junk < 2
      then Some (False, eib_io_new\<lparr>ei_readlen := 1, ei_size := unat junk\<rparr>, Arrived (b # bs) # ps)
      else None)"
proof (intro conjI)
  show "readmessage fresh c (Arrived [h] # ps) = (False, c, ps)"
    by (simp add: readmessage_def)
  let ?n = "unat (mk16 h junk)"
  have "unat h = 0 \<longleftrightarrow> h = 0" by (simp add: unat_eq_0)
  then have n: "?n < 2 \<longleftrightarrow> h = 0 \<and> junk < 2" "h = 0 \<Longrightarrow> ?n = unat junk"
    by (auto simp: unat_mk16 word_less_nat_alt)
  show "EIB_GetRequest junk fresh eib_io_new (Arrived [h] # Arrived (b # bs) # ps) =
     (if h = 0 \<and> junk < 2
      then Some (False, eib_io_new\<lparr>ei_readlen := 1, ei_size := unat junk\<rparr>, Arrived (b # bs) # ps)
      else None)"
  proof (cases "h = 0 \<and> junk < 2")
    case True
    with n show ?thesis
      by (subst EIB_GetRequest.simps) (auto simp: EIB_CheckRequest_def CheckRequest_head_def eib_io_new_def Let_def)
  next
    case False
    define e where "e = eib_io_new\<lparr>ei_readlen := 1, ei_size := ?n, ei_buf := drop 0 (fresh ?n)\<rparr>"
    have "EIB_GetRequest junk fresh e (Arrived (b # bs) # ps) = None"
      by (subst EIB_GetRequest.simps) (simp add: EIB_CheckRequest_def CheckRequest_head_def e_def)
    moreover have "EIB_CheckRequest junk fresh True None eib_io_new (Arrived [h] # Arrived (b # bs) # ps) =
        Some (True, e, Arrived (b # bs) # ps)"
      using False n(1) by (simp add: EIB_CheckRequest_def CheckRequest_head_def eib_io_new_def e_def Let_def) linarith
    ultimately show ?thesis using False
      by (subst EIB_GetRequest.simps) (simp add: EIB_complete_iff, simp add: e_def)
  qed
qed

end
