(* ===== verification/EibTypes.thy ===== *)
theory EibTypes
  imports Base
begin

text \<open>
  The message types of the protocol between clients and the daemon, \<open>eibd/include/eibtypes.h\<close>,
  and the type field of a message.
\<close>

abbreviation (input) EIB_INVALID_REQUEST :: "16 word" where "EIB_INVALID_REQUEST \<equiv> 0x0000"

abbreviation (input) EIB_CONNECTION_INUSE :: "16 word" where "EIB_CONNECTION_INUSE \<equiv> 0x0001"

abbreviation (input) EIB_PROCESSING_ERROR :: "16 word" where "EIB_PROCESSING_ERROR \<equiv> 0x0002"

abbreviation (input) EIB_CLOSED :: "16 word" where "EIB_CLOSED \<equiv> 0x0003"

abbreviation (input) EIB_RESET_CONNECTION :: "16 word" where "EIB_RESET_CONNECTION \<equiv> 0x0004"

abbreviation (input) EIB_OPEN_BUSMONITOR :: "16 word" where "EIB_OPEN_BUSMONITOR \<equiv> 0x0010"

abbreviation (input) EIB_OPEN_BUSMONITOR_TEXT :: "16 word" where "EIB_OPEN_BUSMONITOR_TEXT \<equiv> 0x0011"

abbreviation (input) EIB_OPEN_VBUSMONITOR :: "16 word" where "EIB_OPEN_VBUSMONITOR \<equiv> 0x0012"

abbreviation (input) EIB_OPEN_VBUSMONITOR_TEXT :: "16 word" where "EIB_OPEN_VBUSMONITOR_TEXT \<equiv> 0x0013"

abbreviation (input) EIB_BUSMONITOR_PACKET :: "16 word" where "EIB_BUSMONITOR_PACKET \<equiv> 0x0014"

abbreviation (input) EIB_BUSMONITOR_PACKET_TS :: "16 word" where "EIB_BUSMONITOR_PACKET_TS \<equiv> 0x0015"

abbreviation (input) EIB_OPEN_BUSMONITOR_TS :: "16 word" where "EIB_OPEN_BUSMONITOR_TS \<equiv> 0x0016"

abbreviation (input) EIB_OPEN_VBUSMONITOR_TS :: "16 word" where "EIB_OPEN_VBUSMONITOR_TS \<equiv> 0x0017"

abbreviation (input) EIB_OPEN_T_CONNECTION :: "16 word" where "EIB_OPEN_T_CONNECTION \<equiv> 0x0020"

abbreviation (input) EIB_OPEN_T_INDIVIDUAL :: "16 word" where "EIB_OPEN_T_INDIVIDUAL \<equiv> 0x0021"

abbreviation (input) EIB_OPEN_T_GROUP :: "16 word" where "EIB_OPEN_T_GROUP \<equiv> 0x0022"

abbreviation (input) EIB_OPEN_T_BROADCAST :: "16 word" where "EIB_OPEN_T_BROADCAST \<equiv> 0x0023"

abbreviation (input) EIB_OPEN_T_TPDU :: "16 word" where "EIB_OPEN_T_TPDU \<equiv> 0x0024"

abbreviation (input) EIB_APDU_PACKET :: "16 word" where "EIB_APDU_PACKET \<equiv> 0x0025"

abbreviation (input) EIB_OPEN_GROUPCON :: "16 word" where "EIB_OPEN_GROUPCON \<equiv> 0x0026"

abbreviation (input) EIB_GROUP_PACKET :: "16 word" where "EIB_GROUP_PACKET \<equiv> 0x0027"

abbreviation (input) EIB_PROG_MODE :: "16 word" where "EIB_PROG_MODE \<equiv> 0x0030"

abbreviation (input) EIB_MASK_VERSION :: "16 word" where "EIB_MASK_VERSION \<equiv> 0x0031"

abbreviation (input) EIB_M_INDIVIDUAL_ADDRESS_READ :: "16 word" where "EIB_M_INDIVIDUAL_ADDRESS_READ \<equiv> 0x0032"

abbreviation (input) EIB_M_INDIVIDUAL_ADDRESS_WRITE :: "16 word" where "EIB_M_INDIVIDUAL_ADDRESS_WRITE \<equiv> 0x0040"

abbreviation (input) EIB_ERROR_ADDR_EXISTS :: "16 word" where "EIB_ERROR_ADDR_EXISTS \<equiv> 0x0041"

abbreviation (input) EIB_ERROR_MORE_DEVICE :: "16 word" where "EIB_ERROR_MORE_DEVICE \<equiv> 0x0042"

abbreviation (input) EIB_ERROR_TIMEOUT :: "16 word" where "EIB_ERROR_TIMEOUT \<equiv> 0x0043"

abbreviation (input) EIB_ERROR_VERIFY :: "16 word" where "EIB_ERROR_VERIFY \<equiv> 0x0044"

abbreviation (input) EIB_MC_INDIVIDUAL :: "16 word" where "EIB_MC_INDIVIDUAL \<equiv> 0x0049"

abbreviation (input) EIB_MC_CONNECTION :: "16 word" where "EIB_MC_CONNECTION \<equiv> 0x0050"

abbreviation (input) EIB_MC_READ :: "16 word" where "EIB_MC_READ \<equiv> 0x0051"

abbreviation (input) EIB_MC_WRITE :: "16 word" where "EIB_MC_WRITE \<equiv> 0x0052"

abbreviation (input) EIB_MC_PROP_READ :: "16 word" where "EIB_MC_PROP_READ \<equiv> 0x0053"

abbreviation (input) EIB_MC_PROP_WRITE :: "16 word" where "EIB_MC_PROP_WRITE \<equiv> 0x0054"

abbreviation (input) EIB_MC_PEI_TYPE :: "16 word" where "EIB_MC_PEI_TYPE \<equiv> 0x0055"

abbreviation (input) EIB_MC_ADC_READ :: "16 word" where "EIB_MC_ADC_READ \<equiv> 0x0056"

abbreviation (input) EIB_MC_AUTHORIZE :: "16 word" where "EIB_MC_AUTHORIZE \<equiv> 0x0057"

abbreviation (input) EIB_MC_KEY_WRITE :: "16 word" where "EIB_MC_KEY_WRITE \<equiv> 0x0058"

abbreviation (input) EIB_MC_MASK_VERSION :: "16 word" where "EIB_MC_MASK_VERSION \<equiv> 0x0059"

abbreviation (input) EIB_MC_RESTART :: "16 word" where "EIB_MC_RESTART \<equiv> 0x005a"

abbreviation (input) EIB_MC_WRITE_NOVERIFY :: "16 word" where "EIB_MC_WRITE_NOVERIFY \<equiv> 0x005b"

abbreviation (input) EIB_MC_PROG_MODE :: "16 word" where "EIB_MC_PROG_MODE \<equiv> 0x0060"

abbreviation (input) EIB_MC_PROP_DESC :: "16 word" where "EIB_MC_PROP_DESC \<equiv> 0x0061"

abbreviation (input) EIB_MC_PROP_SCAN :: "16 word" where "EIB_MC_PROP_SCAN \<equiv> 0x0062"

abbreviation (input) EIB_LOAD_IMAGE :: "16 word" where "EIB_LOAD_IMAGE \<equiv> 0x0063"

abbreviation (input) EIB_CACHE_ENABLE :: "16 word" where "EIB_CACHE_ENABLE \<equiv> 0x0070"

abbreviation (input) EIB_CACHE_DISABLE :: "16 word" where "EIB_CACHE_DISABLE \<equiv> 0x0071"

abbreviation (input) EIB_CACHE_CLEAR :: "16 word" where "EIB_CACHE_CLEAR \<equiv> 0x0072"

abbreviation (input) EIB_CACHE_REMOVE :: "16 word" where "EIB_CACHE_REMOVE \<equiv> 0x0073"

abbreviation (input) EIB_CACHE_READ :: "16 word" where "EIB_CACHE_READ \<equiv> 0x0074"

abbreviation (input) EIB_CACHE_READ_NOWAIT :: "16 word" where "EIB_CACHE_READ_NOWAIT \<equiv> 0x0075"

abbreviation (input) EIB_CACHE_LAST_UPDATES :: "16 word" where "EIB_CACHE_LAST_UPDATES \<equiv> 0x0076"

text \<open>\<open>EIBTYPE (buf)\<close>, and the two bytes \<open>EIBSETTYPE\<close> writes.\<close>

definition EIBTYPE :: "CArray \<Rightarrow> 16 word" where
  "EIBTYPE m = mk16 (m ! 0) (m ! 1)"

definition EIBSETTYPE :: "16 word \<Rightarrow> CArray" where
  "EIBSETTYPE t = [hi8 t, lo8 t]"

end
