(* ===== verification/Clients.thy ===== *)
theory Clients
  imports Layer4 Framing EibTypes
begin

text \<open>
  The daemon's handlers of client requests: the classes of \<open>eibd/libserver/connection.cpp\<close> and
  \<open>busmonitor.cpp\<close>. Each has a constructor that reads the opening message, a method \<open>Do\<close> that
  turns the client's messages into calls of the endpoint, and a thread \<open>Run\<close> that turns what the
  endpoint delivers into messages. A message is the bytes of \<open>con->buf\<close> up to \<open>con->size\<close>.
\<close>

section \<open>Opening\<close>

text \<open>
  What the constructors read from the opening message: \<open>None\<close> when its size is not 5. A write-only
  flag is any byte but 0.
\<close>

definition A_Broadcast_args :: "CArray \<Rightarrow> bool option" where
  "A_Broadcast_args m = (if length m \<noteq> 5 then None else Some (m ! 4 \<noteq> 0))"

definition A_Group_args :: "CArray \<Rightarrow> (eibaddr_t \<times> bool) option" where
  "A_Group_args m = (if length m \<noteq> 5 then None else Some (mk16 (m ! 2) (m ! 3), m ! 4 \<noteq> 0))"

definition A_TPDU_args :: "CArray \<Rightarrow> eibaddr_t option" where
  "A_TPDU_args m = (if length m \<noteq> 5 then None else Some (mk16 (m ! 2) (m ! 3)))"

definition A_Individual_args :: "CArray \<Rightarrow> (eibaddr_t \<times> bool) option" where
  "A_Individual_args m = (if length m \<noteq> 5 then None else Some (mk16 (m ! 2) (m ! 3), m ! 4 \<noteq> 0))"

definition A_Connection_args :: "CArray \<Rightarrow> eibaddr_t option" where
  "A_Connection_args m = (if length m \<noteq> 5 then None else Some (mk16 (m ! 2) (m ! 3)))"

definition A_GroupSocket_args :: "CArray \<Rightarrow> bool option" where
  "A_GroupSocket_args m = (if length m \<noteq> 5 then None else Some (m ! 4 \<noteq> 0))"

section \<open>Messages of the client\<close>

text \<open>What a turn of the loop of \<open>Do\<close> does with a message: it ends, goes on, or sends.\<close>

datatype 'a do_action = Do_break | Do_nothing | Do_send 'a

definition A_Broadcast_Do :: "CArray \<Rightarrow> CArray do_action" where
  "A_Broadcast_Do m =
     (if EIBTYPE m = EIB_RESET_CONNECTION then Do_break
      else if length m \<ge> 2 then
        if EIBTYPE m \<noteq> EIB_APDU_PACKET then Do_break else Do_send (drop 2 m)
      else Do_nothing)"

definition A_Group_Do :: "CArray \<Rightarrow> CArray do_action" where
  "A_Group_Do m =
     (if EIBTYPE m = EIB_RESET_CONNECTION then Do_break
      else if length m \<ge> 2 then
        if EIBTYPE m \<noteq> EIB_APDU_PACKET then Do_break else Do_send (drop 2 m)
      else Do_nothing)"

definition A_TPDU_Do :: "CArray \<Rightarrow> TpduComm do_action" where
  "A_TPDU_Do m =
     (if EIBTYPE m = EIB_RESET_CONNECTION then Do_break
      else if length m \<ge> 4 then
        if EIBTYPE m \<noteq> EIB_APDU_PACKET then Do_break
        else Do_send \<lparr>tp_data = drop 4 m, tp_addr = mk16 (m ! 2) (m ! 3)\<rparr>
      else Do_nothing)"

definition A_Individual_Do :: "CArray \<Rightarrow> CArray do_action" where
  "A_Individual_Do m =
     (if EIBTYPE m = EIB_RESET_CONNECTION then Do_break
      else if length m \<ge> 2 then
        if EIBTYPE m \<noteq> EIB_APDU_PACKET then Do_break else Do_send (drop 2 m)
      else Do_nothing)"

definition A_Connection_Do :: "CArray \<Rightarrow> CArray do_action" where
  "A_Connection_Do m =
     (if EIBTYPE m = EIB_RESET_CONNECTION then Do_break
      else if length m \<ge> 2 then
        if EIBTYPE m \<noteq> EIB_APDU_PACKET then Do_break else Do_send (drop 2 m)
      else Do_nothing)"

definition A_GroupSocket_Do :: "CArray \<Rightarrow> GroupAPDU do_action" where
  "A_GroupSocket_Do m =
     (if EIBTYPE m = EIB_RESET_CONNECTION then Do_break
      else if length m \<ge> 4 then
        if EIBTYPE m \<noteq> EIB_GROUP_PACKET then Do_break
        else Do_send \<lparr>ga_data = drop 4 m, ga_src = 0, ga_dst = mk16 (m ! 2) (m ! 3)\<rparr>
      else Do_nothing)"

section \<open>Messages to the client\<close>

definition A_Broadcast_reply :: "BroadcastComm \<Rightarrow> CArray" where
  "A_Broadcast_reply e = EIBSETTYPE EIB_APDU_PACKET @ [hi8 (bc_src e), lo8 (bc_src e)] @ bc_data e"

definition A_Group_reply :: "GroupComm \<Rightarrow> CArray" where
  "A_Group_reply e = EIBSETTYPE EIB_APDU_PACKET @ [hi8 (gc_src e), lo8 (gc_src e)] @ gc_data e"

definition A_TPDU_reply :: "TpduComm \<Rightarrow> CArray" where
  "A_TPDU_reply e = EIBSETTYPE EIB_APDU_PACKET @ [hi8 (tp_addr e), lo8 (tp_addr e)] @ tp_data e"

definition A_Individual_reply :: "CArray \<Rightarrow> CArray" where
  "A_Individual_reply e = EIBSETTYPE EIB_APDU_PACKET @ e"

definition A_Connection_reply :: "CArray \<Rightarrow> CArray" where
  "A_Connection_reply e = EIBSETTYPE EIB_APDU_PACKET @ e"

definition A_GroupSocket_reply :: "GroupAPDU \<Rightarrow> CArray" where
  "A_GroupSocket_reply e =
     EIBSETTYPE EIB_GROUP_PACKET @ [hi8 (ga_src e), lo8 (ga_src e), hi8 (ga_dst e), lo8 (ga_dst e)] @ ga_data e"

text \<open>The two versions of \<open>sendResponse\<close> of a busmonitor.\<close>

definition A_Busmonitor_reply :: "bool \<Rightarrow> CArray \<Rightarrow> uchar \<Rightarrow> 32 word \<Rightarrow> CArray" where
  "A_Busmonitor_reply ts pdu status timestamp =
     (if ts then EIBSETTYPE EIB_BUSMONITOR_PACKET_TS @ [status, byte32 24 timestamp, byte32 16 timestamp,
        byte32 8 timestamp, byte32 0 timestamp] @ pdu
      else EIBSETTYPE EIB_BUSMONITOR_PACKET @ pdu)"

definition A_Text_Busmonitor_reply :: "string \<Rightarrow> CArray" where
  "A_Text_Busmonitor_reply s = EIBSETTYPE EIB_BUSMONITOR_PACKET @ map of_char s @ [0]"

text \<open>The first message of a busmonitor's thread once it is registered.\<close>

definition A_Busmonitor_opened :: "bool \<Rightarrow> CArray \<Rightarrow> CArray" where
  "A_Busmonitor_opened ts buf = take 2 buf @ (if ts then [0, 0, 0, 0] else [])"

end
