(* ===== verification/Daemon.thy ===== *)
theory Daemon
  imports Clients Layer3
begin

text \<open>
  The daemon as clients and the bus see it: \<open>ClientConnection::Run\<close> of \<open>eibd/libserver/client.cpp\<close>
  with the handlers of theory \<open>Clients\<close> and their threads, on top of the dispatcher. A client is a
  number, which also stands for the address of the one handler it can have. GNU pth switches
  threads only where they wait, so the daemon's run is a sequence of the turns below. The
  requests that \<open>managementclient.cpp\<close> and \<open>groupcacheclient.cpp\<close> serve are passed on.
\<close>

section \<open>State\<close>

text \<open>\<open>bm_state\<close>: 0 before the first turn of the thread, 1 in its loop, 2 after its end.\<close>

record busmonitor =
  bm_virtual :: bool
  bm_ts :: bool
  bm_text :: bool
  bm_state :: nat
  bm_data :: "(CArray \<times> uchar \<times> 32 word) endpoint"

text \<open>A connection has a second thread; the flag says whether it has had its first turn.\<close>

datatype handler =
    No_handler
  | Broadcast_handler "BroadcastComm endpoint"
  | Group_handler "GroupComm endpoint"
  | TPDU_handler "TpduComm endpoint"
  | Individual_handler "CArray endpoint"
  | Connection_handler bool t_connection
  | GroupSocket_handler "GroupAPDU endpoint"
  | Busmonitor_handler busmonitor

record daemon =
  d_layer3 :: layer3
  d_handler :: "nat \<Rightarrow> handler"
  d_buf :: "nat \<Rightarrow> CArray"

definition daemon_new :: daemon where
  "daemon_new = \<lparr>d_layer3 = Layer3_new, d_handler = (\<lambda>_. No_handler), d_buf = (\<lambda>_. [])\<rparr>"

text \<open>What leaves the daemon towards clients: a message, or a request passed on.\<close>

datatype daemon_output = Message nat CArray | Passed_on nat CArray

section \<open>Constructors and destructors\<close>

definition Broadcast_open :: "nat \<Rightarrow> CArray \<Rightarrow> layer3 \<Rightarrow> handler option \<times> layer3" where
  "Broadcast_open n m l3 =
     (case A_Broadcast_args m of
        None \<Rightarrow> (None, l3)
      | Some wo \<Rightarrow>
          let (reg, l3) = (if wo then (False, l3) else registerBroadcastCallBack n l3);
              c = T_Broadcast_new wo reg
          in if init_ok c then (Some (Broadcast_handler c), l3) else (None, snd (deregisterBroadcastCallBack n l3)))"

definition Group_open :: "nat \<Rightarrow> CArray \<Rightarrow> bool \<Rightarrow> layer3 \<Rightarrow> handler option \<times> layer3" where
  "Group_open n m added l3 =
     (case A_Group_args m of
        None \<Rightarrow> (None, l3)
      | Some (g, wo) \<Rightarrow>
          let (reg, l3) = (if g = 0 \<or> wo then (False, l3) else registerGroupCallBack added n g l3);
              c = T_Group_new g wo reg
          in if init_ok c then (Some (Group_handler c), l3) else (None, snd (deregisterGroupCallBack n g l3)))"

definition TPDU_open :: "nat \<Rightarrow> CArray \<Rightarrow> bool \<Rightarrow> layer3 \<Rightarrow> handler option \<times> layer3" where
  "TPDU_open n m added l3 =
     (case A_TPDU_args m of
        None \<Rightarrow> (None, l3)
      | Some d \<Rightarrow>
          let (reg, l3) = registerIndividualCallBack added n Individual_Lock_None 0 d l3;
              c = T_TPDU_new d reg
          in if init_ok c then (Some (TPDU_handler c), l3) else (None, snd (deregisterIndividualCallBack n 0 d l3)))"

definition Individual_open :: "nat \<Rightarrow> CArray \<Rightarrow> bool \<Rightarrow> layer3 \<Rightarrow> handler option \<times> layer3" where
  "Individual_open n m added l3 =
     (case A_Individual_args m of
        None \<Rightarrow> (None, l3)
      | Some (d, wo) \<Rightarrow>
          let (reg, l3) = (if wo then (False, l3) else registerIndividualCallBack added n Individual_Lock_None d 0 l3);
              c = T_Individual_new d wo reg
          in if init_ok c then (Some (Individual_handler c), l3) else (None, snd (deregisterIndividualCallBack n d 0 l3)))"

definition Connection_open :: "nat \<Rightarrow> CArray \<Rightarrow> bool \<Rightarrow> layer3 \<Rightarrow> handler option \<times> layer3" where
  "Connection_open n m added l3 =
     (case A_Connection_args m of
        None \<Rightarrow> (None, l3)
      | Some d \<Rightarrow>
          let (reg, l3) = registerIndividualCallBack added n Individual_Lock_Connection d 0 l3;
              c = T_Connection_new d reg
          in if tc_init_ok c then (Some (Connection_handler False c), l3)
             else (None, snd (deregisterIndividualCallBack n d 0 l3)))"

definition GroupSocket_open :: "nat \<Rightarrow> CArray \<Rightarrow> bool \<Rightarrow> layer3 \<Rightarrow> handler option \<times> layer3" where
  "GroupSocket_open n m added l3 =
     (case A_GroupSocket_args m of
        None \<Rightarrow> (None, l3)
      | Some wo \<Rightarrow>
          let (reg, l3) = (if wo then (False, l3) else registerGroupCallBack added n 0 l3);
              c = GroupSocket_new wo reg
          in if init_ok c then (Some (GroupSocket_handler c), l3) else (None, snd (deregisterGroupCallBack n 0 l3)))"

definition Busmonitor_new :: "bool \<Rightarrow> bool \<Rightarrow> bool \<Rightarrow> busmonitor" where
  "Busmonitor_new virt ts text =
     \<lparr>bm_virtual = virt, bm_ts = ts, bm_text = text, bm_state = 0, bm_data = endpoint_new 0 True\<rparr>"

text \<open>
  The first turn of a busmonitor's thread: \<open>answer\<close> is the driver's if the mode has to change,
  \<open>took\<close> whether the socket takes the message. The message is made of what \<open>con->buf\<close> holds now.
\<close>

definition Busmonitor_start ::
    "nat \<Rightarrow> bool \<Rightarrow> bool \<Rightarrow> CArray \<Rightarrow> busmonitor \<Rightarrow> layer3 \<Rightarrow> CArray list \<times> busmonitor \<times> layer3" where
  "Busmonitor_start n answer took buf b l3 =
     (let (reg, l3) = (if bm_virtual b then registerVBusmonitor answer n l3 else registerBusmonitor answer n l3)
      in if \<not> reg then ([EIBSETTYPE EIB_CONNECTION_INUSE], b\<lparr>bm_state := 2\<rparr>, l3)
         else ([A_Busmonitor_opened (bm_ts b) buf], b\<lparr>bm_state := (if took then 1 else 2)\<rparr>, l3))"

text \<open>\<open>layer3->send_L_Data\<close> for each frame in turn.\<close>

definition send_frames :: "eibaddr_t \<Rightarrow> l_data list \<Rightarrow> layer3 \<Rightarrow> layer3" where
  "send_frames da fs l3 = fold (Layer3_send_L_Data da) fs l3"

text \<open>
  \<open>~T_Connection\<close>. \<open>Stop\<close> lets the thread of \<open>Run\<close> come to its end: from its start, if it has
  not had a turn yet, or with a last turn of its loop.
\<close>

definition Connection_close ::
    "eibaddr_t \<Rightarrow> nat \<Rightarrow> bool \<Rightarrow> bool \<Rightarrow> t_connection \<Rightarrow> layer3 \<Rightarrow> layer3 option" where
  "Connection_close da n timeout started c l3 =
     map_option (\<lambda>fs.
         let l3 = send_frames da fs l3;
             l3 = (if started \<and> \<not> tc_running c then l3 else snd (deregisterIndividualCallBack n (tc_dest c) 0 l3))
         in snd (deregisterIndividualCallBack n (tc_dest c) 0 l3))
       (if \<not> started then
          (case T_Connection_start c of
             None \<Rightarrow> None
           | Some (c', fs) \<Rightarrow> map_option (\<lambda>(_, gs). fs @ gs) (T_Connection_finish c'))
        else map_option snd (T_Connection_turn True timeout c))"

text \<open>
  The end of a handler: its threads end and its destructor runs. \<open>None\<close> is a failed \<open>assert\<close>; the
  messages are those a busmonitor still sends that ends before its first turn.
\<close>

definition handler_close ::
    "eibaddr_t \<Rightarrow> nat \<Rightarrow> bool \<Rightarrow> bool \<Rightarrow> bool \<Rightarrow> CArray \<Rightarrow> handler \<Rightarrow> layer3 \<Rightarrow> (CArray list \<times> layer3) option" where
  "handler_close da n timeout answer took buf h l3 =
     (case h of
        No_handler \<Rightarrow> Some ([], l3)
      | Broadcast_handler c \<Rightarrow> Some ([], snd (deregisterBroadcastCallBack n l3))
      | Group_handler c \<Rightarrow> Some ([], snd (deregisterGroupCallBack n (address c) l3))
      | TPDU_handler c \<Rightarrow> Some ([], snd (deregisterIndividualCallBack n 0 (address c) l3))
      | Individual_handler c \<Rightarrow> Some ([], snd (deregisterIndividualCallBack n (address c) 0 l3))
      | Connection_handler started c \<Rightarrow> map_option (Pair []) (Connection_close da n timeout started c l3)
      | GroupSocket_handler c \<Rightarrow> Some ([], snd (deregisterGroupCallBack n 0 l3))
      | Busmonitor_handler b \<Rightarrow>
          let (ms, b, l3) = (if bm_state b = 0 then Busmonitor_start n answer took buf b l3 else ([], b, l3))
          in Some (ms, snd (if bm_virtual b then deregisterVBusmonitor n l3 else deregisterBusmonitor n l3)))"

section \<open>Turns\<close>

definition set_handler :: "nat \<Rightarrow> handler \<Rightarrow> layer3 \<Rightarrow> daemon \<Rightarrow> daemon" where
  "set_handler n h l3 d = d\<lparr>d_handler := (d_handler d)(n := h), d_layer3 := l3\<rparr>"

definition messages :: "nat \<Rightarrow> bool \<Rightarrow> CArray list \<Rightarrow> daemon_output list" where
  "messages n took ms = (if took then map (Message n) ms else [])"

text \<open>
  What follows a handler's \<open>Do\<close>: the handler is destroyed, and if the last message was a reset it
  is answered.
\<close>

definition end_of_Do ::
    "eibaddr_t \<Rightarrow> nat \<Rightarrow> bool \<Rightarrow> bool \<Rightarrow> bool \<Rightarrow> daemon \<Rightarrow> (daemon_output list \<times> daemon) option" where
  "end_of_Do da n timeout answer took d =
     map_option (\<lambda>(ms, l3). (messages n took (ms @
         (if EIBTYPE (d_buf d n) = EIB_RESET_CONNECTION then [EIBSETTYPE EIB_RESET_CONNECTION] else [])),
         set_handler n No_handler l3 d))
       (handler_close da n timeout answer took (d_buf d n) (d_handler d n) (d_layer3 d))"

text \<open>
  The first lines of \<open>Do\<close>: a rejection without an endpoint, otherwise the first two bytes of the
  request as a confirmation. If the socket does not take it, \<open>Do\<close> ends.
\<close>

definition begin_Do ::
    "eibaddr_t \<Rightarrow> nat \<Rightarrow> bool \<Rightarrow> bool \<Rightarrow> handler option \<times> layer3 \<Rightarrow> daemon \<Rightarrow> (daemon_output list \<times> daemon) option" where
  "begin_Do da n answer took ol3 d =
     (case ol3 of
        (None, l3) \<Rightarrow> Some (messages n took [EIBSETTYPE EIB_PROCESSING_ERROR], d\<lparr>d_layer3 := l3\<rparr>)
      | (Some h, l3) \<Rightarrow>
          let d = set_handler n h l3 d
          in if took then Some ([Message n (take 2 (d_buf d n))], d) else end_of_Do da n False answer took d)"

text \<open>The \<open>switch\<close> of \<open>ClientConnection::Run\<close>.\<close>

definition ClientConnection_request ::
    "eibaddr_t \<Rightarrow> nat \<Rightarrow> bool \<Rightarrow> bool \<Rightarrow> daemon \<Rightarrow> (daemon_output list \<times> daemon) option" where
  "ClientConnection_request da n answer took d =
     (let m = d_buf d n; t = EIBTYPE m; l3 = d_layer3 d;
          monitor = (\<lambda>virt ts text. Some ([], set_handler n (Busmonitor_handler (Busmonitor_new virt ts text)) l3 d))
      in if t = EIB_OPEN_BUSMONITOR then monitor False False False
         else if t = EIB_OPEN_BUSMONITOR_TEXT then monitor False False True
         else if t = EIB_OPEN_BUSMONITOR_TS then monitor False True False
         else if t = EIB_OPEN_VBUSMONITOR then monitor True False False
         else if t = EIB_OPEN_VBUSMONITOR_TEXT then monitor True False True
         else if t = EIB_OPEN_VBUSMONITOR_TS then monitor True True False
         else if t = EIB_OPEN_T_BROADCAST then begin_Do da n answer took (Broadcast_open n m l3) d
         else if t = EIB_OPEN_T_GROUP then begin_Do da n answer took (Group_open n m answer l3) d
         else if t = EIB_OPEN_T_INDIVIDUAL then begin_Do da n answer took (Individual_open n m answer l3) d
         else if t = EIB_OPEN_T_TPDU then begin_Do da n answer took (TPDU_open n m answer l3) d
         else if t = EIB_OPEN_T_CONNECTION then begin_Do da n answer took (Connection_open n m answer l3) d
         else if t = EIB_OPEN_GROUPCON then begin_Do da n answer took (GroupSocket_open n m answer l3) d
         else if t \<in> {0x30, 0x31, 0x32, 0x40, 0x49, 0x50, 0x63, 0x70, 0x71, 0x72, 0x73, 0x74, 0x75, 0x76}
              then Some ([Passed_on n m], d)
         else if t = EIB_RESET_CONNECTION then Some (messages n took [EIBSETTYPE EIB_RESET_CONNECTION], d)
         else Some (messages n took [EIBSETTYPE EIB_INVALID_REQUEST], d))"

text \<open>A message for an open handler: a turn of the loop of its \<open>Do\<close>.\<close>

definition Do_turn ::
    "eibaddr_t \<Rightarrow> nat \<Rightarrow> bool \<Rightarrow> bool \<Rightarrow> bool \<Rightarrow> daemon \<Rightarrow> (daemon_output list \<times> daemon) option" where
  "Do_turn da n timeout answer took d =
     (let m = d_buf d n; stop = end_of_Do da n timeout answer took d;
          sends = (\<lambda>f. case f of None \<Rightarrow> None
                    | Some l \<Rightarrow> Some ([], d\<lparr>d_layer3 := Layer3_send_L_Data da l (d_layer3 d)\<rparr>))
      in case d_handler d n of
        No_handler \<Rightarrow> Some ([], d)
      | Broadcast_handler c \<Rightarrow>
          (case A_Broadcast_Do m of Do_break \<Rightarrow> stop | Do_nothing \<Rightarrow> Some ([], d)
           | Do_send p \<Rightarrow> sends (T_Broadcast_Send p))
      | Group_handler c \<Rightarrow>
          (case A_Group_Do m of Do_break \<Rightarrow> stop | Do_nothing \<Rightarrow> Some ([], d)
           | Do_send p \<Rightarrow> sends (T_Group_Send p c))
      | TPDU_handler c \<Rightarrow>
          (case A_TPDU_Do m of Do_break \<Rightarrow> stop | Do_nothing \<Rightarrow> Some ([], d)
           | Do_send p \<Rightarrow> sends (T_TPDU_Send p c))
      | Individual_handler c \<Rightarrow>
          (case A_Individual_Do m of Do_break \<Rightarrow> stop | Do_nothing \<Rightarrow> Some ([], d)
           | Do_send p \<Rightarrow> sends (T_Individual_Send p c))
      | Connection_handler started c \<Rightarrow>
          (case A_Connection_Do m of Do_break \<Rightarrow> stop | Do_nothing \<Rightarrow> Some ([], d)
           | Do_send p \<Rightarrow> Some ([], set_handler n (Connection_handler started (T_Connection_Send p c)) (d_layer3 d) d))
      | GroupSocket_handler c \<Rightarrow>
          (case A_GroupSocket_Do m of Do_break \<Rightarrow> stop | Do_nothing \<Rightarrow> Some ([], d)
           | Do_send p \<Rightarrow> sends (GroupSocket_Send p))
      | Busmonitor_handler b \<Rightarrow> if EIBTYPE m = EIB_RESET_CONNECTION then stop else Some ([], d))"

text \<open>\<open>Get\<close> of an endpoint, and the message for the client if there is an element.\<close>

definition fetch ::
    "nat \<Rightarrow> bool \<Rightarrow> ('a endpoint \<Rightarrow> handler) \<Rightarrow> ('a \<Rightarrow> CArray) \<Rightarrow> 'a endpoint \<Rightarrow> daemon \<Rightarrow> (daemon_output list \<times> daemon) option" where
  "fetch n took h reply c d =
     (case endpoint_get c of
        None \<Rightarrow> None
      | Some (None, _) \<Rightarrow> Some ([], d)
      | Some (Some e, c') \<Rightarrow> Some (messages n took [reply e], set_handler n (h c') (d_layer3 d) d))"

text \<open>A turn of the thread \<open>Run\<close> of a handler.\<close>

definition Run_turn :: "nat \<Rightarrow> bool \<Rightarrow> bool \<Rightarrow> daemon \<Rightarrow> (daemon_output list \<times> daemon) option" where
  "Run_turn n answer took d =
     (case d_handler d n of
        No_handler \<Rightarrow> Some ([], d)
      | Broadcast_handler c \<Rightarrow> fetch n took Broadcast_handler A_Broadcast_reply c d
      | Group_handler c \<Rightarrow> fetch n took Group_handler A_Group_reply c d
      | TPDU_handler c \<Rightarrow> fetch n took TPDU_handler A_TPDU_reply c d
      | Individual_handler c \<Rightarrow> fetch n took Individual_handler A_Individual_reply c d
      | GroupSocket_handler c \<Rightarrow> fetch n took GroupSocket_handler A_GroupSocket_reply c d
      | Connection_handler started c \<Rightarrow>
          (case T_Connection_Get c of
             None \<Rightarrow> None
           | Some (None, _) \<Rightarrow> Some ([], d)
           | Some (Some e, c') \<Rightarrow>
               Some (messages n took [A_Connection_reply e], set_handler n (Connection_handler started c') (d_layer3 d) d))
      | Busmonitor_handler b \<Rightarrow>
          if bm_state b = 0 then
            let (ms, b, l3) = Busmonitor_start n answer took (d_buf d n) b (d_layer3 d)
            in Some (messages n took ms, set_handler n (Busmonitor_handler b) l3 d)
          else if bm_state b = 1 then
            (case endpoint_get (bm_data b) of
               None \<Rightarrow> None
             | Some (None, _) \<Rightarrow> Some ([], d)
             | Some (Some (pdu, status, timestamp), q) \<Rightarrow>
                 (case (if bm_text b then map_option A_Text_Busmonitor_reply (L_Busmonitor_Decode pdu)
                        else Some (A_Busmonitor_reply (bm_ts b) pdu status timestamp)) of
                    None \<Rightarrow> None
                  | Some m \<Rightarrow> Some (messages n took [m],
                      set_handler n (Busmonitor_handler (b\<lparr>bm_data := q, bm_state := (if took then 1 else 2)\<rparr>)) (d_layer3 d) d)))
          else Some ([], d))"

text \<open>A turn of the thread of a connection.\<close>

definition Connection_turn :: "eibaddr_t \<Rightarrow> nat \<Rightarrow> bool \<Rightarrow> daemon \<Rightarrow> (daemon_output list \<times> daemon) option" where
  "Connection_turn da n timeout d =
     (case d_handler d n of
        Connection_handler started c \<Rightarrow>
          (case (if started then T_Connection_turn False timeout c else T_Connection_start c) of
             None \<Rightarrow> None
           | Some (c', fs) \<Rightarrow>
               let l3 = send_frames da fs (d_layer3 d);
                   l3 = (if tc_running c \<and> \<not> tc_running c' then snd (deregisterIndividualCallBack n (tc_dest c) 0 l3) else l3)
               in Some ([], set_handler n (Connection_handler True c') l3 d))
      | _ \<Rightarrow> Some ([], d))"

text \<open>
  A delivery of the dispatcher calls a method of the object registered. \<open>None\<close>: the object
  is not there any more, or is not of the class the callback needs.
\<close>

definition deliver :: "delivery \<Rightarrow> daemon \<Rightarrow> daemon option" where
  "deliver dl d =
     (case dl of
        Deliver_Data n l \<Rightarrow>
          (case d_handler d n of
             Broadcast_handler c \<Rightarrow> Some (set_handler n (Broadcast_handler (T_Broadcast_Get_L_Data l c)) (d_layer3 d) d)
           | Group_handler c \<Rightarrow> Some (set_handler n (Group_handler (T_Group_Get_L_Data l c)) (d_layer3 d) d)
           | TPDU_handler c \<Rightarrow> Some (set_handler n (TPDU_handler (T_TPDU_Get_L_Data l c)) (d_layer3 d) d)
           | Individual_handler c \<Rightarrow> Some (set_handler n (Individual_handler (T_Individual_Get_L_Data l c)) (d_layer3 d) d)
           | Connection_handler started c \<Rightarrow>
               Some (set_handler n (Connection_handler started (T_Connection_Get_L_Data l c)) (d_layer3 d) d)
           | GroupSocket_handler c \<Rightarrow> Some (set_handler n (GroupSocket_handler (GroupSocket_Get_L_Data l c)) (d_layer3 d) d)
           | _ \<Rightarrow> None)
      | Deliver_Busmonitor n pdu status timestamp \<Rightarrow>
          (case d_handler d n of
             Busmonitor_handler b \<Rightarrow>
               Some (set_handler n (Busmonitor_handler (b\<lparr>bm_data := endpoint_put (pdu, status, timestamp) (bm_data b)\<rparr>)) (d_layer3 d) d)
           | _ \<Rightarrow> None))"

fun deliveries :: "delivery list \<Rightarrow> daemon \<Rightarrow> daemon option" where
  "deliveries [] d = Some d"
| "deliveries (dl # dls) d = (case deliver dl d of None \<Rightarrow> None | Some d' \<Rightarrow> deliveries dls d')"

section \<open>Runs\<close>

datatype daemon_event =
    Client_message nat CArray bool bool bool
  | Client_gone nat bool bool
  | Run_event nat bool bool
  | Connection_event nat bool
  | Bus_frame timestamp_t timestamp_t lpdu

fun daemon_step :: "eibaddr_t \<Rightarrow> daemon_event \<Rightarrow> daemon \<Rightarrow> (daemon_output list \<times> daemon) option" where
  "daemon_step da (Client_message n m timeout answer took) d =
     (let d = d\<lparr>d_buf := (d_buf d)(n := m)\<rparr>
      in if d_handler d n = No_handler then ClientConnection_request da n answer took d
         else Do_turn da n timeout answer took d)"
| "daemon_step da (Client_gone n timeout answer) d = end_of_Do da n timeout answer False d"
| "daemon_step da (Run_event n answer took) d = Run_turn n answer took d"
| "daemon_step da (Connection_event n timeout) d = Connection_turn da n timeout d"
| "daemon_step da (Bus_frame now later l) d =
     (case Layer3_frame da now later l (d_layer3 d) of
        None \<Rightarrow> None
      | Some (dls, l3) \<Rightarrow> map_option (Pair []) (deliveries dls (d\<lparr>d_layer3 := l3\<rparr>)))"

fun daemon_run :: "eibaddr_t \<Rightarrow> daemon_event list \<Rightarrow> daemon \<Rightarrow> (daemon_output list \<times> daemon) option" where
  "daemon_run da [] d = Some ([], d)"
| "daemon_run da (e # es) d =
     (case daemon_step da e d of
        None \<Rightarrow> None
      | Some (out, d') \<Rightarrow> map_option (\<lambda>(out', d''). (out @ out', d'')) (daemon_run da es d'))"

end
