(* ===== verification/DaemonProofs.thy ===== *)
theory DaemonProofs
  imports Daemon Dispatch Endpoints Transport
begin

text \<open>
  The daemon never calls a callback of an object that is gone: what is registered with the
  dispatcher always belongs to the handlers that are open, each with at most one registration.
  From this and the invariants of the endpoints follows that no packet of the bus and no
  message with a payload stops the daemon.
\<close>

section \<open>Registrations\<close>

datatype slot = Broadcast_slot | Group_slot eibaddr_t | Individual_slot eibaddr_t eibaddr_t | Monitor_slot bool

text \<open>The registration a handler may have.\<close>

fun slots :: "nat \<Rightarrow> handler \<Rightarrow> (nat \<times> slot) multiset" where
  "slots n No_handler = {#}"
| "slots n (Broadcast_handler c) = {#(n, Broadcast_slot)#}"
| "slots n (Group_handler c) = {#(n, Group_slot (address c))#}"
| "slots n (TPDU_handler c) = {#(n, Individual_slot 0 (address c))#}"
| "slots n (Individual_handler c) = {#(n, Individual_slot (address c) 0)#}"
| "slots n (Connection_handler started c) = {#(n, Individual_slot (tc_dest c) 0)#}"
| "slots n (GroupSocket_handler c) = {#(n, Group_slot 0)#}"
| "slots n (Busmonitor_handler b) = (if bm_state b = 0 then {#} else {#(n, Monitor_slot (bm_virtual b))#})"

text \<open>All registrations of the dispatcher.\<close>

definition regs :: "layer3 \<Rightarrow> (nat \<times> slot) multiset" where
  "regs s =
     {#(n, Broadcast_slot). n \<in># mset (l3_broadcast s)#} +
     {#(gi_cb g, Group_slot (gi_dest g)). g \<in># mset (l3_group s)#} +
     {#(ii_cb i, Individual_slot (ii_src i) (ii_dest i)). i \<in># mset (l3_individual s)#} +
     {#(n, Monitor_slot False). n \<in># mset (l3_busmonitor s)#} +
     {#(n, Monitor_slot True). n \<in># mset (l3_vbusmonitor s)#}"

lemma regs_call [simp]: "regs (Layer3_call c s) = regs s"
  by (simp add: regs_def)

lemma regs_mode [simp]: "regs (s\<lparr>l3_mode := m\<rparr>) = regs s" "regs (s\<lparr>l3_ignore := ig\<rparr>) = regs s"
  by (simp_all add: regs_def)

lemma regs_send [simp]: "regs (send_frames da fs s) = regs s"
  by (induction fs arbitrary: s) (simp_all add: send_frames_def Layer3_send_L_Data_def)

lemma regs_add [simp]:
  "regs (s\<lparr>l3_broadcast := l3_broadcast s @ [n]\<rparr>) = add_mset (n, Broadcast_slot) (regs s)"
  "regs (s\<lparr>l3_group := l3_group s @ [g]\<rparr>) = add_mset (gi_cb g, Group_slot (gi_dest g)) (regs s)"
  "regs (s\<lparr>l3_individual := l3_individual s @ [i]\<rparr>) = add_mset (ii_cb i, Individual_slot (ii_src i) (ii_dest i)) (regs s)"
  "regs (s\<lparr>l3_busmonitor := l3_busmonitor s @ [n]\<rparr>) = add_mset (n, Monitor_slot False) (regs s)"
  "regs (s\<lparr>l3_vbusmonitor := l3_vbusmonitor s @ [n]\<rparr>) = add_mset (n, Monitor_slot True) (regs s)"
  by (simp_all add: regs_def)

lemma image_mset_swap_remove:
  assumes "first_idx P xs = Some i" and "\<And>x. P x \<Longrightarrow> f x = a"
  shows "image_mset f (mset (swap_remove i xs)) = image_mset f (mset xs) - {#a#}" and "a \<in># image_mset f (mset xs)"
proof -
  from first_idx_Some [OF assms(1)] have i: "i < length xs" "f (xs ! i) = a" using assms(2) by auto
  then have m: "mset (swap_remove i xs) = mset xs - {#xs ! i#}" by (simp add: mset_swap_remove)
  show "image_mset f (mset (swap_remove i xs)) = image_mset f (mset xs) - {#a#}"
    unfolding m using i by (simp add: image_mset_Diff del: mset_map)
  show "a \<in># image_mset f (mset xs)" using i by (metis nth_mem image_eqI set_image_mset set_mset_mset)
qed

lemma add_diff_slot: "a \<in># B \<Longrightarrow> A + (B - {#a#}) = A + B - {#a#}" "a \<in># B \<Longrightarrow> B - {#a#} + A = B + A - {#a#}"
proof -
  show *: "a \<in># B \<Longrightarrow> A + (B - {#a#}) = A + B - {#a#}" by (rule diff_union_single_conv [symmetric])
  then show "a \<in># B \<Longrightarrow> B - {#a#} + A = B + A - {#a#}" by (metis add.commute)
qed

lemma regs_deregister:
  "regs (snd (deregisterBroadcastCallBack n s)) = regs s - {#(n, Broadcast_slot)#}"
  "regs (snd (deregisterGroupCallBack n a s)) = regs s - {#(n, Group_slot a)#}"
  "regs (snd (deregisterIndividualCallBack n src dst s)) = regs s - {#(n, Individual_slot src dst)#}"
  "regs (snd (deregisterBusmonitor n s)) = regs s - {#(n, Monitor_slot False)#}"
  "regs (snd (deregisterVBusmonitor n s)) = regs s - {#(n, Monitor_slot True)#}"
proof -
  show "regs (snd (deregisterBroadcastCallBack n s)) = regs s - {#(n, Broadcast_slot)#}"
  proof (cases "first_idx (\<lambda>b. b = n) (l3_broadcast s)")
    case None
    then have "(n, Broadcast_slot) \<notin># regs s" by (auto simp: first_idx_None regs_def)
    with None show ?thesis by (simp add: deregisterBroadcastCallBack_def diff_single_trivial)
  next
    case (Some i)
    then show ?thesis
      using image_mset_swap_remove [OF Some, of "\<lambda>n. (n, Broadcast_slot)" "(n, Broadcast_slot)"]
      by (simp add: deregisterBroadcastCallBack_def regs_def add_diff_slot)
  qed
  show "regs (snd (deregisterGroupCallBack n a s)) = regs s - {#(n, Group_slot a)#}"
  proof (cases "first_idx (\<lambda>g. gi_cb g = n \<and> gi_dest g = a) (l3_group s)")
    case None
    then have "(n, Group_slot a) \<notin># regs s" by (auto simp: first_idx_None regs_def)
    with None show ?thesis by (simp add: deregisterGroupCallBack_def diff_single_trivial)
  next
    case (Some i)
    have "regs (s\<lparr>l3_group := swap_remove i (l3_group s)\<rparr>) = regs s - {#(n, Group_slot a)#}"
      using image_mset_swap_remove [OF Some, of "\<lambda>g. (gi_cb g, Group_slot (gi_dest g))" "(n, Group_slot a)"]
      by (simp add: regs_def add_diff_slot)
    with Some show ?thesis by (auto simp: deregisterGroupCallBack_def Let_def)
  qed
  show "regs (snd (deregisterIndividualCallBack n src dst s)) = regs s - {#(n, Individual_slot src dst)#}"
  proof (cases "first_idx (\<lambda>i. ii_cb i = n \<and> ii_src i = src \<and> ii_dest i = dst) (l3_individual s)")
    case None
    then have "(n, Individual_slot src dst) \<notin># regs s" by (auto simp: first_idx_None regs_def)
    with None show ?thesis by (simp add: deregisterIndividualCallBack_def diff_single_trivial)
  next
    case (Some i)
    have "regs (s\<lparr>l3_individual := swap_remove i (l3_individual s)\<rparr>) = regs s - {#(n, Individual_slot src dst)#}"
      using image_mset_swap_remove [OF Some, of "\<lambda>i. (ii_cb i, Individual_slot (ii_src i) (ii_dest i))"
          "(n, Individual_slot src dst)"]
      by (simp add: regs_def add_diff_slot)
    with Some show ?thesis by (auto simp: deregisterIndividualCallBack_def Let_def)
  qed
  show "regs (snd (deregisterBusmonitor n s)) = regs s - {#(n, Monitor_slot False)#}"
  proof (cases "first_idx (\<lambda>b. b = n) (l3_busmonitor s)")
    case None
    then have "(n, Monitor_slot False) \<notin># regs s" by (auto simp: first_idx_None regs_def)
    with None show ?thesis by (simp add: deregisterBusmonitor_def diff_single_trivial)
  next
    case (Some i)
    have "regs (s\<lparr>l3_busmonitor := swap_remove i (l3_busmonitor s)\<rparr>) = regs s - {#(n, Monitor_slot False)#}"
      using image_mset_swap_remove [OF Some, of "\<lambda>n. (n, Monitor_slot False)" "(n, Monitor_slot False)"]
      by (simp add: regs_def add_diff_slot)
    with Some show ?thesis by (auto simp: deregisterBusmonitor_def Let_def)
  qed
  show "regs (snd (deregisterVBusmonitor n s)) = regs s - {#(n, Monitor_slot True)#}"
  proof (cases "first_idx (\<lambda>b. b = n) (l3_vbusmonitor s)")
    case None
    then have "(n, Monitor_slot True) \<notin># regs s" by (auto simp: first_idx_None regs_def)
    with None show ?thesis by (simp add: deregisterVBusmonitor_def diff_single_trivial)
  next
    case (Some i)
    have "regs (s\<lparr>l3_vbusmonitor := swap_remove i (l3_vbusmonitor s)\<rparr>) = regs s - {#(n, Monitor_slot True)#}"
      using image_mset_swap_remove [OF Some, of "\<lambda>n. (n, Monitor_slot True)" "(n, Monitor_slot True)"]
      by (simp add: regs_def add_diff_slot)
    with Some show ?thesis by (auto simp: deregisterVBusmonitor_def Let_def)
  qed
qed

lemma regs_register:
  "regs (snd (registerBroadcastCallBack n s)) =
     (if fst (registerBroadcastCallBack n s) then add_mset (n, Broadcast_slot) (regs s) else regs s)"
  "regs (snd (registerGroupCallBack ok n a s)) =
     (if fst (registerGroupCallBack ok n a s) then add_mset (n, Group_slot a) (regs s) else regs s)"
  "regs (snd (registerIndividualCallBack ok n lock src dst s)) =
     (if fst (registerIndividualCallBack ok n lock src dst s) then add_mset (n, Individual_slot src dst) (regs s) else regs s)"
  "regs (snd (registerBusmonitor ok n s)) =
     (if fst (registerBusmonitor ok n s) then add_mset (n, Monitor_slot False) (regs s) else regs s)"
  "regs (snd (registerVBusmonitor ok n s)) =
     (if fst (registerVBusmonitor ok n s) then add_mset (n, Monitor_slot True) (regs s) else regs s)"
      apply (simp add: registerBroadcastCallBack_def)
     apply (simp add: registerGroupCallBack_def Let_def)
    apply (simp add: registerIndividualCallBack_def Let_def)
   apply (simp add: registerBusmonitor_def Let_def regs_def)
  apply (simp add: registerVBusmonitor_def Let_def)
  done

section \<open>The invariant\<close>

definition own :: "nat \<Rightarrow> (nat \<times> slot) multiset \<Rightarrow> (nat \<times> slot) multiset" where
  "own n M = filter_mset (\<lambda>p. fst p = n) M"

definition regs_ok :: "layer3 \<Rightarrow> (nat \<Rightarrow> handler) \<Rightarrow> bool" where
  "regs_ok s H \<longleftrightarrow> (\<forall>n. own n (regs s) \<subseteq># slots n (H n))"

lemma own_simps [simp]:
  "own n (add_mset (n, s) M) = add_mset (n, s) (own n M)"
  "own n (M - {#(n, s)#}) = own n M - {#(n, s)#}"
  "m \<noteq> n \<Longrightarrow> own m (add_mset (n, s) M) = own m M"
  "m \<noteq> n \<Longrightarrow> own m (M - {#(n, s)#}) = own m M"
  by (simp_all add: own_def filter_diff_mset)

lemma regs_ok_keep: "regs_ok s H \<Longrightarrow> regs s' = regs s \<Longrightarrow> slots n h = slots n (H n) \<Longrightarrow> regs_ok s' (H(n := h))"
  by (simp add: regs_ok_def)

lemma regs_ok_same: "regs_ok s H \<Longrightarrow> regs s' = regs s \<Longrightarrow> regs_ok s' H"
  by (simp add: regs_ok_def)

lemma regs_ok_add:
  assumes "regs_ok s H" and "slots n (H n) = {#}" and "regs s' = add_mset (n, x) (regs s)" and "slots n h = {#(n, x)#}"
  shows "regs_ok s' (H(n := h))"
proof -
  have "own n (regs s) = {#}" using assms(1,2) by (metis regs_ok_def subset_mset.le_zero_eq)
  with assms show ?thesis by (auto simp: regs_ok_def)
qed

lemma regs_ok_open:
  assumes "regs_ok s H" and "slots n (H n) = {#}" and "regs s' = regs s"
  shows "regs_ok s' (H(n := h))"
proof -
  have "own n (regs s) = {#}" using assms(1,2) by (metis regs_ok_def subset_mset.le_zero_eq)
  with assms show ?thesis by (auto simp: regs_ok_def)
qed

text \<open>Deregistering what a handler may have leaves nothing of it.\<close>

lemma regs_ok_remove:
  assumes "regs_ok s H" and "slots n (H n) \<subseteq># {#(n, x)#}" and "regs s' = regs s - {#(n, x)#}"
  shows "regs_ok s' (H(n := h))"
proof -
  have "own n (regs s) \<subseteq># {#(n, x)#}" using assms(1,2) by (meson regs_ok_def subset_mset.order_trans)
  then have "own n (regs s) - {#(n, x)#} = {#}" by (simp add: Diff_eq_empty_iff_mset)
  with assms show ?thesis by (auto simp: regs_ok_def)
qed

definition handler_ok :: "handler \<Rightarrow> bool" where
  "handler_ok h =
     (case h of
        No_handler \<Rightarrow> True
      | Broadcast_handler c \<Rightarrow> endpoint_inv c
      | Group_handler c \<Rightarrow> endpoint_inv c
      | TPDU_handler c \<Rightarrow> endpoint_inv c
      | Individual_handler c \<Rightarrow> endpoint_inv c
      | Connection_handler started c \<Rightarrow>
          tc_inv c \<and> (\<not> started \<longrightarrow> tc_insem c = length (tc_in c) \<and> \<not> tc_running c \<and> tc_mode c = 0)
      | GroupSocket_handler c \<Rightarrow> endpoint_inv c
      | Busmonitor_handler b \<Rightarrow>
          endpoint_inv (bm_data b) \<and> (\<forall>(pdu, _) \<in> set (outqueue (bm_data b)). L_Busmonitor_Decode pdu \<noteq> None))"

definition daemon_inv :: "daemon \<Rightarrow> bool" where
  "daemon_inv d \<longleftrightarrow> regs_ok (d_layer3 d) (d_handler d) \<and> (\<forall>n. handler_ok (d_handler d n))"

lemma daemon_inv_new: "daemon_inv daemon_new"
  by (simp add: daemon_inv_def daemon_new_def regs_ok_def regs_def Layer3_new_def own_def handler_ok_def)

lemma daemon_inv_set:
  "daemon_inv d \<Longrightarrow> regs_ok l3 ((d_handler d)(n := h)) \<Longrightarrow> handler_ok h \<Longrightarrow> daemon_inv (set_handler n h l3 d)"
  by (simp add: daemon_inv_def set_handler_def)

section \<open>Opening\<close>

lemma no_slot [simp]: "slots n (Busmonitor_handler (Busmonitor_new v ts t)) = {#}"
  by (simp add: Busmonitor_new_def)

text \<open>What a constructor leaves behind: the handler's registration, or nothing.\<close>

definition open_ok :: "nat \<Rightarrow> layer3 \<Rightarrow> handler option \<times> layer3 \<Rightarrow> bool" where
  "open_ok n s r \<longleftrightarrow>
     (case r of
        (None, s') \<Rightarrow> \<exists>x. regs s' = regs s \<or> regs s' = regs s - {#(n, x)#}
      | (Some h, s') \<Rightarrow> handler_ok h \<and> (regs s' = regs s \<or> (\<exists>x. slots n h = {#(n, x)#} \<and> regs s' = add_mset (n, x) (regs s))))"

lemma open_refused: "regs s1 = regs s \<Longrightarrow> regs s' = regs s1 - {#(n, x)#} \<Longrightarrow> open_ok n s (None, s')"
  by (auto simp: open_ok_def)

lemma Broadcast_open_ok: "open_ok n s (Broadcast_open n m s)"
proof (cases "A_Broadcast_args m")
  case (Some wo)
  obtain reg s' where r: "registerBroadcastCallBack n s = (reg, s')" by fastforce
  from regs_register(1) [of n s] r have "regs s' = (if reg then add_mset (n, Broadcast_slot) (regs s) else regs s)" by simp
  with Some r show ?thesis
    by (auto simp: Broadcast_open_def T_Broadcast_new_def endpoint_new_def open_ok_def handler_ok_def endpoint_inv_def
        regs_deregister)
qed (simp add: Broadcast_open_def open_ok_def)

lemma Group_open_ok: "open_ok n s (Group_open n m ok s)"
proof (cases "A_Group_args m")
  case (Some a)
  obtain g wo where a: "a = (g, wo)" by fastforce
  obtain reg s' where r: "registerGroupCallBack ok n g s = (reg, s')" by fastforce
  from regs_register(2) [of ok n g s] r have "regs s' = (if reg then add_mset (n, Group_slot g) (regs s) else regs s)" by simp
  with Some a r show ?thesis
    by (auto simp: Group_open_def T_Group_new_def endpoint_new_def open_ok_def handler_ok_def endpoint_inv_def
        regs_deregister)
qed (simp add: Group_open_def open_ok_def)

lemma TPDU_open_ok: "open_ok n s (TPDU_open n m ok s)"
proof (cases "A_TPDU_args m")
  case (Some a)
  obtain reg s' where r: "registerIndividualCallBack ok n Individual_Lock_None 0 a s = (reg, s')" by fastforce
  from regs_register(3) [of ok n Individual_Lock_None 0 a s] r
  have "regs s' = (if reg then add_mset (n, Individual_slot 0 a) (regs s) else regs s)" by simp
  with Some r show ?thesis
    by (auto simp: TPDU_open_def T_TPDU_new_def endpoint_new_def open_ok_def handler_ok_def endpoint_inv_def
        regs_deregister)
qed (simp add: TPDU_open_def open_ok_def)

lemma Individual_open_ok: "open_ok n s (Individual_open n m ok s)"
proof (cases "A_Individual_args m")
  case (Some a)
  obtain g wo where a: "a = (g, wo)" by fastforce
  obtain reg s' where r: "registerIndividualCallBack ok n Individual_Lock_None g 0 s = (reg, s')" by fastforce
  from regs_register(3) [of ok n Individual_Lock_None g 0 s] r
  have "regs s' = (if reg then add_mset (n, Individual_slot g 0) (regs s) else regs s)" by simp
  with Some a r show ?thesis
    by (auto simp: Individual_open_def T_Individual_new_def endpoint_new_def open_ok_def handler_ok_def endpoint_inv_def
        regs_deregister)
qed (simp add: Individual_open_def open_ok_def)

lemma Connection_open_ok: "open_ok n s (Connection_open n m ok s)"
proof (cases "A_Connection_args m")
  case (Some a)
  obtain reg s' where r: "registerIndividualCallBack ok n Individual_Lock_Connection a 0 s = (reg, s')" by fastforce
  from regs_register(3) [of ok n Individual_Lock_Connection a 0 s] r
  have "regs s' = (if reg then add_mset (n, Individual_slot a 0) (regs s) else regs s)" by simp
  with Some r show ?thesis using T_Connection_new_inv [of a True]
    by (auto simp: Connection_open_def open_ok_def handler_ok_def regs_deregister T_Connection_new_def)
qed (simp add: Connection_open_def open_ok_def)

lemma GroupSocket_open_ok: "open_ok n s (GroupSocket_open n m ok s)"
proof (cases "A_GroupSocket_args m")
  case (Some wo)
  obtain reg s' where r: "registerGroupCallBack ok n 0 s = (reg, s')" by fastforce
  from regs_register(2) [of ok n 0 s] r have "regs s' = (if reg then add_mset (n, Group_slot 0) (regs s) else regs s)" by simp
  with Some r show ?thesis
    by (auto simp: GroupSocket_open_def GroupSocket_new_def endpoint_new_def open_ok_def handler_ok_def endpoint_inv_def
        regs_deregister)
qed (simp add: GroupSocket_open_def open_ok_def)

section \<open>Closing\<close>

lemma Busmonitor_start_ok:
  assumes "Busmonitor_start n answer took buf b s = (ms, b', s')"
  shows "bm_state b' \<noteq> 0 \<and> bm_virtual b' = bm_virtual b \<and> bm_data b' = bm_data b
    \<and> (regs s' = regs s \<or> regs s' = add_mset (n, Monitor_slot (bm_virtual b)) (regs s))"
  using assms regs_register(4) [of answer n s] regs_register(5) [of answer n s]
  by (auto simp: Busmonitor_start_def Let_def split: prod.splits if_splits)

lemma Connection_close_ok:
  assumes "handler_ok (Connection_handler started c)"
  shows "\<exists>s'. Connection_close da n timeout started c s = Some s' \<and>
    (regs s' = regs s - {#(n, Individual_slot (tc_dest c) 0)#}
     \<or> regs s' = regs s - {#(n, Individual_slot (tc_dest c) 0)#} - {#(n, Individual_slot (tc_dest c) 0)#})"
proof (cases started)
  case True
  obtain c' fs where "T_Connection_turn True timeout c = Some (c', fs)"
    using T_Connection_turn_ok [of c True timeout] assms by (auto simp: handler_ok_def)
  with True show ?thesis by (auto simp: Connection_close_def Let_def regs_deregister)
next
  case False
  obtain c' f where s: "T_Connection_start c = Some (c', [f])"
    using T_Connection_start_ok [of c] assms False by (auto simp: handler_ok_def)
  obtain c'' gs where "T_Connection_finish c' = Some (c'', gs)"
    using SendDisconnect_frame [of c'] by (auto simp: T_Connection_finish_def)
  with s False show ?thesis by (auto simp: Connection_close_def Let_def regs_deregister)
qed

lemma handler_close_ok:
  assumes "regs_ok s H" and "handler_ok (H n)"
  shows "\<exists>ms s'. handler_close da n timeout answer took buf (H n) s = Some (ms, s') \<and> regs_ok s' (H(n := h))"
proof (cases "H n")
  case (Connection_handler started c)
  obtain s' where s': "Connection_close da n timeout started c s = Some s'"
    "regs s' = regs s - {#(n, Individual_slot (tc_dest c) 0)#}
     \<or> regs s' = regs s - {#(n, Individual_slot (tc_dest c) 0)#} - {#(n, Individual_slot (tc_dest c) 0)#}"
    using Connection_close_ok assms(2) Connection_handler by metis
  have "own m (regs s') \<subseteq># slots m ((H(n := h)) m)" for m
  proof (cases "m = n")
    case True
    have "own n (regs s) \<subseteq># {#(n, Individual_slot (tc_dest c) 0)#}"
      using assms(1) Connection_handler by (auto simp: regs_ok_def dest: spec [of _ n])
    then have "own n (regs s) - {#(n, Individual_slot (tc_dest c) 0)#} = {#}" by (simp add: Diff_eq_empty_iff_mset)
    with True s'(2) show ?thesis by (auto simp del: diff_diff_add_mset)
  next
    case False
    then show ?thesis using s'(2) assms(1) by (auto simp: regs_ok_def simp del: diff_diff_add_mset)
  qed
  with s'(1) Connection_handler show ?thesis by (simp add: handler_close_def regs_ok_def)
next
  case (Busmonitor_handler b)
  obtain ms b' s1 where st: "(if bm_state b = 0 then Busmonitor_start n answer took buf b s else ([], b, s)) = (ms, b', s1)"
    by (metis prod_cases3)
  have b': "bm_virtual b' = bm_virtual b" using st Busmonitor_start_ok by (auto split: if_splits)
  have ok1: "regs_ok s1 (H(n := Busmonitor_handler (b'\<lparr>bm_state := 1\<rparr>)))"
  proof (cases "bm_state b = 0")
    case True
    then have "Busmonitor_start n answer took buf b s = (ms, b', s1)" using st by simp
    from Busmonitor_start_ok [OF this] consider "regs s1 = regs s" | "regs s1 = add_mset (n, Monitor_slot (bm_virtual b)) (regs s)"
      by blast
    then show ?thesis
      using regs_ok_open [OF assms(1), of n s1] regs_ok_add [OF assms(1), of n s1 "Monitor_slot (bm_virtual b)"]
      by cases (simp_all add: Busmonitor_handler True b')
  next
    case False
    with st Busmonitor_handler assms(1) show ?thesis by (auto intro!: regs_ok_keep [of s H])
  qed
  define s2 where "s2 = snd (if bm_virtual b then deregisterVBusmonitor n s1 else deregisterBusmonitor n s1)"
  have "regs s2 = regs s1 - {#(n, Monitor_slot (bm_virtual b))#}"
    by (simp add: s2_def regs_deregister)
  from regs_ok_remove [OF ok1 _ this, of h] have "regs_ok s2 (H(n := h))" by (simp add: b')
  moreover have "handler_close da n timeout answer took buf (H n) s = Some (ms, s2)"
    using st b' by (simp add: handler_close_def Busmonitor_handler s2_def)
  ultimately show ?thesis by blast
qed (use assms(1) in \<open>auto simp: handler_close_def regs_deregister intro: regs_ok_remove regs_ok_open\<close>)

section \<open>Turns\<close>

definition step_ok :: "(daemon_output list \<times> daemon) option \<Rightarrow> bool" where
  "step_ok r \<longleftrightarrow> (\<exists>out d. r = Some (out, d) \<and> daemon_inv d)"

lemma step_okI [intro]: "daemon_inv d \<Longrightarrow> step_ok (Some (out, d))"
  by (simp add: step_ok_def)

lemma daemon_invD: "daemon_inv d \<Longrightarrow> regs_ok (d_layer3 d) (d_handler d)" "daemon_inv d \<Longrightarrow> handler_ok (d_handler d n)"
  by (simp_all add: daemon_inv_def)

lemma daemon_inv_layer3: "daemon_inv d \<Longrightarrow> regs s' = regs (d_layer3 d) \<Longrightarrow> daemon_inv (d\<lparr>d_layer3 := s'\<rparr>)"
  by (auto simp: daemon_inv_def intro: regs_ok_same)

lemma daemon_inv_keep:
  "daemon_inv d \<Longrightarrow> regs s' = regs (d_layer3 d) \<Longrightarrow> slots n h = slots n (d_handler d n) \<Longrightarrow> handler_ok h \<Longrightarrow>
   daemon_inv (set_handler n h s' d)"
  by (intro daemon_inv_set regs_ok_keep) (auto dest: daemon_invD)

lemma daemon_inv_buf [simp]: "daemon_inv (d\<lparr>d_buf := b\<rparr>) = daemon_inv d"
  by (simp add: daemon_inv_def)

lemma end_of_Do_ok:
  assumes "daemon_inv d"
  shows "step_ok (end_of_Do da n timeout answer took d)"
  using handler_close_ok [OF daemon_invD(1) [OF assms] daemon_invD(2) [OF assms, of n], of da timeout answer took "d_buf d n" No_handler]
    assms
  by (auto simp: end_of_Do_def handler_ok_def step_ok_def intro!: daemon_inv_set)

lemma begin_Do_ok:
  assumes "daemon_inv d" and "d_handler d n = No_handler" and "open_ok n (d_layer3 d) r"
  shows "step_ok (begin_Do da n answer took r d)"
proof -
  obtain oh s' where r: "r = (oh, s')" by fastforce
  note inv = daemon_invD(1) [OF assms(1)]
  show ?thesis
  proof (cases oh)
    case None
    then obtain x where "regs s' = regs (d_layer3 d) \<or> regs s' = regs (d_layer3 d) - {#(n, x)#}"
      using assms(3) r by (auto simp: open_ok_def)
    then have "regs_ok s' ((d_handler d)(n := d_handler d n))"
      using regs_ok_remove [OF inv, of n x s'] regs_ok_keep [OF inv, of s'] by (auto simp: assms(2) simp del: fun_upd_triv)
    then have "daemon_inv (d\<lparr>d_layer3 := s'\<rparr>)" using assms(1) by (simp add: daemon_inv_def)
    with None r show ?thesis by (auto simp: begin_Do_def)
  next
    case (Some h)
    then have h: "handler_ok h" "regs s' = regs (d_layer3 d) \<or> (\<exists>x. slots n h = {#(n, x)#} \<and> regs s' = add_mset (n, x) (regs (d_layer3 d)))"
      using assms(3) r by (auto simp: open_ok_def)
    then have "regs_ok s' ((d_handler d)(n := h))"
      using regs_ok_open [OF inv, of n s'] regs_ok_add [OF inv, of n s'] by (auto simp: assms(2))
    then have "daemon_inv (set_handler n h s' d)" using assms(1) h(1) by (intro daemon_inv_set)
    with Some r end_of_Do_ok [OF this] show ?thesis by (auto simp: begin_Do_def Let_def)
  qed
qed

lemma monitor_ok:
  assumes "daemon_inv d" and "d_handler d n = No_handler"
  shows "daemon_inv (set_handler n (Busmonitor_handler (Busmonitor_new v ts t)) (d_layer3 d) d)"
  using assms by (intro daemon_inv_keep) (simp_all add: handler_ok_def Busmonitor_new_def)

lemma request_ok:
  assumes "daemon_inv d" and "d_handler d n = No_handler"
  shows "step_ok (ClientConnection_request da n answer took d)"
  unfolding ClientConnection_request_def Let_def
  using assms(1) monitor_ok [OF assms] begin_Do_ok [OF assms] Broadcast_open_ok Group_open_ok TPDU_open_ok
    Individual_open_ok Connection_open_ok GroupSocket_open_ok
  by (simp add: step_okI del: insert_iff)

text \<open>A client must not send an empty payload.\<close>

definition message_ok :: "CArray \<Rightarrow> bool" where
  "message_ok m \<longleftrightarrow> (EIBTYPE m = EIB_APDU_PACKET \<longrightarrow> length m \<noteq> 2) \<and> (EIBTYPE m = EIB_GROUP_PACKET \<longrightarrow> length m \<noteq> 4)"

lemma XXX_REQ_ok: "p \<noteq> [] \<Longrightarrow> \<exists>s q. T_DATA_XXX_REQ_Decode p = Some s \<and> T_DATA_XXX_REQ_ToPacket p = Some q"
  using apdu_ok_decodes [OF apdu_ok_fromPacket [of p]] by (auto simp: T_DATA_XXX_REQ_Decode_def T_DATA_XXX_REQ_ToPacket_def)

lemma sends_ok:
  "p \<noteq> [] \<Longrightarrow> \<exists>l. T_Broadcast_Send p = Some l" "p \<noteq> [] \<Longrightarrow> \<exists>l. T_Group_Send p c = Some l"
  "p \<noteq> [] \<Longrightarrow> \<exists>l. T_Individual_Send p e = Some l" "ga_data g \<noteq> [] \<Longrightarrow> \<exists>l. GroupSocket_Send g = Some l"
  using XXX_REQ_ok by (fastforce simp: T_Broadcast_Send_def T_Group_Send_def T_Individual_Send_def GroupSocket_Send_def)+

lemma Do_payloads:
  assumes "message_ok m"
  shows "A_Broadcast_Do m = Do_send p \<Longrightarrow> p \<noteq> []" "A_Group_Do m = Do_send p \<Longrightarrow> p \<noteq> []"
    "A_Individual_Do m = Do_send p \<Longrightarrow> p \<noteq> []" "A_Connection_Do m = Do_send p \<Longrightarrow> p \<noteq> []"
    "A_GroupSocket_Do m = Do_send g \<Longrightarrow> ga_data g \<noteq> []"
  using assms unfolding message_ok_def A_Broadcast_Do_def A_Group_Do_def A_Individual_Do_def A_Connection_Do_def A_GroupSocket_Do_def
  by (auto split: if_splits)

lemma daemon_inv_sends: "daemon_inv d \<Longrightarrow> daemon_inv (d\<lparr>d_layer3 := Layer3_send_L_Data da l (d_layer3 d)\<rparr>)"
  by (intro daemon_inv_layer3) (simp_all add: Layer3_send_L_Data_def)

lemma Do_turn_ok:
  assumes "daemon_inv d" and "message_ok (d_buf d n)"
  shows "step_ok (Do_turn da n timeout answer took d)"
proof (cases "d_handler d n")
  case (Connection_handler started c)
  have h: "handler_ok (Connection_handler started c)" using daemon_invD(2) [OF assms(1), of n] Connection_handler by simp
  have "daemon_inv (set_handler n (Connection_handler started (T_Connection_Send p c)) (d_layer3 d) d)" if "p \<noteq> []" for p
    using assms(1) h that
    by (intro daemon_inv_keep) (auto simp: Connection_handler T_Connection_Send_def handler_ok_def tc_inv_def)
  with Connection_handler Do_payloads(4) [OF assms(2)] end_of_Do_ok [OF assms(1)] assms(1) show ?thesis
    by (auto simp: Do_turn_def Let_def split: do_action.split)
next
  case (Broadcast_handler c)
  then show ?thesis using sends_ok(1) Do_payloads(1) [OF assms(2)] end_of_Do_ok [OF assms(1)] assms(1) daemon_inv_sends [OF assms(1)]
    by (fastforce simp: Do_turn_def Let_def split: do_action.split)
next
  case (Group_handler c)
  then show ?thesis using sends_ok(2) [of _ c] Do_payloads(2) [OF assms(2)] end_of_Do_ok [OF assms(1)] assms(1) daemon_inv_sends [OF assms(1)]
    by (fastforce simp: Do_turn_def Let_def split: do_action.split)
next
  case (Individual_handler c)
  then show ?thesis using sends_ok(3) [of _ c] Do_payloads(3) [OF assms(2)] end_of_Do_ok [OF assms(1)] assms(1) daemon_inv_sends [OF assms(1)]
    by (fastforce simp: Do_turn_def Let_def split: do_action.split)
next
  case (GroupSocket_handler c)
  then show ?thesis using sends_ok(4) Do_payloads(5) [OF assms(2)] end_of_Do_ok [OF assms(1)] assms(1) daemon_inv_sends [OF assms(1)]
    by (fastforce simp: Do_turn_def Let_def split: do_action.split)
qed (use end_of_Do_ok [OF assms(1)] assms(1) daemon_inv_sends [OF assms(1)] in
     \<open>auto simp: Do_turn_def Let_def T_TPDU_Send_def split: do_action.split\<close>)

lemma endpoint_get_ok:
  assumes "endpoint_inv c"
  obtains "outqueue c = []" "endpoint_get c = Some (None, c)"
  | e c' where "endpoint_get c = Some (Some e, c')" "endpoint_inv c'" "outqueue c = e # outqueue c'" "address c' = address c"
proof (cases "outqueue c")
  case Nil
  with assms that(1) show ?thesis by (simp add: endpoint_get_def endpoint_inv_def)
next
  case (Cons e q)
  with assms show ?thesis
    by (intro that(2) [of e "c\<lparr>outqueue := q, sem := sem c - 1\<rparr>"]) (simp_all add: endpoint_get_def list_get_def endpoint_inv_def)
qed

lemma fetch_ok:
  assumes "daemon_inv d" and "endpoint_inv c" and "\<And>c'. endpoint_inv c' \<Longrightarrow> handler_ok (h c')"
    and "\<And>c'. address c' = address c \<Longrightarrow> slots n (h c') = slots n (d_handler d n)"
  shows "step_ok (fetch n took h reply c d)"
  using assms(2)
proof (cases rule: endpoint_get_ok)
  case 1
  with assms(1) show ?thesis by (auto simp: fetch_def)
next
  case (2 e c')
  with assms show ?thesis by (auto simp: fetch_def intro!: daemon_inv_keep)
qed

lemma Run_turn_ok:
  assumes "daemon_inv d"
  shows "step_ok (Run_turn n answer took d)"
proof (cases "d_handler d n")
  case (Connection_handler started c)
  have h: "handler_ok (Connection_handler started c)" using daemon_invD(2) [OF assms, of n] Connection_handler by simp
  show ?thesis
  proof (cases "tc_out c")
    case Nil
    with h Connection_handler assms show ?thesis by (auto simp: Run_turn_def T_Connection_Get_def handler_ok_def tc_inv_def)
  next
    case (Cons e q)
    define c' where "c' = c\<lparr>tc_out := q, tc_outsem := tc_outsem c - 1\<rparr>"
    have "T_Connection_Get c = Some (Some e, c')"
      using h Cons by (simp add: T_Connection_Get_def handler_ok_def tc_inv_def list_get_def c'_def)
    moreover have "daemon_inv (set_handler n (Connection_handler started c') (d_layer3 d) d)"
      using h Cons assms by (intro daemon_inv_keep) (auto simp: handler_ok_def tc_inv_def Connection_handler c'_def)
    ultimately show ?thesis using Connection_handler by (auto simp: Run_turn_def)
  qed
next
  case (Busmonitor_handler b)
  have h: "handler_ok (Busmonitor_handler b)" using daemon_invD(2) [OF assms, of n] Busmonitor_handler by simp
  show ?thesis
  proof (cases "bm_state b = 0")
    case True
    obtain ms b' s' where st: "Busmonitor_start n answer took (d_buf d n) b (d_layer3 d) = (ms, b', s')" by (metis prod_cases3)
    note b' = Busmonitor_start_ok [OF st]
    have "regs_ok s' ((d_handler d)(n := Busmonitor_handler b'))"
      using b' regs_ok_open [OF daemon_invD(1) [OF assms], of n s'] regs_ok_add [OF daemon_invD(1) [OF assms], of n s']
      by (auto simp: Busmonitor_handler True)
    moreover have "handler_ok (Busmonitor_handler b')" using h b' by (simp add: handler_ok_def)
    ultimately show ?thesis using True st assms Busmonitor_handler
      by (auto simp: Run_turn_def intro!: daemon_inv_set)
  next
    case False
    have "endpoint_inv (bm_data b)" using h by (simp add: handler_ok_def)
    then show ?thesis
    proof (cases rule: endpoint_get_ok)
      case 1
      then show ?thesis using False Busmonitor_handler assms by (auto simp: Run_turn_def)
    next
      case (2 e q)
      obtain pdu status timestamp where e: "e = (pdu, status, timestamp)" by (metis prod_cases3)
      obtain s where s: "L_Busmonitor_Decode pdu = Some s" using h 2(3) e by (auto simp: handler_ok_def)
      have "daemon_inv (set_handler n (Busmonitor_handler (b\<lparr>bm_data := q, bm_state := k\<rparr>)) (d_layer3 d) d)" if "k \<noteq> 0" for k
        using h 2 False that assms by (intro daemon_inv_keep) (auto simp: handler_ok_def Busmonitor_handler)
      then show ?thesis using 2 e s False Busmonitor_handler assms by (auto simp: Run_turn_def)
    qed
  qed
qed (use daemon_invD(2) [OF assms, of n] assms in \<open>auto simp: Run_turn_def handler_ok_def intro!: fetch_ok\<close>)

lemma turn_dest:
  "T_Connection_turn stop timeout c = Some (c', fs) \<Longrightarrow> tc_dest c' = tc_dest c"
  "T_Connection_start c = Some (c', fs) \<Longrightarrow> tc_dest c' = tc_dest c"
proof -
  have data: "tc_dest c' = tc_dest c" if "T_Connection_data k p c = Some (c', fs)" for k p c c' fs
    using that by (cases "uint k = tc_recvno c"; cases "uint k = (tc_recvno c - 1) AND 0x0f")
      (clarsimp simp: T_Connection_data_def Let_def)+
  have nack: "tc_dest c' = tc_dest c" if "T_Connection_nack k c = Some (c', fs)" for k c c' fs
    using that by (auto simp: T_Connection_nack_def split: if_splits list.splits)
  have ack: "tc_dest c' = tc_dest c" if "T_Connection_ack k c = Some (c', fs)" for k c c' fs
    using that by (auto simp: T_Connection_ack_def split: if_splits)
  have frame: "tc_dest c' = tc_dest c" if "T_Connection_frame l c = Some (c', fs)" for l c c' fs
    using that by (auto simp: T_Connection_frame_def split: tpdu.splits dest!: data nack ack)
  have body: "tc_dest c' = tc_dest c" if "T_Connection_body timeout c = Some (c', fs)" for c c' fs
    using that by (auto simp: T_Connection_body_def split: if_splits option.splits dest!: frame)
  show "T_Connection_turn stop timeout c = Some (c', fs) \<Longrightarrow> tc_dest c' = tc_dest c"
    by (auto simp: T_Connection_turn_def T_Connection_finish_def split: if_splits option.splits dest!: body)
  show "T_Connection_start c = Some (c', fs) \<Longrightarrow> tc_dest c' = tc_dest c"
    by (auto simp: T_Connection_start_def)
qed

lemma Connection_turn_ok:
  assumes "daemon_inv d"
  shows "step_ok (Connection_turn da n timeout d)"
proof (cases "\<exists>started c. d_handler d n = Connection_handler started c")
  case True
  then obtain started c where h: "d_handler d n = Connection_handler started c" by blast
  have ok: "handler_ok (Connection_handler started c)" using daemon_invD(2) [OF assms, of n] h by simp
  obtain c' fs where c': "(if started then T_Connection_turn False timeout c else T_Connection_start c) = Some (c', fs)" "tc_inv c'"
    using T_Connection_turn_ok [of c False timeout] T_Connection_start_ok [of c] ok
    by (cases started) (auto simp: handler_ok_def)
  then have dest: "tc_dest c' = tc_dest c" using turn_dest by (auto split: if_splits)
  define s1 where "s1 = send_frames da fs (d_layer3 d)"
  define s2 where "s2 = (if tc_running c \<and> \<not> tc_running c' then snd (deregisterIndividualCallBack n (tc_dest c) 0 s1) else s1)"
  have "regs_ok s2 ((d_handler d)(n := Connection_handler True c'))"
    using regs_ok_keep [OF daemon_invD(1) [OF assms], of s1 n] regs_ok_remove [OF daemon_invD(1) [OF assms], of n "Individual_slot (tc_dest c) 0" s2]
    by (auto simp: s2_def s1_def h dest regs_deregister)
  then have "daemon_inv (set_handler n (Connection_handler True c') s2 d)"
    using assms c'(2) by (intro daemon_inv_set) (simp_all add: handler_ok_def)
  then show ?thesis using c'(1) h by (auto simp: Connection_turn_def s2_def s1_def Let_def)
next
  case False
  with assms show ?thesis by (auto simp: Connection_turn_def split: handler.split)
qed

section \<open>Frames\<close>

text \<open>A delivery has its object.\<close>

definition deliverable :: "daemon \<Rightarrow> delivery \<Rightarrow> bool" where
  "deliverable d dl =
     (case dl of
        Deliver_Data n l \<Rightarrow> d_handler d n \<noteq> No_handler \<and> (\<forall>b. d_handler d n \<noteq> Busmonitor_handler b)
      | Deliver_Busmonitor n pdu _ _ \<Rightarrow> L_Busmonitor_Decode pdu \<noteq> None \<and> (\<exists>b. d_handler d n = Busmonitor_handler b))"

lemma receive_endpoint:
  "endpoint_inv c \<Longrightarrow> endpoint_inv (T_Broadcast_Get_L_Data l c)"
  "endpoint_inv g \<Longrightarrow> endpoint_inv (T_Group_Get_L_Data l g) \<and> address (T_Group_Get_L_Data l g) = address g"
  "endpoint_inv t \<Longrightarrow> endpoint_inv (T_TPDU_Get_L_Data l t) \<and> address (T_TPDU_Get_L_Data l t) = address t"
  "endpoint_inv i \<Longrightarrow> endpoint_inv (T_Individual_Get_L_Data l i) \<and> address (T_Individual_Get_L_Data l i) = address i"
  "endpoint_inv s \<Longrightarrow> endpoint_inv (GroupSocket_Get_L_Data l s)"
  using broadcast.receive_inv t_group.receive_inv t_tpdu.receive_inv individual.receive_inv group_socket.receive_inv
  by (auto simp: T_Group_Get_L_Data_def T_TPDU_Get_L_Data_def T_Individual_Get_L_Data_def endpoint_put_def split: tpdu.split)

lemma deliver_ok:
  assumes "daemon_inv d" and "deliverable d dl"
  shows "\<exists>d'. deliver dl d = Some d' \<and> daemon_inv d' \<and> (\<forall>dl'. deliverable d dl' \<longrightarrow> deliverable d' dl')"
proof (cases dl)
  case (Deliver_Data n l)
  have ok: "handler_ok (d_handler d n)" using daemon_invD(2) [OF assms(1)] .
  have "\<exists>h. deliver dl d = Some (set_handler n h (d_layer3 d) d) \<and> handler_ok h \<and> slots n h = slots n (d_handler d n)
      \<and> h \<noteq> No_handler \<and> (\<forall>b. h \<noteq> Busmonitor_handler b)"
    using assms(2) ok receive_endpoint [of _ l] Deliver_Data
    by (cases "d_handler d n") (auto simp: deliver_def deliverable_def handler_ok_def tc_inv_def T_Connection_Get_L_Data_def)
  then obtain h where "deliver dl d = Some (set_handler n h (d_layer3 d) d)" "handler_ok h"
    "slots n h = slots n (d_handler d n)" "h \<noteq> No_handler" "\<forall>b. h \<noteq> Busmonitor_handler b" by blast
  moreover from this(4,5) have "deliverable (set_handler n h (d_layer3 d) d) dl'" if "deliverable d dl'" for dl'
    using that assms(2) Deliver_Data by (cases dl') (auto simp: deliverable_def set_handler_def)
  ultimately show ?thesis using daemon_inv_keep [OF assms(1) refl] by simp
next
  case (Deliver_Busmonitor n pdu st ts)
  then obtain b where b: "d_handler d n = Busmonitor_handler b" "L_Busmonitor_Decode pdu \<noteq> None"
    using assms(2) by (auto simp: deliverable_def)
  define h where "h = Busmonitor_handler (b\<lparr>bm_data := endpoint_put (pdu, st, ts) (bm_data b)\<rparr>)"
  have "handler_ok h" using daemon_invD(2) [OF assms(1), of n] b by (auto simp: h_def handler_ok_def)
  then have "daemon_inv (set_handler n h (d_layer3 d) d)"
    using assms(1) by (intro daemon_inv_keep) (simp_all add: h_def b)
  moreover have "deliverable (set_handler n h (d_layer3 d) d) dl'" if "deliverable d dl'" for dl'
    using that b by (cases dl') (auto simp: deliverable_def set_handler_def h_def)
  ultimately show ?thesis using b Deliver_Busmonitor by (simp add: deliver_def h_def)
qed

lemma deliveries_ok:
  "daemon_inv d \<Longrightarrow> \<forall>dl \<in> set dls. deliverable d dl \<Longrightarrow> \<exists>d'. deliveries dls d = Some d' \<and> daemon_inv d'"
proof (induction dls arbitrary: d)
  case (Cons dl dls)
  obtain d' where "deliver dl d = Some d'" "daemon_inv d'" "\<forall>dl'. deliverable d dl' \<longrightarrow> deliverable d' dl'"
    using deliver_ok [OF Cons.prems(1), of dl] Cons.prems(2) by auto
  with Cons.IH [of d'] Cons.prems(2) show ?case by simp
qed simp

text \<open>Any packet of the bus, but the one frame of theorem \<open>dispatcher_aborts_on_longest_frame\<close>.\<close>

definition frame_ok :: "lpdu \<Rightarrow> bool" where
  "frame_ok l \<longleftrightarrow> (\<exists>c. \<not> longest c \<and> (l = LPDU_fromPacket c \<or> (\<exists>status timestamp. l = L_Busmonitor_PDU c status timestamp)))"

lemma registered_handler:
  assumes "daemon_inv d" and "(n, x) \<in># regs (d_layer3 d)"
  shows "slots n (d_handler d n) = {#(n, x)#}"
proof -
  have "(n, x) \<in># own n (regs (d_layer3 d))" using assms(2) by (simp add: own_def)
  moreover have "own n (regs (d_layer3 d)) \<subseteq># slots n (d_handler d n)" using daemon_invD(1) [OF assms(1)] by (simp add: regs_ok_def)
  ultimately have "(n, x) \<in># slots n (d_handler d n)" by (meson mset_subset_eqD)
  then show ?thesis by (cases "d_handler d n") (auto split: if_splits)
qed

lemma regs_data:
  assumes "Deliver_Data n m \<in> set (Layer3_deliver l s)"
  shows "\<exists>x. (n, x) \<in># regs s \<and> (\<forall>v. x \<noteq> Monitor_slot v)"
  using assms by (auto simp: Layer3_deliver_def regs_def image_iff split: if_splits)

lemma Layer3_deliver_ignore [simp]: "Layer3_deliver l (s\<lparr>l3_ignore := ig\<rparr>) = Layer3_deliver l s"
  by (simp add: Layer3_deliver_def)

lemma deliver_is_data: "dl \<in> set (Layer3_deliver l s) \<Longrightarrow> \<exists>n m. dl = Deliver_Data n m"
  by (auto simp: Layer3_deliver_def split: if_splits)

lemma Layer3_frame_shape:
  assumes "Layer3_frame da now later l s = Some (dls, s')"
  shows "regs s' = regs s \<and> (dls = [] \<or> (\<exists>m. dls = Layer3_deliver m s) \<or>
    (\<exists>pdu st ts. l = L_Busmonitor_PDU pdu st ts \<and>
      dls = map (\<lambda>c. Deliver_Busmonitor c pdu st ts) (l3_busmonitor s) @ map (\<lambda>c. Deliver_Busmonitor c pdu st ts) (l3_vbusmonitor s)))"
proof -
  have data: "regs s1 = regs s \<and> (dls = [] \<or> (\<exists>l. dls = Layer3_deliver l s))"
    if "Layer3_data da now d s = Some (dls, b, s1)" for d dls b s1
    using that by (auto simp: Layer3_data_def Let_def split: option.splits bool.splits)
  show ?thesis
  proof (cases l)
    case (L_Data_PDU d)
    with assms show ?thesis
      by (auto simp: Layer3_frame_def split: if_splits option.splits dest: data)
  qed (use assms in \<open>auto simp: Layer3_frame_def\<close>)
qed

lemma Layer3_frame_regs:
  assumes "Layer3_frame da now later l s = Some (dls, s')"
  shows "regs s' = regs s"
    and "Deliver_Data n m \<in> set dls \<Longrightarrow> \<exists>x. (n, x) \<in># regs s \<and> (\<forall>v. x \<noteq> Monitor_slot v)"
    and "Deliver_Busmonitor n pdu st ts \<in> set dls \<Longrightarrow> l = L_Busmonitor_PDU pdu st ts \<and> (\<exists>v. (n, Monitor_slot v) \<in># regs s)"
proof -
  have monitors: "\<exists>v. (n, Monitor_slot v) \<in># regs s" if "n \<in> set (l3_busmonitor s) \<union> set (l3_vbusmonitor s)" for n
    using that by (auto simp: regs_def)
  note shape = Layer3_frame_shape [OF assms]
  show "regs s' = regs s" using shape by blast
  show "Deliver_Data n m \<in> set dls \<Longrightarrow> \<exists>x. (n, x) \<in># regs s \<and> (\<forall>v. x \<noteq> Monitor_slot v)"
    using shape regs_data by fastforce
  show "Deliver_Busmonitor n pdu st ts \<in> set dls \<Longrightarrow> l = L_Busmonitor_PDU pdu st ts \<and> (\<exists>v. (n, Monitor_slot v) \<in># regs s)"
    using shape deliver_is_data [of "Deliver_Busmonitor n pdu st ts"] monitors by auto
qed

lemma frame_deliverable:
  assumes "daemon_inv d" and "Layer3_frame da now later l (d_layer3 d) = Some (dls, s')" and "frame_ok l" and "dl \<in> set dls"
  shows "deliverable (d\<lparr>d_layer3 := s'\<rparr>) dl"
proof (cases dl)
  case (Deliver_Data n m)
  then obtain x where x: "(n, x) \<in># regs (d_layer3 d)" "\<forall>v. x \<noteq> Monitor_slot v"
    using Layer3_frame_regs(2) [OF assms(2)] assms(4) by blast
  from registered_handler [OF assms(1) x(1)] x(2) Deliver_Data show ?thesis
    by (auto simp: deliverable_def split: if_splits)
next
  case (Deliver_Busmonitor n pdu st ts)
  then obtain v where v: "l = L_Busmonitor_PDU pdu st ts" "(n, Monitor_slot v) \<in># regs (d_layer3 d)"
    using Layer3_frame_regs(3) [OF assms(2)] assms(4) by blast
  have "\<not> longest pdu"
    using assms(3) v(1) LPDU_fromPacket_no_monitor by (auto simp: frame_ok_def) metis
  then have "L_Busmonitor_Decode pdu \<noteq> None" using packet_printable [of pdu st ts] by (simp add: LPDU_Decode_def)
  moreover have "\<exists>b. d_handler d n = Busmonitor_handler b"
    using registered_handler [OF assms(1) v(2)] by (cases "d_handler d n") (auto split: if_splits)
  ultimately show ?thesis using Deliver_Busmonitor by (simp add: deliverable_def)
qed

lemma Bus_frame_ok:
  assumes "daemon_inv d" and "frame_ok l"
  shows "step_ok (daemon_step da (Bus_frame now later l) d)"
proof -
  have "Layer3_frame da now later l (d_layer3 d) \<noteq> None"
  proof -
    from assms(2) obtain c where "\<not> longest c" "l = LPDU_fromPacket c \<or> (\<exists>st ts. l = L_Busmonitor_PDU c st ts)"
      by (auto simp: frame_ok_def)
    with Layer3_frame_None [of da now later c "d_layer3 d"] show ?thesis by (auto simp: Layer3_frame_def [of _ _ _ "L_Busmonitor_PDU _ _ _"])
  qed
  then obtain dls s' where f: "Layer3_frame da now later l (d_layer3 d) = Some (dls, s')" by auto
  have "daemon_inv (d\<lparr>d_layer3 := s'\<rparr>)"
    using assms(1) Layer3_frame_regs(1) [OF f] by (intro daemon_inv_layer3)
  from deliveries_ok [OF this] frame_deliverable [OF assms(1) f assms(2)] f show ?thesis
    by (auto simp: step_ok_def)
qed

section \<open>Runs\<close>

definition event_ok :: "daemon_event \<Rightarrow> bool" where
  "event_ok e = (case e of Client_message n m _ _ _ \<Rightarrow> message_ok m | Bus_frame _ _ l \<Rightarrow> frame_ok l | _ \<Rightarrow> True)"

lemma daemon_step_ok: "daemon_inv d \<Longrightarrow> event_ok e \<Longrightarrow> step_ok (daemon_step da e d)"
proof (cases e)
  case (Bus_frame now later l)
  moreover assume "daemon_inv d" "event_ok e"
  ultimately show ?thesis using Bus_frame_ok by (simp add: event_ok_def del: daemon_step.simps)
qed (auto simp: event_ok_def Let_def intro: request_ok Do_turn_ok end_of_Do_ok Run_turn_ok Connection_turn_ok)

lemma daemon_run_ok: "daemon_inv d \<Longrightarrow> list_all event_ok es \<Longrightarrow> step_ok (daemon_run da es d)"
proof (induction es arbitrary: d)
  case (Cons e es)
  then obtain out d' where e: "daemon_step da e d = Some (out, d')" "daemon_inv d'"
    using daemon_step_ok [of d e da] by (auto simp: step_ok_def)
  from Cons.IH [OF this(2)] Cons.prems(2) e(1) show ?case by (auto simp: step_ok_def)
qed auto

end
