(* ===== verification/ClientApi.thy ===== *)
theory ClientApi
  imports Framing EibTypes
begin

text \<open>
  The functions of the C client library: \<open>eibd/client/def/*.inc\<close>, whose macros
  \<open>eibd/client/c/eibclient-int.h\<close> expands. A function has a part that makes the request, here
  \<open>..._request\<close> (\<open>None\<close> is the error \<open>EINVAL\<close>; the functions that only wait for a message have
  none), and a part that reads the answer, \<open>..._complete\<close>. The out parameters are fields of the
  result; the callers give an address for each of them. \<open>maxlen\<close> is the size of the caller's
  buffer, \<open>sendlen\<close> the number of bytes sent, \<open>stack\<close> what the array \<open>head\<close> holds uninitialised.
\<close>

section \<open>The macros that make a request\<close>

definition EIBC_INIT_SEND :: "nat \<Rightarrow> (nat \<Rightarrow> uchar) \<Rightarrow> CArray" where
  "EIBC_INIT_SEND n stack = map stack [0..<n]"

definition EIBC_SETADDR :: "eibaddr_t \<Rightarrow> nat \<Rightarrow> CArray \<Rightarrow> CArray" where
  "EIBC_SETADDR v off b = b[off := hi8 v, off + 1 := lo8 v]"

definition EIBC_SETUINT8 :: "uchar \<Rightarrow> nat \<Rightarrow> CArray \<Rightarrow> CArray" where
  "EIBC_SETUINT8 v off b = b[off := v]"

definition EIBC_UINT8 :: "uchar \<Rightarrow> nat \<Rightarrow> CArray \<Rightarrow> CArray" where
  "EIBC_UINT8 v off b = b[off := v]"

definition EIBC_SETUINT16 :: "16 word \<Rightarrow> nat \<Rightarrow> CArray \<Rightarrow> CArray" where
  "EIBC_SETUINT16 v off b = b[off := hi8 v, off + 1 := lo8 v]"

definition EIBC_SETLEN :: "nat \<Rightarrow> nat \<Rightarrow> CArray \<Rightarrow> CArray" where
  "EIBC_SETLEN v off b = b[off := hi8 (of_nat v), off + 1 := lo8 (of_nat v)]"

definition EIBC_SETBOOL :: "bool \<Rightarrow> nat \<Rightarrow> CArray \<Rightarrow> CArray" where
  "EIBC_SETBOOL v off b = b[off := (if v then 0xff else 0)]"

text \<open>\<open>memcpy (ibuf + offset, value, 4)\<close>.\<close>

definition EIBC_SETKEY :: "CArray \<Rightarrow> nat \<Rightarrow> CArray \<Rightarrow> CArray" where
  "EIBC_SETKEY key off b = b[off := key ! 0, off + 1 := key ! 1, off + 2 := key ! 2, off + 3 := key ! 3]"

definition EIBC_SEND_BUF_LEN :: "CArray \<Rightarrow> nat \<Rightarrow> CArray \<Rightarrow> CArray option" where
  "EIBC_SEND_BUF_LEN d len b = (if length d < len then None else Some (b @ d))"

definition EIBC_SEND_BUF :: "CArray \<Rightarrow> CArray \<Rightarrow> CArray option" where
  "EIBC_SEND_BUF d b = EIBC_SEND_BUF_LEN d 0 b"

text \<open>The type is written last; the result is what \<open>_EIB_SendRequest\<close> gets.\<close>

definition EIBC_SEND :: "16 word \<Rightarrow> CArray \<Rightarrow> CArray" where
  "EIBC_SEND t b = b[0 := hi8 t, 1 := lo8 t]"

section \<open>The macros that read an answer\<close>

datatype errno = ECONNRESET | EBUSY | EPERM | ENODEV | ENOENT | EIO | EADDRINUSE | ETIMEDOUT | EADDRNOTAVAIL

text \<open>The result of a function, the caller's buffer and the variables its pointers name.\<close>

record eib_out =
  eo_ret :: int
  eo_buf :: CArray
  eo_ptr1 :: "16 word option"
  eo_ptr2 :: "uchar option"
  eo_ptr3 :: "uchar option"
  eo_ptr4 :: "16 word option"
  eo_ptr5 :: "eibaddr_t option"
  eo_ptr6 :: "eibaddr_t option"
  eo_ptr7 :: "32 word option"

definition eib_out_new :: eib_out where
  "eib_out_new = \<lparr>eo_ret = 0, eo_buf = [], eo_ptr1 = None, eo_ptr2 = None, eo_ptr3 = None, eo_ptr4 = None,
     eo_ptr5 = None, eo_ptr6 = None, eo_ptr7 = None\<rparr>"

text \<open>\<open>Wild\<close>: memory outside the receive buffer is read, or a negative length copied.\<close>

datatype eib_outcome = Returned eib_out | Failed errno | Wild

type_synonym eib_step = "eib_io \<Rightarrow> eib_out \<Rightarrow> eib_outcome"

text \<open>An access to \<open>con->buf\<close> up to the given index, which may lie behind the message.\<close>

definition EIB_reads :: "nat \<Rightarrow> eib_step \<Rightarrow> eib_step" where
  "EIB_reads i k e out = (if i < length (ei_buf e) then k e out else Wild)"

definition EIBC_RETURNERROR :: "16 word \<Rightarrow> errno \<Rightarrow> eib_step \<Rightarrow> eib_step" where
  "EIBC_RETURNERROR msg err k e out = (if EIBTYPE (ei_buf e) = msg then Failed err else k e out)"

definition EIBC_RETURNERROR_UINT16 :: "nat \<Rightarrow> errno \<Rightarrow> eib_step \<Rightarrow> eib_step" where
  "EIBC_RETURNERROR_UINT16 off err k =
     EIB_reads off (\<lambda>e out.
       if ei_buf e ! off \<noteq> 0 then k e out
       else EIB_reads (off + 1) (\<lambda>e out. if ei_buf e ! (off + 1) = 0 then Failed err else k e out) e out)"

definition EIBC_RETURNERROR_SIZE :: "nat \<Rightarrow> errno \<Rightarrow> eib_step \<Rightarrow> eib_step" where
  "EIBC_RETURNERROR_SIZE len err k e out = (if ei_size e \<le> len then Failed err else k e out)"

definition EIBC_CHECKRESULT :: "16 word \<Rightarrow> nat \<Rightarrow> eib_step \<Rightarrow> eib_step" where
  "EIBC_CHECKRESULT msg msgsize k e out =
     (if EIBTYPE (ei_buf e) \<noteq> msg \<or> ei_size e < msgsize then Failed ECONNRESET else k e out)"

text \<open>\<open>i = con->size - offset\<close> is negative for a shorter message, and \<open>memcpy\<close> takes it as a huge size.\<close>

definition EIBC_RETURN_BUF :: "nat \<Rightarrow> nat \<Rightarrow> eib_step" where
  "EIBC_RETURN_BUF off maxlen e out =
     (if ei_size e < off then Wild
      else let i = min (ei_size e - off) maxlen
           in Returned (out\<lparr>eo_ret := int i, eo_buf := take i (drop off (ei_buf e))\<rparr>))"

definition EIBC_RETURN_OK :: eib_step where
  "EIBC_RETURN_OK e out = Returned (out\<lparr>eo_ret := 0\<rparr>)"

definition EIBC_RETURN_LEN :: "nat \<Rightarrow> eib_step" where
  "EIBC_RETURN_LEN sendlen e out = Returned (out\<lparr>eo_ret := int sendlen\<rparr>)"

definition EIBC_RETURN_UINT8 :: "nat \<Rightarrow> eib_step" where
  "EIBC_RETURN_UINT8 off = EIB_reads off (\<lambda>e out. Returned (out\<lparr>eo_ret := uint (ei_buf e ! off)\<rparr>))"

definition EIBC_RETURN_UINT16 :: "nat \<Rightarrow> eib_step" where
  "EIBC_RETURN_UINT16 off =
     EIB_reads (off + 1) (\<lambda>e out. Returned (out\<lparr>eo_ret := uint (mk16 (ei_buf e ! off) (ei_buf e ! (off + 1)))\<rparr>))"

definition EIBC_RETURN_PTR1 :: "nat \<Rightarrow> eib_step \<Rightarrow> eib_step" where
  "EIBC_RETURN_PTR1 off k =
     EIB_reads (off + 1) (\<lambda>e out. k e (out\<lparr>eo_ptr1 := Some (mk16 (ei_buf e ! off) (ei_buf e ! (off + 1)))\<rparr>))"

definition EIBC_RETURN_PTR2 :: "nat \<Rightarrow> eib_step \<Rightarrow> eib_step" where
  "EIBC_RETURN_PTR2 off k =
     EIB_reads off (\<lambda>e out. k e (out\<lparr>eo_ptr2 := Some (ei_buf e ! off)\<rparr>))"

definition EIBC_RETURN_PTR3 :: "nat \<Rightarrow> eib_step \<Rightarrow> eib_step" where
  "EIBC_RETURN_PTR3 off k =
     EIB_reads off (\<lambda>e out. k e (out\<lparr>eo_ptr3 := Some (ei_buf e ! off)\<rparr>))"

definition EIBC_RETURN_PTR4 :: "nat \<Rightarrow> eib_step \<Rightarrow> eib_step" where
  "EIBC_RETURN_PTR4 off k =
     EIB_reads (off + 1) (\<lambda>e out. k e (out\<lparr>eo_ptr4 := Some (mk16 (ei_buf e ! off) (ei_buf e ! (off + 1)))\<rparr>))"

definition EIBC_RETURN_PTR5 :: "nat \<Rightarrow> eib_step \<Rightarrow> eib_step" where
  "EIBC_RETURN_PTR5 off k =
     EIB_reads (off + 1) (\<lambda>e out. k e (out\<lparr>eo_ptr5 := Some (mk16 (ei_buf e ! off) (ei_buf e ! (off + 1)))\<rparr>))"

definition EIBC_RETURN_PTR6 :: "nat \<Rightarrow> eib_step \<Rightarrow> eib_step" where
  "EIBC_RETURN_PTR6 off k =
     EIB_reads (off + 1) (\<lambda>e out. k e (out\<lparr>eo_ptr6 := Some (mk16 (ei_buf e ! off) (ei_buf e ! (off + 1)))\<rparr>))"

definition EIBC_RETURN_PTR7 :: "nat \<Rightarrow> eib_step \<Rightarrow> eib_step" where
  "EIBC_RETURN_PTR7 off k =
     EIB_reads (off + 3) (\<lambda>e out. k e (out\<lparr>eo_ptr7 := Some (mk32 (ei_buf e ! off) (ei_buf e ! (off + 1)) (ei_buf e ! (off + 2)) (ei_buf e ! (off + 3)))\<rparr>))"

section \<open>The functions\<close>

definition EIBGetAPDU_complete :: "nat \<Rightarrow> eib_step" where
  "EIBGetAPDU_complete maxlen =
     EIBC_CHECKRESULT EIB_APDU_PACKET 2 (EIBC_RETURN_BUF 2 maxlen)"

definition EIBGetAPDU_Src_complete :: "nat \<Rightarrow> eib_step" where
  "EIBGetAPDU_Src_complete maxlen =
     EIBC_CHECKRESULT EIB_APDU_PACKET 4 (EIBC_RETURN_PTR5 2 (EIBC_RETURN_BUF 4 maxlen))"

definition EIBGetBusmonitorPacket_complete :: "nat \<Rightarrow> eib_step" where
  "EIBGetBusmonitorPacket_complete maxlen =
     EIBC_CHECKRESULT EIB_BUSMONITOR_PACKET 2 (EIBC_RETURN_BUF 2 maxlen)"

definition EIBGetBusmonitorPacketTS_complete :: "nat \<Rightarrow> eib_step" where
  "EIBGetBusmonitorPacketTS_complete maxlen =
     EIBC_CHECKRESULT EIB_BUSMONITOR_PACKET_TS 7 (EIBC_RETURN_PTR2 2 (EIBC_RETURN_PTR7 3 (EIBC_RETURN_BUF 7 maxlen)))"

definition EIBGetGroup_Src_complete :: "nat \<Rightarrow> eib_step" where
  "EIBGetGroup_Src_complete maxlen =
     EIBC_CHECKRESULT EIB_GROUP_PACKET 6 (EIBC_RETURN_PTR5 2 (EIBC_RETURN_PTR6 4 (EIBC_RETURN_BUF 6 maxlen)))"

definition EIBGetTPDU_complete :: "nat \<Rightarrow> eib_step" where
  "EIBGetTPDU_complete maxlen =
     EIBC_CHECKRESULT EIB_APDU_PACKET 4 (EIBC_RETURN_PTR5 2 (EIBC_RETURN_BUF 4 maxlen))"

definition EIB_Cache_Clear_complete :: "eib_step" where
  "EIB_Cache_Clear_complete =
     EIBC_CHECKRESULT EIB_CACHE_CLEAR 2 (EIBC_RETURN_OK)"

definition EIB_Cache_Clear_request :: "(nat \<Rightarrow> uchar) \<Rightarrow> CArray option" where
  "EIB_Cache_Clear_request stack =
     Some (EIBC_SEND EIB_CACHE_CLEAR (EIBC_INIT_SEND 2 stack))"

definition EIB_Cache_Disable_complete :: "eib_step" where
  "EIB_Cache_Disable_complete =
     EIBC_CHECKRESULT EIB_CACHE_DISABLE 2 (EIBC_RETURN_OK)"

definition EIB_Cache_Disable_request :: "(nat \<Rightarrow> uchar) \<Rightarrow> CArray option" where
  "EIB_Cache_Disable_request stack =
     Some (EIBC_SEND EIB_CACHE_DISABLE (EIBC_INIT_SEND 2 stack))"

definition EIB_Cache_Enable_complete :: "eib_step" where
  "EIB_Cache_Enable_complete =
     EIBC_RETURNERROR EIB_CONNECTION_INUSE EBUSY (EIBC_CHECKRESULT EIB_CACHE_ENABLE 2 (EIBC_RETURN_OK))"

definition EIB_Cache_Enable_request :: "(nat \<Rightarrow> uchar) \<Rightarrow> CArray option" where
  "EIB_Cache_Enable_request stack =
     Some (EIBC_SEND EIB_CACHE_ENABLE (EIBC_INIT_SEND 2 stack))"

definition EIB_Cache_LastUpdates_complete :: "nat \<Rightarrow> eib_step" where
  "EIB_Cache_LastUpdates_complete maxlen =
     EIBC_CHECKRESULT EIB_CACHE_LAST_UPDATES 2 (EIBC_RETURN_PTR4 2 (EIBC_RETURN_BUF 4 maxlen))"

definition EIB_Cache_LastUpdates_request :: "(nat \<Rightarrow> uchar) \<Rightarrow> 16 word \<Rightarrow> uchar \<Rightarrow> CArray option" where
  "EIB_Cache_LastUpdates_request stack start timeout =
     Some (EIBC_SEND EIB_CACHE_LAST_UPDATES (EIBC_SETUINT8 timeout 4 (EIBC_SETUINT16 start 2 (EIBC_INIT_SEND 5 stack))))"

definition EIB_Cache_Read_complete :: "nat \<Rightarrow> eib_step" where
  "EIB_Cache_Read_complete maxlen =
     EIBC_CHECKRESULT EIB_CACHE_READ_NOWAIT 2 (EIBC_RETURNERROR_UINT16 4 ENODEV (EIBC_RETURNERROR_SIZE 6 ENOENT (EIBC_RETURN_PTR5 2 (EIBC_RETURN_BUF 6 maxlen))))"

definition EIB_Cache_Read_request :: "(nat \<Rightarrow> uchar) \<Rightarrow> eibaddr_t \<Rightarrow> CArray option" where
  "EIB_Cache_Read_request stack dst =
     Some (EIBC_SEND EIB_CACHE_READ_NOWAIT (EIBC_SETADDR dst 2 (EIBC_INIT_SEND 4 stack)))"

definition EIB_Cache_Read_Sync_complete :: "nat \<Rightarrow> eib_step" where
  "EIB_Cache_Read_Sync_complete maxlen =
     EIBC_CHECKRESULT EIB_CACHE_READ 2 (EIBC_RETURNERROR_UINT16 4 ENODEV (EIBC_RETURNERROR_SIZE 6 ENOENT (EIBC_RETURN_PTR5 2 (EIBC_RETURN_BUF 6 maxlen))))"

definition EIB_Cache_Read_Sync_request :: "(nat \<Rightarrow> uchar) \<Rightarrow> eibaddr_t \<Rightarrow> 16 word \<Rightarrow> CArray option" where
  "EIB_Cache_Read_Sync_request stack dst age =
     Some (EIBC_SEND EIB_CACHE_READ (EIBC_SETUINT16 age 4 (EIBC_SETADDR dst 2 (EIBC_INIT_SEND 6 stack))))"

definition EIB_Cache_Remove_complete :: "eib_step" where
  "EIB_Cache_Remove_complete =
     EIBC_CHECKRESULT EIB_CACHE_REMOVE 2 (EIBC_RETURN_OK)"

definition EIB_Cache_Remove_request :: "(nat \<Rightarrow> uchar) \<Rightarrow> eibaddr_t \<Rightarrow> CArray option" where
  "EIB_Cache_Remove_request stack dest =
     Some (EIBC_SEND EIB_CACHE_REMOVE (EIBC_SETADDR dest 2 (EIBC_INIT_SEND 4 stack)))"

definition EIB_LoadImage_complete :: "eib_step" where
  "EIB_LoadImage_complete =
     EIBC_CHECKRESULT EIB_LOAD_IMAGE 4 (EIBC_RETURN_UINT16 2)"

definition EIB_LoadImage_request :: "(nat \<Rightarrow> uchar) \<Rightarrow> CArray \<Rightarrow> CArray option" where
  "EIB_LoadImage_request stack img =
     map_option (EIBC_SEND EIB_LOAD_IMAGE) (EIBC_SEND_BUF img (EIBC_INIT_SEND 2 stack))"

definition EIB_MC_Authorize_complete :: "eib_step" where
  "EIB_MC_Authorize_complete =
     EIBC_CHECKRESULT EIB_MC_AUTHORIZE 3 (EIBC_RETURN_UINT8 2)"

definition EIB_MC_Authorize_request :: "(nat \<Rightarrow> uchar) \<Rightarrow> CArray \<Rightarrow> CArray option" where
  "EIB_MC_Authorize_request stack key =
     Some (EIBC_SEND EIB_MC_AUTHORIZE (EIBC_SETKEY key 2 (EIBC_INIT_SEND 6 stack)))"

definition EIB_MC_Connect_complete :: "eib_step" where
  "EIB_MC_Connect_complete =
     EIBC_CHECKRESULT EIB_MC_CONNECTION 2 (EIBC_RETURN_OK)"

definition EIB_MC_Connect_request :: "(nat \<Rightarrow> uchar) \<Rightarrow> eibaddr_t \<Rightarrow> CArray option" where
  "EIB_MC_Connect_request stack dest =
     Some (EIBC_SEND EIB_MC_CONNECTION (EIBC_SETADDR dest 2 (EIBC_INIT_SEND 4 stack)))"

definition EIB_MC_GetMaskVersion_complete :: "eib_step" where
  "EIB_MC_GetMaskVersion_complete =
     EIBC_CHECKRESULT EIB_MC_MASK_VERSION 4 (EIBC_RETURN_UINT16 2)"

definition EIB_MC_GetMaskVersion_request :: "(nat \<Rightarrow> uchar) \<Rightarrow> CArray option" where
  "EIB_MC_GetMaskVersion_request stack =
     Some (EIBC_SEND EIB_MC_MASK_VERSION (EIBC_INIT_SEND 2 stack))"

definition EIB_MC_GetPEIType_complete :: "eib_step" where
  "EIB_MC_GetPEIType_complete =
     EIBC_CHECKRESULT EIB_MC_PEI_TYPE 4 (EIBC_RETURN_UINT16 2)"

definition EIB_MC_GetPEIType_request :: "(nat \<Rightarrow> uchar) \<Rightarrow> CArray option" where
  "EIB_MC_GetPEIType_request stack =
     Some (EIBC_SEND EIB_MC_PEI_TYPE (EIBC_INIT_SEND 2 stack))"

definition EIB_MC_Individual_Open_complete :: "eib_step" where
  "EIB_MC_Individual_Open_complete =
     EIBC_CHECKRESULT EIB_MC_INDIVIDUAL 2 (EIBC_RETURN_OK)"

definition EIB_MC_Individual_Open_request :: "(nat \<Rightarrow> uchar) \<Rightarrow> eibaddr_t \<Rightarrow> CArray option" where
  "EIB_MC_Individual_Open_request stack dest =
     Some (EIBC_SEND EIB_MC_INDIVIDUAL (EIBC_SETADDR dest 2 (EIBC_INIT_SEND 4 stack)))"

definition EIB_MC_Progmode_Off_complete :: "eib_step" where
  "EIB_MC_Progmode_Off_complete =
     EIBC_CHECKRESULT EIB_MC_PROG_MODE 2 (EIBC_RETURN_OK)"

definition EIB_MC_Progmode_Off_request :: "(nat \<Rightarrow> uchar) \<Rightarrow> CArray option" where
  "EIB_MC_Progmode_Off_request stack =
     Some (EIBC_SEND EIB_MC_PROG_MODE (EIBC_UINT8 0 2 (EIBC_INIT_SEND 3 stack)))"

definition EIB_MC_Progmode_On_complete :: "eib_step" where
  "EIB_MC_Progmode_On_complete =
     EIBC_CHECKRESULT EIB_MC_PROG_MODE 2 (EIBC_RETURN_OK)"

definition EIB_MC_Progmode_On_request :: "(nat \<Rightarrow> uchar) \<Rightarrow> CArray option" where
  "EIB_MC_Progmode_On_request stack =
     Some (EIBC_SEND EIB_MC_PROG_MODE (EIBC_UINT8 1 2 (EIBC_INIT_SEND 3 stack)))"

definition EIB_MC_Progmode_Status_complete :: "eib_step" where
  "EIB_MC_Progmode_Status_complete =
     EIBC_CHECKRESULT EIB_MC_PROG_MODE 3 (EIBC_RETURN_UINT8 2)"

definition EIB_MC_Progmode_Status_request :: "(nat \<Rightarrow> uchar) \<Rightarrow> CArray option" where
  "EIB_MC_Progmode_Status_request stack =
     Some (EIBC_SEND EIB_MC_PROG_MODE (EIBC_UINT8 3 2 (EIBC_INIT_SEND 3 stack)))"

definition EIB_MC_Progmode_Toggle_complete :: "eib_step" where
  "EIB_MC_Progmode_Toggle_complete =
     EIBC_CHECKRESULT EIB_MC_PROG_MODE 2 (EIBC_RETURN_OK)"

definition EIB_MC_Progmode_Toggle_request :: "(nat \<Rightarrow> uchar) \<Rightarrow> CArray option" where
  "EIB_MC_Progmode_Toggle_request stack =
     Some (EIBC_SEND EIB_MC_PROG_MODE (EIBC_UINT8 2 2 (EIBC_INIT_SEND 3 stack)))"

definition EIB_MC_PropertyDesc_complete :: "eib_step" where
  "EIB_MC_PropertyDesc_complete =
     EIBC_CHECKRESULT EIB_MC_PROP_DESC 6 (EIBC_RETURN_PTR2 2 (EIBC_RETURN_PTR4 3 (EIBC_RETURN_PTR3 5 (EIBC_RETURN_OK))))"

definition EIB_MC_PropertyDesc_request :: "(nat \<Rightarrow> uchar) \<Rightarrow> uchar \<Rightarrow> uchar \<Rightarrow> CArray option" where
  "EIB_MC_PropertyDesc_request stack obj propertyno =
     Some (EIBC_SEND EIB_MC_PROP_DESC (EIBC_SETUINT8 propertyno 3 (EIBC_SETUINT8 obj 2 (EIBC_INIT_SEND 4 stack))))"

definition EIB_MC_PropertyRead_complete :: "nat \<Rightarrow> eib_step" where
  "EIB_MC_PropertyRead_complete maxlen =
     EIBC_CHECKRESULT EIB_MC_PROP_READ 2 (EIBC_RETURN_BUF 2 maxlen)"

definition EIB_MC_PropertyRead_request :: "(nat \<Rightarrow> uchar) \<Rightarrow> uchar \<Rightarrow> uchar \<Rightarrow> 16 word \<Rightarrow> uchar \<Rightarrow> CArray option" where
  "EIB_MC_PropertyRead_request stack obj propertyno start nr_of_elem =
     Some (EIBC_SEND EIB_MC_PROP_READ (EIBC_SETUINT8 nr_of_elem 6 (EIBC_SETUINT16 start 4 (EIBC_SETUINT8 propertyno 3 (EIBC_SETUINT8 obj 2 (EIBC_INIT_SEND 7 stack))))))"

definition EIB_MC_PropertyScan_complete :: "nat \<Rightarrow> eib_step" where
  "EIB_MC_PropertyScan_complete maxlen =
     EIBC_CHECKRESULT EIB_MC_PROP_SCAN 2 (EIBC_RETURN_BUF 2 maxlen)"

definition EIB_MC_PropertyScan_request :: "(nat \<Rightarrow> uchar) \<Rightarrow> CArray option" where
  "EIB_MC_PropertyScan_request stack =
     Some (EIBC_SEND EIB_MC_PROP_SCAN (EIBC_INIT_SEND 2 stack))"

definition EIB_MC_PropertyWrite_complete :: "nat \<Rightarrow> eib_step" where
  "EIB_MC_PropertyWrite_complete maxlen =
     EIBC_CHECKRESULT EIB_MC_PROP_WRITE 2 (EIBC_RETURN_BUF 2 maxlen)"

definition EIB_MC_PropertyWrite_request :: "(nat \<Rightarrow> uchar) \<Rightarrow> uchar \<Rightarrow> uchar \<Rightarrow> 16 word \<Rightarrow> uchar \<Rightarrow> CArray \<Rightarrow> CArray option" where
  "EIB_MC_PropertyWrite_request stack obj propertyno start nr_of_elem buf =
     map_option (EIBC_SEND EIB_MC_PROP_WRITE) (EIBC_SEND_BUF buf (EIBC_SETUINT8 nr_of_elem 6 (EIBC_SETUINT16 start 4 (EIBC_SETUINT8 propertyno 3 (EIBC_SETUINT8 obj 2 (EIBC_INIT_SEND 7 stack))))))"

definition EIB_MC_Read_complete :: "nat \<Rightarrow> eib_step" where
  "EIB_MC_Read_complete maxlen =
     EIBC_CHECKRESULT EIB_MC_READ 2 (EIBC_RETURN_BUF 2 maxlen)"

definition EIB_MC_Read_request :: "(nat \<Rightarrow> uchar) \<Rightarrow> 16 word \<Rightarrow> nat \<Rightarrow> CArray option" where
  "EIB_MC_Read_request stack addr buf_maxlen =
     Some (EIBC_SEND EIB_MC_READ (EIBC_SETLEN (buf_maxlen) 4 (EIBC_SETUINT16 addr 2 (EIBC_INIT_SEND 6 stack))))"

definition EIB_MC_ReadADC_complete :: "eib_step" where
  "EIB_MC_ReadADC_complete =
     EIBC_CHECKRESULT EIB_MC_ADC_READ 4 (EIBC_RETURN_PTR1 2 (EIBC_RETURN_OK))"

definition EIB_MC_ReadADC_request :: "(nat \<Rightarrow> uchar) \<Rightarrow> uchar \<Rightarrow> uchar \<Rightarrow> CArray option" where
  "EIB_MC_ReadADC_request stack channel count =
     Some (EIBC_SEND EIB_MC_ADC_READ (EIBC_SETUINT8 count 3 (EIBC_SETUINT8 channel 2 (EIBC_INIT_SEND 4 stack))))"

definition EIB_MC_Restart_complete :: "eib_step" where
  "EIB_MC_Restart_complete =
     EIBC_CHECKRESULT EIB_MC_RESTART 2 (EIBC_RETURN_OK)"

definition EIB_MC_Restart_request :: "(nat \<Rightarrow> uchar) \<Rightarrow> CArray option" where
  "EIB_MC_Restart_request stack =
     Some (EIBC_SEND EIB_MC_RESTART (EIBC_INIT_SEND 2 stack))"

definition EIB_MC_SetKey_complete :: "eib_step" where
  "EIB_MC_SetKey_complete =
     EIBC_RETURNERROR EIB_PROCESSING_ERROR EPERM (EIBC_CHECKRESULT EIB_MC_KEY_WRITE 2 (EIBC_RETURN_OK))"

definition EIB_MC_SetKey_request :: "(nat \<Rightarrow> uchar) \<Rightarrow> CArray \<Rightarrow> uchar \<Rightarrow> CArray option" where
  "EIB_MC_SetKey_request stack key level =
     Some (EIBC_SEND EIB_MC_KEY_WRITE (EIBC_SETUINT8 level 6 (EIBC_SETKEY key 2 (EIBC_INIT_SEND 7 stack))))"

definition EIB_MC_Write_complete :: "nat \<Rightarrow> eib_step" where
  "EIB_MC_Write_complete sendlen =
     EIBC_RETURNERROR EIB_ERROR_VERIFY EIO (EIBC_CHECKRESULT EIB_MC_WRITE 2 (EIBC_RETURN_LEN sendlen))"

definition EIB_MC_Write_request :: "(nat \<Rightarrow> uchar) \<Rightarrow> 16 word \<Rightarrow> CArray \<Rightarrow> CArray option" where
  "EIB_MC_Write_request stack addr buf =
     map_option (EIBC_SEND EIB_MC_WRITE) (EIBC_SEND_BUF buf (EIBC_SETLEN (length buf) 4 (EIBC_SETUINT16 addr 2 (EIBC_INIT_SEND 6 stack))))"

definition EIB_MC_Write_Plain_complete :: "nat \<Rightarrow> eib_step" where
  "EIB_MC_Write_Plain_complete sendlen =
     EIBC_CHECKRESULT EIB_MC_WRITE_NOVERIFY 2 (EIBC_RETURN_LEN sendlen)"

definition EIB_MC_Write_Plain_request :: "(nat \<Rightarrow> uchar) \<Rightarrow> 16 word \<Rightarrow> CArray \<Rightarrow> CArray option" where
  "EIB_MC_Write_Plain_request stack addr buf =
     map_option (EIBC_SEND EIB_MC_WRITE_NOVERIFY) (EIBC_SEND_BUF buf (EIBC_SETLEN (length buf) 4 (EIBC_SETUINT16 addr 2 (EIBC_INIT_SEND 6 stack))))"

definition EIB_M_GetMaskVersion_complete :: "eib_step" where
  "EIB_M_GetMaskVersion_complete =
     EIBC_CHECKRESULT EIB_MASK_VERSION 4 (EIBC_RETURN_UINT16 2)"

definition EIB_M_GetMaskVersion_request :: "(nat \<Rightarrow> uchar) \<Rightarrow> eibaddr_t \<Rightarrow> CArray option" where
  "EIB_M_GetMaskVersion_request stack dest =
     Some (EIBC_SEND EIB_MASK_VERSION (EIBC_SETADDR dest 2 (EIBC_INIT_SEND 4 stack)))"

definition EIB_M_Progmode_Off_complete :: "eib_step" where
  "EIB_M_Progmode_Off_complete =
     EIBC_CHECKRESULT EIB_PROG_MODE 2 (EIBC_RETURN_OK)"

definition EIB_M_Progmode_Off_request :: "(nat \<Rightarrow> uchar) \<Rightarrow> eibaddr_t \<Rightarrow> CArray option" where
  "EIB_M_Progmode_Off_request stack dest =
     Some (EIBC_SEND EIB_PROG_MODE (EIBC_UINT8 0 4 (EIBC_SETADDR dest 2 (EIBC_INIT_SEND 5 stack))))"

definition EIB_M_Progmode_On_complete :: "eib_step" where
  "EIB_M_Progmode_On_complete =
     EIBC_CHECKRESULT EIB_PROG_MODE 2 (EIBC_RETURN_OK)"

definition EIB_M_Progmode_On_request :: "(nat \<Rightarrow> uchar) \<Rightarrow> eibaddr_t \<Rightarrow> CArray option" where
  "EIB_M_Progmode_On_request stack dest =
     Some (EIBC_SEND EIB_PROG_MODE (EIBC_UINT8 1 4 (EIBC_SETADDR dest 2 (EIBC_INIT_SEND 5 stack))))"

definition EIB_M_Progmode_Status_complete :: "eib_step" where
  "EIB_M_Progmode_Status_complete =
     EIBC_CHECKRESULT EIB_PROG_MODE 3 (EIBC_RETURN_UINT8 2)"

definition EIB_M_Progmode_Status_request :: "(nat \<Rightarrow> uchar) \<Rightarrow> eibaddr_t \<Rightarrow> CArray option" where
  "EIB_M_Progmode_Status_request stack dest =
     Some (EIBC_SEND EIB_PROG_MODE (EIBC_UINT8 3 4 (EIBC_SETADDR dest 2 (EIBC_INIT_SEND 5 stack))))"

definition EIB_M_Progmode_Toggle_complete :: "eib_step" where
  "EIB_M_Progmode_Toggle_complete =
     EIBC_CHECKRESULT EIB_PROG_MODE 2 (EIBC_RETURN_OK)"

definition EIB_M_Progmode_Toggle_request :: "(nat \<Rightarrow> uchar) \<Rightarrow> eibaddr_t \<Rightarrow> CArray option" where
  "EIB_M_Progmode_Toggle_request stack dest =
     Some (EIBC_SEND EIB_PROG_MODE (EIBC_UINT8 2 4 (EIBC_SETADDR dest 2 (EIBC_INIT_SEND 5 stack))))"

definition EIB_M_ReadIndividualAddresses_complete :: "nat \<Rightarrow> eib_step" where
  "EIB_M_ReadIndividualAddresses_complete maxlen =
     EIBC_CHECKRESULT EIB_M_INDIVIDUAL_ADDRESS_READ 2 (EIBC_RETURN_BUF 2 maxlen)"

definition EIB_M_ReadIndividualAddresses_request :: "(nat \<Rightarrow> uchar) \<Rightarrow> CArray option" where
  "EIB_M_ReadIndividualAddresses_request stack =
     Some (EIBC_SEND EIB_M_INDIVIDUAL_ADDRESS_READ (EIBC_INIT_SEND 2 stack))"

definition EIB_M_WriteIndividualAddress_complete :: "eib_step" where
  "EIB_M_WriteIndividualAddress_complete =
     EIBC_RETURNERROR EIB_ERROR_ADDR_EXISTS EADDRINUSE (EIBC_RETURNERROR EIB_ERROR_TIMEOUT ETIMEDOUT (EIBC_RETURNERROR EIB_ERROR_MORE_DEVICE EADDRNOTAVAIL (EIBC_CHECKRESULT EIB_M_INDIVIDUAL_ADDRESS_WRITE 2 (EIBC_RETURN_OK))))"

definition EIB_M_WriteIndividualAddress_request :: "(nat \<Rightarrow> uchar) \<Rightarrow> eibaddr_t \<Rightarrow> CArray option" where
  "EIB_M_WriteIndividualAddress_request stack dest =
     Some (EIBC_SEND EIB_M_INDIVIDUAL_ADDRESS_WRITE (EIBC_SETADDR dest 2 (EIBC_INIT_SEND 4 stack)))"

definition EIBOpenBusmonitor_complete :: "eib_step" where
  "EIBOpenBusmonitor_complete =
     EIBC_RETURNERROR EIB_CONNECTION_INUSE EBUSY (EIBC_CHECKRESULT EIB_OPEN_BUSMONITOR 2 (EIBC_RETURN_OK))"

definition EIBOpenBusmonitor_request :: "(nat \<Rightarrow> uchar) \<Rightarrow> CArray option" where
  "EIBOpenBusmonitor_request stack =
     Some (EIBC_SEND EIB_OPEN_BUSMONITOR (EIBC_INIT_SEND 2 stack))"

definition EIBOpenBusmonitorText_complete :: "eib_step" where
  "EIBOpenBusmonitorText_complete =
     EIBC_RETURNERROR EIB_CONNECTION_INUSE EBUSY (EIBC_CHECKRESULT EIB_OPEN_BUSMONITOR_TEXT 2 (EIBC_RETURN_OK))"

definition EIBOpenBusmonitorText_request :: "(nat \<Rightarrow> uchar) \<Rightarrow> CArray option" where
  "EIBOpenBusmonitorText_request stack =
     Some (EIBC_SEND EIB_OPEN_BUSMONITOR_TEXT (EIBC_INIT_SEND 2 stack))"

definition EIBOpenBusmonitorTS_complete :: "eib_step" where
  "EIBOpenBusmonitorTS_complete =
     EIBC_RETURNERROR EIB_CONNECTION_INUSE EBUSY (EIBC_CHECKRESULT EIB_OPEN_BUSMONITOR_TS 6 (EIBC_RETURN_PTR7 2 (EIBC_RETURN_OK)))"

definition EIBOpenBusmonitorTS_request :: "(nat \<Rightarrow> uchar) \<Rightarrow> CArray option" where
  "EIBOpenBusmonitorTS_request stack =
     Some (EIBC_SEND EIB_OPEN_BUSMONITOR_TS (EIBC_INIT_SEND 2 stack))"

definition EIBOpen_GroupSocket_complete :: "eib_step" where
  "EIBOpen_GroupSocket_complete =
     EIBC_CHECKRESULT EIB_OPEN_GROUPCON 2 (EIBC_RETURN_OK)"

definition EIBOpen_GroupSocket_request :: "(nat \<Rightarrow> uchar) \<Rightarrow> bool \<Rightarrow> CArray option" where
  "EIBOpen_GroupSocket_request stack write_only =
     Some (EIBC_SEND EIB_OPEN_GROUPCON (EIBC_SETBOOL write_only 4 (EIBC_INIT_SEND 5 stack)))"

definition EIBOpenT_Broadcast_complete :: "eib_step" where
  "EIBOpenT_Broadcast_complete =
     EIBC_CHECKRESULT EIB_OPEN_T_BROADCAST 2 (EIBC_RETURN_OK)"

definition EIBOpenT_Broadcast_request :: "(nat \<Rightarrow> uchar) \<Rightarrow> bool \<Rightarrow> CArray option" where
  "EIBOpenT_Broadcast_request stack write_only =
     Some (EIBC_SEND EIB_OPEN_T_BROADCAST (EIBC_SETBOOL write_only 4 (EIBC_INIT_SEND 5 stack)))"

definition EIBOpenT_Connection_complete :: "eib_step" where
  "EIBOpenT_Connection_complete =
     EIBC_CHECKRESULT EIB_OPEN_T_CONNECTION 2 (EIBC_RETURN_OK)"

definition EIBOpenT_Connection_request :: "(nat \<Rightarrow> uchar) \<Rightarrow> eibaddr_t \<Rightarrow> CArray option" where
  "EIBOpenT_Connection_request stack dest =
     Some (EIBC_SEND EIB_OPEN_T_CONNECTION (EIBC_SETADDR dest 2 (EIBC_INIT_SEND 5 stack)))"

definition EIBOpenT_Group_complete :: "eib_step" where
  "EIBOpenT_Group_complete =
     EIBC_CHECKRESULT EIB_OPEN_T_GROUP 2 (EIBC_RETURN_OK)"

definition EIBOpenT_Group_request :: "(nat \<Rightarrow> uchar) \<Rightarrow> eibaddr_t \<Rightarrow> bool \<Rightarrow> CArray option" where
  "EIBOpenT_Group_request stack dest write_only =
     Some (EIBC_SEND EIB_OPEN_T_GROUP (EIBC_SETBOOL write_only 4 (EIBC_SETADDR dest 2 (EIBC_INIT_SEND 5 stack))))"

definition EIBOpenT_Individual_complete :: "eib_step" where
  "EIBOpenT_Individual_complete =
     EIBC_CHECKRESULT EIB_OPEN_T_INDIVIDUAL 2 (EIBC_RETURN_OK)"

definition EIBOpenT_Individual_request :: "(nat \<Rightarrow> uchar) \<Rightarrow> eibaddr_t \<Rightarrow> bool \<Rightarrow> CArray option" where
  "EIBOpenT_Individual_request stack dest write_only =
     Some (EIBC_SEND EIB_OPEN_T_INDIVIDUAL (EIBC_SETBOOL write_only 4 (EIBC_SETADDR dest 2 (EIBC_INIT_SEND 5 stack))))"

definition EIBOpenT_TPDU_complete :: "eib_step" where
  "EIBOpenT_TPDU_complete =
     EIBC_CHECKRESULT EIB_OPEN_T_TPDU 2 (EIBC_RETURN_OK)"

definition EIBOpenT_TPDU_request :: "(nat \<Rightarrow> uchar) \<Rightarrow> eibaddr_t \<Rightarrow> CArray option" where
  "EIBOpenT_TPDU_request stack src =
     Some (EIBC_SEND EIB_OPEN_T_TPDU (EIBC_SETADDR src 2 (EIBC_INIT_SEND 5 stack)))"

definition EIBOpenVBusmonitor_complete :: "eib_step" where
  "EIBOpenVBusmonitor_complete =
     EIBC_RETURNERROR EIB_CONNECTION_INUSE EBUSY (EIBC_CHECKRESULT EIB_OPEN_VBUSMONITOR 2 (EIBC_RETURN_OK))"

definition EIBOpenVBusmonitor_request :: "(nat \<Rightarrow> uchar) \<Rightarrow> CArray option" where
  "EIBOpenVBusmonitor_request stack =
     Some (EIBC_SEND EIB_OPEN_VBUSMONITOR (EIBC_INIT_SEND 2 stack))"

definition EIBOpenVBusmonitorText_complete :: "eib_step" where
  "EIBOpenVBusmonitorText_complete =
     EIBC_RETURNERROR EIB_CONNECTION_INUSE EBUSY (EIBC_CHECKRESULT EIB_OPEN_VBUSMONITOR_TEXT 2 (EIBC_RETURN_OK))"

definition EIBOpenVBusmonitorText_request :: "(nat \<Rightarrow> uchar) \<Rightarrow> CArray option" where
  "EIBOpenVBusmonitorText_request stack =
     Some (EIBC_SEND EIB_OPEN_VBUSMONITOR_TEXT (EIBC_INIT_SEND 2 stack))"

definition EIBOpenVBusmonitorTS_complete :: "eib_step" where
  "EIBOpenVBusmonitorTS_complete =
     EIBC_RETURNERROR EIB_CONNECTION_INUSE EBUSY (EIBC_CHECKRESULT EIB_OPEN_VBUSMONITOR_TS 6 (EIBC_RETURN_PTR7 2 (EIBC_RETURN_OK)))"

definition EIBOpenVBusmonitorTS_request :: "(nat \<Rightarrow> uchar) \<Rightarrow> CArray option" where
  "EIBOpenVBusmonitorTS_request stack =
     Some (EIBC_SEND EIB_OPEN_VBUSMONITOR_TS (EIBC_INIT_SEND 2 stack))"

definition EIBReset_complete :: "eib_step" where
  "EIBReset_complete =
     EIBC_CHECKRESULT EIB_RESET_CONNECTION 2 (EIBC_RETURN_OK)"

definition EIBReset_request :: "(nat \<Rightarrow> uchar) \<Rightarrow> CArray option" where
  "EIBReset_request stack =
     Some (EIBC_SEND EIB_RESET_CONNECTION (EIBC_INIT_SEND 2 stack))"

definition EIBSendAPDU_request :: "(nat \<Rightarrow> uchar) \<Rightarrow> CArray \<Rightarrow> CArray option" where
  "EIBSendAPDU_request stack data =
     map_option (EIBC_SEND EIB_APDU_PACKET) (EIBC_SEND_BUF_LEN data 2 (EIBC_INIT_SEND 2 stack))"

definition EIBSendGroup_request :: "(nat \<Rightarrow> uchar) \<Rightarrow> eibaddr_t \<Rightarrow> CArray \<Rightarrow> CArray option" where
  "EIBSendGroup_request stack dest data =
     map_option (EIBC_SEND EIB_GROUP_PACKET) (EIBC_SEND_BUF_LEN data 2 (EIBC_SETADDR dest 2 (EIBC_INIT_SEND 4 stack)))"

definition EIBSendTPDU_request :: "(nat \<Rightarrow> uchar) \<Rightarrow> eibaddr_t \<Rightarrow> CArray \<Rightarrow> CArray option" where
  "EIBSendTPDU_request stack dest data =
     map_option (EIBC_SEND EIB_APDU_PACKET) (EIBC_SEND_BUF_LEN data 2 (EIBC_SETADDR dest 2 (EIBC_INIT_SEND 4 stack)))"

end
