(* ===== verification/DaemonProps.thy ===== *)
theory DaemonProps
  imports DaemonProofs ClientApi
begin

text \<open>The properties of the daemon as a whole and of the way from one client to another.\<close>

section \<open>Survival\<close>




text \<open>at every moment of such a run each registration of the dispatcher belongs to the open handler
  of its client, and a client has at most one.\<close>

theorem registrations_have_handlers:
  assumes "list_all event_ok es" and "daemon_run da es daemon_new = Some (out, d)"
  shows "filter_mset (\<lambda>r. fst r = n) (regs (d_layer3 d)) \<subseteq># slots n (d_handler d n)"
  using daemon_run_ok [OF daemon_inv_new assms(1), of da] assms(2)
  by (auto simp: step_ok_def daemon_inv_def regs_ok_def own_def)

lemma registrations_have_handlers_witness:
  "filter_mset (\<lambda>r. fst r = 1) (regs (d_layer3 daemon_new)) \<subseteq># slots 1 (d_handler daemon_new 1)"
  by (rule registrations_have_handlers [of "[]" 0 "[]"]) simp_all

section \<open>From client to client\<close>

lemma EIBTYPE_Cons [simp]: "EIBTYPE (a # b # m) = mk16 a b"
  by (simp add: EIBTYPE_def)

lemma type_bytes [simp]:
  "mk16 0 0x26 = 0x26" "mk16 0 0x27 = 0x27" "hi8 0x26 = 0" "lo8 0x26 = 0x26" "hi8 0x27 = 0" "lo8 0x27 = 0x27"
  by (simp_all add: mk16_def hi8_def lo8_def)

lemma INIT_SEND [simp]:
  "EIBC_INIT_SEND 2 stack = [stack 0, stack 1]"
  "EIBC_INIT_SEND 4 stack = [stack 0, stack 1, stack 2, stack 3]"
  "EIBC_INIT_SEND 5 stack = [stack 0, stack 1, stack 2, stack 3, stack 4]"
  by (simp_all add: EIBC_INIT_SEND_def eval_nat_numeral)

lemma open_message: "EIBOpen_GroupSocket_request stack wo = Some [0, 0x26, stack 2, stack 3, if wo then 0xff else 0]"
  by (simp add: EIBOpen_GroupSocket_request_def EIBC_SEND_def EIBC_SETBOOL_def)

lemma write_message:
  "2 \<le> length p \<Longrightarrow> EIBSendGroup_request stack dst p = Some ([0, 0x27, hi8 dst, lo8 dst] @ p)"
  by (simp add: EIBSendGroup_request_def EIBC_SEND_def EIBC_SEND_BUF_LEN_def EIBC_SETADDR_def)

text \<open>A group socket is opened.\<close>

definition group_socket :: "nat \<Rightarrow> bool \<Rightarrow> CArray \<Rightarrow> daemon" where
  "group_socket n wo m =
     set_handler n (GroupSocket_handler (endpoint_new 0 True))
       (if wo then Layer3_new else Layer3_new\<lparr>l3_group := [\<lparr>gi_cb = n, gi_dest = 0\<rparr>]\<rparr>)
       (daemon_new\<lparr>d_buf := (\<lambda>_. [])(n := m)\<rparr>)"

lemma group_socket_opened:
  assumes "EIBOpen_GroupSocket_request stack wo = Some m"
  shows "daemon_step da (Client_message n m t a True) daemon_new = Some ([Message n [0, 0x26]], group_socket n wo m)"
proof -
  have m: "m = [0, 0x26, stack 2, stack 3, if wo then 0xff else 0]" using assms by (simp add: open_message)
  have o: "GroupSocket_open n m a Layer3_new = (Some (GroupSocket_handler (endpoint_new 0 True)),
      if wo then Layer3_new else Layer3_new\<lparr>l3_group := [\<lparr>gi_cb = n, gi_dest = 0\<rparr>]\<rparr>)"
    by (simp add: m GroupSocket_open_def A_GroupSocket_args_def GroupSocket_new_def endpoint_new_def
        registerGroupCallBack_def Layer3_new_def Let_def)
  have "EIBTYPE m = 0x26" "take 2 m = [0, 0x26]" by (simp_all add: m)
  with o show ?thesis
    by (simp add: daemon_new_def ClientConnection_request_def begin_Do_def set_handler_def group_socket_def Let_def)
qed

text \<open>The daemon of the sender.\<close>

lemma GroupSocket_sends:
  assumes "ga_data g \<noteq> []"
  shows "GroupSocket_Send g =
    Some (L_Data_request 0 (ga_dst g) GroupAddress PRIO_LOW ((ga_data g)[0 := ga_data g ! 0 AND 0x03]))"
  using XXX_REQ_ok [OF assms] assms by (cases "ga_data g") (auto simp: GroupSocket_Send_def T_DATA_XXX_REQ_ToPacket_def)

definition group_telegram :: "eibaddr_t \<Rightarrow> eibaddr_t \<Rightarrow> CArray \<Rightarrow> l_data" where
  "group_telegram src dst p = L_Data_request src dst GroupAddress PRIO_LOW (p[0 := p ! 0 AND 0x03])"

lemma group_socket_writes:
  assumes "2 \<le> length p" and "EIBSendGroup_request stack dst p = Some m"
  shows "\<exists>d. daemon_step src (Client_message n m t a True) (group_socket n True m1) = Some ([], d)
    \<and> l3_calls (d_layer3 d) = [L2_Open, L2_Send_L_Data (group_telegram src dst p)]"
proof -
  have m: "m = [0, 0x27, hi8 dst, lo8 dst] @ p" using assms by (simp add: write_message)
  have "A_GroupSocket_Do m = Do_send \<lparr>ga_data = p, ga_src = 0, ga_dst = dst\<rparr>"
    by (simp add: m A_GroupSocket_Do_def)
  moreover have "GroupSocket_Send \<lparr>ga_data = p, ga_src = 0, ga_dst = dst\<rparr> = Some (group_telegram 0 dst p)"
    using GroupSocket_sends [of "\<lparr>ga_data = p, ga_src = 0, ga_dst = dst\<rparr>"] assms(1) by (cases p) (auto simp: group_telegram_def)
  ultimately show ?thesis
    by (simp add: group_socket_def set_handler_def Do_turn_def Let_def)
      (simp add: Layer3_send_L_Data_def Layer3_call_def Layer3_new_def group_telegram_def L_Data_request_def L_Data_new_def)
qed

text \<open>The daemon of the receiver.\<close>

lemma group_socket_reads:
  assumes "dst \<noteq> 0" and "p \<noteq> []" and "L_Data_asserts (group_telegram src dst p)"
  shows "\<exists>d d'. daemon_step da (Bus_frame now later (L_Data_PDU (group_telegram src dst p))) (group_socket n False m1) = Some ([], d)
    \<and> daemon_step da (Run_event n a True) d =
      Some ([Message n ([0, 0x27, hi8 src, lo8 src, hi8 dst, lo8 dst] @ p[0 := p ! 0 AND 0x03])], d')"
proof -
  define l where "l = group_telegram src dst p"
  define q where "q = p[0 := p ! 0 AND 0x03]"
  define s where "s = d_layer3 (group_socket n False m1)"
  have l: "AddrType l = GroupAddress" "dest l = dst" "source l = src" "\<not> repeated l" "data l = q" "valid_length l"
    by (simp_all add: l_def q_def group_telegram_def L_Data_request_def L_Data_new_def)
  have s: "l3_group s = [\<lparr>gi_cb = n, gi_dest = 0\<rparr>]" by (simp add: s_def group_socket_def set_handler_def)
  obtain pk where "L_Data_ToPacket (l\<lparr>repeated := True\<rparr>) = Some pk"
    using assms(3) by (auto simp: l_def L_Data_ToPacket_def L_Data_asserts_def Let_def)
  then obtain s' where f: "Layer3_frame da now later (L_Data_PDU l) s = Some ([Deliver_Data n l], s')"
    using l s assms(1) by (auto simp: Layer3_frame_def Layer3_data_def Layer3_deliver_def Let_def)
  have "unnumbered l = Some q"
    using assms(2) by (cases p) (simp_all add: unnumbered_iff l q_def and.assoc)
  then have r: "GroupSocket_Get_L_Data l c = endpoint_put \<lparr>ga_data = q, ga_src = src, ga_dst = dst\<rparr> c" for c
    by (simp add: group_socket.receive_element l)
  show ?thesis unfolding l_def [symmetric] q_def [symmetric]
    using f by (simp add: s_def deliver_def group_socket_def set_handler_def r endpoint_put_def endpoint_new_def
        Run_turn_def fetch_def endpoint_get_def list_get_def messages_def A_GroupSocket_reply_def EIBSETTYPE_def)
qed

text \<open>What the client library makes of the message.\<close>

lemma group_message_read:
  assumes "m = [0, 0x27, hi8 src, lo8 src, hi8 dst, lo8 dst] @ q" and "ei_message e = m" and "ei_size e = length m"
  shows "EIBGetGroup_Src_complete maxlen e out =
    Returned (out\<lparr>eo_ret := int (min (length q) maxlen), eo_buf := take maxlen q, eo_ptr5 := Some src, eo_ptr6 := Some dst\<rparr>)"
proof -
  obtain tail where b: "ei_buf e = m @ tail"
    using assms(2) by (metis append_take_drop_id ei_message_def)
  show ?thesis
    by (simp add: EIBGetGroup_Src_complete_def EIBC_CHECKRESULT_def EIBC_RETURN_PTR5_def EIBC_RETURN_PTR6_def EIBC_RETURN_BUF_def
        EIB_reads_def b assms(1,3) Let_def nth_append min_def)
qed

text \<open>C2: a group telegram from client to client. Let two daemons have just been started, each with one client, and let the
  first client open a group socket for writing, the second one for reading. What the first writes with \<open>EIBSendGroup\<close>, with a payload of
  at most 255 bytes and to a group address other than 0 (the broadcast address), becomes a frame, the last call of its daemon's
  driver, whose packet the daemon of the second turns into a message, from
  which \<open>EIBGetGroup_Src\<close> of the second client returns, up to the size of its buffer, the payload with its transport bits cleared,
  the group address, and the address of the first daemon's interface as the source.
\<close>

theorem group_telegram_end_to_end:
  assumes "EIBOpen_GroupSocket_request stack True = Some opA" and "EIBSendGroup_request stack dst p = Some wmsg"
    and "EIBOpen_GroupSocket_request stack' False = Some opB" and "dst \<noteq> 0" and "length p \<le> 255"
  shows "\<exists>dA l packet dB m.
    daemon_run src [Client_message n opA t a True, Client_message n wmsg t a True] daemon_new = Some ([Message n [0, 0x26]], dA) \<and>
    last (l3_calls (d_layer3 dA)) = L2_Send_L_Data l \<and> L_Data_ToPacket l = Some packet \<and>
    daemon_run da [Client_message k opB t' a' True, Bus_frame now later (LPDU_fromPacket packet), Run_event k a' True] daemon_new =
      Some ([Message k [0, 0x26], Message k m], dB) \<and>
    (\<forall>e out. ei_message e = m \<and> ei_size e = length m \<longrightarrow> EIBGetGroup_Src_complete maxlen e out =
      Returned (out\<lparr>eo_ret := int (min (length p) maxlen), eo_buf := take maxlen (p[0 := p ! 0 AND 0x03]),
        eo_ptr5 := Some src, eo_ptr6 := Some dst\<rparr>))"
proof -
  define l where "l = group_telegram src dst p"
  have p: "2 \<le> length p"
    using assms(2) by (auto simp: EIBSendGroup_request_def EIBC_SEND_BUF_LEN_def split: if_splits)
  then have "p \<noteq> []" by auto
  have ok: "L_Data_asserts l" "lpdu_ok (L_Data_PDU l)"
    using p assms(5) by (auto simp: l_def group_telegram_def L_Data_request_def L_Data_new_def L_Data_asserts_def lpdu_ok_def
        priority_read_back_def EIB_Priority_bits_def EIB_Priority_read_def)
  obtain packet where packet: "L_Data_ToPacket l = Some packet" "LPDU_fromPacket packet = L_Data_PDU l"
    using lpdu_ok_encodes [OF ok(2)] LPDU_encode_parse [OF ok(2)] by auto
  obtain dA where dA: "daemon_step src (Client_message n wmsg t a True) (group_socket n True opA) = Some ([], dA)"
    "l3_calls (d_layer3 dA) = [L2_Open, L2_Send_L_Data l]"
    using group_socket_writes [OF p assms(2)] l_def by blast
  obtain d dB where dB: "daemon_step da (Bus_frame now later (L_Data_PDU l)) (group_socket k False opB) = Some ([], d)"
    "daemon_step da (Run_event k a' True) d =
      Some ([Message k ([0, 0x27, hi8 src, lo8 src, hi8 dst, lo8 dst] @ p[0 := p ! 0 AND 0x03])], dB)"
    using group_socket_reads [OF assms(4) \<open>p \<noteq> []\<close> ok(1) [unfolded l_def]] unfolding l_def by blast
  define m where "m = [0, 0x27, hi8 src, lo8 src, hi8 dst, lo8 dst] @ p[0 := p ! 0 AND 0x03]"
  have "daemon_run src [Client_message n opA t a True, Client_message n wmsg t a True] daemon_new = Some ([Message n [0, 0x26]], dA)"
    using dA group_socket_opened [OF assms(1)] by (simp del: daemon_step.simps)
  moreover have "last (l3_calls (d_layer3 dA)) = L2_Send_L_Data l" using dA by simp
  moreover have "daemon_run da [Client_message k opB t' a' True, Bus_frame now later (LPDU_fromPacket packet), Run_event k a' True] daemon_new =
      Some ([Message k [0, 0x26], Message k m], dB)"
    using dB packet(2) group_socket_opened [OF assms(3)] by (simp add: m_def del: daemon_step.simps)
  moreover have "EIBGetGroup_Src_complete maxlen e out =
      Returned (out\<lparr>eo_ret := int (min (length p) maxlen), eo_buf := take maxlen (p[0 := p ! 0 AND 0x03]),
        eo_ptr5 := Some src, eo_ptr6 := Some dst\<rparr>)" if "ei_message e = m" "ei_size e = length m" for e out
    using group_message_read [OF m_def that, of maxlen out] by simp
  ultimately show ?thesis using packet(1) by blast
qed

lemma group_telegram_end_to_end_witness:
  "\<exists>dA l packet dB m.
    daemon_run 0x1101 [Client_message 1 [0, 0x26, 0, 0, 0xff] False True True, Client_message 1 [0, 0x27, 0, 1, 0, 0x81] False True True]
      daemon_new = Some ([Message 1 [0, 0x26]], dA) \<and>
    last (l3_calls (d_layer3 dA)) = L2_Send_L_Data l \<and> L_Data_ToPacket l = Some packet \<and>
    daemon_run 0x1102 [Client_message 2 [0, 0x26, 0, 0, 0] False True True, Bus_frame 0 1 (LPDU_fromPacket packet), Run_event 2 True True]
      daemon_new = Some ([Message 2 [0, 0x26], Message 2 m], dB) \<and>
    (\<forall>e out. ei_message e = m \<and> ei_size e = length m \<longrightarrow> EIBGetGroup_Src_complete 10 e out =
      Returned (out\<lparr>eo_ret := 2, eo_buf := [0, 0x81], eo_ptr5 := Some 0x1101, eo_ptr6 := Some 1\<rparr>))"
  using group_telegram_end_to_end [where stack = "\<lambda>_. 0" and opA = "[0, 0x26, 0, 0, 0xff]" and dst = 1 and p = "[0, 0x81]"
      and wmsg = "[0, 0x27, 0, 1, 0, 0x81]" and stack' = "\<lambda>_. 0" and opB = "[0, 0x26, 0, 0, 0]" and src = "0x1101" and n = 1
      and t = False and a = True and da = "0x1102" and k = 2 and t' = False and a' = True and now = 0 and later = 1 and maxlen = 10]
  by (simp add: open_message write_message hi8_def lo8_def del: daemon_run.simps daemon_step.simps)

section \<open>The client library and memory\<close>

text \<open>
  A longer payload gets as far as the driver: the frame of the call cannot be encoded, so that a driver that tries to
  is stopped by an \<open>assert\<close>.
\<close>

lemma long_payload_reaches_driver:
  assumes "EIBOpen_GroupSocket_request stack True = Some opA" and "EIBSendGroup_request stack dst p = Some wmsg" and "255 < length p"
  shows "\<exists>d l. daemon_run src [Client_message n opA t a True, Client_message n wmsg t a True] daemon_new = Some ([Message n [0, 0x26]], d) \<and>
    last (l3_calls (d_layer3 d)) = L2_Send_L_Data l \<and> L_Data_ToPacket l = None"
proof -
  have p: "2 \<le> length p" using assms(3) by simp
  from group_socket_writes [OF p assms(2), of src n t a opA] obtain d where
    d: "daemon_step src (Client_message n wmsg t a True) (group_socket n True opA) = Some ([], d)"
    "l3_calls (d_layer3 d) = [L2_Open, L2_Send_L_Data (group_telegram src dst p)]" by blast
  have "\<not> L_Data_asserts (group_telegram src dst p)"
    using assms(3) by (simp add: group_telegram_def L_Data_request_def L_Data_asserts_def)
  then have "L_Data_ToPacket (group_telegram src dst p) = None" by (simp add: L_Data_ToPacket_def)
  with d group_socket_opened [OF assms(1)] show ?thesis by (simp del: daemon_step.simps)
qed

text \<open>The completions that check the size of an answer before they read it.\<close>

definition checked_completions :: "nat \<Rightarrow> nat \<Rightarrow> eib_step list" where
  "checked_completions maxlen sendlen =
     [EIBGetAPDU_complete maxlen, EIBGetAPDU_Src_complete maxlen, EIBGetBusmonitorPacket_complete maxlen,
      EIBGetBusmonitorPacketTS_complete maxlen, EIBGetGroup_Src_complete maxlen, EIBGetTPDU_complete maxlen,
      EIB_Cache_Clear_complete, EIB_Cache_Disable_complete, EIB_Cache_Enable_complete, EIB_Cache_Remove_complete,
      EIB_LoadImage_complete, EIB_MC_Authorize_complete, EIB_MC_Connect_complete, EIB_MC_GetMaskVersion_complete,
      EIB_MC_GetPEIType_complete, EIB_MC_Individual_Open_complete, EIB_MC_Progmode_Off_complete, EIB_MC_Progmode_On_complete,
      EIB_MC_Progmode_Status_complete, EIB_MC_Progmode_Toggle_complete, EIB_MC_PropertyDesc_complete,
      EIB_MC_PropertyRead_complete maxlen, EIB_MC_PropertyScan_complete maxlen, EIB_MC_PropertyWrite_complete maxlen,
      EIB_MC_Read_complete maxlen, EIB_MC_ReadADC_complete, EIB_MC_Restart_complete, EIB_MC_SetKey_complete,
      EIB_MC_Write_complete sendlen, EIB_MC_Write_Plain_complete sendlen, EIB_M_GetMaskVersion_complete,
      EIB_M_Progmode_Off_complete, EIB_M_Progmode_On_complete, EIB_M_Progmode_Status_complete, EIB_M_Progmode_Toggle_complete,
      EIB_M_ReadIndividualAddresses_complete maxlen, EIB_M_WriteIndividualAddress_complete, EIBOpenBusmonitor_complete,
      EIBOpenBusmonitorText_complete, EIBOpenBusmonitorTS_complete, EIBOpen_GroupSocket_complete, EIBOpenT_Broadcast_complete,
      EIBOpenT_Connection_complete, EIBOpenT_Group_complete, EIBOpenT_Individual_complete, EIBOpenT_TPDU_complete,
      EIBOpenVBusmonitor_complete, EIBOpenVBusmonitorText_complete, EIBOpenVBusmonitorTS_complete, EIBReset_complete]"

lemmas completion_defs =
  EIBGetAPDU_complete_def EIBGetAPDU_Src_complete_def EIBGetBusmonitorPacket_complete_def
  EIBGetBusmonitorPacketTS_complete_def EIBGetGroup_Src_complete_def EIBGetTPDU_complete_def
  EIB_Cache_Clear_complete_def EIB_Cache_Disable_complete_def EIB_Cache_Enable_complete_def
  EIB_Cache_Remove_complete_def EIB_LoadImage_complete_def EIB_MC_Authorize_complete_def
  EIB_MC_Connect_complete_def EIB_MC_GetMaskVersion_complete_def EIB_MC_GetPEIType_complete_def
  EIB_MC_Individual_Open_complete_def EIB_MC_Progmode_Off_complete_def EIB_MC_Progmode_On_complete_def
  EIB_MC_Progmode_Status_complete_def EIB_MC_Progmode_Toggle_complete_def EIB_MC_PropertyDesc_complete_def
  EIB_MC_PropertyRead_complete_def EIB_MC_PropertyScan_complete_def EIB_MC_PropertyWrite_complete_def
  EIB_MC_Read_complete_def EIB_MC_ReadADC_complete_def EIB_MC_Restart_complete_def EIB_MC_SetKey_complete_def
  EIB_MC_Write_complete_def EIB_MC_Write_Plain_complete_def EIB_M_GetMaskVersion_complete_def
  EIB_M_Progmode_Off_complete_def EIB_M_Progmode_On_complete_def EIB_M_Progmode_Status_complete_def
  EIB_M_Progmode_Toggle_complete_def EIB_M_ReadIndividualAddresses_complete_def
  EIB_M_WriteIndividualAddress_complete_def EIBOpenBusmonitor_complete_def EIBOpenBusmonitorText_complete_def
  EIBOpenBusmonitorTS_complete_def EIBOpen_GroupSocket_complete_def EIBOpenT_Broadcast_complete_def
  EIBOpenT_Connection_complete_def EIBOpenT_Group_complete_def EIBOpenT_Individual_complete_def
  EIBOpenT_TPDU_complete_def EIBOpenVBusmonitor_complete_def EIBOpenVBusmonitorText_complete_def
  EIBOpenVBusmonitorTS_complete_def EIBReset_complete_def

text \<open>A completion is safe for messages of a size the step before it has checked.\<close>

definition safe_for :: "nat \<Rightarrow> eib_step \<Rightarrow> bool" where
  "safe_for n k \<longleftrightarrow> (\<forall>e out. n \<le> ei_size e \<and> ei_size e \<le> length (ei_buf e) \<longrightarrow> k e out \<noteq> Wild)"

lemma safe_steps [intro]:
  "safe_for n EIBC_RETURN_OK" "safe_for n (EIBC_RETURN_LEN sendlen)"
  "off \<le> n \<Longrightarrow> safe_for n (EIBC_RETURN_BUF off maxlen)"
  "off < n \<Longrightarrow> safe_for n (EIBC_RETURN_UINT8 off)" "off + 1 < n \<Longrightarrow> safe_for n (EIBC_RETURN_UINT16 off)"
  "safe_for n k \<Longrightarrow> off + 1 < n \<Longrightarrow> safe_for n (EIBC_RETURN_PTR1 off k)"
  "safe_for n k \<Longrightarrow> off < n \<Longrightarrow> safe_for n (EIBC_RETURN_PTR2 off k)"
  "safe_for n k \<Longrightarrow> off < n \<Longrightarrow> safe_for n (EIBC_RETURN_PTR3 off k)"
  "safe_for n k \<Longrightarrow> off + 1 < n \<Longrightarrow> safe_for n (EIBC_RETURN_PTR4 off k)"
  "safe_for n k \<Longrightarrow> off + 1 < n \<Longrightarrow> safe_for n (EIBC_RETURN_PTR5 off k)"
  "safe_for n k \<Longrightarrow> off + 1 < n \<Longrightarrow> safe_for n (EIBC_RETURN_PTR6 off k)"
  "safe_for n k \<Longrightarrow> off + 3 < n \<Longrightarrow> safe_for n (EIBC_RETURN_PTR7 off k)"
  "safe_for n k \<Longrightarrow> safe_for 0 (EIBC_CHECKRESULT t n k)" "safe_for 0 k \<Longrightarrow> safe_for 0 (EIBC_RETURNERROR t err k)"
  by (auto simp: safe_for_def EIBC_RETURN_OK_def EIBC_RETURN_LEN_def EIBC_RETURN_BUF_def EIBC_RETURN_UINT8_def EIBC_RETURN_UINT16_def
      EIBC_RETURN_PTR1_def EIBC_RETURN_PTR2_def EIBC_RETURN_PTR3_def EIBC_RETURN_PTR4_def EIBC_RETURN_PTR5_def EIBC_RETURN_PTR6_def
      EIBC_RETURN_PTR7_def EIBC_CHECKRESULT_def EIBC_RETURNERROR_def EIB_reads_def Let_def)

lemma safe_ERROR [intro]: "safe_for 0 (EIBC_CHECKRESULT t n k) \<Longrightarrow> safe_for 0 (EIBC_RETURNERROR t' err (EIBC_CHECKRESULT t n k))"
  by (rule safe_steps)

text \<open>for any answer of the daemon, fifty functions of the client library read no byte outside
  the receive buffer and copy no negative length; the three left out read the group cache.\<close>

theorem client_library_stays_inside:
  assumes "ei_size e \<le> length (ei_buf e)" and "k \<in> set (checked_completions maxlen sendlen)"
  shows "k e out \<noteq> Wild"
proof -
  have "list_all (safe_for 0) (checked_completions maxlen sendlen)"
    by (simp only: checked_completions_def list.pred_inject completion_defs; intro conjI safe_steps TrueI; simp)
  then have "safe_for 0 k" using assms(2) by (simp add: list_all_iff)
  with assms(1) show ?thesis by (auto simp: safe_for_def)
qed

lemma client_library_stays_inside_witness:
  "EIBGetGroup_Src_complete 10 \<lparr>ei_readlen = 0, ei_buf = [0, 0x27], ei_size = 2\<rparr> eib_out_new \<noteq> Wild"
  by (rule client_library_stays_inside [of _ _ 10 0]) (simp_all add: checked_completions_def)

text \<open>an answer of two or three bytes makes \<open>EIB_Cache_LastUpdates\<close> copy a negative number of bytes.\<close>

theorem last_updates_short_answer:
  "EIBTYPE (ei_buf e) = EIB_CACHE_LAST_UPDATES \<Longrightarrow> 2 \<le> ei_size e \<Longrightarrow> ei_size e < 4 \<Longrightarrow>
   EIB_Cache_LastUpdates_complete maxlen e out = Wild"
  by (auto simp: EIB_Cache_LastUpdates_complete_def EIBC_CHECKRESULT_def EIBC_RETURN_PTR4_def EIBC_RETURN_BUF_def EIB_reads_def)

lemma last_updates_short_answer_witness:
  "EIB_Cache_LastUpdates_complete 10 \<lparr>ei_readlen = 0, ei_buf = [0, 0x76], ei_size = 2\<rparr> eib_out_new = Wild"
  by (rule last_updates_short_answer) (simp_all add: mk16_def)

end
