(* ===== verification/GroupCache.thy ===== *)
theory GroupCache
  imports Layer4 Layer3 EibTypes
begin

text \<open>
  The group cache, \<open>eibd/libserver/groupcache.cpp\<close> and the requests of
  \<open>groupcacheclient.cpp\<close>: the last value of every group, sorted by the group address, and a ring
  of the last 256 updates. The entries behind the array of pointers are not shared, so the array
  is a list of entries. A call that waits is split where it waits: into its part before the
  loop and the body of the loop, which runs again at every wake-up.
\<close>

section \<open>State\<close>

record GroupCacheEntry =
  ge_data :: CArray
  ge_src :: eibaddr_t
  ge_dst :: eibaddr_t
  ge_recvtime :: int

record group_cache =
  gp_cache :: "GroupCacheEntry list"
  gp_enable :: bool
  gp_pos :: "16 word"
  gp_updates :: "eibaddr_t list"

definition GroupCache_new :: group_cache where
  "GroupCache_new = \<lparr>gp_cache = [], gp_enable = False, gp_pos = 0, gp_updates = replicate 256 0\<rparr>"

section \<open>The sorted array\<close>

text \<open>The loop of \<open>find\<close> and of \<open>remove\<close>; the result is the index of the entry.\<close>

function GroupCache_search :: "GroupCacheEntry list \<Rightarrow> eibaddr_t \<Rightarrow> int \<Rightarrow> int \<Rightarrow> nat option" where
  "GroupCache_search cache dst l r =
     (if l \<le> r then
        let p = (l + r) div 2
        in if ge_dst (cache ! nat p) = dst then Some (nat p)
           else if dst > ge_dst (cache ! nat p) then GroupCache_search cache dst (p + 1) r
           else GroupCache_search cache dst l (p - 1)
      else None)"
  by pat_completeness auto
termination by (relation "measure (\<lambda>(cache, dst, l, r). nat (r - l + 1))") auto

declare GroupCache_search.simps [simp del]

definition GroupCache_find :: "eibaddr_t \<Rightarrow> group_cache \<Rightarrow> nat option" where
  "GroupCache_find dst s = GroupCache_search (gp_cache s) dst 0 (int (length (gp_cache s)) - 1)"

definition GroupCache_remove :: "eibaddr_t \<Rightarrow> group_cache \<Rightarrow> group_cache" where
  "GroupCache_remove addr s =
     (case GroupCache_search (gp_cache s) addr 0 (int (length (gp_cache s)) - 1) of
        None \<Rightarrow> s
      | Some p \<Rightarrow> s\<lparr>gp_cache := take p (gp_cache s) @ drop (Suc p) (gp_cache s)\<rparr>)"

text \<open>The loop of \<open>add\<close>: larger entries move up, the new one takes the free place.\<close>

fun GroupCache_shift :: "GroupCacheEntry list \<Rightarrow> nat \<Rightarrow> GroupCacheEntry \<Rightarrow> GroupCacheEntry list" where
  "GroupCache_shift cache 0 entry = cache[0 := entry]"
| "GroupCache_shift cache (Suc p) entry =
     (if ge_dst (cache ! p) > ge_dst entry then GroupCache_shift (cache[Suc p := cache ! p]) p entry
      else cache[Suc p := entry])"

text \<open>The cell \<open>resize\<close> adds is written in every case; \<open>entry\<close> stands for what it holds before.\<close>

definition GroupCache_add :: "GroupCacheEntry \<Rightarrow> group_cache \<Rightarrow> group_cache" where
  "GroupCache_add entry s =
     s\<lparr>gp_cache := GroupCache_shift (gp_cache s @ [entry]) (length (gp_cache s)) entry\<rparr>"

section \<open>Frames\<close>

text \<open>\<open>now\<close> is \<open>time (0)\<close>.\<close>

definition GroupCache_Get_L_Data :: "int \<Rightarrow> l_data \<Rightarrow> group_cache \<Rightarrow> group_cache" where
  "GroupCache_Get_L_Data now l s =
     (if gp_enable s then
        (case TPDU_fromPacket (data l) of
           T_DATA_XXX_REQ_PDU d \<Rightarrow>
             if length d \<ge> 2 \<and> d ! 0 AND 0x3 = 0 \<and> (d ! 1 AND 0xC0 = 0x40 \<or> d ! 1 AND 0xC0 = 0x80) then
               let c = GroupCache_find (dest l) s;
                   s = s\<lparr>gp_updates := (gp_updates s)[unat (gp_pos s AND 0xff) := dest l], gp_pos := gp_pos s + 1\<rparr>;
                   e = \<lparr>ge_data = d, ge_src = source l, ge_dst = dest l, ge_recvtime = now\<rparr>
               in (case c of
                     Some p \<Rightarrow> s\<lparr>gp_cache := (gp_cache s)[p := e]\<rparr>
                   | None \<Rightarrow> GroupCache_add e s)
             else s
         | _ \<Rightarrow> s)
      else s)"

section \<open>Start, stop, clear\<close>

text \<open>\<open>n\<close> is the number of the cache as a callback, \<open>ok\<close> the driver's answer.\<close>

definition GroupCache_Start :: "nat \<Rightarrow> bool \<Rightarrow> layer3 \<Rightarrow> group_cache \<Rightarrow> bool \<times> layer3 \<times> group_cache" where
  "GroupCache_Start n ok l3 s =
     (if gp_enable s then (True, l3, s)
      else let (reg, l3) = registerGroupCallBack ok n 0 l3
           in if reg then (True, l3, s\<lparr>gp_enable := True\<rparr>) else (False, l3, s))"

definition GroupCache_Clear :: "group_cache \<Rightarrow> group_cache" where
  "GroupCache_Clear s = s\<lparr>gp_cache := []\<rparr>"

definition GroupCache_Stop :: "nat \<Rightarrow> layer3 \<Rightarrow> group_cache \<Rightarrow> layer3 \<times> group_cache" where
  "GroupCache_Stop n l3 s =
     (let s = GroupCache_Clear s
      in (if gp_enable s then snd (deregisterGroupCallBack n 0 l3) else l3, s\<lparr>gp_enable := False\<rparr>))"

definition GroupCache_destroy :: "nat \<Rightarrow> layer3 \<Rightarrow> group_cache \<Rightarrow> layer3" where
  "GroupCache_destroy n l3 s = (if gp_enable s then snd (deregisterGroupCallBack n 0 l3) else l3)"

definition CreateGroupCache :: "nat \<Rightarrow> bool \<Rightarrow> bool \<Rightarrow> layer3 \<Rightarrow> bool \<times> layer3 \<times> group_cache" where
  "CreateGroupCache n ok enable l3 =
     (if enable then GroupCache_Start n ok l3 GroupCache_new else (True, l3, GroupCache_new))"

section \<open>Reading\<close>

text \<open>
  An entry made up for an answer; nobody reads its time, which the code leaves uninitialised.
\<close>

definition no_entry :: "eibaddr_t \<Rightarrow> GroupCacheEntry" where
  "no_entry dst = \<lparr>ge_data = [], ge_src = 0, ge_dst = dst, ge_recvtime = 0\<rparr>"

text \<open>\<open>c && age && c->recvtime + age < time (0)\<close>\<close>

definition outdated :: "int \<Rightarrow> 16 word \<Rightarrow> GroupCacheEntry \<Rightarrow> bool" where
  "outdated now age c \<longleftrightarrow> age \<noteq> 0 \<and> ge_recvtime c + uint age < now"

datatype cache_answer = Cached GroupCacheEntry | Wait

text \<open>
  \<open>Read\<close> before its loop; when it has to wait, a read request is sent. \<open>None\<close> is a failed \<open>assert\<close>
  of an encoder.
\<close>

definition GroupCache_Read_begin ::
    "int \<Rightarrow> eibaddr_t \<Rightarrow> nat \<Rightarrow> 16 word \<Rightarrow> group_cache \<Rightarrow> (cache_answer \<times> l_data list) option" where
  "GroupCache_Read_begin now addr Timeout age s =
     (if \<not> gp_enable s then Some (Cached (no_entry 0), [])
      else
        let c = map_option (\<lambda>p. gp_cache s ! p) (GroupCache_find addr s)
        in case (case c of Some e \<Rightarrow> if outdated now age e then None else Some e | None \<Rightarrow> None) of
             Some e \<Rightarrow> Some (Cached e, [])
           | None \<Rightarrow>
               if Timeout = 0 then Some (Cached (no_entry addr), [])
               else (case A_GroupValue_Read_ToPacket of None \<Rightarrow> None
                     | Some a \<Rightarrow> map_option (\<lambda>p. (Wait, [L_Data_request 0 addr GroupAddress PRIO_LOW p]))
                                   (T_DATA_XXX_REQ_ToPacket a)))"

text \<open>The body of the loop; \<open>timeout\<close> says whether the timer ran out.\<close>

definition GroupCache_Read_wake ::
    "int \<Rightarrow> bool \<Rightarrow> eibaddr_t \<Rightarrow> 16 word \<Rightarrow> group_cache \<Rightarrow> cache_answer \<times> group_cache" where
  "GroupCache_Read_wake now timeout addr age s =
     (let c = map_option (\<lambda>p. gp_cache s ! p) (GroupCache_find addr s)
      in case c of
           Some e \<Rightarrow>
             if \<not> outdated now age e then (Cached e, s)
             else if timeout then (Cached (no_entry addr), s) else (Wait, s)
         | None \<Rightarrow>
             if timeout then
               let e = (no_entry addr)\<lparr>ge_recvtime := now\<rparr> in (Cached e, GroupCache_add e s)
             else (Wait, s))"

section \<open>The last updates\<close>

text \<open>The comparisons and subtractions of the loop are those of \<open>uint16_t\<close> values.\<close>

definition LastUpdates_clamp :: "16 word \<Rightarrow> 16 word \<Rightarrow> 16 word" where
  "LastUpdates_clamp pos start =
     (if pos < 0x100 then
        if pos < start \<and> start < pos - 0x100 then pos - 0x100 else start
      else
        if start < pos - 0x100 \<or> start > pos then pos - 0x100 else start)"

function LastUpdates_skip :: "eibaddr_t list \<Rightarrow> 16 word \<Rightarrow> 16 word \<Rightarrow> 16 word" where
  "LastUpdates_skip updates pos start =
     (if start \<noteq> pos \<and> updates ! unat (start AND 0xff) = 0 then LastUpdates_skip updates pos (start + 1) else start)"
  by pat_completeness auto

function LastUpdates_collect :: "eibaddr_t list \<Rightarrow> 16 word \<Rightarrow> 16 word \<Rightarrow> eibaddr_t list" where
  "LastUpdates_collect updates pos start =
     (if start \<noteq> pos then
        (if updates ! unat (start AND 0xff) \<noteq> 0 then [updates ! unat (start AND 0xff)] else []) @
        LastUpdates_collect updates pos (start + 1)
      else [])"
  by pat_completeness auto

lemma distance_decreases: "start \<noteq> pos \<Longrightarrow> unat (pos - (start + 1)) < unat (pos - start)" for start pos :: "16 word"
proof -
  assume "start \<noteq> pos"
  then have "pos - start \<noteq> 0" by simp
  then show ?thesis by (metis add_diff_eq diff_diff_add unat_gt_0 unat_minus_one diff_less zero_less_one)
qed

termination LastUpdates_skip
  by (relation "measure (\<lambda>(updates, pos, start). unat (pos - start))") (auto intro: distance_decreases)

termination LastUpdates_collect
  by (relation "measure (\<lambda>(updates, pos, start). unat (pos - start))") (auto intro: distance_decreases)

declare LastUpdates_skip.simps [simp del] LastUpdates_collect.simps [simp del]

text \<open>
  The body of the loop: the answer, \<open>None\<close> if the call goes on waiting, and the new value of \<open>start\<close>.
\<close>

definition LastUpdates_wake :: "16 word \<Rightarrow> bool \<Rightarrow> group_cache \<Rightarrow> (eibaddr_t list \<times> 16 word) option \<times> 16 word" where
  "LastUpdates_wake start timeout s =
     (let pos = gp_pos s;
          start = LastUpdates_skip (gp_updates s) pos (LastUpdates_clamp pos start)
      in if start \<noteq> pos then (Some (LastUpdates_collect (gp_updates s) pos start, pos), pos)
         else if timeout then (Some ([], pos), start)
         else (None, start))"

section \<open>Requests\<close>

datatype cache_request =
    Cache_enable | Cache_disable | Cache_clear
  | Cache_remove eibaddr_t
  | Cache_read eibaddr_t nat "16 word"
  | Cache_updates "16 word" uchar
  | Cache_reject

definition GroupCacheRequest_parse :: "CArray \<Rightarrow> cache_request" where
  "GroupCacheRequest_parse m =
     (let t = EIBTYPE m
      in if t = EIB_CACHE_ENABLE then Cache_enable
         else if t = EIB_CACHE_DISABLE then Cache_disable
         else if t = EIB_CACHE_CLEAR then Cache_clear
         else if t = EIB_CACHE_REMOVE then
           if length m < 4 then Cache_reject else Cache_remove (mk16 (m ! 2) (m ! 3))
         else if t = EIB_CACHE_READ \<or> t = EIB_CACHE_READ_NOWAIT then
           if length m < 4 then Cache_reject
           else if t = EIB_CACHE_READ then
             if length m < 6 then Cache_reject else Cache_read (mk16 (m ! 2) (m ! 3)) 1 (mk16 (m ! 4) (m ! 5))
           else Cache_read (mk16 (m ! 2) (m ! 3)) 0 0
         else if t = EIB_CACHE_LAST_UPDATES then
           if length m < 5 then Cache_reject else Cache_updates (mk16 (m ! 2) (m ! 3)) (m ! 4)
         else Cache_reject)"

definition cache_read_reply :: "16 word \<Rightarrow> GroupCacheEntry \<Rightarrow> CArray" where
  "cache_read_reply t gc =
     EIBSETTYPE t @ [hi8 (ge_src gc), lo8 (ge_src gc), hi8 (ge_dst gc), lo8 (ge_dst gc)] @ ge_data gc"

definition cache_updates_reply :: "eibaddr_t list \<Rightarrow> 16 word \<Rightarrow> CArray" where
  "cache_updates_reply addrs end =
     EIBSETTYPE EIB_CACHE_LAST_UPDATES @ [hi8 end, lo8 end] @ concat (map (\<lambda>a. [hi8 a, lo8 a]) addrs)"

text \<open>
  A request that does not wait: the answer and the new state, \<open>None\<close> for the two that may wait.
\<close>

definition GroupCacheRequest ::
    "nat \<Rightarrow> bool \<Rightarrow> CArray \<Rightarrow> layer3 \<Rightarrow> group_cache \<Rightarrow> (CArray \<times> layer3 \<times> group_cache) option" where
  "GroupCacheRequest n ok m l3 s =
     (case GroupCacheRequest_parse m of
        Cache_enable \<Rightarrow>
          let (started, l3, s) = GroupCache_Start n ok l3 s
          in Some (EIBSETTYPE (if started then EIB_CACHE_ENABLE else EIB_CONNECTION_INUSE), l3, s)
      | Cache_disable \<Rightarrow> let (l3, s) = GroupCache_Stop n l3 s in Some (EIBSETTYPE EIB_CACHE_DISABLE, l3, s)
      | Cache_clear \<Rightarrow> Some (EIBSETTYPE EIB_CACHE_CLEAR, l3, GroupCache_Clear s)
      | Cache_remove dst \<Rightarrow> Some (EIBSETTYPE EIB_CACHE_REMOVE, l3, GroupCache_remove dst s)
      | Cache_reject \<Rightarrow> Some (EIBSETTYPE EIB_INVALID_REQUEST, l3, s)
      | Cache_read _ _ _ \<Rightarrow> None
      | Cache_updates _ _ \<Rightarrow> None)"

text \<open>
  A read request up to the point where it waits: the answer, if there is one yet, and the frames
  it sends.
\<close>

definition GroupCacheRequest_read :: "int \<Rightarrow> CArray \<Rightarrow> group_cache \<Rightarrow> (CArray option \<times> l_data list) option" where
  "GroupCacheRequest_read now m s =
     (case GroupCacheRequest_parse m of
        Cache_read dst Timeout age \<Rightarrow>
          (case GroupCache_Read_begin now dst Timeout age s of
             None \<Rightarrow> None
           | Some (Cached gc, out) \<Rightarrow> Some (Some (cache_read_reply (EIBTYPE m) gc), out)
           | Some (Wait, out) \<Rightarrow> Some (None, out))
      | _ \<Rightarrow> None)"

text \<open>A round of the loop of a request for the last updates: its answer and the new \<open>start\<close>.\<close>

definition GroupCacheRequest_updates :: "16 word \<Rightarrow> bool \<Rightarrow> group_cache \<Rightarrow> CArray option \<times> 16 word" where
  "GroupCacheRequest_updates start timeout s =
     (case LastUpdates_wake start timeout s of
        (a, start) \<Rightarrow> (map_option (\<lambda>(addrs, pos). cache_updates_reply addrs pos) a, start))"

section \<open>Events\<close>

text \<open>
  What changes the cache: a telegram, a request of a client, and the end of the wait of a read.
\<close>

datatype cache_event = Telegram int l_data | Request bool CArray | Read_round int bool eibaddr_t "16 word"

fun cache_step :: "nat \<Rightarrow> cache_event \<Rightarrow> layer3 \<times> group_cache \<Rightarrow> CArray option \<times> layer3 \<times> group_cache" where
  "cache_step n (Telegram now l) (l3, s) = (None, l3, GroupCache_Get_L_Data now l s)"
| "cache_step n (Request ok m) (l3, s) =
     (case GroupCacheRequest n ok m l3 s of None \<Rightarrow> (None, l3, s) | Some (a, l3, s) \<Rightarrow> (Some a, l3, s))"
| "cache_step n (Read_round now timeout addr age) (l3, s) = (None, l3, snd (GroupCache_Read_wake now timeout addr age s))"

primrec cache_run :: "nat \<Rightarrow> cache_event list \<Rightarrow> layer3 \<times> group_cache \<Rightarrow> CArray option list \<times> layer3 \<times> group_cache" where
  "cache_run n [] st = ([], st)"
| "cache_run n (e # es) st =
     (let (a, st) = cache_step n e st; (as, st) = cache_run n es st in (a # as, st))"

end
