(* ===== verification/GroupCacheProofs.thy ===== *)
theory GroupCacheProofs
  imports GroupCache
begin

text \<open>
  Facts about the group cache: the binary search finds the entry of an address in a sorted array,
  \<open>add\<close> is insertion into a sorted list, and the ring of updates holds the end of the history of
  addresses.
\<close>

section \<open>The sorted array as a map\<close>

abbreviation sorted_cache :: "GroupCacheEntry list \<Rightarrow> bool" where
  "sorted_cache c \<equiv> sorted_wrt (<) (map ge_dst c)"

definition entries :: "GroupCacheEntry list \<Rightarrow> eibaddr_t \<rightharpoonup> GroupCacheEntry" where
  "entries c = map_of (map (\<lambda>e. (ge_dst e, e)) c)"

lemma sorted_cache_less: "sorted_cache c \<Longrightarrow> i < j \<Longrightarrow> j < length c \<Longrightarrow> ge_dst (c ! i) < ge_dst (c ! j)"
  by (simp add: sorted_wrt_iff_nth_less)

lemma sorted_cache_le: "sorted_cache c \<Longrightarrow> i \<le> j \<Longrightarrow> j < length c \<Longrightarrow> ge_dst (c ! i) \<le> ge_dst (c ! j)"
  using sorted_cache_less [of c i j] by (cases "i = j") (auto simp: less_imp_le)

lemma sorted_cache_distinct: "sorted_cache c \<Longrightarrow> distinct (map ge_dst c)"
  by (simp add: strict_sorted_iff)

lemma search_correct:
  assumes "sorted_cache c" and "0 \<le> l" and "r < int (length c)"
    and "\<And>i. i < length c \<Longrightarrow> ge_dst (c ! i) = dst \<Longrightarrow> l \<le> int i \<and> int i \<le> r"
  shows "case GroupCache_search c dst l r of
      Some p \<Rightarrow> p < length c \<and> ge_dst (c ! p) = dst
    | None \<Rightarrow> \<forall>i<length c. ge_dst (c ! i) \<noteq> dst"
  using assms
proof (induction c dst l r rule: GroupCache_search.induct)
  case (1 c dst l r)
  show ?case
  proof (cases "l \<le> r")
    case False
    have "\<not> (i < length c \<and> ge_dst (c ! i) = dst)" for i using 1(6) [of i] False by linarith
    then show ?thesis using False by (simp add: GroupCache_search.simps [of c dst l r])
  next
    case True
    define p where "p = (l + r) div 2"
    have p: "l \<le> p" "p \<le> r" using True by (auto simp: p_def)
    then have np: "nat p < length c" "int (nat p) = p" using 1(4,5) by auto
    consider "ge_dst (c ! nat p) = dst" | "ge_dst (c ! nat p) < dst" | "dst < ge_dst (c ! nat p)"
      by (metis linorder_less_linear)
    then show ?thesis
    proof cases
      case 1
      then show ?thesis using True np by (simp add: GroupCache_search.simps [of c dst l r] p_def [symmetric])
    next
      case 2
      have "p + 1 \<le> int i \<and> int i \<le> r" if "i < length c" "ge_dst (c ! i) = dst" for i
        using sorted_cache_le [OF 1(3), of i "nat p"] 2 that np 1(6) [OF that] by (cases "p + 1 \<le> int i") auto
      then have "case GroupCache_search c dst (p + 1) r of
          Some p \<Rightarrow> p < length c \<and> ge_dst (c ! p) = dst
        | None \<Rightarrow> \<forall>i<length c. ge_dst (c ! i) \<noteq> dst"
        using 1(1) [OF True p_def] 2 1(3-5) p by auto
      then show ?thesis using True 2 less_imp_neq [OF 2] by (simp add: GroupCache_search.simps [of c dst l r] p_def [symmetric])
    next
      case 3
      have "l \<le> int i \<and> int i \<le> p - 1" if "i < length c" "ge_dst (c ! i) = dst" for i
        using sorted_cache_le [OF 1(3), of "nat p" i] 3 that np 1(6) [OF that] by (cases "int i \<le> p - 1") auto
      then have "case GroupCache_search c dst l (p - 1) of
          Some p \<Rightarrow> p < length c \<and> ge_dst (c ! p) = dst
        | None \<Rightarrow> \<forall>i<length c. ge_dst (c ! i) \<noteq> dst"
        using 1(2) [OF True p_def] 3 1(3-5) p by auto
      then show ?thesis using True 3 less_imp_neq [OF 3] less_not_sym [OF 3] by (simp add: GroupCache_search.simps [of c dst l r] p_def [symmetric])
    qed
  qed
qed

lemma search_whole:
  assumes "sorted_cache c"
  shows "case GroupCache_search c dst 0 (int (length c) - 1) of
      Some p \<Rightarrow> p < length c \<and> ge_dst (c ! p) = dst
    | None \<Rightarrow> \<forall>i<length c. ge_dst (c ! i) \<noteq> dst"
  by (rule search_correct [OF assms]) auto

lemma entries_Some_iff: "sorted_cache c \<Longrightarrow> entries c a = Some e \<longleftrightarrow> e \<in> set c \<and> ge_dst e = a"
  by (auto simp: entries_def map_of_eq_Some_iff sorted_cache_distinct comp_def dest: sorted_cache_distinct)

lemma entries_None_iff: "entries c a = None \<longleftrightarrow> a \<notin> ge_dst ` set c"
  by (auto simp: entries_def map_of_eq_None_iff image_image)

lemma search_entries:
  "sorted_cache c \<Longrightarrow> map_option (\<lambda>p. c ! p) (GroupCache_search c dst 0 (int (length c) - 1)) = entries c dst"
  using search_whole [of c dst]
  by (cases "GroupCache_search c dst 0 (int (length c) - 1)")
     (auto simp: entries_Some_iff entries_None_iff in_set_conv_nth eq_commute [of _ "entries c dst"])

lemma find_entries:
  "sorted_cache (gp_cache s) \<Longrightarrow> map_option (\<lambda>p. gp_cache s ! p) (GroupCache_find a s) = entries (gp_cache s) a"
  by (simp add: GroupCache_find_def search_entries)

lemma find_Some:
  "sorted_cache (gp_cache s) \<Longrightarrow> GroupCache_find a s = Some p \<Longrightarrow> p < length (gp_cache s) \<and> ge_dst (gp_cache s ! p) = a"
  using search_whole [of "gp_cache s" a] by (simp add: GroupCache_find_def)

lemma find_None:
  "sorted_cache (gp_cache s) \<Longrightarrow> GroupCache_find a s = None \<Longrightarrow> a \<notin> ge_dst ` set (gp_cache s)"
  using search_whole [of "gp_cache s" a] by (auto simp: GroupCache_find_def in_set_conv_nth)

text \<open>Two sorted arrays with the same map are equal, so the map is all there is to know.\<close>

lemma entries_eqI:
  assumes "\<And>a e. e \<in> set c \<and> ge_dst e = a \<longleftrightarrow> m a = Some e" and "sorted_cache c"
  shows "entries c = m"
proof
  fix a
  have "entries c a = Some e \<longleftrightarrow> m a = Some e" for e using assms by (simp add: entries_Some_iff)
  then show "entries c a = m a" by (metis not_None_eq)
qed

section \<open>The operations on the array\<close>

text \<open>\<open>add\<close> inserts the entry the way the library's insertion into a sorted list does.\<close>

lemma insort_append_less:
  "(\<And>x. x \<in> set xs \<Longrightarrow> ge_dst x < ge_dst e) \<Longrightarrow> insort_key ge_dst e xs = xs @ [e]"
  by (induction xs) (force simp: not_le)+

lemma insort_append_greater:
  "ge_dst e < ge_dst z \<Longrightarrow> insort_key ge_dst e (xs @ [z]) = insort_key ge_dst e xs @ [z]"
  by (induction xs) auto

lemma shift_insort:
  assumes "sorted_cache xs" and "ge_dst e \<notin> ge_dst ` set xs"
  shows "GroupCache_shift (xs @ x # ys) (length xs) e = insort_key ge_dst e xs @ ys"
  using assms
proof (induction xs arbitrary: x ys rule: rev_induct)
  case Nil
  then show ?case by simp
next
  case (snoc z xs)
  show ?case
  proof (cases "ge_dst z > ge_dst e")
    case True
    then have "GroupCache_shift ((xs @ [z]) @ x # ys) (length (xs @ [z])) e = GroupCache_shift (xs @ z # z # ys) (length xs) e"
      by (simp add: nth_append list_update_append)
    also have "\<dots> = insort_key ge_dst e xs @ z # ys"
      using snoc by (simp add: sorted_wrt_append)
    finally show ?thesis using True by (simp add: insort_append_greater)
  next
    case False
    have "ge_dst y < ge_dst e" if "y \<in> set (xs @ [z])" for y
      using False snoc.prems that by (force simp: sorted_wrt_append)
    then have "insort_key ge_dst e (xs @ [z]) = xs @ [z, e]"
      by (subst insort_append_less) auto
    then show ?thesis using False by (simp add: nth_append list_update_append)
  qed
qed

lemma add_insort:
  "sorted_cache (gp_cache s) \<Longrightarrow> ge_dst e \<notin> ge_dst ` set (gp_cache s) \<Longrightarrow>
   gp_cache (GroupCache_add e s) = insort_key ge_dst e (gp_cache s)"
  using shift_insort [of "gp_cache s" e e "[]"] by (simp add: GroupCache_add_def)

lemma sorted_cache_iff: "sorted_cache c \<longleftrightarrow> sorted (map ge_dst c) \<and> distinct (map ge_dst c)"
  by (simp add: strict_sorted_iff)

lemma add_entries:
  assumes "sorted_cache (gp_cache s)" and "ge_dst e \<notin> ge_dst ` set (gp_cache s)"
  shows "sorted_cache (gp_cache (GroupCache_add e s))"
    and "entries (gp_cache (GroupCache_add e s)) = (entries (gp_cache s))(ge_dst e \<mapsto> e)"
proof -
  have new: "\<forall>x\<in>set (gp_cache s). ge_dst x \<noteq> ge_dst e" using assms(2) by (metis image_eqI)
  show s: "sorted_cache (gp_cache (GroupCache_add e s))"
    using assms unfolding add_insort [OF assms] sorted_cache_iff
    by (metis distinct_insort_key sorted_insort_key)
  show "entries (gp_cache (GroupCache_add e s)) = (entries (gp_cache s))(ge_dst e \<mapsto> e)"
    using assms(1) new by (intro entries_eqI [OF _ s]) (auto simp: add_insort [OF assms] set_insort_key entries_Some_iff)
qed

lemma update_entries:
  assumes "sorted_cache c" and "p < length c" and "ge_dst (c ! p) = ge_dst e"
  shows "sorted_cache (c[p := e])" and "entries (c[p := e]) = (entries c)(ge_dst e \<mapsto> e)"
proof -
  have "map ge_dst (c[p := e]) = map ge_dst c"
    using assms by (metis list_update_id map_update nth_map)
  then show s: "sorted_cache (c[p := e])" using assms by simp
  have "x \<in> set (c[p := e]) \<longleftrightarrow> x = e \<or> x \<in> set c \<and> ge_dst x \<noteq> ge_dst e" for x
    using assms(2,3) sorted_cache_distinct [OF assms(1)]
    by (auto simp: in_set_conv_nth nth_list_update distinct_conv_nth)
       (metis nth_list_update_neq nth_list_update_eq length_list_update)+
  then show "entries (c[p := e]) = (entries c)(ge_dst e \<mapsto> e)"
    using assms by (intro entries_eqI [OF _ s]) (auto simp: entries_Some_iff)
qed

lemma delete_entries:
  assumes "sorted_cache (u @ x # v)"
  shows "sorted_cache (u @ v)" and "entries (u @ v) = (entries (u @ x # v))(ge_dst x := None)"
proof -
  show s: "sorted_cache (u @ v)" using assms by (simp add: sorted_wrt_append)
  have "ge_dst x \<notin> ge_dst ` set (u @ v)" using sorted_cache_distinct [OF assms] by auto
  then have new: "\<forall>y\<in>set (u @ v). ge_dst y \<noteq> ge_dst x" by (metis image_eqI)
  have e: "entries (u @ x # v) a = Some e \<longleftrightarrow> (e = x \<or> e \<in> set (u @ v)) \<and> ge_dst e = a" for a e
    using assms by (simp add: entries_Some_iff)
  show "entries (u @ v) = (entries (u @ x # v))(ge_dst x := None)"
  proof (rule entries_eqI [OF _ s])
    show "e \<in> set (u @ v) \<and> ge_dst e = a \<longleftrightarrow> ((entries (u @ x # v))(ge_dst x := None)) a = Some e" for a e
      using new by (cases "a = ge_dst x") (auto simp: e)
  qed
qed

lemma remove_entries:
  assumes "sorted_cache (gp_cache s)"
  shows "sorted_cache (gp_cache (GroupCache_remove a s))"
    and "entries (gp_cache (GroupCache_remove a s)) = (entries (gp_cache s))(a := None)"
proof (atomize (full), cases "GroupCache_find a s")
  case None
  then show "sorted_cache (gp_cache (GroupCache_remove a s)) \<and>
      entries (gp_cache (GroupCache_remove a s)) = (entries (gp_cache s))(a := None)"
    using find_None [OF assms None] assms
    by (auto simp: GroupCache_remove_def GroupCache_find_def fun_eq_iff entries_None_iff)
next
  case (Some p)
  let ?c = "gp_cache s"
  have p: "p < length ?c" "ge_dst (?c ! p) = a" using find_Some [OF assms Some] by auto
  have "gp_cache (GroupCache_remove a s) = take p ?c @ drop (Suc p) ?c"
    using Some by (simp add: GroupCache_remove_def GroupCache_find_def)
  moreover have "?c = take p ?c @ ?c ! p # drop (Suc p) ?c" using p by (rule_tac id_take_nth_drop)
  ultimately show "sorted_cache (gp_cache (GroupCache_remove a s)) \<and>
      entries (gp_cache (GroupCache_remove a s)) = (entries ?c)(a := None)"
    using delete_entries [of "take p ?c" "?c ! p" "drop (Suc p) ?c"] assms p(2) by metis
qed

section \<open>The ring of updates\<close>

text \<open>The two range checks of \<open>LastUpdates\<close> say: not more than 256 steps back.\<close>

lemma clamp_distance:
  "LastUpdates_clamp pos start = (if unat (pos - start) \<le> 256 then start else pos - 256)"
proof -
  have "unat start < 65536" "unat pos < 65536"
    using unsigned_less [of start] unsigned_less [of pos] by simp_all
  then show ?thesis
    by (auto simp: LastUpdates_clamp_def word_less_nat_alt word_le_nat_alt unat_word_ariths unat_sub_if' split: if_splits)
qed

text \<open>\<open>window u pos w\<close>: the cells before \<open>pos\<close> hold \<open>w\<close>.\<close>

fun window :: "eibaddr_t list \<Rightarrow> 16 word \<Rightarrow> eibaddr_t list \<Rightarrow> bool" where
  "window u pos [] \<longleftrightarrow> True"
| "window u pos (x # w) \<longleftrightarrow> u ! unat ((pos - of_nat (Suc (length w))) AND 0xff) = x \<and> window u pos w"

lemma back_neq: "0 < k \<Longrightarrow> k \<le> 256 \<Longrightarrow> (pos :: 16 word) - of_nat k \<noteq> pos"
  by (auto simp: word_of_nat_eq_0_iff dest: dvd_imp_le)

lemma back_step: "(pos :: 16 word) - of_nat (Suc k) + 1 = pos - of_nat k"
  by simp

lemma skip_window:
  "window u pos w \<Longrightarrow> length w \<le> 256 \<Longrightarrow>
   LastUpdates_skip u pos (pos - of_nat (length w)) = pos - of_nat (length (dropWhile (\<lambda>a. a = 0) w))"
proof (induction w)
  case (Cons x w)
  have "pos - of_nat (Suc (length w)) \<noteq> pos" using Cons.prems(2) by (intro back_neq) auto
  then show ?case using Cons LastUpdates_skip.simps [of u pos "pos - of_nat (Suc (length w))"]
    by (simp only: back_step) (simp add: LastUpdates_skip.simps [of u pos pos] del: of_nat_Suc)
qed (simp add: LastUpdates_skip.simps)

lemma collect_window:
  "window u pos w \<Longrightarrow> length w \<le> 256 \<Longrightarrow>
   LastUpdates_collect u pos (pos - of_nat (length w)) = filter (\<lambda>a. a \<noteq> 0) w"
proof (induction w)
  case (Cons x w)
  have "pos - of_nat (Suc (length w)) \<noteq> pos" using Cons.prems(2) by (intro back_neq) auto
  then show ?case using Cons LastUpdates_collect.simps [of u pos "pos - of_nat (Suc (length w))"]
    by (simp only: back_step) (simp add: LastUpdates_collect.simps [of u pos pos] del: of_nat_Suc)
qed (simp add: LastUpdates_collect.simps)

lemma window_dropWhile: "window u pos w \<Longrightarrow> window u pos (dropWhile P w)"
  by (induction w) auto

lemma window_drop: "window u pos w \<Longrightarrow> window u pos (drop k w)"
  by (induction w arbitrary: k) (auto simp: drop_Cons split: nat.splits)

lemma filter_dropWhile_zero: "filter (\<lambda>a. a \<noteq> (0 :: eibaddr_t)) (dropWhile (\<lambda>a. a = 0) w) = filter (\<lambda>a. a \<noteq> 0) w"
  by (induction w) auto

lemma filter_zero_Nil: "filter (\<lambda>a. a \<noteq> (0 :: eibaddr_t)) w = [] \<longleftrightarrow> dropWhile (\<lambda>a. a = 0) w = []"
  by (induction w) auto

text \<open>
  The history of the cache: every address recorded since its creation. The ring holds the last
  256 of them, and zeros where there are fewer.
\<close>

definition ring_holds :: "eibaddr_t list \<Rightarrow> group_cache \<Rightarrow> bool" where
  "ring_holds hs s \<longleftrightarrow>
     length (gp_updates s) = 256 \<and> gp_pos s = of_nat (length hs) \<and>
     window (gp_updates s) (gp_pos s) (drop (length hs) (replicate 256 0 @ hs))"

lemma cell_mod: "unat ((x :: 16 word) AND 0xff) = unat x mod 256"
proof -
  have "unat x AND 255 = unat x mod 256"
    using take_bit_eq_mask [of 8 "unat x"] by (simp add: take_bit_eq_mod mask_eq_exp_minus_1)
  then show ?thesis by (simp add: unsigned_and_eq)
qed

lemma cell_bound: "unat ((x :: 16 word) AND 0xff) < 256"
  by (simp add: cell_mod)

lemma cell_neq: "0 < k \<Longrightarrow> k < 256 \<Longrightarrow> unat (((pos :: 16 word) - of_nat k) AND 0xff) \<noteq> unat (pos AND 0xff)"
proof -
  assume k: "0 < k" "k < 256"
  then have u: "unat (of_nat k :: 16 word) = k" by (simp add: unat_of_nat)
  have n: "(p - k) mod 256 \<noteq> p mod 256" if "k \<le> p" for p :: nat
  proof
    assume "(p - k) mod 256 = p mod 256"
    then have "256 dvd p - (p - k)" using mod_eq_dvd_iff_nat [of "p - k" p 256] by simp
    then show False using k that dvd_imp_le [of 256 k] by simp
  qed
  have m: "(p + 65536 - k) mod 256 \<noteq> p mod 256" for p :: nat
    using n [of "p + 65536"] k mod_mult_self1 [of p 256 256] by simp
  show ?thesis using m [of "unat pos"] n [of "unat pos"] by (auto simp: cell_mod unat_sub_if' u)
qed

lemma window_push:
  "window u pos w \<Longrightarrow> length w < 256 \<Longrightarrow> length u = 256 \<Longrightarrow>
   window (u[unat (pos AND 0xff) := x]) (pos + 1) (w @ [x])"
proof (induction w)
  case Nil
  then show ?case using cell_bound [of pos] by simp
next
  case (Cons y w)
  have e: "(pos + 1) - of_nat (Suc (Suc k)) = pos - of_nat (Suc k)" for k by simp
  show ?case using Cons cell_neq [of "Suc (length w)" pos]
    by (simp add: e del: of_nat_Suc)
qed

lemma ring_holds_push:
  "ring_holds hs s \<Longrightarrow>
   ring_holds (hs @ [x]) (s\<lparr>gp_updates := (gp_updates s)[unat (gp_pos s AND 0xff) := x], gp_pos := gp_pos s + 1\<rparr>)"
proof -
  assume r: "ring_holds hs s"
  obtain y w where w: "drop (length hs) (replicate 256 0 @ hs) = y # w"
    by (cases "drop (length hs) (replicate 256 0 @ hs)") auto
  have "length (y # w) = 256" unfolding w [symmetric] by simp
  then have l: "length w = 255" by simp
  have "drop (Suc (length hs)) (replicate 256 0 @ hs) = w" using w by (metis drop_Suc list.sel(3) tl_drop)
  then have d: "drop (length (hs @ [x])) (replicate 256 0 @ hs @ [x]) = w @ [x]"
    using drop_append [of "Suc (length hs)" "replicate 256 0 @ hs" "[x]"] by (simp del: drop_append)
  have p: "gp_pos s + 1 = of_nat (length (hs @ [x]))" and u: "length (gp_updates s) = 256"
    using r by (simp_all add: ring_holds_def)
  have "window (gp_updates s) (gp_pos s) w" using r w unfolding ring_holds_def by (metis window.simps(2))
  then have "window ((gp_updates s)[unat (gp_pos s AND 0xff) := x]) (gp_pos s + 1) (w @ [x])"
    using l u by (intro window_push) simp_all
  then show ?thesis unfolding ring_holds_def d using p u by (simp add: add.commute)
qed

lemma ring_holds_new: "ring_holds [] GroupCache_new"
proof -
  have "window (replicate 256 0) 0 (replicate k 0)" for k
  proof (induction k)
    case (Suc k)
    then show ?case using cell_bound [of "0 - of_nat (Suc k)"] by simp
  qed simp
  then show ?thesis by (simp add: ring_holds_def GroupCache_new_def)
qed

text \<open>What a round of \<open>LastUpdates\<close> answers, in terms of the history.\<close>

definition updates_since :: "eibaddr_t list \<Rightarrow> 16 word \<Rightarrow> eibaddr_t list" where
  "updates_since hs start =
     filter (\<lambda>a. a \<noteq> 0) (drop (length hs - min 256 (unat (of_nat (length hs) - start))) hs)"

lemma wake_updates:
  assumes "ring_holds hs s"
  shows "LastUpdates_wake start timeout s =
    (if updates_since hs start \<noteq> [] \<or> timeout then Some (updates_since hs start, gp_pos s) else None, gp_pos s)"
proof -
  define k where "k = min 256 (unat (gp_pos s - start))"
  define w where "w = drop (256 - k) (drop (length hs) (replicate 256 0 @ hs))"
  have pos: "gp_pos s = of_nat (length hs)" using assms by (simp add: ring_holds_def)
  have k: "k \<le> 256" by (simp add: k_def)
  have lw: "length w = k" unfolding w_def using k by (simp del: drop_append drop_drop)
  have start: "LastUpdates_clamp (gp_pos s) start = gp_pos s - of_nat (length w)"
    by (auto simp: lw k_def clamp_distance min_def)
  have win: "window (gp_updates s) (gp_pos s) w" using assms unfolding ring_holds_def w_def by (blast intro: window_drop)
  have "w = drop (256 - k + length hs) (replicate 256 0 @ hs)" by (simp only: w_def drop_drop)
  then have "w = drop (256 - k + length hs) (replicate 256 0) @ drop (256 - k + length hs - 256) hs"
    by (simp only: drop_append length_replicate)
  then have f: "filter (\<lambda>a. a \<noteq> 0) w = updates_since hs start"
    using k by (simp add: updates_since_def k_def [symmetric] pos [symmetric])
  have "LastUpdates_skip (gp_updates s) (gp_pos s) (LastUpdates_clamp (gp_pos s) start)
      = gp_pos s - of_nat (length (dropWhile (\<lambda>a. a = 0) w))"
    unfolding start using win lw k by (intro skip_window) simp_all
  moreover have "LastUpdates_collect (gp_updates s) (gp_pos s) (gp_pos s - of_nat (length (dropWhile (\<lambda>a. a = 0) w)))
      = updates_since hs start"
    using collect_window [OF window_dropWhile [OF win], of "\<lambda>a. a = 0"] length_dropWhile_le [of "\<lambda>a. a = 0" w] lw k
    by (simp add: filter_dropWhile_zero f)
  ultimately show ?thesis
    using filter_zero_Nil [of w] back_neq [of "length (dropWhile (\<lambda>a. a = 0) w)" "gp_pos s"] length_dropWhile_le [of "\<lambda>a. a = 0" w] lw k
    by (cases "dropWhile (\<lambda>a. a = 0) w = []") (simp_all add: LastUpdates_wake_def Let_def f del: filter_empty_conv dropWhile_eq_Nil_conv)
qed

section \<open>The abstract cache\<close>

text \<open>
  What a client may expect: a map from group addresses to the last value, which the answers to
  its requests switch on and off, and the history of addresses.
\<close>

record cache_spec =
  cs_map :: "eibaddr_t \<rightharpoonup> GroupCacheEntry"
  cs_on :: bool
  cs_history :: "eibaddr_t list"

definition spec_new :: cache_spec where
  "spec_new = \<lparr>cs_map = Map.empty, cs_on = False, cs_history = []\<rparr>"

text \<open>A group value on the bus is the payload of a write or of the answer to a read.\<close>

definition group_value :: "CArray \<Rightarrow> CArray option" where
  "group_value c =
     (case TPDU_fromPacket c of
        T_DATA_XXX_REQ_PDU d \<Rightarrow>
          if length d \<ge> 2 \<and> d ! 0 AND 0x3 = 0 \<and> (d ! 1 AND 0xC0 = 0x40 \<or> d ! 1 AND 0xC0 = 0x80) then Some d else None
      | _ \<Rightarrow> None)"

fun spec_step :: "cache_event \<Rightarrow> CArray option \<Rightarrow> cache_spec \<Rightarrow> cache_spec" where
  "spec_step (Telegram now l) a c =
     (case (if cs_on c then group_value (data l) else None) of
        None \<Rightarrow> c
      | Some d \<Rightarrow>
          c\<lparr>cs_map := (cs_map c)(dest l \<mapsto> \<lparr>ge_data = d, ge_src = source l, ge_dst = dest l, ge_recvtime = now\<rparr>),
            cs_history := cs_history c @ [dest l]\<rparr>)"
| "spec_step (Request ok m) a c =
     (case GroupCacheRequest_parse m of
        Cache_enable \<Rightarrow> c\<lparr>cs_on := (a = Some (EIBSETTYPE EIB_CACHE_ENABLE))\<rparr>
      | Cache_disable \<Rightarrow> c\<lparr>cs_map := Map.empty, cs_on := False\<rparr>
      | Cache_clear \<Rightarrow> c\<lparr>cs_map := Map.empty\<rparr>
      | Cache_remove addr \<Rightarrow> c\<lparr>cs_map := (cs_map c)(addr := None)\<rparr>
      | _ \<Rightarrow> c)"
| "spec_step (Read_round now timeout addr age) a c =
     (if timeout \<and> cs_map c addr = None then c\<lparr>cs_map := (cs_map c)(addr \<mapsto> (no_entry addr)\<lparr>ge_recvtime := now\<rparr>)\<rparr> else c)"

fun spec_run :: "cache_event list \<Rightarrow> CArray option list \<Rightarrow> cache_spec \<Rightarrow> cache_spec" where
  "spec_run (e # es) (a # as) c = spec_run es as (spec_step e a c)"
| "spec_run es as c = c"

definition implements :: "group_cache \<Rightarrow> cache_spec \<Rightarrow> bool" where
  "implements s c \<longleftrightarrow>
     sorted_cache (gp_cache s) \<and> entries (gp_cache s) = cs_map c \<and> gp_enable s = cs_on c \<and> ring_holds (cs_history c) s"

lemma implements_new: "implements GroupCache_new spec_new"
  using ring_holds_new by (simp add: implements_def GroupCache_new_def spec_new_def entries_def)

lemma ring_holds_update [simp]:
  "ring_holds hs (s\<lparr>gp_cache := c\<rparr>) = ring_holds hs s" "ring_holds hs (s\<lparr>gp_enable := b\<rparr>) = ring_holds hs s"
  by (simp_all add: ring_holds_def)

lemma Get_L_Data_value:
  "GroupCache_Get_L_Data now l s =
     (case (if gp_enable s then group_value (data l) else None) of
        None \<Rightarrow> s
      | Some d \<Rightarrow>
          let s' = s\<lparr>gp_updates := (gp_updates s)[unat (gp_pos s AND 0xff) := dest l], gp_pos := gp_pos s + 1\<rparr>;
              e = \<lparr>ge_data = d, ge_src = source l, ge_dst = dest l, ge_recvtime = now\<rparr>
          in (case GroupCache_find (dest l) s of
                Some p \<Rightarrow> s'\<lparr>gp_cache := (gp_cache s)[p := e]\<rparr> | None \<Rightarrow> GroupCache_add e s'))"
  by (auto simp: GroupCache_Get_L_Data_def group_value_def Let_def split: tpdu.splits option.splits)

lemma implements_add:
  assumes "implements s c" and "cs_map c (ge_dst e) = None"
  shows "implements (GroupCache_add e s) (c\<lparr>cs_map := (cs_map c)(ge_dst e \<mapsto> e)\<rparr>)"
proof -
  have "sorted_cache (gp_cache s)" "ge_dst e \<notin> ge_dst ` set (gp_cache s)"
    using assms by (auto simp: implements_def simp flip: entries_None_iff)
  from add_entries [OF this] assms(1) show ?thesis
    by (simp add: implements_def) (simp add: GroupCache_add_def)
qed

lemma implements_record:
  "implements s c \<Longrightarrow>
   implements (s\<lparr>gp_updates := (gp_updates s)[unat (gp_pos s AND 0xff) := a], gp_pos := gp_pos s + 1\<rparr>)
     (c\<lparr>cs_history := cs_history c @ [a]\<rparr>)"
  using ring_holds_push [of "cs_history c" s a] by (simp add: implements_def)

lemma implements_telegram:
  assumes "implements s c"
  shows "implements (GroupCache_Get_L_Data now l s) (spec_step (Telegram now l) a c)"
proof (cases "if gp_enable s then group_value (data l) else None")
  case None
  then show ?thesis using assms by (simp add: Get_L_Data_value implements_def)
next
  case (Some d)
  let ?s = "s\<lparr>gp_updates := (gp_updates s)[unat (gp_pos s AND 0xff) := dest l], gp_pos := gp_pos s + 1\<rparr>"
  let ?e = "\<lparr>ge_data = d, ge_src = source l, ge_dst = dest l, ge_recvtime = now\<rparr>"
  let ?c = "c\<lparr>cs_history := cs_history c @ [dest l]\<rparr>"
  have i: "implements ?s ?c" using assms by (rule implements_record)
  have sorted: "sorted_cache (gp_cache s)" using assms by (simp add: implements_def)
  have "implements (GroupCache_Get_L_Data now l s) (?c\<lparr>cs_map := (cs_map c)(dest l \<mapsto> ?e)\<rparr>)"
  proof (cases "GroupCache_find (dest l) s")
    case None
    then have "entries (gp_cache s) (dest l) = None" using find_entries [OF sorted, of "dest l"] by simp
    then show ?thesis using implements_add [OF i, of ?e] None assms Some
      by (simp add: Get_L_Data_value implements_def)
  next
    case (Some p)
    from find_Some [OF sorted Some] update_entries [OF sorted, of p ?e] i Some \<open>(if gp_enable s then group_value (data l) else None) = Some d\<close>
    show ?thesis by (simp add: Get_L_Data_value implements_def)
  qed
  then show ?thesis using Some assms by (auto simp: implements_def)
qed

lemma implements_wake:
  assumes "implements s c"
  shows "implements (snd (GroupCache_Read_wake now timeout addr age s)) (spec_step (Read_round now timeout addr age) a c)"
proof (cases "GroupCache_find addr s")
  case None
  have "entries (gp_cache s) addr = None" 
    using find_entries [of s addr] None assms by (simp add: implements_def)
  then have "cs_map c addr = None" using assms by (simp add: implements_def)
  then show ?thesis using None assms implements_add [OF assms, of "(no_entry addr)\<lparr>ge_recvtime := now\<rparr>"]
    by (simp add: GroupCache_Read_wake_def Let_def no_entry_def)
next
  case (Some p)
  have "entries (gp_cache s) addr = Some (gp_cache s ! p)"
    using find_entries [of s addr] Some assms by (simp add: implements_def)
  then show ?thesis using Some assms by (auto simp: GroupCache_Read_wake_def Let_def implements_def)
qed

lemma answer_enable: "EIBSETTYPE EIB_CONNECTION_INUSE \<noteq> EIBSETTYPE EIB_CACHE_ENABLE"
  by (simp add: EIBSETTYPE_def hi8_def lo8_def)

lemma implements_request:
  assumes "implements s c" and "cache_step n (Request ok m) (l3, s) = (a, l3', s')"
  shows "implements s' (spec_step (Request ok m) a c)"
proof (cases "GroupCacheRequest_parse m")
  case Cache_enable
  then show ?thesis using assms answer_enable
    by (auto simp: GroupCacheRequest_def GroupCache_Start_def Let_def implements_def split: if_splits prod.splits)
next
  case Cache_disable
  then show ?thesis using assms
    by (auto simp: GroupCacheRequest_def GroupCache_Stop_def GroupCache_Clear_def Let_def implements_def entries_def)
next
  case Cache_clear
  then show ?thesis using assms
    by (auto simp: GroupCacheRequest_def GroupCache_Clear_def implements_def entries_def)
next
  case (Cache_remove addr)
  have "ring_holds hs (GroupCache_remove addr s) = ring_holds hs s" "gp_enable (GroupCache_remove addr s) = gp_enable s" for hs
    by (simp_all add: GroupCache_remove_def split: option.split)
  then show ?thesis using assms Cache_remove remove_entries [of s addr]
    by (auto simp: GroupCacheRequest_def implements_def)
qed (use assms in \<open>auto simp: GroupCacheRequest_def\<close>)

lemma implements_step:
  "implements s c \<Longrightarrow> cache_step n e (l3, s) = (a, l3', s') \<Longrightarrow> implements s' (spec_step e a c)"
  by (cases e) (auto intro: implements_telegram implements_wake implements_request simp del: spec_step.simps cache_step.simps(2)
      dest: implements_wake)

lemma implements_run:
  "implements s c \<Longrightarrow> cache_run n es (l3, s) = (as, l3', s') \<Longrightarrow> implements s' (spec_run es as c)"
  by (induction es arbitrary: s c l3 as) (auto split: prod.splits dest: implements_step)

end
