(* ===== verification/GroupCacheProps.thy ===== *)
theory GroupCacheProps
  imports GroupCacheProofs ClientApi
begin

text \<open>
  The properties of the group cache: it implements a map, its clients follow the updates of the
  bus without a gap, and a value on the bus reaches the client that asks for it.
\<close>

text \<open>C37: the group cache is a map from group addresses to the last value. After any sequence of
  telegrams, client requests and ended waits, the binary search finds for every address what the
  abstract cache has there, the array is sorted without duplicates, and the cache is switched on
  exactly when the answers to the clients said so.
\<close>

theorem group_cache_refines_map:
  "case cache_run n es (l3, GroupCache_new) of
     (answers, l3', s) \<Rightarrow>
       (let c = spec_run es answers spec_new
        in (\<forall>addr. map_option (\<lambda>p. gp_cache s ! p) (GroupCache_find addr s) = cs_map c addr) \<and>
           sorted_wrt (<) (map ge_dst (gp_cache s)) \<and> gp_enable s = cs_on c)"
  using implements_run [OF implements_new, of n es l3] find_entries
  by (auto simp: implements_def split: prod.split)

lemma cached_read_message:
  "EIB_Cache_Read_request stack dst = Some (EIBSETTYPE EIB_CACHE_READ_NOWAIT @ [hi8 dst, lo8 dst])"
  by (simp add: EIB_Cache_Read_request_def EIBC_SEND_def EIBC_SETADDR_def EIBC_INIT_SEND_def EIBSETTYPE_def eval_nat_numeral)

lemma cached_read_parsed:
  "GroupCacheRequest_parse (EIBSETTYPE EIB_CACHE_READ_NOWAIT @ [hi8 dst, lo8 dst]) = Cache_read dst 0 0"
  by (simp add: GroupCacheRequest_parse_def Let_def EIBTYPE_def EIBSETTYPE_def)

lemma cached_read_decoded:
  "EIB_Cache_Read_complete maxlen \<lparr>ei_readlen = r, ei_buf = cache_read_reply EIB_CACHE_READ_NOWAIT e, ei_size = length (cache_read_reply EIB_CACHE_READ_NOWAIT e)\<rparr> out =
   (if ge_dst e = 0 then Failed ENODEV
    else if ge_data e = [] then Failed ENOENT
    else Returned (out\<lparr>eo_ptr5 := Some (ge_src e), eo_ret := int (min (length (ge_data e)) maxlen), eo_buf := take maxlen (ge_data e)\<rparr>))"
proof -
  have z: "ge_dst e = 0 \<longleftrightarrow> hi8 (ge_dst e) = 0 \<and> lo8 (ge_dst e) = 0"
    using mk16_hi8_lo8 [of "ge_dst e"] by (auto simp: hi8_def lo8_def mk16_def)
  have l: "length (cache_read_reply t e) = 6 + length (ge_data e)" and t: "EIBTYPE (cache_read_reply t e) = t"
    and n: "cache_read_reply t e ! 2 = hi8 (ge_src e)" "cache_read_reply t e ! 3 = lo8 (ge_src e)"
       "cache_read_reply t e ! 4 = hi8 (ge_dst e)" "cache_read_reply t e ! 5 = lo8 (ge_dst e)"
       "drop 6 (cache_read_reply t e) = ge_data e" for t
    by (simp_all add: cache_read_reply_def EIBTYPE_def EIBSETTYPE_def)
  show ?thesis
  by (simp add: z EIB_Cache_Read_complete_def EIBC_CHECKRESULT_def EIBC_RETURNERROR_UINT16_def EIBC_RETURNERROR_SIZE_def EIBC_RETURN_PTR5_def EIBC_RETURN_BUF_def EIB_reads_def l t n Let_def min_def)
qed

text \<open>C38: a cached value reaches the client. The request of \<open>EIB_Cache_Read\<close> is answered at once and
  without a frame on the bus; the client library returns the source and the payload of the last
  telegram to the group, reports a missing value, and a cache that is switched off.
\<close>

theorem cached_value_end_to_end:
  "case cache_run n es (l3, GroupCache_new) of
     (answers, l3', s) \<Rightarrow>
       (let c = spec_run es answers spec_new;
            m = the (EIB_Cache_Read_request stack dst);
            reply = fst (the (GroupCacheRequest_read now m s))
        in GroupCacheRequest_read now m s = Some (reply, []) \<and> reply \<noteq> None \<and>
           EIB_Cache_Read_complete maxlen \<lparr>ei_readlen = r, ei_buf = the reply, ei_size = length (the reply)\<rparr> out =
             (if (if cs_on c then dst else 0) = 0 then Failed ENODEV
              else case cs_map c dst of
                None \<Rightarrow> Failed ENOENT
              | Some e \<Rightarrow>
                  if ge_data e = [] then Failed ENOENT
                  else Returned (out\<lparr>eo_ptr5 := Some (ge_src e), eo_ret := int (min (length (ge_data e)) maxlen),
                                  eo_buf := take maxlen (ge_data e)\<rparr>)))"
proof (cases "cache_run n es (l3, GroupCache_new)")
  case (fields answers l3' s)
  define c where "c = spec_run es answers spec_new"
  have i: "implements s c" unfolding c_def by (rule implements_run [OF implements_new fields])
  define e where "e = (if gp_enable s then case cs_map c dst of Some e \<Rightarrow> e | None \<Rightarrow> no_entry dst else no_entry 0)"
  have find: "map_option (\<lambda>p. gp_cache s ! p) (GroupCache_find dst s) = cs_map c dst"
    using i find_entries [of s dst] by (simp add: implements_def)
  have d: "ge_dst e = dst" if "cs_on c" "cs_map c dst = Some e" for e
    using i that entries_Some_iff [of "gp_cache s" dst e] by (simp add: implements_def)
  have "GroupCache_Read_begin now dst 0 0 s = Some (Cached e, [])"
    using find by (auto simp: GroupCache_Read_begin_def e_def outdated_def Let_def split: option.splits)
  then have "GroupCacheRequest_read now (EIBSETTYPE EIB_CACHE_READ_NOWAIT @ [hi8 dst, lo8 dst]) s =
      Some (Some (cache_read_reply EIB_CACHE_READ_NOWAIT e), [])"
    unfolding GroupCacheRequest_read_def cached_read_parsed by (simp add: EIBTYPE_def EIBSETTYPE_def)
  moreover have "gp_enable s = cs_on c" using i by (simp add: implements_def)
  ultimately show ?thesis using d
    by (auto simp: fields cached_read_message cached_read_decoded c_def [symmetric] e_def no_entry_def Let_def split: option.split)
qed

lemma updates_since_mark:
  assumes "length new \<le> 256"
  shows "updates_since (h @ new) (of_nat (length h)) = filter (\<lambda>a. a \<noteq> 0) new"
proof -
  have "unat (of_nat (length (h @ new)) - of_nat (length h) :: 16 word) = length new"
    using assms by (simp add: unat_of_nat)
  then show ?thesis using assms by (simp add: updates_since_def)
qed

definition address_bytes :: "eibaddr_t list \<Rightarrow> CArray" where
  "address_bytes as = concat (map (\<lambda>a. [hi8 a, lo8 a]) as)"

lemma updates_decoded:
  "EIB_Cache_LastUpdates_complete maxlen \<lparr>ei_readlen = r, ei_buf = cache_updates_reply as p, ei_size = length (cache_updates_reply as p)\<rparr> out =
   Returned (out\<lparr>eo_ptr4 := Some p, eo_ret := int (min (2 * length as) maxlen), eo_buf := take maxlen (address_bytes as)\<rparr>)"
proof -
  have l: "length (cache_updates_reply as p) = 4 + 2 * length as" and t: "EIBTYPE (cache_updates_reply as p) = EIB_CACHE_LAST_UPDATES"
    and n: "cache_updates_reply as p ! 2 = hi8 p" "cache_updates_reply as p ! 3 = lo8 p"
       "drop 4 (cache_updates_reply as p) = address_bytes as"
    by (simp_all add: cache_updates_reply_def EIBTYPE_def EIBSETTYPE_def address_bytes_def length_concat comp_def sum_list_triv)
  have b: "length (address_bytes as) = 2 * length as"
    by (simp add: address_bytes_def length_concat comp_def sum_list_triv)
  show ?thesis
    by (simp add: EIB_Cache_LastUpdates_complete_def EIBC_CHECKRESULT_def EIBC_RETURN_PTR4_def EIBC_RETURN_BUF_def EIB_reads_def l t n b Let_def min_def)
qed

lemma spec_history_grows: "\<exists>new. cs_history (spec_run es as c) = cs_history c @ new"
proof (induction es as c rule: spec_run.induct)
  case (1 e es a as c)
  have "\<exists>new. cs_history (spec_step e a c) = cs_history c @ new"
    by (cases e) (auto split: option.split cache_request.split)
  with 1 show ?case by auto
qed simp_all

text \<open>C39: following the bus without a gap. A client with a buffer of at least 512 bytes that asks for the updates since the position
  it got with its last answer gets the group addresses of the telegrams in between, in their order and without those to the broadcast
  address 0, if there were not more than 256 telegrams; the client library returns them with the position for the
  next request. The position is a 16 bit counter that may have wrapped round. (In a smaller buffer the library cuts the addresses
  off, while the position moves past all of them.)
\<close>

theorem group_updates_resume:
  assumes "cache_run n es (l3, GroupCache_new) = (as, st)" and "cache_run n es' st = (bs, l3', s)"
    and "c = spec_run es as spec_new" and "cs_history (spec_run es' bs c) = cs_history c @ new"
    and "length new \<le> 256" and "512 \<le> maxlen"
    and "GroupCacheRequest_updates (of_nat (length (cs_history c))) timeout s = (Some m, p)"
  shows "EIB_Cache_LastUpdates_complete maxlen \<lparr>ei_readlen = r, ei_buf = m, ei_size = length m\<rparr> out =
    Returned (out\<lparr>eo_ptr4 := Some (of_nat (length (cs_history c @ new))),
      eo_ret := 2 * int (length (filter (\<lambda>a. a \<noteq> 0) new)), eo_buf := address_bytes (filter (\<lambda>a. a \<noteq> 0) new)\<rparr>)"
proof -
  have "implements s (spec_run es' bs c)"
    using implements_run [OF implements_new] implements_run assms(1-3) by (metis surj_pair)
  then have r: "ring_holds (cs_history c @ new) s" using assms(4) by (simp add: implements_def)
  then have "gp_pos s = of_nat (length (cs_history c @ new))" by (simp add: ring_holds_def)
  then have "m = cache_updates_reply (filter (\<lambda>a. a \<noteq> 0) new) (of_nat (length (cs_history c @ new)))"
    using assms(7) by (simp add: GroupCacheRequest_updates_def wake_updates [OF r] updates_since_mark [OF assms(5)] split: if_splits)
  moreover have f: "length (filter (\<lambda>a. a \<noteq> 0) new) \<le> 256" using length_filter_le le_trans assms(5) by blast
  moreover have "length (address_bytes (filter (\<lambda>a. a \<noteq> 0) new)) \<le> maxlen"
    using f assms(6) by (simp add: address_bytes_def length_concat comp_def sum_list_triv)
  ultimately show ?thesis using assms(6) by (simp add: updates_decoded)
qed

text \<open>
  The witness: the cache is switched on and stores a write of the value 1 to the group 1/1/1; the
  client that asks from the position 0 learns of that group.
\<close>

abbreviation switch_on :: cache_event where
  "switch_on \<equiv> Request True [0, 0x70]"

abbreviation value_written :: cache_event where
  "value_written \<equiv> Telegram 5 (L_Data_request 0x1101 0x0901 GroupAddress PRIO_LOW [0x00, 0x81])"

lemma group_updates_resume_witness:
  "EIB_Cache_LastUpdates_complete 512 \<lparr>ei_readlen = 0, ei_buf = cache_updates_reply [0x0901] 1, ei_size = length (cache_updates_reply [0x0901] 1)\<rparr> eib_out_new =
   Returned (eib_out_new\<lparr>eo_ptr4 := Some 1, eo_ret := 2, eo_buf := [0x09, 0x01]\<rparr>)"
proof -
  let ?st = "snd (cache_run 0 [switch_on] (Layer3_new, GroupCache_new))"
  let ?as = "fst (cache_run 0 [switch_on] (Layer3_new, GroupCache_new))"
  let ?r = "cache_run 0 [value_written] ?st"
  let ?c = "spec_run [switch_on] ?as spec_new"
  have "cs_history (spec_run [value_written] (fst ?r) ?c) = cs_history ?c @ [0x0901]" by code_simp
  moreover have h: "cs_history ?c = []" by code_simp
  moreover have "GroupCacheRequest_updates 0 False (snd (snd ?r)) = (Some (cache_updates_reply [0x0901] 1), 1)"
    by code_simp
  ultimately show ?thesis
    using group_updates_resume [where es = "[switch_on]" and es' = "[value_written]" and n = 0 and ?as = "?as" and st = "?st"
      and bs = "fst ?r" and l3' = "fst (snd ?r)" and s = "snd (snd ?r)" and c = "?c" and new = "[0x0901]" and ?maxlen = 512
      and timeout = False and m = "cache_updates_reply [0x0901] 1" and p = 1 and r = 0 and out = eib_out_new]
    by (simp add: address_bytes_def hi8_def lo8_def)
qed

text \<open>no request waits for ever. When its time is over, a request for updates is answered, from
  whatever position it started and with at most 256 addresses (516 bytes); a read is answered with
  an entry of the address it asked for, without data unless there is a value that is recent enough,
  and an address that gave no answer has an entry from then on.
\<close>

theorem group_cache_waits_end:
  "case cache_run n es (l3, GroupCache_new) of
     (answers, l3', s) \<Rightarrow>
       (\<exists>m p. GroupCacheRequest_updates start True s = (Some m, p) \<and> length m \<le> 516) \<and>
       (\<exists>e s'. GroupCache_Read_wake now True addr age s = (Cached e, s') \<and> ge_dst e = addr \<and>
          ge_data e = (case cs_map (spec_run es answers spec_new) addr of
                         Some v \<Rightarrow> if outdated now age v then [] else ge_data v
                       | None \<Rightarrow> []) \<and>
          GroupCache_find addr s' \<noteq> None)"
proof (cases "cache_run n es (l3, GroupCache_new)")
  case (fields answers l3' s)
  define c where "c = spec_run es answers spec_new"
  have i: "implements s c" unfolding c_def by (rule implements_run [OF implements_new fields])
  have "length (updates_since (cs_history c) start) \<le> 256"
    unfolding updates_since_def by (rule le_trans [OF length_filter_le]) simp
  then have u: "\<exists>m p. GroupCacheRequest_updates start True s = (Some m, p) \<and> length m \<le> 516"
    using wake_updates [of "cs_history c" s start True] i
    by (simp add: GroupCacheRequest_updates_def implements_def cache_updates_reply_def EIBSETTYPE_def length_concat comp_def sum_list_triv)
  obtain e s' where w: "GroupCache_Read_wake now True addr age s = (Cached e, s')"
    by (cases "GroupCache_find addr s"; cases "outdated now age (gp_cache s ! the (GroupCache_find addr s))")
      (auto simp: GroupCache_Read_wake_def Let_def)
  have i': "implements s' (spec_step (Read_round now True addr age) None c)"
    using implements_wake [OF i, of now True addr age None] w by simp
  have f: "map_option (\<lambda>p. gp_cache s ! p) (GroupCache_find addr s) = cs_map c addr"
    and f': "map_option (\<lambda>p. gp_cache s' ! p) (GroupCache_find addr s') = cs_map (spec_step (Read_round now True addr age) None c) addr"
    using find_entries [of s addr] find_entries [of s' addr] i i' unfolding implements_def by auto
  have "cs_map (spec_step (Read_round now True addr age) None c) addr \<noteq> None" by auto
  then have n: "GroupCache_find addr s' \<noteq> None" using f' by auto
  have "ge_dst v = addr" if "cs_map c addr = Some v" for v
    using i that entries_Some_iff [of "gp_cache s" addr v] by (simp add: implements_def)
  then have "ge_dst e = addr \<and> ge_data e =
      (case cs_map c addr of Some v \<Rightarrow> if outdated now age v then [] else ge_data v | None \<Rightarrow> [])"
    using w by (auto simp: GroupCache_Read_wake_def f no_entry_def Let_def split: option.splits if_splits)
  with u w n show ?thesis by (simp add: fields c_def [symmetric])
qed

end
