(* ===== verification/Emi.thy ===== *)
theory Emi
  imports LpduCodec
begin

text \<open>
  The message formats between eibd and a bus interface, \<open>eibd/libserver/emi.cpp\<close>: the common
  external message interface of EIBnet/IP (CEMI) and the message interface of bus coupling units
  (EMI). A failed \<open>assert\<close> is \<open>None\<close> in an encoder; a decoder returns \<open>None\<close> for a null pointer.
\<close>

section \<open>CEMI\<close>

definition L_Data_ToCEMI :: "uchar \<Rightarrow> l_data \<Rightarrow> CArray option" where
  "L_Data_ToCEMI code l =
     (if length (data l) \<ge> 1 \<and> length (data l) < 0xff \<and> hopcount l AND 0xf8 = 0 then
        Some ([code, 0x00,
          0x10 OR push_bit 2 (EIB_Priority_bits (prio l)) OR (if length (data l) - 1 \<le> 0x0f then 0x80 else 0x00)
            OR (if code = 0x29 then (if repeated l then 0 else 0x20) else 0x20),
          (if AddrType l = GroupAddress then 0x80 else 0x00) OR push_bit 4 (hopcount l AND 0x7),
          hi8 (source l), lo8 (source l), hi8 (dest l), lo8 (dest l),
          of_nat (length (data l) - 1)] @ data l)
      else None)"

text \<open>
  The last test of the function is written \<open>!data[start] & 0x80 && ...\<close>, where the negation binds
  more tightly than the \<open>&\<close>.
\<close>

definition CEMI_to_L_Data :: "CArray \<Rightarrow> l_data option" where
  "CEMI_to_L_Data c =
     (if length c < 2 then None
      else
        let start = unat (c ! 1) + 2
        in if length c < 7 + start then None
           else if length c < 7 + start + unat (c ! (6 + start)) + 1 then None
           else if (if c ! start = 0 then 1 else 0) AND (0x80 :: 32 word) \<noteq> 0 \<and> c ! (start + 1) AND 0x0f \<noteq> 0 then None
           else Some (L_Data_new\<lparr>
                  source := mk16 (c ! (start + 2)) (c ! (start + 3)),
                  dest := mk16 (c ! (start + 4)) (c ! (start + 5)),
                  data := take (unat (c ! (6 + start)) + 1) (drop (start + 7) c),
                  repeated := (c ! 0 = 0x29 \<and> c ! start AND 0x20 = 0),
                  prio := EIB_Priority_read (drop_bit 2 (c ! start) AND 0x3),
                  hopcount := drop_bit 4 (c ! (start + 1)) AND 0x07,
                  AddrType := (if c ! (start + 1) AND 0x80 \<noteq> 0 then GroupAddress else IndividualAddress)\<rparr>))"

definition CEMI_to_Busmonitor :: "CArray \<Rightarrow> CArray option" where
  "CEMI_to_Busmonitor c =
     (if length c < 2 then None
      else
        let start = unat (c ! 1) + 2
        in if length c < 1 + start then None else Some (drop start c))"

text \<open>\<open>n\<close> is the value of the \<open>int\<close> counter the caller increases.\<close>

definition Busmonitor_to_CEMI :: "uchar \<Rightarrow> CArray \<Rightarrow> int \<Rightarrow> CArray" where
  "Busmonitor_to_CEMI code p n = [code, 4, 3, 1, 1, of_int n AND 0x7] @ p"

section \<open>EMI\<close>

definition L_Data_ToEMI :: "uchar \<Rightarrow> l_data \<Rightarrow> CArray" where
  "L_Data_ToEMI code l =
     [code, push_bit 2 (EIB_Priority_bits (prio l)), 0, 0, hi8 (dest l), lo8 (dest l),
      push_bit 4 (hopcount l AND 0x07) OR (word_of_int (int (length (data l)) - 1) AND 0x0f)
        OR (if AddrType l = GroupAddress then 0x80 else 0x00)] @ data l"

definition EMI_to_L_Data :: "CArray \<Rightarrow> l_data option" where
  "EMI_to_L_Data c =
     (if length c < 8 then None
      else
        let len = unat (c ! 6 AND 0x0f) + 1;
            len = (if len > length c - 7 then length c - 7 else len)
        in Some (L_Data_new\<lparr>
             source := mk16 (c ! 2) (c ! 3),
             dest := mk16 (c ! 4) (c ! 5),
             prio := EIB_Priority_read (drop_bit 2 (c ! 1) AND 0x3),
             AddrType := (if c ! 6 AND 0x80 \<noteq> 0 then GroupAddress else IndividualAddress),
             data := take len (drop 7 c),
             hopcount := drop_bit 4 (c ! 6) AND 0x07\<rparr>))"

section \<open>Round trips\<close>

text \<open>As in a link layer frame, a trip exchanges the priorities normal and urgent.\<close>

lemma cemi_control:
  fixes p :: EIB_Priority and short r :: bool
  defines "b \<equiv> 0x10 OR push_bit 2 (EIB_Priority_bits p) OR (if short then 0x80 else 0x00) OR (if r then 0 else 0x20 :: uchar)"
  shows "drop_bit 2 b AND 0x3 = EIB_Priority_bits p" "b AND 0x20 = 0 \<longleftrightarrow> r" "b \<noteq> 0"
  unfolding b_def by (cases p; cases short; cases r; simp add: EIB_Priority_bits_def)+

lemma cemi_length: "n < 256 \<Longrightarrow> unat (of_nat n :: uchar) = n"
  by (simp add: unsigned_of_nat take_bit_nat_eq_self)

lemma hop_bits_short:
  fixes h :: uchar and g :: bool
  assumes "h AND 0xf8 = 0"
  shows "drop_bit 4 ((if g then 0x80 else 0) OR push_bit 4 (h AND 7)) AND 7 = h"
    and "((if g then 0x80 else 0) OR push_bit 4 (h AND 7)) AND 0x80 = 0 \<longleftrightarrow> \<not> g"
  using hop_bits [OF assms, of 0 g] by (simp_all add: or.commute)

lemma CEMI_round_trip_eq:
  assumes "L_Data_ToCEMI code l = Some c"
  shows "CEMI_to_L_Data c = Some ((frame_read_back l)\<lparr>repeated := (code = 0x29 \<and> repeated l)\<rparr>)"
proof -
  have l: "length (data l) \<ge> 1" "length (data l) < 0xff" and h: "hopcount l AND 0xf8 = 0"
    using assms by (simp_all add: L_Data_ToCEMI_def split: if_splits)
  have n: "unat (of_nat (length (data l) - 1) :: uchar) = length (data l) - 1"
    using l by (intro cemi_length) simp
  define x where "x = (0x10 OR push_bit 2 (EIB_Priority_bits (prio l)) OR (if length (data l) - 1 \<le> 0x0f then 0x80 else 0x00)
            OR (if code = 0x29 then (if repeated l then 0 else 0x20) else 0x20) :: uchar)"
  have x: "drop_bit 2 x AND 0x3 = EIB_Priority_bits (prio l)" "code = 0x29 \<Longrightarrow> x AND 0x20 = 0 \<longleftrightarrow> repeated l"
    using cemi_control [of "prio l" "length (data l) - 1 \<le> 0x0f" "code = 0x29 \<and> repeated l"] unfolding x_def
    by (auto split: if_splits)
  define y where "y = (if AddrType l = GroupAddress then 0x80 else 0x00) OR push_bit 4 (hopcount l AND 0x7)"
  have y: "drop_bit 4 y AND 7 = hopcount l" "y AND 0x80 = 0 \<longleftrightarrow> AddrType l \<noteq> GroupAddress"
    using hop_bits_short [OF h, of "AddrType l = GroupAddress"] by (simp_all add: y_def)
  define k where "k = (of_nat (length (data l) - 1) :: uchar)"
  have k: "unat k = length (data l) - 1" using n by (simp add: k_def)
  have c: "c = [code, 0, x, y, hi8 (source l), lo8 (source l), hi8 (dest l), lo8 (dest l), k] @ data l"
    using assms by (simp add: L_Data_ToCEMI_def x_def y_def k_def split: if_splits)
  have i: "c ! 0 = code" "c ! Suc 0 = 0" "c ! Suc (Suc 0) = x" "c ! Suc (Suc (Suc 0)) = y" "c ! Suc (Suc (Suc (Suc 0))) = hi8 (source l)"
    "c ! 5 = lo8 (source l)" "c ! 6 = hi8 (dest l)" "c ! 7 = lo8 (dest l)" "c ! 8 = k"
    "length c = 9 + length (data l)" "drop 9 c = data l"
    by (simp_all add: c)
  have a: "(if AddrType l = GroupAddress then GroupAddress else IndividualAddress) = AddrType l" by (cases "AddrType l") simp_all
  show ?thesis using l x(2)
    by (cases l) (auto simp: CEMI_to_L_Data_def i k x(1) y a priority_decoded L_Data_new_def frame_read_back_def Let_def addr_type_decoded)
qed

text \<open>An EMI message has no source address, no repeat flag and four bits for the length.\<close>

lemma EMI_round_trip_eq:
  assumes "1 \<le> length (data l)" and "length (data l) \<le> 16" and "hopcount l AND 0xf8 = 0"
  shows "EMI_to_L_Data (L_Data_ToEMI code l) = Some ((frame_read_back l)\<lparr>source := 0, repeated := False\<rparr>)"
proof -
  define y where "y = push_bit 4 (hopcount l AND 0x07) OR (word_of_int (int (length (data l)) - 1) AND 0x0f)
        OR (if AddrType l = GroupAddress then 0x80 else 0x00)"
  have w: "word_of_int (int (length (data l)) - 1) = (of_nat (length (data l) - 1) :: uchar)"
    using assms(1) by (simp add: of_nat_diff)
  have y: "drop_bit 4 y AND 7 = hopcount l" "y AND 0x80 = 0 \<longleftrightarrow> AddrType l \<noteq> GroupAddress"
    "unat (y AND 0xf) = length (data l) - 1"
    unfolding y_def w hop_bits(2) [OF assms(3)]
    using hop_bits [OF assms(3), of "of_nat (length (data l) - 1)" "AddrType l = GroupAddress"]
      low_nibble_nat [of "length (data l) - 1"] assms(2) by (blast, blast, simp)
  define c where "c = L_Data_ToEMI code l"
  have c': "c = [code, push_bit 2 (EIB_Priority_bits (prio l)), 0, 0, hi8 (dest l), lo8 (dest l), y] @ data l"
    by (simp add: c_def L_Data_ToEMI_def y_def)
  have i: "c ! Suc 0 = push_bit 2 (EIB_Priority_bits (prio l))" "c ! 1 = push_bit 2 (EIB_Priority_bits (prio l))" "c ! 2 = 0" "c ! 3 = 0" "c ! 4 = hi8 (dest l)"
      "c ! 5 = lo8 (dest l)" "c ! 6 = y" "length c = 7 + length (data l)" "drop 7 c = data l"
    by (simp_all add: c')
  have p: "drop_bit 2 (push_bit 2 (EIB_Priority_bits q)) AND 0x3 = EIB_Priority_bits q" for q
    by (cases q) (simp_all add: EIB_Priority_bits_def)
  have m: "mk16 0 0 = 0" by (simp add: mk16_def)
  have "EMI_to_L_Data c = Some ((frame_read_back l)\<lparr>source := 0, repeated := False\<rparr>)"
    using assms(1) by (cases l) (auto simp: EMI_to_L_Data_def i y p m priority_decoded L_Data_new_def frame_read_back_def Let_def addr_type_decoded)
  then show ?thesis by (simp add: c_def)
qed

text \<open>What comes out of a decoder can be encoded again, unless the payload is that of an overlong message.\<close>

lemma CEMI_to_L_Data_bounds:
  assumes "CEMI_to_L_Data c = Some l"
  shows "1 \<le> length (data l)" and "length (data l) + 9 \<le> length c" and "hopcount l AND 0xf8 = 0"
proof -
  let ?start = "unat (c ! 1) + 2"
  from assms have n: "\<not> length c < 7 + ?start + unat (c ! (6 + ?start)) + 1"
    and l: "data l = take (unat (c ! (6 + ?start)) + 1) (drop (?start + 7) c)" "hopcount l = drop_bit 4 (c ! (?start + 1)) AND 0x07"
    by (auto simp: CEMI_to_L_Data_def Let_def split: if_splits)
  show "hopcount l AND 0xf8 = 0" by (simp only: l hop_small)
  have "length (data l) = unat (c ! (6 + ?start)) + 1" using n by (simp add: l)
  then show "1 \<le> length (data l)" "length (data l) + 9 \<le> length c" using n by linarith+
qed

lemma CEMI_again:
  "CEMI_to_L_Data c = Some l \<Longrightarrow> length c \<le> 263 \<Longrightarrow> L_Data_ToCEMI code l \<noteq> None"
  using CEMI_to_L_Data_bounds [of c l] by (simp add: L_Data_ToCEMI_def)

lemma hop_less: "h AND 0xf8 = 0 \<longleftrightarrow> h < 8" for h :: uchar
proof
  assume a: "h AND 0xf8 = 0"
  have "h = h AND mask 3"
  proof (rule bit_word_eqI)
    fix n assume "n < LENGTH(8)"
    then show "bit h n = bit (h AND mask 3) n"
      using masked_bit [OF a, of n] by (auto simp: bit_simps less_Suc_eq numeral_eq_Suc)
  qed
  then show "h < 8" using and_mask_less' [of 3 h] by simp
next
  assume "h < 8"
  then have "unat (take_bit 3 h) = unat h"
    by (simp add: unsigned_take_bit_eq take_bit_nat_eq_self word_less_nat_alt)
  then have "take_bit 3 h = h" by (simp add: word_unat_eq_iff)
  then have "h AND 0xf8 = (h AND mask 3) AND 0xf8" by (simp add: take_bit_eq_mask)
  then show "h AND 0xf8 = 0" by (simp add: mask_eq_exp_minus_1 and.assoc)
qed

lemma hop_decrement:
  "h AND 0xf8 = 0 \<Longrightarrow> h \<noteq> 0 \<Longrightarrow> (h - 1) AND 0xf8 = 0" for h :: uchar
  unfolding hop_less by (simp add: word_less_nat_alt unat_minus_one)

end
