(* ===== verification/EibNetIp.thy ===== *)
theory EibNetIp
  imports Arrays
begin

text \<open>
  The packets of EIBnet/IP, \<open>eibd/libserver/eibnetip.cpp\<close>: the frame with its header, the address
  block, and the thirteen messages with \<open>ToPacket\<close> and the function that parses them. The fields
  of a \<open>sockaddr_in\<close> are in host byte order, so \<open>htonl\<close> and \<open>ntohl\<close> leave no trace. A parser gets
  the object it fills and returns the code of the C++ function (0 is success) with the object,
  which a failed parse may have changed in part.
\<close>

section \<open>Addresses\<close>

record sockaddr_in =
  sin_family :: nat
  sin_port :: "16 word"
  sin_addr :: "32 word"

abbreviation (input) AF_INET :: nat where "AF_INET \<equiv> 2"

definition sockaddr_zero :: sockaddr_in where
  "sockaddr_zero = \<lparr>sin_family = 0, sin_port = 0, sin_addr = 0\<rparr>"

definition compareIPAddress :: "sockaddr_in \<Rightarrow> sockaddr_in \<Rightarrow> bool" where
  "compareIPAddress a b =
     (if sin_family a \<noteq> AF_INET then False
      else if sin_family b \<noteq> AF_INET then False
      else if sin_port a \<noteq> sin_port b then False
      else if sin_addr a \<noteq> sin_addr b then False
      else True)"

definition IPtoEIBNetIP :: "sockaddr_in \<Rightarrow> bool \<Rightarrow> CArray" where
  "IPtoEIBNetIP a n =
     (if n then [0x08, 0x01, 0, 0, 0, 0, 0, 0]
      else [0x08, 0x01, byte32 24 (sin_addr a), byte32 16 (sin_addr a), byte32 8 (sin_addr a), byte32 0 (sin_addr a),
            hi8 (sin_port a), lo8 (sin_port a)])"

text \<open>The result is the code, \<open>*a\<close> and \<open>nat\<close>, the argument \<open>n\<close>.\<close>

definition EIBnettoIP :: "CArray \<Rightarrow> sockaddr_in \<Rightarrow> bool \<Rightarrow> nat \<times> sockaddr_in \<times> bool" where
  "EIBnettoIP buf src n =
     (if buf ! 0 \<noteq> 0x8 \<or> buf ! 1 \<noteq> 0x1 then (1, sockaddr_zero, n)
      else
        let ip = mk32 (buf ! 2) (buf ! 3) (buf ! 4) (buf ! 5);
            port = mk16 (buf ! 6) (buf ! 7)
        in (0, \<lparr>sin_family = AF_INET,
               sin_port = (if port = 0 then sin_port src else port),
               sin_addr = (if ip = 0 then sin_addr src else ip)\<rparr>,
            if ip = 0 then True else n))"

section \<open>Packets\<close>

text \<open>\<open>service\<close> is an \<open>int\<close> that only ever holds 16 bit values.\<close>

record EIBNetIPPacket =
  service :: "16 word"
  pdata :: CArray
  psrc :: sockaddr_in

definition EIBNetIPPacket_new :: EIBNetIPPacket where
  "EIBNetIPPacket_new = \<lparr>service = 0, pdata = [], psrc = sockaddr_zero\<rparr>"

definition EIBNetIPPacket_fromPacket :: "CArray \<Rightarrow> sockaddr_in \<Rightarrow> EIBNetIPPacket option" where
  "EIBNetIPPacket_fromPacket c src =
     (if length c < 6 then None
      else if c ! 0 \<noteq> 0x6 \<or> c ! 1 \<noteq> 0x10 then None
      else
        let len = unat (mk16 (c ! 4) (c ! 5))
        in if len \<noteq> length c then None
           else Some \<lparr>service = mk16 (c ! 2) (c ! 3), pdata = take (len - 6) (drop 6 c), psrc = src\<rparr>)"

definition EIBNetIPPacket_ToPacket :: "EIBNetIPPacket \<Rightarrow> CArray" where
  "EIBNetIPPacket_ToPacket p =
     [0x06, 0x10, hi8 (service p), lo8 (service p),
      hi8 (of_nat (length (pdata p) + 6)), lo8 (of_nat (length (pdata p) + 6))] @ pdata p"

abbreviation (input) SEARCH_REQUEST :: "16 word" where "SEARCH_REQUEST \<equiv> 0x0201"
abbreviation (input) SEARCH_RESPONSE :: "16 word" where "SEARCH_RESPONSE \<equiv> 0x0202"
abbreviation (input) DESCRIPTION_REQUEST :: "16 word" where "DESCRIPTION_REQUEST \<equiv> 0x0203"
abbreviation (input) DESCRIPTION_RESPONSE :: "16 word" where "DESCRIPTION_RESPONSE \<equiv> 0x0204"
abbreviation (input) CONNECTION_REQUEST :: "16 word" where "CONNECTION_REQUEST \<equiv> 0x0205"
abbreviation (input) CONNECTION_RESPONSE :: "16 word" where "CONNECTION_RESPONSE \<equiv> 0x0206"
abbreviation (input) CONNECTIONSTATE_REQUEST :: "16 word" where "CONNECTIONSTATE_REQUEST \<equiv> 0x0207"
abbreviation (input) CONNECTIONSTATE_RESPONSE :: "16 word" where "CONNECTIONSTATE_RESPONSE \<equiv> 0x0208"
abbreviation (input) DISCONNECT_REQUEST :: "16 word" where "DISCONNECT_REQUEST \<equiv> 0x0209"
abbreviation (input) DISCONNECT_RESPONSE :: "16 word" where "DISCONNECT_RESPONSE \<equiv> 0x020A"
abbreviation (input) TUNNEL_REQUEST :: "16 word" where "TUNNEL_REQUEST \<equiv> 0x0420"
abbreviation (input) TUNNEL_RESPONSE :: "16 word" where "TUNNEL_RESPONSE \<equiv> 0x0421"
abbreviation (input) DEVICE_CONFIGURATION_REQUEST :: "16 word" where "DEVICE_CONFIGURATION_REQUEST \<equiv> 0x0310"
abbreviation (input) DEVICE_CONFIGURATION_ACK :: "16 word" where "DEVICE_CONFIGURATION_ACK \<equiv> 0x0311"
abbreviation (input) ROUTING_INDICATION :: "16 word" where "ROUTING_INDICATION \<equiv> 0x0530"

text \<open>A packet that \<open>ToPacket\<close> of a message returns.\<close>

definition packet_of :: "16 word \<Rightarrow> CArray \<Rightarrow> EIBNetIPPacket" where
  "packet_of s d = EIBNetIPPacket_new\<lparr>service := s, pdata := d\<rparr>"

text \<open>\<open>CArray (p.data.array () + off, n)\<close> and \<open>memcpy (d + off, s, ...)\<close>.\<close>

definition part :: "nat \<Rightarrow> nat \<Rightarrow> CArray \<Rightarrow> CArray" where
  "part off n d = take n (drop off d)"

definition put :: "nat \<Rightarrow> CArray \<Rightarrow> CArray \<Rightarrow> CArray" where
  "put off s d = take off d @ s @ drop (off + length s) d"

section \<open>Connecting\<close>

record EIBnet_ConnectRequest =
  cq_caddr :: sockaddr_in
  cq_daddr :: sockaddr_in
  cq_CRI :: CArray
  cq_nat :: bool

definition EIBnet_ConnectRequest_new :: EIBnet_ConnectRequest where
  "EIBnet_ConnectRequest_new = \<lparr>cq_caddr = sockaddr_zero, cq_daddr = sockaddr_zero, cq_CRI = [], cq_nat = False\<rparr>"

definition EIBnet_ConnectRequest_ToPacket :: "EIBnet_ConnectRequest \<Rightarrow> EIBNetIPPacket" where
  "EIBnet_ConnectRequest_ToPacket r =
     packet_of CONNECTION_REQUEST
       (IPtoEIBNetIP (cq_caddr r) (cq_nat r) @ IPtoEIBNetIP (cq_daddr r) (cq_nat r) @
        [of_nat (length (cq_CRI r) + 1)] @ cq_CRI r)"

definition parseEIBnet_ConnectRequest ::
    "EIBNetIPPacket \<Rightarrow> EIBnet_ConnectRequest \<Rightarrow> nat \<times> EIBnet_ConnectRequest" where
  "parseEIBnet_ConnectRequest p r =
     (if service p \<noteq> CONNECTION_REQUEST then (1, r)
      else if length (pdata p) < 18 then (1, r)
      else
        let (e, a, n) = EIBnettoIP (part 0 8 (pdata p)) (psrc p) (cq_nat r);
            r = r\<lparr>cq_caddr := a, cq_nat := n\<rparr>
        in if e \<noteq> 0 then (1, r)
           else
             let (e, a, n) = EIBnettoIP (part 8 8 (pdata p)) (psrc p) (cq_nat r);
                 r = r\<lparr>cq_daddr := a, cq_nat := n\<rparr>
             in if e \<noteq> 0 then (1, r)
                else if length (pdata p) - 16 \<noteq> unat (pdata p ! 16) then (1, r)
                else (0, r\<lparr>cq_CRI := part 17 (length (pdata p) - 17) (pdata p)\<rparr>))"

record EIBnet_ConnectResponse =
  cp_channel :: uchar
  cp_status :: uchar
  cp_daddr :: sockaddr_in
  cp_nat :: bool
  cp_CRD :: CArray

definition EIBnet_ConnectResponse_new :: EIBnet_ConnectResponse where
  "EIBnet_ConnectResponse_new = \<lparr>cp_channel = 0, cp_status = 0, cp_daddr = sockaddr_zero, cp_nat = False, cp_CRD = []\<rparr>"

definition EIBnet_ConnectResponse_ToPacket :: "EIBnet_ConnectResponse \<Rightarrow> EIBNetIPPacket" where
  "EIBnet_ConnectResponse_ToPacket r =
     packet_of CONNECTION_RESPONSE
       (if cp_status r \<noteq> 0 then [cp_channel r, cp_status r]
        else [cp_channel r, cp_status r] @ IPtoEIBNetIP (cp_daddr r) (cp_nat r) @
             [of_nat (length (cp_CRD r) + 1)] @ cp_CRD r)"

definition parseEIBnet_ConnectResponse ::
    "EIBNetIPPacket \<Rightarrow> EIBnet_ConnectResponse \<Rightarrow> nat \<times> EIBnet_ConnectResponse" where
  "parseEIBnet_ConnectResponse p r =
     (if service p \<noteq> CONNECTION_RESPONSE then (1, r)
      else if length (pdata p) < 2 then (1, r)
      else if pdata p ! 1 \<noteq> 0 then
        (if length (pdata p) \<noteq> 2 then (1, r)
         else (0, r\<lparr>cp_channel := pdata p ! 0, cp_status := pdata p ! 1\<rparr>))
      else if length (pdata p) < 12 then (1, r)
      else
        let (e, a, n) = EIBnettoIP (part 2 8 (pdata p)) (psrc p) (cp_nat r);
            r = r\<lparr>cp_daddr := a, cp_nat := n\<rparr>
        in if e \<noteq> 0 then (1, r)
           else if length (pdata p) - 10 \<noteq> unat (pdata p ! 10) then (1, r)
           else (0, r\<lparr>cp_channel := pdata p ! 0, cp_status := pdata p ! 1,
                     cp_CRD := part 11 (length (pdata p) - 11) (pdata p)\<rparr>))"

section \<open>Keeping and closing a connection\<close>

text \<open>The member \<open>status\<close> of the class \<open>EIBnet_ConnectionStateRequest\<close> is never used.\<close>

record EIBnet_ConnectionStateRequest =
  sq_channel :: uchar
  sq_caddr :: sockaddr_in
  sq_nat :: bool

definition EIBnet_ConnectionStateRequest_new :: EIBnet_ConnectionStateRequest where
  "EIBnet_ConnectionStateRequest_new = \<lparr>sq_channel = 0, sq_caddr = sockaddr_zero, sq_nat = False\<rparr>"

definition EIBnet_ConnectionStateRequest_ToPacket :: "EIBnet_ConnectionStateRequest \<Rightarrow> EIBNetIPPacket" where
  "EIBnet_ConnectionStateRequest_ToPacket r =
     packet_of CONNECTIONSTATE_REQUEST ([sq_channel r, 0] @ IPtoEIBNetIP (sq_caddr r) (sq_nat r))"

definition parseEIBnet_ConnectionStateRequest ::
    "EIBNetIPPacket \<Rightarrow> EIBnet_ConnectionStateRequest \<Rightarrow> nat \<times> EIBnet_ConnectionStateRequest" where
  "parseEIBnet_ConnectionStateRequest p r =
     (if service p \<noteq> CONNECTIONSTATE_REQUEST then (1, r)
      else if length (pdata p) \<noteq> 10 then (1, r)
      else
        let (e, a, n) = EIBnettoIP (part 2 8 (pdata p)) (psrc p) (sq_nat r);
            r = r\<lparr>sq_caddr := a, sq_nat := n\<rparr>
        in if e \<noteq> 0 then (1, r) else (0, r\<lparr>sq_channel := pdata p ! 0\<rparr>))"

record EIBnet_ConnectionStateResponse =
  sp_channel :: uchar
  sp_status :: uchar

definition EIBnet_ConnectionStateResponse_new :: EIBnet_ConnectionStateResponse where
  "EIBnet_ConnectionStateResponse_new = \<lparr>sp_channel = 0, sp_status = 0\<rparr>"

definition EIBnet_ConnectionStateResponse_ToPacket :: "EIBnet_ConnectionStateResponse \<Rightarrow> EIBNetIPPacket" where
  "EIBnet_ConnectionStateResponse_ToPacket r = packet_of CONNECTIONSTATE_RESPONSE [sp_channel r, sp_status r]"

definition parseEIBnet_ConnectionStateResponse ::
    "EIBNetIPPacket \<Rightarrow> EIBnet_ConnectionStateResponse \<Rightarrow> nat \<times> EIBnet_ConnectionStateResponse" where
  "parseEIBnet_ConnectionStateResponse p r =
     (if service p \<noteq> CONNECTIONSTATE_RESPONSE then (1, r)
      else if length (pdata p) \<noteq> 2 then (1, r)
      else (0, r\<lparr>sp_channel := pdata p ! 0, sp_status := pdata p ! 1\<rparr>))"

record EIBnet_DisconnectRequest =
  dq_caddr :: sockaddr_in
  dq_channel :: uchar
  dq_nat :: bool

definition EIBnet_DisconnectRequest_new :: EIBnet_DisconnectRequest where
  "EIBnet_DisconnectRequest_new = \<lparr>dq_caddr = sockaddr_zero, dq_channel = 0, dq_nat = False\<rparr>"

definition EIBnet_DisconnectRequest_ToPacket :: "EIBnet_DisconnectRequest \<Rightarrow> EIBNetIPPacket" where
  "EIBnet_DisconnectRequest_ToPacket r =
     packet_of DISCONNECT_REQUEST ([dq_channel r, 0] @ IPtoEIBNetIP (dq_caddr r) (dq_nat r))"

definition parseEIBnet_DisconnectRequest ::
    "EIBNetIPPacket \<Rightarrow> EIBnet_DisconnectRequest \<Rightarrow> nat \<times> EIBnet_DisconnectRequest" where
  "parseEIBnet_DisconnectRequest p r =
     (if service p \<noteq> DISCONNECT_REQUEST then (1, r)
      else if length (pdata p) \<noteq> 10 then (1, r)
      else
        let (e, a, n) = EIBnettoIP (part 2 8 (pdata p)) (psrc p) (dq_nat r);
            r = r\<lparr>dq_caddr := a, dq_nat := n\<rparr>
        in if e \<noteq> 0 then (1, r) else (0, r\<lparr>dq_channel := pdata p ! 0\<rparr>))"

record EIBnet_DisconnectResponse =
  dp_channel :: uchar
  dp_status :: uchar

definition EIBnet_DisconnectResponse_new :: EIBnet_DisconnectResponse where
  "EIBnet_DisconnectResponse_new = \<lparr>dp_channel = 0, dp_status = 0\<rparr>"

definition EIBnet_DisconnectResponse_ToPacket :: "EIBnet_DisconnectResponse \<Rightarrow> EIBNetIPPacket" where
  "EIBnet_DisconnectResponse_ToPacket r = packet_of DISCONNECT_RESPONSE [dp_channel r, dp_status r]"

definition parseEIBnet_DisconnectResponse ::
    "EIBNetIPPacket \<Rightarrow> EIBnet_DisconnectResponse \<Rightarrow> nat \<times> EIBnet_DisconnectResponse" where
  "parseEIBnet_DisconnectResponse p r =
     (if service p \<noteq> DISCONNECT_RESPONSE then (1, r)
      else if length (pdata p) \<noteq> 2 then (1, r)
      else (0, r\<lparr>dp_channel := pdata p ! 0, dp_status := pdata p ! 1\<rparr>))"

section \<open>Tunnelling and configuration\<close>

text \<open>The two pairs of classes have the same members; they differ in the service.\<close>

record EIBnet_TunnelRequest =
  tq_channel :: uchar
  tq_seqno :: uchar
  tq_CEMI :: CArray

definition EIBnet_TunnelRequest_new :: EIBnet_TunnelRequest where
  "EIBnet_TunnelRequest_new = \<lparr>tq_channel = 0, tq_seqno = 0, tq_CEMI = []\<rparr>"

definition EIBnet_TunnelRequest_ToPacket :: "EIBnet_TunnelRequest \<Rightarrow> EIBNetIPPacket" where
  "EIBnet_TunnelRequest_ToPacket r = packet_of TUNNEL_REQUEST ([4, tq_channel r, tq_seqno r, 0] @ tq_CEMI r)"

definition parseEIBnet_TunnelRequest ::
    "EIBNetIPPacket \<Rightarrow> EIBnet_TunnelRequest \<Rightarrow> nat \<times> EIBnet_TunnelRequest" where
  "parseEIBnet_TunnelRequest p r =
     (if service p \<noteq> TUNNEL_REQUEST then (1, r)
      else if length (pdata p) < 6 then (1, r)
      else if pdata p ! 0 \<noteq> 4 then (1, r)
      else (0, r\<lparr>tq_channel := pdata p ! 1, tq_seqno := pdata p ! 2, tq_CEMI := part 4 (length (pdata p) - 4) (pdata p)\<rparr>))"

record EIBnet_TunnelACK =
  ta_channel :: uchar
  ta_seqno :: uchar
  ta_status :: uchar

definition EIBnet_TunnelACK_new :: EIBnet_TunnelACK where
  "EIBnet_TunnelACK_new = \<lparr>ta_channel = 0, ta_seqno = 0, ta_status = 0\<rparr>"

definition EIBnet_TunnelACK_ToPacket :: "EIBnet_TunnelACK \<Rightarrow> EIBNetIPPacket" where
  "EIBnet_TunnelACK_ToPacket r = packet_of TUNNEL_RESPONSE [4, ta_channel r, ta_seqno r, ta_status r]"

definition parseEIBnet_TunnelACK :: "EIBNetIPPacket \<Rightarrow> EIBnet_TunnelACK \<Rightarrow> nat \<times> EIBnet_TunnelACK" where
  "parseEIBnet_TunnelACK p r =
     (if service p \<noteq> TUNNEL_RESPONSE then (1, r)
      else if length (pdata p) \<noteq> 4 then (1, r)
      else if pdata p ! 0 \<noteq> 4 then (1, r)
      else (0, r\<lparr>ta_channel := pdata p ! 1, ta_seqno := pdata p ! 2, ta_status := pdata p ! 3\<rparr>))"

record EIBnet_ConfigRequest =
  gq_channel :: uchar
  gq_seqno :: uchar
  gq_CEMI :: CArray

definition EIBnet_ConfigRequest_new :: EIBnet_ConfigRequest where
  "EIBnet_ConfigRequest_new = \<lparr>gq_channel = 0, gq_seqno = 0, gq_CEMI = []\<rparr>"

definition EIBnet_ConfigRequest_ToPacket :: "EIBnet_ConfigRequest \<Rightarrow> EIBNetIPPacket" where
  "EIBnet_ConfigRequest_ToPacket r =
     packet_of DEVICE_CONFIGURATION_REQUEST ([4, gq_channel r, gq_seqno r, 0] @ gq_CEMI r)"

definition parseEIBnet_ConfigRequest ::
    "EIBNetIPPacket \<Rightarrow> EIBnet_ConfigRequest \<Rightarrow> nat \<times> EIBnet_ConfigRequest" where
  "parseEIBnet_ConfigRequest p r =
     (if service p \<noteq> DEVICE_CONFIGURATION_REQUEST then (1, r)
      else if length (pdata p) < 6 then (1, r)
      else if pdata p ! 0 \<noteq> 4 then (1, r)
      else (0, r\<lparr>gq_channel := pdata p ! 1, gq_seqno := pdata p ! 2, gq_CEMI := part 4 (length (pdata p) - 4) (pdata p)\<rparr>))"

record EIBnet_ConfigACK =
  gk_channel :: uchar
  gk_seqno :: uchar
  gk_status :: uchar

definition EIBnet_ConfigACK_new :: EIBnet_ConfigACK where
  "EIBnet_ConfigACK_new = \<lparr>gk_channel = 0, gk_seqno = 0, gk_status = 0\<rparr>"

definition EIBnet_ConfigACK_ToPacket :: "EIBnet_ConfigACK \<Rightarrow> EIBNetIPPacket" where
  "EIBnet_ConfigACK_ToPacket r = packet_of DEVICE_CONFIGURATION_ACK [4, gk_channel r, gk_seqno r, gk_status r]"

definition parseEIBnet_ConfigACK :: "EIBNetIPPacket \<Rightarrow> EIBnet_ConfigACK \<Rightarrow> nat \<times> EIBnet_ConfigACK" where
  "parseEIBnet_ConfigACK p r =
     (if service p \<noteq> DEVICE_CONFIGURATION_ACK then (1, r)
      else if length (pdata p) \<noteq> 4 then (1, r)
      else if pdata p ! 0 \<noteq> 4 then (1, r)
      else (0, r\<lparr>gk_channel := pdata p ! 1, gk_seqno := pdata p ! 2, gk_status := pdata p ! 3\<rparr>))"

section \<open>Finding and describing a server\<close>

record EIBnet_DescriptionRequest =
  eq_caddr :: sockaddr_in
  eq_nat :: bool

definition EIBnet_DescriptionRequest_new :: EIBnet_DescriptionRequest where
  "EIBnet_DescriptionRequest_new = \<lparr>eq_caddr = sockaddr_zero, eq_nat = False\<rparr>"

definition EIBnet_DescriptionRequest_ToPacket :: "EIBnet_DescriptionRequest \<Rightarrow> EIBNetIPPacket" where
  "EIBnet_DescriptionRequest_ToPacket r = packet_of DESCRIPTION_REQUEST (IPtoEIBNetIP (eq_caddr r) (eq_nat r))"

definition parseEIBnet_DescriptionRequest ::
    "EIBNetIPPacket \<Rightarrow> EIBnet_DescriptionRequest \<Rightarrow> nat \<times> EIBnet_DescriptionRequest" where
  "parseEIBnet_DescriptionRequest p r =
     (if service p \<noteq> DESCRIPTION_REQUEST then (1, r)
      else if length (pdata p) \<noteq> 8 then (1, r)
      else
        let (e, a, n) = EIBnettoIP (pdata p) (psrc p) (eq_nat r);
            r = r\<lparr>eq_caddr := a, eq_nat := n\<rparr>
        in if e \<noteq> 0 then (1, r) else (0, r))"

type_synonym DIB_service_Entry = "uchar \<times> uchar"

text \<open>\<open>serial\<close> and \<open>MAC\<close> have 6 bytes, \<open>name\<close> has 30.\<close>

record EIBnet_DescriptionResponse =
  ep_KNXmedium :: uchar
  ep_devicestatus :: uchar
  ep_individual_addr :: eibaddr_t
  ep_installid :: "16 word"
  ep_serial :: CArray
  ep_services :: "DIB_service_Entry list"
  ep_multicastaddr :: "32 word"
  ep_MAC :: CArray
  ep_name :: CArray
  ep_optional :: CArray

definition EIBnet_DescriptionResponse_new :: EIBnet_DescriptionResponse where
  "EIBnet_DescriptionResponse_new =
     \<lparr>ep_KNXmedium = 0, ep_devicestatus = 0, ep_individual_addr = 0, ep_installid = 0, ep_serial = replicate 6 0,
      ep_services = [], ep_multicastaddr = 0, ep_MAC = replicate 6 0, ep_name = replicate 30 0, ep_optional = []\<rparr>"

definition addr_bytes :: "32 word \<Rightarrow> CArray" where
  "addr_bytes a = [byte32 24 a, byte32 16 a, byte32 8 a, byte32 0 a]"

definition addr_read :: "CArray \<Rightarrow> 32 word" where
  "addr_read c = mk32 (c ! 0) (c ! 1) (c ! 2) (c ! 3)"

definition services_bytes :: "DIB_service_Entry list \<Rightarrow> CArray" where
  "services_bytes ss = concat (map (\<lambda>(f, v). [f, v]) ss)"

text \<open>
  The block of 54 bytes starts in freshly allocated memory, and the bytes are written in the order
  of the code: the serial number goes to the place of the MAC address, which overwrites it.
\<close>

definition EIBnet_DescriptionResponse_ToPacket :: "uchar memory \<Rightarrow> EIBnet_DescriptionResponse \<Rightarrow> EIBNetIPPacket" where
  "EIBnet_DescriptionResponse_ToPacket junk r =
     (let d = Array_new junk 56;
          d = d[0 := 54, 1 := 1, 2 := ep_KNXmedium r, 3 := ep_devicestatus r,
                4 := hi8 (ep_individual_addr r), 5 := lo8 (ep_individual_addr r),
                6 := hi8 (ep_installid r), 7 := lo8 (ep_installid r)];
          d = put 18 (ep_serial r) d;
          d = put 14 (addr_bytes (ep_multicastaddr r)) d;
          d = put 18 (ep_MAC r) d;
          d = put 24 (ep_name r) d;
          d = d[53 := 0, 54 := of_nat (length (ep_services r) * 2 + 2), 55 := 2]
      in packet_of DESCRIPTION_RESPONSE (d @ services_bytes (ep_services r) @ ep_optional r))"

text \<open>
  The number of services, \<open>p.data[i] / 2 - 1\<close>, is -1 for a block of length 0; \<open>resize\<close> takes it as an
  \<open>unsigned\<close>, and the loop does not run. \<open>junk\<close> is the memory of the new array.
\<close>

definition read_services ::
    "DIB_service_Entry memory \<Rightarrow> uchar \<Rightarrow> nat \<Rightarrow> CArray \<Rightarrow> DIB_service_Entry list \<Rightarrow> DIB_service_Entry list" where
  "read_services junk len off d old =
     (let n = int (unat len div 2) - 1
      in if n < 0 then the (Array_resize junk (word_of_int n) old)
         else map (\<lambda>i. (d ! (off + 2 * i), d ! (off + 1 + 2 * i))) [0..<nat n])"

definition parseEIBnet_DescriptionResponse ::
    "DIB_service_Entry memory \<Rightarrow> EIBNetIPPacket \<Rightarrow> EIBnet_DescriptionResponse \<Rightarrow> nat \<times> EIBnet_DescriptionResponse" where
  "parseEIBnet_DescriptionResponse junk p r =
     (if service p \<noteq> DESCRIPTION_RESPONSE then (1, r)
      else if length (pdata p) < 56 then (1, r)
      else if pdata p ! 0 \<noteq> 54 then (1, r)
      else if pdata p ! 1 \<noteq> 1 then (1, r)
      else
        let r = r\<lparr>ep_KNXmedium := pdata p ! 2, ep_devicestatus := pdata p ! 3,
                  ep_individual_addr := mk16 (pdata p ! 4) (pdata p ! 5),
                  ep_installid := mk16 (pdata p ! 6) (pdata p ! 7),
                  ep_serial := part 8 6 (pdata p),
                  ep_multicastaddr := addr_read (part 14 4 (pdata p)),
                  ep_MAC := part 18 6 (pdata p),
                  ep_name := (part 24 30 (pdata p))[29 := 0]\<rparr>
        in if pdata p ! 55 \<noteq> 2 then (1, r)
           else if pdata p ! 54 mod 2 \<noteq> 0 then (1, r)
           else if unat (pdata p ! 54) + 54 > length (pdata p) then (1, r)
           else (0, r\<lparr>ep_services := read_services junk (pdata p ! 54) 56 (pdata p) (ep_services r),
                     ep_optional := part (unat (pdata p ! 54) + 54) (length (pdata p) - unat (pdata p ! 54) - 54) (pdata p)\<rparr>))"

record EIBnet_SearchRequest =
  hq_caddr :: sockaddr_in
  hq_nat :: bool

definition EIBnet_SearchRequest_new :: EIBnet_SearchRequest where
  "EIBnet_SearchRequest_new = \<lparr>hq_caddr = sockaddr_zero, hq_nat = False\<rparr>"

definition EIBnet_SearchRequest_ToPacket :: "EIBnet_SearchRequest \<Rightarrow> EIBNetIPPacket" where
  "EIBnet_SearchRequest_ToPacket r = packet_of SEARCH_REQUEST (IPtoEIBNetIP (hq_caddr r) (hq_nat r))"

definition parseEIBnet_SearchRequest :: "EIBNetIPPacket \<Rightarrow> EIBnet_SearchRequest \<Rightarrow> nat \<times> EIBnet_SearchRequest" where
  "parseEIBnet_SearchRequest p r =
     (if service p \<noteq> SEARCH_REQUEST then (1, r)
      else if length (pdata p) \<noteq> 8 then (1, r)
      else
        let (e, a, n) = EIBnettoIP (pdata p) (psrc p) (hq_nat r);
            r = r\<lparr>hq_caddr := a, hq_nat := n\<rparr>
        in if e \<noteq> 0 then (1, r) else (0, r))"

text \<open>The constructor leaves \<open>caddr\<close> and \<open>nat\<close> uninitialised; here they are arguments.\<close>

record EIBnet_SearchResponse =
  hp_KNXmedium :: uchar
  hp_devicestatus :: uchar
  hp_individual_addr :: eibaddr_t
  hp_installid :: "16 word"
  hp_serial :: CArray
  hp_services :: "DIB_service_Entry list"
  hp_multicastaddr :: "32 word"
  hp_MAC :: CArray
  hp_name :: CArray
  hp_caddr :: sockaddr_in
  hp_nat :: bool

definition EIBnet_SearchResponse_new :: "sockaddr_in \<Rightarrow> bool \<Rightarrow> EIBnet_SearchResponse" where
  "EIBnet_SearchResponse_new a n =
     \<lparr>hp_KNXmedium = 0, hp_devicestatus = 0, hp_individual_addr = 0, hp_installid = 0, hp_serial = replicate 6 0,
      hp_services = [], hp_multicastaddr = 0, hp_MAC = replicate 6 0, hp_name = replicate 30 0, hp_caddr = a, hp_nat = n\<rparr>"

definition EIBnet_SearchResponse_ToPacket :: "EIBnet_SearchResponse \<Rightarrow> EIBNetIPPacket" where
  "EIBnet_SearchResponse_ToPacket r =
     packet_of SEARCH_RESPONSE
       (IPtoEIBNetIP (hp_caddr r) (hp_nat r) @
        [54, 1, hp_KNXmedium r, hp_devicestatus r, hi8 (hp_individual_addr r), lo8 (hp_individual_addr r),
         hi8 (hp_installid r), lo8 (hp_installid r)] @
        hp_serial r @ addr_bytes (hp_multicastaddr r) @ hp_MAC r @ (hp_name r)[29 := 0] @
        [of_nat (length (hp_services r) * 2 + 2), 2] @ services_bytes (hp_services r))"

definition parseEIBnet_SearchResponse ::
    "DIB_service_Entry memory \<Rightarrow> EIBNetIPPacket \<Rightarrow> EIBnet_SearchResponse \<Rightarrow> nat \<times> EIBnet_SearchResponse" where
  "parseEIBnet_SearchResponse junk p r =
     (if service p \<noteq> SEARCH_RESPONSE then (1, r)
      else if length (pdata p) < 64 then (1, r)
      else
        let (e, a, n) = EIBnettoIP (part 0 8 (pdata p)) (psrc p) (hp_nat r);
            r = r\<lparr>hp_caddr := a, hp_nat := n\<rparr>
        in if e \<noteq> 0 then (1, r)
           else if pdata p ! 8 \<noteq> 54 then (1, r)
           else if pdata p ! 9 \<noteq> 1 then (1, r)
           else
             let r = r\<lparr>hp_KNXmedium := pdata p ! 10, hp_devicestatus := pdata p ! 11,
                       hp_individual_addr := mk16 (pdata p ! 12) (pdata p ! 13),
                       hp_installid := mk16 (pdata p ! 14) (pdata p ! 15),
                       hp_serial := part 16 6 (pdata p),
                       hp_multicastaddr := addr_read (part 22 4 (pdata p)),
                       hp_MAC := part 26 6 (pdata p),
                       hp_name := (part 32 30 (pdata p))[29 := 0]\<rparr>
             in if pdata p ! 63 \<noteq> 2 then (1, r)
                else if pdata p ! 62 mod 2 \<noteq> 0 then (1, r)
                else if unat (pdata p ! 62) + 62 > length (pdata p) then (1, r)
                else (0, r\<lparr>hp_services := read_services junk (pdata p ! 62) 64 (pdata p) (hp_services r)\<rparr>))"

end
