(* ===== verification/Tunnel.thy ===== *)
theory Tunnel
  imports Emi EibNetIp
begin

text \<open>
  The EIBnet/IP tunnelling client, \<open>eibd/backend/eibnettunnel.cpp\<close>: a driver of the bus interface
  that sends frames through a tunnel. The loop of \<open>Run\<close> is a sequence of turns. A turn gets the
  packet that \<open>sock->Get\<close> returned, if any, and which of the two timers have run out. What the
  code hands to the socket is recorded with its address. A failed \<open>assert\<close> (an empty queue, a frame
  that cannot be encoded) is \<open>None\<close>. Only the message objects with a member that is read before it
  is written in the next use (\<open>creq\<close>, \<open>cresp\<close>, \<open>dreq\<close>) are part of the state.
\<close>

section \<open>State\<close>

text \<open>
  The first group of fields are members of the class, the second the variables of \<open>Run\<close>; the queue
  of frames for the dispatcher holds \<open>None\<close> for a null pointer. \<open>tn_timeout\<close> and \<open>tn_timeout1\<close> say
  whether the timer has run out since it was set.
\<close>

record tunnel =
  tn_caddr :: sockaddr_in
  tn_daddr :: sockaddr_in
  tn_saddr :: sockaddr_in
  tn_inqueue :: "CArray list"
  tn_insignal :: nat
  tn_outqueue :: "lpdu option list"
  tn_outsignal :: nat
  tn_imode :: int
  tn_vmode :: int
  tn_dataport :: int
  tn_NAT :: bool
  tn_noqueue :: bool
  tn_support_busmonitor :: bool
  tn_connect_busmonitor :: bool
  tn_recvaddr2 :: sockaddr_in
  tn_recvall :: uchar
  tn_channel :: int
  tn_mod :: int
  tn_rno :: int
  tn_sno :: int
  tn_retry :: int
  tn_heartbeat :: int
  tn_drop :: int
  tn_myaddr :: eibaddr_t
  tn_timeout :: bool
  tn_timeout1 :: bool
  tn_creq :: EIBnet_ConnectRequest
  tn_cresp :: EIBnet_ConnectResponse
  tn_dreq :: EIBnet_DisconnectRequest
  tn_sent :: "(sockaddr_in \<times> EIBNetIPPacket) list"

text \<open>\<open>sock->sendaddr = to; sock->Send (p);\<close>\<close>

definition tunnel_Send :: "sockaddr_in \<Rightarrow> EIBNetIPPacket \<Rightarrow> tunnel \<Rightarrow> tunnel" where
  "tunnel_Send to p s = s\<lparr>tn_sent := tn_sent s @ [(to, p)]\<rparr>"

text \<open>\<open>outqueue.put (l); pth_sem_inc (&outsignal, 1);\<close>\<close>

definition tunnel_out :: "lpdu option \<Rightarrow> tunnel \<Rightarrow> tunnel" where
  "tunnel_out l s = s\<lparr>tn_outqueue := tn_outqueue s @ [l], tn_outsignal := tn_outsignal s + 1\<rparr>"

text \<open>\<open>inqueue.put (c); pth_sem_inc (&insignal, 1);\<close> and \<open>pth_sem_dec (&insignal); inqueue.get ();\<close>\<close>

definition tunnel_in :: "CArray \<Rightarrow> tunnel \<Rightarrow> tunnel" where
  "tunnel_in c s = s\<lparr>tn_inqueue := tn_inqueue s @ [c], tn_insignal := tn_insignal s + 1\<rparr>"

definition tunnel_take :: "tunnel \<Rightarrow> tunnel option" where
  "tunnel_take s =
     (case tn_inqueue s of
        [] \<Rightarrow> None
      | c # q \<Rightarrow> if tn_insignal s = 0 then None else Some (s\<lparr>tn_inqueue := q, tn_insignal := tn_insignal s - 1\<rparr>))"

section \<open>Operations of the driver\<close>

text \<open>
  The constructor up to its \<open>Start ()\<close>: \<open>caddr\<close> and \<open>saddr\<close> are what name lookup and routing gave.
  The beginning of \<open>Run\<close> sends the first connection request.
\<close>

definition EIBNetIPTunnel_new :: "sockaddr_in \<Rightarrow> sockaddr_in \<Rightarrow> bool \<Rightarrow> int \<Rightarrow> bool \<Rightarrow> tunnel" where
  "EIBNetIPTunnel_new caddr saddr NAT dataport noqueue =
     \<lparr>tn_caddr = caddr, tn_daddr = sockaddr_zero, tn_saddr = saddr, tn_inqueue = [], tn_insignal = 0,
      tn_outqueue = [], tn_outsignal = 0, tn_imode = 0, tn_vmode = 0, tn_dataport = dataport, tn_NAT = NAT,
      tn_noqueue = noqueue, tn_support_busmonitor = True, tn_connect_busmonitor = False,
      tn_recvaddr2 = sockaddr_zero, tn_recvall = 0,
      tn_channel = -1, tn_mod = 0, tn_rno = 0, tn_sno = 0, tn_retry = 0, tn_heartbeat = 0, tn_drop = 0,
      tn_myaddr = 0, tn_timeout = False, tn_timeout1 = False,
      tn_creq = EIBnet_ConnectRequest_new\<lparr>cq_nat := (sin_addr saddr = 0), cq_caddr := saddr, cq_daddr := saddr,
        cq_CRI := [0x04, 0x02, 0x00]\<rparr>,
      tn_cresp = EIBnet_ConnectResponse_new,
      tn_dreq = EIBnet_DisconnectRequest_new\<lparr>dq_nat := (sin_addr saddr = 0)\<rparr>,
      tn_sent = []\<rparr>"

definition tunnel_connect :: "tunnel \<Rightarrow> tunnel" where
  "tunnel_connect s = tunnel_Send (tn_caddr s) (EIBnet_ConnectRequest_ToPacket (tn_creq s)) s"

definition EIBNetIPTunnel_Send_L_Data :: "lpdu \<Rightarrow> tunnel \<Rightarrow> tunnel option" where
  "EIBNetIPTunnel_Send_L_Data l s =
     (case l of
        L_Data_PDU l1 \<Rightarrow>
          if LPDU_getType l \<noteq> L_Data then Some s
          else
            (case L_Data_ToCEMI 0x11 l1 of
               None \<Rightarrow> None
             | Some c \<Rightarrow>
                 let s = tunnel_in c s
                 in if tn_vmode s \<noteq> 0 then
                      (case L_Data_ToPacket l1 of
                         None \<Rightarrow> None
                       | Some p \<Rightarrow> Some (tunnel_out (Some l) (tunnel_out (Some (L_Busmonitor_PDU p 0 0)) s)))
                    else Some (tunnel_out (Some l) s))
      | _ \<Rightarrow> Some s)"

text \<open>\<open>Get_L_Data\<close>: \<open>None\<close> is the \<open>assert\<close> of an empty queue, a \<open>None\<close> inside a stopped wait or a null pointer.\<close>

definition EIBNetIPTunnel_Get_L_Data :: "tunnel \<Rightarrow> (lpdu option \<times> tunnel) option" where
  "EIBNetIPTunnel_Get_L_Data s =
     (if tn_outsignal s > 0 then
        (case tn_outqueue s of
           [] \<Rightarrow> None
         | c # q \<Rightarrow> Some (c, s\<lparr>tn_outqueue := q, tn_outsignal := tn_outsignal s - 1\<rparr>))
      else Some (None, s))"

definition EIBNetIPTunnel_openVBusmonitor :: "tunnel \<Rightarrow> tunnel" where
  "EIBNetIPTunnel_openVBusmonitor s = s\<lparr>tn_vmode := 1\<rparr>"

definition EIBNetIPTunnel_closeVBusmonitor :: "tunnel \<Rightarrow> tunnel" where
  "EIBNetIPTunnel_closeVBusmonitor s = s\<lparr>tn_vmode := 0\<rparr>"

definition EIBNetIPTunnel_enterBusmonitor :: "tunnel \<Rightarrow> tunnel" where
  "EIBNetIPTunnel_enterBusmonitor s =
     tunnel_in [] (s\<lparr>tn_imode := 1, tn_connect_busmonitor := (if tn_support_busmonitor s then True else tn_connect_busmonitor s)\<rparr>)"

definition EIBNetIPTunnel_leaveBusmonitor :: "tunnel \<Rightarrow> tunnel" where
  "EIBNetIPTunnel_leaveBusmonitor s = tunnel_in [] (s\<lparr>tn_imode := 0, tn_connect_busmonitor := False\<rparr>)"

section \<open>The packets of the server\<close>

text \<open>\<open>dreq.caddr = saddr; dreq.channel = channel; sock->sendaddr = caddr; sock->Send (dreq.ToPacket ());\<close>\<close>

definition tunnel_disconnect :: "tunnel \<Rightarrow> tunnel" where
  "tunnel_disconnect s =
     (let s = s\<lparr>tn_dreq := (tn_dreq s)\<lparr>dq_caddr := tn_saddr s, dq_channel := word_of_int (tn_channel s)\<rparr>\<rparr>
      in tunnel_Send (tn_caddr s) (EIBnet_DisconnectRequest_ToPacket (tn_dreq s)) s)"

definition tunnel_ack :: "uchar \<Rightarrow> tunnel \<Rightarrow> tunnel" where
  "tunnel_ack seqno s =
     tunnel_Send (tn_daddr s)
       (EIBnet_TunnelACK_ToPacket \<lparr>ta_channel = word_of_int (tn_channel s), ta_seqno = seqno, ta_status = 0\<rparr>) s"

definition tunnel_CONNECTION_RESPONSE :: "EIBNetIPPacket \<Rightarrow> tunnel \<Rightarrow> tunnel" where
  "tunnel_CONNECTION_RESPONSE p s =
     (if tn_mod s \<noteq> 0 then s
      else
        let (e, cresp) = parseEIBnet_ConnectResponse p (tn_cresp s);
            s = s\<lparr>tn_cresp := cresp\<rparr>
        in if e \<noteq> 0 then s
           else if cp_status cresp \<noteq> 0 then
             (if cp_status cresp = 0x23 \<and> tn_support_busmonitor s \<and> tn_connect_busmonitor s then
                tunnel_connect (s\<lparr>tn_support_busmonitor := False, tn_connect_busmonitor := False,
                  tn_creq := (tn_creq s)\<lparr>cq_CRI := (cq_CRI (tn_creq s))[1 := 0x02]\<rparr>, tn_timeout1 := False\<rparr>)
              else s)
           else if length (cp_CRD cresp) \<noteq> 3 then s
           else
             let daddr = cp_daddr cresp;
                 daddr = (if \<not> cp_nat cresp \<and> tn_NAT s then daddr\<lparr>sin_addr := sin_addr (tn_caddr s)\<rparr> else daddr);
                 daddr = (if \<not> cp_nat cresp \<and> tn_dataport s \<noteq> -1 then daddr\<lparr>sin_port := word_of_int (tn_dataport s)\<rparr> else daddr)
             in s\<lparr>tn_myaddr := mk16 (cp_CRD cresp ! 1) (cp_CRD cresp ! 2), tn_daddr := daddr,
                  tn_channel := uint (cp_channel cresp), tn_mod := 1, tn_sno := 0, tn_rno := 0,
                  tn_recvaddr2 := daddr, tn_recvall := 3, tn_timeout1 := False, tn_heartbeat := 0\<rparr>)"

text \<open>What happens to the frame of a request that was accepted.\<close>

definition tunnel_frame :: "CArray \<Rightarrow> tunnel \<Rightarrow> tunnel option" where
  "tunnel_frame c s =
     (if c ! 0 = 0x2E then Some (if tn_mod s = 3 then s\<lparr>tn_mod := 1\<rparr> else s)
      else if c ! 0 = 0x2B then
        Some (tunnel_out (map_option (\<lambda>p. L_Busmonitor_PDU p 0 0) (CEMI_to_Busmonitor c)) s)
      else if c ! 0 \<noteq> 0x29 then Some s
      else
        (case CEMI_to_L_Data c of
           None \<Rightarrow> Some s
         | Some d \<Rightarrow>
             if tn_imode s = 0 then
               (let d' = (if AddrType d = IndividualAddress \<and> dest d = tn_myaddr s then d\<lparr>dest := 0\<rparr> else d)
                in if tn_vmode s \<noteq> 0 then
                     (case L_Data_ToPacket d of
                        None \<Rightarrow> None
                      | Some p \<Rightarrow> Some (tunnel_out (Some (L_Data_PDU d')) (tunnel_out (Some (L_Busmonitor_PDU p 0 0)) s)))
                   else Some (tunnel_out (Some (L_Data_PDU d')) s))
             else
               (case L_Data_ToPacket d of
                  None \<Rightarrow> None
                | Some p \<Rightarrow> Some (tunnel_out (Some (L_Busmonitor_PDU p 0 0)) s))))"

text \<open>
  In \<open>treq.seqno += 0x100\<close> the sum is stored in an \<open>uchar\<close>, so that the number stays what it is.
\<close>

definition tunnel_TUNNEL_REQUEST :: "EIBNetIPPacket \<Rightarrow> tunnel \<Rightarrow> tunnel option" where
  "tunnel_TUNNEL_REQUEST p s =
     (if tn_mod s = 0 then Some s
      else
        let (e, treq) = parseEIBnet_TunnelRequest p EIBnet_TunnelRequest_new
        in if e \<noteq> 0 then Some s
           else if uint (tq_channel treq) \<noteq> tn_channel s then Some s
           else if (uint (tq_seqno treq) + 1) mod 256 = tn_rno s then
             Some ((tunnel_ack (tq_seqno treq) s)\<lparr>tn_recvall := 0\<rparr>)
           else if uint (tq_seqno treq) \<noteq> tn_rno s then
             (let seqno = (if uint (tq_seqno treq) < tn_rno s then tq_seqno treq + word_of_int 0x100 else tq_seqno treq)
              in if uint seqno \<ge> tn_rno s + 5 then Some ((tunnel_disconnect s)\<lparr>tn_recvall := 0, tn_mod := 0\<rparr>)
                 else Some s)
           else
             let s = s\<lparr>tn_rno := (if tn_rno s + 1 > 0xff then 0 else tn_rno s + 1)\<rparr>
             in tunnel_frame (tq_CEMI treq) (tunnel_ack (tq_seqno treq) s))"

definition tunnel_TUNNEL_RESPONSE :: "EIBNetIPPacket \<Rightarrow> tunnel \<Rightarrow> tunnel option" where
  "tunnel_TUNNEL_RESPONSE p s =
     (if tn_mod s = 0 then Some s
      else
        let (e, tresp) = parseEIBnet_TunnelACK p EIBnet_TunnelACK_new
        in if e \<noteq> 0 then Some s
           else if uint (ta_channel tresp) \<noteq> tn_channel s then Some s
           else if uint (ta_seqno tresp) \<noteq> tn_sno s then Some s
           else if ta_status tresp \<noteq> 0 then Some s
           else if tn_mod s = 2 then
             map_option (\<lambda>s. if tn_noqueue s then s\<lparr>tn_mod := 3, tn_timeout := False, tn_retry := 0, tn_drop := 0\<rparr>
                              else s\<lparr>tn_mod := 1, tn_retry := 0, tn_drop := 0\<rparr>)
               (tunnel_take (s\<lparr>tn_sno := (if tn_sno s + 1 > 0xff then 0 else tn_sno s + 1)\<rparr>))
           else Some s)"

definition tunnel_CONNECTIONSTATE_RESPONSE :: "EIBNetIPPacket \<Rightarrow> tunnel \<Rightarrow> tunnel" where
  "tunnel_CONNECTIONSTATE_RESPONSE p s =
     (let (e, csresp) = parseEIBnet_ConnectionStateResponse p EIBnet_ConnectionStateResponse_new
      in if e \<noteq> 0 then s
         else if uint (sp_channel csresp) \<noteq> tn_channel s then s
         else if sp_status csresp = 0 then
           (if tn_heartbeat s > 0 then s\<lparr>tn_heartbeat := tn_heartbeat s - 1\<rparr> else s)
         else if sp_status csresp = 0x21 then (tunnel_disconnect s)\<lparr>tn_recvall := 0, tn_mod := 0\<rparr>
         else s)"

definition tunnel_DISCONNECT_REQUEST :: "EIBNetIPPacket \<Rightarrow> tunnel \<Rightarrow> tunnel" where
  "tunnel_DISCONNECT_REQUEST p s =
     (if tn_mod s = 0 then s
      else
        let (e, dreq) = parseEIBnet_DisconnectRequest p (tn_dreq s);
            s = s\<lparr>tn_dreq := dreq\<rparr>
        in if e \<noteq> 0 then s
           else if uint (dq_channel dreq) \<noteq> tn_channel s then s
           else (tunnel_Send (tn_caddr s)
                   (EIBnet_DisconnectResponse_ToPacket \<lparr>dp_channel = word_of_int (tn_channel s), dp_status = 0\<rparr>) s)
                \<lparr>tn_recvall := 0, tn_mod := 0\<rparr>)"

definition tunnel_DISCONNECT_RESPONSE :: "EIBNetIPPacket \<Rightarrow> tunnel \<Rightarrow> tunnel" where
  "tunnel_DISCONNECT_RESPONSE p s =
     (if tn_mod s = 0 then s
      else
        let (e, dresp) = parseEIBnet_DisconnectResponse p EIBnet_DisconnectResponse_new
        in if e \<noteq> 0 then s
           else if uint (dp_channel dresp) \<noteq> tn_channel s then s
           else s\<lparr>tn_mod := 0, tn_recvall := 0, tn_timeout1 := False\<rparr>)"

definition tunnel_packet :: "EIBNetIPPacket \<Rightarrow> tunnel \<Rightarrow> tunnel option" where
  "tunnel_packet p s =
     (if service p = CONNECTION_RESPONSE then Some (tunnel_CONNECTION_RESPONSE p s)
      else if service p = TUNNEL_REQUEST then tunnel_TUNNEL_REQUEST p s
      else if service p = TUNNEL_RESPONSE then tunnel_TUNNEL_RESPONSE p s
      else if service p = CONNECTIONSTATE_RESPONSE then Some (tunnel_CONNECTIONSTATE_RESPONSE p s)
      else if service p = DISCONNECT_REQUEST then Some (tunnel_DISCONNECT_REQUEST p s)
      else if service p = DISCONNECT_RESPONSE then Some (tunnel_DISCONNECT_RESPONSE p s)
      else Some s)"

section \<open>The rest of a turn\<close>

text \<open>No acknowledgement in time: back to sending, and after four attempts the frame is given up.\<close>

definition tunnel_retry :: "tunnel \<Rightarrow> tunnel option" where
  "tunnel_retry s =
     (if tn_mod s = 2 \<and> tn_timeout s then
        (let s = s\<lparr>tn_mod := 1, tn_retry := tn_retry s + 1\<rparr>
         in if tn_retry s > 3 then
              map_option (\<lambda>s.
                let s = s\<lparr>tn_retry := 0, tn_drop := tn_drop s + 1\<rparr>
                in if tn_drop s \<ge> 3 then (tunnel_disconnect s)\<lparr>tn_recvall := 0, tn_mod := 0\<rparr> else s)
                (tunnel_take s)
            else Some s)
      else Some s)"

definition tunnel_heartbeat :: "tunnel \<Rightarrow> tunnel" where
  "tunnel_heartbeat s =
     (if tn_mod s \<noteq> 0 \<and> tn_timeout1 s then
        (let s = s\<lparr>tn_timeout1 := False\<rparr>
         in if tn_heartbeat s < 5 then
              (tunnel_Send (tn_caddr s)
                (EIBnet_ConnectionStateRequest_ToPacket
                  \<lparr>sq_channel = word_of_int (tn_channel s), sq_caddr = tn_saddr s, sq_nat = (sin_addr (tn_saddr s) = 0)\<rparr>) s)
              \<lparr>tn_heartbeat := tn_heartbeat s + 1\<rparr>
            else
              (if tn_channel s \<noteq> -1 then tunnel_disconnect s
               else s\<lparr>tn_dreq := (tn_dreq s)\<lparr>dq_caddr := tn_saddr s, dq_channel := word_of_int (tn_channel s)\<rparr>\<rparr>)
              \<lparr>tn_recvall := 0, tn_mod := 0\<rparr>)
      else s)"

definition tunnel_connectretry :: "tunnel \<Rightarrow> tunnel" where
  "tunnel_connectretry s =
     (if tn_mod s = 0 \<and> tn_timeout1 s then
        tunnel_connect (s\<lparr>tn_timeout1 := False,
          tn_creq := (tn_creq s)\<lparr>cq_CRI := (cq_CRI (tn_creq s))
            [1 := if tn_connect_busmonitor s \<and> tn_support_busmonitor s then 0x80 else 0x02]\<rparr>\<rparr>)
      else s)"

definition tunnel_timers :: "tunnel \<Rightarrow> tunnel" where
  "tunnel_timers s =
     tunnel_connectretry (tunnel_heartbeat (if tn_mod s = 3 \<and> tn_timeout s then s\<lparr>tn_mod := 1\<rparr> else s))"

text \<open>An empty array at the head of the queue asks for a new connection.\<close>

definition tunnel_reconnect :: "tunnel \<Rightarrow> tunnel option" where
  "tunnel_reconnect s =
     (if tn_inqueue s \<noteq> [] \<and> hd (tn_inqueue s) = [] then
        map_option (\<lambda>s. if tn_support_busmonitor s then tunnel_disconnect s else s) (tunnel_take s)
      else Some s)"

definition tunnel_transmit :: "tunnel \<Rightarrow> tunnel" where
  "tunnel_transmit s =
     (if tn_inqueue s \<noteq> [] \<and> tn_mod s = 1 then
        (tunnel_Send (tn_daddr s)
          (EIBnet_TunnelRequest_ToPacket
            \<lparr>tq_channel = word_of_int (tn_channel s), tq_seqno = word_of_int (tn_sno s), tq_CEMI = hd (tn_inqueue s)\<rparr>) s)
        \<lparr>tn_mod := 2, tn_timeout := False\<rparr>
      else s)"

definition tunnel_turn :: "EIBNetIPPacket option \<Rightarrow> bool \<Rightarrow> bool \<Rightarrow> tunnel \<Rightarrow> tunnel option" where
  "tunnel_turn p1 elapsed elapsed1 s =
     (let s = s\<lparr>tn_timeout := tn_timeout s \<or> elapsed, tn_timeout1 := tn_timeout1 s \<or> elapsed1\<rparr>
      in case (case p1 of None \<Rightarrow> Some s | Some p \<Rightarrow> tunnel_packet p s) of
           None \<Rightarrow> None
         | Some s \<Rightarrow>
             (case tunnel_retry s of
                None \<Rightarrow> None
              | Some s \<Rightarrow> map_option tunnel_transmit (tunnel_reconnect (tunnel_timers s))))"

text \<open>The end of \<open>Run\<close>.\<close>

definition tunnel_stop :: "tunnel \<Rightarrow> tunnel" where
  "tunnel_stop s =
     (let s = s\<lparr>tn_dreq := (tn_dreq s)\<lparr>dq_caddr := tn_saddr s, dq_channel := word_of_int (tn_channel s)\<rparr>\<rparr>
      in if tn_channel s \<noteq> -1 then tunnel_Send (tn_caddr s) (EIBnet_DisconnectRequest_ToPacket (tn_dreq s)) s else s)"

end
