(* ===== verification/EibNetServer.thy ===== *)
theory EibNetServer
  imports Emi EibNetIp Layer3
begin

text \<open>
  The EIBnet/IP server, \<open>eibd/libserver/eibnetserver.cpp\<close>: routing, tunnelling and configuration
  connections of clients in the network. It is a client of the dispatcher, whose state is a field
  of the server's. The loop of \<open>Run\<close> is a sequence of turns; a turn gets the packet that
  \<open>sock->Get\<close> returned, if any, and the timers that have run out. Packets for the socket are
  recorded with their address. \<open>GetSourceAddress\<close> asks the routing of the operating system and is
  a parameter \<open>gsa\<close>; \<open>me\<close> is the number of the server as a callback. A failed \<open>assert\<close> is \<open>None\<close>.
\<close>

section \<open>State\<close>

record ConnState =
  cn_channel :: uchar
  cn_sno :: uchar
  cn_rno :: uchar
  cn_state :: int
  cn_type :: int
  cn_no :: int
  cn_nat :: bool
  cn_timeout :: bool
  cn_out :: "CArray list"
  cn_daddr :: sockaddr_in
  cn_caddr :: sockaddr_in
  cn_outsignal :: nat
  cn_sendtimeout :: bool

record NATState =
  na_src :: eibaddr_t
  na_dest :: eibaddr_t
  na_timeout :: bool

record eibnet_server =
  es_Port :: "16 word"
  es_tunnel :: bool
  es_route :: bool
  es_discover :: bool
  es_busmoncount :: int
  es_maddr :: sockaddr_in
  es_state :: "ConnState list"
  es_natstate :: "NATState list"
  es_l3 :: layer3
  es_sent :: "(sockaddr_in \<times> EIBNetIPPacket) list"

definition server_Send :: "sockaddr_in \<Rightarrow> EIBNetIPPacket \<Rightarrow> eibnet_server \<Rightarrow> eibnet_server" where
  "server_Send to p s = s\<lparr>es_sent := es_sent s @ [(to, p)]\<rparr>"

text \<open>\<open>state[i].out.put (c); pth_sem_inc (state[i].outsignal, 0);\<close>\<close>

definition conn_put :: "CArray \<Rightarrow> ConnState \<Rightarrow> ConnState" where
  "conn_put c k = k\<lparr>cn_out := cn_out k @ [c], cn_outsignal := cn_outsignal k + 1\<rparr>"

definition conn_take :: "ConnState \<Rightarrow> ConnState option" where
  "conn_take k =
     (case cn_out k of
        [] \<Rightarrow> None
      | c # q \<Rightarrow> if cn_outsignal k = 0 then None else Some (k\<lparr>cn_out := q, cn_outsignal := cn_outsignal k - 1\<rparr>))"

definition set_conn :: "nat \<Rightarrow> ConnState \<Rightarrow> eibnet_server \<Rightarrow> eibnet_server" where
  "set_conn i k s = s\<lparr>es_state := (es_state s)[i := k]\<rparr>"

section \<open>Start and stop\<close>

text \<open>
  The constructor from the registration of the callbacks on; \<open>ok1\<close> and \<open>ok2\<close> are the driver's
  answers, \<open>junk\<close> what \<open>busmoncount\<close> held before it is set, which happens last. \<open>False\<close> is a server
  whose \<open>init\<close> fails and which the caller destroys.
\<close>

definition EIBnetServer_start ::
    "int \<Rightarrow> nat \<Rightarrow> bool \<Rightarrow> bool \<Rightarrow> sockaddr_in \<Rightarrow> 16 word \<Rightarrow> bool \<Rightarrow> bool \<Rightarrow> bool \<Rightarrow> layer3 \<Rightarrow> bool \<times> eibnet_server" where
  "EIBnetServer_start junk me ok1 ok2 maddr port tunnel route discover l3 =
     (let s = \<lparr>es_Port = port, es_tunnel = tunnel, es_route = route, es_discover = discover, es_busmoncount = junk,
               es_maddr = maddr, es_state = [], es_natstate = [], es_l3 = l3, es_sent = []\<rparr>
      in if route \<or> tunnel then
           (let (r, l3) = registerBroadcastCallBack me l3
            in if \<not> r then (False, s\<lparr>es_l3 := l3\<rparr>)
               else
                 let (r, l3) = registerGroupCallBack ok1 me 0 l3
                 in if \<not> r then (False, s\<lparr>es_l3 := l3\<rparr>)
                    else
                      let (r, l3) = registerIndividualCallBack ok2 me Individual_Lock_None 0 0 l3
                      in if \<not> r then (False, s\<lparr>es_l3 := l3\<rparr>)
                         else (True, s\<lparr>es_l3 := l3, es_busmoncount := 0\<rparr>))
         else (True, s\<lparr>es_busmoncount := 0\<rparr>))"

definition EIBnetServer_destroy :: "nat \<Rightarrow> eibnet_server \<Rightarrow> layer3" where
  "EIBnetServer_destroy me s =
     (let l3 = es_l3 s;
          l3 = (if es_route s \<or> es_tunnel s then
                  snd (deregisterIndividualCallBack me 0 0
                    (snd (deregisterGroupCallBack me 0 (snd (deregisterBroadcastCallBack me l3)))))
                else l3)
      in if es_busmoncount s \<noteq> 0 then snd (deregisterVBusmonitor me l3) else l3)"

definition addBusmonitor :: "nat \<Rightarrow> bool \<Rightarrow> eibnet_server \<Rightarrow> eibnet_server" where
  "addBusmonitor me ok s =
     (if es_busmoncount s = 0 then
        s\<lparr>es_l3 := snd (registerVBusmonitor ok me (es_l3 s)), es_busmoncount := es_busmoncount s + 1\<rparr>
      else s)"

definition delBusmonitor :: "nat \<Rightarrow> eibnet_server \<Rightarrow> eibnet_server" where
  "delBusmonitor me s =
     (let s = s\<lparr>es_busmoncount := es_busmoncount s - 1\<rparr>
      in if es_busmoncount s = 0 then s\<lparr>es_l3 := snd (deregisterVBusmonitor me (es_l3 s))\<rparr> else s)"

section \<open>Frames from the bus\<close>

definition server_Get_L_Busmonitor :: "CArray \<Rightarrow> eibnet_server \<Rightarrow> eibnet_server" where
  "server_Get_L_Busmonitor p s =
     s\<lparr>es_state := map (\<lambda>k. if cn_type k = 1 then conn_put (Busmonitor_to_CEMI 0x2B p (cn_no k)) (k\<lparr>cn_no := cn_no k + 1\<rparr>) else k)
        (es_state s)\<rparr>"

text \<open>The packets that route a frame, with one copy for every entry of the address translation.\<close>

definition route_targets :: "NATState list \<Rightarrow> l_data \<Rightarrow> l_data list" where
  "route_targets ns l =
     (if dest l = 0 \<and> AddrType l = IndividualAddress then
        (let ms = filter (\<lambda>n. na_dest n = source l) ns
         in if ms = [] then [l] else map (\<lambda>n. l\<lparr>dest := na_src n\<rparr>) ms)
      else [l])"

fun route_frames :: "l_data list \<Rightarrow> eibnet_server \<Rightarrow> eibnet_server option" where
  "route_frames [] s = Some s"
| "route_frames (l # ls) s =
     (case L_Data_ToCEMI 0x29 l of
        None \<Rightarrow> None
      | Some c \<Rightarrow> route_frames ls (server_Send (es_maddr s) (packet_of ROUTING_INDICATION c) s))"

text \<open>\<open>own\<close>: the frame comes from this server (\<open>l->object == this\<close>).\<close>

definition server_Get_L_Data :: "bool \<Rightarrow> l_data \<Rightarrow> eibnet_server \<Rightarrow> eibnet_server option" where
  "server_Get_L_Data own l s =
     (if hopcount l = 0 then Some s
      else if own then Some s
      else
        let l = l\<lparr>hopcount := hopcount l - 1\<rparr>
        in case (if es_route s then route_frames (route_targets (es_natstate s) l) s else Some s) of
             None \<Rightarrow> None
           | Some s \<Rightarrow>
               if \<exists>k\<in>set (es_state s). cn_type k = 0 then
                 (case L_Data_ToCEMI 0x29 l of
                    None \<Rightarrow> None
                  | Some c \<Rightarrow> Some (s\<lparr>es_state := map (\<lambda>k. if cn_type k = 0 then conn_put c k else k) (es_state s)\<rparr>))
               else Some s)"

section \<open>Clients\<close>

text \<open>The search for a free channel, from \<open>n\<close> on; 256 says there is none.\<close>

function free_channel :: "ConnState list \<Rightarrow> nat \<Rightarrow> nat" where
  "free_channel ks n = (if \<exists>k\<in>set ks. unat (cn_channel k) = n then free_channel ks (n + 1) else n)"
  by pat_completeness auto

termination
proof (relation "measure (\<lambda>(ks, n). 256 - n)")
  fix ks :: "ConnState list" and n :: nat
  assume "\<exists>k\<in>set ks. unat (cn_channel k) = n"
  then obtain k :: ConnState where "unat (cn_channel k) = n" by blast
  moreover have "unat (cn_channel k) < 256" using unsigned_less [of "cn_channel k"] by simp
  ultimately show "((ks, n + 1), (ks, n)) \<in> measure (\<lambda>(ks, n). 256 - n)" by simp
qed simp

declare free_channel.simps [simp del]

definition addClient :: "int \<Rightarrow> EIBnet_ConnectRequest \<Rightarrow> eibnet_server \<Rightarrow> nat \<times> eibnet_server" where
  "addClient type r1 s =
     (let n = free_channel (es_state s) 1
      in if n \<le> 0xff then
           (n, s\<lparr>es_state := es_state s @
              [\<lparr>cn_channel = of_nat n, cn_sno = 0, cn_rno = 0, cn_state = 0, cn_type = type, cn_no = 1, cn_nat = cq_nat r1,
                cn_timeout = False, cn_out = [], cn_daddr = cq_daddr r1, cn_caddr = cq_caddr r1, cn_outsignal = 0,
                cn_sendtimeout = False\<rparr>]\<rparr>)
         else (n, s))"

definition addNAT :: "l_data \<Rightarrow> eibnet_server \<Rightarrow> eibnet_server" where
  "addNAT l s =
     (if AddrType l \<noteq> IndividualAddress then s
      else
        case first_idx (\<lambda>n. na_src n = source l \<and> na_dest n = dest l) (es_natstate s) of
          Some i \<Rightarrow> s\<lparr>es_natstate := (es_natstate s)[i := (es_natstate s ! i)\<lparr>na_timeout := False\<rparr>]\<rparr>
        | None \<Rightarrow> s\<lparr>es_natstate := es_natstate s @ [\<lparr>na_src = source l, na_dest = dest l, na_timeout = False\<rparr>]\<rparr>)"

text \<open>\<open>delete_conn\<close> is what the code does with a connection that ends.\<close>

definition delete_conn :: "nat \<Rightarrow> nat \<Rightarrow> eibnet_server \<Rightarrow> eibnet_server" where
  "delete_conn me i s =
     (let s' = (if cn_type (es_state s ! i) = 1 then delBusmonitor me s else s)
      in s'\<lparr>es_state := take i (es_state s') @ drop (Suc i) (es_state s')\<rparr>)"

section \<open>Requests of clients\<close>

abbreviation conn_index :: "uchar \<Rightarrow> eibnet_server \<Rightarrow> nat option" where
  "conn_index c s \<equiv> first_idx (\<lambda>k. cn_channel k = c) (es_state s)"

text \<open>\<open>strcpy (r2.name, "eibd")\<close>.\<close>

definition server_name :: CArray where
  "server_name = [0x65, 0x69, 0x62, 0x64] @ replicate 26 0"

definition server_services :: "bool \<Rightarrow> eibnet_server \<Rightarrow> DIB_service_Entry list" where
  "server_services describe s =
     (if es_discover s then [(2, 1)] else []) @ (if describe then [(3, 1)] else []) @
     (if es_tunnel s then [(4, 1)] else []) @ (if es_route s then [(5, 1)] else [])"

definition server_SEARCH_REQUEST :: "(sockaddr_in \<Rightarrow> sockaddr_in option) \<Rightarrow> bool \<Rightarrow> EIBNetIPPacket \<Rightarrow> eibnet_server \<Rightarrow> eibnet_server" where
  "server_SEARCH_REQUEST gsa junknat p s =
     (let (e, r1) = parseEIBnet_SearchRequest p EIBnet_SearchRequest_new
      in if e \<noteq> 0 then s
         else
           case gsa (hq_caddr r1) of
             None \<Rightarrow> s
           | Some a \<Rightarrow>
               server_Send (hq_caddr r1)
                 (EIBnet_SearchResponse_ToPacket
                   ((EIBnet_SearchResponse_new (a\<lparr>sin_port := es_Port s\<rparr>) junknat)
                    \<lparr>hp_KNXmedium := 2, hp_multicastaddr := sin_addr (es_maddr s), hp_name := server_name,
                     hp_services := server_services False s\<rparr>)) s)"

definition server_DESCRIPTION_REQUEST :: "uchar memory \<Rightarrow> EIBNetIPPacket \<Rightarrow> eibnet_server \<Rightarrow> eibnet_server" where
  "server_DESCRIPTION_REQUEST junk p s =
     (let (e, r1) = parseEIBnet_DescriptionRequest p EIBnet_DescriptionRequest_new
      in if e \<noteq> 0 then s
         else
           server_Send (eq_caddr r1)
             (EIBnet_DescriptionResponse_ToPacket junk
               (EIBnet_DescriptionResponse_new
                \<lparr>ep_KNXmedium := 2, ep_multicastaddr := sin_addr (es_maddr s), ep_name := server_name,
                 ep_services := server_services True s\<rparr>)) s)"

definition server_ROUTING_INDICATION :: "eibaddr_t \<Rightarrow> EIBNetIPPacket \<Rightarrow> eibnet_server \<Rightarrow> eibnet_server" where
  "server_ROUTING_INDICATION defaultAddr p s =
     (if length (pdata p) < 2 \<or> pdata p ! 0 \<noteq> 0x29 then s
      else
        case CEMI_to_L_Data (pdata p) of
          None \<Rightarrow> s
        | Some c \<Rightarrow>
            if hopcount c \<noteq> 0 then
              let c = c\<lparr>hopcount := hopcount c - 1\<rparr>; s = addNAT c s
              in s\<lparr>es_l3 := Layer3_send_L_Data defaultAddr c (es_l3 s)\<rparr>
            else s)"

text \<open>The status of an unknown connection is the decimal number 21.\<close>

definition server_CONNECTIONSTATE_REQUEST :: "EIBNetIPPacket \<Rightarrow> eibnet_server \<Rightarrow> eibnet_server" where
  "server_CONNECTIONSTATE_REQUEST p s =
     (let (e, r1) = parseEIBnet_ConnectionStateRequest p EIBnet_ConnectionStateRequest_new
      in if e \<noteq> 0 then s
         else
           let mine = (\<lambda>k. cn_channel k = sq_channel r1 \<and> compareIPAddress (psrc p) (cn_caddr k));
               res = (if \<exists>k\<in>set (es_state s). mine k then 0 else 21);
               s = s\<lparr>es_state := map (\<lambda>k. if mine k then k\<lparr>cn_timeout := False\<rparr> else k) (es_state s)\<rparr>
           in server_Send (sq_caddr r1)
                (EIBnet_ConnectionStateResponse_ToPacket \<lparr>sp_channel = sq_channel r1, sp_status = res\<rparr>) s)"

definition server_DISCONNECT_REQUEST :: "nat \<Rightarrow> EIBNetIPPacket \<Rightarrow> eibnet_server \<Rightarrow> eibnet_server" where
  "server_DISCONNECT_REQUEST me p s =
     (let (e, r1) = parseEIBnet_DisconnectRequest p EIBnet_DisconnectRequest_new
      in if e \<noteq> 0 then s
         else
           let (res, s) =
             (case first_idx (\<lambda>k. cn_channel k = dq_channel r1 \<and> compareIPAddress (psrc p) (cn_caddr k)) (es_state s) of
                Some i \<Rightarrow> (0, delete_conn me i s) | None \<Rightarrow> (0x21, s))
           in server_Send (dq_caddr r1)
                (EIBnet_DisconnectResponse_ToPacket \<lparr>dp_channel = dq_channel r1, dp_status = res\<rparr>) s)"

definition server_CONNECTION_REQUEST ::
    "(sockaddr_in \<Rightarrow> sockaddr_in option) \<Rightarrow> nat \<Rightarrow> bool \<Rightarrow> EIBNetIPPacket \<Rightarrow> eibnet_server \<Rightarrow> eibnet_server" where
  "server_CONNECTION_REQUEST gsa me ok p s =
     (let (e, r1) = parseEIBnet_ConnectRequest p EIBnet_ConnectRequest_new
      in if e \<noteq> 0 then s
         else
           let r2 = EIBnet_ConnectResponse_new\<lparr>cp_status := 0x22\<rparr>;
               CRI = cq_CRI r1;
               (r2, s) =
                 (if length CRI = 3 \<and> CRI ! 0 = 4 \<and> es_tunnel s then
                    (let r2 = r2\<lparr>cp_CRD := [0x04, 0x00, 0x00]\<rparr>
                     in if CRI ! 1 = 0x02 \<or> CRI ! 1 = 0x80 then
                          (let (n, s) = addClient (if CRI ! 1 = 0x80 then 1 else 0) r1 s
                           in if n \<le> 0xff then
                                (r2\<lparr>cp_channel := of_nat n, cp_status := 0\<rparr>,
                                 if CRI ! 1 = 0x80 then addBusmonitor me ok s else s)
                              else (r2, s))
                        else (r2, s))
                  else (r2, s));
               (r2, s) =
                 (if length CRI = 1 \<and> CRI ! 0 = 3 then
                    (let r2 = r2\<lparr>cp_CRD := [0x03]\<rparr>; (n, s) = addClient 2 r1 s
                     in if n \<le> 0xff then (r2\<lparr>cp_channel := of_nat n, cp_status := 0\<rparr>, s) else (r2, s))
                  else (r2, s))
           in case gsa (cq_caddr r1) of
                None \<Rightarrow> s
              | Some a \<Rightarrow>
                  server_Send (cq_caddr r1)
                    (EIBnet_ConnectResponse_ToPacket
                      (r2\<lparr>cp_daddr := a\<lparr>sin_port := es_Port s\<rparr>, cp_nat := cq_nat r1\<rparr>)) s)"

section \<open>Tunnelled frames\<close>

definition server_ack :: "sockaddr_in \<Rightarrow> uchar \<Rightarrow> uchar \<Rightarrow> uchar \<Rightarrow> eibnet_server \<Rightarrow> eibnet_server" where
  "server_ack to channel seqno status =
     server_Send to (EIBnet_TunnelACK_ToPacket \<lparr>ta_channel = channel, ta_seqno = seqno, ta_status = status\<rparr>)"

text \<open>The frame of an accepted request: the status, the connection and the frame for the bus.\<close>

definition tunnel_accept :: "CArray \<Rightarrow> ConnState \<Rightarrow> (uchar \<times> ConnState \<times> l_data option) option" where
  "tunnel_accept cemi k =
     (if cn_type k = 0 then
        (case CEMI_to_L_Data cemi of
           None \<Rightarrow> Some (0x29, k, None)
         | Some c \<Rightarrow>
             if hopcount c \<noteq> 0 then
               let c = c\<lparr>hopcount := hopcount c - 1\<rparr>;
                   f = (if cemi ! 0 = 0x11 \<or> cemi ! 0 = 0x29 then Some c else None)
               in if cemi ! 0 = 0x11 then map_option (\<lambda>d. (0, conn_put d k, f)) (L_Data_ToCEMI 0x2E c)
                  else Some (0, k, f)
             else Some (0, k, None))
      else Some (0x29, k, None))"

definition server_TUNNEL_REQUEST :: "eibaddr_t \<Rightarrow> EIBNetIPPacket \<Rightarrow> eibnet_server \<Rightarrow> eibnet_server option" where
  "server_TUNNEL_REQUEST defaultAddr p s =
     (let (e, r1) = parseEIBnet_TunnelRequest p EIBnet_TunnelRequest_new
      in if e \<noteq> 0 then Some s
         else
           case conn_index (tq_channel r1) s of
             None \<Rightarrow> Some s
           | Some i \<Rightarrow>
               let k = es_state s ! i
               in if \<not> compareIPAddress (psrc p) (cn_daddr k) then Some s
                  else if cn_rno k = tq_seqno r1 + 1 then
                    Some (server_ack (cn_daddr k) (tq_channel r1) (tq_seqno r1) 0 s)
                  else if cn_rno k \<noteq> tq_seqno r1 then Some s
                  else
                    map_option (\<lambda>(st, k', f).
                      let s = (case f of None \<Rightarrow> s | Some c \<Rightarrow> s\<lparr>es_l3 := Layer3_send_L_Data defaultAddr c (es_l3 s)\<rparr>)
                      in server_ack (cn_daddr k) (tq_channel r1) (tq_seqno r1) st
                           (set_conn i (k'\<lparr>cn_rno := cn_rno k + 1\<rparr>) s))
                      (tunnel_accept (tq_CEMI r1) k))"

text \<open>The tests of an acknowledgement, the same for both kinds of connections.\<close>

definition conn_acked :: "uchar \<Rightarrow> uchar \<Rightarrow> sockaddr_in \<Rightarrow> (int \<Rightarrow> bool) \<Rightarrow> ConnState \<Rightarrow> ConnState option" where
  "conn_acked seqno status src types k =
     (if \<not> compareIPAddress src (cn_daddr k) then Some k
      else if cn_sno k \<noteq> seqno then Some k
      else if status \<noteq> 0 then Some k
      else if cn_state k = 0 then Some k
      else if \<not> types (cn_type k) then Some k
      else conn_take (k\<lparr>cn_sno := cn_sno k + 1, cn_state := 0\<rparr>))"

definition server_TUNNEL_RESPONSE :: "EIBNetIPPacket \<Rightarrow> eibnet_server \<Rightarrow> eibnet_server option" where
  "server_TUNNEL_RESPONSE p s =
     (let (e, r1) = parseEIBnet_TunnelACK p EIBnet_TunnelACK_new
      in if e \<noteq> 0 then Some s
         else
           case conn_index (ta_channel r1) s of
             None \<Rightarrow> Some s
           | Some i \<Rightarrow>
               map_option (\<lambda>k. set_conn i k s)
                 (conn_acked (ta_seqno r1) (ta_status r1) (psrc p) (\<lambda>t. t = 0 \<or> t = 1) (es_state s ! i)))"

section \<open>Configuration\<close>

text \<open>The answer to the request for a property: only object 0 has a property 0 with the value 0.\<close>

definition config_answer :: "CArray \<Rightarrow> CArray" where
  "config_answer c =
     (let obj = mk16 (c ! 1) (c ! 2); objno = c ! 3; prop = c ! 4;
          count = drop_bit 4 (c ! 5) AND 0x0f;
          start = (ucast (c ! 5 AND 0x0f) OR ucast (c ! 6) :: 32 word);
          (res, count, start) =
            (if obj = 0 \<and> objno = 0 then (if prop = 0 then ([0, 0], count, 0) else ([0], 0, start)) else ([0], 0, start))
      in [0xFB, hi8 obj, lo8 obj, objno, prop, push_bit 4 (count AND 0x0f) OR ucast (drop_bit 8 start), ucast (start AND 0xff)] @ res)"

definition config_accept :: "CArray \<Rightarrow> ConnState \<Rightarrow> uchar \<times> ConnState" where
  "config_accept cemi k =
     (if cn_type k = 2 \<and> length cemi > 1 then
        (if cemi ! 0 = 0xFC then
           (if length cemi = 7 then (0x00, conn_put (config_answer cemi) k) else (0x26, k))
         else (0x26, k))
      else (0x29, k))"

definition server_CONFIG_REQUEST :: "EIBNetIPPacket \<Rightarrow> eibnet_server \<Rightarrow> eibnet_server" where
  "server_CONFIG_REQUEST p s =
     (let (e, r1) = parseEIBnet_ConfigRequest p EIBnet_ConfigRequest_new;
          ack = (\<lambda>to status. server_Send to (EIBnet_ConfigACK_ToPacket
                   \<lparr>gk_channel = gq_channel r1, gk_seqno = gq_seqno r1, gk_status = status\<rparr>))
      in if e \<noteq> 0 then s
         else
           case conn_index (gq_channel r1) s of
             None \<Rightarrow> s
           | Some i \<Rightarrow>
               let k = es_state s ! i
               in if \<not> compareIPAddress (psrc p) (cn_daddr k) then s
                  else if cn_rno k = gq_seqno r1 + 1 then ack (cn_daddr k) 0 s
                  else if cn_rno k \<noteq> gq_seqno r1 then s
                  else
                    let (st, k') = config_accept (gq_CEMI r1) k
                    in ack (cn_daddr k) st (set_conn i (k'\<lparr>cn_rno := cn_rno k + 1\<rparr>) s))"

definition server_CONFIG_ACK :: "EIBNetIPPacket \<Rightarrow> eibnet_server \<Rightarrow> eibnet_server option" where
  "server_CONFIG_ACK p s =
     (let (e, r1) = parseEIBnet_ConfigACK p EIBnet_ConfigACK_new
      in if e \<noteq> 0 then Some s
         else
           case conn_index (gk_channel r1) s of
             None \<Rightarrow> Some s
           | Some i \<Rightarrow>
               map_option (\<lambda>k. set_conn i k s)
                 (conn_acked (gk_seqno r1) (gk_status r1) (psrc p) (\<lambda>t. t = 2) (es_state s ! i)))"

section \<open>A turn of the server\<close>

text \<open>The deletion of a timed out entry makes the loop skip the one after it.\<close>

function nat_expire :: "nat \<Rightarrow> NATState list \<Rightarrow> NATState list" where
  "nat_expire i ns =
     (if i < length ns then
        nat_expire (i + 1) (if na_timeout (ns ! i) then take i ns @ drop (Suc i) ns else ns)
      else ns)"
  by pat_completeness auto

termination by (relation "measure (\<lambda>(i, ns). length ns - i)") auto

declare nat_expire.simps [simp del]

definition server_packet ::
    "(sockaddr_in \<Rightarrow> sockaddr_in option) \<Rightarrow> uchar memory \<Rightarrow> bool \<Rightarrow> nat \<Rightarrow> bool \<Rightarrow> eibaddr_t \<Rightarrow>
     EIBNetIPPacket \<Rightarrow> eibnet_server \<Rightarrow> eibnet_server option" where
  "server_packet gsa junk junknat me ok defaultAddr p s =
     (if service p = SEARCH_REQUEST \<and> es_discover s then Some (server_SEARCH_REQUEST gsa junknat p s)
      else if service p = DESCRIPTION_REQUEST \<and> es_discover s then Some (server_DESCRIPTION_REQUEST junk p s)
      else if service p = ROUTING_INDICATION \<and> es_route s then Some (server_ROUTING_INDICATION defaultAddr p s)
      else if service p = CONNECTIONSTATE_REQUEST then Some (server_CONNECTIONSTATE_REQUEST p s)
      else if service p = DISCONNECT_REQUEST then Some (server_DISCONNECT_REQUEST me p s)
      else if service p = CONNECTION_REQUEST then Some (server_CONNECTION_REQUEST gsa me ok p s)
      else if service p = TUNNEL_REQUEST \<and> es_tunnel s then server_TUNNEL_REQUEST defaultAddr p s
      else if service p = TUNNEL_RESPONSE \<and> es_tunnel s then server_TUNNEL_RESPONSE p s
      else if service p = DEVICE_CONFIGURATION_REQUEST then Some (server_CONFIG_REQUEST p s)
      else if service p = DEVICE_CONFIGURATION_ACK then server_CONFIG_ACK p s
      else Some s)"

text \<open>The first connection whose time is over is closed.\<close>

definition server_timeouts :: "nat \<Rightarrow> eibnet_server \<Rightarrow> eibnet_server" where
  "server_timeouts me s =
     (case first_idx cn_timeout (es_state s) of Some i \<Rightarrow> delete_conn me i s | None \<Rightarrow> s)"

text \<open>
  The sending of one connection: the packet, if any, and the new state. After ten attempts the
  frame is given up.
\<close>

definition conn_transmit :: "ConnState \<Rightarrow> (EIBNetIPPacket option \<times> ConnState) option" where
  "conn_transmit k =
     (if cn_state k \<noteq> 0 \<and> cn_sendtimeout k \<or> cn_state k = 0 \<and> cn_out k \<noteq> [] then
        let k = k\<lparr>cn_state := cn_state k + 1\<rparr>
        in if cn_state k > 10 then map_option (\<lambda>k. (None, k\<lparr>cn_state := 0\<rparr>)) (conn_take k)
           else
             case cn_out k of
               [] \<Rightarrow> None
             | c # _ \<Rightarrow>
                 Some (Some (if cn_type k = 2
                             then EIBnet_ConfigRequest_ToPacket \<lparr>gq_channel = cn_channel k, gq_seqno = cn_sno k, gq_CEMI = c\<rparr>
                             else EIBnet_TunnelRequest_ToPacket \<lparr>tq_channel = cn_channel k, tq_seqno = cn_sno k, tq_CEMI = c\<rparr>),
                       k\<lparr>cn_sendtimeout := False\<rparr>)
      else Some (None, k))"

fun server_transmit :: "ConnState list \<Rightarrow> (ConnState list \<times> (sockaddr_in \<times> EIBNetIPPacket) list) option" where
  "server_transmit [] = Some ([], [])"
| "server_transmit (k # ks) =
     (case conn_transmit k of
        None \<Rightarrow> None
      | Some (p, k') \<Rightarrow>
          (case server_transmit ks of
             None \<Rightarrow> None
           | Some (ks', ps) \<Rightarrow> Some (k' # ks', (case p of None \<Rightarrow> [] | Some p \<Rightarrow> [(cn_daddr k, p)]) @ ps)))"

text \<open>
  \<open>elapsed i\<close> are the two timers of connection \<open>i\<close> at the end of the wait, \<open>natelapsed i\<close> the one of
  entry \<open>i\<close> of the address translation.
\<close>

definition server_turn ::
    "(sockaddr_in \<Rightarrow> sockaddr_in option) \<Rightarrow> uchar memory \<Rightarrow> bool \<Rightarrow> nat \<Rightarrow> bool \<Rightarrow> eibaddr_t \<Rightarrow>
     EIBNetIPPacket option \<Rightarrow> (nat \<Rightarrow> bool \<times> bool) \<Rightarrow> (nat \<Rightarrow> bool) \<Rightarrow> eibnet_server \<Rightarrow> eibnet_server option" where
  "server_turn gsa junk junknat me ok defaultAddr p1 elapsed natelapsed s =
     (let s = s\<lparr>es_state := map (\<lambda>(i, k). k\<lparr>cn_timeout := cn_timeout k \<or> fst (elapsed i),
                                           cn_sendtimeout := cn_sendtimeout k \<or> snd (elapsed i)\<rparr>) (List.enumerate 0 (es_state s)),
                es_natstate := nat_expire 0 (map (\<lambda>(i, n). n\<lparr>na_timeout := na_timeout n \<or> natelapsed i\<rparr>)
                                 (List.enumerate 0 (es_natstate s)))\<rparr>
      in case (case p1 of None \<Rightarrow> Some s | Some p \<Rightarrow> server_packet gsa junk junknat me ok defaultAddr p s) of
           None \<Rightarrow> None
         | Some s \<Rightarrow>
             let s = server_timeouts me s
             in map_option (\<lambda>(ks, ps). s\<lparr>es_state := ks, es_sent := es_sent s @ ps\<rparr>) (server_transmit (es_state s)))"

text \<open>The end of \<open>Run\<close>.\<close>

fun server_stop :: "(sockaddr_in \<Rightarrow> sockaddr_in option) \<Rightarrow> nat \<Rightarrow> ConnState list \<Rightarrow> eibnet_server \<Rightarrow> eibnet_server" where
  "server_stop gsa me [] s = s"
| "server_stop gsa me (k # ks) s =
     (case gsa (cn_caddr k) of
        None \<Rightarrow> server_stop gsa me ks s
      | Some a \<Rightarrow>
          let s = server_Send (cn_caddr k)
                    (EIBnet_DisconnectRequest_ToPacket
                      \<lparr>dq_caddr = a\<lparr>sin_port := es_Port s\<rparr>, dq_channel = cn_channel k, dq_nat = cn_nat k\<rparr>) s
          in server_stop gsa me ks (if cn_type k = 1 then delBusmonitor me s else s))"

end
