(* ===== verification/EibNetIpProofs.thy ===== *)
theory EibNetIpProofs
  imports EibNetIp
begin

text \<open>
  Round trips of the EIBnet/IP packets: the header, the address block, and every message through
  the function that parses it.
\<close>

section \<open>The header\<close>

lemma unat_mk16_split: "n < 65536 \<Longrightarrow> unat (mk16 (hi8 (of_nat n)) (lo8 (of_nat n))) = n"
  by (simp add: unsigned_of_nat take_bit_nat_eq_self)

lemma packet_round_trip:
  "length (pdata p) + 6 < 65536 \<Longrightarrow>
   EIBNetIPPacket_fromPacket (EIBNetIPPacket_ToPacket p) src = Some (p\<lparr>psrc := src\<rparr>)"
  using unat_mk16_split [of "length (pdata p) + 6"]
  by (cases p) (simp add: EIBNetIPPacket_fromPacket_def EIBNetIPPacket_ToPacket_def Let_def)

lemma packet_of_simps [simp]:
  "service (packet_of s d) = s" "pdata (packet_of s d) = d" "psrc (packet_of s d) = sockaddr_zero"
  by (simp_all add: packet_of_def EIBNetIPPacket_new_def)

section \<open>The address block\<close>

text \<open>
  The address a receiver sees: a part that is zero is that of the sender of the packet, and an
  address of zero sets the flag.
\<close>

definition IP_seen :: "sockaddr_in \<Rightarrow> sockaddr_in \<Rightarrow> bool \<Rightarrow> sockaddr_in" where
  "IP_seen src a n =
     \<lparr>sin_family = AF_INET,
      sin_port = (if n \<or> sin_port a = 0 then sin_port src else sin_port a),
      sin_addr = (if n \<or> sin_addr a = 0 then sin_addr src else sin_addr a)\<rparr>"

definition nat_seen :: "sockaddr_in \<Rightarrow> bool \<Rightarrow> bool" where
  "nat_seen a n \<longleftrightarrow> n \<or> sin_addr a = 0"

lemma length_IP [simp]: "length (IPtoEIBNetIP a n) = 8"
  by (simp add: IPtoEIBNetIP_def)

lemma EIBnettoIP_IP [simp]:
  "EIBnettoIP (IPtoEIBNetIP a n) src k = (0, IP_seen src a n, k \<or> nat_seen a n)"
  by (auto simp: EIBnettoIP_def IPtoEIBNetIP_def IP_seen_def nat_seen_def mk32_def mk16_def Let_def
      simp del: mk32_byte32 mk16_hi8_lo8)
     (simp_all flip: mk32_def mk16_def)

section \<open>The messages\<close>

lemma part_prefix [simp]: "length a = n \<Longrightarrow> part 0 n (a @ b) = a"
  by (simp add: part_def)

lemma part_append [simp]: "length a \<le> off \<Longrightarrow> part off n (a @ b) = part (off - length a) n b"
  by (simp add: part_def)

lemma part_Cons_numeral [simp]: "part (numeral k) n (x # b) = part (pred_numeral k) n b"
  by (simp add: part_def)

lemma part_Cons_Suc [simp]: "part (Suc k) n (x # b) = part k n b"
  by (simp add: part_def)

lemma part_between: "length a = off \<Longrightarrow> length b = n \<Longrightarrow> part off n (a @ b @ c) = b"
  by (simp add: part_def)

lemma part_all [simp]: "length b = n \<Longrightarrow> part 0 n b = b"
  by (simp add: part_def)

lemma unat_count [simp]: "n < 256 \<Longrightarrow> unat (of_nat n :: uchar) = n"
  by (simp add: unsigned_of_nat take_bit_nat_eq_self)

lemma length_addr_bytes [simp]: "length (addr_bytes a) = 4"
  by (simp add: addr_bytes_def)

lemma addr_read_bytes [simp]: "addr_read (addr_bytes a) = a"
  by (simp add: addr_read_def addr_bytes_def)

lemma length_services_bytes [simp]: "length (services_bytes ss) = 2 * length ss"
  by (induction ss) (auto simp: services_bytes_def)

lemma services_bytes_nth:
  "i < length ss \<Longrightarrow> services_bytes ss ! (2 * i) = fst (ss ! i) \<and> services_bytes ss ! (Suc (2 * i)) = snd (ss ! i)"
proof (induction ss arbitrary: i)
  case (Cons s ss)
  then show ?case by (cases i; cases s) (auto simp: services_bytes_def)
qed simp

text \<open>All messages as one type, with what is sent and what the receiver reads into a new object.\<close>

datatype eibnet_message =
    M_ConnectRequest EIBnet_ConnectRequest | M_ConnectResponse EIBnet_ConnectResponse
  | M_ConnectionStateRequest EIBnet_ConnectionStateRequest | M_ConnectionStateResponse EIBnet_ConnectionStateResponse
  | M_DisconnectRequest EIBnet_DisconnectRequest | M_DisconnectResponse EIBnet_DisconnectResponse
  | M_TunnelRequest EIBnet_TunnelRequest | M_TunnelACK EIBnet_TunnelACK
  | M_ConfigRequest EIBnet_ConfigRequest | M_ConfigACK EIBnet_ConfigACK
  | M_DescriptionRequest EIBnet_DescriptionRequest | M_DescriptionResponse EIBnet_DescriptionResponse
  | M_SearchRequest EIBnet_SearchRequest | M_SearchResponse EIBnet_SearchResponse

fun eibnet_sent :: "uchar memory \<Rightarrow> eibnet_message \<Rightarrow> EIBNetIPPacket" where
  "eibnet_sent junk (M_ConnectRequest r) = EIBnet_ConnectRequest_ToPacket r"
| "eibnet_sent junk (M_ConnectResponse r) = EIBnet_ConnectResponse_ToPacket r"
| "eibnet_sent junk (M_ConnectionStateRequest r) = EIBnet_ConnectionStateRequest_ToPacket r"
| "eibnet_sent junk (M_ConnectionStateResponse r) = EIBnet_ConnectionStateResponse_ToPacket r"
| "eibnet_sent junk (M_DisconnectRequest r) = EIBnet_DisconnectRequest_ToPacket r"
| "eibnet_sent junk (M_DisconnectResponse r) = EIBnet_DisconnectResponse_ToPacket r"
| "eibnet_sent junk (M_TunnelRequest r) = EIBnet_TunnelRequest_ToPacket r"
| "eibnet_sent junk (M_TunnelACK r) = EIBnet_TunnelACK_ToPacket r"
| "eibnet_sent junk (M_ConfigRequest r) = EIBnet_ConfigRequest_ToPacket r"
| "eibnet_sent junk (M_ConfigACK r) = EIBnet_ConfigACK_ToPacket r"
| "eibnet_sent junk (M_DescriptionRequest r) = EIBnet_DescriptionRequest_ToPacket r"
| "eibnet_sent junk (M_DescriptionResponse r) = EIBnet_DescriptionResponse_ToPacket junk r"
| "eibnet_sent junk (M_SearchRequest r) = EIBnet_SearchRequest_ToPacket r"
| "eibnet_sent junk (M_SearchResponse r) = EIBnet_SearchResponse_ToPacket r"

definition read_ok :: "('a \<Rightarrow> eibnet_message) \<Rightarrow> nat \<times> 'a \<Rightarrow> eibnet_message option" where
  "read_ok f er = (case er of (e, r) \<Rightarrow> if e = 0 then Some (f r) else None)"

definition eibnet_read :: "DIB_service_Entry memory \<Rightarrow> EIBNetIPPacket \<Rightarrow> eibnet_message option" where
  "eibnet_read junk p =
     (let s = service p in
      if s = CONNECTION_REQUEST then read_ok M_ConnectRequest (parseEIBnet_ConnectRequest p EIBnet_ConnectRequest_new)
      else if s = CONNECTION_RESPONSE then read_ok M_ConnectResponse (parseEIBnet_ConnectResponse p EIBnet_ConnectResponse_new)
      else if s = CONNECTIONSTATE_REQUEST then read_ok M_ConnectionStateRequest (parseEIBnet_ConnectionStateRequest p EIBnet_ConnectionStateRequest_new)
      else if s = CONNECTIONSTATE_RESPONSE then read_ok M_ConnectionStateResponse (parseEIBnet_ConnectionStateResponse p EIBnet_ConnectionStateResponse_new)
      else if s = DISCONNECT_REQUEST then read_ok M_DisconnectRequest (parseEIBnet_DisconnectRequest p EIBnet_DisconnectRequest_new)
      else if s = DISCONNECT_RESPONSE then read_ok M_DisconnectResponse (parseEIBnet_DisconnectResponse p EIBnet_DisconnectResponse_new)
      else if s = TUNNEL_REQUEST then read_ok M_TunnelRequest (parseEIBnet_TunnelRequest p EIBnet_TunnelRequest_new)
      else if s = TUNNEL_RESPONSE then read_ok M_TunnelACK (parseEIBnet_TunnelACK p EIBnet_TunnelACK_new)
      else if s = DEVICE_CONFIGURATION_REQUEST then read_ok M_ConfigRequest (parseEIBnet_ConfigRequest p EIBnet_ConfigRequest_new)
      else if s = DEVICE_CONFIGURATION_ACK then read_ok M_ConfigACK (parseEIBnet_ConfigACK p EIBnet_ConfigACK_new)
      else if s = DESCRIPTION_REQUEST then read_ok M_DescriptionRequest (parseEIBnet_DescriptionRequest p EIBnet_DescriptionRequest_new)
      else if s = DESCRIPTION_RESPONSE then read_ok M_DescriptionResponse (parseEIBnet_DescriptionResponse junk p EIBnet_DescriptionResponse_new)
      else if s = SEARCH_REQUEST then read_ok M_SearchRequest (parseEIBnet_SearchRequest p EIBnet_SearchRequest_new)
      else if s = SEARCH_RESPONSE then read_ok M_SearchResponse (parseEIBnet_SearchResponse junk p (EIBnet_SearchResponse_new sockaddr_zero False))
      else None)"

text \<open>The messages that fit into a packet.\<close>

fun message_ok :: "eibnet_message \<Rightarrow> bool" where
  "message_ok (M_ConnectRequest r) \<longleftrightarrow> 1 \<le> length (cq_CRI r) \<and> length (cq_CRI r) \<le> 254"
| "message_ok (M_ConnectResponse r) \<longleftrightarrow> (cp_status r = 0 \<longrightarrow> 1 \<le> length (cp_CRD r) \<and> length (cp_CRD r) \<le> 254)"
| "message_ok (M_TunnelRequest r) \<longleftrightarrow> 2 \<le> length (tq_CEMI r) \<and> length (tq_CEMI r) < 65526"
| "message_ok (M_ConfigRequest r) \<longleftrightarrow> 2 \<le> length (gq_CEMI r) \<and> length (gq_CEMI r) < 65526"
| "message_ok (M_DescriptionResponse r) \<longleftrightarrow>
     length (ep_serial r) = 6 \<and> length (ep_MAC r) = 6 \<and> length (ep_name r) = 30 \<and> length (ep_services r) \<le> 126 \<and>
     length (ep_optional r) < 65000"
| "message_ok (M_SearchResponse r) \<longleftrightarrow>
     length (hp_serial r) = 6 \<and> length (hp_MAC r) = 6 \<and> length (hp_name r) = 30 \<and> length (hp_services r) \<le> 126"
| "message_ok m \<longleftrightarrow> True"

text \<open>
  What the receiver makes of a message from \<open>src\<close>. A description response does not carry the serial
  number, but six bytes of uninitialised memory.
\<close>

fun message_seen :: "uchar memory \<Rightarrow> sockaddr_in \<Rightarrow> eibnet_message \<Rightarrow> eibnet_message" where
  "message_seen junk src (M_ConnectRequest r) =
     M_ConnectRequest (r\<lparr>cq_caddr := IP_seen src (cq_caddr r) (cq_nat r), cq_daddr := IP_seen src (cq_daddr r) (cq_nat r),
       cq_nat := nat_seen (cq_caddr r) (cq_nat r) \<or> nat_seen (cq_daddr r) (cq_nat r)\<rparr>)"
| "message_seen junk src (M_ConnectResponse r) =
     M_ConnectResponse
       (if cp_status r = 0 then r\<lparr>cp_daddr := IP_seen src (cp_daddr r) (cp_nat r), cp_nat := nat_seen (cp_daddr r) (cp_nat r)\<rparr>
        else r\<lparr>cp_daddr := sockaddr_zero, cp_nat := False, cp_CRD := []\<rparr>)"
| "message_seen junk src (M_ConnectionStateRequest r) =
     M_ConnectionStateRequest (r\<lparr>sq_caddr := IP_seen src (sq_caddr r) (sq_nat r), sq_nat := nat_seen (sq_caddr r) (sq_nat r)\<rparr>)"
| "message_seen junk src (M_DisconnectRequest r) =
     M_DisconnectRequest (r\<lparr>dq_caddr := IP_seen src (dq_caddr r) (dq_nat r), dq_nat := nat_seen (dq_caddr r) (dq_nat r)\<rparr>)"
| "message_seen junk src (M_DescriptionRequest r) =
     M_DescriptionRequest (r\<lparr>eq_caddr := IP_seen src (eq_caddr r) (eq_nat r), eq_nat := nat_seen (eq_caddr r) (eq_nat r)\<rparr>)"
| "message_seen junk src (M_SearchRequest r) =
     M_SearchRequest (r\<lparr>hq_caddr := IP_seen src (hq_caddr r) (hq_nat r), hq_nat := nat_seen (hq_caddr r) (hq_nat r)\<rparr>)"
| "message_seen junk src (M_DescriptionResponse r) =
     M_DescriptionResponse (r\<lparr>ep_serial := map junk [8..<14], ep_name := (ep_name r)[29 := 0]\<rparr>)"
| "message_seen junk src (M_SearchResponse r) =
     M_SearchResponse (r\<lparr>hp_caddr := IP_seen src (hp_caddr r) (hp_nat r), hp_nat := nat_seen (hp_caddr r) (hp_nat r),
       hp_name := (hp_name r)[29 := 0]\<rparr>)"
| "message_seen junk src m = m"

lemmas small_defs =
  EIBnet_ConnectRequest_ToPacket_def parseEIBnet_ConnectRequest_def EIBnet_ConnectRequest_new_def
  EIBnet_ConnectResponse_ToPacket_def parseEIBnet_ConnectResponse_def EIBnet_ConnectResponse_new_def
  EIBnet_ConnectionStateRequest_ToPacket_def parseEIBnet_ConnectionStateRequest_def EIBnet_ConnectionStateRequest_new_def
  EIBnet_ConnectionStateResponse_ToPacket_def parseEIBnet_ConnectionStateResponse_def EIBnet_ConnectionStateResponse_new_def
  EIBnet_DisconnectRequest_ToPacket_def parseEIBnet_DisconnectRequest_def EIBnet_DisconnectRequest_new_def
  EIBnet_DisconnectResponse_ToPacket_def parseEIBnet_DisconnectResponse_def EIBnet_DisconnectResponse_new_def
  EIBnet_TunnelRequest_ToPacket_def parseEIBnet_TunnelRequest_def EIBnet_TunnelRequest_new_def
  EIBnet_TunnelACK_ToPacket_def parseEIBnet_TunnelACK_def EIBnet_TunnelACK_new_def
  EIBnet_ConfigRequest_ToPacket_def parseEIBnet_ConfigRequest_def EIBnet_ConfigRequest_new_def
  EIBnet_ConfigACK_ToPacket_def parseEIBnet_ConfigACK_def EIBnet_ConfigACK_new_def
  EIBnet_DescriptionRequest_ToPacket_def parseEIBnet_DescriptionRequest_def EIBnet_DescriptionRequest_new_def
  EIBnet_SearchRequest_ToPacket_def parseEIBnet_SearchRequest_def EIBnet_SearchRequest_new_def

text \<open>One message after the other: what the parser makes of what was sent.\<close>

definition trips :: "(uchar memory \<Rightarrow> DIB_service_Entry memory \<Rightarrow> sockaddr_in \<Rightarrow> eibnet_message \<Rightarrow> bool)" where
  "trips junk junk' src m \<longleftrightarrow>
     eibnet_read junk' ((eibnet_sent junk m)\<lparr>psrc := src\<rparr>) = Some (message_seen junk src m) \<and>
     length (pdata (eibnet_sent junk m)) + 6 < 65536"

lemma connect_trips:
  "message_ok (M_ConnectRequest q) \<Longrightarrow> trips junk junk' src (M_ConnectRequest q)"
  "message_ok (M_ConnectResponse r) \<Longrightarrow> trips junk junk' src (M_ConnectResponse r)"
  by ((cases q)?, (cases r)?, auto simp: trips_def eibnet_read_def read_ok_def small_defs nth_append Let_def simp del: of_nat_Suc)+

lemma state_trips:
  "trips junk junk' src (M_ConnectionStateRequest q)" "trips junk junk' src (M_ConnectionStateResponse r)"
  "trips junk junk' src (M_DisconnectRequest dq)" "trips junk junk' src (M_DisconnectResponse dr)"
  by (cases q, simp add: trips_def eibnet_read_def read_ok_def small_defs Let_def)
     (cases r, simp add: trips_def eibnet_read_def read_ok_def small_defs Let_def,
      cases dq, simp add: trips_def eibnet_read_def read_ok_def small_defs Let_def,
      cases dr, simp add: trips_def eibnet_read_def read_ok_def small_defs Let_def)

lemma tunnel_trips:
  "message_ok (M_TunnelRequest q) \<Longrightarrow> trips junk junk' src (M_TunnelRequest q)"
  "trips junk junk' src (M_TunnelACK a)"
  "message_ok (M_ConfigRequest r) \<Longrightarrow> trips junk junk' src (M_ConfigRequest r)"
  "trips junk junk' src (M_ConfigACK b)"
  by (cases q, simp add: trips_def eibnet_read_def read_ok_def small_defs Let_def)
     (cases a, simp add: trips_def eibnet_read_def read_ok_def small_defs Let_def,
      cases r, simp add: trips_def eibnet_read_def read_ok_def small_defs Let_def,
      cases b, simp add: trips_def eibnet_read_def read_ok_def small_defs Let_def)

lemma request_trips:
  "trips junk junk' src (M_DescriptionRequest q)" "trips junk junk' src (M_SearchRequest r)"
  by (cases q, simp add: trips_def eibnet_read_def read_ok_def small_defs Let_def)
     (cases r, simp add: trips_def eibnet_read_def read_ok_def small_defs Let_def)

lemma count_even [simp]: "n \<le> 126 \<Longrightarrow> (of_nat (n * 2 + 2) :: uchar) mod 2 = 0"
  using unat_count [of "n * 2 + 2"] by (simp add: word_unat_eq_iff unat_mod del: unat_count)

lemma read_services_bytes:
  assumes "length pre = off" and "length ss \<le> 126" and "len = of_nat (length ss * 2 + 2)"
  shows "read_services junk len off (pre @ services_bytes ss @ post) old = ss"
proof -
  have u: "unat len = length ss * 2 + 2" unfolding assms(3) using assms(2) by (intro unat_count) simp
  have "(pre @ services_bytes ss @ post) ! (off + 2 * i) = fst (ss ! i)"
    "(pre @ services_bytes ss @ post) ! (off + 1 + 2 * i) = snd (ss ! i)" if "i < length ss" for i
    using services_bytes_nth [OF that] that assms(1) by (simp_all add: nth_append)
  then show ?thesis
    by (auto simp: read_services_def u Let_def intro: nth_equalityI)
qed

lemma put_between: "length a = off \<Longrightarrow> length b = length s \<Longrightarrow> put off s (a @ b @ c) = a @ s @ c"
  by (simp add: put_def)

lemma length_6: "length xs = 6 \<longleftrightarrow> (\<exists>a b c d e f. xs = [a, b, c, d, e, f])"
  by (auto simp: numeral_eq_Suc length_Suc_conv)

definition description_head :: "uchar memory \<Rightarrow> EIBnet_DescriptionResponse \<Rightarrow> CArray" where
  "description_head junk r =
     [54, 1, ep_KNXmedium r, ep_devicestatus r, hi8 (ep_individual_addr r), lo8 (ep_individual_addr r),
      hi8 (ep_installid r), lo8 (ep_installid r)] @ map junk [8..<14] @ addr_bytes (ep_multicastaddr r) @
     ep_MAC r @ (ep_name r)[29 := 0] @ [of_nat (length (ep_services r) * 2 + 2), 2]"

lemma DescriptionResponse_shape:
  assumes "message_ok (M_DescriptionResponse r)"
  shows "pdata (EIBnet_DescriptionResponse_ToPacket junk r) =
    description_head junk r @ services_bytes (ep_services r) @ ep_optional r"
proof -
  let ?h = "[54, 1, ep_KNXmedium r, ep_devicestatus r, hi8 (ep_individual_addr r), lo8 (ep_individual_addr r),
      hi8 (ep_installid r), lo8 (ep_installid r)]"
  let ?J = "map junk [8..<14]" and ?J2 = "map junk [14..<18]" and ?J3 = "map junk [18..<24]" and ?J4 = "map junk [24..<54]"
  let ?c = "of_nat (length (ep_services r) * 2 + 2)"
  have l: "length (ep_serial r) = 6" "length (ep_MAC r) = 6" "length (ep_name r) = 30" using assms by simp_all
  have "[0..<56] = [0..<8] @ [8..<14] @ [14..<18] @ [18..<24] @ [24..<54] @ [54..<56 :: nat]" by code_simp
  then have "Array_new junk 56 = map junk [0..<8] @ ?J @ ?J2 @ ?J3 @ ?J4 @ map junk [54..<56]"
    by (simp only: Array_new_def map_append)
  moreover have "[0..<8 :: nat] = [0, 1, 2, 3, 4, 5, 6, 7]" "[54..<56 :: nat] = [54, 55]" by code_simp+
  ultimately have d: "Array_new junk 56 = [junk 0, junk 1, junk 2, junk 3, junk 4, junk 5, junk 6, junk 7] @ ?J @ ?J2 @ ?J3 @ ?J4 @ [junk 54, junk 55]"
    by simp
  have "(Array_new junk 56)[0 := 54, 1 := 1, 2 := ep_KNXmedium r, 3 := ep_devicestatus r,
                4 := hi8 (ep_individual_addr r), 5 := lo8 (ep_individual_addr r),
                6 := hi8 (ep_installid r), 7 := lo8 (ep_installid r)] = ?h @ ?J @ ?J2 @ ?J3 @ ?J4 @ [junk 54, junk 55]"
    unfolding d by simp
  moreover have "put 18 (ep_serial r) (?h @ ?J @ ?J2 @ ?J3 @ ?J4 @ [junk 54, junk 55]) = ?h @ ?J @ ?J2 @ ep_serial r @ ?J4 @ [junk 54, junk 55]"
    using put_between [of "?h @ ?J @ ?J2" 18 ?J3 "ep_serial r"] l by simp
  moreover have "put 14 (addr_bytes (ep_multicastaddr r)) (?h @ ?J @ ?J2 @ ep_serial r @ ?J4 @ [junk 54, junk 55]) =
      ?h @ ?J @ addr_bytes (ep_multicastaddr r) @ ep_serial r @ ?J4 @ [junk 54, junk 55]"
    using put_between [of "?h @ ?J" 14 ?J2 "addr_bytes (ep_multicastaddr r)"] by simp
  moreover have "put 18 (ep_MAC r) (?h @ ?J @ addr_bytes (ep_multicastaddr r) @ ep_serial r @ ?J4 @ [junk 54, junk 55]) =
      ?h @ ?J @ addr_bytes (ep_multicastaddr r) @ ep_MAC r @ ?J4 @ [junk 54, junk 55]"
    using put_between [of "?h @ ?J @ addr_bytes (ep_multicastaddr r)" 18 "ep_serial r" "ep_MAC r"] l by simp
  moreover have "put 24 (ep_name r) (?h @ ?J @ addr_bytes (ep_multicastaddr r) @ ep_MAC r @ ?J4 @ [junk 54, junk 55]) =
      ?h @ ?J @ addr_bytes (ep_multicastaddr r) @ ep_MAC r @ ep_name r @ [junk 54, junk 55]"
    using put_between [of "?h @ ?J @ addr_bytes (ep_multicastaddr r) @ ep_MAC r" 24 ?J4 "ep_name r"] l by simp
  moreover have "(?h @ ?J @ addr_bytes (ep_multicastaddr r) @ ep_MAC r @ ep_name r @ [junk 54, junk 55])[53 := 0, 54 := ?c, 55 := 2] =
      description_head junk r"
    using l by (simp add: description_head_def list_update_append)
  ultimately show ?thesis by (simp add: EIBnet_DescriptionResponse_ToPacket_def Let_def)
qed

lemma length_description_head:
  "message_ok (M_DescriptionResponse r) \<Longrightarrow> length (description_head junk r) = 56"
  by (simp add: description_head_def)

lemma DescriptionResponse_trips:
  assumes ok: "message_ok (M_DescriptionResponse r)"
  shows "trips junk junk' src (M_DescriptionResponse r)"
proof -
  define h where "h = description_head junk r"
  define p where "p = (EIBnet_DescriptionResponse_ToPacket junk r)\<lparr>psrc := src\<rparr>"
  have p: "service p = DESCRIPTION_RESPONSE" "pdata p = h @ services_bytes (ep_services r) @ ep_optional r"
    using DescriptionResponse_shape [OF ok, of junk]
    by (simp_all add: p_def h_def) (simp add: EIBnet_DescriptionResponse_ToPacket_def Let_def)
  have lh: "length h = 56" unfolding h_def by (rule length_description_head [OF ok])
  have l: "length (ep_serial r) = 6" "length (ep_MAC r) = 6" "length (ep_name r) = 30" "length (ep_services r) \<le> 126"
    using ok by simp_all
  have c: "unat (of_nat (length (ep_services r) * 2 + 2) :: uchar) = length (ep_services r) * 2 + 2"
    using l by (intro unat_count) simp
  define n where "n = (of_nat (length (ep_services r) * 2 + 2) :: uchar)"
  have n: "unat n = length (ep_services r) * 2 + 2" "n mod 2 = 0"
    using c count_even [OF l(4)] by (simp_all add: n_def)
  have h: "h ! 0 = 54" "h ! Suc 0 = 1" "h ! 2 = ep_KNXmedium r" "h ! 3 = ep_devicestatus r"
      "h ! 4 = hi8 (ep_individual_addr r)" "h ! 5 = lo8 (ep_individual_addr r)"
      "h ! 6 = hi8 (ep_installid r)" "h ! 7 = lo8 (ep_installid r)" "h ! 54 = n" "h ! 55 = 2"
    using l by (simp_all add: h_def description_head_def nth_append n_def)
  have s: "part 8 6 (h @ x) = map junk [8..<14]" "part 14 4 (h @ x) = addr_bytes (ep_multicastaddr r)"
      "part 18 6 (h @ x) = ep_MAC r" "part 24 30 (h @ x) = (ep_name r)[29 := 0]" for x
    using l part_between [of "take 8 h" 8 "map junk [8..<14]" 6 "drop 14 h @ x"]
      part_between [of "take 14 h" 14 "addr_bytes (ep_multicastaddr r)" 4 "drop 18 h @ x"]
      part_between [of "take 18 h" 18 "ep_MAC r" 6 "drop 24 h @ x"]
      part_between [of "take 24 h" 24 "(ep_name r)[29 := 0]" 30 "drop 54 h @ x"]
    by (simp_all add: h_def description_head_def)
  have v: "read_services junk' n 56 (h @ services_bytes (ep_services r) @ ep_optional r) old = ep_services r" for old
    using l(4) lh by (intro read_services_bytes) (simp_all add: n_def)
  have "parseEIBnet_DescriptionResponse junk' p EIBnet_DescriptionResponse_new =
      (0, r\<lparr>ep_serial := map junk [8..<14], ep_name := (ep_name r)[29 := 0]\<rparr>)"
    using l v
    by (cases r) (simp add: parseEIBnet_DescriptionResponse_def p s h n lh nth_append EIBnet_DescriptionResponse_new_def)
  then show ?thesis using lh l ok
    by (simp add: trips_def eibnet_read_def read_ok_def p p_def [symmetric] DescriptionResponse_shape [OF ok] h_def)
qed

definition search_head :: "EIBnet_SearchResponse \<Rightarrow> CArray" where
  "search_head r =
     IPtoEIBNetIP (hp_caddr r) (hp_nat r) @
        [54, 1, hp_KNXmedium r, hp_devicestatus r, hi8 (hp_individual_addr r), lo8 (hp_individual_addr r),
         hi8 (hp_installid r), lo8 (hp_installid r)] @
        hp_serial r @ addr_bytes (hp_multicastaddr r) @ hp_MAC r @ (hp_name r)[29 := 0] @
        [of_nat (length (hp_services r) * 2 + 2), 2]"

lemma SearchResponse_trips:
  assumes ok: "message_ok (M_SearchResponse r)"
  shows "trips junk junk' src (M_SearchResponse r)"
proof -
  define h where "h = search_head r"
  define p where "p = (EIBnet_SearchResponse_ToPacket r)\<lparr>psrc := src\<rparr>"
  have p: "service p = SEARCH_RESPONSE" "psrc p = src" "pdata p = h @ services_bytes (hp_services r)"
    by (simp_all add: p_def h_def EIBnet_SearchResponse_ToPacket_def search_head_def)
  have l: "length (hp_serial r) = 6" "length (hp_MAC r) = 6" "length (hp_name r) = 30" "length (hp_services r) \<le> 126"
    using ok by simp_all
  have lh: "length h = 64" using l by (simp add: h_def search_head_def)
  define n where "n = (of_nat (length (hp_services r) * 2 + 2) :: uchar)"
  have n: "unat n = length (hp_services r) * 2 + 2" "n mod 2 = 0"
    using unat_count [of "length (hp_services r) * 2 + 2"] count_even [OF l(4)] l(4) unfolding n_def by simp_all
  have h: "h ! 8 = 54" "h ! 9 = 1" "h ! 10 = hp_KNXmedium r" "h ! 11 = hp_devicestatus r"
      "h ! 12 = hi8 (hp_individual_addr r)" "h ! 13 = lo8 (hp_individual_addr r)"
      "h ! 14 = hi8 (hp_installid r)" "h ! 15 = lo8 (hp_installid r)" "h ! 62 = n" "h ! 63 = 2"
    using l by (simp_all add: h_def search_head_def nth_append n_def)
  have s: "part 0 8 (h @ x) = IPtoEIBNetIP (hp_caddr r) (hp_nat r)" "part 16 6 (h @ x) = hp_serial r"
      "part 22 4 (h @ x) = addr_bytes (hp_multicastaddr r)" "part 26 6 (h @ x) = hp_MAC r"
      "part 32 30 (h @ x) = (hp_name r)[29 := 0]" for x
    using l part_between [of "[]" 0 "IPtoEIBNetIP (hp_caddr r) (hp_nat r)" 8 "drop 8 h @ x"]
      part_between [of "take 16 h" 16 "hp_serial r" 6 "drop 22 h @ x"]
      part_between [of "take 22 h" 22 "addr_bytes (hp_multicastaddr r)" 4 "drop 26 h @ x"]
      part_between [of "take 26 h" 26 "hp_MAC r" 6 "drop 32 h @ x"]
      part_between [of "take 32 h" 32 "(hp_name r)[29 := 0]" 30 "drop 62 h @ x"]
    by (simp_all add: h_def search_head_def)
  have v: "read_services junk' n 64 (h @ services_bytes (hp_services r)) old = hp_services r" for old
    using read_services_bytes [of h 64 "hp_services r" n junk' "[]" old] l(4) lh by (simp add: n_def)
  have "parseEIBnet_SearchResponse junk' p (EIBnet_SearchResponse_new sockaddr_zero False) =
      (0, r\<lparr>hp_caddr := IP_seen src (hp_caddr r) (hp_nat r), hp_nat := nat_seen (hp_caddr r) (hp_nat r),
       hp_name := (hp_name r)[29 := 0]\<rparr>)"
    using l v
    by (cases r) (simp add: parseEIBnet_SearchResponse_def p s h n lh nth_append EIBnet_SearchResponse_new_def)
  then show ?thesis using lh l(4) p
    by (simp add: trips_def eibnet_read_def read_ok_def p_def [symmetric])
       (simp add: p_def)
qed

lemma message_trips: "message_ok m \<Longrightarrow> trips junk junk' src m"
  by (cases m) (auto intro: connect_trips state_trips tunnel_trips request_trips DescriptionResponse_trips SearchResponse_trips
      simp del: message_ok.simps)

end
