(* ===== verification/TunnelNet.thy ===== *)
theory TunnelNet
  imports Tunnel EibNetServer EibNetIpProofs
begin

text \<open>
  A tunnelling client and a server with this client, joined by a network that loses and repeats
  packets but does not reorder them: the model of a session, and the invariant of its
  stop-and-wait protocol.
\<close>

section \<open>The session\<close>

text \<open>
  \<open>nt_up\<close> and \<open>nt_down\<close> are the packets on the way to the server and to the client; \<open>nt_frames\<close>
  are the frames the dispatcher of the client's side has handed to the driver (a frame of a wrong
  length is not one: the driver ignores it).
\<close>

record tnet =
  nt_client :: tunnel
  nt_server :: eibnet_server
  nt_up :: "EIBNetIPPacket list"
  nt_down :: "EIBNetIPPacket list"
  nt_frames :: "l_data list"

datatype direction = Up | Down

datatype tnet_event =
    Submit l_data
  | Client_turn bool bool bool
  | Server_turn bool bool bool
  | Bus_frame bool l_data
  | Lose direction nat
  | Repeat direction nat

text \<open>What a socket sent since its state was \<open>old\<close>, as packets that arrive from \<open>src\<close>.\<close>

definition new_packets ::
    "sockaddr_in \<Rightarrow> (sockaddr_in \<times> EIBNetIPPacket) list \<Rightarrow> (sockaddr_in \<times> EIBNetIPPacket) list \<Rightarrow> EIBNetIPPacket list" where
  "new_packets src old new = map (\<lambda>(to, p). p\<lparr>psrc := src\<rparr>) (drop (length old) new)"

definition lose_at :: "nat \<Rightarrow> 'a list \<Rightarrow> 'a list" where
  "lose_at i xs = take i xs @ drop (Suc i) xs"

definition repeat_at :: "nat \<Rightarrow> 'a list \<Rightarrow> 'a list" where
  "repeat_at i xs = (if i < length xs then take i xs @ [xs ! i] @ drop i xs else xs)"

text \<open>The fixed surroundings of a session: the two addresses, and the parameters of the server.\<close>

record tnet_env =
  te_client :: sockaddr_in
  te_server :: sockaddr_in
  te_gsa :: "sockaddr_in \<Rightarrow> sockaddr_in option"
  te_junk :: "uchar memory"
  te_nat :: bool
  te_me :: nat
  te_ok :: bool
  te_default :: eibaddr_t

definition arriving :: "bool \<Rightarrow> 'a list \<Rightarrow> 'a option" where
  "arriving b ps = (if b \<and> ps \<noteq> [] then Some (hd ps) else None)"

definition remaining :: "bool \<Rightarrow> 'a list \<Rightarrow> 'a list" where
  "remaining b ps = (if b then tl ps else ps)"

fun tnet_step :: "tnet_env \<Rightarrow> tnet_event \<Rightarrow> tnet \<Rightarrow> tnet option" where
  "tnet_step E (Submit l) N =
     map_option (\<lambda>t. N\<lparr>nt_client := t,
                       nt_frames := (if LPDU_getType (L_Data_PDU l) = L_Data then nt_frames N @ [l] else nt_frames N)\<rparr>)
       (EIBNetIPTunnel_Send_L_Data (L_Data_PDU l) (nt_client N))"
| "tnet_step E (Client_turn b el el1) N =
     map_option (\<lambda>t. N\<lparr>nt_client := t, nt_down := remaining b (nt_down N),
                       nt_up := nt_up N @ new_packets (te_client E) (tn_sent (nt_client N)) (tn_sent t)\<rparr>)
       (tunnel_turn (arriving b (nt_down N)) el el1 (nt_client N))"
| "tnet_step E (Server_turn b el el1) N =
     map_option (\<lambda>s. N\<lparr>nt_server := s, nt_up := remaining b (nt_up N),
                       nt_down := nt_down N @ new_packets (te_server E) (es_sent (nt_server N)) (es_sent s)\<rparr>)
       (server_turn (te_gsa E) (te_junk E) (te_nat E) (te_me E) (te_ok E) (te_default E)
          (arriving b (nt_up N)) (\<lambda>i. (el, el1)) (\<lambda>i. False) (nt_server N))"
| "tnet_step E (Bus_frame own l) N =
     map_option (\<lambda>s. N\<lparr>nt_server := s,
                       nt_down := nt_down N @ new_packets (te_server E) (es_sent (nt_server N)) (es_sent s)\<rparr>)
       (server_Get_L_Data own l (nt_server N))"
| "tnet_step E (Lose Up i) N = Some (N\<lparr>nt_up := lose_at i (nt_up N)\<rparr>)"
| "tnet_step E (Lose Down i) N = Some (N\<lparr>nt_down := lose_at i (nt_down N)\<rparr>)"
| "tnet_step E (Repeat Up i) N = Some (N\<lparr>nt_up := repeat_at i (nt_up N)\<rparr>)"
| "tnet_step E (Repeat Down i) N = Some (N\<lparr>nt_down := repeat_at i (nt_down N)\<rparr>)"

text \<open>
  The session is alive while the client has neither closed it nor given up a frame and the server
  has its one connection.
\<close>

definition session_alive :: "uchar \<Rightarrow> tnet \<Rightarrow> bool" where
  "session_alive ch N \<longleftrightarrow>
     tn_mod (nt_client N) \<noteq> 0 \<and> tn_drop (nt_client N) = 0 \<and> map cn_channel (es_state (nt_server N)) = [ch]"

text \<open>\<open>None\<close>: the session has ended, or one side has stopped at an \<open>assert\<close>.\<close>

fun tnet_run :: "tnet_env \<Rightarrow> uchar \<Rightarrow> tnet_event list \<Rightarrow> tnet \<Rightarrow> tnet option" where
  "tnet_run E ch [] N = Some N"
| "tnet_run E ch (e # es) N =
     (case tnet_step E e N of
        None \<Rightarrow> None
      | Some N' \<Rightarrow> if session_alive ch N' then tnet_run E ch es N' else None)"

section \<open>What counts in a packet\<close>

definition request_of :: "uchar \<Rightarrow> EIBNetIPPacket \<Rightarrow> (uchar \<times> CArray) option" where
  "request_of ch p =
     (case parseEIBnet_TunnelRequest p EIBnet_TunnelRequest_new of
        (e, r) \<Rightarrow> if e = 0 \<and> tq_channel r = ch then Some (tq_seqno r, tq_CEMI r) else None)"

definition ack_of :: "uchar \<Rightarrow> EIBNetIPPacket \<Rightarrow> uchar option" where
  "ack_of ch p =
     (case parseEIBnet_TunnelACK p EIBnet_TunnelACK_new of
        (e, r) \<Rightarrow> if e = 0 \<and> ta_channel r = ch \<and> ta_status r = 0 then Some (ta_seqno r) else None)"

definition requests :: "uchar \<Rightarrow> EIBNetIPPacket list \<Rightarrow> (uchar \<times> CArray) list" where
  "requests ch ps = List.map_filter (request_of ch) ps"

definition acks :: "uchar \<Rightarrow> EIBNetIPPacket list \<Rightarrow> uchar list" where
  "acks ch ps = List.map_filter (ack_of ch) ps"

lemma requests_simps [simp]:
  "requests ch [] = []" "requests ch (p # ps) = (case request_of ch p of None \<Rightarrow> requests ch ps | Some r \<Rightarrow> r # requests ch ps)"
  "requests ch (ps @ qs) = requests ch ps @ requests ch qs"
  by (simp_all add: requests_def List.map_filter_def split: option.split)

lemma acks_simps [simp]:
  "acks ch [] = []" "acks ch (p # ps) = (case ack_of ch p of None \<Rightarrow> acks ch ps | Some r \<Rightarrow> r # acks ch ps)"
  "acks ch (ps @ qs) = acks ch ps @ acks ch qs"
  by (simp_all add: acks_def List.map_filter_def split: option.split)

text \<open>The services decide: everything else on the network is neither.\<close>

lemma request_of_service: "service p \<noteq> TUNNEL_REQUEST \<Longrightarrow> request_of ch p = None"
  by (simp add: request_of_def parseEIBnet_TunnelRequest_def)

lemma ack_of_service: "service p \<noteq> TUNNEL_RESPONSE \<Longrightarrow> ack_of ch p = None"
  by (simp add: ack_of_def parseEIBnet_TunnelACK_def)

lemma request_of_sent:
  "2 \<le> length c \<Longrightarrow>
   request_of ch ((EIBnet_TunnelRequest_ToPacket \<lparr>tq_channel = ch', tq_seqno = n, tq_CEMI = c\<rparr>)\<lparr>psrc := a\<rparr>) =
     (if ch' = ch then Some (n, c) else None)"
  by (auto simp: request_of_def parseEIBnet_TunnelRequest_def EIBnet_TunnelRequest_ToPacket_def EIBnet_TunnelRequest_new_def)

lemma ack_of_sent:
  "ack_of ch ((EIBnet_TunnelACK_ToPacket \<lparr>ta_channel = ch', ta_seqno = n, ta_status = st\<rparr>)\<lparr>psrc := a\<rparr>) =
     (if ch' = ch \<and> st = 0 then Some n else None)"
  by (simp add: ack_of_def parseEIBnet_TunnelACK_def EIBnet_TunnelACK_ToPacket_def EIBnet_TunnelACK_new_def)

section \<open>The protocol\<close>

text \<open>
  \<open>sno\<close>: the number of the sender's current frame; \<open>cur\<close>: the frame it has sent and not yet seen
  acknowledged; \<open>rno\<close>: the number the receiver waits for; \<open>R\<close>, \<open>A\<close>: requests and acknowledgements
  on the way, those of the frame before first. Either the receiver still waits for the current
  frame, or it has it and all requests on the way are copies of it.
\<close>

definition no_step_back :: "uchar \<Rightarrow> uchar list \<Rightarrow> bool" where
  "no_step_back n xs \<longleftrightarrow> (\<forall>x\<in>set xs. x = n - 1 \<or> x = n) \<and> sorted_wrt (\<lambda>x y. x = n \<longrightarrow> y = n) xs"

definition stop_and_wait ::
    "uchar \<Rightarrow> CArray option \<Rightarrow> uchar \<Rightarrow> (uchar \<times> CArray) list \<Rightarrow> uchar list \<Rightarrow> bool" where
  "stop_and_wait sno cur rno R A \<longleftrightarrow>
     no_step_back sno (map fst R) \<and> no_step_back sno A \<and> (\<forall>r\<in>set R. fst r = sno \<longrightarrow> cur = Some (snd r)) \<and>
     (rno = sno \<and> sno \<notin> set A \<or> rno = sno + 1 \<and> cur \<noteq> None \<and> sno - 1 \<notin> fst ` set R)"

lemma pred_neq [simp]: "n - 1 \<noteq> (n :: uchar)" "n \<noteq> n - 1" "n + 1 \<noteq> n" "n \<noteq> n + 1"
  by (simp_all add: eq_diff_eq diff_eq_eq)

lemma no_step_back_simps [simp]:
  "no_step_back n []"
  "no_step_back n (x # xs) \<longleftrightarrow> (x = n - 1 \<or> x = n \<and> set xs \<subseteq> {n}) \<and> no_step_back n xs"
  by (auto simp: no_step_back_def)

lemma no_step_back_snoc: "no_step_back n (xs @ [x]) \<longleftrightarrow> no_step_back n xs \<and> (x = n \<or> x = n - 1 \<and> n \<notin> set xs)"
  by (auto simp: no_step_back_def sorted_wrt_append)

lemma no_step_back_old: "no_step_back n xs \<Longrightarrow> n - 1 \<notin> set xs \<Longrightarrow> no_step_back (n + 1) xs \<and> n + 1 \<notin> set xs"
  by (induction xs) (auto simp: no_step_back_def)

lemma stop_and_wait_start: "stop_and_wait sno None sno [] []"
  by (simp add: stop_and_wait_def)

text \<open>The sender takes its next frame, or repeats the current one.\<close>

lemma stop_and_wait_send:
  assumes "stop_and_wait sno cur rno R A" and "cur = None \<or> cur = Some c"
  shows "stop_and_wait sno (Some c) rno (R @ [(sno, c)]) A"
  using assms by (auto simp: stop_and_wait_def no_step_back_snoc)

text \<open>The receiver gets a request: the current frame, or one it has.\<close>

lemma stop_and_wait_accept:
  assumes "stop_and_wait sno cur rno ((rno, c) # R) A"
  shows "cur = Some c" and "rno = sno" and "stop_and_wait sno cur (rno + 1) R (A @ [rno])" and "stop_and_wait sno cur (rno + 1) R A"
proof -
  show r: "rno = sno" using assms by (auto simp: stop_and_wait_def)
  show "cur = Some c" using assms r by (auto simp: stop_and_wait_def)
  then show "stop_and_wait sno cur (rno + 1) R (A @ [rno])" "stop_and_wait sno cur (rno + 1) R A"
    using assms r by (auto simp: stop_and_wait_def no_step_back_snoc)
qed

lemma stop_and_wait_again:
  assumes "stop_and_wait sno cur rno ((n, c) # R) A" and "rno = n + 1"
  shows "stop_and_wait sno cur rno R (A @ [n])"
  using assms by (auto simp: stop_and_wait_def no_step_back_snoc)

lemma stop_and_wait_skip:
  assumes "stop_and_wait sno cur rno (r # R) A"
  shows "stop_and_wait sno cur rno R A"
  using assms by (auto simp: stop_and_wait_def)

text \<open>The sender gets an acknowledgement: that of the current frame ends the exchange.\<close>

lemma stop_and_wait_acked:
  assumes "stop_and_wait sno cur rno R (sno # A)"
  shows "stop_and_wait (sno + 1) None rno R A" and "rno = sno + 1" and "cur \<noteq> None"
proof -
  show r: "rno = sno + 1" "cur \<noteq> None" using assms by (auto simp: stop_and_wait_def)
  have "no_step_back sno (map fst R)" "sno - 1 \<notin> set (map fst R)" "no_step_back sno A" "set A \<subseteq> {sno}"
    using assms r by (auto simp: stop_and_wait_def)
  then have "no_step_back (sno + 1) (map fst R) \<and> sno + 1 \<notin> set (map fst R)" "no_step_back (sno + 1) A \<and> sno + 1 \<notin> set A"
    by (auto intro!: no_step_back_old simp del: set_map)
  then show "stop_and_wait (sno + 1) None rno R A" using r by (auto simp: stop_and_wait_def image_iff)
qed

lemma stop_and_wait_old_ack:
  assumes "stop_and_wait sno cur rno R (n # A)"
  shows "stop_and_wait sno cur rno R A"
  using assms by (auto simp: stop_and_wait_def)

text \<open>Losing and repeating.\<close>

lemma lose_at_append: "lose_at (length xs) (xs @ x # ys) = xs @ ys"
  by (simp add: lose_at_def)

lemma lose_at_cases: "lose_at i xs = xs \<or> (\<exists>us x vs. xs = us @ x # vs \<and> lose_at i xs = us @ vs)"
proof (cases "i < length xs")
  case True
  then show ?thesis unfolding lose_at_def using id_take_nth_drop [OF True] by blast
qed (simp add: lose_at_def)

lemma repeat_at_cases: "repeat_at i xs = xs \<or> (\<exists>us x vs. xs = us @ x # vs \<and> repeat_at i xs = us @ x # x # vs)"
proof (cases "i < length xs")
  case True
  then have "repeat_at i xs = take i xs @ xs ! i # xs ! i # drop (Suc i) xs"
    by (simp add: repeat_at_def Cons_nth_drop_Suc)
  then show ?thesis using id_take_nth_drop [OF True] by blast
qed (simp add: repeat_at_def)

lemma no_step_back_append:
  "no_step_back n (xs @ ys) \<longleftrightarrow> no_step_back n xs \<and> no_step_back n ys \<and> (n \<in> set xs \<longrightarrow> n - 1 \<notin> set ys)"
proof -
  have "(\<forall>x\<in>set xs. \<forall>y\<in>set ys. x = n \<longrightarrow> y = n) \<longleftrightarrow> (n \<in> set xs \<longrightarrow> n - 1 \<notin> set ys)"
    if "\<forall>y\<in>set ys. y = n - 1 \<or> y = n"
    using that pred_neq(1) [of n] by metis
  then show ?thesis unfolding no_step_back_def sorted_wrt_append set_append by blast
qed

lemma stop_and_wait_lose:
  "stop_and_wait sno cur rno (us @ r # vs) A \<Longrightarrow> stop_and_wait sno cur rno (us @ vs) A"
  "stop_and_wait sno cur rno R (as @ a # bs) \<Longrightarrow> stop_and_wait sno cur rno R (as @ bs)"
  by (auto simp: stop_and_wait_def no_step_back_append)

lemma stop_and_wait_repeat:
  "stop_and_wait sno cur rno (us @ r # vs) A \<Longrightarrow> stop_and_wait sno cur rno (us @ r # r # vs) A"
  "stop_and_wait sno cur rno R (as @ a # bs) \<Longrightarrow> stop_and_wait sno cur rno R (as @ a # a # bs)"
  by (auto simp: stop_and_wait_def no_step_back_append)

lemma requests_lose:
  "stop_and_wait sno cur rno (requests ch ps) A \<Longrightarrow> stop_and_wait sno cur rno (requests ch (lose_at i ps)) A"
  using lose_at_cases [of i ps] by (auto split: option.splits intro: stop_and_wait_lose)

lemma requests_repeat:
  "stop_and_wait sno cur rno (requests ch ps) A \<Longrightarrow> stop_and_wait sno cur rno (requests ch (repeat_at i ps)) A"
  using repeat_at_cases [of i ps] by (auto split: option.splits intro: stop_and_wait_repeat)

lemma acks_lose:
  "stop_and_wait sno cur rno R (acks ch ps) \<Longrightarrow> stop_and_wait sno cur rno R (acks ch (lose_at i ps))"
  using lose_at_cases [of i ps] by (auto split: option.splits intro: stop_and_wait_lose)

lemma acks_repeat:
  "stop_and_wait sno cur rno R (acks ch ps) \<Longrightarrow> stop_and_wait sno cur rno R (acks ch (repeat_at i ps))"
  using repeat_at_cases [of i ps] by (auto split: option.splits intro: stop_and_wait_repeat)

section \<open>A turn of the client\<close>

text \<open>
  A tunnelling client never sends the two packets that would change the server or the bus behind
  the session's back: a routed frame, and a configuration request, which counts like a frame.
\<close>

definition disturbs :: "EIBNetIPPacket \<Rightarrow> bool" where
  "disturbs p \<longleftrightarrow> service p = ROUTING_INDICATION \<or> service p = DEVICE_CONFIGURATION_REQUEST"

definition quiet :: "(sockaddr_in \<times> EIBNetIPPacket) list \<Rightarrow> bool" where
  "quiet q \<longleftrightarrow> (\<forall>x\<in>set q. service (snd x) \<noteq> TUNNEL_REQUEST \<and> \<not> disturbs (snd x))"

lemma quiet_simps [simp]:
  "quiet []" "quiet (x # q) \<longleftrightarrow> service (snd x) \<noteq> TUNNEL_REQUEST \<and> \<not> disturbs (snd x) \<and> quiet q"
  "quiet (q @ r) \<longleftrightarrow> quiet q \<and> quiet r"
  by (auto simp: quiet_def)

lemma services [simp]:
  "service (EIBnet_ConnectRequest_ToPacket r1) = CONNECTION_REQUEST"
  "service (EIBnet_TunnelACK_ToPacket r2) = TUNNEL_RESPONSE"
  "service (EIBnet_DisconnectRequest_ToPacket r3) = DISCONNECT_REQUEST"
  "service (EIBnet_DisconnectResponse_ToPacket r4) = DISCONNECT_RESPONSE"
  "service (EIBnet_ConnectionStateRequest_ToPacket r5) = CONNECTIONSTATE_REQUEST"
  "service (EIBnet_TunnelRequest_ToPacket r6) = TUNNEL_REQUEST"
  "service (EIBnet_ConnectResponse_ToPacket r7) = CONNECTION_RESPONSE"
  "service (EIBnet_ConnectionStateResponse_ToPacket r8) = CONNECTIONSTATE_RESPONSE"
  "service (EIBnet_ConfigACK_ToPacket r9) = DEVICE_CONFIGURATION_ACK"
  "service (EIBnet_ConfigRequest_ToPacket ra) = DEVICE_CONFIGURATION_REQUEST"
  "service (EIBnet_SearchResponse_ToPacket rb) = SEARCH_RESPONSE"
  "service (EIBnet_DescriptionResponse_ToPacket junk rc) = DESCRIPTION_RESPONSE"
  by (simp_all add: EIBnet_ConnectRequest_ToPacket_def EIBnet_TunnelACK_ToPacket_def EIBnet_DisconnectRequest_ToPacket_def
      EIBnet_DisconnectResponse_ToPacket_def EIBnet_ConnectionStateRequest_ToPacket_def EIBnet_TunnelRequest_ToPacket_def
      EIBnet_ConnectResponse_ToPacket_def EIBnet_ConnectionStateResponse_ToPacket_def EIBnet_ConfigACK_ToPacket_def
      EIBnet_ConfigRequest_ToPacket_def EIBnet_SearchResponse_ToPacket_def EIBnet_DescriptionResponse_ToPacket_def Let_def)

lemma disturbs_sent [simp]:
  "\<not> disturbs (EIBnet_ConnectRequest_ToPacket r1)"
  "\<not> disturbs (EIBnet_TunnelACK_ToPacket r2)"
  "\<not> disturbs (EIBnet_DisconnectRequest_ToPacket r3)"
  "\<not> disturbs (EIBnet_DisconnectResponse_ToPacket r4)"
  "\<not> disturbs (EIBnet_ConnectionStateRequest_ToPacket r5)"
  "\<not> disturbs (EIBnet_TunnelRequest_ToPacket r6)"
  by (simp_all add: disturbs_def)

text \<open>What most of a turn leaves alone.\<close>

definition keeps :: "tunnel \<Rightarrow> tunnel \<Rightarrow> bool" where
  "keeps t t' \<longleftrightarrow>
     tn_sno t' = tn_sno t \<and> tn_inqueue t' = tn_inqueue t \<and> tn_channel t' = tn_channel t \<and> tn_drop t' = tn_drop t \<and>
     (\<exists>q. tn_sent t' = tn_sent t @ q \<and> quiet q)"

lemma keeps_refl [simp]: "keeps t t"
  by (simp add: keeps_def)

lemma keeps_trans: "keeps t t' \<Longrightarrow> keeps t' t'' \<Longrightarrow> keeps t t''"
  by (auto simp: keeps_def)

lemma keeps_ops [simp]:
  "keeps t (tunnel_ack n t)" "keeps t (tunnel_disconnect t)" "keeps t (tunnel_connect t)" "keeps t (tunnel_out l t)"
  by (simp_all add: keeps_def tunnel_ack_def tunnel_Send_def tunnel_disconnect_def tunnel_connect_def tunnel_out_def Let_def disturbs_def)

lemma tunnel_frame_keeps:
  assumes "tunnel_frame c t = Some t'"
  shows "keeps t t' \<and> (tn_mod t' = tn_mod t \<or> tn_mod t = 3 \<and> tn_mod t' = 1)"
  using assms by (auto simp: tunnel_frame_def Let_def keeps_def tunnel_out_def split: if_splits option.splits)

lemma TUNNEL_REQUEST_keeps:
  assumes "tunnel_TUNNEL_REQUEST p t = Some t'" and "tn_mod t' \<noteq> 0"
  shows "keeps t t' \<and> (tn_mod t' = tn_mod t \<or> tn_mod t = 3 \<and> tn_mod t' = 1)"
proof -
  obtain e r where r: "parseEIBnet_TunnelRequest p EIBnet_TunnelRequest_new = (e, r)" by fastforce
  note u = assms(1)[unfolded tunnel_TUNNEL_REQUEST_def r Let_def prod.case]
  show ?thesis
  proof (cases "tn_mod t = 0 \<or> e \<noteq> 0 \<or> uint (tq_channel r) \<noteq> tn_channel t")
    case True
    then have "t' = t" using u by (simp split: if_splits)
    then show ?thesis by simp
  next
    case False
    show ?thesis
    proof (cases "(uint (tq_seqno r) + 1) mod 256 = tn_rno t")
      case True
      then have "t' = (tunnel_ack (tq_seqno r) t)\<lparr>tn_recvall := 0\<rparr>" using u False by simp
      then show ?thesis by (simp add: keeps_def tunnel_ack_def tunnel_Send_def)
    next
      case new: False
      show ?thesis
      proof (cases "uint (tq_seqno r) = tn_rno t")
        case True
        then obtain k where "tunnel_frame (tq_CEMI r) (tunnel_ack (tq_seqno r) (t\<lparr>tn_rno := k\<rparr>)) = Some t'"
          using u False new by (auto split: if_splits)
        from tunnel_frame_keeps [OF this] show ?thesis by (auto simp: keeps_def tunnel_ack_def tunnel_Send_def)
      next
        case wrong: False
        then have "t' = t \<or> tn_mod t' = 0" using u False new by (auto split: if_splits)
        then show ?thesis using assms(2) by auto
      qed
    qed
  qed
qed

text \<open>The one packet that counts is the acknowledgement of the frame in flight.\<close>

definition acked :: "tunnel \<Rightarrow> tunnel \<Rightarrow> bool" where
  "acked t t' \<longleftrightarrow>
     tn_mod t = 2 \<and> tn_sno t' = (tn_sno t + 1) mod 256 \<and> tn_inqueue t' = tl (tn_inqueue t) \<and> tn_inqueue t \<noteq> [] \<and>
     tn_channel t' = tn_channel t \<and> tn_drop t' = 0 \<and> tn_sent t' = tn_sent t \<and> (tn_mod t' = 1 \<or> tn_mod t' = 3)"

lemma TUNNEL_RESPONSE_acked:
  assumes "tunnel_TUNNEL_RESPONSE p t = Some t'" and "tn_channel t = uint ch" and "0 \<le> tn_sno t" "tn_sno t < 256"
  shows "t' = t \<or> ack_of ch p = Some (word_of_int (tn_sno t)) \<and> acked t t'"
proof -
  obtain e r where r: "parseEIBnet_TunnelACK p EIBnet_TunnelACK_new = (e, r)" by fastforce
  note u = assms(1)[unfolded tunnel_TUNNEL_RESPONSE_def r Let_def prod.case]
  show ?thesis
  proof (cases "tn_mod t = 2 \<and> e = 0 \<and> uint (ta_channel r) = tn_channel t \<and> uint (ta_seqno r) = tn_sno t \<and> ta_status r = 0")
    case False
    then have "t' = t" using u by (simp split: if_splits)
    then show ?thesis by simp
  next
    case True
    then have "ta_channel r = ch" "ta_seqno r = word_of_int (tn_sno t)"
      using assms(2) by (metis word_uint_eq_iff, metis word_of_int_uint)
    then have "ack_of ch p = Some (word_of_int (tn_sno t))"
      using r True by (simp add: ack_of_def)
    moreover have "acked t t'"
    proof (cases "tn_inqueue t")
      case Nil
      then show ?thesis using u True by (simp add: tunnel_take_def)
    next
      case (Cons c q)
      have "(if tn_sno t + 1 > 0xff then 0 else tn_sno t + 1) = (tn_sno t + 1) mod 256"
        using assms(3,4) by (cases "tn_sno t = 255") auto
      moreover have "tn_insignal t \<noteq> 0" using u True Cons by (cases "tn_insignal t = 0") (simp_all add: tunnel_take_def)
      ultimately show ?thesis using u True Cons
        by (cases "tn_noqueue t") (auto simp: acked_def tunnel_take_def)
    qed
    ultimately show ?thesis by simp
  qed
qed

lemma packet_stage:
  assumes "tunnel_packet p t = Some t'" and "tn_mod t \<noteq> 0" and "tn_mod t' \<noteq> 0" and "tn_channel t = uint ch"
    and "0 \<le> tn_sno t" "tn_sno t < 256"
  shows "ack_of ch p = Some (word_of_int (tn_sno t)) \<and> acked t t' \<or>
    keeps t t' \<and> (tn_mod t' = tn_mod t \<or> tn_mod t = 3 \<and> tn_mod t' = 1)"
proof -
  have c: "tunnel_CONNECTION_RESPONSE p t = t" using assms(2) by (simp add: tunnel_CONNECTION_RESPONSE_def)
  have s: "tn_mod (tunnel_CONNECTIONSTATE_RESPONSE p t) \<noteq> 0 \<Longrightarrow>
      keeps t (tunnel_CONNECTIONSTATE_RESPONSE p t) \<and> tn_mod (tunnel_CONNECTIONSTATE_RESPONSE p t) = tn_mod t"
    by (cases "parseEIBnet_ConnectionStateResponse p EIBnet_ConnectionStateResponse_new")
      (simp add: tunnel_CONNECTIONSTATE_RESPONSE_def keeps_def tunnel_disconnect_def tunnel_Send_def Let_def split: if_splits)
  have d: "tn_mod (tunnel_DISCONNECT_REQUEST p t) \<noteq> 0 \<Longrightarrow>
      keeps t (tunnel_DISCONNECT_REQUEST p t) \<and> tn_mod (tunnel_DISCONNECT_REQUEST p t) = tn_mod t"
    by (cases "parseEIBnet_DisconnectRequest p (tn_dreq t)") (simp add: tunnel_DISCONNECT_REQUEST_def keeps_def Let_def split: if_splits)
  have e: "tn_mod (tunnel_DISCONNECT_RESPONSE p t) \<noteq> 0 \<Longrightarrow>
      keeps t (tunnel_DISCONNECT_RESPONSE p t) \<and> tn_mod (tunnel_DISCONNECT_RESPONSE p t) = tn_mod t"
    by (cases "parseEIBnet_DisconnectResponse p EIBnet_DisconnectResponse_new") (simp add: tunnel_DISCONNECT_RESPONSE_def keeps_def split: if_splits)
  show ?thesis
    using assms TUNNEL_RESPONSE_acked [of p t t' ch] TUNNEL_REQUEST_keeps [of p t t'] c s d e
    by (auto simp: tunnel_packet_def split: if_splits)
qed

lemma retry_stage:
  assumes "tunnel_retry t = Some t'" and "tn_drop t = 0" and "tn_drop t' = 0"
  shows "keeps t t' \<and> (tn_mod t' = tn_mod t \<or> tn_mod t = 2 \<and> tn_mod t' = 1)"
  using assms
  by (auto simp: tunnel_retry_def tunnel_take_def keeps_def tunnel_disconnect_def tunnel_Send_def Let_def
      split: if_splits list.splits)

lemma timers_stage:
  shows "keeps t (tunnel_timers t) \<and>
    (tn_mod (tunnel_timers t) = 0 \<or> tn_mod (tunnel_timers t) = tn_mod t \<or> tn_mod t = 3 \<and> tn_mod (tunnel_timers t) = 1)"
  by (simp add: tunnel_timers_def tunnel_heartbeat_def tunnel_connectretry_def Let_def keeps_def tunnel_disconnect_def tunnel_Send_def
      tunnel_connect_def)

text \<open>The frame in flight.\<close>

definition in_flight :: "tunnel \<Rightarrow> CArray option" where
  "in_flight t = (if tn_mod t = 2 then Some (hd (tn_inqueue t)) else None)"

definition sender_ok :: "uchar \<Rightarrow> tunnel \<Rightarrow> bool" where
  "sender_ok ch t \<longleftrightarrow>
     tn_channel t = uint ch \<and> 0 \<le> tn_sno t \<and> tn_sno t < 256 \<and> (\<forall>c\<in>set (tn_inqueue t). 2 \<le> length c) \<and>
     (tn_mod t = 2 \<longrightarrow> tn_inqueue t \<noteq> [])"

definition sent_request :: "tunnel \<Rightarrow> sockaddr_in \<times> EIBNetIPPacket" where
  "sent_request t = (tn_daddr t, EIBnet_TunnelRequest_ToPacket
     \<lparr>tq_channel = word_of_int (tn_channel t), tq_seqno = word_of_int (tn_sno t), tq_CEMI = hd (tn_inqueue t)\<rparr>)"

lemma tunnel_reconnect_same: "tn_inqueue t \<noteq> [] \<longrightarrow> hd (tn_inqueue t) \<noteq> [] \<Longrightarrow> tunnel_reconnect t = Some t"
  by (auto simp: tunnel_reconnect_def)

lemma tunnel_take_same: "tunnel_take t = Some t' \<Longrightarrow> tn_mod t' = tn_mod t \<and> tn_drop t' = tn_drop t"
  by (auto simp: tunnel_take_def split: list.splits if_splits)

lemma tunnel_disconnect_same [simp]: "tn_mod (tunnel_disconnect t) = tn_mod t" "tn_drop (tunnel_disconnect t) = tn_drop t"
  by (simp_all add: tunnel_disconnect_def tunnel_Send_def Let_def)

lemma tunnel_reconnect_mod: "tunnel_reconnect t = Some t' \<Longrightarrow> tn_mod t' = tn_mod t \<and> tn_drop t' = tn_drop t"
  using tunnel_take_same [of t] by (auto simp: tunnel_reconnect_def split: if_splits)

lemma tunnel_transmit_mod: "tn_mod (tunnel_transmit t) = 0 \<longleftrightarrow> tn_mod t = 0" "tn_drop (tunnel_transmit t) = tn_drop t"
  by (simp_all add: tunnel_transmit_def tunnel_Send_def)

lemma end_of_turn:
  assumes "map_option tunnel_transmit (tunnel_reconnect (tunnel_timers t2)) = Some t'"
  shows "tn_mod t' = 0 \<longleftrightarrow> tn_mod (tunnel_timers t2) = 0" and "tn_drop t' = tn_drop t2"
  using assms timers_stage [of t2] tunnel_reconnect_mod tunnel_transmit_mod by (auto simp: keeps_def)

text \<open>What a turn of the client may send at its end: nothing that counts, or the head of the queue.\<close>

definition may_transmit :: "tunnel \<Rightarrow> tunnel \<Rightarrow> bool" where
  "may_transmit t t' \<longleftrightarrow>
     tn_sno t' = tn_sno t \<and> tn_inqueue t' = tn_inqueue t \<and> tn_channel t' = tn_channel t \<and>
     (\<exists>q. quiet q \<and>
       (tn_sent t' = tn_sent t @ q \<and> in_flight t' = in_flight t \<or>
        (\<exists>d. tn_sent t' = tn_sent t @ q @ [(d, snd (sent_request t))] \<and> tn_inqueue t \<noteq> [] \<and>
             in_flight t' = Some (hd (tn_inqueue t)) \<and> in_flight t \<in> {None, Some (hd (tn_inqueue t))})))"

lemma may_transmit_keeps:
  assumes "keeps t t1" and "in_flight t1 = in_flight t" and "may_transmit t1 t'"
  shows "may_transmit t t'"
proof -
  obtain q1 where q1: "tn_sent t1 = tn_sent t @ q1" "quiet q1" using assms(1) by (auto simp: keeps_def)
  have same: "tn_sno t1 = tn_sno t" "tn_inqueue t1 = tn_inqueue t" "tn_channel t1 = tn_channel t"
    using assms(1) by (simp_all add: keeps_def)
  then have s: "snd (sent_request t1) = snd (sent_request t)" by (simp add: sent_request_def)
  obtain q where q: "quiet q" "tn_sent t' = tn_sent t1 @ q \<and> in_flight t' = in_flight t1 \<or>
      (\<exists>d. tn_sent t' = tn_sent t1 @ q @ [(d, snd (sent_request t1))] \<and> tn_inqueue t1 \<noteq> [] \<and>
             in_flight t' = Some (hd (tn_inqueue t1)) \<and> in_flight t1 \<in> {None, Some (hd (tn_inqueue t1))})"
    and m: "tn_sno t' = tn_sno t1" "tn_inqueue t' = tn_inqueue t1" "tn_channel t' = tn_channel t1"
    using assms(3) unfolding may_transmit_def by blast
  have "quiet (q1 @ q)" using q(1) q1(2) by simp
  then show ?thesis
    unfolding may_transmit_def using q(2) m same q1(1) s assms(2) append_assoc by metis
qed

lemma transmit_stage: "tn_mod t \<noteq> 0 \<Longrightarrow> may_transmit t (tunnel_transmit t)"
proof (cases "tn_inqueue t \<noteq> [] \<and> tn_mod t = 1")
  case True
  then show ?thesis
    by (simp add: may_transmit_def tunnel_transmit_def tunnel_Send_def sent_request_def in_flight_def)
next
  case False
  then have "tunnel_transmit t = t" by (auto simp: tunnel_transmit_def)
  then show ?thesis by (auto simp: may_transmit_def intro: exI [of _ "[]"])
qed

lemma transmit_after_retry: "tn_mod t = 2 \<Longrightarrow> tn_inqueue t \<noteq> [] \<Longrightarrow> keeps t t1 \<Longrightarrow> tn_mod t1 = 1 \<Longrightarrow> may_transmit t (tunnel_transmit t1)"
proof -
  assume t: "tn_mod t = 2" "tn_inqueue t \<noteq> []" "keeps t t1" "tn_mod t1 = 1"
  obtain q1 where q1: "tn_sent t1 = tn_sent t @ q1" "quiet q1" using t(3) by (auto simp: keeps_def)
  have same: "tn_sno t1 = tn_sno t" "tn_inqueue t1 = tn_inqueue t" "tn_channel t1 = tn_channel t"
    using t(3) by (simp_all add: keeps_def)
  have "tunnel_transmit t1 = (tunnel_Send (tn_daddr t1) (snd (sent_request t)) t1)\<lparr>tn_mod := 2, tn_timeout := False\<rparr>"
    using t same by (simp add: tunnel_transmit_def sent_request_def)
  then show ?thesis
    using t same q1 by (simp add: may_transmit_def tunnel_Send_def in_flight_def) (rule exI [of _ q1], simp)
qed

text \<open>After the packet, a turn of the client keeps its state and may send the head of the queue.\<close>

lemma client_rest:
  assumes ok: "sender_ok ch t" and drop: "tn_drop t = 0" "tn_drop t' = 0" and mod: "tn_mod t' \<noteq> 0"
    and t2: "tunnel_retry t = Some t2"
    and t': "map_option tunnel_transmit (tunnel_reconnect (tunnel_timers t2)) = Some t'"
  shows "may_transmit t t'"
proof -
  let ?t3 = "tunnel_timers t2"
  have d2: "tn_drop t2 = 0" and m3: "tn_mod ?t3 \<noteq> 0" using end_of_turn [OF t'] drop mod by simp_all
  have k2: "keeps t t2" "tn_mod t2 = tn_mod t \<or> tn_mod t = 2 \<and> tn_mod t2 = 1"
    using retry_stage [OF t2 drop(1) d2] by auto
  have k3: "keeps t ?t3" "tn_mod ?t3 = tn_mod t2 \<or> tn_mod t2 = 3 \<and> tn_mod ?t3 = 1"
    using timers_stage [of t2] keeps_trans [OF k2(1)] m3 by auto
  have same: "tn_inqueue ?t3 = tn_inqueue t" using k3(1) by (simp add: keeps_def)
  have "tn_inqueue ?t3 \<noteq> [] \<longrightarrow> hd (tn_inqueue ?t3) \<noteq> []"
    using ok same by (cases "tn_inqueue t") (auto simp: sender_ok_def)
  from tunnel_reconnect_same [OF this] have t'': "t' = tunnel_transmit ?t3" using t' by simp
  show ?thesis
  proof (cases "tn_mod t = 2 \<and> tn_mod t2 = 1")
    case True
    then have "tn_mod ?t3 = 1" using k3(2) by auto
    then show ?thesis using True transmit_after_retry [OF _ _ k3(1)] ok t'' by (simp add: sender_ok_def)
  next
    case False
    then have "tn_mod t2 = tn_mod t" using k2(2) by blast
    then have "in_flight ?t3 = in_flight t" using k3(2) same by (auto simp: in_flight_def)
    then show ?thesis using may_transmit_keeps [OF k3(1)] transmit_stage [OF m3] t'' by simp
  qed
qed

lemma keeps_ok: "keeps t t1 \<Longrightarrow> sender_ok ch t \<Longrightarrow> tn_mod t1 = tn_mod t \<or> tn_mod t1 \<noteq> 2 \<Longrightarrow> sender_ok ch t1"
  by (auto simp: keeps_def sender_ok_def)

lemma acked_ok:
  assumes "acked t t1" and "sender_ok ch t"
  shows "sender_ok ch t1"
proof -
  have "set (tn_inqueue t1) \<subseteq> set (tn_inqueue t)" using assms(1) by (cases "tn_inqueue t") (auto simp: acked_def)
  then show ?thesis using assms by (auto simp: acked_def sender_ok_def)
qed

text \<open>A turn: the acknowledgement of the frame in flight, or nothing; then perhaps a request.\<close>

lemma client_turn:
  assumes turn: "tunnel_turn p1 el el1 t = Some t'" and ok: "sender_ok ch t"
    and alive: "tn_mod t \<noteq> 0" "tn_drop t = 0" "tn_mod t' \<noteq> 0" "tn_drop t' = 0"
  shows "may_transmit t t' \<or>
    (\<exists>p t1. p1 = Some p \<and> ack_of ch p = Some (word_of_int (tn_sno t)) \<and> acked t t1 \<and> sender_ok ch t1 \<and> may_transmit t1 t')"
proof -
  let ?t0 = "t\<lparr>tn_timeout := tn_timeout t \<or> el, tn_timeout1 := tn_timeout1 t \<or> el1\<rparr>"
  obtain t1 t2 where t1: "(case p1 of None \<Rightarrow> Some ?t0 | Some p \<Rightarrow> tunnel_packet p ?t0) = Some t1"
    and t2: "tunnel_retry t1 = Some t2" and t3: "map_option tunnel_transmit (tunnel_reconnect (tunnel_timers t2)) = Some t'"
    using turn by (auto simp: tunnel_turn_def Let_def split: option.splits)
  have ok0: "sender_ok ch ?t0" using ok by (simp add: sender_ok_def)
  have k0: "keeps t ?t0" "in_flight ?t0 = in_flight t" by (simp_all add: keeps_def in_flight_def)
  have m1: "tn_mod t1 \<noteq> 0"
  proof
    assume "tn_mod t1 = 0"
    then have "t2 = t1" using t2 by (simp add: tunnel_retry_def)
    then have "tn_mod (tunnel_timers t2) = 0" using \<open>tn_mod t1 = 0\<close> timers_stage [of t2] by auto
    then show False using end_of_turn(1) [OF t3] alive by simp
  qed
  have "(\<exists>p. p1 = Some p \<and> ack_of ch p = Some (word_of_int (tn_sno ?t0)) \<and> acked ?t0 t1) \<or>
      keeps ?t0 t1 \<and> (tn_mod t1 = tn_mod ?t0 \<or> tn_mod ?t0 = 3 \<and> tn_mod t1 = 1)"
  proof (cases p1)
    case None
    then show ?thesis using t1 by simp
  next
    case (Some p)
    then have "tunnel_packet p ?t0 = Some t1" using t1 by simp
    from packet_stage [OF this, of ch] show ?thesis using Some m1 alive ok0 by (simp add: sender_ok_def)
  qed
  then show ?thesis
  proof
    assume "\<exists>p. p1 = Some p \<and> ack_of ch p = Some (word_of_int (tn_sno ?t0)) \<and> acked ?t0 t1"
    then obtain p where p: "p1 = Some p" "ack_of ch p = Some (word_of_int (tn_sno ?t0))" "acked ?t0 t1" by blast
    have "acked t t1" using p(3) by (simp add: acked_def)
    moreover have "tn_drop t1 = 0" using p(3) by (simp add: acked_def)
    moreover have "sender_ok ch t1" using acked_ok [OF p(3) ok0] .
    ultimately show ?thesis using p client_rest [OF _ _ alive(4,3) t2 t3, of ch] by auto
  next
    assume k: "keeps ?t0 t1 \<and> (tn_mod t1 = tn_mod ?t0 \<or> tn_mod ?t0 = 3 \<and> tn_mod t1 = 1)"
    then have m: "tn_mod t1 = tn_mod ?t0 \<or> tn_mod t1 \<noteq> 2" by auto
    have d1: "tn_drop t1 = 0" using k alive by (simp add: keeps_def)
    have i: "in_flight t1 = in_flight ?t0" using k by (auto simp: in_flight_def keeps_def)
    have "may_transmit t1 t'" using client_rest [OF keeps_ok [OF _ ok0 m] d1 alive(4,3) t2 t3] k by blast
    then show ?thesis using may_transmit_keeps k i k0 by metis
  qed
qed

end
