(* ===== verification/Session.thy ===== *)
theory Session
  imports TunnelNet
begin

text \<open>
  The server's side of a tunnelling session, and the invariant of the whole session: what has
  gone to the bus is what the client has been given, frame by frame and in order.
\<close>

section \<open>What a turn of the server leaves alone\<close>

text \<open>The part of the server that counts for a session: connections, the calls of the bus driver.\<close>

definition conn_view :: "ConnState \<Rightarrow> uchar \<times> int \<times> sockaddr_in \<times> uchar" where
  "conn_view k = (cn_channel k, cn_type k, cn_daddr k, cn_rno k)"

definition server_view :: "eibnet_server \<Rightarrow> (uchar \<times> int \<times> sockaddr_in \<times> uchar) list \<times> l2call list \<times> bool" where
  "server_view s = (map conn_view (es_state s), l3_calls (es_l3 s), es_tunnel s)"

definition silent :: "(sockaddr_in \<times> EIBNetIPPacket) list \<Rightarrow> bool" where
  "silent q \<longleftrightarrow> (\<forall>x\<in>set q. service (snd x) \<noteq> TUNNEL_RESPONSE)"

lemma silent_simps [simp]:
  "silent []" "silent (x # q) \<longleftrightarrow> service (snd x) \<noteq> TUNNEL_RESPONSE \<and> silent q" "silent (q @ r) \<longleftrightarrow> silent q \<and> silent r"
  by (auto simp: silent_def)

definition unheard :: "eibnet_server \<Rightarrow> eibnet_server \<Rightarrow> bool" where
  "unheard s s' \<longleftrightarrow> server_view s' = server_view s \<and> (\<exists>q. es_sent s' = es_sent s @ q \<and> silent q)"

lemma unheard_refl [simp]: "unheard s s"
  by (simp add: unheard_def)

lemma unheard_Send: "service p \<noteq> TUNNEL_RESPONSE \<Longrightarrow> unheard s (server_Send to p s)"
  by (simp add: unheard_def server_Send_def server_view_def)

lemma view_one:
  assumes "server_view s = ([(ch, ty, cl, rno)], calls, tn)"
  obtains k where "es_state s = [k]" "cn_channel k = ch" "cn_type k = ty" "cn_daddr k = cl" "cn_rno k = rno"
    "l3_calls (es_l3 s) = calls" "es_tunnel s = tn"
proof -
  from assms have v: "map conn_view (es_state s) = [(ch, ty, cl, rno)]" "l3_calls (es_l3 s) = calls" "es_tunnel s = tn"
    by (simp_all add: server_view_def)
  from v(1) obtain k where k: "es_state s = [k]" "conn_view k = (ch, ty, cl, rno)" by (cases "es_state s") auto
  then show thesis using that [OF k(1)] v by (simp add: conn_view_def)
qed

section \<open>The packets\<close>

text \<open>What the server hands to the bus for the frame of a request, and for a frame of the client.\<close>

definition bus_calls :: "eibaddr_t \<Rightarrow> CArray \<Rightarrow> l2call list" where
  "bus_calls a c =
     (case CEMI_to_L_Data c of
        None \<Rightarrow> []
      | Some l \<Rightarrow>
          if hopcount l \<noteq> 0 \<and> (c ! 0 = 0x11 \<or> c ! 0 = 0x29) then
            [L2_Send_L_Data (if source l = 0 then l\<lparr>hopcount := hopcount l - 1, source := a\<rparr> else l\<lparr>hopcount := hopcount l - 1\<rparr>)]
          else [])"

definition bus_image :: "eibaddr_t \<Rightarrow> l_data \<Rightarrow> l2call list" where
  "bus_image a l =
     (if hopcount l = 0 then []
      else [L2_Send_L_Data ((frame_read_back l)\<lparr>repeated := False, hopcount := hopcount l - 1,
              source := (if source l = 0 then a else source l)\<rparr>)])"

lemma bus_calls_image: "L_Data_ToCEMI 0x11 l = Some c \<Longrightarrow> bus_calls a c = bus_image a l"
proof -
  assume c: "L_Data_ToCEMI 0x11 l = Some c"
  then have "c ! 0 = 0x11" unfolding L_Data_ToCEMI_def by (auto split: if_splits)
  then show ?thesis using CEMI_round_trip_eq [OF c]
    by (auto simp: bus_calls_def bus_image_def frame_read_back_def)
qed

text \<open>The three things a request can do: nothing, an acknowledgement again, a new frame.\<close>

definition request_step :: "eibaddr_t \<Rightarrow> uchar \<times> CArray \<Rightarrow> uchar \<Rightarrow> sockaddr_in \<Rightarrow> uchar \<Rightarrow> l2call list \<Rightarrow> eibnet_server \<Rightarrow> eibnet_server \<Rightarrow> bool" where
  "request_step a r ch cl rno calls s s' \<longleftrightarrow>
     (\<exists>st q. silent q \<and>
        es_sent s' = es_sent s @ (cl, EIBnet_TunnelACK_ToPacket \<lparr>ta_channel = ch, ta_seqno = fst r, ta_status = st\<rparr>) # q \<and>
        (rno = fst r + 1 \<and> server_view s' = server_view s \<or>
         rno = fst r \<and> server_view s' = ([(ch, 0, cl, rno + 1)], calls @ bus_calls a (snd r), True)))"

lemma tunnel_accept_view:
  assumes "tunnel_accept c k = Some (st, k', f)" and "cn_type k = 0"
  shows "conn_view k' = conn_view k"
    and "(case f of None \<Rightarrow> [] | Some l \<Rightarrow> [L2_Send_L_Data (if source l = 0 then l\<lparr>source := a\<rparr> else l)]) = bus_calls a c"
  using assms
  by (auto simp: tunnel_accept_def bus_calls_def conn_view_def conn_put_def Let_def split: option.splits if_splits)

lemma server_TUNNEL_REQUEST_step:
  assumes run: "server_TUNNEL_REQUEST a p s = Some s'" and v: "server_view s = ([(ch, 0, cl, rno)], calls, True)"
  shows "unheard s s' \<or> (\<exists>r. request_of ch p = Some r \<and> request_step a r ch cl rno calls s s')"
proof -
  obtain k where k: "es_state s = [k]" "cn_channel k = ch" "cn_type k = 0" "cn_daddr k = cl" "cn_rno k = rno"
    "l3_calls (es_l3 s) = calls" "es_tunnel s = True" using v by (rule view_one)
  obtain e r where r: "parseEIBnet_TunnelRequest p EIBnet_TunnelRequest_new = (e, r)" by fastforce
  note u = run[unfolded server_TUNNEL_REQUEST_def r Let_def prod.case]
  show ?thesis
  proof (cases "e = 0 \<and> tq_channel r = ch \<and> compareIPAddress (psrc p) cl")
    case False
    then have "s' = s" using u k by (auto split: if_splits)
    then show ?thesis by simp
  next
    case True
    then have q: "request_of ch p = Some (tq_seqno r, tq_CEMI r)" using r by (simp add: request_of_def)
    have idx: "conn_index (tq_channel r) s = Some 0" using True k by simp
    show ?thesis
    proof (cases "rno = tq_seqno r + 1")
      case again: True
      then have "s' = server_ack cl ch (tq_seqno r) 0 s" using u k True idx by simp
      then show ?thesis using q again
        by (auto simp: request_step_def server_ack_def server_Send_def server_view_def)
    next
      case new: False
      show ?thesis
      proof (cases "rno = tq_seqno r")
        case False
        then have "s' = s" using u k True idx new by simp
        then show ?thesis by simp
      next
        case cur: True
        then obtain st k' f where acc: "tunnel_accept (tq_CEMI r) k = Some (st, k', f)"
          using u k True idx new by (auto split: option.splits)
        have s': "s' = server_ack cl ch (tq_seqno r) st (set_conn 0 (k'\<lparr>cn_rno := rno + 1\<rparr>)
            (case f of None \<Rightarrow> s | Some c \<Rightarrow> s\<lparr>es_l3 := Layer3_send_L_Data a c (es_l3 s)\<rparr>))"
          using u k True idx new cur acc by simp
        have "conn_view (k'\<lparr>cn_rno := rno + 1\<rparr>) = (ch, 0, cl, rno + 1)"
          using tunnel_accept_view(1) [OF acc k(3)] k by (simp add: conn_view_def)
        then have "server_view s' = ([(ch, 0, cl, rno + 1)], calls @ bus_calls a (tq_CEMI r), True)"
          using tunnel_accept_view(2) [OF acc k(3), of a, symmetric] k
          by (cases f) (simp_all add: s' server_view_def server_ack_def server_Send_def set_conn_def Layer3_send_L_Data_def Layer3_call_def)
        moreover have "es_sent s' = es_sent s @ [(cl, EIBnet_TunnelACK_ToPacket \<lparr>ta_channel = ch, ta_seqno = tq_seqno r, ta_status = st\<rparr>)]"
          by (cases f) (simp_all add: s' server_ack_def server_Send_def set_conn_def)
        ultimately have "request_step a (tq_seqno r, tq_CEMI r) ch cl rno calls s s'"
          unfolding request_step_def fst_conv snd_conv using cur silent_simps(1) by blast
        then show ?thesis using q by simp
      qed
    qed
  qed
qed

lemma conn_acked_view: "conn_acked n st src T k = Some k' \<Longrightarrow> conn_view k' = conn_view k"
  by (auto simp: conn_acked_def conn_take_def conn_view_def split: if_splits list.splits)

lemma set_conn_unheard:
  assumes "es_state s = [k]" and "conn_view k' = conn_view k"
  shows "unheard s (set_conn 0 k' s)"
  using assms by (simp add: unheard_def server_view_def set_conn_def)

lemma answer_unheard:
  assumes one: "es_state s = [k]" and "first_idx P (es_state s) = Some i"
    and "map_option (\<lambda>k. set_conn i k s) (conn_acked n st src T (es_state s ! i)) = Some s'"
  shows "unheard s s'"
proof -
  have i: "i = 0" using one assms(2) by (simp split: if_splits)
  then obtain k' where k': "conn_acked n st src T k = Some k'" "s' = set_conn 0 k' s" using assms(3) one by auto
  then show ?thesis using set_conn_unheard [OF one conn_acked_view [OF k'(1)]] by simp
qed

lemma server_TUNNEL_RESPONSE_unheard:
  assumes "es_state s = [k]" and "server_TUNNEL_RESPONSE p s = Some s'"
  shows "unheard s s'"
proof (cases "parseEIBnet_TunnelACK p EIBnet_TunnelACK_new")
  case (Pair e r)
  note u = assms(2)[unfolded server_TUNNEL_RESPONSE_def Pair Let_def prod.case]
  show ?thesis
  proof (cases "e \<noteq> 0 \<or> conn_index (ta_channel r) s = None")
    case True
    then show ?thesis using u by (auto split: if_splits)
  next
    case False
    then obtain i where i: "conn_index (ta_channel r) s = Some i" "e = 0" by auto
    show ?thesis using answer_unheard [OF assms(1) i(1)] u i by simp
  qed
qed

lemma server_CONFIG_ACK_unheard:
  assumes "es_state s = [k]" and "server_CONFIG_ACK p s = Some s'"
  shows "unheard s s'"
proof (cases "parseEIBnet_ConfigACK p EIBnet_ConfigACK_new")
  case (Pair e r)
  note u = assms(2)[unfolded server_CONFIG_ACK_def Pair Let_def prod.case]
  show ?thesis
  proof (cases "e \<noteq> 0 \<or> conn_index (gk_channel r) s = None")
    case True
    then show ?thesis using u by (auto split: if_splits)
  next
    case False
    then obtain i where i: "conn_index (gk_channel r) s = Some i" "e = 0" by auto
    show ?thesis using answer_unheard [OF assms(1) i(1)] u i by simp
  qed
qed

lemma server_SEARCH_REQUEST_unheard: "unheard s (server_SEARCH_REQUEST gsa jn p s)"
  by (cases "parseEIBnet_SearchRequest p EIBnet_SearchRequest_new")
    (auto simp: server_SEARCH_REQUEST_def split: option.split intro: unheard_Send)

lemma server_DESCRIPTION_REQUEST_unheard: "unheard s (server_DESCRIPTION_REQUEST junk p s)"
  by (cases "parseEIBnet_DescriptionRequest p EIBnet_DescriptionRequest_new")
    (auto simp: server_DESCRIPTION_REQUEST_def intro: unheard_Send)

lemma server_CONNECTIONSTATE_REQUEST_unheard: "unheard s (server_CONNECTIONSTATE_REQUEST p s)"
  by (cases "parseEIBnet_ConnectionStateRequest p EIBnet_ConnectionStateRequest_new")
    (auto simp: server_CONNECTIONSTATE_REQUEST_def unheard_def server_view_def server_Send_def conn_view_def)

text \<open>The end of the only connection, and a second one, end the session.\<close>

definition doomed :: "uchar \<Rightarrow> ConnState list \<Rightarrow> bool" where
  "doomed ch ks \<longleftrightarrow> ks = [] \<or> (\<exists>k k'. ks = [k, k'] \<and> cn_channel k' \<noteq> ch \<and> \<not> cn_timeout k')"

lemma server_DISCONNECT_REQUEST_ends:
  assumes "es_state s = [k]"
  shows "unheard s (server_DISCONNECT_REQUEST me p s) \<or> es_state (server_DISCONNECT_REQUEST me p s) = []"
  using assms
  by (cases "parseEIBnet_DisconnectRequest p EIBnet_DisconnectRequest_new")
    (auto simp: server_DISCONNECT_REQUEST_def server_Send_def unheard_def server_view_def delete_conn_def delBusmonitor_def Let_def)

lemma free_channel_free: "k \<in> set ks \<Longrightarrow> unat (cn_channel k) \<noteq> free_channel ks n"
proof (induction ks n rule: free_channel.induct)
  case (1 ks n)
  show ?case
  proof (cases "\<exists>k\<in>set ks. unat (cn_channel k) = n")
    case True
    then show ?thesis using 1 by (subst free_channel.simps) simp
  next
    case False
    then show ?thesis using "1.prems" by (subst free_channel.simps) auto
  qed
qed

lemma addClient_state:
  "addClient ty r s = (n, s') \<Longrightarrow> n \<le> 0xff \<Longrightarrow>
   n = free_channel (es_state s) 1 \<and> (\<exists>k. es_state s' = es_state s @ [k] \<and> cn_channel k = of_nat n \<and> \<not> cn_timeout k)"
  "addClient ty r s = (n, s') \<Longrightarrow> \<not> n \<le> 0xff \<Longrightarrow> s' = s"
  by (auto simp: addClient_def Let_def split: if_splits)

lemma addBusmonitor_state [simp]: "es_state (addBusmonitor me ok s) = es_state s"
  by (simp add: addBusmonitor_def)

lemma server_CONNECTION_REQUEST_ends:
  assumes one: "es_state s = [k]" "cn_channel k = ch"
  shows "unheard s (server_CONNECTION_REQUEST gsa me ok p s) \<or> doomed ch (es_state (server_CONNECTION_REQUEST gsa me ok p s))"
proof -
  have other: "n \<le> 0xff \<Longrightarrow> of_nat n \<noteq> ch" if "n = free_channel (es_state s) 1" for n
    using free_channel_free [of k "es_state s" 1] one that by (auto simp: of_nat_inverse)
  have add: "n \<le> 0xff \<Longrightarrow> doomed ch (es_state s')" "\<not> n \<le> 0xff \<Longrightarrow> s' = s" if "addClient ty r s = (n, s')" for ty r n s'
    using addClient_state [OF that] other one by (auto simp: doomed_def)
  obtain e r where r: "parseEIBnet_ConnectRequest p EIBnet_ConnectRequest_new = (e, r)" by fastforce
  obtain n0 s0 where n0: "addClient (if cq_CRI r ! 1 = 0x80 then 1 else 0) r s = (n0, s0)" by fastforce
  obtain n2 s2 where n2: "addClient 2 r s = (n2, s2)" by fastforce
  show ?thesis
    using add [OF n0] add [OF n2] n0 n2
    by (auto simp: server_CONNECTION_REQUEST_def r Let_def server_Send_def unheard_def server_view_def
        split: option.split prod.split if_splits)
qed

section \<open>A turn of the server\<close>

lemma server_packet_step:
  assumes run: "server_packet gsa junk jn me ok a p s = Some s'" and v: "server_view s = ([(ch, 0, cl, rno)], calls, True)"
    and nice: "\<not> disturbs p"
  shows "unheard s s' \<or> doomed ch (es_state s') \<or> (\<exists>r. request_of ch p = Some r \<and> request_step a r ch cl rno calls s s')"
proof -
  obtain k where k: "es_state s = [k]" "cn_channel k = ch" using v by (rule view_one)
  note u = run[unfolded server_packet_def]
  show ?thesis
  proof (cases "service p = TUNNEL_REQUEST \<and> es_tunnel s")
    case True
    then have "server_TUNNEL_REQUEST a p s = Some s'" using u by simp
    from server_TUNNEL_REQUEST_step [OF this v] show ?thesis by blast
  next
    case False
    have d: "es_state (server_DISCONNECT_REQUEST me p s) = [] \<Longrightarrow> doomed ch (es_state (server_DISCONNECT_REQUEST me p s))"
      by (simp add: doomed_def)
    from False u nice have "unheard s s' \<or> doomed ch (es_state s')"
      unfolding disturbs_def
      using server_SEARCH_REQUEST_unheard [of s gsa jn p] server_DESCRIPTION_REQUEST_unheard [of s junk p]
        server_CONNECTIONSTATE_REQUEST_unheard [of s p] server_DISCONNECT_REQUEST_ends [OF k(1), of me p] d
        server_CONNECTION_REQUEST_ends [OF k, of gsa me ok p] server_TUNNEL_RESPONSE_unheard [OF k(1), of p s']
        server_CONFIG_ACK_unheard [OF k(1), of p s']
      by (simp split: if_splits; blast?)
    then show ?thesis by blast
  qed
qed

lemma conn_transmit_view: "conn_transmit k = Some (p, k') \<Longrightarrow> conn_view k' = conn_view k \<and> (p = None \<or> (\<exists>x. p = Some x \<and> service x \<noteq> TUNNEL_RESPONSE))"
  by (auto simp: conn_transmit_def conn_take_def conn_view_def Let_def
      split: if_splits list.splits)

lemma server_transmit_view:
  "server_transmit ks = Some (ks', ps) \<Longrightarrow> map conn_view ks' = map conn_view ks \<and> silent ps"
proof (induction ks arbitrary: ks' ps)
  case (Cons k ks)
  then obtain p k' ks2 ps2 where c: "conn_transmit k = Some (p, k')" "server_transmit ks = Some (ks2, ps2)"
    "ks' = k' # ks2" "ps = (case p of None \<Rightarrow> [] | Some p \<Rightarrow> [(cn_daddr k, p)]) @ ps2"
    by (auto split: option.splits prod.splits)
  from conn_transmit_view [OF c(1)] Cons.IH [OF c(2)] show ?case by (auto simp: c(3,4))
qed simp

lemma timeouts_doomed:
  assumes "doomed ch (es_state s)"
  shows "map cn_channel (es_state (server_timeouts me s)) \<noteq> [ch]"
proof (cases "es_state s")
  case Nil
  then show ?thesis by (simp add: server_timeouts_def)
next
  case (Cons k ks)
  then obtain k' where k': "es_state s = [k, k']" "cn_channel k' \<noteq> ch" "\<not> cn_timeout k'" using assms by (auto simp: doomed_def)
  show ?thesis
    using k' by (cases "cn_timeout k") (auto simp: server_timeouts_def delete_conn_def delBusmonitor_def Let_def)
qed

lemma timeouts_one: "map conn_view (es_state s) = [v] \<Longrightarrow> es_state (server_timeouts me s) = [] \<or> server_timeouts me s = s"
  by (cases "es_state s") (auto simp: server_timeouts_def delete_conn_def delBusmonitor_def Let_def)

lemma unheard_trans: "unheard s s1 \<Longrightarrow> unheard s1 s2 \<Longrightarrow> unheard s s2"
  by (auto simp: unheard_def)

lemma request_step_then: "request_step a r ch cl rno calls s s1 \<Longrightarrow> unheard s1 s2 \<Longrightarrow> request_step a r ch cl rno calls s s2"
  by (auto simp: request_step_def unheard_def)

lemma request_step_before:
  "server_view s1 = server_view s \<Longrightarrow> es_sent s1 = es_sent s \<Longrightarrow> request_step a r ch cl rno calls s1 s2 \<Longrightarrow>
   request_step a r ch cl rno calls s s2"
  by (auto simp: request_step_def)

lemma view_length: "server_view s = ([v], calls, tn) \<Longrightarrow> map conn_view (es_state s) = [v]"
  by (simp add: server_view_def)

lemma server_turn_step:
  assumes run: "server_turn gsa junk jn me ok a p1 (\<lambda>i. (el, el1)) nel s = Some s'"
    and v: "server_view s = ([(ch, 0, cl, rno)], calls, True)" and nice: "\<forall>p. p1 = Some p \<longrightarrow> \<not> disturbs p"
    and alive: "map cn_channel (es_state s') = [ch]"
  shows "unheard s s' \<or> (\<exists>p r. p1 = Some p \<and> request_of ch p = Some r \<and> request_step a r ch cl rno calls s s')"
proof -
  obtain k where k: "es_state s = [k]" using v by (rule view_one)
  define s0 where "s0 = s\<lparr>es_state := map (\<lambda>(i, k). k\<lparr>cn_timeout := cn_timeout k \<or> el,
      cn_sendtimeout := cn_sendtimeout k \<or> el1\<rparr>) (List.enumerate 0 (es_state s)),
    es_natstate := nat_expire 0 (map (\<lambda>(i, n). n\<lparr>na_timeout := na_timeout n \<or> nel i\<rparr>) (List.enumerate 0 (es_natstate s)))\<rparr>"
  have v0: "server_view s0 = server_view s" "es_sent s0 = es_sent s" by (simp_all add: s0_def server_view_def k conn_view_def)
  obtain s1 ks ps where s1: "(case p1 of None \<Rightarrow> Some s0 | Some p \<Rightarrow> server_packet gsa junk jn me ok a p s0) = Some s1"
    and t: "server_transmit (es_state (server_timeouts me s1)) = Some (ks, ps)"
    and s': "s' = (server_timeouts me s1)\<lparr>es_state := ks, es_sent := es_sent (server_timeouts me s1) @ ps\<rparr>"
    using run by (auto simp: server_turn_def Let_def s0_def split: option.splits)
  note tv = server_transmit_view [OF t]
  have "map cn_channel ks = map cn_channel (es_state (server_timeouts me s1))"
    using arg_cong [OF conjunct1 [OF tv], of "map fst"] by (simp add: conn_view_def comp_def)
  then have alive1: "map cn_channel (es_state (server_timeouts me s1)) = [ch]" using alive s' by simp
  have last: "unheard s1 s'" if "map conn_view (es_state s1) = [w]" for w
    using timeouts_one [OF that, of me] alive1 tv by (auto simp: s' unheard_def server_view_def)
  show ?thesis
  proof (cases p1)
    case None
    then have "s1 = s0" using s1 by simp
    then have "unheard s0 s'" using last view_length v v0 by simp
    then show ?thesis using v0 by (simp add: unheard_def)
  next
    case (Some p)
    then have "server_packet gsa junk jn me ok a p s0 = Some s1" "\<not> disturbs p" using s1 nice by simp_all
    then consider "unheard s0 s1" | r where "request_of ch p = Some r" "request_step a r ch cl rno calls s0 s1"
      using server_packet_step v v0 timeouts_doomed alive1 by metis
    then show ?thesis
    proof cases
      case 1
      then have "unheard s0 s'" using unheard_trans last view_length v v0 by (simp add: unheard_def)
      then show ?thesis using v0 by (simp add: unheard_def)
    next
      case 2
      then have "map conn_view (es_state s1) = [(ch, 0, cl, rno)] \<or> map conn_view (es_state s1) = [(ch, 0, cl, rno + 1)]"
        using v v0 by (auto simp: request_step_def server_view_def)
      then have "unheard s1 s'" by (elim disjE) (erule last)+
      then have "request_step a r ch cl rno calls s0 s'" by (rule request_step_then [OF 2(2)])
      then show ?thesis using request_step_before v0 2(1) Some by metis
    qed
  qed
qed

lemma route_frames_unheard: "route_frames ls s = Some s' \<Longrightarrow> unheard s s' \<and> es_state s' = es_state s"
proof (induction ls arbitrary: s)
  case (Cons l ls)
  then obtain c where "route_frames ls (server_Send (es_maddr s) (packet_of ROUTING_INDICATION c) s) = Some s'"
    by (auto split: option.splits)
  note i = Cons.IH [OF this]
  have "unheard s (server_Send (es_maddr s) (packet_of ROUTING_INDICATION c) s)"
    by (rule unheard_Send) (simp add: packet_of_def)
  with i show ?case using unheard_trans by (auto simp: server_Send_def)
qed simp

lemma server_Get_L_Data_unheard: "server_Get_L_Data own l s = Some s' \<Longrightarrow> unheard s s'"
proof -
  assume run: "server_Get_L_Data own l s = Some s'"
  let ?l = "l\<lparr>hopcount := hopcount l - 1\<rparr>"
  show ?thesis
  proof (cases "hopcount l = 0 \<or> own")
    case True
    then show ?thesis using run by (auto simp: server_Get_L_Data_def split: if_splits)
  next
    case False
    then obtain s1 where s1: "(if es_route s then route_frames (route_targets (es_natstate s) ?l) s else Some s) = Some s1"
      using run by (auto simp: server_Get_L_Data_def Let_def split: if_splits option.splits)
    then have u: "unheard s s1" using route_frames_unheard by (auto split: if_splits)
    have "unheard s1 s'" using run False s1
      by (auto simp: server_Get_L_Data_def Let_def unheard_def server_view_def conn_put_def conn_view_def split: if_splits option.splits)
    with u show ?thesis by (rule unheard_trans)
  qed
qed

section \<open>The invariant\<close>

text \<open>
  \<open>m\<close> frames have reached the bus, \<open>n\<close> of them are acknowledged; the encoded frames that are not
  acknowledged are the client's queue.
\<close>

definition tnet_inv :: "tnet_env \<Rightarrow> uchar \<Rightarrow> l2call list \<Rightarrow> tnet \<Rightarrow> bool" where
  "tnet_inv E ch calls N \<longleftrightarrow>
     (\<exists>cs n m rno.
        sender_ok ch (nt_client N) \<and> tn_mod (nt_client N) \<noteq> 0 \<and> tn_drop (nt_client N) = 0 \<and>
        (\<forall>p\<in>set (nt_up N). \<not> disturbs p) \<and>
        map (L_Data_ToCEMI 0x11) (nt_frames N) = map Some cs \<and> n \<le> length cs \<and> tn_inqueue (nt_client N) = drop n cs \<and>
        server_view (nt_server N) =
          ([(ch, 0, te_client E, rno)], calls @ concat (map (bus_calls (te_default E)) (take m cs)), True) \<and>
        stop_and_wait (word_of_int (tn_sno (nt_client N))) (in_flight (nt_client N)) rno
          (requests ch (nt_up N)) (acks ch (nt_down N)) \<and>
        m = n + (if rno = word_of_int (tn_sno (nt_client N)) then 0 else 1))"

lemma new_packets_append: "new_packets a xs (xs @ ys) = map (\<lambda>(to, p). p\<lparr>psrc := a\<rparr>) ys"
  by (simp add: new_packets_def)

lemma service_psrc [simp]: "service (p\<lparr>psrc := a\<rparr>) = service p" "disturbs (p\<lparr>psrc := a\<rparr>) = disturbs p"
  by (simp_all add: disturbs_def)

lemma requests_quiet: "quiet q \<Longrightarrow> requests ch (map (\<lambda>(to, p). p\<lparr>psrc := a\<rparr>) q) = []"
  by (induction q) (auto simp: request_of_service)

lemma acks_silent: "silent q \<Longrightarrow> acks ch (map (\<lambda>(to, p). p\<lparr>psrc := a\<rparr>) q) = []"
  by (induction q) (auto simp: ack_of_service)

lemma disturbs_quiet: "quiet q \<Longrightarrow> p \<in> set (map (\<lambda>(to, p). p\<lparr>psrc := a\<rparr>) q) \<Longrightarrow> \<not> disturbs p"
  by (auto simp: quiet_def)

lemma arriving_requests:
  "requests ch ps = (case arriving b ps of None \<Rightarrow> requests ch (remaining b ps)
     | Some p \<Rightarrow> (case request_of ch p of None \<Rightarrow> requests ch (remaining b ps) | Some r \<Rightarrow> r # requests ch (remaining b ps)))"
  by (cases ps; cases b) (simp_all add: arriving_def remaining_def split: option.split)

lemma arriving_acks:
  "acks ch ps = (case arriving b ps of None \<Rightarrow> acks ch (remaining b ps)
     | Some p \<Rightarrow> (case ack_of ch p of None \<Rightarrow> acks ch (remaining b ps) | Some r \<Rightarrow> r # acks ch (remaining b ps)))"
  by (cases ps; cases b) (simp_all add: arriving_def remaining_def split: option.split)

lemma requests_rest: "stop_and_wait sno cur rno (requests ch ps) A \<Longrightarrow> stop_and_wait sno cur rno (requests ch (remaining b ps)) A"
  using arriving_requests [of ch ps b] by (auto split: option.splits intro: stop_and_wait_skip)

lemma acks_rest: "stop_and_wait sno cur rno R (acks ch ps) \<Longrightarrow> stop_and_wait sno cur rno R (acks ch (remaining b ps))"
  using arriving_acks [of ch ps b] by (auto split: option.splits intro: stop_and_wait_old_ack)

lemma set_remaining: "p \<in> set (remaining b ps) \<Longrightarrow> p \<in> set ps"
  by (cases ps) (auto simp: remaining_def split: if_splits)

lemma next_number: "(word_of_int ((x + 1) mod 256) :: uchar) = word_of_int x + 1"
  by (simp add: word_uint_eq_iff uint_word_of_int uint_word_ariths mod_simps)

text \<open>The client at its turn.\<close>

lemma may_transmit_packets:
  assumes mt: "may_transmit t t'" and ok: "sender_ok ch t" and sw: "stop_and_wait sno (in_flight t) rno R A"
    and sno: "sno = word_of_int (tn_sno t)" and base: "tn_sent t = tn_sent t0"
  shows "stop_and_wait sno (in_flight t') rno (R @ requests ch (new_packets a (tn_sent t0) (tn_sent t'))) A"
    and "\<forall>p\<in>set (new_packets a (tn_sent t0) (tn_sent t')). \<not> disturbs p"
proof -
  obtain q where q: "quiet q" and cases:
    "tn_sent t' = tn_sent t0 @ q \<and> in_flight t' = in_flight t \<or>
        (\<exists>d. tn_sent t' = tn_sent t0 @ q @ [(d, snd (sent_request t))] \<and> tn_inqueue t \<noteq> [] \<and>
             in_flight t' = Some (hd (tn_inqueue t)) \<and> in_flight t \<in> {None, Some (hd (tn_inqueue t))})"
    using mt unfolding may_transmit_def base by blast
  from cases have "stop_and_wait sno (in_flight t') rno (R @ requests ch (new_packets a (tn_sent t0) (tn_sent t'))) A \<and>
    (\<forall>p\<in>set (new_packets a (tn_sent t0) (tn_sent t')). \<not> disturbs p)"
  proof
    assume "tn_sent t' = tn_sent t0 @ q \<and> in_flight t' = in_flight t"
    then show ?thesis using sw q disturbs_quiet by (simp add: new_packets_append requests_quiet)
  next
    assume "\<exists>d. tn_sent t' = tn_sent t0 @ q @ [(d, snd (sent_request t))] \<and> tn_inqueue t \<noteq> [] \<and>
             in_flight t' = Some (hd (tn_inqueue t)) \<and> in_flight t \<in> {None, Some (hd (tn_inqueue t))}"
    then obtain d where d: "tn_sent t' = tn_sent t0 @ (q @ [(d, snd (sent_request t))])" "tn_inqueue t \<noteq> []"
      "in_flight t' = Some (hd (tn_inqueue t))" "in_flight t = None \<or> in_flight t = Some (hd (tn_inqueue t))" by auto
    have len: "2 \<le> length (hd (tn_inqueue t))" using ok d(2) by (cases "tn_inqueue t") (auto simp: sender_ok_def)
    have ch: "word_of_int (tn_channel t) = ch" using ok by (simp add: sender_ok_def)
    have "requests ch (new_packets a (tn_sent t0) (tn_sent t')) = [(sno, hd (tn_inqueue t))]"
      unfolding d(1) new_packets_append using requests_quiet [OF q]
      by (simp add: sent_request_def request_of_sent [OF len] ch sno)
    moreover have "\<forall>p\<in>set (new_packets a (tn_sent t0) (tn_sent t')). \<not> disturbs p"
      unfolding d(1) new_packets_append using q by (auto simp: quiet_def sent_request_def)
    ultimately show ?thesis using stop_and_wait_send [OF sw d(4)] d(3) by simp
  qed
  then show "stop_and_wait sno (in_flight t') rno (R @ requests ch (new_packets a (tn_sent t0) (tn_sent t'))) A"
    and "\<forall>p\<in>set (new_packets a (tn_sent t0) (tn_sent t')). \<not> disturbs p" by blast+
qed

lemma may_transmit_ok: "may_transmit t t' \<Longrightarrow> sender_ok ch t \<Longrightarrow> sender_ok ch t'"
  by (auto simp: may_transmit_def sender_ok_def in_flight_def split: if_splits)

lemma submit:
  assumes "EIBNetIPTunnel_Send_L_Data (L_Data_PDU l) t = Some t'" and "LPDU_getType (L_Data_PDU l) = L_Data"
  obtains c where "L_Data_ToCEMI 0x11 l = Some c" "2 \<le> length c" "tn_inqueue t' = tn_inqueue t @ [c]" "tn_sno t' = tn_sno t"
    "tn_channel t' = tn_channel t" "tn_mod t' = tn_mod t" "tn_drop t' = tn_drop t" "tn_sent t' = tn_sent t"
proof -
  note u = assms(1)[unfolded EIBNetIPTunnel_Send_L_Data_def lpdu.case assms(2)]
  obtain c where c: "L_Data_ToCEMI 0x11 l = Some c" using u by (auto split: option.splits)
  then have "2 \<le> length c" by (auto simp: L_Data_ToCEMI_def split: if_splits)
  moreover have "\<exists>a b. t' = (tunnel_in c t)\<lparr>tn_outqueue := a, tn_outsignal := b\<rparr>"
  proof (cases "tn_vmode t = 0")
    case True
    then show ?thesis using u c by (auto simp: tunnel_in_def tunnel_out_def Let_def)
  next
    case False
    then show ?thesis using u c by (auto simp: tunnel_in_def tunnel_out_def Let_def split: option.splits)
  qed
  ultimately show thesis using that [OF c] by (auto simp: tunnel_in_def)
qed

lemma tnet_inv_submit:
  assumes inv: "tnet_inv E ch calls N" and run: "tnet_step E (Submit l) N = Some N'"
  shows "tnet_inv E ch calls N'"
proof (cases "LPDU_getType (L_Data_PDU l) = L_Data")
  case False
  then have "N' = N" using run by (auto simp: EIBNetIPTunnel_Send_L_Data_def)
  then show ?thesis using inv by simp
next
  case True
  then obtain t' where t': "EIBNetIPTunnel_Send_L_Data (L_Data_PDU l) (nt_client N) = Some t'"
    and N': "N' = N\<lparr>nt_client := t', nt_frames := nt_frames N @ [l]\<rparr>" using run by auto
  obtain c where c: "L_Data_ToCEMI 0x11 l = Some c" "2 \<le> length c" "tn_inqueue t' = tn_inqueue (nt_client N) @ [c]"
    "tn_sno t' = tn_sno (nt_client N)" "tn_channel t' = tn_channel (nt_client N)" "tn_mod t' = tn_mod (nt_client N)"
    "tn_drop t' = tn_drop (nt_client N)" "tn_sent t' = tn_sent (nt_client N)" using submit [OF t' True] by blast
  obtain cs n m rno where i:
    "sender_ok ch (nt_client N)" "tn_mod (nt_client N) \<noteq> 0" "tn_drop (nt_client N) = 0" "\<forall>p\<in>set (nt_up N). \<not> disturbs p"
    "map (L_Data_ToCEMI 0x11) (nt_frames N) = map Some cs" "n \<le> length cs" "tn_inqueue (nt_client N) = drop n cs"
    "server_view (nt_server N) =
       ([(ch, 0, te_client E, rno)], calls @ concat (map (bus_calls (te_default E)) (take m cs)), True)"
    and sw: "stop_and_wait (word_of_int (tn_sno (nt_client N))) (in_flight (nt_client N)) rno
          (requests ch (nt_up N)) (acks ch (nt_down N))"
    and m: "m = n + (if rno = word_of_int (tn_sno (nt_client N)) then 0 else 1)"
    using inv unfolding tnet_inv_def by blast
  have ok: "sender_ok ch t'" using i(1) c by (auto simp: sender_ok_def)
  have fl: "in_flight t' = in_flight (nt_client N)"
    using i(1) c by (auto simp: in_flight_def sender_ok_def)
  have "m \<le> length cs"
  proof (cases "rno = word_of_int (tn_sno (nt_client N))")
    case False
    then have "in_flight (nt_client N) \<noteq> None" using sw by (auto simp: stop_and_wait_def)
    then have "drop n cs \<noteq> []" using i(1,7) by (auto simp: in_flight_def sender_ok_def split: if_splits)
    then show ?thesis using m by simp
  qed (use m i(6) in simp)
  then have "take m (cs @ [c]) = take m cs" by simp
  moreover have "drop n (cs @ [c]) = drop n cs @ [c]" using i(6) by simp
  ultimately show ?thesis unfolding tnet_inv_def N'
    using i c(1,3,4,6,7) ok fl sw m by (intro exI [of _ "cs @ [c]"] exI [of _ n] exI [of _ m] exI [of _ rno]) simp
qed

lemma tnet_inv_client:
  assumes inv: "tnet_inv E ch calls N" and run: "tnet_step E (Client_turn b el el1) N = Some N'" and alive: "session_alive ch N'"
  shows "tnet_inv E ch calls N'"
proof -
  let ?t = "nt_client N"
  obtain t' where t': "tunnel_turn (arriving b (nt_down N)) el el1 ?t = Some t'"
    and N': "N' = N\<lparr>nt_client := t', nt_down := remaining b (nt_down N),
       nt_up := nt_up N @ new_packets (te_client E) (tn_sent ?t) (tn_sent t')\<rparr>" using run by auto
  have al: "tn_mod t' \<noteq> 0" "tn_drop t' = 0" using alive by (simp_all add: session_alive_def N')
  obtain cs n m rno where i:
    "sender_ok ch ?t" "tn_mod ?t \<noteq> 0" "tn_drop ?t = 0" "\<forall>p\<in>set (nt_up N). \<not> disturbs p"
    "map (L_Data_ToCEMI 0x11) (nt_frames N) = map Some cs" "n \<le> length cs" "tn_inqueue ?t = drop n cs"
    "server_view (nt_server N) =
       ([(ch, 0, te_client E, rno)], calls @ concat (map (bus_calls (te_default E)) (take m cs)), True)"
    and sw: "stop_and_wait (word_of_int (tn_sno ?t)) (in_flight ?t) rno (requests ch (nt_up N)) (acks ch (nt_down N))"
    and m: "m = n + (if rno = word_of_int (tn_sno ?t) then 0 else 1)"
    using inv unfolding tnet_inv_def by blast
  have up: "set (nt_up N @ ps) = set (nt_up N) \<union> set ps" for ps by simp
  from client_turn [OF t' i(1-3) al] show ?thesis
  proof
    assume mt: "may_transmit ?t t'"
    have same: "tn_sno t' = tn_sno ?t" "tn_inqueue t' = tn_inqueue ?t" using mt by (simp_all add: may_transmit_def)
    note p = may_transmit_packets [OF mt i(1) acks_rest [OF sw] refl refl, of "te_client E"]
    show ?thesis unfolding tnet_inv_def N'
      using i al p same m may_transmit_ok [OF mt i(1)]
      by (intro exI [of _ cs] exI [of _ n] exI [of _ m] exI [of _ rno]) auto
  next
    assume "\<exists>p t1. arriving b (nt_down N) = Some p \<and> ack_of ch p = Some (word_of_int (tn_sno ?t)) \<and> acked ?t t1 \<and>
      sender_ok ch t1 \<and> may_transmit t1 t'"
    then obtain p t1 where p: "arriving b (nt_down N) = Some p" "ack_of ch p = Some (word_of_int (tn_sno ?t))" "acked ?t t1"
      "sender_ok ch t1" "may_transmit t1 t'" by blast
    have "acks ch (nt_down N) = word_of_int (tn_sno ?t) # acks ch (remaining b (nt_down N))"
      using arriving_acks [of ch "nt_down N" b] p by simp
    note a = stop_and_wait_acked [OF sw [unfolded this]]
    have t1: "in_flight t1 = None" "word_of_int (tn_sno t1) = (word_of_int (tn_sno ?t) + 1 :: uchar)" "tn_inqueue t1 = drop (n + 1) cs"
      "tn_sent t1 = tn_sent ?t" "n + 1 \<le> length cs"
      using p(3) i(7) by (auto simp: acked_def in_flight_def next_number drop_Suc tl_drop Suc_le_eq)
    have same: "tn_sno t' = tn_sno t1" "tn_inqueue t' = tn_inqueue t1" using p(5) by (simp_all add: may_transmit_def)
    note q = may_transmit_packets [OF p(5,4) a(1) [folded t1(1,2)] refl t1(4), of "te_client E"]
    show ?thesis unfolding tnet_inv_def N'
      using i al q same m t1 a(2) may_transmit_ok [OF p(5,4)]
      by (intro exI [of _ cs] exI [of _ "n + 1"] exI [of _ m] exI [of _ rno]) auto
  qed
qed

text \<open>The server at its turn, or with a frame from the bus.\<close>

lemma tnet_inv_unheard:
  assumes inv: "tnet_inv E ch calls N" and u: "unheard (nt_server N) s"
    and N': "N' = N\<lparr>nt_server := s, nt_up := remaining b (nt_up N),
       nt_down := nt_down N @ new_packets (te_server E) (es_sent (nt_server N)) (es_sent s)\<rparr>"
  shows "tnet_inv E ch calls N'"
proof -
  obtain q where q: "es_sent s = es_sent (nt_server N) @ q" "silent q" and v: "server_view s = server_view (nt_server N)"
    using u by (auto simp: unheard_def)
  have a: "acks ch (nt_down N @ new_packets (te_server E) (es_sent (nt_server N)) (es_sent s)) = acks ch (nt_down N)"
    by (simp add: q(1) new_packets_append acks_silent [OF q(2)])
  have d: "\<forall>p\<in>set (nt_up N). \<not> disturbs p \<Longrightarrow> \<forall>p\<in>set (remaining b (nt_up N)). \<not> disturbs p"
    using set_remaining by metis
  from inv obtain cs n m rno where i:
    "sender_ok ch (nt_client N)" "tn_mod (nt_client N) \<noteq> 0" "tn_drop (nt_client N) = 0" "\<forall>p\<in>set (nt_up N). \<not> disturbs p"
    "map (L_Data_ToCEMI 0x11) (nt_frames N) = map Some cs" "n \<le> length cs" "tn_inqueue (nt_client N) = drop n cs"
    "server_view (nt_server N) =
       ([(ch, 0, te_client E, rno)], calls @ concat (map (bus_calls (te_default E)) (take m cs)), True)"
    "stop_and_wait (word_of_int (tn_sno (nt_client N))) (in_flight (nt_client N)) rno
          (requests ch (nt_up N)) (acks ch (nt_down N))"
    "m = n + (if rno = word_of_int (tn_sno (nt_client N)) then 0 else 1)"
    unfolding tnet_inv_def by blast
  show ?thesis unfolding tnet_inv_def N'
    using i a v d requests_rest [OF i(9), of b]
    by (intro exI [of _ cs] exI [of _ n] exI [of _ m] exI [of _ rno]) simp
qed

lemma acks_one: "acks ch (new_packets a xs (xs @ (cl, EIBnet_TunnelACK_ToPacket \<lparr>ta_channel = ch, ta_seqno = k, ta_status = st\<rparr>) # q)) =
    (if st = 0 then [k] else [])" if "silent q"
  using acks_silent [OF that] by (simp add: new_packets_append ack_of_sent)

lemma tnet_inv_server:
  assumes inv: "tnet_inv E ch calls N" and run: "tnet_step E (Server_turn b el el1) N = Some N'" and alive: "session_alive ch N'"
  shows "tnet_inv E ch calls N'"
proof -
  obtain s where s: "server_turn (te_gsa E) (te_junk E) (te_nat E) (te_me E) (te_ok E) (te_default E)
          (arriving b (nt_up N)) (\<lambda>i. (el, el1)) (\<lambda>i. False) (nt_server N) = Some s"
    and N': "N' = N\<lparr>nt_server := s, nt_up := remaining b (nt_up N),
       nt_down := nt_down N @ new_packets (te_server E) (es_sent (nt_server N)) (es_sent s)\<rparr>" using run by auto
  have al: "map cn_channel (es_state s) = [ch]" using alive by (simp add: session_alive_def N')
  obtain cs n m rno where i:
    "sender_ok ch (nt_client N)" "tn_mod (nt_client N) \<noteq> 0" "tn_drop (nt_client N) = 0" "\<forall>p\<in>set (nt_up N). \<not> disturbs p"
    "map (L_Data_ToCEMI 0x11) (nt_frames N) = map Some cs" "n \<le> length cs" "tn_inqueue (nt_client N) = drop n cs"
    and v: "server_view (nt_server N) =
       ([(ch, 0, te_client E, rno)], calls @ concat (map (bus_calls (te_default E)) (take m cs)), True)"
    and sw: "stop_and_wait (word_of_int (tn_sno (nt_client N))) (in_flight (nt_client N)) rno
          (requests ch (nt_up N)) (acks ch (nt_down N))"
    and m: "m = n + (if rno = word_of_int (tn_sno (nt_client N)) then 0 else 1)"
    using inv unfolding tnet_inv_def by blast
  have nice: "\<forall>p. arriving b (nt_up N) = Some p \<longrightarrow> \<not> disturbs p"
    using i(4) by (auto simp: arriving_def split: if_splits)
  from server_turn_step [OF s v nice al] show ?thesis
  proof
    assume "unheard (nt_server N) s"
    from tnet_inv_unheard [OF inv this N'] show ?thesis .
  next
    assume "\<exists>p r. arriving b (nt_up N) = Some p \<and> request_of ch p = Some r \<and>
      request_step (te_default E) r ch (te_client E) rno (calls @ concat (map (bus_calls (te_default E)) (take m cs))) (nt_server N) s"
    then obtain p k c where p: "arriving b (nt_up N) = Some p" "request_of ch p = Some (k, c)"
      and rs: "request_step (te_default E) (k, c) ch (te_client E) rno (calls @ concat (map (bus_calls (te_default E)) (take m cs))) (nt_server N) s"
      by force
    have R: "requests ch (nt_up N) = (k, c) # requests ch (remaining b (nt_up N))"
      using arriving_requests [of ch "nt_up N" b] p by simp
    have d: "\<forall>p\<in>set (remaining b (nt_up N)). \<not> disturbs p" using i(4) set_remaining by metis
    obtain st q where q: "silent q"
      and sent: "es_sent s = es_sent (nt_server N) @ (te_client E, EIBnet_TunnelACK_ToPacket \<lparr>ta_channel = ch, ta_seqno = k, ta_status = st\<rparr>) # q"
      and cases: "rno = k + 1 \<and> server_view s = server_view (nt_server N) \<or>
         rno = k \<and> server_view s = ([(ch, 0, te_client E, rno + 1)],
           calls @ concat (map (bus_calls (te_default E)) (take m cs)) @ bus_calls (te_default E) c, True)"
      using rs by (auto simp: request_step_def)
    have A: "acks ch (nt_down N') = acks ch (nt_down N) @ (if st = 0 then [k] else [])"
      by (simp add: N' sent acks_one [OF q])
    from cases show ?thesis
    proof
      assume again: "rno = k + 1 \<and> server_view s = server_view (nt_server N)"
      then have "stop_and_wait (word_of_int (tn_sno (nt_client N))) (in_flight (nt_client N)) rno
          (requests ch (remaining b (nt_up N))) (acks ch (nt_down N'))"
        using sw unfolding R A by (auto intro: stop_and_wait_again stop_and_wait_skip)
      then show ?thesis unfolding tnet_inv_def
        using i d again m v by (intro exI [of _ cs] exI [of _ n] exI [of _ m] exI [of _ rno]) (simp add: N')
    next
      assume new: "rno = k \<and> server_view s = ([(ch, 0, te_client E, rno + 1)],
           calls @ concat (map (bus_calls (te_default E)) (take m cs)) @ bus_calls (te_default E) c, True)"
      note acc = stop_and_wait_accept [OF sw [unfolded R new [THEN conjunct1, symmetric]]]
      have sw': "stop_and_wait (word_of_int (tn_sno (nt_client N))) (in_flight (nt_client N)) (rno + 1)
          (requests ch (remaining b (nt_up N))) (acks ch (nt_down N'))"
        using acc(3,4) new unfolding A by simp
      have mn: "m = n" using m acc(2) by simp
      have "drop n cs \<noteq> []" "hd (drop n cs) = c" using acc(1) i(1,7) by (auto simp: in_flight_def sender_ok_def split: if_splits)
      then have "n < length cs" "cs ! n = c" by (simp_all add: hd_drop_conv_nth)
      then have take: "take (n + 1) cs = take n cs @ [c]" by (simp add: take_Suc_conv_app_nth)
      show ?thesis unfolding tnet_inv_def
        using i d new sw' acc(2) mn take
        by (intro exI [of _ cs] exI [of _ n] exI [of _ "n + 1"] exI [of _ "rno + 1"]) (simp add: N')
    qed
  qed
qed

lemma set_lose_at: "p \<in> set (lose_at i ps) \<Longrightarrow> p \<in> set ps"
  using lose_at_cases [of i ps] by auto

lemma set_repeat_at: "p \<in> set (repeat_at i ps) \<Longrightarrow> p \<in> set ps"
  using repeat_at_cases [of i ps] by auto

lemma tnet_inv_packets:
  assumes inv: "tnet_inv E ch calls N" and "set up \<subseteq> set (nt_up N)"
    and sw: "\<And>sno cur rno. stop_and_wait sno cur rno (requests ch (nt_up N)) (acks ch (nt_down N)) \<Longrightarrow>
      stop_and_wait sno cur rno (requests ch up) (acks ch down)"
  shows "tnet_inv E ch calls (N\<lparr>nt_up := up, nt_down := down\<rparr>)"
proof -
  have "\<forall>p\<in>set (nt_up N). \<not> disturbs p \<Longrightarrow> \<forall>p\<in>set up. \<not> disturbs p" using assms(2) by blast
  moreover obtain cs n m rno where i:
    "sender_ok ch (nt_client N)" "tn_mod (nt_client N) \<noteq> 0" "tn_drop (nt_client N) = 0" "\<forall>p\<in>set (nt_up N). \<not> disturbs p"
    "map (L_Data_ToCEMI 0x11) (nt_frames N) = map Some cs" "n \<le> length cs" "tn_inqueue (nt_client N) = drop n cs"
    "server_view (nt_server N) =
       ([(ch, 0, te_client E, rno)], calls @ concat (map (bus_calls (te_default E)) (take m cs)), True)"
    "stop_and_wait (word_of_int (tn_sno (nt_client N))) (in_flight (nt_client N)) rno
          (requests ch (nt_up N)) (acks ch (nt_down N))"
    "m = n + (if rno = word_of_int (tn_sno (nt_client N)) then 0 else 1)"
    using inv unfolding tnet_inv_def by blast
  ultimately show ?thesis unfolding tnet_inv_def
    using sw [OF i(9)] by (intro exI [of _ cs] exI [of _ n] exI [of _ m] exI [of _ rno]) simp
qed

lemma tnet_inv_network:
  assumes "tnet_inv E ch calls N"
  shows "tnet_inv E ch calls (N\<lparr>nt_up := lose_at i (nt_up N)\<rparr>)" "tnet_inv E ch calls (N\<lparr>nt_down := lose_at i (nt_down N)\<rparr>)"
    "tnet_inv E ch calls (N\<lparr>nt_up := repeat_at i (nt_up N)\<rparr>)" "tnet_inv E ch calls (N\<lparr>nt_down := repeat_at i (nt_down N)\<rparr>)"
  using tnet_inv_packets [OF assms, of "lose_at i (nt_up N)" "nt_down N"] tnet_inv_packets [OF assms, of "nt_up N" "lose_at i (nt_down N)"]
    tnet_inv_packets [OF assms, of "repeat_at i (nt_up N)" "nt_down N"] tnet_inv_packets [OF assms, of "nt_up N" "repeat_at i (nt_down N)"]
  by (auto dest: set_lose_at set_repeat_at intro: requests_lose requests_repeat acks_lose acks_repeat)

lemma tnet_inv_step:
  assumes inv: "tnet_inv E ch calls N" and run: "tnet_step E e N = Some N'" and alive: "session_alive ch N'"
  shows "tnet_inv E ch calls N'"
proof (cases e)
  case (Submit l)
  then show ?thesis using tnet_inv_submit inv run by simp
next
  case (Client_turn b el el1)
  then show ?thesis using tnet_inv_client inv run alive by blast
next
  case (Server_turn b el el1)
  then show ?thesis using tnet_inv_server inv run alive by blast
next
  case (Bus_frame own l)
  then obtain s where s: "server_Get_L_Data own l (nt_server N) = Some s"
    and N': "N' = N\<lparr>nt_server := s, nt_up := remaining False (nt_up N),
       nt_down := nt_down N @ new_packets (te_server E) (es_sent (nt_server N)) (es_sent s)\<rparr>"
    using run by (auto simp: remaining_def)
  from tnet_inv_unheard [OF inv server_Get_L_Data_unheard [OF s] N'] show ?thesis .
next
  case (Lose d i)
  then show ?thesis using run tnet_inv_network [OF inv, of i] by (cases d) auto
next
  case (Repeat d i)
  then show ?thesis using run tnet_inv_network [OF inv, of i] by (cases d) auto
qed

lemma tnet_inv_run:
  "tnet_run E ch es N = Some N' \<Longrightarrow> tnet_inv E ch calls N \<Longrightarrow> tnet_inv E ch calls N'"
proof (induction es arbitrary: N)
  case (Cons e es)
  then obtain N1 where N1: "tnet_step E e N = Some N1" "session_alive ch N1" "tnet_run E ch es N1 = Some N'"
    by (auto split: option.splits if_splits)
  show ?case using Cons.IH [OF N1(3) tnet_inv_step [OF Cons.prems(2) N1(1,2)]] .
qed simp

section \<open>An open session\<close>

text \<open>A session after the handshake: both sides count from 0, and nothing is on the way.\<close>

definition tnet_opened :: "tnet_env \<Rightarrow> uchar \<Rightarrow> tnet \<Rightarrow> bool" where
  "tnet_opened E ch N \<longleftrightarrow>
     tn_channel (nt_client N) = uint ch \<and> tn_mod (nt_client N) = 1 \<and> tn_sno (nt_client N) = 0 \<and> tn_rno (nt_client N) = 0 \<and>
     tn_drop (nt_client N) = 0 \<and> tn_inqueue (nt_client N) = [] \<and> nt_frames N = [] \<and> nt_up N = [] \<and> nt_down N = [] \<and>
     map conn_view (es_state (nt_server N)) = [(ch, 0, te_client E, 0)] \<and> es_tunnel (nt_server N)"

lemma tnet_opened_inv:
  assumes "tnet_opened E ch N"
  shows "tnet_inv E ch (l3_calls (es_l3 (nt_server N))) N"
proof -
  have "stop_and_wait (word_of_int (tn_sno (nt_client N))) (in_flight (nt_client N)) 0 (requests ch (nt_up N)) (acks ch (nt_down N))"
    using assms stop_and_wait_start [of 0] by (simp add: tnet_opened_def in_flight_def)
  then show ?thesis unfolding tnet_inv_def
    using assms by (intro exI [of _ "[]"] exI [of _ 0] exI [of _ 0] exI [of _ 0])
      (simp add: tnet_opened_def sender_ok_def server_view_def)
qed

lemma tnet_inv_calls:
  assumes inv: "tnet_inv E ch calls N"
  shows "\<exists>m. length (nt_frames N) - length (tn_inqueue (nt_client N)) \<le> m \<and>
      m \<le> length (nt_frames N) - length (tn_inqueue (nt_client N)) + 1 \<and>
      l3_calls (es_l3 (nt_server N)) = calls @ concat (map (bus_image (te_default E)) (take m (nt_frames N)))"
proof -
  obtain cs n m rno where i:
    "map (L_Data_ToCEMI 0x11) (nt_frames N) = map Some cs" "n \<le> length cs" "tn_inqueue (nt_client N) = drop n cs"
    "server_view (nt_server N) =
       ([(ch, 0, te_client E, rno)], calls @ concat (map (bus_calls (te_default E)) (take m cs)), True)"
    "m = n + (if rno = word_of_int (tn_sno (nt_client N)) then 0 else 1)"
    using inv unfolding tnet_inv_def by blast
  have len: "length (nt_frames N) = length cs" using arg_cong [OF i(1), of length] by simp
  have "map (bus_calls (te_default E)) (take m cs) = map (bus_image (te_default E)) (take m (nt_frames N))"
  proof (rule nth_equalityI)
    fix j assume "j < length (map (bus_calls (te_default E)) (take m cs))"
    then have j: "j < m" "j < length cs" by simp_all
    then have "L_Data_ToCEMI 0x11 (nt_frames N ! j) = Some (cs ! j)"
      using arg_cong [OF i(1), of "\<lambda>xs. xs ! j"] len by simp
    then show "map (bus_calls (te_default E)) (take m cs) ! j = map (bus_image (te_default E)) (take m (nt_frames N)) ! j"
      using j len bus_calls_image by simp
  qed (simp add: len)
  then have "l3_calls (es_l3 (nt_server N)) = calls @ concat (map (bus_image (te_default E)) (take m (nt_frames N)))"
    using i(4) by (simp add: server_view_def)
  then show ?thesis using i(2,3,5) len by (intro exI [of _ m]) simp
qed

end
