(* ===== verification/EibNetServerProofs.thy ===== *)
theory EibNetServerProofs
  imports EibNetServer
begin

text \<open>
  What every turn of the EIBnet/IP server keeps: its connections have different channels from 1 to
  255, the semaphore of each counts its queue, and a connection that waits for an acknowledgement
  has the frame at the head of its queue. So no \<open>assert\<close> of the server can fail.
\<close>

section \<open>The invariant\<close>

definition conn_wf :: "ConnState \<Rightarrow> bool" where
  "conn_wf k \<longleftrightarrow> cn_outsignal k = length (cn_out k) \<and> 0 \<le> cn_state k \<and> cn_state k \<le> 10 \<and> (cn_state k \<noteq> 0 \<longrightarrow> cn_out k \<noteq> [])"

definition server_wf :: "eibnet_server \<Rightarrow> bool" where
  "server_wf s \<longleftrightarrow>
     distinct (map cn_channel (es_state s)) \<and> (\<forall>k\<in>set (es_state s). cn_channel k \<noteq> 0 \<and> conn_wf k)"

text \<open>What an operation may do with the connections without harm.\<close>

definition conns_keep :: "ConnState list \<Rightarrow> ConnState list \<Rightarrow> bool" where
  "conns_keep ks ks' \<longleftrightarrow> map cn_channel ks' = map cn_channel ks \<and> ((\<forall>k\<in>set ks. conn_wf k) \<longrightarrow> (\<forall>k\<in>set ks'. conn_wf k))"

lemma conns_keep_wf:
  assumes "server_wf s" and "conns_keep (es_state s) (es_state s')"
  shows "server_wf s'"
proof -
  have c: "map cn_channel (es_state s') = map cn_channel (es_state s)" using assms(2) by (simp add: conns_keep_def)
  then have "cn_channel ` set (es_state s') = cn_channel ` set (es_state s)" by (metis image_set)
  moreover have "0 \<notin> cn_channel ` set (es_state s)" using assms(1) by (auto simp: server_wf_def)
  ultimately have "\<forall>k\<in>set (es_state s'). cn_channel k \<noteq> 0" by (metis image_eqI)
  then show ?thesis using assms c by (simp add: server_wf_def conns_keep_def)
qed

lemma conns_keep_refl [simp]: "conns_keep ks ks"
  by (simp add: conns_keep_def)

lemma conns_keep_map:
  "(\<And>k. cn_channel (f k) = cn_channel k) \<Longrightarrow> (\<And>k. conn_wf k \<Longrightarrow> conn_wf (f k)) \<Longrightarrow> conns_keep ks (map f ks)"
  by (auto simp: conns_keep_def)

lemma conns_keep_update:
  assumes "cn_channel k' = cn_channel (ks ! i)" and "conn_wf (ks ! i) \<Longrightarrow> conn_wf k'" and "i < length ks"
  shows "conns_keep ks (ks[i := k'])"
proof -
  have "map cn_channel (ks[i := k']) = map cn_channel ks"
    using assms by (simp add: map_update list_update_same_conv)
  moreover have "\<forall>k\<in>set (ks[i := k']). conn_wf k" if "\<forall>k\<in>set ks. conn_wf k"
    using that assms set_update_subset_insert [of ks i k'] nth_mem [OF assms(3)] by blast
  ultimately show ?thesis by (simp add: conns_keep_def)
qed

lemma conn_put_wf: "conn_wf k \<Longrightarrow> conn_wf (conn_put c k)"
  by (auto simp: conn_wf_def conn_put_def)

lemma conn_put_channel [simp]: "cn_channel (conn_put c k) = cn_channel k"
  by (simp add: conn_put_def)

lemma conn_take_wf:
  "conn_wf k \<Longrightarrow> cn_out k \<noteq> [] \<Longrightarrow>
   \<exists>k'. conn_take k = Some k' \<and> cn_channel k' = cn_channel k \<and> cn_outsignal k' = length (cn_out k') \<and> cn_state k' = cn_state k"
  by (cases "cn_out k") (auto simp: conn_wf_def conn_take_def)

lemma conn_acked_wf:
  assumes "conn_wf k"
  shows "\<exists>k'. conn_acked n st src T k = Some k' \<and> cn_channel k' = cn_channel k \<and> conn_wf k'"
proof -
  let ?k = "k\<lparr>cn_sno := cn_sno k + 1, cn_state := 0\<rparr>"
  have "conn_wf ?k" using assms by (simp add: conn_wf_def)
  then have "cn_state k \<noteq> 0 \<Longrightarrow> \<exists>k'. conn_take ?k = Some k' \<and> cn_channel k' = cn_channel k \<and> conn_wf k'"
    using conn_take_wf [of ?k] assms by (auto simp: conn_wf_def)
  then show ?thesis using assms by (auto simp: conn_acked_def)
qed

lemma conn_transmit_wf:
  assumes "conn_wf k"
  shows "\<exists>p k'. conn_transmit k = Some (p, k') \<and> cn_channel k' = cn_channel k \<and> conn_wf k'"
proof (cases "cn_state k \<noteq> 0 \<and> cn_sendtimeout k \<or> cn_state k = 0 \<and> cn_out k \<noteq> []")
  case False
  then show ?thesis using assms by (auto simp: conn_transmit_def)
next
  case True
  then have out: "cn_out k \<noteq> []" using assms by (auto simp: conn_wf_def)
  show ?thesis
  proof (cases "cn_state k = 10")
    case ten: True
    let ?k = "k\<lparr>cn_state := cn_state k + 1\<rparr>"
    obtain c q where "cn_out k = c # q" using out by (cases "cn_out k") auto
    then have "conn_take ?k = Some (?k\<lparr>cn_out := q, cn_outsignal := cn_outsignal k - 1\<rparr>)" "cn_outsignal k = Suc (length q)"
      using assms by (simp_all add: conn_take_def conn_wf_def)
    then show ?thesis using True ten by (simp add: conn_transmit_def Let_def conn_wf_def)
  next
    case False
    then show ?thesis using True out assms by (cases "cn_out k") (auto simp: conn_transmit_def Let_def conn_wf_def)
  qed
qed

lemma server_transmit_wf:
  "\<forall>k\<in>set ks. conn_wf k \<Longrightarrow> \<exists>ks' ps. server_transmit ks = Some (ks', ps) \<and> conns_keep ks ks'"
proof (induction ks)
  case (Cons k ks)
  then obtain p k' where k': "conn_transmit k = Some (p, k')" "cn_channel k' = cn_channel k" "conn_wf k'"
    using conn_transmit_wf [of k] by auto
  from Cons obtain ks' ps where "server_transmit ks = Some (ks', ps)" "conns_keep ks ks'" by auto
  then show ?case using k' Cons.prems by (auto simp: conns_keep_def)
qed (simp add: conns_keep_def)

section \<open>The operations\<close>

lemma server_Send_state [simp]: "es_state (server_Send to p s) = es_state s"
  by (simp add: server_Send_def)

lemma server_ack_state [simp]: "es_state (server_ack to c n st s) = es_state s"
  by (simp add: server_ack_def)

lemma delBusmonitor_state [simp]: "es_state (delBusmonitor me s) = es_state s"
  by (simp add: delBusmonitor_def Let_def)

lemma addBusmonitor_keeps [simp]: "es_state (addBusmonitor me ok s) = es_state s"
  by (simp add: addBusmonitor_def)

lemma delete_conn_wf: "server_wf s \<Longrightarrow> server_wf (delete_conn me i s)"
proof -
  assume wf: "server_wf s"
  let ?ks = "take i (es_state s) @ drop (Suc i) (es_state s)"
  have "distinct (map cn_channel ?ks)"
  proof (cases "i < length (es_state s)")
    case True
    then have "es_state s = take i (es_state s) @ es_state s ! i # drop (Suc i) (es_state s)" by (rule id_take_nth_drop)
    then have "distinct (map cn_channel (take i (es_state s) @ es_state s ! i # drop (Suc i) (es_state s)))"
      using wf by (simp add: server_wf_def)
    then show ?thesis by (simp only: map_append list.map distinct_append distinct.simps list.set) auto
  next
    case False
    then show ?thesis using wf by (simp add: server_wf_def)
  qed
  moreover have "set ?ks \<subseteq> set (es_state s)" by (auto dest: in_set_takeD in_set_dropD)
  ultimately show ?thesis using wf by (auto simp: server_wf_def delete_conn_def Let_def)
qed

lemma free_channel_from: "n \<le> free_channel ks n"
proof (induction ks n rule: free_channel.induct)
  case (1 ks n)
  show ?case
  proof (cases "\<exists>k\<in>set ks. unat (cn_channel k) = n")
    case True
    then have "n + 1 \<le> free_channel ks (n + 1)" by (rule 1)
    then show ?thesis using True by (simp add: free_channel.simps [of ks n])
  qed (simp add: free_channel.simps [of ks n])
qed

lemma free_channel_unused: "k \<in> set ks \<Longrightarrow> unat (cn_channel k) \<noteq> free_channel ks n"
proof (induction ks n rule: free_channel.induct)
  case (1 ks n)
  show ?case
  proof (cases "\<exists>k\<in>set ks. unat (cn_channel k) = n")
    case True
    then show ?thesis using 1 by (subst free_channel.simps) simp
  next
    case False
    then show ?thesis using "1.prems" by (subst free_channel.simps) auto
  qed
qed

lemma addClient_wf:
  assumes "server_wf s"
  shows "server_wf (snd (addClient ty r s))"
proof (cases "free_channel (es_state s) 1 \<le> 0xff")
  case False
  then show ?thesis using assms by (simp add: addClient_def Let_def)
next
  case True
  let ?c = "of_nat (free_channel (es_state s) 1) :: uchar"
  have u: "unat ?c = free_channel (es_state s) 1" using True by (simp add: of_nat_inverse)
  then have "?c \<noteq> 0" using free_channel_from [of 1 "es_state s"] by auto
  moreover have "?c \<notin> cn_channel ` set (es_state s)" using u free_channel_unused by force
  ultimately show ?thesis using True assms by (auto simp: addClient_def Let_def server_wf_def conn_wf_def)
qed

lemma server_state_wf: "server_wf s \<Longrightarrow> es_state s' = es_state s \<Longrightarrow> server_wf s'"
  by (simp add: server_wf_def)

lemma server_CONNECTION_REQUEST_wf:
  assumes "server_wf s"
  shows "server_wf (server_CONNECTION_REQUEST gsa me ok p s)"
proof -
  obtain e r where r: "parseEIBnet_ConnectRequest p EIBnet_ConnectRequest_new = (e, r)" by fastforce
  obtain n0 s0 where n0: "addClient (if cq_CRI r ! 1 = 0x80 then 1 else 0) r s = (n0, s0)" by fastforce
  obtain n2 s2 where n2: "addClient 2 r s = (n2, s2)" by fastforce
  have w: "server_wf s0" "server_wf s2"
    using addClient_wf [OF assms, of "if cq_CRI r ! 1 = 0x80 then 1 else 0" r] addClient_wf [OF assms, of 2 r] n0 n2 by simp_all
  have "\<exists>s1. es_state (server_CONNECTION_REQUEST gsa me ok p s) = es_state s1 \<and> s1 \<in> {s, s0, s2}"
    using n0 n2 by (auto simp: server_CONNECTION_REQUEST_def r Let_def split: option.split prod.split if_splits)
  then show ?thesis using assms w server_state_wf by blast
qed

lemma server_CONNECTIONSTATE_REQUEST_wf:
  assumes "server_wf s"
  shows "server_wf (server_CONNECTIONSTATE_REQUEST p s)"
proof -
  obtain e r where r: "parseEIBnet_ConnectionStateRequest p EIBnet_ConnectionStateRequest_new = (e, r)" by fastforce
  have "conns_keep (es_state s) (es_state (server_CONNECTIONSTATE_REQUEST p s))"
    by (auto simp: server_CONNECTIONSTATE_REQUEST_def r Let_def conn_wf_def intro: conns_keep_map)
  then show ?thesis using assms conns_keep_wf by blast
qed

lemma server_DISCONNECT_REQUEST_wf: "server_wf s \<Longrightarrow> server_wf (server_DISCONNECT_REQUEST me p s)"
  using delete_conn_wf [of s me] server_state_wf [OF _ server_Send_state]
  by (cases "parseEIBnet_DisconnectRequest p EIBnet_DisconnectRequest_new")
    (auto simp: server_DISCONNECT_REQUEST_def Let_def split: option.split)

lemma first_idx_in: "first_idx P xs = Some i \<Longrightarrow> i < length xs \<and> P (xs ! i)"
  by (induction xs arbitrary: i) (auto split: if_splits)

lemma answer_wf:
  assumes "server_wf s" and "first_idx P (es_state s) = Some i"
  shows "\<exists>s'. map_option (\<lambda>k. set_conn i k s) (conn_acked n st src T (es_state s ! i)) = Some s' \<and> server_wf s'"
proof -
  have i: "i < length (es_state s)" using first_idx_in [OF assms(2)] by simp
  then have "conn_wf (es_state s ! i)" using assms(1) by (simp add: server_wf_def)
  from conn_acked_wf [OF this] obtain k' where k': "conn_acked n st src T (es_state s ! i) = Some k'"
    "cn_channel k' = cn_channel (es_state s ! i)" "conn_wf k'" by blast
  have "conns_keep (es_state s) (es_state (set_conn i k' s))" using conns_keep_update k' i by (simp add: set_conn_def)
  then show ?thesis using k' conns_keep_wf [OF assms(1)] by simp
qed

lemma server_TUNNEL_RESPONSE_wf:
  assumes "server_wf s"
  shows "\<exists>s'. server_TUNNEL_RESPONSE p s = Some s' \<and> server_wf s'"
  using assms answer_wf [OF assms]
  by (cases "parseEIBnet_TunnelACK p EIBnet_TunnelACK_new") (auto simp: server_TUNNEL_RESPONSE_def split: option.split)

lemma server_CONFIG_ACK_wf:
  assumes "server_wf s"
  shows "\<exists>s'. server_CONFIG_ACK p s = Some s' \<and> server_wf s'"
  using assms answer_wf [OF assms]
  by (cases "parseEIBnet_ConfigACK p EIBnet_ConfigACK_new") (auto simp: server_CONFIG_ACK_def split: option.split)

lemma config_accept_wf:
  "config_accept c k = (st, k') \<Longrightarrow> cn_channel k' = cn_channel k \<and> (conn_wf k \<longrightarrow> conn_wf k')"
  by (auto simp: config_accept_def conn_put_wf split: if_splits)

lemma conn_wf_rno [simp]: "conn_wf (k\<lparr>cn_rno := n\<rparr>) = conn_wf k"
  by (simp add: conn_wf_def)

lemma server_CONFIG_REQUEST_wf:
  assumes wf: "server_wf s"
  shows "server_wf (server_CONFIG_REQUEST p s)"
proof -
  obtain e r where r: "parseEIBnet_ConfigRequest p EIBnet_ConfigRequest_new = (e, r)" by fastforce
  have "conns_keep (es_state s) (es_state (server_CONFIG_REQUEST p s))"
  proof (cases "conn_index (gq_channel r) s")
    case None
    then show ?thesis by (simp add: server_CONFIG_REQUEST_def r Let_def)
  next
    case (Some i)
    obtain st k' where k': "config_accept (gq_CEMI r) (es_state s ! i) = (st, k')" by fastforce
    have "conns_keep (es_state s) ((es_state s)[i := k'\<lparr>cn_rno := x\<rparr>])" for x
      using config_accept_wf [OF k'] first_idx_in [OF Some] by (intro conns_keep_update) auto
    then show ?thesis using Some k' by (simp add: server_CONFIG_REQUEST_def r Let_def set_conn_def)
  qed
  then show ?thesis using wf conns_keep_wf by blast
qed

text \<open>A frame from a packet is short enough to be sent back as a confirmation.\<close>

lemma tunnel_accept_wf:
  assumes "length c \<le> 263"
  shows "\<exists>st k' f. tunnel_accept c k = Some (st, k', f) \<and> cn_channel k' = cn_channel k \<and> (conn_wf k \<longrightarrow> conn_wf k')"
proof (cases "cn_type k = 0")
  case False
  then show ?thesis by (simp add: tunnel_accept_def)
next
  case True
  show ?thesis
  proof (cases "CEMI_to_L_Data c")
    case None
    then show ?thesis using True by (simp add: tunnel_accept_def)
  next
    case (Some l)
    have "\<exists>d. L_Data_ToCEMI 0x2E (l\<lparr>hopcount := hopcount l - 1\<rparr>) = Some d" if "hopcount l \<noteq> 0"
      using CEMI_to_L_Data_bounds [OF Some] assms hop_decrement [OF _ that] by (simp add: L_Data_ToCEMI_def)
    then show ?thesis using True Some by (auto simp: tunnel_accept_def Let_def conn_put_wf)
  qed
qed

lemma server_TUNNEL_REQUEST_wf:
  assumes wf: "server_wf s" and len: "length (pdata p) \<le> 249"
  shows "\<exists>s'. server_TUNNEL_REQUEST a p s = Some s' \<and> server_wf s'"
proof -
  obtain e r where r: "parseEIBnet_TunnelRequest p EIBnet_TunnelRequest_new = (e, r)" by fastforce
  have c: "length (tq_CEMI r) \<le> 263" if "e = 0"
    using r that len by (auto simp: parseEIBnet_TunnelRequest_def part_def split: if_splits)
  show ?thesis
  proof (cases "e = 0")
    case False
    then show ?thesis using wf by (simp add: server_TUNNEL_REQUEST_def r)
  next
    case True
    show ?thesis
    proof (cases "conn_index (tq_channel r) s")
      case None
      then show ?thesis using wf by (simp add: server_TUNNEL_REQUEST_def r True)
    next
      case (Some i)
      let ?k = "es_state s ! i"
      obtain st k' f where acc: "tunnel_accept (tq_CEMI r) ?k = Some (st, k', f)" "cn_channel k' = cn_channel ?k"
        "conn_wf ?k \<longrightarrow> conn_wf k'" using tunnel_accept_wf [OF c [OF True]] by blast
      have "conns_keep (es_state s) ((es_state s)[i := k'\<lparr>cn_rno := x\<rparr>])" for x
        using acc(2,3) first_idx_in [OF Some] by (intro conns_keep_update) auto
      then have "server_wf (server_ack to ch n st (set_conn i (k'\<lparr>cn_rno := x\<rparr>)
          (case f of None \<Rightarrow> s | Some c \<Rightarrow> s\<lparr>es_l3 := Layer3_send_L_Data a c (es_l3 s)\<rparr>)))" for to ch n st x
        by (intro conns_keep_wf [OF wf]) (simp add: set_conn_def split: option.split)
      moreover have "server_wf (server_ack to ch n 0 s)" for to ch n using wf by (rule server_state_wf) simp
      ultimately show ?thesis using wf acc(1) by (simp add: server_TUNNEL_REQUEST_def r True Some Let_def)
    qed
  qed
qed

lemma either_wf:
  "(b \<Longrightarrow> \<exists>s'. x = Some s' \<and> P s') \<Longrightarrow> (\<not> b \<Longrightarrow> \<exists>s'. y = Some s' \<and> P s') \<Longrightarrow> \<exists>s'. (if b then x else y) = Some s' \<and> P s'"
  by (cases b) simp_all

lemma server_packet_wf:
  assumes wf: "server_wf s" and len: "length (pdata p) \<le> 249"
  shows "\<exists>s'. server_packet gsa junk jn me ok a p s = Some s' \<and> server_wf s'"
proof -
  have "es_state (server_SEARCH_REQUEST gsa jn p s) = es_state s"
    by (cases "parseEIBnet_SearchRequest p EIBnet_SearchRequest_new") (simp add: server_SEARCH_REQUEST_def split: option.split)
  moreover have "es_state (server_DESCRIPTION_REQUEST junk p s) = es_state s"
    by (cases "parseEIBnet_DescriptionRequest p EIBnet_DescriptionRequest_new") (simp add: server_DESCRIPTION_REQUEST_def)
  moreover have "es_state (server_ROUTING_INDICATION a p s) = es_state s"
    by (simp add: server_ROUTING_INDICATION_def addNAT_def Let_def split: option.split)
  ultimately have "server_wf (server_SEARCH_REQUEST gsa jn p s)" "server_wf (server_DESCRIPTION_REQUEST junk p s)"
    "server_wf (server_ROUTING_INDICATION a p s)"
    using server_state_wf [OF wf] by blast+
  then show ?thesis
    unfolding server_packet_def
    by (intro either_wf) (simp_all add: wf len server_CONNECTIONSTATE_REQUEST_wf server_DISCONNECT_REQUEST_wf
        server_CONNECTION_REQUEST_wf server_TUNNEL_REQUEST_wf server_TUNNEL_RESPONSE_wf server_CONFIG_REQUEST_wf server_CONFIG_ACK_wf)
qed

lemma server_turn_wf:
  assumes wf: "server_wf s" and len: "\<forall>p. p1 = Some p \<longrightarrow> length (pdata p) \<le> 249"
  shows "\<exists>s'. server_turn gsa junk jn me ok a p1 el nel s = Some s' \<and> server_wf s'"
proof -
  define s0 where "s0 = s\<lparr>es_state := map (\<lambda>(i, k). k\<lparr>cn_timeout := cn_timeout k \<or> fst (el i),
      cn_sendtimeout := cn_sendtimeout k \<or> snd (el i)\<rparr>) (List.enumerate 0 (es_state s)),
    es_natstate := nat_expire 0 (map (\<lambda>(i, n). n\<lparr>na_timeout := na_timeout n \<or> nel i\<rparr>) (List.enumerate 0 (es_natstate s)))\<rparr>"
  have "conns_keep ks (map (\<lambda>(i, k). k\<lparr>cn_timeout := cn_timeout k \<or> fst (el i),
      cn_sendtimeout := cn_sendtimeout k \<or> snd (el i)\<rparr>) (List.enumerate n ks))" for ks n
    by (induction ks arbitrary: n) (auto simp: conns_keep_def conn_wf_def)
  then have w0: "server_wf s0" by (intro conns_keep_wf [OF wf]) (simp add: s0_def)
  obtain s1 where s1: "(case p1 of None \<Rightarrow> Some s0 | Some p \<Rightarrow> server_packet gsa junk jn me ok a p s0) = Some s1" "server_wf s1"
  proof (cases p1)
    case None
    then show thesis using that w0 by simp
  next
    case (Some p)
    then have "length (pdata p) \<le> 249" using len by simp
    from server_packet_wf [OF w0 this, of gsa junk jn me ok a] obtain s1
      where "server_packet gsa junk jn me ok a p s0 = Some s1" "server_wf s1" by blast
    then show thesis using that Some by simp
  qed
  have w2: "server_wf (server_timeouts me s1)"
    using s1(2) delete_conn_wf by (simp add: server_timeouts_def split: option.split)
  then have "\<forall>k\<in>set (es_state (server_timeouts me s1)). conn_wf k" by (simp add: server_wf_def)
  from server_transmit_wf [OF this] obtain ks ps where t: "server_transmit (es_state (server_timeouts me s1)) = Some (ks, ps)"
    "conns_keep (es_state (server_timeouts me s1)) ks" by blast
  have "server_turn gsa junk jn me ok a p1 el nel s =
      Some ((server_timeouts me s1)\<lparr>es_state := ks, es_sent := es_sent (server_timeouts me s1) @ ps\<rparr>)"
    using s1(1) t(1) by (simp add: server_turn_def s0_def [symmetric] Let_def)
  moreover have "server_wf ((server_timeouts me s1)\<lparr>es_state := ks, es_sent := es_sent (server_timeouts me s1) @ ps\<rparr>)"
    by (rule conns_keep_wf [OF w2]) (simp add: t(2))
  ultimately show ?thesis by blast
qed

text \<open>Frames of the bus: at most 254 bytes, and a hop count of three bits.\<close>

definition bus_frame_ok :: "l_data \<Rightarrow> bool" where
  "bus_frame_ok l \<longleftrightarrow> 1 \<le> length (data l) \<and> length (data l) < 0xff \<and> hopcount l AND 0xf8 = 0"

lemma bus_frame_CEMI: "bus_frame_ok l \<Longrightarrow> \<exists>c. L_Data_ToCEMI code l = Some c"
  by (simp add: bus_frame_ok_def L_Data_ToCEMI_def)

lemma route_frames_wf:
  "\<forall>l\<in>set ls. bus_frame_ok l \<Longrightarrow> \<exists>s'. route_frames ls s = Some s' \<and> es_state s' = es_state s"
proof (induction ls arbitrary: s)
  case (Cons l ls)
  then obtain c where "L_Data_ToCEMI 0x29 l = Some c" using bus_frame_CEMI [of l "0x29"] by auto
  then show ?case using Cons.IH [of "server_Send (es_maddr s) (packet_of ROUTING_INDICATION c) s"] Cons.prems by simp
qed simp

lemma server_Get_L_Data_wf:
  assumes wf: "server_wf s" and l: "bus_frame_ok l"
  shows "\<exists>s'. server_Get_L_Data own l s = Some s' \<and> server_wf s'"
proof (cases "hopcount l = 0 \<or> own")
  case True
  then show ?thesis using wf by (auto simp: server_Get_L_Data_def)
next
  case False
  let ?l = "l\<lparr>hopcount := hopcount l - 1\<rparr>"
  have ok: "bus_frame_ok ?l" using l False hop_decrement by (simp add: bus_frame_ok_def)
  then have "\<forall>x\<in>set (route_targets (es_natstate s) ?l). bus_frame_ok x"
    by (auto simp: route_targets_def bus_frame_ok_def Let_def)
  then obtain s1 where s1: "(if es_route s then route_frames (route_targets (es_natstate s) ?l) s else Some s) = Some s1"
    "es_state s1 = es_state s"
    using route_frames_wf [of "route_targets (es_natstate s) ?l" s] by (cases "es_route s") auto
  obtain c where c: "L_Data_ToCEMI 0x29 ?l = Some c" using bus_frame_CEMI [OF ok] by blast
  have "conns_keep (es_state s) (map (\<lambda>k. if cn_type k = 0 then conn_put c k else k) (es_state s))"
    by (rule conns_keep_map) (auto simp: conn_put_wf)
  then have "server_wf (s1\<lparr>es_state := map (\<lambda>k. if cn_type k = 0 then conn_put c k else k) (es_state s1)\<rparr>)" "server_wf s1"
    using conns_keep_wf [OF wf] s1(2) by simp_all
  then show ?thesis using False s1(1) c by (simp add: server_Get_L_Data_def Let_def)
qed

lemma server_Get_L_Busmonitor_wf: "server_wf s \<Longrightarrow> server_wf (server_Get_L_Busmonitor c s)"
proof (rule conns_keep_wf)
  show "conns_keep (es_state s) (es_state (server_Get_L_Busmonitor c s))"
    unfolding server_Get_L_Busmonitor_def
    by (simp, rule conns_keep_map) (auto intro: conn_put_wf simp: conn_wf_def conn_put_def)
qed

section \<open>Runs of the server\<close>

datatype server_event =
    Server_wakes "EIBNetIPPacket option" "nat \<Rightarrow> bool \<times> bool" "nat \<Rightarrow> bool"
  | Server_frame bool l_data
  | Server_monitor CArray

text \<open>The surroundings of a run: what the parameters of \<open>server_turn\<close> are.\<close>

fun server_run ::
    "(sockaddr_in \<Rightarrow> sockaddr_in option) \<Rightarrow> uchar memory \<Rightarrow> bool \<Rightarrow> nat \<Rightarrow> bool \<Rightarrow> eibaddr_t \<Rightarrow>
     server_event list \<Rightarrow> eibnet_server \<Rightarrow> eibnet_server option" where
  "server_run gsa junk jn me ok a [] s = Some s"
| "server_run gsa junk jn me ok a (Server_wakes p el nel # es) s =
     Option.bind (server_turn gsa junk jn me ok a p el nel s) (server_run gsa junk jn me ok a es)"
| "server_run gsa junk jn me ok a (Server_frame own l # es) s =
     Option.bind (server_Get_L_Data own l s) (server_run gsa junk jn me ok a es)"
| "server_run gsa junk jn me ok a (Server_monitor c # es) s =
     server_run gsa junk jn me ok a es (server_Get_L_Busmonitor c s)"

text \<open>
  A packet comes from a receive buffer of 255 bytes, of which six are its header.
\<close>

fun server_event_ok :: "server_event \<Rightarrow> bool" where
  "server_event_ok (Server_wakes p el nel) \<longleftrightarrow> (case p of None \<Rightarrow> True | Some p \<Rightarrow> length (pdata p) \<le> 249)"
| "server_event_ok (Server_frame own l) \<longleftrightarrow> bus_frame_ok l"
| "server_event_ok (Server_monitor c) \<longleftrightarrow> True"

lemma server_run_wf:
  "server_wf s \<Longrightarrow> \<forall>e\<in>set es. server_event_ok e \<Longrightarrow> \<exists>s'. server_run gsa junk jn me ok a es s = Some s' \<and> server_wf s'"
proof (induction es arbitrary: s)
  case (Cons e es)
  show ?case
  proof (cases e)
    case (Server_wakes p el nel)
    then have "\<forall>q. p = Some q \<longrightarrow> length (pdata q) \<le> 249" using Cons.prems by auto
    from server_turn_wf [OF Cons.prems(1) this, of gsa junk jn me ok a el nel] obtain s1
      where s1: "server_turn gsa junk jn me ok a p el nel s = Some s1" "server_wf s1" by blast
    show ?thesis using Cons.IH [OF s1(2)] Cons.prems(2) s1(1) Server_wakes by simp
  next
    case (Server_frame own l)
    then have "bus_frame_ok l" using Cons.prems by simp
    from server_Get_L_Data_wf [OF Cons.prems(1) this, of own] obtain s1
      where s1: "server_Get_L_Data own l s = Some s1" "server_wf s1" by blast
    show ?thesis using Cons.IH [OF s1(2)] Cons.prems(2) s1(1) Server_frame by simp
  next
    case (Server_monitor c)
    then show ?thesis using Cons.IH [OF server_Get_L_Busmonitor_wf [OF Cons.prems(1)]] Cons.prems(2) by simp
  qed
qed simp

lemma server_start_wf: "EIBnetServer_start junk me ok1 ok2 maddr port tunnel route discover l3 = (b, s) \<Longrightarrow> server_wf s"
  by (auto simp: EIBnetServer_start_def Let_def server_wf_def split: if_splits prod.splits)

end
