(* ===== verification/TunnelProofs.thy ===== *)
theory TunnelProofs
  imports Tunnel EibNetServerProofs
begin

text \<open>
  What every operation of the tunnelling client keeps: the ranges of its counters, which are
  \<open>int\<close> variables that go into bytes, and the agreement of its semaphores with its queues. As long
  as it is not switched to bus monitor mode, no \<open>assert\<close> can fail.
\<close>

section \<open>Runs of the client\<close>

datatype tunnel_event =
    Tunnel_turn "EIBNetIPPacket option" bool bool
  | Tunnel_send lpdu
  | Tunnel_get
  | Tunnel_vmode bool
  | Tunnel_bmode bool

fun tunnel_step :: "tunnel_event \<Rightarrow> tunnel \<Rightarrow> tunnel option" where
  "tunnel_step (Tunnel_turn p el el1) t = tunnel_turn p el el1 t"
| "tunnel_step (Tunnel_send l) t = EIBNetIPTunnel_Send_L_Data l t"
| "tunnel_step Tunnel_get t = map_option snd (EIBNetIPTunnel_Get_L_Data t)"
| "tunnel_step (Tunnel_vmode b) t =
     Some (if b then EIBNetIPTunnel_openVBusmonitor t else EIBNetIPTunnel_closeVBusmonitor t)"
| "tunnel_step (Tunnel_bmode b) t =
     Some (if b then EIBNetIPTunnel_enterBusmonitor t else EIBNetIPTunnel_leaveBusmonitor t)"

fun tunnel_run :: "tunnel_event list \<Rightarrow> tunnel \<Rightarrow> tunnel option" where
  "tunnel_run [] t = Some t"
| "tunnel_run (e # es) t = Option.bind (tunnel_step e t) (tunnel_run es)"

section \<open>The ranges of the variables\<close>

definition tunnel_typed :: "tunnel \<Rightarrow> bool" where
  "tunnel_typed t \<longleftrightarrow>
     -1 \<le> tn_channel t \<and> tn_channel t \<le> 255 \<and> tn_mod t \<in> {0, 1, 2, 3} \<and>
     0 \<le> tn_rno t \<and> tn_rno t \<le> 255 \<and> 0 \<le> tn_sno t \<and> tn_sno t \<le> 255 \<and>
     0 \<le> tn_retry t \<and> tn_retry t \<le> 3 \<and> 0 \<le> tn_heartbeat t \<and> tn_heartbeat t \<le> 5 \<and> 0 \<le> tn_drop t \<and>
     length (cq_CRI (tn_creq t)) = 3 \<and>
     tn_insignal t = length (tn_inqueue t) \<and> tn_outsignal t = length (tn_outqueue t)"

text \<open>The part of the state that the types are about, so that sending and the rest drop out.\<close>

lemma typed_ops [simp]:
  "tunnel_typed (tunnel_Send a p t) = tunnel_typed t"
  "tunnel_typed (tunnel_ack n t) = tunnel_typed t"
  "tunnel_typed (tunnel_disconnect t) = tunnel_typed t"
  "tunnel_typed (tunnel_connect t) = tunnel_typed t"
  "tunnel_typed (tunnel_in c t) = tunnel_typed t"
  "tunnel_typed (tunnel_out l t) = tunnel_typed t"
  "tunnel_typed (t\<lparr>tn_recvall := r\<rparr>) = tunnel_typed t"
  "tunnel_typed (t\<lparr>tn_timeout := b\<rparr>) = tunnel_typed t"
  "tunnel_typed (t\<lparr>tn_timeout1 := b\<rparr>) = tunnel_typed t"
  "tunnel_typed (t\<lparr>tn_cresp := cr\<rparr>) = tunnel_typed t"
  "tunnel_typed (t\<lparr>tn_dreq := dr\<rparr>) = tunnel_typed t"
  "tunnel_typed (t\<lparr>tn_support_busmonitor := b\<rparr>) = tunnel_typed t"
  "tunnel_typed (t\<lparr>tn_connect_busmonitor := b\<rparr>) = tunnel_typed t"
  "tunnel_typed (t\<lparr>tn_imode := i\<rparr>) = tunnel_typed t"
  "tunnel_typed (t\<lparr>tn_vmode := i\<rparr>) = tunnel_typed t"
  by (simp_all add: tunnel_typed_def tunnel_Send_def tunnel_ack_def tunnel_disconnect_def tunnel_connect_def tunnel_in_def
      tunnel_out_def Let_def)

lemma typed_mod: "tunnel_typed t \<Longrightarrow> m \<in> {0, 1, 2, 3} \<Longrightarrow> tunnel_typed (t\<lparr>tn_mod := m\<rparr>)"
  by (simp add: tunnel_typed_def)

lemma typed_take: "tunnel_typed t \<Longrightarrow> tunnel_take t = Some t' \<Longrightarrow> tunnel_typed t'"
  by (auto simp: tunnel_typed_def tunnel_take_def split: list.splits if_splits)

lemma typed_counters:
  "tunnel_typed t \<Longrightarrow> tunnel_typed (t\<lparr>tn_retry := 0\<rparr>)" "tunnel_typed t \<Longrightarrow> 0 \<le> d \<Longrightarrow> tunnel_typed (t\<lparr>tn_drop := d\<rparr>)"
  "tunnel_typed t \<Longrightarrow> tunnel_typed (t\<lparr>tn_sno := (if tn_sno t + 1 > 0xff then 0 else tn_sno t + 1)\<rparr>)"
  "tunnel_typed t \<Longrightarrow> tunnel_typed (t\<lparr>tn_rno := (if tn_rno t + 1 > 0xff then 0 else tn_rno t + 1)\<rparr>)"
  by (simp_all add: tunnel_typed_def)

lemma typed_drop_nonneg: "tunnel_typed t \<Longrightarrow> 0 \<le> tn_drop t"
  by (simp add: tunnel_typed_def)

lemma CONNECTION_RESPONSE_typed: "tunnel_typed t \<Longrightarrow> tunnel_typed (tunnel_CONNECTION_RESPONSE p t)"
proof -
  assume t: "tunnel_typed t"
  obtain e r where r: "parseEIBnet_ConnectResponse p (tn_cresp t) = (e, r)" by fastforce
  show ?thesis
  proof (cases "tn_mod t \<noteq> 0 \<or> e \<noteq> 0")
    case True
    then show ?thesis using t by (auto simp: tunnel_CONNECTION_RESPONSE_def r)
  next
    case ok: False
    show ?thesis
    proof (cases "cp_status r = 0 \<and> length (cp_CRD r) = 3")
      case True
      have "uint (cp_channel r) \<le> 255" "- 1 \<le> uint (cp_channel r)"
        using uint_lt2p [of "cp_channel r"] uint_ge_0 [of "cp_channel r"] by (simp, linarith)
      then show ?thesis using t ok True by (simp add: tunnel_CONNECTION_RESPONSE_def r Let_def tunnel_typed_def)
    next
      case False
      have "tunnel_typed (t\<lparr>tn_creq := (tn_creq t)\<lparr>cq_CRI := (cq_CRI (tn_creq t))[1 := x]\<rparr>\<rparr>)" for x
        using t by (simp add: tunnel_typed_def)
      then show ?thesis using t ok False
        by (auto simp: tunnel_CONNECTION_RESPONSE_def r Let_def tunnel_typed_def tunnel_connect_def tunnel_Send_def)
    qed
  qed
qed

lemma tunnel_frame_typed: "tunnel_typed t \<Longrightarrow> tunnel_frame c t = Some t' \<Longrightarrow> tunnel_typed t'"
  by (auto simp: tunnel_frame_def Let_def typed_mod split: if_splits option.splits)

lemma TUNNEL_REQUEST_typed:
  assumes t: "tunnel_typed t" and run: "tunnel_TUNNEL_REQUEST p t = Some t'"
  shows "tunnel_typed t'"
proof -
  obtain e r where r: "parseEIBnet_TunnelRequest p EIBnet_TunnelRequest_new = (e, r)" by fastforce
  note u = run[unfolded tunnel_TUNNEL_REQUEST_def r Let_def prod.case]
  show ?thesis
  proof (cases "tn_mod t = 0 \<or> e \<noteq> 0 \<or> uint (tq_channel r) \<noteq> tn_channel t")
    case True
    then have "t' = t" using u by (simp split: if_splits)
    then show ?thesis using t by simp
  next
    case mine: False
    show ?thesis
    proof (cases "(uint (tq_seqno r) + 1) mod 256 = tn_rno t")
      case True
      then have "t' = (tunnel_ack (tq_seqno r) t)\<lparr>tn_recvall := 0\<rparr>" using u mine by simp
      then show ?thesis using t by simp
    next
      case new: False
      show ?thesis
      proof (cases "uint (tq_seqno r) = tn_rno t")
        case True
        then have f: "tunnel_frame (tq_CEMI r) (tunnel_ack (tq_seqno r)
            (t\<lparr>tn_rno := (if tn_rno t + 1 > 0xff then 0 else tn_rno t + 1)\<rparr>)) = Some t'"
          using u mine new by simp
        have "tunnel_typed (tunnel_ack (tq_seqno r) (t\<lparr>tn_rno := (if tn_rno t + 1 > 0xff then 0 else tn_rno t + 1)\<rparr>))"
          by (simp only: typed_ops typed_counters(4) [OF t])
        from tunnel_frame_typed [OF this f] show ?thesis .
      next
        case wrong: False
        then have "t' = t \<or> t' = (tunnel_disconnect t)\<lparr>tn_recvall := 0, tn_mod := 0\<rparr>" using u mine new by (auto split: if_splits)
        then show ?thesis using t by (auto simp: typed_mod)
      qed
    qed
  qed
qed

lemma TUNNEL_RESPONSE_typed:
  assumes t: "tunnel_typed t" and run: "tunnel_TUNNEL_RESPONSE p t = Some t'"
  shows "tunnel_typed t'"
proof -
  let ?t = "t\<lparr>tn_sno := (if tn_sno t + 1 > 0xff then 0 else tn_sno t + 1)\<rparr>"
  obtain e r where r: "parseEIBnet_TunnelACK p EIBnet_TunnelACK_new = (e, r)" by fastforce
  note u = run[unfolded tunnel_TUNNEL_RESPONSE_def r Let_def prod.case]
  show ?thesis
  proof (cases "tn_mod t = 2 \<and> e = 0 \<and> uint (ta_channel r) = tn_channel t \<and> uint (ta_seqno r) = tn_sno t \<and> ta_status r = 0")
    case False
    then have "t' = t" using u by (simp split: if_splits)
    then show ?thesis using t by simp
  next
    case True
    then have "map_option (\<lambda>s. if tn_noqueue s then s\<lparr>tn_mod := 3, tn_timeout := False, tn_retry := 0, tn_drop := 0\<rparr>
                     else s\<lparr>tn_mod := 1, tn_retry := 0, tn_drop := 0\<rparr>) (tunnel_take ?t) = Some t'"
      using u by simp
    then obtain t1 where t1: "tunnel_take ?t = Some t1"
      and t': "t' = (if tn_noqueue t1 then t1\<lparr>tn_mod := 3, tn_timeout := False, tn_retry := 0, tn_drop := 0\<rparr>
                     else t1\<lparr>tn_mod := 1, tn_retry := 0, tn_drop := 0\<rparr>)" by blast
    have "tunnel_typed t1" by (rule typed_take [OF typed_counters(3) [OF t] t1])
    then show ?thesis unfolding t' by (simp add: tunnel_typed_def)
  qed
qed

lemma tunnel_packet_typed:
  assumes t: "tunnel_typed t" and run: "tunnel_packet p t = Some t'"
  shows "tunnel_typed t'"
proof -
  have c: "tunnel_typed (tunnel_CONNECTIONSTATE_RESPONSE p t)"
    using t by (cases "parseEIBnet_ConnectionStateResponse p EIBnet_ConnectionStateResponse_new")
      (auto simp: tunnel_CONNECTIONSTATE_RESPONSE_def tunnel_typed_def tunnel_disconnect_def tunnel_Send_def Let_def)
  have d: "tunnel_typed (tunnel_DISCONNECT_REQUEST p t)"
    using t by (cases "parseEIBnet_DisconnectRequest p (tn_dreq t)") (auto simp: tunnel_DISCONNECT_REQUEST_def typed_mod Let_def)
  have e: "tunnel_typed (tunnel_DISCONNECT_RESPONSE p t)"
    using t by (cases "parseEIBnet_DisconnectResponse p EIBnet_DisconnectResponse_new")
      (auto simp: tunnel_DISCONNECT_RESPONSE_def tunnel_typed_def)
  show ?thesis
    using run t c d e CONNECTION_RESPONSE_typed [OF t, of p] TUNNEL_REQUEST_typed [OF t, of p t'] TUNNEL_RESPONSE_typed [OF t, of p t']
    unfolding tunnel_packet_def by (simp split: if_splits)
qed

lemma tunnel_retry_typed:
  assumes t: "tunnel_typed t" and run: "tunnel_retry t = Some t'"
  shows "tunnel_typed t'"
proof (cases "tn_mod t = 2 \<and> tn_timeout t")
  case False
  then have "tunnel_retry t = Some t" unfolding tunnel_retry_def by (rule if_not_P)
  then show ?thesis using t run by simp
next
  case True
  let ?t = "t\<lparr>tn_mod := 1, tn_retry := tn_retry t + 1\<rparr>"
  show ?thesis
  proof (cases "tn_retry t + 1 > 3")
    case False
    then show ?thesis using t run True by (auto simp: tunnel_retry_def tunnel_typed_def Let_def)
  next
    case over: True
    then obtain t1 where t1: "tunnel_take ?t = Some t1"
      and t': "t' = (let s = t1\<lparr>tn_retry := 0, tn_drop := tn_drop t1 + 1\<rparr>
                in if tn_drop s \<ge> 3 then (tunnel_disconnect s)\<lparr>tn_recvall := 0, tn_mod := 0\<rparr> else s)"
      using run True by (auto simp: tunnel_retry_def Let_def)
    have "tunnel_typed (t1\<lparr>tn_retry := 0, tn_drop := tn_drop t1 + 1\<rparr>)"
      using t t1 by (auto simp: tunnel_typed_def tunnel_take_def split: list.splits if_splits)
    then show ?thesis unfolding t' Let_def by (simp add: typed_mod)
  qed
qed

lemma tunnel_heartbeat_typed: "tunnel_typed t \<Longrightarrow> tunnel_typed (tunnel_heartbeat t)"
proof -
  assume t: "tunnel_typed t"
  have "tunnel_typed (t\<lparr>tn_heartbeat := tn_heartbeat t + 1\<rparr>)" if "tn_heartbeat t < 5"
    using t that by (simp add: tunnel_typed_def)
  then show ?thesis using t
    by (simp add: tunnel_heartbeat_def Let_def typed_mod) (auto simp add: tunnel_typed_def tunnel_Send_def)
qed

lemma tunnel_connectretry_typed: "tunnel_typed t \<Longrightarrow> tunnel_typed (tunnel_connectretry t)"
  by (simp add: tunnel_connectretry_def) (simp add: tunnel_typed_def)

lemma tunnel_timers_typed: "tunnel_typed t \<Longrightarrow> tunnel_typed (tunnel_timers t)"
  unfolding tunnel_timers_def by (intro tunnel_connectretry_typed tunnel_heartbeat_typed) (simp add: typed_mod)

lemma tunnel_turn_typed:
  assumes t: "tunnel_typed t" and run: "tunnel_turn p1 el el1 t = Some t'"
  shows "tunnel_typed t'"
proof -
  let ?t0 = "t\<lparr>tn_timeout := tn_timeout t \<or> el, tn_timeout1 := tn_timeout1 t \<or> el1\<rparr>"
  obtain t1 t2 t3 where r: "(case p1 of None \<Rightarrow> Some ?t0 | Some p \<Rightarrow> tunnel_packet p ?t0) = Some t1"
    "tunnel_retry t1 = Some t2" "tunnel_reconnect (tunnel_timers t2) = Some t3" "t' = tunnel_transmit t3"
    using run by (auto simp: tunnel_turn_def Let_def split: option.splits)
  have t0: "tunnel_typed ?t0" using t by (simp only: typed_ops)
  have "tunnel_typed t1"
  proof (cases p1)
    case None
    then have "t1 = ?t0" using r(1) by simp
    then show ?thesis using t0 by simp
  next
    case (Some p)
    then have "tunnel_packet p ?t0 = Some t1" using r(1) by simp
    then show ?thesis by (rule tunnel_packet_typed [OF t0])
  qed
  from tunnel_timers_typed [OF tunnel_retry_typed [OF this r(2)]] have "tunnel_typed (tunnel_timers t2)" .
  then have "tunnel_typed t3" using r(3) typed_take by (auto simp: tunnel_reconnect_def split: if_splits)
  then show ?thesis unfolding r(4) tunnel_transmit_def by (simp add: typed_mod)
qed

lemma tunnel_step_typed:
  assumes t: "tunnel_typed t" and run: "tunnel_step e t = Some t'"
  shows "tunnel_typed t'"
proof (cases e)
  case (Tunnel_turn p el el1)
  then show ?thesis using tunnel_turn_typed [OF t] run by simp
next
  case (Tunnel_send l)
  then show ?thesis using t run
    by (auto simp: EIBNetIPTunnel_Send_L_Data_def Let_def split: lpdu.splits if_splits option.splits)
next
  case Tunnel_get
  then show ?thesis using t run
    by (auto simp: EIBNetIPTunnel_Get_L_Data_def tunnel_typed_def split: if_splits list.splits)
next
  case (Tunnel_vmode b)
  then show ?thesis using t run by (auto simp: EIBNetIPTunnel_openVBusmonitor_def EIBNetIPTunnel_closeVBusmonitor_def)
next
  case (Tunnel_bmode b)
  then show ?thesis using t run by (auto simp: EIBNetIPTunnel_enterBusmonitor_def EIBNetIPTunnel_leaveBusmonitor_def)
qed

lemma tunnel_run_typed: "tunnel_run es t = Some t' \<Longrightarrow> tunnel_typed t \<Longrightarrow> tunnel_typed t'"
proof (induction es arbitrary: t)
  case (Cons e es)
  then obtain t1 where "tunnel_step e t = Some t1" "tunnel_run es t1 = Some t'" by (auto simp: bind_eq_Some_conv)
  then show ?case using Cons tunnel_step_typed by blast
qed simp

lemma tunnel_new_typed: "tunnel_typed (EIBNetIPTunnel_new c s n d q)"
  by (simp add: EIBNetIPTunnel_new_def tunnel_typed_def)

section \<open>No assert fails\<close>

text \<open>Outside the bus monitor mode: the queue holds frames only, and the frame in flight is its head.\<close>

definition tunnel_calm :: "tunnel \<Rightarrow> bool" where
  "tunnel_calm t \<longleftrightarrow> tunnel_typed t \<and> [] \<notin> set (tn_inqueue t) \<and> (tn_mod t = 2 \<longrightarrow> tn_inqueue t \<noteq> [])"

definition stays :: "tunnel \<Rightarrow> tunnel \<Rightarrow> bool" where
  "stays t t' \<longleftrightarrow> tn_inqueue t' = tn_inqueue t \<and> (tn_mod t' = 2 \<longrightarrow> tn_mod t = 2)"

lemma stays_calm: "tunnel_calm t \<Longrightarrow> tunnel_typed t' \<Longrightarrow> stays t t' \<Longrightarrow> tunnel_calm t'"
  by (auto simp: tunnel_calm_def stays_def)

lemma stays_refl [simp]: "stays t t"
  by (simp add: stays_def)

lemma take_calm:
  assumes "tunnel_calm t" and "tn_inqueue t \<noteq> []"
  shows "\<exists>t'. tunnel_take t = Some t' \<and> tunnel_typed t' \<and> tn_inqueue t' = tl (tn_inqueue t) \<and> tn_mod t' = tn_mod t"
proof -
  obtain c q where q: "tn_inqueue t = c # q" using assms(2) by (cases "tn_inqueue t") auto
  have "tn_insignal t \<noteq> 0" using assms q by (auto simp: tunnel_calm_def tunnel_typed_def)
  then obtain t' where t': "tunnel_take t = Some t'" "tn_inqueue t' = tl (tn_inqueue t)" "tn_mod t' = tn_mod t"
    using q by (simp add: tunnel_take_def)
  then show ?thesis using typed_take assms(1) by (auto simp: tunnel_calm_def)
qed

lemma CEMI_ToPacket:
  assumes "CEMI_to_L_Data c = Some d" and "length c \<le> 245"
  shows "\<exists>p. L_Data_ToPacket d = Some p"
  using CEMI_to_L_Data_bounds [OF assms(1)] assms(2)
  by (simp add: L_Data_ToPacket_def L_Data_asserts_def Let_def)

lemma tunnel_frame_calm:
  assumes len: "length c \<le> 245"
  shows "\<exists>t'. tunnel_frame c t = Some t' \<and> stays t t'"
proof (cases "CEMI_to_L_Data c")
  case None
  then show ?thesis by (auto simp: tunnel_frame_def stays_def tunnel_out_def)
next
  case (Some d)
  obtain p where p: "L_Data_ToPacket d = Some p" using CEMI_ToPacket [OF Some len] by blast
  show ?thesis using Some p by (auto simp: tunnel_frame_def stays_def tunnel_out_def Let_def)
qed

lemma stays_ops [simp]:
  "stays t (tunnel_Send a p t)" "stays t (tunnel_ack n t)" "stays t (tunnel_disconnect t)" "stays t (tunnel_connect t)"
  by (simp_all add: stays_def tunnel_Send_def tunnel_ack_def tunnel_disconnect_def tunnel_connect_def Let_def)

lemma stays_ack: "stays (tunnel_ack n (t\<lparr>tn_rno := r\<rparr>)) t' \<Longrightarrow> stays t t'"
  by (simp add: stays_def tunnel_ack_def tunnel_Send_def)

lemma stays_end: "stays t ((tunnel_ack n t)\<lparr>tn_recvall := 0\<rparr>)" "stays t ((tunnel_disconnect t)\<lparr>tn_recvall := 0, tn_mod := 0\<rparr>)"
  by (simp_all add: stays_def tunnel_Send_def tunnel_ack_def tunnel_disconnect_def Let_def)

lemma TUNNEL_REQUEST_calm:
  assumes len: "length (pdata p) \<le> 249"
  shows "\<exists>t'. tunnel_TUNNEL_REQUEST p t = Some t' \<and> stays t t'"
proof -
  obtain e r where r: "parseEIBnet_TunnelRequest p EIBnet_TunnelRequest_new = (e, r)" by fastforce
  show ?thesis
  proof (cases "tn_mod t = 0 \<or> e \<noteq> 0 \<or> uint (tq_channel r) \<noteq> tn_channel t")
    case True
    then show ?thesis by (auto simp: tunnel_TUNNEL_REQUEST_def r)
  next
    case mine: False
    then have "length (tq_CEMI r) \<le> 245"
      using r len by (auto simp: parseEIBnet_TunnelRequest_def part_def split: if_splits)
    from tunnel_frame_calm [OF this, of "tunnel_ack (tq_seqno r) (t\<lparr>tn_rno := (if tn_rno t + 1 > 0xff then 0 else tn_rno t + 1)\<rparr>)"]
    obtain t1 where t1: "tunnel_frame (tq_CEMI r) (tunnel_ack (tq_seqno r) (t\<lparr>tn_rno := (if tn_rno t + 1 > 0xff then 0 else tn_rno t + 1)\<rparr>)) = Some t1"
      "stays t t1" using stays_ack by blast
    show ?thesis
    proof (cases "uint (tq_seqno r) = tn_rno t")
      case True
      then show ?thesis using mine t1 stays_end [of t] by (cases "(uint (tq_seqno r) + 1) mod 256 = tn_rno t")
          (simp_all add: tunnel_TUNNEL_REQUEST_def r)
    next
      case False
      then show ?thesis using mine stays_end [of t] by (simp add: tunnel_TUNNEL_REQUEST_def r)
    qed
  qed
qed

lemma TUNNEL_RESPONSE_calm:
  assumes calm: "tunnel_calm t"
  shows "\<exists>t'. tunnel_TUNNEL_RESPONSE p t = Some t' \<and> tunnel_calm t'"
proof -
  let ?t = "t\<lparr>tn_sno := (if tn_sno t + 1 > 0xff then 0 else tn_sno t + 1)\<rparr>"
  obtain e r where r: "parseEIBnet_TunnelACK p EIBnet_TunnelACK_new = (e, r)" by fastforce
  show ?thesis
  proof (cases "tn_mod t = 2 \<and> e = 0 \<and> uint (ta_channel r) = tn_channel t \<and> uint (ta_seqno r) = tn_sno t \<and> ta_status r = 0")
    case False
    then have "tunnel_TUNNEL_RESPONSE p t = Some t" by (auto simp: tunnel_TUNNEL_RESPONSE_def r)
    then show ?thesis using calm by simp
  next
    case True
    have "tunnel_typed ?t" using typed_counters(3) calm by (simp only: tunnel_calm_def)
    then have c: "tunnel_calm ?t" "tn_inqueue ?t \<noteq> []" using calm True by (simp_all only: tunnel_calm_def) simp_all
    from take_calm [OF c] obtain t1 where t1: "tunnel_take ?t = Some t1" "tunnel_typed t1" "tn_inqueue t1 = tl (tn_inqueue t)" by auto
    have "[] \<notin> set (tl (tn_inqueue t))" using calm c(2) by (cases "tn_inqueue t") (auto simp: tunnel_calm_def)
    then have "tunnel_calm (t1\<lparr>tn_mod := 3, tn_timeout := False, tn_retry := 0, tn_drop := 0\<rparr>)"
      "tunnel_calm (t1\<lparr>tn_mod := 1, tn_retry := 0, tn_drop := 0\<rparr>)"
      using t1 by (simp_all add: tunnel_calm_def tunnel_typed_def)
    then show ?thesis using True t1(1) by (simp add: tunnel_TUNNEL_RESPONSE_def r)
  qed
qed

lemma CONNECTION_RESPONSE_stays: "stays t (tunnel_CONNECTION_RESPONSE p t)"
  by (cases "parseEIBnet_ConnectResponse p (tn_cresp t)")
    (simp add: tunnel_CONNECTION_RESPONSE_def stays_def Let_def tunnel_connect_def tunnel_Send_def)

lemma CONNECTIONSTATE_RESPONSE_stays: "stays t (tunnel_CONNECTIONSTATE_RESPONSE p t)"
  by (cases "parseEIBnet_ConnectionStateResponse p EIBnet_ConnectionStateResponse_new")
    (simp add: tunnel_CONNECTIONSTATE_RESPONSE_def stays_def tunnel_disconnect_def tunnel_Send_def Let_def)

lemma DISCONNECT_REQUEST_stays: "stays t (tunnel_DISCONNECT_REQUEST p t)"
  by (cases "parseEIBnet_DisconnectRequest p (tn_dreq t)") (simp add: tunnel_DISCONNECT_REQUEST_def stays_def tunnel_Send_def Let_def)

lemma DISCONNECT_RESPONSE_stays: "stays t (tunnel_DISCONNECT_RESPONSE p t)"
  by (cases "parseEIBnet_DisconnectResponse p EIBnet_DisconnectResponse_new") (simp add: tunnel_DISCONNECT_RESPONSE_def stays_def)

lemma tunnel_packet_calm:
  assumes calm: "tunnel_calm t" and len: "length (pdata p) \<le> 249"
  shows "\<exists>t'. tunnel_packet p t = Some t' \<and> tunnel_calm t'"
proof (cases "service p = TUNNEL_RESPONSE")
  case True
  then show ?thesis using TUNNEL_RESPONSE_calm [OF calm] by (simp add: tunnel_packet_def)
next
  case False
  then have "\<exists>t'. tunnel_packet p t = Some t' \<and> stays t t'"
    unfolding tunnel_packet_def
    by (intro either_wf) (simp_all add: TUNNEL_REQUEST_calm [OF len] CONNECTION_RESPONSE_stays CONNECTIONSTATE_RESPONSE_stays
        DISCONNECT_REQUEST_stays DISCONNECT_RESPONSE_stays)
  then obtain t' where t': "tunnel_packet p t = Some t'" "stays t t'" by blast
  moreover have "tunnel_typed t'" using tunnel_packet_typed [OF _ t'(1)] calm by (simp add: tunnel_calm_def)
  ultimately show ?thesis using stays_calm [OF calm] by blast
qed

lemma tunnel_retry_calm:
  assumes calm: "tunnel_calm t"
  shows "\<exists>t'. tunnel_retry t = Some t' \<and> tunnel_calm t'"
proof -
  let ?t = "t\<lparr>tn_mod := 1, tn_retry := tn_retry t + 1\<rparr>"
  have "\<exists>t'. tunnel_retry t = Some t' \<and> [] \<notin> set (tn_inqueue t') \<and> (tn_mod t' = 2 \<longrightarrow> tn_inqueue t' \<noteq> [])"
  proof (cases "tn_mod t = 2 \<and> tn_timeout t")
    case False
    then have "tunnel_retry t = Some t" unfolding tunnel_retry_def by (rule if_not_P)
    then show ?thesis using calm by (simp add: tunnel_calm_def)
  next
    case True
    show ?thesis
    proof (cases "tn_retry t + 1 > 3")
      case False
      then show ?thesis using True calm by (simp add: tunnel_retry_def Let_def tunnel_calm_def)
    next
      case over: True
      obtain c q where q: "tn_inqueue t = c # q" using calm True by (cases "tn_inqueue t") (auto simp: tunnel_calm_def)
      have "tn_insignal t = length (tn_inqueue t)" using calm by (simp add: tunnel_calm_def tunnel_typed_def)
      then have "tunnel_take ?t = Some (?t\<lparr>tn_inqueue := q, tn_insignal := tn_insignal t - 1\<rparr>)"
        using q by (simp add: tunnel_take_def)
      then show ?thesis using True over calm q
        by (simp add: tunnel_retry_def Let_def tunnel_calm_def tunnel_disconnect_def tunnel_Send_def)
    qed
  qed
  then show ?thesis using tunnel_retry_typed calm unfolding tunnel_calm_def by blast
qed

lemma tunnel_timers_stays: "stays t (tunnel_timers t)"
proof -
  have h: "stays t (tunnel_heartbeat t)" for t
    by (simp add: stays_def tunnel_heartbeat_def Let_def tunnel_disconnect_def tunnel_Send_def)
  have c: "stays t (tunnel_connectretry t)" for t
    by (simp add: stays_def tunnel_connectretry_def tunnel_connect_def tunnel_Send_def)
  let ?t = "if tn_mod t = 3 \<and> tn_timeout t then t\<lparr>tn_mod := 1\<rparr> else t"
  have "stays t ?t" by (simp add: stays_def)
  then show ?thesis unfolding tunnel_timers_def using h [of ?t] c [of "tunnel_heartbeat ?t"] unfolding stays_def by metis
qed

lemma tunnel_transmit_calm: "tunnel_calm t \<Longrightarrow> tunnel_calm (tunnel_transmit t)"
  by (auto simp: tunnel_calm_def tunnel_transmit_def tunnel_Send_def typed_mod) (simp_all add: tunnel_typed_def)

lemma tunnel_turn_calm:
  assumes calm: "tunnel_calm t" and len: "\<forall>p. p1 = Some p \<longrightarrow> length (pdata p) \<le> 249"
  shows "\<exists>t'. tunnel_turn p1 el el1 t = Some t' \<and> tunnel_calm t'"
proof -
  let ?t0 = "t\<lparr>tn_timeout := tn_timeout t \<or> el, tn_timeout1 := tn_timeout1 t \<or> el1\<rparr>"
  have "tunnel_typed ?t0" using calm by (simp only: tunnel_calm_def typed_ops)
  then have c0: "tunnel_calm ?t0" using calm by (simp add: tunnel_calm_def)
  obtain t1 where t1: "(case p1 of None \<Rightarrow> Some ?t0 | Some p \<Rightarrow> tunnel_packet p ?t0) = Some t1" "tunnel_calm t1"
  proof (cases p1)
    case None
    then show thesis using that [of ?t0] c0 by simp
  next
    case (Some p)
    then have "length (pdata p) \<le> 249" using len by simp
    from tunnel_packet_calm [OF c0 this] show thesis using that Some by auto
  qed
  obtain t2 where t2: "tunnel_retry t1 = Some t2" "tunnel_calm t2" using tunnel_retry_calm [OF t1(2)] by blast
  have c3: "tunnel_calm (tunnel_timers t2)"
    using stays_calm [OF t2(2) _ tunnel_timers_stays] tunnel_timers_typed t2(2) by (simp add: tunnel_calm_def)
  then have "tn_inqueue (tunnel_timers t2) = [] \<or> hd (tn_inqueue (tunnel_timers t2)) \<noteq> []"
    by (cases "tn_inqueue (tunnel_timers t2)") (auto simp: tunnel_calm_def)
  then have "tunnel_reconnect (tunnel_timers t2) = Some (tunnel_timers t2)" by (auto simp: tunnel_reconnect_def)
  then have "tunnel_turn p1 el el1 t = Some (tunnel_transmit (tunnel_timers t2))"
    using t1(1) t2(1) by (simp add: tunnel_turn_def Let_def)
  then show ?thesis using tunnel_transmit_calm [OF c3] by blast
qed

fun tunnel_event_ok :: "tunnel_event \<Rightarrow> bool" where
  "tunnel_event_ok (Tunnel_turn p el el1) \<longleftrightarrow> (case p of None \<Rightarrow> True | Some p \<Rightarrow> length (pdata p) \<le> 249)"
| "tunnel_event_ok (Tunnel_send l) \<longleftrightarrow> (case l of L_Data_PDU d \<Rightarrow> bus_frame_ok d | _ \<Rightarrow> True)"
| "tunnel_event_ok Tunnel_get \<longleftrightarrow> True"
| "tunnel_event_ok (Tunnel_vmode b) \<longleftrightarrow> True"
| "tunnel_event_ok (Tunnel_bmode b) \<longleftrightarrow> False"

lemma Send_L_Data_calm:
  assumes calm: "tunnel_calm t" and l: "case l of L_Data_PDU d \<Rightarrow> bus_frame_ok d | _ \<Rightarrow> True"
  shows "\<exists>t'. EIBNetIPTunnel_Send_L_Data l t = Some t' \<and> tunnel_calm t'"
proof (cases "\<exists>d. l = L_Data_PDU d \<and> LPDU_getType l = L_Data")
  case False
  then have "EIBNetIPTunnel_Send_L_Data l t = Some t"
    by (cases l) (simp_all add: EIBNetIPTunnel_Send_L_Data_def)
  then show ?thesis using calm by simp
next
  case True
  then obtain d where d: "l = L_Data_PDU d" "LPDU_getType l = L_Data" "bus_frame_ok d" using l by auto
  obtain c where c: "L_Data_ToCEMI 0x11 d = Some c" using bus_frame_CEMI [OF d(3)] by blast
  then have "c \<noteq> []" by (auto simp: L_Data_ToCEMI_def split: if_splits)
  then have calm': "tunnel_calm (tunnel_out x (tunnel_in c t))" "tunnel_calm (tunnel_out x (tunnel_out y (tunnel_in c t)))" for x y
    using calm by (auto simp: tunnel_calm_def) (auto simp: tunnel_in_def tunnel_out_def)
  obtain p where "L_Data_ToPacket d = Some p" using d(3) by (auto simp: L_Data_ToPacket_def L_Data_asserts_def bus_frame_ok_def Let_def)
  then show ?thesis using d c calm' by (simp add: EIBNetIPTunnel_Send_L_Data_def Let_def)
qed

lemma tunnel_step_calm:
  assumes calm: "tunnel_calm t" and ok: "tunnel_event_ok e"
  shows "\<exists>t'. tunnel_step e t = Some t' \<and> tunnel_calm t'"
proof (cases e)
  case (Tunnel_turn p el el1)
  then have "\<forall>q. p = Some q \<longrightarrow> length (pdata q) \<le> 249" using ok by auto
  from tunnel_turn_calm [OF calm this] show ?thesis using Tunnel_turn by simp
next
  case (Tunnel_send l)
  then show ?thesis using Send_L_Data_calm [OF calm, of l] ok by simp
next
  case Tunnel_get
  have "tn_outsignal t = length (tn_outqueue t)" using calm by (simp add: tunnel_calm_def tunnel_typed_def)
  then show ?thesis using Tunnel_get calm
    by (cases "tn_outqueue t") (auto simp: EIBNetIPTunnel_Get_L_Data_def tunnel_calm_def tunnel_typed_def)
next
  case (Tunnel_vmode b)
  then show ?thesis using calm
    by (auto simp: EIBNetIPTunnel_openVBusmonitor_def EIBNetIPTunnel_closeVBusmonitor_def tunnel_calm_def)
next
  case (Tunnel_bmode b)
  then show ?thesis using ok by simp
qed

lemma tunnel_run_calm:
  "tunnel_calm t \<Longrightarrow> \<forall>e\<in>set es. tunnel_event_ok e \<Longrightarrow> \<exists>t'. tunnel_run es t = Some t' \<and> tunnel_calm t'"
proof (induction es arbitrary: t)
  case (Cons e es)
  obtain t1 where t1: "tunnel_step e t = Some t1" "tunnel_calm t1"
    using tunnel_step_calm [OF Cons.prems(1)] Cons.prems(2) by auto
  show ?case using Cons.IH [OF t1(2)] Cons.prems(2) t1(1) by simp
qed simp

lemma tunnel_new_calm: "tunnel_calm (tunnel_connect (EIBNetIPTunnel_new c s n d q))"
  using tunnel_new_typed [of c s n d q]
  by (simp add: tunnel_calm_def) (simp add: tunnel_connect_def tunnel_Send_def EIBNetIPTunnel_new_def)

end
