(* ===== verification/EibNetSocket.thy ===== *)
theory EibNetSocket
  imports EibNetIpProofs TunnelProofs "HOL-Library.Sublist"
begin

text \<open>
  The socket under EIBnet/IP, class \<open>EIBNetIPSocket\<close> of \<open>eibd/libserver/eibnetip.cpp\<close>, and the
  driver that puts a bus on a multicast group, \<open>eibd/backend/eibnetrouter.cpp\<close>. A turn of the
  socket's \<open>Run\<close> gets the datagram that \<open>recvfrom\<close> returned, if any, and whether \<open>sendto\<close> works;
  what has been sent is recorded. \<open>None\<close> is a failed \<open>assert\<close> (an empty queue, a frame that cannot
  be encoded).
\<close>

section \<open>The socket\<close>

record eibnet_socket =
  sk_inqueue :: "(sockaddr_in \<times> EIBNetIPPacket) list"
  sk_insignal :: nat
  sk_outqueue :: "EIBNetIPPacket list"
  sk_outsignal :: nat
  sk_sendaddr :: sockaddr_in
  sk_recvaddr :: sockaddr_in
  sk_recvaddr2 :: sockaddr_in
  sk_localaddr :: sockaddr_in
  sk_recvall :: uchar
  sk_error :: int
  sk_wire :: "(sockaddr_in \<times> CArray) list"

text \<open>After the constructor; \<open>localaddr\<close> is not set there.\<close>

definition EIBNetIPSocket_new :: "sockaddr_in \<Rightarrow> eibnet_socket" where
  "EIBNetIPSocket_new junk =
     \<lparr>sk_inqueue = [], sk_insignal = 0, sk_outqueue = [], sk_outsignal = 0, sk_sendaddr = sockaddr_zero,
      sk_recvaddr = sockaddr_zero, sk_recvaddr2 = sockaddr_zero, sk_localaddr = junk, sk_recvall = 0, sk_error = 0, sk_wire = []\<rparr>"

definition EIBNetIPSocket_Send :: "EIBNetIPPacket \<Rightarrow> eibnet_socket \<Rightarrow> eibnet_socket" where
  "EIBNetIPSocket_Send p s = s\<lparr>sk_inqueue := sk_inqueue s @ [(sk_sendaddr s, p)], sk_insignal := sk_insignal s + 1\<rparr>"

text \<open>The result is \<open>None\<close> for a stopped wait.\<close>

definition EIBNetIPSocket_Get :: "eibnet_socket \<Rightarrow> (EIBNetIPPacket option \<times> eibnet_socket) option" where
  "EIBNetIPSocket_Get s =
     (if sk_outsignal s > 0 then
        (case sk_outqueue s of
           [] \<Rightarrow> None
         | p # q \<Rightarrow> Some (Some p, s\<lparr>sk_outqueue := q, sk_outsignal := sk_outsignal s - 1\<rparr>))
      else Some (None, s))"

definition socket_accepts :: "sockaddr_in \<Rightarrow> eibnet_socket \<Rightarrow> bool" where
  "socket_accepts r s \<longleftrightarrow>
     sk_recvall s = 1 \<or> r = sk_recvaddr s \<or> sk_recvall s = 2 \<and> r \<noteq> sk_localaddr s \<or> sk_recvall s = 3 \<and> r = sk_recvaddr2 s"

text \<open>\<open>uchar buf[255]\<close>: the rest of a longer datagram is lost.\<close>

definition socket_receive :: "sockaddr_in \<Rightarrow> CArray \<Rightarrow> eibnet_socket \<Rightarrow> eibnet_socket" where
  "socket_receive r d s =
     (let buf = take 255 d
      in if buf \<noteq> [] \<and> socket_accepts r s then
           (case EIBNetIPPacket_fromPacket buf r of
              None \<Rightarrow> s
            | Some p \<Rightarrow> s\<lparr>sk_outqueue := sk_outqueue s @ [p], sk_outsignal := sk_outsignal s + 1\<rparr>)
         else s)"

definition socket_take :: "eibnet_socket \<Rightarrow> eibnet_socket option" where
  "socket_take s =
     (if sk_inqueue s = [] \<or> sk_insignal s = 0 then None
      else Some (s\<lparr>sk_inqueue := tl (sk_inqueue s), sk_insignal := sk_insignal s - 1, sk_error := 0\<rparr>))"

definition socket_transmit :: "bool \<Rightarrow> eibnet_socket \<Rightarrow> eibnet_socket option" where
  "socket_transmit works s =
     (case sk_inqueue s of
        [] \<Rightarrow> Some s
      | (a, p) # q \<Rightarrow>
          if works then socket_take (s\<lparr>sk_wire := sk_wire s @ [(a, EIBNetIPPacket_ToPacket p)]\<rparr>)
          else
            let s = s\<lparr>sk_error := sk_error s + 1\<rparr>
            in if sk_error s > 5 then socket_take s else Some s)"

definition socket_turn :: "(sockaddr_in \<times> CArray) option \<Rightarrow> bool \<Rightarrow> eibnet_socket \<Rightarrow> eibnet_socket option" where
  "socket_turn d works s =
     socket_transmit works (case d of None \<Rightarrow> s | Some (r, b) \<Rightarrow> socket_receive r b s)"

section \<open>The router\<close>

record eibnet_router =
  rt_sock :: eibnet_socket
  rt_addr :: eibaddr_t
  rt_mode :: int
  rt_vmode :: int
  rt_outqueue :: "lpdu list"
  rt_outsignal :: nat

text \<open>The constructor, where name lookup and routing succeeded: \<open>maddr\<close> is the group, \<open>me\<close> the own address.\<close>

definition EIBNetIPRouter_new :: "sockaddr_in \<Rightarrow> sockaddr_in \<Rightarrow> 16 word \<Rightarrow> eibaddr_t \<Rightarrow> eibnet_router" where
  "EIBNetIPRouter_new maddr me port a =
     \<lparr>rt_sock = (EIBNetIPSocket_new sockaddr_zero)\<lparr>sk_recvall := 2, sk_sendaddr := maddr\<lparr>sin_port := port\<rparr>,
        sk_localaddr := me\<lparr>sin_port := port\<rparr>\<rparr>,
      rt_addr = a, rt_mode = 0, rt_vmode = 0, rt_outqueue = [], rt_outsignal = 0\<rparr>"

definition router_out :: "lpdu \<Rightarrow> eibnet_router \<Rightarrow> eibnet_router" where
  "router_out l s = s\<lparr>rt_outqueue := rt_outqueue s @ [l], rt_outsignal := rt_outsignal s + 1\<rparr>"

definition EIBNetIPRouter_Send_L_Data :: "lpdu \<Rightarrow> eibnet_router \<Rightarrow> eibnet_router option" where
  "EIBNetIPRouter_Send_L_Data l s =
     (case l of
        L_Data_PDU l1 \<Rightarrow>
          if LPDU_getType l \<noteq> L_Data then Some s
          else
            (case L_Data_ToCEMI 0x29 l1 of
               None \<Rightarrow> None
             | Some c \<Rightarrow>
                 let s = s\<lparr>rt_sock := EIBNetIPSocket_Send (packet_of ROUTING_INDICATION c) (rt_sock s)\<rparr>
                 in if rt_vmode s \<noteq> 0 then
                      (case L_Data_ToPacket l1 of
                         None \<Rightarrow> None
                       | Some p \<Rightarrow> Some (router_out l (router_out (L_Busmonitor_PDU p 0 0) s)))
                    else Some (router_out l s))
      | _ \<Rightarrow> Some s)"

definition EIBNetIPRouter_Get_L_Data :: "eibnet_router \<Rightarrow> (lpdu option \<times> eibnet_router) option" where
  "EIBNetIPRouter_Get_L_Data s =
     (if rt_outsignal s > 0 then
        (case rt_outqueue s of
           [] \<Rightarrow> None
         | c # q \<Rightarrow> Some (Some c, s\<lparr>rt_outqueue := q, rt_outsignal := rt_outsignal s - 1\<rparr>))
      else Some (None, s))"

text \<open>What \<open>Run\<close> does with a packet of the socket.\<close>

definition router_packet :: "EIBNetIPPacket \<Rightarrow> eibnet_router \<Rightarrow> eibnet_router option" where
  "router_packet p s =
     (if service p \<noteq> ROUTING_INDICATION then Some s
      else if length (pdata p) < 2 \<or> pdata p ! 0 \<noteq> 0x29 then Some s
      else
        case CEMI_to_L_Data (pdata p) of
          None \<Rightarrow> Some s
        | Some c \<Rightarrow>
            if rt_mode s = 0 then
              (if rt_vmode s \<noteq> 0 then
                 (case L_Data_ToPacket c of
                    None \<Rightarrow> None
                  | Some b \<Rightarrow> Some (router_out (L_Data_PDU c) (router_out (L_Busmonitor_PDU b 0 0) s)))
               else Some (router_out (L_Data_PDU c) s))
            else
              (case L_Data_ToPacket c of
                 None \<Rightarrow> None
               | Some b \<Rightarrow> Some (router_out (L_Busmonitor_PDU b 0 0) s)))"

definition router_turn :: "eibnet_router \<Rightarrow> eibnet_router option" where
  "router_turn s =
     (case EIBNetIPSocket_Get (rt_sock s) of
        None \<Rightarrow> None
      | Some (None, k) \<Rightarrow> Some (s\<lparr>rt_sock := k\<rparr>)
      | Some (Some p, k) \<Rightarrow> router_packet p (s\<lparr>rt_sock := k\<rparr>))"

definition EIBNetIPRouter_openVBusmonitor :: "eibnet_router \<Rightarrow> eibnet_router" where
  "EIBNetIPRouter_openVBusmonitor s = s\<lparr>rt_vmode := 1\<rparr>"

definition EIBNetIPRouter_closeVBusmonitor :: "eibnet_router \<Rightarrow> eibnet_router" where
  "EIBNetIPRouter_closeVBusmonitor s = s\<lparr>rt_vmode := 0\<rparr>"

definition EIBNetIPRouter_enterBusmonitor :: "eibnet_router \<Rightarrow> eibnet_router" where
  "EIBNetIPRouter_enterBusmonitor s = s\<lparr>rt_mode := 1\<rparr>"

definition EIBNetIPRouter_leaveBusmonitor :: "eibnet_router \<Rightarrow> eibnet_router" where
  "EIBNetIPRouter_leaveBusmonitor s = s\<lparr>rt_mode := 0\<rparr>"

definition EIBNetIPRouter_Open :: "eibnet_router \<Rightarrow> eibnet_router" where
  "EIBNetIPRouter_Open s = s\<lparr>rt_mode := 0\<rparr>"

definition EIBNetIPRouter_getDefaultAddr :: "eibnet_router \<Rightarrow> eibaddr_t" where
  "EIBNetIPRouter_getDefaultAddr s = rt_addr s"

text \<open>\<open>Send_Queue_Empty\<close>: nothing is waiting, since the socket has a queue of its own.\<close>

definition EIBNetIPRouter_Send_Queue_Empty :: "eibnet_router \<Rightarrow> bool" where
  "EIBNetIPRouter_Send_Queue_Empty s = True"

section \<open>What the socket keeps\<close>

text \<open>
  Runs of the socket. \<open>sk_wire\<close> together with the queue is what was handed to \<open>Send\<close>, without the
  packets given up: a subsequence, in order.
\<close>

datatype socket_event = Socket_send sockaddr_in EIBNetIPPacket | Socket_turn "(sockaddr_in \<times> CArray) option" bool | Socket_get

fun socket_step :: "socket_event \<Rightarrow> eibnet_socket \<Rightarrow> eibnet_socket option" where
  "socket_step (Socket_send a p) s = Some (EIBNetIPSocket_Send p (s\<lparr>sk_sendaddr := a\<rparr>))"
| "socket_step (Socket_turn d w) s = socket_turn d w s"
| "socket_step Socket_get s = map_option snd (EIBNetIPSocket_Get s)"

fun socket_run :: "socket_event list \<Rightarrow> eibnet_socket \<Rightarrow> eibnet_socket option" where
  "socket_run [] s = Some s"
| "socket_run (e # es) s = Option.bind (socket_step e s) (socket_run es)"

fun handed :: "socket_event list \<Rightarrow> (sockaddr_in \<times> EIBNetIPPacket) list" where
  "handed [] = []"
| "handed (Socket_send a p # es) = (a, p) # handed es"
| "handed (e # es) = handed es"

fun failures :: "socket_event list \<Rightarrow> nat" where
  "failures [] = 0"
| "failures (Socket_turn d w # es) = (if w then 0 else 1) + failures es"
| "failures (e # es) = failures es"

definition socket_wf :: "eibnet_socket \<Rightarrow> bool" where
  "socket_wf s \<longleftrightarrow> sk_insignal s = length (sk_inqueue s) \<and> sk_outsignal s = length (sk_outqueue s) \<and> 0 \<le> sk_error s \<and> sk_error s \<le> 5"

definition on_wire :: "sockaddr_in \<times> EIBNetIPPacket \<Rightarrow> sockaddr_in \<times> CArray" where
  "on_wire = (\<lambda>(a, p). (a, EIBNetIPPacket_ToPacket p))"

lemma socket_receive_same [simp]:
  "sk_inqueue (socket_receive r d s) = sk_inqueue s" "sk_wire (socket_receive r d s) = sk_wire s"
  "sk_error (socket_receive r d s) = sk_error s" "sk_insignal (socket_receive r d s) = sk_insignal s"
  by (simp_all add: socket_receive_def Let_def split: option.split)

lemma socket_receive_wf: "socket_wf s \<Longrightarrow> socket_wf (socket_receive r d s)"
  by (simp add: socket_wf_def) (simp add: socket_receive_def Let_def split: option.split)

lemma socket_step_total: "socket_wf s \<Longrightarrow> \<exists>s'. socket_step e s = Some s' \<and> socket_wf s'"
proof (cases e)
  case (Socket_turn d w)
  assume wf: "socket_wf s"
  let ?s = "case d of None \<Rightarrow> s | Some (r, b) \<Rightarrow> socket_receive r b s"
  have "socket_wf ?s" using wf socket_receive_wf by (simp split: option.split)
  then have "\<exists>s'. socket_transmit w ?s = Some s' \<and> socket_wf s'"
    by (cases "sk_inqueue ?s") (auto simp: socket_transmit_def socket_take_def socket_wf_def Let_def)
  then show ?thesis using Socket_turn by (simp add: socket_turn_def)
next
  case (Socket_send a p)
  assume "socket_wf s"
  then show ?thesis using Socket_send by (simp add: EIBNetIPSocket_Send_def socket_wf_def)
next
  case Socket_get
  assume "socket_wf s"
  then show ?thesis using Socket_get by (cases "sk_outqueue s") (simp_all add: EIBNetIPSocket_Get_def socket_wf_def)
qed

text \<open>What the socket does with the head of its queue at a turn.\<close>

lemma socket_transmit_cases:
  assumes "socket_transmit w s = Some s'"
  obtains "sk_inqueue s = []" "s' = s"
    | x q where "sk_inqueue s = x # q" "sk_inqueue s' = q" "sk_wire s' = sk_wire s @ [on_wire x]" "sk_error s' = 0"
    | x q where "sk_inqueue s = x # q" "\<not> w" "sk_inqueue s' = x # q" "sk_wire s' = sk_wire s" "sk_error s' = sk_error s + 1"
    | x q where "sk_inqueue s = x # q" "\<not> w" "sk_inqueue s' = q" "sk_wire s' = sk_wire s" "sk_error s' = 0" "5 \<le> sk_error s"
  using assms
  by (cases "sk_inqueue s")
    (auto simp: socket_transmit_def socket_take_def on_wire_def Let_def split: if_splits)

text \<open>
  In a run from \<open>s\<close> to \<open>s'\<close>: what was sent and what still waits is what was there before or handed
  over, in order, and every packet that is missing has cost six failures.
\<close>

definition socket_account :: "nat \<Rightarrow> (sockaddr_in \<times> EIBNetIPPacket) list \<Rightarrow> eibnet_socket \<Rightarrow> eibnet_socket \<Rightarrow> bool" where
  "socket_account f new s s' \<longleftrightarrow>
     (\<exists>sent. sk_wire s' = sk_wire s @ map on_wire sent \<and> subseq (sent @ sk_inqueue s') (sk_inqueue s @ new) \<and>
        6 * (length (sk_inqueue s @ new) - length (sent @ sk_inqueue s')) + nat (sk_error s') \<le> f + nat (sk_error s))"

lemma account_refl: "socket_account 0 [] s s"
  by (auto simp: socket_account_def intro: exI [of _ "[]"])

lemma account_then:
  assumes "socket_account f new s1 s'" and "sk_wire s1 = sk_wire s @ map on_wire x"
    and "subseq (x @ sk_inqueue s1) (sk_inqueue s @ n1)"
    and "6 * (length (sk_inqueue s @ n1) - length (x @ sk_inqueue s1)) + nat (sk_error s1) \<le> f1 + nat (sk_error s)"
  shows "socket_account (f1 + f) (n1 @ new) s s'"
proof -
  obtain sent where sent: "sk_wire s' = sk_wire s1 @ map on_wire sent" "subseq (sent @ sk_inqueue s') (sk_inqueue s1 @ new)"
    "6 * (length (sk_inqueue s1 @ new) - length (sent @ sk_inqueue s')) + nat (sk_error s') \<le> f + nat (sk_error s1)"
    using assms(1) by (auto simp: socket_account_def)
  have "subseq (x @ sent @ sk_inqueue s') ((x @ sk_inqueue s1) @ new)"
    using list_emb_append_mono [OF subseq_order.order_refl sent(2), of x] by simp
  moreover have "subseq ((x @ sk_inqueue s1) @ new) ((sk_inqueue s @ n1) @ new)"
    using assms(3) by (rule list_emb_append_mono) simp
  ultimately have "subseq ((x @ sent) @ sk_inqueue s') (sk_inqueue s @ n1 @ new)"
    using subseq_order.order_trans by fastforce
  moreover have "6 * (length (sk_inqueue s @ n1 @ new) - length ((x @ sent) @ sk_inqueue s')) + nat (sk_error s') \<le> f1 + f + nat (sk_error s)"
    using sent(3) assms(4) list_emb_length [OF sent(2)] list_emb_length [OF assms(3)] by simp
  ultimately show ?thesis unfolding socket_account_def
    using sent(1) assms(2) by (intro exI [of _ "x @ sent"]) simp
qed

lemma socket_run_account:
  "socket_run es s = Some s' \<Longrightarrow> socket_wf s \<Longrightarrow> socket_account (failures es) (handed es) s s'"
proof (induction es arbitrary: s)
  case Nil
  then show ?case by (simp add: account_refl)
next
  case (Cons e es)
  then obtain s1 where s1: "socket_step e s = Some s1" "socket_run es s1 = Some s'" by (auto simp: bind_eq_Some_conv)
  then have ih: "socket_account (failures es) (handed es) s1 s'"
    using Cons.IH socket_step_total [OF Cons.prems(2), of e] by auto
  show ?case
  proof (cases e)
    case (Socket_send a p)
    have "socket_account (0 + failures es) ([(a, p)] @ handed es) s s'"
      by (rule account_then [OF ih, of _ "[]"]) (use s1(1) Socket_send in \<open>auto simp: EIBNetIPSocket_Send_def\<close>)
    then show ?thesis using Socket_send by simp
  next
    case Socket_get
    have "socket_account (0 + failures es) ([] @ handed es) s s'"
      by (rule account_then [OF ih, of _ "[]"])
        (use s1(1) Socket_get in \<open>auto simp: EIBNetIPSocket_Get_def split: if_splits list.splits\<close>)
    then show ?thesis using Socket_get by simp
  next
    case (Socket_turn d w)
    let ?s = "case d of None \<Rightarrow> s | Some (r, b) \<Rightarrow> socket_receive r b s"
    have same: "sk_inqueue ?s = sk_inqueue s" "sk_wire ?s = sk_wire s" "sk_error ?s = sk_error s"
      by (simp_all split: option.split)
    have "socket_transmit w ?s = Some s1" using s1(1) Socket_turn by (simp add: socket_turn_def)
    moreover have e: "0 \<le> sk_error s" "sk_error s \<le> 5" using Cons.prems(2) by (simp_all add: socket_wf_def)
    ultimately have "\<exists>x. sk_wire s1 = sk_wire s @ map on_wire x \<and> subseq (x @ sk_inqueue s1) (sk_inqueue s @ []) \<and>
        6 * (length (sk_inqueue s @ []) - length (x @ sk_inqueue s1)) + nat (sk_error s1) \<le> (if w then 0 else 1) + nat (sk_error s)"
    proof (cases rule: socket_transmit_cases)
      case 1
      then show ?thesis using same by (intro exI [of _ "[]"]) simp
    next
      case (2 x q)
      then show ?thesis using same by (intro exI [of _ "[x]"]) simp
    next
      case (3 x q)
      then show ?thesis using same e by (intro exI [of _ "[]"]) simp
    next
      case (4 x q)
      have "subseq q (x # q)" by (rule list_emb_Cons) simp
      then show ?thesis using 4 same e by (intro exI [of _ "[]"]) simp
    qed
    then obtain x where "sk_wire s1 = sk_wire s @ map on_wire x" "subseq (x @ sk_inqueue s1) (sk_inqueue s @ [])"
        "6 * (length (sk_inqueue s @ []) - length (x @ sk_inqueue s1)) + nat (sk_error s1) \<le> (if w then 0 else 1) + nat (sk_error s)"
      by blast
    from account_then [OF ih this] show ?thesis using Socket_turn by simp
  qed
qed

lemma socket_run_total: "socket_wf s \<Longrightarrow> \<exists>s'. socket_run es s = Some s' \<and> socket_wf s'"
proof (induction es arbitrary: s)
  case (Cons e es)
  obtain s1 where "socket_step e s = Some s1" "socket_wf s1" using socket_step_total [OF Cons.prems] by blast
  then show ?case using Cons.IH by simp
qed simp

lemma socket_new_wf: "socket_wf (EIBNetIPSocket_new junk)"
  by (simp add: EIBNetIPSocket_new_def socket_wf_def)

section \<open>From router to router\<close>

lemma router_sends:
  assumes "L_Data_ToCEMI 0x29 l = Some c" and "valid_length l" and "rt_vmode s = 0"
  shows "EIBNetIPRouter_Send_L_Data (L_Data_PDU l) s =
    Some (router_out (L_Data_PDU l) (s\<lparr>rt_sock := EIBNetIPSocket_Send (packet_of ROUTING_INDICATION c) (rt_sock s)\<rparr>))"
  using assms by (simp add: EIBNetIPRouter_Send_L_Data_def Let_def)

lemma router_receives:
  assumes c: "L_Data_ToCEMI 0x29 l = Some c" and s: "rt_mode s = 0" "rt_vmode s = 0"
  shows "router_packet ((packet_of ROUTING_INDICATION c)\<lparr>psrc := a\<rparr>) s = Some (router_out (L_Data_PDU (frame_read_back l)) s)"
proof -
  have "c ! 0 = 0x29" "9 \<le> length c" using c by (auto simp: L_Data_ToCEMI_def split: if_splits)
  moreover have "(frame_read_back l)\<lparr>repeated := repeated l\<rparr> = frame_read_back l" by (simp add: frame_read_back_def)
  ultimately show ?thesis using CEMI_round_trip_eq [OF c] s by (simp add: router_packet_def)
qed

lemma CEMI_size: "L_Data_ToCEMI code l = Some c \<Longrightarrow> length c = 9 + length (data l) \<and> length (data l) < 255"
  by (auto simp: L_Data_ToCEMI_def split: if_splits)

lemma datagram_short:
  assumes "length c + 6 \<le> 255"
  shows "EIBNetIPPacket_fromPacket (take 255 (EIBNetIPPacket_ToPacket (packet_of sv c))) a = Some ((packet_of sv c)\<lparr>psrc := a\<rparr>)"
proof -
  have "take 255 (EIBNetIPPacket_ToPacket (packet_of sv c)) = EIBNetIPPacket_ToPacket (packet_of sv c)"
    using assms by (simp add: EIBNetIPPacket_ToPacket_def)
  then show ?thesis using packet_round_trip [of "packet_of sv c" a] assms by simp
qed

lemma datagram_long:
  assumes "255 < length c + 6" and "length c + 6 < 65536"
  shows "EIBNetIPPacket_fromPacket (take 255 (EIBNetIPPacket_ToPacket (packet_of sv c))) a = None"
proof -
  let ?d = "take 255 (EIBNetIPPacket_ToPacket (packet_of sv c))"
  have "?d = [0x06, 0x10, hi8 sv, lo8 sv, hi8 (of_nat (length c + 6)), lo8 (of_nat (length c + 6))] @ take 249 c"
    by (simp add: EIBNetIPPacket_ToPacket_def)
  moreover have "unat (mk16 (hi8 (of_nat (length c + 6))) (lo8 (of_nat (length c + 6)))) = length c + 6"
    using assms(2) by (rule unat_mk16_split)
  ultimately show ?thesis using assms by (simp add: EIBNetIPPacket_fromPacket_def del: of_nat_add)
qed

text \<open>One router sends a frame and its socket a datagram; another's socket gets it and its driver the packet.\<close>

definition router_hop :: "sockaddr_in \<Rightarrow> eibnet_router \<Rightarrow> eibnet_router \<Rightarrow> l_data \<Rightarrow> eibnet_router option" where
  "router_hop src r1 r2 l =
     (case EIBNetIPRouter_Send_L_Data (L_Data_PDU l) r1 of
        None \<Rightarrow> None
      | Some r1 \<Rightarrow>
          (case socket_turn None True (rt_sock r1) of
             None \<Rightarrow> None
           | Some k1 \<Rightarrow>
               (case socket_turn (Some (src, snd (last (sk_wire k1)))) True (rt_sock r2) of
                  None \<Rightarrow> None
                | Some k2 \<Rightarrow> router_turn (r2\<lparr>rt_sock := k2\<rparr>))))"

lemma router_hop_sent:
  assumes c: "L_Data_ToCEMI 0x29 l = Some c" and l: "valid_length l" and r1: "rt_vmode r1 = 0" "socket_wf (rt_sock r1)" "sk_inqueue (rt_sock r1) = []"
  shows "\<exists>r1' k1. EIBNetIPRouter_Send_L_Data (L_Data_PDU l) r1 = Some r1' \<and> socket_turn None True (rt_sock r1') = Some k1 \<and>
    snd (last (sk_wire k1)) = EIBNetIPPacket_ToPacket (packet_of ROUTING_INDICATION c)"
  using router_sends [OF c l r1(1)] r1(2,3)
  by (simp add: router_out_def EIBNetIPSocket_Send_def socket_turn_def socket_transmit_def socket_take_def socket_wf_def)

lemma socket_receive_packet:
  assumes "EIBNetIPPacket_fromPacket (take 255 d) src = q" and "d \<noteq> []" and "socket_accepts src s"
  shows "socket_receive src d s =
    (case q of None \<Rightarrow> s | Some p \<Rightarrow> s\<lparr>sk_outqueue := sk_outqueue s @ [p], sk_outsignal := sk_outsignal s + 1\<rparr>)"
  using assms by (simp add: socket_receive_def)

lemma router_hop_result:
  assumes l: "bus_frame_ok l" "valid_length l" and r1: "rt_vmode r1 = 0" "socket_wf (rt_sock r1)" "sk_inqueue (rt_sock r1) = []"
    and r2: "rt_mode r2 = 0" "rt_vmode r2 = 0" "socket_wf (rt_sock r2)" "sk_inqueue (rt_sock r2) = []" "sk_outqueue (rt_sock r2) = []"
    and acc: "socket_accepts src (rt_sock r2)"
  shows "router_hop src r1 r2 l =
    Some (if length (data l) \<le> 240 then router_out (L_Data_PDU (frame_read_back l)) r2 else r2)"
proof -
  obtain c where c: "L_Data_ToCEMI 0x29 l = Some c" using bus_frame_CEMI [OF l(1)] by blast
  obtain r1' k1 where k1: "EIBNetIPRouter_Send_L_Data (L_Data_PDU l) r1 = Some r1'" "socket_turn None True (rt_sock r1') = Some k1"
    "snd (last (sk_wire k1)) = EIBNetIPPacket_ToPacket (packet_of ROUTING_INDICATION c)"
    using router_hop_sent [OF c l(2) r1] by blast
  let ?d = "EIBNetIPPacket_ToPacket (packet_of ROUTING_INDICATION c)"
  have d: "?d \<noteq> []" by (simp add: EIBNetIPPacket_ToPacket_def)
  let ?k2 = "socket_receive src ?d (rt_sock r2)"
  have k2: "socket_turn (Some (src, snd (last (sk_wire k1)))) True (rt_sock r2) = Some ?k2"
    using r2(4) by (simp add: socket_turn_def socket_transmit_def k1(3))
  have o: "sk_outsignal (rt_sock r2) = 0" using r2(3,5) by (simp add: socket_wf_def)
  show ?thesis
  proof (cases "length (data l) \<le> 240")
    case True
    then have "length c + 6 \<le> 255" using CEMI_size [OF c] by simp
    note q = datagram_short [OF this, of ROUTING_INDICATION src]
    have "?k2 = (rt_sock r2)\<lparr>sk_outqueue := [(packet_of ROUTING_INDICATION c)\<lparr>psrc := src\<rparr>], sk_outsignal := 1\<rparr>"
      using socket_receive_packet [OF q d acc] r2(5) o by simp
    then have "router_turn (r2\<lparr>rt_sock := ?k2\<rparr>) = router_packet ((packet_of ROUTING_INDICATION c)\<lparr>psrc := src\<rparr>) r2"
      using r2(5) o by (cases r2, cases "rt_sock r2") (simp add: router_turn_def EIBNetIPSocket_Get_def)
    then show ?thesis using True router_receives [OF c r2(1,2), of src] k1 k2 by (simp add: router_hop_def)
  next
    case False
    then have "255 < length c + 6" "length c + 6 < 65536" using CEMI_size [OF c] by simp_all
    note q = datagram_long [OF this, of ROUTING_INDICATION src]
    have "?k2 = rt_sock r2" using socket_receive_packet [OF q d acc] by simp
    then have "router_turn (r2\<lparr>rt_sock := ?k2\<rparr>) = Some r2" using o by (simp add: router_turn_def EIBNetIPSocket_Get_def)
    then show ?thesis using False k1 k2 by (simp add: router_hop_def)
  qed
qed

end
