(* ===== verification/SessionProps.thy ===== *)
theory SessionProps
  imports Session EibNetSocket
begin

text \<open>The claims about EIBnet/IP: its packets and sockets, the opening of a tunnel and what a tunnel delivers.\<close>

definition tnet_start :: "tnet_env \<Rightarrow> bool \<Rightarrow> int \<Rightarrow> bool \<Rightarrow> eibnet_server \<Rightarrow> tnet" where
  "tnet_start E NAT dataport noqueue s =
     (let t = tunnel_connect (EIBNetIPTunnel_new (te_server E) (te_client E) NAT dataport noqueue)
      in \<lparr>nt_client = t, nt_server = s, nt_up = new_packets (te_client E) [] (tn_sent t), nt_down = [], nt_frames = []\<rparr>)"

definition first_connection :: "sockaddr_in \<Rightarrow> ConnState" where
  "first_connection a = \<lparr>cn_channel = 1, cn_sno = 0, cn_rno = 0, cn_state = 0, cn_type = 0, cn_no = 1, cn_nat = (sin_addr a = 0),
     cn_timeout = False, cn_out = [], cn_daddr = a, cn_caddr = a, cn_outsignal = 0, cn_sendtimeout = False\<rparr>"

lemma IP_seen_self: "sin_family c = AF_INET \<Longrightarrow> IP_seen c c n = c"
  by (simp add: IP_seen_def)

lemma read_ok_Some: "read_ok f er = Some m \<Longrightarrow> \<exists>r. er = (0, r) \<and> m = f r"
  by (auto simp: read_ok_def split: prod.splits if_splits)

lemma parse_sent_ConnectRequest:
  assumes "1 \<le> length (cq_CRI r)" "length (cq_CRI r) \<le> 254"
  shows "parseEIBnet_ConnectRequest ((EIBnet_ConnectRequest_ToPacket r)\<lparr>psrc := src\<rparr>) EIBnet_ConnectRequest_new =
    (0, r\<lparr>cq_caddr := IP_seen src (cq_caddr r) (cq_nat r), cq_daddr := IP_seen src (cq_daddr r) (cq_nat r),
       cq_nat := nat_seen (cq_caddr r) (cq_nat r) \<or> nat_seen (cq_daddr r) (cq_nat r)\<rparr>)"
proof -
  have "read_ok M_ConnectRequest (parseEIBnet_ConnectRequest ((EIBnet_ConnectRequest_ToPacket r)\<lparr>psrc := src\<rparr>) EIBnet_ConnectRequest_new) =
      Some (message_seen undefined src (M_ConnectRequest r))"
    using connect_trips(1) [of r undefined undefined src] assms by (simp add: trips_def eibnet_read_def)
  from read_ok_Some [OF this] show ?thesis by auto
qed

lemma parse_sent_ConnectResponse:
  assumes "cp_status r = 0" "1 \<le> length (cp_CRD r)" "length (cp_CRD r) \<le> 254"
  shows "parseEIBnet_ConnectResponse ((EIBnet_ConnectResponse_ToPacket r)\<lparr>psrc := src\<rparr>) EIBnet_ConnectResponse_new =
    (0, r\<lparr>cp_daddr := IP_seen src (cp_daddr r) (cp_nat r), cp_nat := nat_seen (cp_daddr r) (cp_nat r)\<rparr>)"
proof -
  have "read_ok M_ConnectResponse (parseEIBnet_ConnectResponse ((EIBnet_ConnectResponse_ToPacket r)\<lparr>psrc := src\<rparr>) EIBnet_ConnectResponse_new) =
      Some (message_seen undefined src (M_ConnectResponse r))"
    using connect_trips(2) [of r undefined undefined src] assms by (simp add: trips_def eibnet_read_def)
  from read_ok_Some [OF this] show ?thesis using assms(1) by auto
qed

definition first_request :: "sockaddr_in \<Rightarrow> EIBnet_ConnectRequest" where
  "first_request c = \<lparr>cq_caddr = c, cq_daddr = c, cq_CRI = [0x04, 0x02, 0x00], cq_nat = (sin_addr c = 0)\<rparr>"

definition first_response :: "sockaddr_in \<Rightarrow> bool \<Rightarrow> EIBnet_ConnectResponse" where
  "first_response a n = \<lparr>cp_channel = 1, cp_status = 0, cp_daddr = a, cp_nat = n, cp_CRD = [4, 0, 0]\<rparr>"

lemma first_request_read:
  assumes "sin_family c = AF_INET"
  shows "parseEIBnet_ConnectRequest ((EIBnet_ConnectRequest_ToPacket (first_request c))\<lparr>psrc := c\<rparr>) EIBnet_ConnectRequest_new =
    (0, first_request c)"
  using parse_sent_ConnectRequest [of "first_request c" c] assms by (simp add: first_request_def IP_seen_self nat_seen_def)

lemma first_request_answer:
  assumes s: "es_state s = []" "es_tunnel s" and gsa: "gsa c = Some a" and c: "sin_family c = AF_INET"
  shows "server_CONNECTION_REQUEST gsa me ok ((EIBnet_ConnectRequest_ToPacket (first_request c))\<lparr>psrc := c\<rparr>) s =
    s\<lparr>es_state := [first_connection c],
      es_sent := es_sent s @ [(c, EIBnet_ConnectResponse_ToPacket (first_response (a\<lparr>sin_port := es_Port s\<rparr>) (sin_addr c = 0)))]\<rparr>"
proof -
  have f: "free_channel [] (Suc 0) = 1" by (simp add: free_channel.simps)
  show ?thesis
    unfolding server_CONNECTION_REQUEST_def first_request_read [OF c] using s gsa
    by (simp add: first_request_def Let_def addClient_def f server_Send_def first_connection_def first_response_def
        EIBnet_ConnectResponse_new_def)
qed

lemma server_first_client:
  assumes s: "es_state s = []" "es_tunnel s" and gsa: "gsa c = Some a" and c: "sin_family c = AF_INET"
  shows "server_turn gsa junk jn me ok def (Some ((EIBnet_ConnectRequest_ToPacket (first_request c))\<lparr>psrc := c\<rparr>))
      (\<lambda>i. (False, False)) (\<lambda>i. False) s =
    Some (s\<lparr>es_state := [first_connection c], es_natstate := nat_expire 0 (es_natstate s),
      es_sent := es_sent s @ [(c, EIBnet_ConnectResponse_ToPacket (first_response (a\<lparr>sin_port := es_Port s\<rparr>) (sin_addr c = 0)))]\<rparr>)"
proof -
  have e: "map (\<lambda>(i, n). n) (List.enumerate k ns) = ns" for k and ns :: "NATState list"
    by (induction ns arbitrary: k) simp_all
  let ?s = "s\<lparr>es_state := [], es_natstate := nat_expire 0 (es_natstate s)\<rparr>"
  have "server_packet gsa junk jn me ok def ((EIBnet_ConnectRequest_ToPacket (first_request c))\<lparr>psrc := c\<rparr>) ?s =
      Some (server_CONNECTION_REQUEST gsa me ok ((EIBnet_ConnectRequest_ToPacket (first_request c))\<lparr>psrc := c\<rparr>) ?s)"
    by (simp add: server_packet_def)
  moreover have "es_state ?s = []" "es_tunnel ?s" "es_Port ?s = es_Port s" "es_sent ?s = es_sent s" using s by simp_all
  ultimately show ?thesis
    unfolding server_turn_def using first_request_answer [where s = ?s and gsa = gsa and c = c and a = a and me = me and ok = ok] s gsa c
    by (simp add: e server_timeouts_def conn_transmit_def first_connection_def)
qed

lemma client_first_connect:
  "tn_sent (tunnel_connect (EIBNetIPTunnel_new d c NAT dataport noqueue)) = [(d, EIBnet_ConnectRequest_ToPacket (first_request c))]"
  by (simp add: tunnel_connect_def tunnel_Send_def EIBNetIPTunnel_new_def first_request_def EIBnet_ConnectRequest_new_def)

lemma client_first_response:
  fixes t :: tunnel and a d :: sockaddr_in
  assumes t: "tn_mod t = 0" "tn_timeout t = False" "tn_timeout1 t = False" "tn_inqueue t = []" "tn_cresp t = EIBnet_ConnectResponse_new"
  shows "\<exists>t'. tunnel_turn (Some ((EIBnet_ConnectResponse_ToPacket (first_response a n))\<lparr>psrc := d\<rparr>)) False False t = Some t' \<and>
    tn_channel t' = 1 \<and> tn_mod t' = 1 \<and> tn_sno t' = 0 \<and> tn_rno t' = 0 \<and> tn_drop t' = tn_drop t \<and> tn_inqueue t' = [] \<and> tn_sent t' = tn_sent t"
proof -
  let ?p = "(EIBnet_ConnectResponse_ToPacket (first_response a n))\<lparr>psrc := d\<rparr>"
  let ?r = "(first_response a n)\<lparr>cp_daddr := IP_seen d a n, cp_nat := nat_seen a n\<rparr>"
  have parse: "parseEIBnet_ConnectResponse ?p (tn_cresp t) = (0, ?r)"
    unfolding t(5) using parse_sent_ConnectResponse [of "first_response a n" d] by (simp add: first_response_def)
  have "\<exists>t'. tunnel_CONNECTION_RESPONSE ?p t = t' \<and> tn_channel t' = 1 \<and> tn_mod t' = 1 \<and> tn_sno t' = 0 \<and> tn_rno t' = 0 \<and>
      tn_drop t' = tn_drop t \<and> tn_inqueue t' = [] \<and> tn_sent t' = tn_sent t \<and> \<not> tn_timeout t' \<and> \<not> tn_timeout1 t'"
    unfolding tunnel_CONNECTION_RESPONSE_def parse using t by (simp add: first_response_def Let_def)
  moreover have "t\<lparr>tn_timeout := tn_timeout t \<or> False, tn_timeout1 := tn_timeout1 t \<or> False\<rparr> = t" by simp
  ultimately show ?thesis
    by (auto simp: tunnel_turn_def tunnel_packet_def tunnel_retry_def tunnel_timers_def tunnel_heartbeat_def tunnel_connectretry_def tunnel_reconnect_def tunnel_transmit_def Let_def)
qed

text \<open>C12: the handshake opens the session. Whatever the server has done before, as long as it has
no connection and knows its own address for the client, the client's first request and the answer
to it, each handled in one turn, leave both sides with channel 1 and both counters at 0.\<close>

theorem tunnel_handshake:
  assumes "sin_family (te_client E) = AF_INET" and "te_gsa E (te_client E) = Some a"
    and "es_state s = []" and "es_tunnel s"
  shows "\<exists>N1 N2. tnet_step E (Server_turn True False False) (tnet_start E NAT dataport noqueue s) = Some N1 \<and>
    tnet_step E (Client_turn True False False) N1 = Some N2 \<and> tnet_opened E 1 N2 \<and>
    l3_calls (es_l3 (nt_server N2)) = l3_calls (es_l3 s)"
proof -
  let ?c = "te_client E" and ?t = "tunnel_connect (EIBNetIPTunnel_new (te_server E) (te_client E) NAT dataport noqueue)"
  let ?s = "s\<lparr>es_state := [first_connection ?c], es_natstate := nat_expire 0 (es_natstate s),
      es_sent := es_sent s @ [(?c, EIBnet_ConnectResponse_ToPacket (first_response (a\<lparr>sin_port := es_Port s\<rparr>) (sin_addr ?c = 0)))]\<rparr>"
  let ?r = "(EIBnet_ConnectResponse_ToPacket (first_response (a\<lparr>sin_port := es_Port s\<rparr>) (sin_addr ?c = 0)))\<lparr>psrc := te_server E\<rparr>"
  have s1: "tnet_step E (Server_turn True False False) (tnet_start E NAT dataport noqueue s) =
      Some \<lparr>nt_client = ?t, nt_server = ?s, nt_up = [], nt_down = [?r], nt_frames = []\<rparr>"
    using server_first_client [where gsa = "te_gsa E" and c = ?c, OF assms(3,4,2,1)]
    by (simp add: tnet_start_def new_packets_def client_first_connect arriving_def remaining_def)
  have t: "tn_mod ?t = 0" "tn_timeout ?t = False" "tn_timeout1 ?t = False" "tn_inqueue ?t = []" "tn_cresp ?t = EIBnet_ConnectResponse_new" "tn_drop ?t = 0"
    by (simp_all add: tunnel_connect_def tunnel_Send_def EIBNetIPTunnel_new_def)
  obtain t' where t': "tunnel_turn (Some ?r) False False ?t = Some t'" "tn_channel t' = 1" "tn_mod t' = 1" "tn_sno t' = 0"
    "tn_rno t' = 0" "tn_drop t' = 0" "tn_inqueue t' = []" "tn_sent t' = tn_sent ?t"
    using client_first_response [OF t(1-5), where a = "a\<lparr>sin_port := es_Port s\<rparr>" and d = "te_server E" and n = "sin_addr ?c = 0"] t(6) by auto
  have "tnet_step E (Client_turn True False False) \<lparr>nt_client = ?t, nt_server = ?s, nt_up = [], nt_down = [?r], nt_frames = []\<rparr> =
      Some \<lparr>nt_client = t', nt_server = ?s, nt_up = [], nt_down = [], nt_frames = []\<rparr>"
    using t' by (simp add: arriving_def remaining_def new_packets_def)
  moreover have "tnet_opened E 1 \<lparr>nt_client = t', nt_server = ?s, nt_up = [], nt_down = [], nt_frames = []\<rparr>"
    using t' assms(4) by (simp add: tnet_opened_def conn_view_def first_connection_def)
  moreover have "l3_calls (es_l3 (nt_server \<lparr>nt_client = t', nt_server = ?s, nt_up = [], nt_down = [], nt_frames = []\<rparr>)) = l3_calls (es_l3 s)"
    by simp
  ultimately show ?thesis using s1 by blast
qed

text \<open>C3: a tunnel delivers every frame once and in order, as long as the session lives. Take a session just opened between a client
  and a server that has this client only, over a network that loses and repeats packets but does not change their order. In any
  run in which the client neither closes the session nor gives a frame up after its four attempts and the server keeps the
  connection - with turns of either side at any time, timers that run out early or late, and traffic
  from the bus -, the calls the server has made of the bus driver are exactly the images of the first
  \<open>m\<close> frames the client was given, one each: all that are acknowledged, and at most one more. After a frame was given up
  this does not hold any more (\<open>tunnel_giveup_loses_frame\<close>).
\<close>

theorem tunnel_exactly_once:
  assumes "tnet_opened E ch N" and "tnet_run E ch es N = Some N'"
  shows "\<exists>m. length (nt_frames N') - length (tn_inqueue (nt_client N')) \<le> m \<and>
      m \<le> length (nt_frames N') - length (tn_inqueue (nt_client N')) + 1 \<and>
      l3_calls (es_l3 (nt_server N')) =
        l3_calls (es_l3 (nt_server N)) @ concat (map (bus_image (te_default E)) (take m (nt_frames N')))"
  by (rule tnet_inv_calls [OF tnet_inv_run [OF assms(2) tnet_opened_inv [OF assms(1)]]])

definition sample_env :: tnet_env where
  "sample_env = \<lparr>te_client = \<lparr>sin_family = 2, sin_port = 4000, sin_addr = 0x0A000002\<rparr>,
     te_server = \<lparr>sin_family = 2, sin_port = 3671, sin_addr = 0x0A000001\<rparr>,
     te_gsa = (\<lambda>_. Some \<lparr>sin_family = 2, sin_port = 0, sin_addr = 0x0A000001\<rparr>),
     te_junk = (\<lambda>_. 0), te_nat = False, te_me = 7, te_ok = True, te_default = 0x1101\<rparr>"

definition sample_server :: eibnet_server where
  "sample_server = snd (EIBnetServer_start 0 7 True True \<lparr>sin_family = 2, sin_port = 3671, sin_addr = 0xE000170C\<rparr> 3671 True False True Layer3_new)"

definition sample_frame :: "uchar \<Rightarrow> l_data" where
  "sample_frame x = L_Data_new\<lparr>dest := 0x0901, AddrType := GroupAddress, hopcount := 6, data := [0x00, x]\<rparr>"

definition sample_session :: tnet where
  "sample_session = the (tnet_step sample_env (Client_turn True False False)
     (the (tnet_step sample_env (Server_turn True False False) (tnet_start sample_env False (-1) False sample_server))))"

text \<open>The handshake on a server that has just started.\<close>

lemma tunnel_handshake_witness:
  "\<exists>N1 N2. tnet_step sample_env (Server_turn True False False) (tnet_start sample_env False (-1) False sample_server) = Some N1 \<and>
    tnet_step sample_env (Client_turn True False False) N1 = Some N2 \<and> tnet_opened sample_env 1 N2 \<and>
    l3_calls (es_l3 (nt_server N2)) = l3_calls (es_l3 sample_server)"
proof (rule tunnel_handshake)
  show "sin_family (te_client sample_env) = AF_INET" by code_simp
  show "te_gsa sample_env (te_client sample_env) = Some \<lparr>sin_family = 2, sin_port = 0, sin_addr = 0x0A000001\<rparr>"
    by (simp add: sample_env_def)
  show "es_state sample_server = []" "es_tunnel sample_server" by code_simp+
qed

definition sample_run :: "tnet_event list" where
  "sample_run =
     [Submit (sample_frame 0x81), Submit (sample_frame 0x80), Client_turn False False False, Lose Up 0, Client_turn False True False,
      Repeat Up 0, Server_turn True False False, Server_turn True False False, Lose Down 0, Repeat Down 0, Client_turn True False False,
      Client_turn True False False, Server_turn True False False, Client_turn True False False,
      Server_turn True False False, Server_turn True False False, Client_turn True False False, Client_turn True False False]"

text \<open>A run in which both frames arrive although packets of the first are lost and repeated.\<close>

lemma tunnel_exactly_once_witness:
  "\<exists>N'. tnet_run sample_env 1 sample_run sample_session = Some N' \<and> tn_inqueue (nt_client N') = [] \<and> length (nt_frames N') = 2 \<and>
     (\<exists>m. length (nt_frames N') - length (tn_inqueue (nt_client N')) \<le> m \<and>
      m \<le> length (nt_frames N') - length (tn_inqueue (nt_client N')) + 1 \<and>
      l3_calls (es_l3 (nt_server N')) =
        l3_calls (es_l3 (nt_server sample_session)) @ concat (map (bus_image (te_default sample_env)) (take m (nt_frames N'))))"
proof -
  have o: "tnet_opened sample_env 1 sample_session" by code_simp
  have r: "map_option (\<lambda>N. (tn_inqueue (nt_client N), length (nt_frames N))) (tnet_run sample_env 1 sample_run sample_session) = Some ([], 2)"
    by code_simp
  then obtain N' where N': "tnet_run sample_env 1 sample_run sample_session = Some N'" by auto
  show ?thesis using tunnel_exactly_once [OF o N'] N' r by auto
qed

section \<open>What happens to a frame that is given up\<close>

fun tnet_steps :: "tnet_env \<Rightarrow> tnet_event list \<Rightarrow> tnet \<Rightarrow> tnet option" where
  "tnet_steps E [] N = Some N"
| "tnet_steps E (e # es) N = Option.bind (tnet_step E e N) (tnet_steps E es)"

text \<open>The acknowledgement of the first frame and the repetitions of the request are lost.\<close>

definition giveup_run :: "tnet_event list" where
  "giveup_run =
     [Submit (sample_frame 0x81), Client_turn False False False, Server_turn True False False, Lose Down 0,
      Client_turn False True False, Client_turn False True False, Client_turn False True False, Client_turn False True False,
      Lose Up 0, Lose Up 0, Lose Up 0,
      Submit (sample_frame 0x80), Client_turn False False False, Server_turn True False False,
      Client_turn True False False, Client_turn True False False]"

text \<open>a frame is acknowledged and lost. When the client gives a frame up after four attempts, it
does not go on to the next number. If the server had got the frame and only its acknowledgements were
lost, the next frame goes out under a number the server has seen: it is acknowledged as a repetition,
the client takes it off its queue, and it never reaches the bus.\<close>

theorem tunnel_giveup_loses_frame:
  "map_option (\<lambda>N. (tn_inqueue (nt_client N), tn_mod (nt_client N), nt_frames N, l3_calls (es_l3 (nt_server N))))
     (tnet_steps sample_env giveup_run sample_session) =
   Some ([], 1, [sample_frame 0x81, sample_frame 0x80],
     l3_calls (es_l3 (nt_server sample_session)) @ bus_image (te_default sample_env) (sample_frame 0x81))"
  by code_simp

section \<open>The server and the client on their own\<close>

text \<open>C13: the server survives the network. Whatever packets arrive, as long as a receive buffer of
  255 bytes holds them, whatever frames of 1 to 254 data bytes and a hop count of three bits come from the bus, whatever the bus
  monitor sees and whichever timers run out, no \<open>assert\<close> of the
  server fails, and its connections always have different channels, none of them 0. A longer frame, which the dispatcher passes
  on, fails the \<open>assert\<close> of the conversion to CEMI (\<open>long_frame_stops_server\<close>).
\<close>

theorem eibnet_server_survives:
  assumes "EIBnetServer_start junk me ok1 ok2 maddr port tunnel route discover l3 = (True, s)"
    and "\<forall>e\<in>set es. server_event_ok e"
  shows "\<exists>s'. server_run gsa mem jn me ok a es s = Some s' \<and>
    distinct (map cn_channel (es_state s')) \<and> (\<forall>k\<in>set (es_state s'). cn_channel k \<noteq> 0)"
proof -
  obtain s' where "server_run gsa mem jn me ok a es s = Some s'" "server_wf s'"
    using server_run_wf [OF server_start_wf [OF assms(1)] assms(2)] by blast
  then show ?thesis by (simp add: server_wf_def)
qed

definition sample_packets :: "server_event list" where
  "sample_packets =
     [Server_wakes (Some ((EIBnet_ConnectRequest_ToPacket (first_request (te_client sample_env)))\<lparr>psrc := te_client sample_env\<rparr>))
        (\<lambda>_. (False, False)) (\<lambda>_. False),
      Server_wakes (Some ((EIBnet_ConnectRequest_ToPacket (first_request (te_client sample_env)))\<lparr>psrc := te_client sample_env\<rparr>))
        (\<lambda>_. (False, False)) (\<lambda>_. False),
      Server_frame False (sample_frame 0x80), Server_wakes None (\<lambda>_. (False, True)) (\<lambda>_. False)]"

lemma eibnet_server_survives_witness:
  "fst (EIBnetServer_start 0 7 True True sockaddr_zero 3671 True True True Layer3_new) = True \<and>
   (\<exists>s'. server_run (te_gsa sample_env) (\<lambda>_. 0) False 7 True 0x1101 sample_packets
      (snd (EIBnetServer_start 0 7 True True sockaddr_zero 3671 True True True Layer3_new)) = Some s' \<and>
    distinct (map cn_channel (es_state s')) \<and> (\<forall>k\<in>set (es_state s'). cn_channel k \<noteq> 0))"
proof (rule conjI)
  show f: "fst (EIBnetServer_start 0 7 True True sockaddr_zero 3671 True True True Layer3_new) = True" by code_simp
  show "\<exists>s'. server_run (te_gsa sample_env) (\<lambda>_. 0) False 7 True 0x1101 sample_packets
      (snd (EIBnetServer_start 0 7 True True sockaddr_zero 3671 True True True Layer3_new)) = Some s' \<and>
    distinct (map cn_channel (es_state s')) \<and> (\<forall>k\<in>set (es_state s'). cn_channel k \<noteq> 0)"
  proof (rule eibnet_server_survives)
    show "EIBnetServer_start 0 7 True True sockaddr_zero 3671 True True True Layer3_new =
        (True, snd (EIBnetServer_start 0 7 True True sockaddr_zero 3671 True True True Layer3_new))"
      using f by (simp add: prod_eq_iff)
    have "bus_frame_ok (sample_frame 0x80)" by code_simp
    moreover have "length (pdata (EIBnet_ConnectRequest_ToPacket (first_request (te_client sample_env)))) \<le> 249" by code_simp
    ultimately show "\<forall>e\<in>set sample_packets. server_event_ok e" by (simp add: sample_packets_def)
  qed
qed

text \<open>
  A frame of more than 254 data bytes is fatal to a server with a tunnelling client, and to such a client.
\<close>

lemma long_frame_stops_server:
  assumes "k \<in> set (es_state s)" and "cn_type k = 0" and "\<not> es_route s" and "254 < length (data l)" and "hopcount l \<noteq> 0"
  shows "server_Get_L_Data False l s = None"
  using assms by (auto simp: server_Get_L_Data_def L_Data_ToCEMI_def Let_def)

lemma long_frame_stops_tunnel:
  assumes "254 < length (data l)" and "valid_length l"
  shows "EIBNetIPTunnel_Send_L_Data (L_Data_PDU l) t = None"
  using assms by (simp add: EIBNetIPTunnel_Send_L_Data_def L_Data_ToCEMI_def Let_def)

text \<open>C15: the variables of the client are what they are taken for. In every run of the driver its state is one of the
  four, its counters stay within their limits, both semaphores count their queues, and the numbers it puts into packets are
  bytes, so that the conversion loses nothing, with one exception: without a session the channel is -1, which becomes 0xFF in
  a packet.
\<close>

theorem tunnel_counters_in_range:
  assumes "tunnel_run es (tunnel_connect (EIBNetIPTunnel_new c a NAT dataport noqueue)) = Some t"
  shows "tunnel_typed t \<and> uint (word_of_int (tn_sno t) :: uchar) = tn_sno t \<and>
    uint (word_of_int (tn_channel t) :: uchar) = (if tn_channel t = - 1 then 255 else tn_channel t)"
proof -
  have "tunnel_typed t" using tunnel_run_typed [OF assms] tunnel_new_typed by simp
  then have t: "tunnel_typed t" "- 1 \<le> tn_channel t" "tn_channel t \<le> 255" "0 \<le> tn_sno t" "tn_sno t \<le> 255"
    by (simp_all add: tunnel_typed_def)
  have "uint (word_of_int k :: uchar) = k" if "0 \<le> k" "k \<le> 255" for k using that by (simp add: word_of_int_inverse)
  moreover have "uint (- 1 :: uchar) = 255" by (simp add: unsigned_minus_1_eq_mask mask_eq_exp_minus_1)
  ultimately show ?thesis using t by (cases "tn_channel t = - 1") auto
qed

lemma tunnel_counters_in_range_witness:
  "\<exists>t. tunnel_run [Tunnel_bmode True, Tunnel_turn None False True]
        (tunnel_connect (EIBNetIPTunnel_new sockaddr_zero sockaddr_zero False (-1) False)) = Some t \<and>
    tunnel_typed t \<and> uint (word_of_int (tn_sno t) :: uchar) = tn_sno t \<and>
    uint (word_of_int (tn_channel t) :: uchar) = (if tn_channel t = - 1 then 255 else tn_channel t)"
proof -
  have "tunnel_run [Tunnel_bmode True, Tunnel_turn None False True]
        (tunnel_connect (EIBNetIPTunnel_new sockaddr_zero sockaddr_zero False (-1) False)) \<noteq> None"
    by code_simp
  then obtain t where t: "tunnel_run [Tunnel_bmode True, Tunnel_turn None False True]
        (tunnel_connect (EIBNetIPTunnel_new sockaddr_zero sockaddr_zero False (-1) False)) = Some t" by blast
  show ?thesis using tunnel_counters_in_range [OF t] t by blast
qed

text \<open>C14: outside the bus monitor mode the client survives: no packet that fits into the receive
  buffer of 255 bytes, no frame of 1 to 254 data bytes and a hop count of three bits from the dispatcher and no timer makes an
  \<open>assert\<close> fail, whether the virtual bus monitor is on or off. A longer frame fails the \<open>assert\<close> of the conversion to CEMI
  (\<open>long_frame_stops_tunnel\<close>).
\<close>

theorem tunnel_survives:
  assumes "\<forall>e\<in>set es. tunnel_event_ok e"
  shows "\<exists>t. tunnel_run es (tunnel_connect (EIBNetIPTunnel_new c a NAT dataport noqueue)) = Some t \<and> tunnel_calm t"
  by (rule tunnel_run_calm [OF tunnel_new_calm assms])

definition sample_events :: "tunnel_event list" where
  "sample_events =
     [Tunnel_turn (Some (EIBnet_ConnectResponse_ToPacket (first_response sockaddr_zero False))) False False,
      Tunnel_send (L_Data_PDU (sample_frame 0x81)), Tunnel_vmode True, Tunnel_turn None False False, Tunnel_turn None True True]"

lemma tunnel_survives_witness:
  "\<exists>t. tunnel_run sample_events (tunnel_connect (EIBNetIPTunnel_new sockaddr_zero sockaddr_zero False (-1) False)) = Some t \<and> tunnel_calm t"
proof (rule tunnel_survives)
  have "length (pdata (EIBnet_ConnectResponse_ToPacket (first_response sockaddr_zero False))) \<le> 249" by code_simp
  moreover have "bus_frame_ok (sample_frame 0x81)" by code_simp
  ultimately show "\<forall>e\<in>set sample_events. tunnel_event_ok e" by (simp add: sample_events_def)
qed

text \<open>switching the mode to and fro opens the driver to one packet. Each switch puts an empty array
into the queue; when the second follows the first before the next turn, it is sent as if it were a frame
and then taken from the queue while its acknowledgement is awaited. If one arrives, the driver takes a
frame from the empty queue, and an \<open>assert\<close> ends the daemon.\<close>

theorem tunnel_mode_switch_aborts:
  assumes "tn_mod t = 1" "tn_inqueue t = []" "tn_insignal t = 0" "\<not> tn_timeout t" "\<not> tn_timeout1 t"
    and "tn_channel t = uint ch" "tn_sno t = uint n"
  shows "tunnel_run [Tunnel_bmode True, Tunnel_bmode False, Tunnel_turn None False False, Tunnel_turn None False False,
      Tunnel_turn (Some (EIBnet_TunnelACK_ToPacket \<lparr>ta_channel = ch, ta_seqno = n, ta_status = 0\<rparr>)) False False] t = None"
proof -
  define t1 where "t1 = EIBNetIPTunnel_leaveBusmonitor (EIBNetIPTunnel_enterBusmonitor t)"
  have t1: "tn_mod t1 = 1" "tn_inqueue t1 = [[], []]" "tn_insignal t1 = 2" "\<not> tn_timeout t1" "\<not> tn_timeout1 t1"
    "tn_channel t1 = uint ch" "tn_sno t1 = uint n"
    using assms by (simp_all add: t1_def EIBNetIPTunnel_leaveBusmonitor_def EIBNetIPTunnel_enterBusmonitor_def tunnel_in_def)
  obtain t2 where t2: "tunnel_turn None False False t1 = Some t2" "tn_mod t2 = 2" "tn_inqueue t2 = [[]]" "tn_insignal t2 = 1"
    "\<not> tn_timeout t2" "\<not> tn_timeout1 t2" "tn_channel t2 = uint ch" "tn_sno t2 = uint n"
    using t1 by (auto simp: tunnel_turn_def tunnel_retry_def tunnel_timers_def tunnel_heartbeat_def tunnel_connectretry_def
        tunnel_reconnect_def tunnel_take_def tunnel_transmit_def tunnel_disconnect_def tunnel_Send_def Let_def)
  obtain t3 where t3: "tunnel_turn None False False t2 = Some t3" "tn_mod t3 = 2" "tn_inqueue t3 = []"
    "tn_channel t3 = uint ch" "tn_sno t3 = uint n"
    using t2 by (auto simp: tunnel_turn_def tunnel_retry_def tunnel_timers_def tunnel_heartbeat_def tunnel_connectretry_def
        tunnel_reconnect_def tunnel_take_def tunnel_transmit_def tunnel_disconnect_def tunnel_Send_def Let_def)
  have "parseEIBnet_TunnelACK (EIBnet_TunnelACK_ToPacket \<lparr>ta_channel = ch, ta_seqno = n, ta_status = 0\<rparr>) EIBnet_TunnelACK_new =
      (0, \<lparr>ta_channel = ch, ta_seqno = n, ta_status = 0\<rparr>)"
    by (simp add: parseEIBnet_TunnelACK_def EIBnet_TunnelACK_ToPacket_def EIBnet_TunnelACK_new_def)
  then have "tunnel_turn (Some (EIBnet_TunnelACK_ToPacket \<lparr>ta_channel = ch, ta_seqno = n, ta_status = 0\<rparr>)) False False t3 = None"
    using t3 by (simp add: tunnel_turn_def tunnel_packet_def tunnel_TUNNEL_RESPONSE_def tunnel_take_def)
  then show ?thesis using t2(1) t3(1) by (simp add: t1_def)
qed

lemma tunnel_mode_switch_aborts_witness:
  "tunnel_run [Tunnel_bmode True, Tunnel_bmode False, Tunnel_turn None False False, Tunnel_turn None False False,
      Tunnel_turn (Some (EIBnet_TunnelACK_ToPacket \<lparr>ta_channel = 1, ta_seqno = 0, ta_status = 0\<rparr>)) False False]
     (nt_client sample_session) = None"
  by (rule tunnel_mode_switch_aborts) code_simp+

section \<open>Packets, sockets and routers\<close>

text \<open>C40: every EIBnet/IP message survives the network, up to what its format does not carry. For all fourteen kinds of
  messages, with parts of the sizes for which the format has room - a CRI or CRD of 1 to 254 bytes, a CEMI frame of at least 2 and less than
  65526 bytes, 6 bytes of serial number and of MAC address, a name of 30 bytes, at most 126 services, less than 65000 bytes of optional
  data -, a datagram that arrives whole is read as a packet, and its parser returns the message, with the
  sender's address or port in the place of one that is left out, and the NAT flag set where the address is left out or the flag was set. Not
  carried are: the address, the NAT flag and the CRD of a connect response with an error status, which arrive empty; the last
  byte of a name, which arrives as 0; and the serial number of a description response, for which six bytes of uninitialised
  memory arrive. (The socket of this program receives at most 255 bytes of a datagram.)
\<close>

theorem EIBnet_round_trip:
  assumes "message_ok m"
  shows "map_option (eibnet_read junk') (EIBNetIPPacket_fromPacket (EIBNetIPPacket_ToPacket (eibnet_sent junk m)) src) =
    Some (Some (message_seen junk src m))"
  using message_trips [OF assms, of junk junk' src] by (simp add: trips_def packet_round_trip)

definition sample_message :: eibnet_message where
  "sample_message = M_TunnelRequest \<lparr>tq_channel = 3, tq_seqno = 9, tq_CEMI = [0x11, 0, 0xBC, 0xE0, 0, 0, 9, 1, 1, 0, 0x81]\<rparr>"

lemma EIBnet_round_trip_witness:
  "map_option (eibnet_read (\<lambda>_. (0, 0)))
     (EIBNetIPPacket_fromPacket (EIBNetIPPacket_ToPacket (eibnet_sent (\<lambda>_. 0) sample_message)) sockaddr_zero) =
   Some (Some sample_message)"
proof -
  have ok: "message_ok sample_message" by (simp add: sample_message_def)
  have seen: "message_seen (\<lambda>_. 0) sockaddr_zero sample_message = sample_message" by (simp add: sample_message_def)
  show ?thesis by (rule EIBnet_round_trip [OF ok, where junk = "\<lambda>_. 0" and junk' = "\<lambda>_. (0, 0)" and src = sockaddr_zero, unfolded seen])
qed

text \<open>the socket neither reorders nor invents. Whatever arrives and whenever \<open>sendto\<close> fails, no
\<open>assert\<close> of the socket fails; what it has sent and what still waits are packets handed to \<open>Send\<close>, in this
order and with their addresses, and every packet that is missing has cost six failures.\<close>

theorem socket_sends_in_order:
  "\<exists>s sent. socket_run es (EIBNetIPSocket_new junk) = Some s \<and> sk_wire s = map on_wire sent \<and>
     subseq (sent @ sk_inqueue s) (handed es) \<and>
     6 * (length (handed es) - length (sent @ sk_inqueue s)) \<le> failures es"
proof -
  obtain s where s: "socket_run es (EIBNetIPSocket_new junk) = Some s" using socket_run_total [OF socket_new_wf] by blast
  then show ?thesis using socket_run_account [OF s socket_new_wf]
    by (auto simp: socket_account_def EIBNetIPSocket_new_def)
qed

text \<open>a frame of at most 240 bytes goes from router to router, a longer one does not. The driver of the
sending router puts the frame into a datagram; the socket of the receiving one reads it, and its driver
hands on the same frame, apart from the priorities that the encoding exchanges. A longer frame is sent as
well, but the receive buffer of 255 bytes cuts it off, and the receiver drops it without a word.\<close>

theorem router_delivers_short_frames:
  assumes "bus_frame_ok l" and "valid_length l"
    and "rt_vmode r1 = 0" and "socket_wf (rt_sock r1)" and "sk_inqueue (rt_sock r1) = []"
    and "rt_mode r2 = 0" and "rt_vmode r2 = 0" and "socket_wf (rt_sock r2)" and "sk_inqueue (rt_sock r2) = []"
    and "sk_outqueue (rt_sock r2) = []" and "socket_accepts src (rt_sock r2)"
  shows "router_hop src r1 r2 l =
    Some (if length (data l) \<le> 240 then router_out (L_Data_PDU (frame_read_back l)) r2 else r2)"
  by (rule router_hop_result) (rule assms)+

definition sample_router :: "32 word \<Rightarrow> eibnet_router" where
  "sample_router a = EIBNetIPRouter_new \<lparr>sin_family = 2, sin_port = 3671, sin_addr = 0xE000170C\<rparr>
     \<lparr>sin_family = 2, sin_port = 0, sin_addr = a\<rparr> 3671 0x1101"

lemma router_delivers_short_frames_witness:
  "router_hop \<lparr>sin_family = 2, sin_port = 3671, sin_addr = 5\<rparr> (sample_router 5) (sample_router 6) (sample_frame 0x81) =
    Some (router_out (L_Data_PDU (frame_read_back (sample_frame 0x81))) (sample_router 6))"
proof -
  have "router_hop \<lparr>sin_family = 2, sin_port = 3671, sin_addr = 5\<rparr> (sample_router 5) (sample_router 6) (sample_frame 0x81) =
    Some (if length (data (sample_frame 0x81)) \<le> 240
      then router_out (L_Data_PDU (frame_read_back (sample_frame 0x81))) (sample_router 6) else sample_router 6)"
  proof (rule router_delivers_short_frames)
    show "bus_frame_ok (sample_frame 0x81)" by code_simp
    show "valid_length (sample_frame 0x81)" by code_simp
    show "rt_vmode (sample_router 5) = 0" "sk_inqueue (rt_sock (sample_router 5)) = []" "rt_mode (sample_router 6) = 0"
      "rt_vmode (sample_router 6) = 0" "sk_inqueue (rt_sock (sample_router 6)) = []" "sk_outqueue (rt_sock (sample_router 6)) = []"
      by (simp_all add: sample_router_def EIBNetIPRouter_new_def EIBNetIPSocket_new_def)
    show "socket_wf (rt_sock (sample_router 5))" "socket_wf (rt_sock (sample_router 6))"
      by (simp_all add: sample_router_def EIBNetIPRouter_new_def EIBNetIPSocket_new_def socket_wf_def)
    show "socket_accepts \<lparr>sin_family = 2, sin_port = 3671, sin_addr = 5\<rparr> (rt_sock (sample_router 6))"
      by (simp add: sample_router_def EIBNetIPRouter_new_def EIBNetIPSocket_new_def socket_accepts_def)
  qed
  moreover have "length (data (sample_frame 0x81)) \<le> 240" by code_simp
  ultimately show ?thesis by simp
qed

end
