(* ===== verification/Layer7.thy ===== *)
theory Layer7
  imports ApduCodec Layer4
begin

text \<open>
  The application layer client of \<open>eibd/libserver/layer7.cpp\<close>: \<open>Layer7_Broadcast\<close>,
  \<open>Layer7_Connection\<close> and \<open>Layer7_Individual\<close>. What lies behind the transport endpoint \<open>l4\<close>, the bus
  and the devices on it, is a parameter: a \<open>bus\<close> is a record of the calls of \<open>l4\<close> on a state
  of any type. A result is \<open>None\<close> where the program fails an \<open>assert\<close> or casts an APDU to
  a class it does not have; otherwise it holds the value of the call and the new state. The calls
  that return \<open>-1\<close> or \<open>0\<close> with a value in an out parameter return \<open>None\<close> or that value.
\<close>

section \<open>The transport endpoints\<close>

text \<open>
  \<open>l4_get\<close> is \<open>l4->Get (t)\<close> with a timer of six seconds: \<open>None\<close> when it runs out.
  \<open>l4_open\<close> is the constructor and \<open>init\<close> of a connection to an address, \<open>l4_close\<close> the
  destructor. \<open>bc_collect\<close> are the elements \<open>Get\<close> returns before the timer of a broadcast
  runs out.
\<close>

record 'd bus =
  l4_open :: "eibaddr_t \<Rightarrow> 'd \<Rightarrow> bool \<times> 'd"
  l4_close :: "'d \<Rightarrow> 'd"
  l4_send :: "CArray \<Rightarrow> 'd \<Rightarrow> 'd"
  l4_get :: "'d \<Rightarrow> CArray option \<times> 'd"
  bc_open :: "'d \<Rightarrow> bool \<times> 'd"
  bc_close :: "'d \<Rightarrow> 'd"
  bc_send :: "CArray \<Rightarrow> 'd \<Rightarrow> 'd"
  bc_collect :: "'d \<Rightarrow> BroadcastComm list \<times> 'd"

section \<open>Layer7\_Broadcast\<close>

definition A_IndividualAddress_Write :: "uchar memory \<Rightarrow> 'd bus \<Rightarrow> eibaddr_t \<Rightarrow> 'd \<Rightarrow> 'd option" where
  "A_IndividualAddress_Write junk b addr d =
     (case APDU_ToPacket junk (A_IndividualAddress_Write_PDU addr) of None \<Rightarrow> None
      | Some c \<Rightarrow> Some (bc_send b c d))"

definition A_IndividualAddress_Read :: "uchar memory \<Rightarrow> 'd bus \<Rightarrow> 'd \<Rightarrow> (eibaddr_t list \<times> 'd) option" where
  "A_IndividualAddress_Read junk b d =
     (case APDU_ToPacket junk A_IndividualAddress_Read_PDU of None \<Rightarrow> None
      | Some c \<Rightarrow>
          (let (cs, d') = bc_collect b (bc_send b c d)
           in Some (map bc_src (filter (\<lambda>c. APDU_isResponse (APDU_fromPacket (bc_data c)) A_IndividualAddress_Read_PDU) cs), d')))"

section \<open>Layer7\_Connection\<close>

definition A_Restart :: "uchar memory \<Rightarrow> 'd bus \<Rightarrow> 'd \<Rightarrow> 'd option" where
  "A_Restart junk b d =
     (case APDU_ToPacket junk A_Restart_PDU of None \<Rightarrow> None | Some c \<Rightarrow> Some (l4_send b c d))"

definition Request_Response :: "uchar memory \<Rightarrow> 'd bus \<Rightarrow> apdu \<Rightarrow> 'd \<Rightarrow> (apdu option \<times> 'd) option" where
  "Request_Response junk b r d =
     (case APDU_ToPacket junk r of None \<Rightarrow> None
      | Some q \<Rightarrow>
          (case l4_get b (l4_send b q d) of
             (None, d') \<Rightarrow> Some (None, d')
           | (Some c, d') \<Rightarrow>
               if c = [] then Some (None, d')
               else let a = APDU_fromPacket c
                    in if APDU_isResponse a r then Some (Some a, d') else Some (None, d')))"

text \<open>What the calls do with the answer: a cast to the class they expect and one of its members.\<close>

definition answer_part :: "(apdu \<Rightarrow> 'a option) \<Rightarrow> (apdu option \<times> 'd) option \<Rightarrow> ('a option \<times> 'd) option" where
  "answer_part part res =
     (case res of None \<Rightarrow> None
      | Some (None, d) \<Rightarrow> Some (None, d)
      | Some (Some a, d) \<Rightarrow> (case part a of None \<Rightarrow> None | Some v \<Rightarrow> Some (Some v, d)))"

definition property_value :: "apdu \<Rightarrow> CArray option" where
  "property_value a = (case a of A_PropertyValue_Response_PDU _ _ _ _ d \<Rightarrow> Some d | _ \<Rightarrow> None)"

text \<open>The out parameters \<open>property\<close>, \<open>type\<close>, \<open>max_nr_elements\<close> and \<open>access\<close>.\<close>

definition property_description :: "apdu \<Rightarrow> (uchar \<times> uchar \<times> 16 word \<times> uchar) option" where
  "property_description a =
     (case a of A_PropertyDescription_Response_PDU _ prop _ type cnt access \<Rightarrow> Some (prop, type, cnt, access)
      | _ \<Rightarrow> None)"

definition device_descriptor :: "apdu \<Rightarrow> 16 word option" where
  "device_descriptor a = (case a of A_DeviceDescriptor_Response_PDU _ descriptor \<Rightarrow> Some descriptor | _ \<Rightarrow> None)"

definition adc_value :: "apdu \<Rightarrow> 16 word option" where
  "adc_value a = (case a of A_ADC_Response_PDU _ _ val \<Rightarrow> Some val | _ \<Rightarrow> None)"

definition memory_data :: "apdu \<Rightarrow> CArray option" where
  "memory_data a = (case a of A_Memory_Response_PDU _ _ d \<Rightarrow> Some d | _ \<Rightarrow> None)"

definition authorize_level :: "apdu \<Rightarrow> uchar option" where
  "authorize_level a = (case a of A_Authorize_Response_PDU level \<Rightarrow> Some level | _ \<Rightarrow> None)"

definition key_level :: "apdu \<Rightarrow> uchar option" where
  "key_level a = (case a of A_Key_Response_PDU level \<Rightarrow> Some level | _ \<Rightarrow> None)"

definition A_Property_Read ::
    "uchar memory \<Rightarrow> 'd bus \<Rightarrow> uchar \<Rightarrow> uchar \<Rightarrow> 16 word \<Rightarrow> uchar \<Rightarrow> 'd \<Rightarrow> (CArray option \<times> 'd) option" where
  "A_Property_Read junk b obj prop start cnt d =
     answer_part property_value
       (Request_Response junk b (A_PropertyValue_Read_PDU obj prop (cnt AND 0x0f) (start AND 0x0fff)) d)"

definition A_Property_Write ::
    "uchar memory \<Rightarrow> 'd bus \<Rightarrow> uchar \<Rightarrow> uchar \<Rightarrow> 16 word \<Rightarrow> uchar \<Rightarrow> CArray \<Rightarrow> 'd \<Rightarrow> (CArray option \<times> 'd) option" where
  "A_Property_Write junk b obj prop start cnt dat d =
     answer_part property_value
       (Request_Response junk b (A_PropertyValue_Write_PDU obj prop (cnt AND 0x0f) (start AND 0x0fff) dat) d)"

definition A_Property_Desc ::
    "uchar memory \<Rightarrow> 'd bus \<Rightarrow> uchar \<Rightarrow> uchar \<Rightarrow> uchar \<Rightarrow> 'd \<Rightarrow> ((uchar \<times> uchar \<times> 16 word \<times> uchar) option \<times> 'd) option" where
  "A_Property_Desc junk b obj prop property_index d =
     answer_part property_description
       (Request_Response junk b (A_PropertyDescription_Read_PDU obj prop property_index) d)"

definition A_Device_Descriptor_Read :: "uchar memory \<Rightarrow> 'd bus \<Rightarrow> uchar \<Rightarrow> 'd \<Rightarrow> (16 word option \<times> 'd) option" where
  "A_Device_Descriptor_Read junk b type d =
     answer_part device_descriptor (Request_Response junk b (A_DeviceDescriptor_Read_PDU (type AND 0x3f)) d)"

definition A_ADC_Read :: "uchar memory \<Rightarrow> 'd bus \<Rightarrow> uchar \<Rightarrow> uchar \<Rightarrow> 'd \<Rightarrow> (16 word option \<times> 'd) option" where
  "A_ADC_Read junk b channel readcount d =
     answer_part adc_value (Request_Response junk b (A_ADC_Read_PDU (channel AND 0x3f) readcount) d)"

definition A_Memory_Read :: "uchar memory \<Rightarrow> 'd bus \<Rightarrow> memaddr_t \<Rightarrow> uchar \<Rightarrow> 'd \<Rightarrow> (CArray option \<times> 'd) option" where
  "A_Memory_Read junk b addr len d =
     answer_part memory_data (Request_Response junk b (A_Memory_Read_PDU (len AND 0x0f) addr) d)"

text \<open>\<open>A_Memory_Write\<close> waits for no answer and returns 0.\<close>

definition A_Memory_Write :: "uchar memory \<Rightarrow> 'd bus \<Rightarrow> memaddr_t \<Rightarrow> CArray \<Rightarrow> 'd \<Rightarrow> 'd option" where
  "A_Memory_Write junk b addr dat d =
     (let n = of_nat (length dat) AND 0x0f :: 32 word
      in case APDU_ToPacket junk (A_Memory_Write_PDU (ucast n) addr (take (unat n) dat)) of None \<Rightarrow> None
         | Some c \<Rightarrow> Some (l4_send b c d))"

definition A_Authorize :: "uchar memory \<Rightarrow> 'd bus \<Rightarrow> eibkey_type \<Rightarrow> 'd \<Rightarrow> (uchar option \<times> 'd) option" where
  "A_Authorize junk b key d = answer_part authorize_level (Request_Response junk b (A_Authorize_Request_PDU key) d)"

definition A_KeyWrite :: "uchar memory \<Rightarrow> 'd bus \<Rightarrow> eibkey_type \<Rightarrow> uchar \<Rightarrow> 'd \<Rightarrow> (uchar option \<times> 'd) option" where
  "A_KeyWrite junk b key level d = answer_part key_level (Request_Response junk b (A_Key_Write_PDU level key) d)"

text \<open>The calls \<open>X_\<close> combine others; they return 0, -1 or -2.\<close>

definition X_Property_Write ::
    "uchar memory \<Rightarrow> 'd bus \<Rightarrow> uchar \<Rightarrow> uchar \<Rightarrow> 16 word \<Rightarrow> uchar \<Rightarrow> CArray \<Rightarrow> 'd \<Rightarrow> (int \<times> 'd) option" where
  "X_Property_Write junk b obj prop start cnt dat d =
     (case A_Property_Write junk b obj prop start cnt dat d of
        None \<Rightarrow> None
      | Some (None, d1) \<Rightarrow> Some (- 1, d1)
      | Some (Some _, d1) \<Rightarrow>
          (case A_Property_Read junk b obj prop start cnt d1 of
             None \<Rightarrow> None
           | Some (None, d2) \<Rightarrow> Some (- 1, d2)
           | Some (Some r, d2) \<Rightarrow> if \<not> Array_eq r dat then Some (- 1, d2) else Some (0, d2)))"

definition X_Memory_Write :: "uchar memory \<Rightarrow> 'd bus \<Rightarrow> memaddr_t \<Rightarrow> CArray \<Rightarrow> 'd \<Rightarrow> (int \<times> 'd) option" where
  "X_Memory_Write junk b addr dat d =
     (case A_Memory_Write junk b addr dat d of
        None \<Rightarrow> None
      | Some d1 \<Rightarrow>
          (case A_Memory_Read junk b addr (of_nat (length dat)) d1 of
             None \<Rightarrow> None
           | Some (None, d2) \<Rightarrow> Some (- 1, d2)
           | Some (Some r, d2) \<Rightarrow> if \<not> Array_eq r dat then Some (- 2, d2) else Some (0, d2)))"

text \<open>
  \<open>X_Memory_Read_Block\<close>: \<open>len\<close> and \<open>i\<close> stay below \<open>2^16 + 12\<close>, so that they are natural
  numbers here. When a read of 12 bytes fails, it and all that follow are done with 2 bytes.
\<close>

function X_Memory_Read_Block_lp ::
    "uchar memory \<Rightarrow> 'd bus \<Rightarrow> memaddr_t \<Rightarrow> nat \<Rightarrow> bool \<Rightarrow> nat \<Rightarrow> CArray \<Rightarrow> 'd \<Rightarrow> (CArray option \<times> 'd) option" where
  "X_Memory_Read_Block_lp junk b addr len small i erg d =
     (if i < len then
        let blocksize = (if small then 2 else 12)
        in case A_Memory_Read junk b (addr + of_nat i) (of_nat (if len - i > blocksize then blocksize else len - i)) d of
             None \<Rightarrow> None
           | Some (None, d1) \<Rightarrow>
               if \<not> small then X_Memory_Read_Block_lp junk b addr len True i erg d1 else Some (None, d1)
           | Some (Some e, d1) \<Rightarrow>
               (case Array_setpart junk e (of_nat i) (of_nat (length e)) erg of None \<Rightarrow> None
                | Some erg' \<Rightarrow> X_Memory_Read_Block_lp junk b addr len small (i + blocksize) erg' d1)
      else Some (Some erg, d))"
  by pat_completeness auto
termination
  by (relation "measures [\<lambda>(junk, b, addr, len, small, i, erg, d). len - i,
        \<lambda>(junk, b, addr, len, small, i, erg, d). if small then 0 else 1]") auto

declare X_Memory_Read_Block_lp.simps [simp del]

definition X_Memory_Read_Block ::
    "uchar memory \<Rightarrow> 'd bus \<Rightarrow> memaddr_t \<Rightarrow> nat \<Rightarrow> 'd \<Rightarrow> (CArray option \<times> 'd) option" where
  "X_Memory_Read_Block junk b addr len d =
     (case Array_resize junk (of_nat len) [] of None \<Rightarrow> None
      | Some erg \<Rightarrow> X_Memory_Read_Block_lp junk b addr len False 0 erg d)"

text \<open>
  \<open>X_Memory_Write_Block\<close>: \<open>data[k]\<close> and \<open>prev[k]\<close> are read before \<open>k < data ()\<close> is tested, one
  element behind their end; \<open>junk\<close> and \<open>junk'\<close> are what is found there. \<open>differing\<close> is the inner
  loop: the length of the block to write.
\<close>

definition cell :: "uchar memory \<Rightarrow> CArray \<Rightarrow> nat \<Rightarrow> uchar" where
  "cell junk xs k = (if k < length xs then xs ! k else junk k)"

function differing :: "uchar memory \<Rightarrow> uchar memory \<Rightarrow> CArray \<Rightarrow> CArray \<Rightarrow> nat \<Rightarrow> nat \<Rightarrow> nat" where
  "differing junk junk' dat prev i j =
     (if cell junk dat (i + j) \<noteq> cell junk' prev (i + j) \<and> j < 12 \<and> i + j < length dat
      then differing junk junk' dat prev i (j + 1) else j)"
  by pat_completeness auto
termination by (relation "measure (\<lambda>(junk, junk', dat, prev, i, j). 12 - j)") auto

declare differing.simps [simp del]

lemma differing_ge: "j \<le> differing junk junk' dat prev i j"
  by (induction junk junk' dat prev i j rule: differing.induct) (subst differing.simps, auto)

lemma differing_pos:
  "i < length dat \<Longrightarrow> cell junk dat i \<noteq> cell junk' prev i \<Longrightarrow> 1 \<le> differing junk junk' dat prev i 0"
  using differing_ge [of 1 junk junk' dat prev i] by (subst differing.simps) simp

function X_Memory_Write_Block_lp ::
    "uchar memory \<Rightarrow> uchar memory \<Rightarrow> 'd bus \<Rightarrow> memaddr_t \<Rightarrow> CArray \<Rightarrow> CArray \<Rightarrow> nat \<Rightarrow> int \<Rightarrow> 'd \<Rightarrow> (int \<times> 'd) option" where
  "X_Memory_Write_Block_lp junk junk' b addr dat prev i res d =
     (if i < length dat then
        if cell junk dat i = cell junk' prev i
        then X_Memory_Write_Block_lp junk junk' b addr dat prev (i + 1) res d
        else let j = differing junk junk' dat prev i 0
             in case X_Memory_Write junk b (addr + of_nat i) (take j (drop i dat)) d of
                  None \<Rightarrow> None
                | Some (k, d1) \<Rightarrow>
                    if k = - 1 then Some (- 1, d1)
                    else X_Memory_Write_Block_lp junk junk' b addr dat prev (i + j) (if k = - 2 then - 2 else res) d1
      else Some (res, d))"
  by pat_completeness auto
termination
proof (relation "measure (\<lambda>(junk, junk', b, addr, dat, prev, i, res, d). length dat - i)")
  fix junk junk' :: "uchar memory" and dat prev :: CArray and i :: nat and j
  assume "i < length dat" and "cell junk dat i \<noteq> cell junk' prev i"
    and "j = differing junk junk' dat prev i 0"
  then have "1 \<le> j" using differing_pos by blast
  with \<open>i < length dat\<close> have "length dat - (i + j) < length dat - i" by simp
  then show "\<And>(b :: 'd bus) addr x y res k d d1.
    ((junk, junk', b, addr, dat, prev, i + j, if k = - 2 then - 2 else res, d1), junk, junk', b, addr, dat, prev, i, res, d)
      \<in> measure (\<lambda>(junk, junk', b, addr, dat, prev, i, res, d). length dat - i)" by simp
qed auto

declare X_Memory_Write_Block_lp.simps [simp del]

definition X_Memory_Write_Block ::
    "uchar memory \<Rightarrow> uchar memory \<Rightarrow> 'd bus \<Rightarrow> memaddr_t \<Rightarrow> CArray \<Rightarrow> 'd \<Rightarrow> (int \<times> 'd) option" where
  "X_Memory_Write_Block junk junk' b addr dat d =
     (case X_Memory_Read_Block junk b addr (length dat) d of
        None \<Rightarrow> None
      | Some (None, d1) \<Rightarrow> Some (- 1, d1)
      | Some (Some prev, d1) \<Rightarrow> X_Memory_Write_Block_lp junk junk' b addr dat prev 0 0 d1)"

text \<open>\<open>A_Memory_Write_Block\<close>: blocks of 12 bytes, nothing is verified; the result is always 0.\<close>

function A_Memory_Write_Block_lp :: "uchar memory \<Rightarrow> 'd bus \<Rightarrow> memaddr_t \<Rightarrow> CArray \<Rightarrow> nat \<Rightarrow> 'd \<Rightarrow> 'd option" where
  "A_Memory_Write_Block_lp junk b addr dat i d =
     (if i < length dat then
        let j = (if i + 12 > length dat then length dat - i else 12)
        in case A_Memory_Write junk b (addr + of_nat i) (take j (drop i dat)) d of
             None \<Rightarrow> None
           | Some d1 \<Rightarrow> A_Memory_Write_Block_lp junk b addr dat (i + 12) d1
      else Some d)"
  by pat_completeness auto
termination by (relation "measure (\<lambda>(junk, b, addr, dat, i, d). length dat - i)") auto

declare A_Memory_Write_Block_lp.simps [simp del]

definition A_Memory_Write_Block ::
    "uchar memory \<Rightarrow> 'd bus \<Rightarrow> memaddr_t \<Rightarrow> CArray \<Rightarrow> 'd \<Rightarrow> (int \<times> 'd) option" where
  "A_Memory_Write_Block junk b addr dat d = map_option (Pair 0) (A_Memory_Write_Block_lp junk b addr dat 0 d)"

section \<open>Layer7\_Individual\<close>

text \<open>The same calls on a connectionless endpoint, \<open>T_Individual\<close>.\<close>

definition Individual_Request_Response ::
    "uchar memory \<Rightarrow> 'd bus \<Rightarrow> apdu \<Rightarrow> 'd \<Rightarrow> (apdu option \<times> 'd) option" where
  "Individual_Request_Response junk b r d =
     (case APDU_ToPacket junk r of None \<Rightarrow> None
      | Some q \<Rightarrow>
          (case l4_get b (l4_send b q d) of
             (None, d') \<Rightarrow> Some (None, d')
           | (Some c, d') \<Rightarrow>
               if c = [] then Some (None, d')
               else let a = APDU_fromPacket c
                    in if APDU_isResponse a r then Some (Some a, d') else Some (None, d')))"

definition Individual_A_Property_Read ::
    "uchar memory \<Rightarrow> 'd bus \<Rightarrow> uchar \<Rightarrow> uchar \<Rightarrow> 16 word \<Rightarrow> uchar \<Rightarrow> 'd \<Rightarrow> (CArray option \<times> 'd) option" where
  "Individual_A_Property_Read junk b obj prop start cnt d =
     answer_part property_value
       (Individual_Request_Response junk b (A_PropertyValue_Read_PDU obj prop (cnt AND 0x0f) (start AND 0x0fff)) d)"

definition Individual_A_Property_Write ::
    "uchar memory \<Rightarrow> 'd bus \<Rightarrow> uchar \<Rightarrow> uchar \<Rightarrow> 16 word \<Rightarrow> uchar \<Rightarrow> CArray \<Rightarrow> 'd \<Rightarrow> (CArray option \<times> 'd) option" where
  "Individual_A_Property_Write junk b obj prop start cnt dat d =
     answer_part property_value
       (Individual_Request_Response junk b (A_PropertyValue_Write_PDU obj prop (cnt AND 0x0f) (start AND 0x0fff) dat) d)"

end
