(* ===== verification/Management.thy ===== *)
theory Management
  imports Layer7 EibTypes "HOL-Library.Monad_Syntax"
begin

text \<open>
  The management functions of \<open>eibd/libserver/management.cpp\<close> (\<open>Management_Connection\<close>) and the
  client requests of \<open>managementclient.cpp\<close> that use them. A handler returns the messages it sends
  to the client and the state of the bus; \<open>sendreject\<close> sends a message of only a type. As in
  theory \<open>Layer7\<close>, \<open>None\<close> is an abort or an access outside an object: the messages of the clients are
  read with checked access.
\<close>

section \<open>Reading a message\<close>

text \<open>\<open>(buf[i] << 8) | buf[i + 1]\<close>, and the same with four bytes.\<close>

definition rd16 :: "CArray \<Rightarrow> nat \<Rightarrow> 16 word option" where
  "rd16 m i = do { x \<leftarrow> rd m i; y \<leftarrow> rd m (i + 1); Some (mk16 x y) }"

definition rd32 :: "CArray \<Rightarrow> nat \<Rightarrow> 32 word option" where
  "rd32 m i = do { x \<leftarrow> rd m i; y \<leftarrow> rd m (i + 1); z \<leftarrow> rd m (i + 2); w \<leftarrow> rd m (i + 3); Some (mk32 x y z w) }"

text \<open>\<open>CArray (buf + i, n)\<close> and \<open>CArray (buf + i, size - i)\<close>.\<close>

definition rd_part :: "CArray \<Rightarrow> nat \<Rightarrow> nat \<Rightarrow> CArray option" where
  "rd_part m i n = (if i + n \<le> length m then Some (take n (drop i m)) else None)"

definition rd_rest :: "CArray \<Rightarrow> nat \<Rightarrow> CArray option" where
  "rd_rest m i = (if i \<le> length m then Some (drop i m) else None)"

lemma rd_inside [simp]:
  "i < length m \<Longrightarrow> rd m i = Some (m ! i)"
  "1 < length m \<Longrightarrow> rd16 m 0 = Some (mk16 (m ! 0) (m ! 1))"
  "3 < length m \<Longrightarrow> rd16 m 2 = Some (mk16 (m ! 2) (m ! 3))"
  "5 < length m \<Longrightarrow> rd16 m 4 = Some (mk16 (m ! 4) (m ! 5))"
  "5 < length m \<Longrightarrow> rd32 m 2 = Some (mk32 (m ! 2) (m ! 3) (m ! 4) (m ! 5))"
  "\<not> length m < n + i \<Longrightarrow> rd_part m i n = Some (take n (drop i m))"
  "i \<le> length m \<Longrightarrow> rd_rest m i = Some (drop i m)"
  by (auto simp: rd_def rd16_def rd32_def rd_part_def rd_rest_def)

section \<open>Management\_Connection\<close>

text \<open>
  The three calls that write the programming mode read the byte at 0x60, change it and write it
  back with a verification: bit 0 is the mode, bit 7 the parity.
\<close>

definition X_Progmode_update :: "(uchar \<Rightarrow> uchar) \<Rightarrow> uchar memory \<Rightarrow> 'd bus \<Rightarrow> 'd \<Rightarrow> (int \<times> 'd) option" where
  "X_Progmode_update f junk b d =
     (case A_Memory_Read junk b 0x60 1 d of
        None \<Rightarrow> None
      | Some (None, d1) \<Rightarrow> Some (- 1, d1)
      | Some (Some c, d1) \<Rightarrow>
          (case rd c 0 of None \<Rightarrow> None
           | Some v \<Rightarrow>
               (case X_Memory_Write junk b 0x60 (c[0 := f v]) d1 of
                  None \<Rightarrow> None
                | Some (r, d2) \<Rightarrow> if r \<noteq> 0 then Some (- 1, d2) else Some (0, d2))))"

definition X_Progmode_On :: "uchar memory \<Rightarrow> 'd bus \<Rightarrow> 'd \<Rightarrow> (int \<times> 'd) option" where
  "X_Progmode_On = X_Progmode_update (\<lambda>v. if v AND 0x01 = 0 then v XOR 0x81 else v)"

definition X_Progmode_Off :: "uchar memory \<Rightarrow> 'd bus \<Rightarrow> 'd \<Rightarrow> (int \<times> 'd) option" where
  "X_Progmode_Off = X_Progmode_update (\<lambda>v. if v AND 0x01 \<noteq> 0 then v XOR 0x81 else v)"

definition X_Progmode_Toggle :: "uchar memory \<Rightarrow> 'd bus \<Rightarrow> 'd \<Rightarrow> (int \<times> 'd) option" where
  "X_Progmode_Toggle = X_Progmode_update (\<lambda>v. v XOR 0x81)"

definition X_Progmode_Status :: "uchar memory \<Rightarrow> 'd bus \<Rightarrow> 'd \<Rightarrow> (int \<times> 'd) option" where
  "X_Progmode_Status junk b d =
     (case A_Memory_Read junk b 0x60 1 d of
        None \<Rightarrow> None
      | Some (None, d1) \<Rightarrow> Some (- 1, d1)
      | Some (Some c, d1) \<Rightarrow>
          (case rd c 0 of None \<Rightarrow> None
           | Some v \<Rightarrow> Some (if v AND 0x01 \<noteq> 0 then 1 else 0, d1)))"

text \<open>\<open>v\<close> is a signed 16 bit integer and the division truncates.\<close>

definition PEIType_value :: "16 word \<Rightarrow> int" where
  "PEIType_value v =
     (let x = sint v * 10 + 16 in if x \<ge> 0 then x div 128 else - ((- x) div 128))"

definition X_Get_PEIType :: "uchar memory \<Rightarrow> 'd bus \<Rightarrow> 'd \<Rightarrow> (16 word option \<times> 'd) option" where
  "X_Get_PEIType junk b d =
     (case A_ADC_Read junk b 4 1 d of
        None \<Rightarrow> None
      | Some (None, d1) \<Rightarrow> Some (None, d1)
      | Some (Some v, d1) \<Rightarrow> Some (Some (word_of_int (PEIType_value v)), d1))"

record PropertyInfo =
  pi_obj :: uchar
  pi_property :: uchar
  pi_type :: uchar
  pi_count :: "16 word"
  pi_access :: uchar

text \<open>
  One turn of the inner loop of \<open>X_PropertyScan\<close>: \<open>Some None\<close> is \<open>return -1\<close>; \<open>type\<close>, \<open>count\<close> and
  \<open>access\<close> are set by \<open>A_Property_Desc\<close>, so that \<open>p1\<close> carries nothing from turn to turn.
\<close>

definition PropertyScan_turn ::
    "uchar memory \<Rightarrow> 'd bus \<Rightarrow> uchar \<Rightarrow> uchar \<Rightarrow> 'd \<Rightarrow> (PropertyInfo option \<times> 'd) option" where
  "PropertyScan_turn junk b obj i d =
     (case A_Property_Desc junk b obj 0 i d of
        None \<Rightarrow> None
      | Some (None, d1) \<Rightarrow> Some (None, d1)
      | Some (Some (prop, type, cnt, access), d1) \<Rightarrow>
          if prop = 1 \<and> type = 4 then
            (case A_Property_Read junk b obj 1 1 1 d1 of
               None \<Rightarrow> None
             | Some (None, d2) \<Rightarrow> Some (None, d2)
             | Some (Some a, d2) \<Rightarrow>
                 if length a \<noteq> 2 then Some (None, d2)
                 else do {
                   count \<leftarrow> rd16 a 0;
                   Some (Some \<lparr>pi_obj = obj, pi_property = prop, pi_type = type, pi_count = count, pi_access = access\<rparr>, d2)
                 })
          else Some (Some \<lparr>pi_obj = obj, pi_property = prop, pi_type = type, pi_count = cnt, pi_access = access\<rparr>, d1))"

text \<open>
  The two loops. \<open>obj\<close> and \<open>i\<close> are bytes and wrap, so that the loops need not end: then the
  result is \<open>None\<close>.
\<close>

partial_function (option) PropertyScan_lp ::
    "uchar memory \<Rightarrow> 'd bus \<Rightarrow> uchar \<Rightarrow> uchar \<Rightarrow> PropertyInfo list \<Rightarrow> 'd \<Rightarrow> (PropertyInfo list option \<times> 'd) option" where
  "PropertyScan_lp junk b obj i p d =
     Option.bind (PropertyScan_turn junk b obj i d)
       (\<lambda>(r, d1). case r of
          None \<Rightarrow> Some (None, d1)
        | Some p1 \<Rightarrow>
            if pi_property p1 \<noteq> 0 then PropertyScan_lp junk b obj (i + 1) (p @ [p1]) d1
            else if i + 1 \<noteq> 1 then PropertyScan_lp junk b (obj + 1) 0 p d1
            else Some (Some p, d1))"

definition X_PropertyScan :: "uchar memory \<Rightarrow> 'd bus \<Rightarrow> 'd \<Rightarrow> (PropertyInfo list option \<times> 'd) option" where
  "X_PropertyScan junk b d = PropertyScan_lp junk b 0 0 [] d"

section \<open>The requests outside a connection\<close>

definition ReadIndividualAddresses :: "uchar memory \<Rightarrow> 'd bus \<Rightarrow> 'd \<Rightarrow> (CArray list \<times> 'd) option" where
  "ReadIndividualAddresses junk b d =
     (case bc_open b d of
        (False, d1) \<Rightarrow> Some ([EIBSETTYPE EIB_PROCESSING_ERROR], d1)
      | (True, d1) \<Rightarrow>
          (case A_IndividualAddress_Read junk b d1 of None \<Rightarrow> None
           | Some (e, d2) \<Rightarrow>
               Some ([EIBSETTYPE EIB_M_INDIVIDUAL_ADDRESS_READ @ concat (map (\<lambda>a. [hi8 a, lo8 a]) e)], bc_close b d2)))"

text \<open>
  The \<open>switch\<close> over the mode, with \<open>t\<close> as the type of the answer. The second part of the
  result is \<open>i\<close>, the result of \<open>X_Progmode_Status\<close> where that is called and 0 elsewhere.
\<close>

definition progmode_answer :: "16 word \<Rightarrow> (int \<times> 'd) option \<Rightarrow> (CArray \<times> int \<times> 'd) option" where
  "progmode_answer t r =
     (case r of None \<Rightarrow> None
      | Some (k, d) \<Rightarrow> Some (if k = - 1 then EIBSETTYPE EIB_INVALID_REQUEST else EIBSETTYPE t @ [0], 0, d))"

definition progmode_switch :: "uchar memory \<Rightarrow> 'd bus \<Rightarrow> 16 word \<Rightarrow> uchar \<Rightarrow> 'd \<Rightarrow> (CArray \<times> int \<times> 'd) option" where
  "progmode_switch junk b t k d =
     (if k = 0 then progmode_answer t (X_Progmode_Off junk b d)
      else if k = 1 then progmode_answer t (X_Progmode_On junk b d)
      else if k = 2 then progmode_answer t (X_Progmode_Toggle junk b d)
      else if k = 3 then
        (case X_Progmode_Status junk b d of None \<Rightarrow> None
         | Some (i, d1) \<Rightarrow>
             Some (if i = - 1 then EIBSETTYPE EIB_INVALID_REQUEST else EIBSETTYPE t @ [word_of_int i], i, d1))
      else Some (EIBSETTYPE EIB_INVALID_REQUEST, 0, d))"

definition ChangeProgMode :: "uchar memory \<Rightarrow> 'd bus \<Rightarrow> CArray \<Rightarrow> 'd \<Rightarrow> (CArray list \<times> 'd) option" where
  "ChangeProgMode junk b m d =
     (if length m < 5 then Some ([EIBSETTYPE EIB_INVALID_REQUEST], d)
      else do {
        dest \<leftarrow> rd16 m 2;
        case l4_open b dest d of
          (False, d1) \<Rightarrow> Some ([EIBSETTYPE EIB_PROCESSING_ERROR], d1)
        | (True, d1) \<Rightarrow> do {
            k \<leftarrow> rd m 4;
            (r, i, d2) \<leftarrow> progmode_switch junk b EIB_PROG_MODE k d1;
            Some ([r], l4_close b d2)
          }
      })"

definition GetMaskVersion :: "uchar memory \<Rightarrow> 'd bus \<Rightarrow> CArray \<Rightarrow> 'd \<Rightarrow> (CArray list \<times> 'd) option" where
  "GetMaskVersion junk b m d =
     (if length m < 4 then Some ([EIBSETTYPE EIB_INVALID_REQUEST], d)
      else do {
        dest \<leftarrow> rd16 m 2;
        case l4_open b dest d of
          (False, d1) \<Rightarrow> Some ([EIBSETTYPE EIB_PROCESSING_ERROR], d1)
        | (True, d1) \<Rightarrow>
            (case A_Device_Descriptor_Read junk b 0 d1 of None \<Rightarrow> None
             | Some (None, d2) \<Rightarrow> Some ([EIBSETTYPE EIB_INVALID_REQUEST], l4_close b d2)
             | Some (Some v, d2) \<Rightarrow> Some ([EIBSETTYPE EIB_MASK_VERSION @ [hi8 v, lo8 v]], l4_close b d2))
      })"

text \<open>
  \<open>WriteIndividualAddress\<close>: the address must be free, one device must be in programming mode, it
  gets the address and is then asked at the new address. Its parts: is a device there, and the
  end of the function, from the write on.
\<close>

definition address_in_use :: "uchar memory \<Rightarrow> 'd bus \<Rightarrow> eibaddr_t \<Rightarrow> 'd \<Rightarrow> (bool option \<times> 'd) option" where
  "address_in_use junk b dst d =
     (case l4_open b dst d of
        (False, d1) \<Rightarrow> Some (None, d1)
      | (True, d1) \<Rightarrow>
          (case A_Device_Descriptor_Read junk b 0 d1 of None \<Rightarrow> None
           | Some (v, d2) \<Rightarrow> Some (Some (v \<noteq> None), l4_close b d2)))"

definition assign_address :: "uchar memory \<Rightarrow> 'd bus \<Rightarrow> eibaddr_t \<Rightarrow> 'd \<Rightarrow> (16 word \<times> 'd) option" where
  "assign_address junk b dst d =
     (case A_IndividualAddress_Write junk b dst d of None \<Rightarrow> None
      | Some d1 \<Rightarrow>
          (case l4_open b dst d1 of
             (False, d2) \<Rightarrow> Some (EIB_PROCESSING_ERROR, d2)
           | (True, d2) \<Rightarrow>
               (case A_Device_Descriptor_Read junk b 0 d2 of None \<Rightarrow> None
                | Some (None, d3) \<Rightarrow> Some (EIB_PROCESSING_ERROR, l4_close b d3)
                | Some (Some v, d3) \<Rightarrow>
                    (case X_Progmode_Off junk b d3 of None \<Rightarrow> None
                     | Some (r, d4) \<Rightarrow>
                         Some (if r = - 1 then EIB_PROCESSING_ERROR else EIB_M_INDIVIDUAL_ADDRESS_WRITE, l4_close b d4)))))"

definition WriteIndividualAddress :: "uchar memory \<Rightarrow> 'd bus \<Rightarrow> CArray \<Rightarrow> 'd \<Rightarrow> (CArray list \<times> 'd) option" where
  "WriteIndividualAddress junk b m d =
     (if length m < 4 then Some ([EIBSETTYPE EIB_INVALID_REQUEST], d)
      else do {
        dst \<leftarrow> rd16 m 2;
        case bc_open b d of
             (False, d1) \<Rightarrow> Some ([EIBSETTYPE EIB_PROCESSING_ERROR], d1)
           | (True, d1) \<Rightarrow>
               (case address_in_use junk b dst d1 of
                  None \<Rightarrow> None
                | Some (None, d2) \<Rightarrow> Some ([EIBSETTYPE EIB_PROCESSING_ERROR], bc_close b d2)
                | Some (Some True, d2) \<Rightarrow> Some ([EIBSETTYPE EIB_ERROR_ADDR_EXISTS], bc_close b d2)
                | Some (Some False, d2) \<Rightarrow>
                    (case A_IndividualAddress_Read junk b d2 of None \<Rightarrow> None
                     | Some (addr, d3) \<Rightarrow>
                         if length addr > 1 then Some ([EIBSETTYPE EIB_ERROR_MORE_DEVICE], bc_close b d3)
                         else if length addr = 0 then Some ([EIBSETTYPE EIB_ERROR_TIMEOUT], bc_close b d3)
                         else (case assign_address junk b dst d3 of None \<Rightarrow> None
                               | Some (t, d4) \<Rightarrow> Some ([EIBSETTYPE t], bc_close b d4))))
      })"

section \<open>A management connection\<close>

text \<open>\<open>erg.resize (n); EIBSETTYPE (erg, t); erg.setpart (dat, 2);\<close>, with what \<open>erg\<close> holds before.\<close>

definition data_answer_in :: "uchar memory \<Rightarrow> CArray \<Rightarrow> unsigned \<Rightarrow> 16 word \<Rightarrow> CArray \<Rightarrow> CArray option" where
  "data_answer_in junk erg0 n t dat =
     (case Array_resize junk n erg0 of None \<Rightarrow> None
      | Some erg \<Rightarrow>
          (case wr erg 0 (hi8 t) of None \<Rightarrow> None
           | Some erg1 \<Rightarrow>
               (case wr erg1 1 (lo8 t) of None \<Rightarrow> None
                | Some erg2 \<Rightarrow> Array_setpart junk dat 2 (of_nat (length dat)) erg2)))"

definition data_answer :: "uchar memory \<Rightarrow> unsigned \<Rightarrow> 16 word \<Rightarrow> CArray \<Rightarrow> CArray option" where
  "data_answer junk n t dat = data_answer_in junk [] n t dat"

text \<open>
  The answer to a property write: the result of the call is \<open>erg\<close>, and what is put behind the type is the local
  array \<open>data\<close>, which is empty.
\<close>

definition property_write_answer :: "uchar memory \<Rightarrow> CArray \<Rightarrow> CArray option" where
  "property_write_answer junk erg = data_answer_in junk erg 2 EIB_MC_PROP_WRITE []"

definition property_info_bytes :: "PropertyInfo \<Rightarrow> CArray" where
  "property_info_bytes p = [pi_obj p, pi_property p, pi_type p, hi8 (pi_count p), lo8 (pi_count p), pi_access p]"

text \<open>
  The cases of the \<open>switch\<close> that only send one message: \<open>-1\<close> of the call becomes the rejection,
  a value the answer \<open>f\<close> makes of it. The second part of the result is \<open>i\<close>, which \<open>readmessage\<close>
  has set to 0.
\<close>

definition mc_answer ::
    "('a \<Rightarrow> CArray option) \<Rightarrow> ('a option \<times> 'd) option \<Rightarrow> (CArray list \<times> int \<times> 'd) option" where
  "mc_answer f r =
     (case r of None \<Rightarrow> None
      | Some (None, d) \<Rightarrow> Some ([EIBSETTYPE EIB_INVALID_REQUEST], 0, d)
      | Some (Some v, d) \<Rightarrow> (case f v of None \<Rightarrow> None | Some c \<Rightarrow> Some ([c], 0, d)))"

definition mc_reject :: "'d \<Rightarrow> (CArray list \<times> int \<times> 'd) option" where
  "mc_reject d = Some ([EIBSETTYPE EIB_INVALID_REQUEST], 0, d)"

definition mc_word :: "16 word \<Rightarrow> 16 word \<Rightarrow> CArray option" where
  "mc_word t v = Some (EIBSETTYPE t @ [hi8 v, lo8 v])"

definition mc_write :: "uchar memory \<Rightarrow> uchar memory \<Rightarrow> 'd bus \<Rightarrow> CArray \<Rightarrow> 'd \<Rightarrow> (CArray list \<times> int \<times> 'd) option" where
  "mc_write junk junk' b m d =
     (if length m < 6 then mc_reject d
      else do {
        addr \<leftarrow> rd16 m 2;
        len \<leftarrow> map_option unat (rd16 m 4);
        if length m < len + 6 then mc_reject d
        else do {
          xs \<leftarrow> rd_part m 6 len;
          (i, d1) \<leftarrow> X_Memory_Write_Block junk junk' b addr xs d;
          Some ([EIBSETTYPE (if i = - 2 then EIB_ERROR_VERIFY
                             else if i \<noteq> 0 then EIB_PROCESSING_ERROR else EIB_MC_WRITE)], i, d1)
        }
      })"

definition mc_write_noverify :: "uchar memory \<Rightarrow> 'd bus \<Rightarrow> CArray \<Rightarrow> 'd \<Rightarrow> (CArray list \<times> int \<times> 'd) option" where
  "mc_write_noverify junk b m d =
     (if length m < 6 then mc_reject d
      else do {
        addr \<leftarrow> rd16 m 2;
        len \<leftarrow> map_option unat (rd16 m 4);
        if length m < len + 6 then mc_reject d
        else do {
          xs \<leftarrow> rd_part m 6 len;
          (i, d1) \<leftarrow> A_Memory_Write_Block junk b addr xs d;
          Some ([EIBSETTYPE (if i \<noteq> 0 then EIB_PROCESSING_ERROR else EIB_MC_WRITE_NOVERIFY)], i, d1)
        }
      })"

text \<open>
  One message of the client. The loop goes on while the second part of the result is not \<open>-1\<close>.
\<close>

definition ManagementConnection_message ::
    "uchar memory \<Rightarrow> uchar memory \<Rightarrow> 'd bus \<Rightarrow> CArray \<Rightarrow> 'd \<Rightarrow> (CArray list \<times> int \<times> 'd) option" where
  "ManagementConnection_message junk junk' b m d =
     (let t = EIBTYPE m; size = length m in
      if t = EIB_MC_PROG_MODE then
        (if size < 3 then mc_reject d
         else do { k \<leftarrow> rd m 2; (r, i, d1) \<leftarrow> progmode_switch junk b EIB_MC_PROG_MODE k d; Some ([r], i, d1) })
      else if t = EIB_MC_MASK_VERSION then
        mc_answer (mc_word EIB_MC_MASK_VERSION) (A_Device_Descriptor_Read junk b 0 d)
      else if t = EIB_MC_PEI_TYPE then mc_answer (mc_word EIB_MC_PEI_TYPE) (X_Get_PEIType junk b d)
      else if t = EIB_MC_ADC_READ then
        (if size < 4 then mc_reject d
         else do { x \<leftarrow> rd m 2; y \<leftarrow> rd m 3; mc_answer (mc_word EIB_MC_ADC_READ) (A_ADC_Read junk b x y d) })
      else if t = EIB_MC_READ then
        (if size < 6 then mc_reject d
         else do {
           addr \<leftarrow> rd16 m 2;
           len \<leftarrow> rd16 m 4;
           mc_answer (data_answer junk 6 EIB_MC_READ) (X_Memory_Read_Block junk b addr (unat len) d)
         })
      else if t = EIB_MC_WRITE then mc_write junk junk' b m d
      else if t = EIB_MC_PROP_READ then
        (if size < 7 then mc_reject d
         else do {
           obj \<leftarrow> rd m 2;
           property \<leftarrow> rd m 3;
           start \<leftarrow> rd16 m 4;
           nr \<leftarrow> rd m 6;
           mc_answer (data_answer junk 2 EIB_MC_PROP_READ) (A_Property_Read junk b obj property start nr d)
         })
      else if t = EIB_MC_PROP_WRITE then
        (if size < 7 then mc_reject d
         else do {
           obj \<leftarrow> rd m 2;
           property \<leftarrow> rd m 3;
           start \<leftarrow> rd16 m 4;
           nr \<leftarrow> rd m 6;
           xs \<leftarrow> rd_rest m 7;
           mc_answer (property_write_answer junk) (A_Property_Write junk b obj property start nr xs d)
         })
      else if t = EIB_MC_AUTHORIZE then
        (if size < 6 then mc_reject d
         else do {
           key \<leftarrow> rd32 m 2;
           mc_answer (\<lambda>level. Some (EIBSETTYPE EIB_MC_AUTHORIZE @ [level])) (A_Authorize junk b key d)
         })
      else if t = EIB_MC_KEY_WRITE then
        (if size < 7 then mc_reject d
         else do {
           key \<leftarrow> rd32 m 2;
           level \<leftarrow> rd m 6;
           mc_answer (\<lambda>level. Some (EIBSETTYPE EIB_MC_KEY_WRITE)) (A_KeyWrite junk b key level d)
         })
      else if t = EIB_MC_PROP_DESC then
        (if size < 4 then mc_reject d
         else do {
           obj \<leftarrow> rd m 2;
           property \<leftarrow> rd m 3;
           mc_answer (\<lambda>(prop, type, cnt, access). Some (EIBSETTYPE EIB_MC_PROP_DESC @ [type, hi8 cnt, lo8 cnt, access]))
             (A_Property_Desc junk b obj property 0 d)
         })
      else if t = EIB_MC_PROP_SCAN then
        mc_answer (\<lambda>p. Some (EIBSETTYPE EIB_MC_PROP_SCAN @ concat (map property_info_bytes p))) (X_PropertyScan junk b d)
      else if t = EIB_RESET_CONNECTION then Some ([], - 1, d)
      else if t = EIB_MC_RESTART then
        map_option (\<lambda>d1. ([EIBSETTYPE EIB_MC_RESTART], 0, d1)) (A_Restart junk b d)
      else if t = EIB_MC_WRITE_NOVERIFY then mc_write_noverify junk b m d
      else mc_reject d)"

text \<open>
  The opening, \<open>Some (rs, True, d)\<close> when the loop is entered, and the loop over the messages the
  client sends; \<open>readmessage\<close> fails when they are used up.
\<close>

definition ManagementConnection_open ::
    "uchar memory \<Rightarrow> 'd bus \<Rightarrow> CArray \<Rightarrow> 'd \<Rightarrow> (CArray list \<times> bool \<times> 'd) option" where
  "ManagementConnection_open junk b m d =
     (if length m < 4 then Some ([EIBSETTYPE EIB_INVALID_REQUEST], False, d)
      else do {
        dest \<leftarrow> rd16 m 2;
        case l4_open b dest d of
          (False, d1) \<Rightarrow> Some ([EIBSETTYPE EIB_PROCESSING_ERROR], False, d1)
        | (True, d1) \<Rightarrow>
            (case A_Device_Descriptor_Read junk b 0 d1 of None \<Rightarrow> None
             | Some (None, d2) \<Rightarrow> Some ([EIBSETTYPE EIB_INVALID_REQUEST], False, l4_close b d2)
             | Some (Some v, d2) \<Rightarrow> Some ([EIBSETTYPE EIB_MC_CONNECTION], True, d2))
      })"

fun ManagementConnection_lp ::
    "uchar memory \<Rightarrow> uchar memory \<Rightarrow> 'd bus \<Rightarrow> CArray list \<Rightarrow> 'd \<Rightarrow> (CArray list \<times> 'd) option" where
  "ManagementConnection_lp junk junk' b [] d = Some ([], d)"
| "ManagementConnection_lp junk junk' b (m # ms) d =
     (case ManagementConnection_message junk junk' b m d of
        None \<Rightarrow> None
      | Some (rs, i, d1) \<Rightarrow>
          if i = - 1 then Some (rs, d1)
          else map_option (\<lambda>(rs', d2). (rs @ rs', d2)) (ManagementConnection_lp junk junk' b ms d1))"

definition ManagementConnection ::
    "uchar memory \<Rightarrow> uchar memory \<Rightarrow> 'd bus \<Rightarrow> CArray \<Rightarrow> CArray list \<Rightarrow> 'd \<Rightarrow> (CArray list \<times> 'd) option" where
  "ManagementConnection junk junk' b m ms d =
     (case ManagementConnection_open junk b m d of
        None \<Rightarrow> None
      | Some (rs, False, d1) \<Rightarrow> Some (rs, d1)
      | Some (rs, True, d1) \<Rightarrow>
          map_option (\<lambda>(rs', d2). (rs @ rs', l4_close b d2)) (ManagementConnection_lp junk junk' b ms d1))"

section \<open>Connectionless management\<close>

definition ManagementIndividual_message ::
    "uchar memory \<Rightarrow> 'd bus \<Rightarrow> CArray \<Rightarrow> 'd \<Rightarrow> (CArray list \<times> int \<times> 'd) option" where
  "ManagementIndividual_message junk b m d =
     (let t = EIBTYPE m in
      if t = EIB_MC_PROP_READ then
        (if length m < 7 then mc_reject d
         else do {
           obj \<leftarrow> rd m 2;
           property \<leftarrow> rd m 3;
           start \<leftarrow> rd16 m 4;
           nr \<leftarrow> rd m 6;
           mc_answer (data_answer junk 2 EIB_MC_PROP_READ) (Individual_A_Property_Read junk b obj property start nr d)
         })
      else if t = EIB_MC_PROP_WRITE then
        (if length m < 7 then mc_reject d
         else do {
           obj \<leftarrow> rd m 2;
           property \<leftarrow> rd m 3;
           start \<leftarrow> rd16 m 4;
           nr \<leftarrow> rd m 6;
           xs \<leftarrow> rd_rest m 7;
           mc_answer (property_write_answer junk) (Individual_A_Property_Write junk b obj property start nr xs d)
         })
      else if t = EIB_RESET_CONNECTION then Some ([], - 1, d)
      else mc_reject d)"

fun ManagementIndividual_lp :: "uchar memory \<Rightarrow> 'd bus \<Rightarrow> CArray list \<Rightarrow> 'd \<Rightarrow> (CArray list \<times> 'd) option" where
  "ManagementIndividual_lp junk b [] d = Some ([], d)"
| "ManagementIndividual_lp junk b (m # ms) d =
     (case ManagementIndividual_message junk b m d of
        None \<Rightarrow> None
      | Some (rs, i, d1) \<Rightarrow>
          if i = - 1 then Some (rs, d1)
          else map_option (\<lambda>(rs', d2). (rs @ rs', d2)) (ManagementIndividual_lp junk b ms d1))"

definition ManagementIndividual ::
    "uchar memory \<Rightarrow> 'd bus \<Rightarrow> CArray \<Rightarrow> CArray list \<Rightarrow> 'd \<Rightarrow> (CArray list \<times> 'd) option" where
  "ManagementIndividual junk b m ms d =
     (if length m < 4 then Some ([EIBSETTYPE EIB_INVALID_REQUEST], d)
      else do {
        dest \<leftarrow> rd16 m 2;
        case l4_open b dest d of
          (False, d1) \<Rightarrow> Some ([EIBSETTYPE EIB_PROCESSING_ERROR], d1)
        | (True, d1) \<Rightarrow>
            map_option (\<lambda>(rs, d2). (EIBSETTYPE EIB_MC_INDIVIDUAL # rs, l4_close b d2))
              (ManagementIndividual_lp junk b ms d1)
      })"

end
