(* ===== verification/Layer7Proofs.thy ===== *)
theory Layer7Proofs
  imports Layer7
begin

text \<open>
  The calls of layer 7 for any bus: every request encodes, an accepted answer has the class the call
  casts it to, and the block functions stay inside their arrays. Then their results on a device
  whose memory answers.
\<close>

section \<open>Requests and answers\<close>

lemma Request_Response_cases:
  assumes "apdu_ok r"
  obtains d' where "Request_Response junk b r d = Some (None, d')"
  | a d' where "Request_Response junk b r d = Some (Some a, d')" "APDU_isResponse a r" "apdu_ok a"
proof -
  obtain q where q: "APDU_ToPacket junk r = Some q" using apdu_ok_encodes [OF assms] by blast
  obtain c d1 where g: "l4_get b (l4_send b q d) = (c, d1)" by fastforce
  show thesis
  proof (cases c)
    case None
    then show ?thesis using that(1) [of d1] by (simp add: Request_Response_def q g)
  next
    case (Some p)
    show ?thesis
    proof (cases "p \<noteq> [] \<and> APDU_isResponse (APDU_fromPacket p) r")
      case True
      then show ?thesis using that(2) [of "APDU_fromPacket p" d1] Some
        by (simp add: Request_Response_def q g apdu_ok_fromPacket)
    next
      case False
      then show ?thesis using that(1) [of d1] Some
        by (auto simp: Request_Response_def q g Let_def)
    qed
  qed
qed

lemma Individual_Request_Response_eq: "Individual_Request_Response = Request_Response"
  by (rule ext)+ (simp add: Individual_Request_Response_def Request_Response_def)

lemma Individual_calls_eq:
  "Individual_A_Property_Read = A_Property_Read" "Individual_A_Property_Write = A_Property_Write"
  by (rule ext, simp add: Individual_A_Property_Read_def A_Property_Read_def
      Individual_A_Property_Write_def A_Property_Write_def Individual_Request_Response_eq fun_eq_iff)+

text \<open>An answer, once accepted, has the class of the cast.\<close>

lemma isResponse_parts:
  "APDU_isResponse a (A_PropertyValue_Read_PDU obj prop cnt start) \<Longrightarrow> property_value a \<noteq> None"
  "APDU_isResponse a (A_PropertyValue_Write_PDU obj prop cnt start xs) \<Longrightarrow> property_value a \<noteq> None"
  "APDU_isResponse a (A_PropertyDescription_Read_PDU obj prop i) \<Longrightarrow> property_description a \<noteq> None"
  "APDU_isResponse a (A_DeviceDescriptor_Read_PDU type) \<Longrightarrow> device_descriptor a \<noteq> None"
  "APDU_isResponse a (A_ADC_Read_PDU channel cnt) \<Longrightarrow> adc_value a \<noteq> None"
  "APDU_isResponse a (A_Authorize_Request_PDU key) \<Longrightarrow> authorize_level a \<noteq> None"
  "APDU_isResponse a (A_Key_Write_PDU level key) \<Longrightarrow> key_level a \<noteq> None"
  "APDU_isResponse a (A_Memory_Read_PDU cnt addr) \<Longrightarrow> apdu_ok a \<Longrightarrow>
     \<exists>xs. memory_data a = Some xs \<and> length xs = unat cnt"
  by (cases a; simp add: APDU_isResponse_def property_value_def property_description_def
      device_descriptor_def adc_value_def authorize_level_def key_level_def memory_data_def apdu_ok_def
      A_GroupValue_Response_isResponse_def A_IndividualAddress_Response_isResponse_def
      A_IndividualAddressSerialNumber_Response_isResponse_def A_DomainAddress_Response_isResponse_def
      A_PropertyValue_Response_isResponse_def A_PropertyDescription_Response_isResponse_def
      A_DeviceDescriptor_Response_isResponse_def A_ADC_Response_isResponse_def
      A_Memory_Response_isResponse_def A_UserMemory_Response_isResponse_def
      A_UserManufacturerInfo_Response_isResponse_def A_Authorize_Response_isResponse_def
      A_Key_Response_isResponse_def)+

lemma low4_ok: "(x AND 0x0F) AND 0xF0 = 0" for x :: uchar
  by (simp add: and.assoc)

lemma low6_ok: "(x AND 0x3F) AND 0xC0 = 0" for x :: uchar
  by (simp add: and.assoc)

lemma low12_ok: "(x AND 0x0FFF) AND 0xF000 = 0" for x :: "16 word"
  by (simp add: and.assoc)

lemmas requests_ok = apdu_ok_def low4_ok low6_ok low12_ok

lemma answer_part_total:
  assumes "apdu_ok r" and "\<And>a. APDU_isResponse a r \<Longrightarrow> apdu_ok a \<Longrightarrow> part a \<noteq> None"
  shows "\<exists>v d'. answer_part part (Request_Response junk b r d) = Some (v, d')"
  by (rule Request_Response_cases [OF assms(1), of junk b d])
    (use assms(2) in \<open>auto simp: answer_part_def split: option.splits\<close>)

lemma calls_total:
  "\<exists>v d'. A_Property_Read junk b obj prop start cnt d = Some (v, d')"
  "\<exists>v d'. A_Property_Write junk b obj prop start cnt xs d = Some (v, d')"
  "\<exists>v d'. A_Property_Desc junk b obj prop i d = Some (v, d')"
  "\<exists>v d'. A_Device_Descriptor_Read junk b type d = Some (v, d')"
  "\<exists>v d'. A_ADC_Read junk b channel cnt d = Some (v, d')"
  "\<exists>v d'. A_Authorize junk b key d = Some (v, d')"
  "\<exists>v d'. A_KeyWrite junk b key level d = Some (v, d')"
  unfolding A_Property_Read_def A_Property_Write_def A_Property_Desc_def A_Device_Descriptor_Read_def
    A_ADC_Read_def A_Authorize_def A_KeyWrite_def
  by (rule answer_part_total; simp add: requests_ok isResponse_parts)+

lemma A_Restart_total: "\<exists>d'. A_Restart junk b d = Some d'"
  by (simp add: A_Restart_def APDU_ToPacket_defs)

lemma A_Memory_Read_cases:
  obtains d' where "A_Memory_Read junk b addr len d = Some (None, d')"
  | xs d' where "A_Memory_Read junk b addr len d = Some (Some xs, d')" "length xs = unat (len AND 0x0F)"
proof (rule Request_Response_cases [of "A_Memory_Read_PDU (len AND 0x0F) addr" junk b d])
  show "apdu_ok (A_Memory_Read_PDU (len AND 0x0F) addr)" by (simp add: requests_ok)
next
  fix a d'
  assume r: "Request_Response junk b (A_Memory_Read_PDU (len AND 0x0F) addr) d = Some (Some a, d')"
    "APDU_isResponse a (A_Memory_Read_PDU (len AND 0x0F) addr)" "apdu_ok a"
  then obtain xs where "memory_data a = Some xs" "length xs = unat (len AND 0x0F)"
    using isResponse_parts(8) by blast
  with r that(2) show thesis by (simp add: A_Memory_Read_def answer_part_def)
qed (use that(1) in \<open>simp add: A_Memory_Read_def answer_part_def\<close>)

text \<open>The length nibble of a write.\<close>

lemma unat_low4: "unat (of_nat n AND 0x0F :: 'a::len word) = n mod 16" if "4 \<le> LENGTH('a)"
proof -
  have "unat (of_nat n AND 0x0F :: 'a word) = unat (take_bit 4 (of_nat n :: 'a word))"
    by (simp only: mask4_eq take_bit_eq_mask)
  also have "\<dots> = take_bit 4 (take_bit LENGTH('a) n)"
    by (simp only: unsigned_take_bit_eq unsigned_of_nat of_nat_id)
  also have "\<dots> = take_bit 4 n" using that by simp
  finally show ?thesis by (simp add: take_bit_eq_mod)
qed

lemma ucast_low4: "ucast (of_nat n AND 0x0F :: 32 word) = (of_nat n AND 0x0F :: uchar)"
  by (rule word_unat_eq_iff [THEN iffD2]) (simp add: unat_low4 unsigned_ucast_eq take_bit_nat_eq_self)

lemma A_Memory_Write_packet:
  "A_Memory_Write junk b addr xs d =
     Some (l4_send b ([0x02, 0x80 OR (of_nat (length xs) AND 0x0F), hi8 addr, lo8 addr] @ take (length xs mod 16) xs) d)"
proof -
  have "min (length xs) (length xs mod 16) = length xs mod 16" by (simp add: min_def)
  then show ?thesis
    by (simp add: A_Memory_Write_def Let_def ucast_low4 unat_low4 A_Memory_Write_ToPacket_def low4_ok and.assoc)
qed

section \<open>Totality of the block functions\<close>

lemma X_Memory_Write_total: "\<exists>r d'. X_Memory_Write junk b addr xs d = Some (r, d') \<and> r \<in> {0, - 1, - 2}"
proof -
  obtain d1 where w: "A_Memory_Write junk b addr xs d = Some d1" by (simp add: A_Memory_Write_packet)
  show ?thesis
    by (rule A_Memory_Read_cases [of junk b addr "of_nat (length xs)" d1])
      (auto simp: X_Memory_Write_def w)
qed

lemma setpart_inside:
  assumes "s + length e \<le> length xs" and "length xs < 2 ^ 32"
  shows "Array_setpart junk e (of_nat s) (of_nat (length e)) xs = Some (take s xs @ e @ drop (s + length e) xs)"
proof -
  have "unat (of_nat s :: unsigned) = s" "unat (of_nat (length e) :: unsigned) = length e"
    using assms by (simp_all add: unat_of_nat)
  then show ?thesis using assms by (simp add: Array_setpart_eq Let_def)
qed

text \<open>The size of a block read, as the request carries it.\<close>

lemma block_size_low4: "n \<le> 12 \<Longrightarrow> unat (of_nat n AND 0x0F :: uchar) = n"
  by (simp add: unat_low4)

lemma X_Memory_Read_Block_step:
  assumes "i < len" and "n = min (if small then 2 else 12) (len - i)"
  shows "X_Memory_Read_Block_lp junk b addr len small i erg d =
    (case A_Memory_Read junk b (addr + of_nat i) (of_nat n) d of
       None \<Rightarrow> None
     | Some (None, d1) \<Rightarrow>
         if \<not> small then X_Memory_Read_Block_lp junk b addr len True i erg d1 else Some (None, d1)
     | Some (Some e, d1) \<Rightarrow>
         (case Array_setpart junk e (of_nat i) (of_nat (length e)) erg of None \<Rightarrow> None
          | Some erg' \<Rightarrow> X_Memory_Read_Block_lp junk b addr len small (i + (if small then 2 else 12)) erg' d1))"
proof -
  have "(if len - i > (if small then 2 else 12) then (if small then 2 else 12) else len - i) = n"
    using assms(2) by auto
  then show ?thesis using assms(1) by (subst X_Memory_Read_Block_lp.simps) (simp only: Let_def if_True)
qed

text \<open>What the induction over this loop needs: each turn ends it, tries again with 2 bytes or moves on.\<close>

lemma read_block_induct [case_names turn]:
  fixes P :: "bool \<Rightarrow> nat \<Rightarrow> CArray \<Rightarrow> 'd \<Rightarrow> bool"
  assumes "\<And>small i erg d.
    (\<And>d'. i < len \<Longrightarrow> \<not> small \<Longrightarrow> P True i erg d') \<Longrightarrow>
    (\<And>erg' d'. i < len \<Longrightarrow> P small (i + (if small then 2 else 12)) erg' d') \<Longrightarrow> P small i erg d"
  shows "P small i erg d"
proof (induction "2 * (len - i) + (if small then 0 else 1)" arbitrary: small i erg d rule: less_induct)
  case less
  show ?case
    by (rule assms) (rule less.hyps; auto)+
qed

lemma X_Memory_Read_Block_lp_total:
  "length erg = len \<Longrightarrow> len < 2 ^ 32 \<Longrightarrow>
   \<exists>v d'. X_Memory_Read_Block_lp junk b addr len small i erg d = Some (v, d') \<and>
     (\<forall>xs. v = Some xs \<longrightarrow> length xs = len)"
proof (induction small i erg d rule: read_block_induct [where len = len])
  case (turn small i erg d)
  define n where "n = min (if small then 2 else 12) (len - i)"
  note step = X_Memory_Read_Block_step [OF _ n_def]
  show ?case
  proof (cases "i < len")
    case False
    with turn.prems show ?thesis by (subst X_Memory_Read_Block_lp.simps) simp
  next
    case i: True
    have n: "n \<le> 12" "i + n \<le> len" using i by (auto simp: n_def)
    show ?thesis
    proof (rule A_Memory_Read_cases [of junk b "addr + of_nat i" "of_nat n" d])
      fix d1 assume "A_Memory_Read junk b (addr + of_nat i) (of_nat n) d = Some (None, d1)"
      with turn i show ?thesis by (simp add: step)
    next
      fix e d1
      assume r: "A_Memory_Read junk b (addr + of_nat i) (of_nat n) d = Some (Some e, d1)"
        and "length e = unat (of_nat n AND 0x0F :: uchar)"
      then have e: "length e = n" by (simp add: block_size_low4 n)
      define erg' where "erg' = take i erg @ e @ drop (i + n) erg"
      have sp: "Array_setpart junk e (of_nat i) (of_nat (length e)) erg = Some erg'"
        using setpart_inside [of i e erg junk] n turn.prems e by (simp add: erg'_def)
      have "length erg' = len" using n turn.prems e by (simp add: erg'_def)
      with r sp turn.IH(2) [OF i] turn.prems(2) show ?thesis by (simp add: step [OF i])
    qed
  qed
qed

lemma X_Memory_Read_Block_cases:
  assumes "len < 2 ^ 32"
  obtains d' where "X_Memory_Read_Block junk b addr len d = Some (None, d')"
  | xs d' where "X_Memory_Read_Block junk b addr len d = Some (Some xs, d')" "length xs = len"
proof -
  define erg where "erg = map junk [0..<len]"
  have "Array_resize junk (of_nat len) [] = Some erg" and "length erg = len"
    using assms by (simp_all add: erg_def unat_of_nat)
  then have "\<exists>v d'. X_Memory_Read_Block junk b addr len d = Some (v, d') \<and> (\<forall>xs. v = Some xs \<longrightarrow> length xs = len)"
    using X_Memory_Read_Block_lp_total [OF \<open>length erg = len\<close> assms, of junk b addr False 0 d]
    by (simp add: X_Memory_Read_Block_def del: Array_resize_eq)
  then show thesis using that by (metis option.exhaust)
qed

lemma X_Memory_Write_Block_lp_total:
  "\<exists>r d'. X_Memory_Write_Block_lp junk junk' b addr xs prev i res d = Some (r, d')"
proof (induction junk junk' b addr xs prev i res d rule: X_Memory_Write_Block_lp.induct)
  case (1 junk junk' b addr xs prev i res d)
  obtain k d1 where w: "X_Memory_Write junk b (addr + of_nat i) (take (differing junk junk' xs prev i 0) (drop i xs)) d = Some (k, d1)"
    using X_Memory_Write_total [of junk b "addr + of_nat i" "take (differing junk junk' xs prev i 0) (drop i xs)" d] by auto
  show ?case
    using 1 w by (subst X_Memory_Write_Block_lp.simps) (simp add: Let_def)
qed

lemma X_Memory_Write_Block_total:
  assumes "length xs < 2 ^ 32"
  shows "\<exists>r d'. X_Memory_Write_Block junk junk' b addr xs d = Some (r, d')"
  by (rule X_Memory_Read_Block_cases [OF assms, of junk b addr d])
    (simp_all add: X_Memory_Write_Block_def X_Memory_Write_Block_lp_total)

lemma A_Memory_Write_Block_lp_total: "\<exists>d'. A_Memory_Write_Block_lp junk b addr xs i d = Some d'"
proof (induction junk b addr xs i d rule: A_Memory_Write_Block_lp.induct)
  case (1 junk b addr xs i d)
  then show ?case
    by (subst A_Memory_Write_Block_lp.simps) (simp add: A_Memory_Write_packet Let_def)
qed

lemma A_Memory_Write_Block_total: "\<exists>d'. A_Memory_Write_Block junk b addr xs d = Some (0, d')"
  using A_Memory_Write_Block_lp_total [of junk b addr xs 0 d] by (auto simp: A_Memory_Write_Block_def)

section \<open>A device with a memory\<close>

text \<open>
  What a device on the other end of a connection does with the memory services: it answers reads of
  at most \<open>limit\<close> bytes with what the memory holds, others not at all, and a write changes
  nothing but the cells it names. \<open>ok\<close> are the states with an open connection and no answer pending.
\<close>

definition memory_device :: "'d bus \<Rightarrow> nat \<Rightarrow> ('d \<Rightarrow> bool) \<Rightarrow> ('d \<Rightarrow> memaddr_t \<Rightarrow> uchar) \<Rightarrow> bool" where
  "memory_device b limit ok mem \<longleftrightarrow>
     (\<forall>d n addr. ok d \<and> n < 16 \<longrightarrow>
        (\<exists>d'. l4_get b (l4_send b [0x02, of_nat n, hi8 addr, lo8 addr] d) =
            (if n \<le> limit
             then Some ([0x02, 0x40 OR of_nat n, hi8 addr, lo8 addr] @ map (\<lambda>k. mem d (addr + of_nat k)) [0..<n])
             else None, d') \<and> ok d' \<and> mem d' = mem d)) \<and>
     (\<forall>d xs addr. ok d \<and> length xs < 16 \<longrightarrow>
        ok (l4_send b ([0x02, 0x80 OR of_nat (length xs), hi8 addr, lo8 addr] @ xs) d) \<and>
        (\<forall>a. a \<notin> (\<lambda>k. addr + of_nat k) ` {..<length xs} \<longrightarrow>
           mem (l4_send b ([0x02, 0x80 OR of_nat (length xs), hi8 addr, lo8 addr] @ xs) d) a = mem d a))"

text \<open>A device that also stores what is written.\<close>

definition memory_writable :: "'d bus \<Rightarrow> ('d \<Rightarrow> bool) \<Rightarrow> ('d \<Rightarrow> memaddr_t \<Rightarrow> uchar) \<Rightarrow> bool" where
  "memory_writable b ok mem \<longleftrightarrow>
     (\<forall>d xs addr k. ok d \<and> length xs < 16 \<and> k < length xs \<longrightarrow>
        mem (l4_send b ([0x02, 0x80 OR of_nat (length xs), hi8 addr, lo8 addr] @ xs) d) (addr + of_nat k) = xs ! k)"

text \<open>The cells \<open>addr\<close>, \<open>addr + 1\<close>, ... of a memory.\<close>

definition cells :: "(memaddr_t \<Rightarrow> uchar) \<Rightarrow> memaddr_t \<Rightarrow> nat \<Rightarrow> CArray" where
  "cells m addr n = map (\<lambda>k. m (addr + of_nat k)) [0..<n]"

text \<open>A memory after a write.\<close>

definition store_cells :: "memaddr_t \<Rightarrow> CArray \<Rightarrow> (memaddr_t \<Rightarrow> uchar) \<Rightarrow> memaddr_t \<Rightarrow> uchar" where
  "store_cells addr xs m a = (if unat (a - addr) < length xs then xs ! unat (a - addr) else m a)"

lemma length_cells [simp]: "length (cells m addr n) = n"
  by (simp add: cells_def)

lemma cells_nth [simp]: "k < n \<Longrightarrow> cells m addr n ! k = m (addr + of_nat k)"
  by (simp add: cells_def)

lemma cells_shift: "cells m (addr + of_nat i) n = drop i (cells m addr (i + n))"
  by (rule nth_equalityI) (simp_all add: add.assoc)

lemma low4_of_nat: "n < 16 \<Longrightarrow> of_nat n AND 0x0F = (of_nat n :: uchar)"
  by (rule word_unat_eq_iff [THEN iffD2]) (simp add: unat_low4 unat_of_nat)

lemma of_nat_low4: "n < 16 \<Longrightarrow> of_nat n AND 0xF0 = (0 :: uchar)"
  using low4_ok [of "of_nat n"] by (simp add: low4_of_nat)

lemma memory_response_parse:
  assumes "length xs < 16"
  shows "APDU_fromPacket ([0x02, 0x40 OR of_nat (length xs), hi8 addr, lo8 addr] @ xs) =
    A_Memory_Response_PDU (of_nat (length xs)) addr xs"
proof (rule apdu_encode_parse)
  show "apdu_ok (A_Memory_Response_PDU (of_nat (length xs)) addr xs)"
    using assms by (simp add: apdu_ok_def of_nat_low4 unat_of_nat)
  then show "APDU_ToPacket junk (A_Memory_Response_PDU (of_nat (length xs)) addr xs) =
      Some ([0x02, 0x40 OR of_nat (length xs), hi8 addr, lo8 addr] @ xs)"
    using assms by (simp add: A_Memory_Response_ToPacket_def apdu_ok_def low4_of_nat)
qed (simp add: apdu_misencoded_def)

lemma device_read:
  assumes "memory_device b limit ok mem" and "ok d" and "n < 16"
  obtains d' where "A_Memory_Read junk b addr (of_nat n) d = Some (if n \<le> limit then Some (cells (mem d) addr n) else None, d')"
    "ok d'" "mem d' = mem d"
proof -
  let ?c = "[0x02, of_nat n, hi8 addr, lo8 addr] :: CArray"
  obtain d' where g: "l4_get b (l4_send b ?c d) =
      (if n \<le> limit then Some ([0x02, 0x40 OR of_nat n, hi8 addr, lo8 addr] @ cells (mem d) addr n) else None, d')"
    and d': "ok d'" "mem d' = mem d"
    using assms unfolding memory_device_def cells_def by blast
  have q: "APDU_ToPacket junk (A_Memory_Read_PDU (of_nat n AND 0x0F) addr) = Some ?c"
    using assms(3) by (simp add: A_Memory_Read_ToPacket_def low4_of_nat of_nat_low4)
  have p: "APDU_fromPacket (2 # (0x40 OR of_nat n) # hi8 addr # lo8 addr # cells (mem d) addr n) =
      A_Memory_Response_PDU (of_nat n) addr (cells (mem d) addr n)"
    using memory_response_parse [of "cells (mem d) addr n" addr] assms(3) by simp
  have "A_Memory_Read junk b addr (of_nat n) d = Some (if n \<le> limit then Some (cells (mem d) addr n) else None, d')"
    unfolding A_Memory_Read_def Request_Response_def q using assms(3)
    by (simp add: g p answer_part_def APDU_isResponse_def A_Memory_Response_isResponse_def low4_of_nat memory_data_def)
  with d' show thesis by (rule that [rotated])
qed

lemma device_write:
  assumes "memory_device b limit ok mem" and "ok d" and "length xs < 16"
  obtains d' where "A_Memory_Write junk b addr xs d = Some d'" "ok d'"
    "\<And>a. a \<notin> (\<lambda>k. addr + of_nat k) ` {..<length xs} \<Longrightarrow> mem d' a = mem d a"
    "memory_writable b ok mem \<Longrightarrow> cells (mem d') addr (length xs) = xs"
proof -
  let ?d = "l4_send b ([0x02, 0x80 OR of_nat (length xs), hi8 addr, lo8 addr] @ xs) d"
  have w: "A_Memory_Write junk b addr xs d = Some ?d"
    using assms(3) by (simp add: A_Memory_Write_packet low4_of_nat)
  have "ok ?d" and "\<And>a. a \<notin> (\<lambda>k. addr + of_nat k) ` {..<length xs} \<Longrightarrow> mem ?d a = mem d a"
    using assms unfolding memory_device_def by blast+
  moreover have "memory_writable b ok mem \<Longrightarrow> cells (mem ?d) addr (length xs) = xs"
    by (rule nth_equalityI) (use assms in \<open>simp_all add: memory_writable_def\<close>)
  ultimately show thesis using w that by blast
qed

text \<open>The result a verification must give: 0 if the memory holds the bytes, -2 if not.\<close>

definition write_result :: "(memaddr_t \<Rightarrow> uchar) \<Rightarrow> memaddr_t \<Rightarrow> CArray \<Rightarrow> int" where
  "write_result m addr xs = (if cells m addr (length xs) = xs then 0 else - 2)"

lemma device_verified_write:
  assumes dev: "memory_device b limit ok mem" "ok d" and len: "length xs < 16" "length xs \<le> limit"
  obtains d' where "X_Memory_Write junk b addr xs d = Some (write_result (mem d') addr xs, d')"
    "ok d'" "\<And>a. a \<notin> (\<lambda>k. addr + of_nat k) ` {..<length xs} \<Longrightarrow> mem d' a = mem d a"
    "memory_writable b ok mem \<Longrightarrow> write_result (mem d') addr xs = 0"
proof -
  obtain d1 where d1: "A_Memory_Write junk b addr xs d = Some d1" "ok d1"
    "\<And>a. a \<notin> (\<lambda>k. addr + of_nat k) ` {..<length xs} \<Longrightarrow> mem d1 a = mem d a"
    "memory_writable b ok mem \<Longrightarrow> cells (mem d1) addr (length xs) = xs"
    using device_write [OF dev len(1)] by metis
  obtain d2 where d2: "A_Memory_Read junk b addr (of_nat (length xs)) d1 = Some (Some (cells (mem d1) addr (length xs)), d2)"
    "ok d2" "mem d2 = mem d1"
    using device_read [OF dev(1) d1(2) len(1), of junk addr] len(2) by auto
  have "X_Memory_Write junk b addr xs d = Some (write_result (mem d2) addr xs, d2)"
    by (simp add: X_Memory_Write_def write_result_def d1(1) d2)
  moreover have "memory_writable b ok mem \<Longrightarrow> write_result (mem d2) addr xs = 0"
    using d1(4) d2(3) by (simp add: write_result_def)
  ultimately show thesis using that d1(3) d2 by auto
qed

text \<open>A block that is longer than what the device answers is written, but not verified.\<close>

lemma device_unverified_write:
  assumes "memory_device b limit ok mem" "ok d" "length xs < 16" "limit < length xs"
  shows "\<exists>d'. X_Memory_Write junk b addr xs d = Some (- 1, d') \<and> ok d'"
proof -
  obtain d1 where d1: "A_Memory_Write junk b addr xs d = Some d1" "ok d1"
    using device_write [OF assms(1-3)] by metis
  obtain d2 where "A_Memory_Read junk b addr (of_nat (length xs)) d1 = Some (None, d2)" "ok d2"
    using device_read [OF assms(1) d1(2) assms(3), of junk addr] assms(4) by auto
  with d1 show ?thesis by (simp add: X_Memory_Write_def)
qed

lemma device_read_lp:
  assumes "memory_device b limit ok mem" and "2 \<le> limit"
  shows "ok d \<Longrightarrow> mem d = m \<Longrightarrow> length erg = len \<Longrightarrow> len < 2 ^ 32 \<Longrightarrow> take i erg = cells m addr (min i len) \<Longrightarrow>
    \<exists>d'. X_Memory_Read_Block_lp junk b addr len small i erg d = Some (Some (cells m addr len), d') \<and> ok d' \<and> mem d' = m"
proof (induction small i erg d rule: read_block_induct [where len = len])
  case (turn small i erg d)
  define n where "n = min (if small then 2 else 12) (len - i)"
  note step = X_Memory_Read_Block_step [OF _ n_def]
  show ?case
  proof (cases "i < len")
    case False
    with turn.prems show ?thesis by (subst X_Memory_Read_Block_lp.simps) (simp add: min_def)
  next
    case i: True
    have n: "n < 16" "i + n \<le> len" "min (i + (if small then 2 else 12)) len = i + n"
      using i by (auto simp: n_def)
    obtain d1 where d1: "A_Memory_Read junk b (addr + of_nat i) (of_nat n) d =
        Some (if n \<le> limit then Some (cells m (addr + of_nat i) n) else None, d1)" "ok d1" "mem d1 = m"
      using device_read [OF assms(1) turn.prems(1) n(1), of junk "addr + of_nat i"] turn.prems(2) by metis
    show ?thesis
    proof (cases "n \<le> limit")
      case False
      then have "\<not> small" using assms(2) by (auto simp: n_def)
      then show ?thesis unfolding step [OF i] using False d1 turn.IH(1) [OF i] turn.prems by simp
    next
      case True
      define e where "e = cells m (addr + of_nat i) n"
      define erg' where "erg' = take i erg @ e @ drop (i + n) erg"
      have sp: "Array_setpart junk e (of_nat i) (of_nat (length e)) erg = Some erg'"
        using setpart_inside [of i e erg junk] n turn.prems by (simp add: erg'_def e_def)
      have tk: "take i erg = cells m addr i" and len: "length erg' = len"
        using turn.prems i n by (simp_all add: erg'_def e_def)
      have "take (i + n) erg' = cells m addr i @ e"
        using i turn.prems by (simp add: erg'_def tk e_def)
      also have "\<dots> = cells m addr (i + n)"
        by (simp add: e_def cells_shift append_eq_conv_conj) (simp add: cells_def take_map)
      finally have "take (i + (if small then 2 else 12)) erg' = cells m addr (min (i + (if small then 2 else 12)) len)"
        using len by (cases "i + (if small then 2 else 12) \<le> len") (auto simp: n(3) n_def min_def split: if_splits)
      with d1 True sp len turn.IH(2) [OF i] turn.prems show ?thesis by (simp add: step [OF i] e_def)
    qed
  qed
qed

lemma device_read_block:
  assumes "memory_device b limit ok mem" and "2 \<le> limit" and "ok d" and "len < 2 ^ 32"
  obtains d' where "X_Memory_Read_Block junk b addr len d = Some (Some (cells (mem d) addr len), d')"
    "ok d'" "mem d' = mem d"
proof -
  define erg where "erg = map junk [0..<len]"
  have "Array_resize junk (of_nat len) [] = Some erg" and len: "length erg = len"
    using assms(4) by (simp_all add: erg_def unat_of_nat)
  then have "X_Memory_Read_Block junk b addr len d = X_Memory_Read_Block_lp junk b addr len False 0 erg d"
    by (simp add: X_Memory_Read_Block_def del: Array_resize_eq)
  moreover have "take 0 erg = cells (mem d) addr (min 0 len)" by (simp add: cells_def)
  ultimately show thesis
    using device_read_lp [OF assms(1,2,3) refl len assms(4), of 0 addr junk False] that by auto
qed

section \<open>Writing a block\<close>

lemma differing_bounds:
  "j \<le> 12 \<Longrightarrow> i + j \<le> length xs \<Longrightarrow>
   differing junk junk' xs prev i j \<le> 12 \<and> i + differing junk junk' xs prev i j \<le> length xs"
proof (induction junk junk' xs prev i j rule: differing.induct)
  case (1 junk junk' xs prev i j)
  then show ?case by (subst (1 2) differing.simps) auto
qed

lemma cells_append: "cells m addr (i + n) = cells m addr i @ cells m (addr + of_nat i) n"
  by (rule nth_equalityI) (auto simp: nth_append add.assoc simp flip: of_nat_add)

lemma cells_cong: "(\<And>k. k < n \<Longrightarrow> m (addr + of_nat k) = m' (addr + of_nat k)) \<Longrightarrow> cells m addr n = cells m' addr n"
  by (simp add: cells_def)

lemma addresses_distinct:
  assumes "k < 2 ^ 16" "l < 2 ^ 16" "(addr :: memaddr_t) + of_nat k = addr + of_nat l"
  shows "k = l"
proof -
  have "(of_nat k :: memaddr_t) = of_nat l" using assms(3) by simp
  then have "unat (of_nat k :: memaddr_t) = unat (of_nat l :: memaddr_t)" by (rule arg_cong)
  then show ?thesis using assms(1,2) by (simp add: unat_of_nat)
qed

text \<open>What a write of \<open>j\<close> cells from the \<open>i\<close>-th on does to the cells of a block.\<close>

lemma block_write:
  assumes "i + j \<le> len" and "len \<le> 2 ^ 16"
    and out: "\<And>a. a \<notin> (\<lambda>k. addr + of_nat i + of_nat k) ` {..<j} \<Longrightarrow> m1 a = m a"
  shows "cells m1 addr i = cells m addr i"
    and "\<And>k. i + j \<le> k \<Longrightarrow> k < len \<Longrightarrow> m1 (addr + of_nat k) = m (addr + of_nat k)"
    and "\<And>a. a \<notin> (\<lambda>k. addr + of_nat k) ` {..<len} \<Longrightarrow> m1 a = m a"
proof -
  have eq: "m1 (addr + of_nat k) = m (addr + of_nat k)" if "k < len" "k < i \<or> i + j \<le> k" for k
  proof (rule out, rule notI)
    assume "addr + of_nat k \<in> (\<lambda>k. addr + of_nat i + of_nat k) ` {..<j}"
    then obtain l where l: "l < j" "addr + of_nat k = addr + of_nat (i + l)" by (auto simp: add.assoc)
    then have "k = i + l" using that assms by (intro addresses_distinct [OF _ _ l(2)]) auto
    with that l show False by simp
  qed
  then show "\<And>k. i + j \<le> k \<Longrightarrow> k < len \<Longrightarrow> m1 (addr + of_nat k) = m (addr + of_nat k)" by simp
  show "cells m1 addr i = cells m addr i" by (rule cells_cong) (use eq assms(1) in auto)
  show "m1 a = m a" if "a \<notin> (\<lambda>k. addr + of_nat k) ` {..<len}" for a
  proof (rule out, rule notI)
    assume "a \<in> (\<lambda>k. addr + of_nat i + of_nat k) ` {..<j}"
    then obtain l where "l < j" "a = addr + of_nat (i + l)" by (auto simp: add.assoc)
    with that assms(1) show False by (auto intro: image_eqI [of _ _ "i + l"])
  qed
qed

lemma write_lp_equal:
  "i < length xs \<Longrightarrow> cell junk xs i = cell junk' prev i \<Longrightarrow>
   X_Memory_Write_Block_lp junk junk' b addr xs prev i res d = X_Memory_Write_Block_lp junk junk' b addr xs prev (i + 1) res d"
  by (subst X_Memory_Write_Block_lp.simps) simp

lemma write_lp_differing:
  "i < length xs \<Longrightarrow> cell junk xs i \<noteq> cell junk' prev i \<Longrightarrow> j = differing junk junk' xs prev i 0 \<Longrightarrow>
   X_Memory_Write junk b (addr + of_nat i) (take j (drop i xs)) d = Some (k, d1) \<Longrightarrow>
   X_Memory_Write_Block_lp junk junk' b addr xs prev i res d =
     (if k = - 1 then Some (- 1, d1)
      else X_Memory_Write_Block_lp junk junk' b addr xs prev (i + j) (if k = - 2 then - 2 else res) d1)"
  by (subst X_Memory_Write_Block_lp.simps) (simp add: Let_def)

lemma write_result_append:
  "write_result m addr (xs @ ys) =
     (if write_result m (addr + of_nat (length xs)) ys = - 2 then - 2 else write_result m addr xs)"
  by (simp add: write_result_def cells_append)

lemma device_write_lp:
  assumes dev: "memory_device b limit ok mem" "12 \<le> limit"
    and len: "length xs \<le> 2 ^ 16" "length prev = length xs"
  shows "ok d \<Longrightarrow> i \<le> length xs \<Longrightarrow> (\<forall>k. i \<le> k \<and> k < length xs \<longrightarrow> mem d (addr + of_nat k) = prev ! k) \<Longrightarrow>
    \<exists>d'. X_Memory_Write_Block_lp junk junk' b addr xs prev i (write_result (mem d) addr (take i xs)) d =
        Some (write_result (mem d') addr xs, d') \<and> ok d' \<and>
      (\<forall>a. a \<notin> (\<lambda>k. addr + of_nat k) ` {..<length xs} \<longrightarrow> mem d' a = mem d a) \<and>
      (memory_writable b ok mem \<and> write_result (mem d) addr (take i xs) = 0 \<longrightarrow> write_result (mem d') addr xs = 0)"
proof (induction "length xs - i" arbitrary: i d rule: less_induct)
  case less
  have out: "\<And>k. k < length xs \<Longrightarrow> cell junk xs k = xs ! k \<and> cell junk' prev k = prev ! k"
    by (simp add: cell_def len)
  show ?case
  proof (cases "i < length xs")
    case False
    with less.prems show ?thesis by (subst X_Memory_Write_Block_lp.simps) auto
  next
    case i: True
    show ?thesis
    proof (cases "xs ! i = prev ! i")
      case True
      have "write_result (mem d) addr (take (i + 1) xs) = write_result (mem d) addr (take i xs)"
        using i True less.prems(3) write_result_append [of "mem d" addr "take i xs" "[xs ! i]"]
        by (simp add: take_Suc_conv_app_nth write_result_def cells_def)
      with less.hyps [of "i + 1" d] less.prems i True out show ?thesis by (simp add: write_lp_equal)
    next
      case False
      define j where "j = differing junk junk' xs prev i 0"
      define ys where "ys = take j (drop i xs)"
      have j: "1 \<le> j" "j \<le> 12" "i + j \<le> length xs"
        using differing_pos [of i xs junk junk' prev] differing_bounds [of 0 i xs junk junk' prev] i False out
        by (auto simp: j_def)
      then have ys: "length ys = j" "take (i + j) xs = take i xs @ ys" by (simp_all add: ys_def take_add)
      obtain d1 where w: "X_Memory_Write junk b (addr + of_nat i) ys d = Some (write_result (mem d1) (addr + of_nat i) ys, d1)"
        and d1: "ok d1" "\<And>a. a \<notin> (\<lambda>k. addr + of_nat i + of_nat k) ` {..<j} \<Longrightarrow> mem d1 a = mem d a"
        "memory_writable b ok mem \<Longrightarrow> write_result (mem d1) (addr + of_nat i) ys = 0"
        using device_verified_write [OF dev(1) less.prems(1), of ys junk "addr + of_nat i"] j ys(1) dev(2)
        by auto
      note frame = block_write [where addr = addr and m = "mem d" and ?m1.0 = "mem d1", OF j(3) len(1) d1(2)]
      have res: "write_result (mem d1) addr (take (i + j) xs) =
          (if write_result (mem d1) (addr + of_nat i) ys = - 2 then - 2 else write_result (mem d) addr (take i xs))"
        using i write_result_append [of "mem d1" addr "take i xs" ys] frame(1)
        by (simp add: ys(2) write_result_def)
      have "X_Memory_Write_Block_lp junk junk' b addr xs prev i (write_result (mem d) addr (take i xs)) d =
          X_Memory_Write_Block_lp junk junk' b addr xs prev (i + j) (write_result (mem d1) addr (take (i + j) xs)) d1"
        unfolding res using write_lp_differing [OF i _ j_def, where addr = addr and b = b and d = d] w False out [OF i]
        by (simp add: ys_def write_result_def)
      moreover have "length xs - (i + j) < length xs - i" using i j by simp
      moreover have "\<forall>k. i + j \<le> k \<and> k < length xs \<longrightarrow> mem d1 (addr + of_nat k) = prev ! k"
        using frame(2) less.prems(3) by simp
      moreover have "memory_writable b ok mem \<Longrightarrow> write_result (mem d) addr (take i xs) = 0 \<Longrightarrow>
          write_result (mem d1) addr (take (i + j) xs) = 0" using res d1(3) by simp
      ultimately show ?thesis using less.hyps [of "i + j" d1] d1(1) j(3) frame(3) by auto
    qed
  qed
qed

lemma device_write_block:
  assumes "memory_device b limit ok mem" "12 \<le> limit" "ok d" "length xs \<le> 2 ^ 16"
  obtains d' where "X_Memory_Write_Block junk junk' b addr xs d = Some (write_result (mem d') addr xs, d')" "ok d'"
    "\<And>a. a \<notin> (\<lambda>k. addr + of_nat k) ` {..<length xs} \<Longrightarrow> mem d' a = mem d a"
    "memory_writable b ok mem \<Longrightarrow> write_result (mem d') addr xs = 0"
proof -
  obtain d1 where r: "X_Memory_Read_Block junk b addr (length xs) d = Some (Some (cells (mem d) addr (length xs)), d1)"
    "ok d1" "mem d1 = mem d"
    using device_read_block [OF assms(1) _ assms(3), of "length xs" junk addr] assms(2,4) by auto
  have "write_result (mem d1) addr (take 0 xs) = 0" by (simp add: write_result_def cells_def)
  with device_write_lp [OF assms(1,2,4), of "cells (mem d) addr (length xs)" d1 0 addr junk junk'] r
  show thesis using that by (auto simp: X_Memory_Write_Block_def)
qed

end
