(* ===== verification/ManagementProofs.thy ===== *)
theory ManagementProofs
  imports Management Layer7Proofs
begin

text \<open>
  The management functions: which calls cannot fail, the programming mode, the enumeration of
  properties, and what a client's message does to a management connection.
\<close>

section \<open>Where a message is read\<close>

text \<open>
  The tests of the lengths keep every access inside the message, so that the checked accesses can be replaced. Every
  lemma on the handlers rests on these equations, and they fail when one of the tests is left out.
\<close>

lemma bind_case: "Option.bind x f = (case x of None \<Rightarrow> None | Some y \<Rightarrow> f y)"
  by (cases x) simp_all

lemma mc_write_eq:
  "mc_write junk junk' b m d =
     (let len = unat (mk16 (m ! 4) (m ! 5)) in
      if length m < 6 then mc_reject d
      else if length m < len + 6 then mc_reject d
      else case X_Memory_Write_Block junk junk' b (mk16 (m ! 2) (m ! 3)) (take len (drop 6 m)) d of
             None \<Rightarrow> None
           | Some (i, d1) \<Rightarrow>
               Some ([EIBSETTYPE (if i = - 2 then EIB_ERROR_VERIFY
                                  else if i \<noteq> 0 then EIB_PROCESSING_ERROR else EIB_MC_WRITE)], i, d1))"
  by (simp add: mc_write_def Let_def bind_case split: option.split prod.split)

lemma mc_write_noverify_eq:
  "mc_write_noverify junk b m d =
     (let len = unat (mk16 (m ! 4) (m ! 5)) in
      if length m < 6 then mc_reject d
      else if length m < len + 6 then mc_reject d
      else case A_Memory_Write_Block junk b (mk16 (m ! 2) (m ! 3)) (take len (drop 6 m)) d of
             None \<Rightarrow> None
           | Some (i, d1) \<Rightarrow>
               Some ([EIBSETTYPE (if i \<noteq> 0 then EIB_PROCESSING_ERROR else EIB_MC_WRITE_NOVERIFY)], i, d1))"
  by (simp add: mc_write_noverify_def Let_def bind_case split: option.split prod.split)

lemma ManagementConnection_message_eq:
  "ManagementConnection_message junk junk' b m d =
     (let t = EIBTYPE m; size = length m in
      if t = EIB_MC_PROG_MODE then
        (if size < 3 then mc_reject d
         else case progmode_switch junk b EIB_MC_PROG_MODE (m ! 2) d of None \<Rightarrow> None
              | Some (r, i, d1) \<Rightarrow> Some ([r], i, d1))
      else if t = EIB_MC_MASK_VERSION then
        mc_answer (mc_word EIB_MC_MASK_VERSION) (A_Device_Descriptor_Read junk b 0 d)
      else if t = EIB_MC_PEI_TYPE then mc_answer (mc_word EIB_MC_PEI_TYPE) (X_Get_PEIType junk b d)
      else if t = EIB_MC_ADC_READ then
        (if size < 4 then mc_reject d
         else mc_answer (mc_word EIB_MC_ADC_READ) (A_ADC_Read junk b (m ! 2) (m ! 3) d))
      else if t = EIB_MC_READ then
        (if size < 6 then mc_reject d
         else mc_answer (data_answer junk 6 EIB_MC_READ)
                (X_Memory_Read_Block junk b (mk16 (m ! 2) (m ! 3)) (unat (mk16 (m ! 4) (m ! 5))) d))
      else if t = EIB_MC_WRITE then mc_write junk junk' b m d
      else if t = EIB_MC_PROP_READ then
        (if size < 7 then mc_reject d
         else mc_answer (data_answer junk 2 EIB_MC_PROP_READ)
                (A_Property_Read junk b (m ! 2) (m ! 3) (mk16 (m ! 4) (m ! 5)) (m ! 6) d))
      else if t = EIB_MC_PROP_WRITE then
        (if size < 7 then mc_reject d
         else mc_answer (property_write_answer junk)
                (A_Property_Write junk b (m ! 2) (m ! 3) (mk16 (m ! 4) (m ! 5)) (m ! 6) (drop 7 m) d))
      else if t = EIB_MC_AUTHORIZE then
        (if size < 6 then mc_reject d
         else mc_answer (\<lambda>level. Some (EIBSETTYPE EIB_MC_AUTHORIZE @ [level]))
                (A_Authorize junk b (mk32 (m ! 2) (m ! 3) (m ! 4) (m ! 5)) d))
      else if t = EIB_MC_KEY_WRITE then
        (if size < 7 then mc_reject d
         else mc_answer (\<lambda>level. Some (EIBSETTYPE EIB_MC_KEY_WRITE))
                (A_KeyWrite junk b (mk32 (m ! 2) (m ! 3) (m ! 4) (m ! 5)) (m ! 6) d))
      else if t = EIB_MC_PROP_DESC then
        (if size < 4 then mc_reject d
         else mc_answer (\<lambda>(prop, type, cnt, access). Some (EIBSETTYPE EIB_MC_PROP_DESC @ [type, hi8 cnt, lo8 cnt, access]))
                (A_Property_Desc junk b (m ! 2) (m ! 3) 0 d))
      else if t = EIB_MC_PROP_SCAN then
        mc_answer (\<lambda>p. Some (EIBSETTYPE EIB_MC_PROP_SCAN @ concat (map property_info_bytes p))) (X_PropertyScan junk b d)
      else if t = EIB_RESET_CONNECTION then Some ([], - 1, d)
      else if t = EIB_MC_RESTART then
        map_option (\<lambda>d1. ([EIBSETTYPE EIB_MC_RESTART], 0, d1)) (A_Restart junk b d)
      else if t = EIB_MC_WRITE_NOVERIFY then mc_write_noverify junk b m d
      else mc_reject d)"
  unfolding ManagementConnection_message_def Let_def
  by (intro if_cong refl) (simp_all add: bind_case split: option.split prod.split)

lemma ManagementIndividual_message_eq:
  "ManagementIndividual_message junk b m d =
     (let t = EIBTYPE m in
      if t = EIB_MC_PROP_READ then
        (if length m < 7 then mc_reject d
         else mc_answer (data_answer junk 2 EIB_MC_PROP_READ)
                (Individual_A_Property_Read junk b (m ! 2) (m ! 3) (mk16 (m ! 4) (m ! 5)) (m ! 6) d))
      else if t = EIB_MC_PROP_WRITE then
        (if length m < 7 then mc_reject d
         else mc_answer (property_write_answer junk)
                (Individual_A_Property_Write junk b (m ! 2) (m ! 3) (mk16 (m ! 4) (m ! 5)) (m ! 6) (drop 7 m) d))
      else if t = EIB_RESET_CONNECTION then Some ([], - 1, d)
      else mc_reject d)"
  unfolding ManagementIndividual_message_def Let_def
  by (intro if_cong refl) simp_all

section \<open>No call fails\<close>

lemma A_Memory_Read_one:
  obtains d' where "A_Memory_Read junk b addr 1 d = Some (None, d')"
  | v d' where "A_Memory_Read junk b addr 1 d = Some (Some [v], d')"
  by (rule A_Memory_Read_cases [of junk b addr 1 d])
    (auto simp: length_Suc_conv)

lemma X_Progmode_update_total: "\<exists>r d'. X_Progmode_update f junk b d = Some (r, d') \<and> r \<in> {0, - 1}"
proof (rule A_Memory_Read_one [of junk b "0x60" d])
  fix v d1 assume r: "A_Memory_Read junk b 0x60 1 d = Some (Some [v], d1)"
  obtain k d2 where "X_Memory_Write junk b 0x60 [f v] d1 = Some (k, d2)"
    using X_Memory_Write_total [of junk b "0x60" "[f v]" d1] by auto
  with r show ?thesis by (simp add: X_Progmode_update_def rd_def)
qed (simp add: X_Progmode_update_def)

lemma X_Progmode_update_returns: "\<exists>r d'. X_Progmode_update f junk b d = Some (r, d')"
  using X_Progmode_update_total [of f junk b d] by auto

lemma X_Progmode_total:
  "\<exists>r d'. X_Progmode_On junk b d = Some (r, d')"
  "\<exists>r d'. X_Progmode_Off junk b d = Some (r, d')"
  "\<exists>r d'. X_Progmode_Toggle junk b d = Some (r, d')"
  unfolding X_Progmode_On_def X_Progmode_Off_def X_Progmode_Toggle_def
  by (rule X_Progmode_update_returns)+

lemma X_Progmode_Status_total: "\<exists>r d'. X_Progmode_Status junk b d = Some (r, d') \<and> r \<in> {0, 1, - 1}"
  by (rule A_Memory_Read_one [of junk b "0x60" d]) (simp_all add: X_Progmode_Status_def rd_def)

lemma X_Get_PEIType_total: "\<exists>v d'. X_Get_PEIType junk b d = Some (v, d')"
  using calls_total(5) [of junk b 4 1 d] by (auto simp: X_Get_PEIType_def split: option.split)

lemma progmode_answer_total: "\<exists>r d'. x = Some (r, d') \<Longrightarrow> \<exists>c d'. progmode_answer t x = Some (c, 0, d')"
  by (auto simp: progmode_answer_def)

lemma progmode_switch_total: "\<exists>c i d'. progmode_switch junk b t k d = Some (c, i, d')"
proof -
  obtain i d1 where s: "X_Progmode_Status junk b d = Some (i, d1)" using X_Progmode_Status_total [of junk b d] by auto
  show ?thesis
    using progmode_answer_total [OF X_Progmode_total(1), of t junk b d]
      progmode_answer_total [OF X_Progmode_total(2), of t junk b d]
      progmode_answer_total [OF X_Progmode_total(3), of t junk b d]
    by (auto simp: progmode_switch_def s)
qed

text \<open>
  An answer the daemon builds is at most as long as the packet it comes from; packets are shorter
  than \<open>2^31\<close> bytes.
\<close>

definition short_packets :: "'d bus \<Rightarrow> bool" where
  "short_packets b \<longleftrightarrow> (\<forall>d c d'. l4_get b d = (Some c, d') \<longrightarrow> length c < 2 ^ 31)"

lemma data_answer_eq:
  assumes "2 \<le> n" "n < 2 ^ 32" "length xs < 2 ^ 31"
  shows "data_answer junk (of_nat n) t xs = Some (EIBSETTYPE t @ xs @ map junk [2 + length xs..<n])"
proof -
  define erg where "erg = EIBSETTYPE t @ map junk [2..<n]"
  have n: "unat (of_nat n :: unsigned) = n" using assms by (simp add: unat_of_nat)
  have "[0..<n] = [0, 1] @ [2..<n]" using assms(1) by (simp add: upt_conv_Cons numeral_2_eq_2)
  then have "map junk [0..<n] = junk 0 # junk 1 # map junk [2..<n]" by simp
  then have "data_answer junk (of_nat n) t xs = Array_setpart junk xs 2 (of_nat (length xs)) erg"
    by (simp add: data_answer_def data_answer_in_def n wr_def erg_def EIBSETTYPE_def)
  also have "length erg = n" using assms(1) by (simp add: erg_def EIBSETTYPE_def)
  then have "Array_setpart junk xs 2 (of_nat (length xs)) erg =
      (let ys = erg @ map junk [n..<2 + length xs] in Some (take 2 ys @ xs @ drop (2 + length xs) ys))"
    using Array_setpart_eq [of 2 "of_nat (length xs)" xs erg junk] assms by (simp add: unat_of_nat)
  also have "\<dots> = Some (EIBSETTYPE t @ xs @ map junk [2 + length xs..<n])"
    using assms(1) by (simp add: Let_def erg_def EIBSETTYPE_def drop_map) arith
  finally show ?thesis .
qed

lemma property_write_answer_eq: "property_write_answer junk erg = Some (EIBSETTYPE EIB_MC_PROP_WRITE)"
proof -
  define ys where "ys = take 2 erg @ map junk [length erg..<2]"
  have "length ys = 2" by (simp add: ys_def)
  then obtain y y' where "ys = [y, y']" by (metis length_0_conv length_Suc_conv numeral_2_eq_2)
  then have "Array_resize junk 2 erg = Some [y, y']" by (simp add: ys_def)
  then show ?thesis
    by (simp add: property_write_answer_def data_answer_in_def wr_def Array_setpart_eq EIBSETTYPE_def Let_def)
qed

section \<open>Messages of a management connection\<close>

lemma mc_answer_total:
  assumes "\<exists>v d'. x = Some (v, d')" and "\<And>v. f v \<noteq> None"
  shows "\<exists>rs d'. mc_answer f x = Some (rs, 0, d')"
proof -
  obtain v d' where "x = Some (v, d')" using assms(1) by blast
  then show ?thesis using assms(2) [of "the v"] by (cases v) (auto simp: mc_answer_def split: option.split)
qed

lemma mc_answer_total':
  assumes "x = Some (v, d')" and "\<And>w. v = Some w \<Longrightarrow> f w \<noteq> None"
  shows "\<exists>rs. mc_answer f x = Some (rs, 0, d')"
  using assms by (auto simp: mc_answer_def split: option.split)

lemma mc_reject_eq: "mc_reject d = Some ([EIBSETTYPE EIB_INVALID_REQUEST], 0, d)"
  by (simp add: mc_reject_def)

lemma property_answer_short:
  assumes "short_packets b"
    and "Request_Response junk b r d = Some (Some a, d')" and "property_value a = Some xs"
  shows "length xs < 2 ^ 31"
proof -
  obtain q where "APDU_ToPacket junk r = Some q" using assms(2) by (cases "APDU_ToPacket junk r") (auto simp: Request_Response_def)
  then obtain c where c: "l4_get b (l4_send b q d) = (Some c, d')" and a: "a = APDU_fromPacket c"
    using assms(2) by (auto simp: Request_Response_def Let_def split: prod.splits option.splits if_splits)
  then have "length c < 2 ^ 31" using assms(1) unfolding short_packets_def by blast
  moreover have "length xs \<le> length c"
  proof (cases "if length c \<ge> 2 then APDU_select c else None")
    case None
    with assms(3) show ?thesis by (simp add: a APDU_fromPacket_def property_value_def)
  next
    case (Some init)
    then have "init \<in> set APDU_inits" by (auto intro: APDU_select_inits split: if_splits)
    with Some assms(3) show ?thesis unfolding a APDU_inits_def
      by (auto simp: APDU_fromPacket_def APDU_init_defs property_value_def split: if_splits option.splits)
  qed
  ultimately show ?thesis by simp
qed

lemma property_calls_short:
  assumes "short_packets b"
  shows "\<exists>v d'. A_Property_Read junk b obj prop start cnt d = Some (v, d') \<and> (\<forall>xs. v = Some xs \<longrightarrow> length xs < 2 ^ 31)"
    and "\<exists>v d'. A_Property_Write junk b obj prop start cnt ys d = Some (v, d') \<and> (\<forall>xs. v = Some xs \<longrightarrow> length xs < 2 ^ 31)"
proof -
  have short: "length xs < 2 ^ 31"
    if "answer_part property_value (Request_Response junk b r d) = Some (Some xs, d')" for r xs d'
    using that property_answer_short [OF assms, of junk r d _ d' xs]
    by (auto simp: answer_part_def split: option.splits)
  show "\<exists>v d'. A_Property_Read junk b obj prop start cnt d = Some (v, d') \<and> (\<forall>xs. v = Some xs \<longrightarrow> length xs < 2 ^ 31)"
    using calls_total(1) [of junk b obj "prop" start cnt d] short by (auto simp: A_Property_Read_def)
  show "\<exists>v d'. A_Property_Write junk b obj prop start cnt ys d = Some (v, d') \<and> (\<forall>xs. v = Some xs \<longrightarrow> length xs < 2 ^ 31)"
    using calls_total(2) [of junk b obj "prop" start cnt ys d] short by (auto simp: A_Property_Write_def)
qed

lemma data_answer_total:
  "2 \<le> n \<Longrightarrow> n < 2 ^ 32 \<Longrightarrow> length xs < 2 ^ 31 \<Longrightarrow> data_answer junk (of_nat n) t xs \<noteq> None"
  by (simp add: data_answer_eq)

text \<open>A result of a message: replies, \<open>i\<close> and a state. The branches of the \<open>switch\<close> one by one.\<close>

definition returns :: "(CArray list \<times> int \<times> 'd) option \<Rightarrow> bool" where
  "returns x \<longleftrightarrow> (\<exists>rs i d'. x = Some (rs, i, d'))"

lemma returns_if: "(c \<Longrightarrow> returns x) \<Longrightarrow> (\<not> c \<Longrightarrow> returns y) \<Longrightarrow> returns (if c then x else y)"
  by simp

lemma returns_reject: "returns (mc_reject d)"
  by (simp add: returns_def mc_reject_def)

lemma returns_answer: "\<exists>v d'. x = Some (v, d') \<Longrightarrow> (\<And>v. f v \<noteq> None) \<Longrightarrow> returns (mc_answer f x)"
  unfolding returns_def using mc_answer_total [of x f] by blast

lemma returns_data_answer:
  assumes "\<exists>v d'. x = Some (v, d') \<and> (\<forall>xs. v = Some xs \<longrightarrow> length xs < 2 ^ 31)" and "2 \<le> n" "n < 2 ^ 32"
  shows "returns (mc_answer (data_answer junk (of_nat n) t) x)"
proof -
  obtain v d' where x: "x = Some (v, d')" "\<forall>xs. v = Some xs \<longrightarrow> length xs < 2 ^ 31" using assms(1) by blast
  have "\<exists>rs. mc_answer (data_answer junk (of_nat n) t) x = Some (rs, 0, d')"
    by (rule mc_answer_total' [OF x(1)]) (use x(2) data_answer_total [OF assms(2,3)] in blast)
  then show ?thesis by (auto simp: returns_def)
qed

lemma read_block_returns:
  assumes "len < 2 ^ 16"
  shows "\<exists>v d'. X_Memory_Read_Block junk b addr len d = Some (v, d') \<and> (\<forall>xs. v = Some xs \<longrightarrow> length xs < 2 ^ 31)"
  by (rule X_Memory_Read_Block_cases [of len junk b addr d]) (use assms in auto)

lemma unat_mk16_less: "unat (x :: 16 word) < 2 ^ 16"
  using unsigned_less [of x] by simp

lemma returns_write: "returns (mc_write junk junk' b m d)"
proof -
  define len where "len = unat (mk16 (m ! 4) (m ! 5))"
  have "length (take len (drop 6 m)) < 2 ^ 32" using unat_mk16_less [of "mk16 (m ! 4) (m ! 5)"] by (simp add: len_def)
  then obtain r d1 where "X_Memory_Write_Block junk junk' b (mk16 (m ! 2) (m ! 3)) (take len (drop 6 m)) d = Some (r, d1)"
    using X_Memory_Write_Block_total [of "take len (drop 6 m)" junk junk' b "mk16 (m ! 2) (m ! 3)" d] by auto
  then show ?thesis by (simp add: mc_write_eq len_def Let_def returns_def mc_reject_def)
qed

lemma returns_write_noverify: "returns (mc_write_noverify junk b m d)"
proof -
  define len where "len = unat (mk16 (m ! 4) (m ! 5))"
  obtain d1 where "A_Memory_Write_Block junk b (mk16 (m ! 2) (m ! 3)) (take len (drop 6 m)) d = Some (0, d1)"
    using A_Memory_Write_Block_total [of junk b "mk16 (m ! 2) (m ! 3)" "take len (drop 6 m)" d] by auto
  then show ?thesis by (simp add: mc_write_noverify_eq len_def Let_def returns_def mc_reject_def)
qed

lemma returns_progmode:
  "returns (case progmode_switch junk b t k d of None \<Rightarrow> None | Some (r, i, d1) \<Rightarrow> Some ([r], i, d1))"
  using progmode_switch_total [of junk b t k d] by (auto simp: returns_def)

lemma mc_word_total: "mc_word t v \<noteq> None"
  by (simp add: mc_word_def)

lemma property_write_total: "property_write_answer junk v \<noteq> None"
  by (simp add: property_write_answer_eq)

lemma returns_message:
  assumes "short_packets b" and "EIBTYPE m \<noteq> EIB_MC_PROP_SCAN"
  shows "returns (ManagementConnection_message junk junk' b m d)"
proof -
  note six = returns_data_answer [of _ 6, simplified] and two = returns_data_answer [of _ 2, simplified]
  have restart: "returns (map_option (\<lambda>d1. ([EIBSETTYPE EIB_MC_RESTART], 0, d1)) (A_Restart junk b d))"
    using A_Restart_total [of junk b d] by (auto simp: returns_def)
  show ?thesis
    unfolding ManagementConnection_message_eq Let_def if_not_P [OF assms(2)]
    by (intro returns_if returns_reject returns_progmode returns_write returns_write_noverify restart
        returns_answer [OF _ mc_word_total] calls_total X_Get_PEIType_total
        returns_answer [OF _ property_write_total] six [OF read_block_returns [OF unat_mk16_less, simplified]] two property_calls_short [OF assms(1), simplified])
      (use property_calls_short [OF assms(1)] in \<open>auto intro: returns_answer calls_total simp: returns_def [of "Some _"] split: prod.split\<close>)
qed

lemma returns_individual_message:
  assumes "short_packets b"
  shows "returns (ManagementIndividual_message junk b m d)"
proof -
  note two = returns_data_answer [of _ 2, simplified]
  show ?thesis
    unfolding ManagementIndividual_message_eq Let_def Individual_calls_eq
    by (intro returns_if returns_reject returns_answer [OF _ property_write_total] calls_total two
        property_calls_short [OF assms, simplified]) (auto simp: returns_def)
qed

section \<open>When a session ends\<close>

lemma X_Memory_Write_Block_lp_results:
  "res \<in> {0, - 2} \<Longrightarrow> X_Memory_Write_Block_lp junk junk' b addr xs prev i res d = Some (r, d') \<Longrightarrow> r \<in> {0, - 1, - 2}"
proof (induction junk junk' b addr xs prev i res d rule: X_Memory_Write_Block_lp.induct)
  case (1 junk junk' b addr xs prev i res d)
  obtain k d1 where w: "X_Memory_Write junk b (addr + of_nat i) (take (differing junk junk' xs prev i 0) (drop i xs)) d = Some (k, d1)"
    using X_Memory_Write_total [of junk b "addr + of_nat i" "take (differing junk junk' xs prev i 0) (drop i xs)" d] by auto
  show ?case
  proof (cases "i < length xs \<and> cell junk xs i \<noteq> cell junk' prev i")
    case True
    have n: "(if k = - 2 then - 2 else res) \<in> {0, - 2}" using "1.prems"(1) by auto
    from True have i: "i < length xs" "cell junk xs i \<noteq> cell junk' prev i" by auto
    have "X_Memory_Write_Block_lp junk junk' b addr xs prev i res d =
        (if k = - 1 then Some (- 1, d1)
         else X_Memory_Write_Block_lp junk junk' b addr xs prev (i + differing junk junk' xs prev i 0) (if k = - 2 then - 2 else res) d1)"
      by (rule write_lp_differing [OF i refl w])
    with "1.prems"(2) "1.IH"(2) [OF i refl w refl _ n] show ?thesis by (cases "k = - 1") auto
  next
    case False
    with "1.prems" "1.IH"(1) show ?thesis
      by (cases "i < length xs") (auto simp: write_lp_equal X_Memory_Write_Block_lp.simps [of junk junk' b addr xs prev i])
  qed
qed

lemma X_Memory_Write_Block_results:
  "X_Memory_Write_Block junk junk' b addr xs d = Some (r, d') \<Longrightarrow> r \<in> {0, - 1, - 2}"
  unfolding X_Memory_Write_Block_def
  by (auto split: option.splits dest: X_Memory_Write_Block_lp_results [rotated])

text \<open>The branches after which the loop goes on.\<close>

definition goes_on :: "(CArray list \<times> int \<times> 'd) option \<Rightarrow> bool" where
  "goes_on x \<longleftrightarrow> (\<forall>rs i d'. x = Some (rs, i, d') \<longrightarrow> i \<noteq> - 1)"

lemma goes_on_if: "(c \<Longrightarrow> goes_on x) \<Longrightarrow> (\<not> c \<Longrightarrow> goes_on y) \<Longrightarrow> goes_on (if c then x else y)"
  by simp

lemma goes_on_reject: "goes_on (mc_reject d)"
  by (simp add: goes_on_def mc_reject_def)

lemma goes_on_answer: "goes_on (mc_answer f x)"
  by (simp add: goes_on_def mc_answer_def split: option.split)

lemma goes_on_restart: "goes_on (map_option (\<lambda>d1. (rs, 0, d1)) x)"
  by (auto simp: goes_on_def)

lemma goes_on_write_noverify: "goes_on (mc_write_noverify junk b m d)"
  using A_Memory_Write_Block_total [of junk b "mk16 (m ! 2) (m ! 3)" "take (unat (mk16 (m ! 4) (m ! 5))) (drop 6 m)" d]
  by (auto simp: mc_write_noverify_eq goes_on_def mc_reject_def Let_def)

lemma goes_on_message:
  assumes "EIBTYPE m \<noteq> EIB_RESET_CONNECTION" "EIBTYPE m \<noteq> EIB_MC_PROG_MODE" "EIBTYPE m \<noteq> EIB_MC_WRITE"
  shows "goes_on (ManagementConnection_message junk junk' b m d)"
  unfolding ManagementConnection_message_eq Let_def if_not_P [OF assms(1)] if_not_P [OF assms(2)] if_not_P [OF assms(3)]
  by (intro goes_on_if goes_on_reject goes_on_answer goes_on_restart goes_on_write_noverify)

lemma progmode_ends:
  assumes "progmode_switch junk b t k d = Some (c, i, d')"
  shows "i = - 1 \<longleftrightarrow> k = 3 \<and> c = EIBSETTYPE EIB_INVALID_REQUEST"
proof -
  obtain s d1 where s: "X_Progmode_Status junk b d = Some (s, d1)" "s \<in> {0, 1, - 1}"
    using X_Progmode_Status_total [of junk b d] by auto
  show ?thesis
    using assms s by (auto simp: progmode_switch_def progmode_answer_def EIBSETTYPE_def split: if_splits option.splits)
qed

lemma write_ends:
  assumes "mc_write junk junk' b m d = Some (rs, i, d')"
  shows "i = - 1 \<longleftrightarrow> rs = [EIBSETTYPE EIB_PROCESSING_ERROR]"
proof -
  have types: "EIBSETTYPE EIB_INVALID_REQUEST \<noteq> EIBSETTYPE EIB_PROCESSING_ERROR"
    "EIBSETTYPE EIB_ERROR_VERIFY \<noteq> EIBSETTYPE EIB_PROCESSING_ERROR" "EIBSETTYPE EIB_MC_WRITE \<noteq> EIBSETTYPE EIB_PROCESSING_ERROR"
    by (simp_all add: EIBSETTYPE_def lo8_def)
  from assms show ?thesis
    by (auto simp: mc_write_eq mc_reject_def Let_def types dest!: X_Memory_Write_Block_results split: if_splits option.splits)
qed

lemma message_ends:
  assumes "ManagementConnection_message junk junk' b m d = Some (rs, i, d')"
  shows "i = - 1 \<longleftrightarrow>
    EIBTYPE m = EIB_RESET_CONNECTION \<or>
    EIBTYPE m = EIB_MC_PROG_MODE \<and> 3 \<le> length m \<and> m ! 2 = 3 \<and> rs = [EIBSETTYPE EIB_INVALID_REQUEST] \<or>
    EIBTYPE m = EIB_MC_WRITE \<and> rs = [EIBSETTYPE EIB_PROCESSING_ERROR]"
proof -
  consider "EIBTYPE m = EIB_RESET_CONNECTION" | "EIBTYPE m = EIB_MC_PROG_MODE" | "EIBTYPE m = EIB_MC_WRITE"
    | "EIBTYPE m \<noteq> EIB_RESET_CONNECTION" "EIBTYPE m \<noteq> EIB_MC_PROG_MODE" "EIBTYPE m \<noteq> EIB_MC_WRITE" by blast
  then show ?thesis
  proof cases
    case 1
    with assms show ?thesis by (simp add: ManagementConnection_message_eq)
  next
    case 2
    show ?thesis
    proof (cases "length m < 3")
      case True
      with 2 assms show ?thesis by (simp add: ManagementConnection_message_eq mc_reject_def)
    next
      case False
      then obtain c where "progmode_switch junk b EIB_MC_PROG_MODE (m ! 2) d = Some (c, i, d')" "rs = [c]"
        using 2 assms by (auto simp: ManagementConnection_message_eq split: option.splits)
      with progmode_ends [OF this(1)] 2 False show ?thesis by auto
    qed
  next
    case 3
    with assms have "mc_write junk junk' b m d = Some (rs, i, d')" by (simp add: ManagementConnection_message_eq)
    from write_ends [OF this] 3 show ?thesis by simp
  next
    case 4
    from goes_on_message [OF this, of junk junk' b d] assms 4 show ?thesis by (simp add: goes_on_def)
  qed
qed

section \<open>The programming mode\<close>

text \<open>Whether a byte has an odd number of bits set.\<close>

definition odd_parity :: "uchar \<Rightarrow> bool" where
  "odd_parity v \<longleftrightarrow> odd (length (filter (bit v) [0..<8]))"

lemma bit_0x81: "n < 8 \<Longrightarrow> bit (0x81 :: uchar) n \<longleftrightarrow> n = 0 \<or> n = 7"
proof -
  assume "n < 8"
  then have "n \<in> {0, 1, 2, 3, 4, 5, 6, 7}" by auto
  then show ?thesis by auto
qed

lemma odd_parity_flip: "odd_parity (v XOR 0x81) = odd_parity v"
  by (simp add: odd_parity_def bit_simps bit_0x81 upt_rec)

lemma flip_mode: "(v XOR 0x81) AND 1 = 0 \<longleftrightarrow> v AND 1 \<noteq> 0" for v :: uchar
proof -
  have "x AND 1 = 0 \<longleftrightarrow> \<not> bit x 0" for x :: uchar by (simp add: and_one_eq bit_0 even_iff_mod_2_eq_zero)
  then show ?thesis by (simp add: bit_simps bit_0x81)
qed

lemma cells_one: "cells m addr 1 = [m addr]"
  by (simp add: cells_def)

lemma device_read_one:
  assumes "memory_device b limit ok mem" "1 \<le> limit" "ok d"
  obtains d' where "A_Memory_Read junk b addr 1 d = Some (Some [mem d addr], d')" "ok d'" "mem d' = mem d"
proof (rule device_read [OF assms(1,3), of 1 junk addr])
  fix d' assume "A_Memory_Read junk b addr (of_nat 1) d = Some (if 1 \<le> limit then Some (cells (mem d) addr 1) else None, d')"
    "ok d'" "mem d' = mem d"
  with that [of d'] assms(2) show thesis by (simp only: cells_one of_nat_1 if_True)
qed simp

lemma device_progmode_update:
  assumes dev: "memory_device b limit ok mem" "memory_writable b ok mem" "1 \<le> limit" "ok d"
  obtains d' where "X_Progmode_update f junk b d = Some (0, d')" "ok d'"
    "mem d' = (mem d) (0x60 := f (mem d 0x60))"
proof -
  obtain d1 where r: "A_Memory_Read junk b 0x60 1 d = Some (Some [mem d 0x60], d1)" "ok d1" "mem d1 = mem d"
    by (rule device_read_one [OF dev(1,3,4)])
  have l: "length [f (mem d 0x60)] < 16" "length [f (mem d 0x60)] \<le> limit" using dev(3) by simp_all
  obtain d2 where w: "X_Memory_Write junk b 0x60 [f (mem d 0x60)] d1 = Some (write_result (mem d2) 0x60 [f (mem d 0x60)], d2)"
    "ok d2" "\<And>a. a \<notin> (\<lambda>k. 0x60 + of_nat k) ` {..<length [f (mem d 0x60)]} \<Longrightarrow> mem d2 a = mem d1 a"
    "memory_writable b ok mem \<Longrightarrow> write_result (mem d2) 0x60 [f (mem d 0x60)] = 0"
    using device_verified_write [OF dev(1) r(2) l, of junk "0x60"] by blast
  have "mem d2 0x60 = f (mem d 0x60)"
    using w(4) [OF dev(2)] by (simp add: write_result_def cells_def split: if_splits)
  moreover have "mem d2 a = mem d a" if "a \<noteq> 0x60" for a using w(3) [of a] that r(3) by auto
  ultimately have "mem d2 = (mem d) (0x60 := f (mem d 0x60))" by auto
  moreover have "X_Progmode_update f junk b d = Some (0, d2)"
    using r w(1) w(4) [OF dev(2)] by (simp add: X_Progmode_update_def rd_def)
  ultimately show thesis using w(2) that by blast
qed

lemma device_progmode_status:
  assumes "memory_device b limit ok mem" "1 \<le> limit" "ok d"
  shows "\<exists>d'. X_Progmode_Status junk b d = Some (if mem d 0x60 AND 1 \<noteq> 0 then 1 else 0, d') \<and> ok d' \<and> mem d' = mem d"
proof -
  obtain d1 where "A_Memory_Read junk b 0x60 1 d = Some (Some [mem d 0x60], d1)" "ok d1" "mem d1 = mem d"
    by (rule device_read_one [OF assms])
  then show ?thesis by (simp add: X_Progmode_Status_def rd_def)
qed

section \<open>The enumeration of properties\<close>

text \<open>
  A device with the interface objects \<open>objs\<close>, each the list of its properties' identifier, type,
  number of elements and access levels. It answers a request for a description it does not have
  with property 0, and gives \<open>otype\<close> as the type of an object.
\<close>

definition described :: "(uchar \<times> uchar \<times> 16 word \<times> uchar) list list \<Rightarrow> uchar \<Rightarrow> uchar \<Rightarrow> (uchar \<times> uchar \<times> 16 word \<times> uchar)" where
  "described objs obj i =
     (if unat obj < length objs \<and> unat i < length (objs ! unat obj) then objs ! unat obj ! unat i else (0, 0, 0, 0))"

definition description_packet :: "uchar \<Rightarrow> uchar \<Rightarrow> uchar \<times> uchar \<times> 16 word \<times> uchar \<Rightarrow> CArray" where
  "description_packet obj i = (\<lambda>(prop, type, cnt, access). [0x03, 0xD9, obj, prop, i, type, hi8 cnt, lo8 cnt, access])"

definition property_device ::
    "'d bus \<Rightarrow> ('d \<Rightarrow> bool) \<Rightarrow> (uchar \<times> uchar \<times> 16 word \<times> uchar) list list \<Rightarrow> (uchar \<Rightarrow> 16 word) \<Rightarrow> bool" where
  "property_device b ok objs otype \<longleftrightarrow>
     (\<forall>d obj i. ok d \<longrightarrow>
        (\<exists>d'. l4_get b (l4_send b [0x03, 0xD8, obj, 0, i] d) = (Some (description_packet obj i (described objs obj i)), d') \<and> ok d')) \<and>
     (\<forall>d obj. ok d \<longrightarrow>
        (\<exists>d'. l4_get b (l4_send b [0x03, 0xD5, obj, 1, 0x10, 1] d) =
            (Some [0x03, 0xD6, obj, 1, 0x10, 1, hi8 (otype obj), lo8 (otype obj)], d') \<and> ok d'))"

text \<open>The limits a device must keep for the scan to end, and what the scan finds.\<close>

definition scannable :: "(uchar \<times> uchar \<times> 16 word \<times> uchar) list list \<Rightarrow> bool" where
  "scannable objs \<longleftrightarrow> length objs < 256 \<and>
     (\<forall>ps \<in> set objs. ps \<noteq> [] \<and> length ps < 256 \<and> (\<forall>q \<in> set ps. fst q \<noteq> 0))"

definition found :: "(uchar \<Rightarrow> 16 word) \<Rightarrow> uchar \<Rightarrow> uchar \<times> uchar \<times> 16 word \<times> uchar \<Rightarrow> PropertyInfo" where
  "found otype obj = (\<lambda>(prop, type, cnt, access).
     \<lparr>pi_obj = obj, pi_property = prop, pi_type = type,
      pi_count = (if prop = 1 \<and> type = 4 then otype obj else cnt), pi_access = access\<rparr>)"

definition all_found :: "(uchar \<Rightarrow> 16 word) \<Rightarrow> (uchar \<times> uchar \<times> 16 word \<times> uchar) list list \<Rightarrow> nat \<Rightarrow> PropertyInfo list" where
  "all_found otype objs k = concat (map (\<lambda>k. map (found otype (of_nat k)) (objs ! k)) [k..<length objs])"

lemma A_Property_Desc_answer:
  assumes "l4_get b (l4_send b [0x03, 0xD8, obj, 0, i] d) = (Some (description_packet obj i q), d')"
  shows "A_Property_Desc junk b obj 0 i d = Some (Some q, d')"
proof -
  obtain prp type cnt access where q: "q = (prp, type, cnt, access)" by (cases q)
  have "APDU_fromPacket (description_packet obj i q) = A_PropertyDescription_Response_PDU obj prp i type cnt access"
    by (rule apdu_encode_parse)
      (simp_all add: q description_packet_def apdu_ok_def apdu_misencoded_def A_PropertyDescription_Response_ToPacket_def)
  moreover have "description_packet obj i q \<noteq> []" by (simp add: q description_packet_def)
  ultimately show ?thesis using assms
    by (simp add: A_Property_Desc_def Request_Response_def A_PropertyDescription_Read_ToPacket_def answer_part_def
        APDU_isResponse_def A_PropertyDescription_Response_isResponse_def property_description_def q)
qed

lemma A_Property_Read_type:
  assumes "l4_get b (l4_send b [0x03, 0xD5, obj, 1, 0x10, 1] d) = (Some [0x03, 0xD6, obj, 1, 0x10, 1, h, l], d')"
  shows "A_Property_Read junk b obj 1 1 1 d = Some (Some [h, l], d')"
proof -
  have "APDU_ToPacket junk (A_PropertyValue_Read_PDU obj 1 (1 AND 0x0f) (1 AND 0x0fff)) = Some [0x03, 0xD5, obj, 1, 0x10, 1]"
    by (simp add: A_PropertyValue_Read_ToPacket_def hi8_def lo8_def)
  moreover have "APDU_fromPacket [0x03, 0xD6, obj, 1, 0x10, 1, h, l] = A_PropertyValue_Response_PDU obj 1 1 1 [h, l]"
    by (simp add: APDU_fromPacket_def APDU_select_escape A_PropertyValue_Response_init_def mk16_def)
  ultimately show ?thesis using assms
    by (simp add: A_Property_Read_def Request_Response_def answer_part_def APDU_isResponse_def
        A_PropertyValue_Response_isResponse_def property_value_def)
qed

lemma device_scan_turn:
  assumes "property_device b ok objs otype" and "ok d"
  obtains d' where "PropertyScan_turn junk b obj i d = Some (Some (found otype obj (described objs obj i)), d')" "ok d'"
proof -
  obtain d1 where d1: "A_Property_Desc junk b obj 0 i d = Some (Some (described objs obj i), d1)" "ok d1"
    using assms A_Property_Desc_answer unfolding property_device_def by metis
  obtain d2 where d2: "A_Property_Read junk b obj 1 1 1 d1 = Some (Some [hi8 (otype obj), lo8 (otype obj)], d2)" "ok d2"
    using assms(1) d1(2) A_Property_Read_type unfolding property_device_def by metis
  obtain prp type cnt access where q: "described objs obj i = (prp, type, cnt, access)" by (cases "described objs obj i")
  show thesis
  proof (cases "prp = 1 \<and> type = 4")
    case True
    with d1 d2 that [of d2] show ?thesis by (simp add: PropertyScan_turn_def q found_def)
  next
    case False
    with d1 that [of d1] show ?thesis by (auto simp: PropertyScan_turn_def q found_def)
  qed
qed

lemma PropertyScan_lp_turn:
  assumes "PropertyScan_turn junk b obj i d = Some (Some p1, d1)"
  shows "PropertyScan_lp junk b obj i p d =
    (if pi_property p1 \<noteq> 0 then PropertyScan_lp junk b obj (i + 1) (p @ [p1]) d1
     else if i + 1 \<noteq> 1 then PropertyScan_lp junk b (obj + 1) 0 p d1
     else Some (Some p, d1))"
  by (subst PropertyScan_lp.simps) (simp add: assms)

lemma scan_object:
  assumes dev: "property_device b ok objs otype" and ob: "scannable objs" "k < length objs"
  shows "i \<le> length (objs ! k) \<Longrightarrow> ok d \<Longrightarrow>
    \<exists>d'. ok d' \<and> PropertyScan_lp junk b (of_nat k) (of_nat i) p d =
      PropertyScan_lp junk b (of_nat (k + 1)) 0 (p @ map (found otype (of_nat k)) (drop i (objs ! k))) d'"
proof (induction "length (objs ! k) - i" arbitrary: i p d)
  case 0
  have len: "length (objs ! k) < 256" "objs ! k \<noteq> []" "length objs < 256"
    using ob unfolding scannable_def by (meson nth_mem)+
  from 0 have i: "i = length (objs ! k)" by simp
  then have u: "unat (of_nat i :: uchar) = i" "unat (of_nat k :: uchar) = k" using len ob(2) by (simp_all add: unat_of_nat)
  have "described objs (of_nat k) (of_nat i) = (0, 0, 0, 0)" unfolding described_def u by (simp add: i)
  then obtain d1 where d1: "PropertyScan_turn junk b (of_nat k) (of_nat i) d = Some (Some (found otype (of_nat k) (0, 0, 0, 0)), d1)" "ok d1"
    using device_scan_turn [OF dev \<open>ok d\<close>, of junk "of_nat k" "of_nat i"] by metis
  have "of_nat i \<noteq> (0 :: uchar)" using u(1) i len(2) by (metis length_0_conv unat_0)
  with d1(2) i PropertyScan_lp_turn [OF d1(1), of p] show ?case by (auto simp: found_def add.commute)
next
  case (Suc n)
  have len: "length (objs ! k) < 256" "\<forall>q \<in> set (objs ! k). fst q \<noteq> 0" "length objs < 256"
    using ob unfolding scannable_def by (meson nth_mem)+
  from Suc.hyps(2) have i: "i < length (objs ! k)" and n: "n = length (objs ! k) - (i + 1)" by simp_all
  then have u: "unat (of_nat i :: uchar) = i" "unat (of_nat k :: uchar) = k" using len ob(2) by (simp_all add: unat_of_nat)
  define q where "q = objs ! k ! i"
  have "described objs (of_nat k) (of_nat i) = q" using i ob(2) by (simp add: described_def u q_def)
  then obtain d1 where d1: "PropertyScan_turn junk b (of_nat k) (of_nat i) d = Some (Some (found otype (of_nat k) q), d1)" "ok d1"
    using device_scan_turn [OF dev \<open>ok d\<close>, of junk "of_nat k" "of_nat i"] by metis
  have "fst q \<noteq> 0" using len(2) i by (simp add: q_def)
  then have "PropertyScan_lp junk b (of_nat k) (of_nat i) p d =
      PropertyScan_lp junk b (of_nat k) (of_nat (i + 1)) (p @ [found otype (of_nat k) q]) d1"
    unfolding PropertyScan_lp_turn [OF d1(1)] by (simp add: found_def split_beta add.commute)
  moreover obtain d2 where "ok d2" "PropertyScan_lp junk b (of_nat k) (of_nat (i + 1)) (p @ [found otype (of_nat k) q]) d1 =
      PropertyScan_lp junk b (of_nat (k + 1)) 0 ((p @ [found otype (of_nat k) q]) @ map (found otype (of_nat k)) (drop (i + 1) (objs ! k))) d2"
    using Suc.hyps(1) [of "i + 1" d1 "p @ [found otype (of_nat k) q]", OF n _ d1(2)] i by auto
  moreover have "drop i (objs ! k) = q # drop (i + 1) (objs ! k)" using i by (simp add: q_def Cons_nth_drop_Suc)
  ultimately show ?case by auto
qed

lemma scan_objects:
  assumes dev: "property_device b ok objs otype" and ob: "scannable objs"
  shows "k \<le> length objs \<Longrightarrow> ok d \<Longrightarrow>
    \<exists>d'. ok d' \<and> PropertyScan_lp junk b (of_nat k) 0 p d = Some (Some (p @ all_found otype objs k), d')"
proof (induction "length objs - k" arbitrary: k p d)
  case 0
  then have k: "k = length objs" "unat (of_nat k :: uchar) = k" using ob by (simp_all add: scannable_def unat_of_nat)
  have "described objs (of_nat k) 0 = (0, 0, 0, 0)" unfolding described_def k(2) by (simp add: k(1))
  then obtain d1 where d1: "PropertyScan_turn junk b (of_nat k) 0 d = Some (Some (found otype (of_nat k) (0, 0, 0, 0)), d1)" "ok d1"
    using device_scan_turn [OF dev \<open>ok d\<close>, of junk "of_nat k" 0] by metis
  with k(1) PropertyScan_lp_turn [OF d1(1), of p] show ?case by (auto simp: found_def all_found_def)
next
  case (Suc n)
  then have k: "k < length objs" by simp
  obtain d1 where d1: "ok d1" "PropertyScan_lp junk b (of_nat k) (of_nat 0) p d =
      PropertyScan_lp junk b (of_nat (k + 1)) 0 (p @ map (found otype (of_nat k)) (drop 0 (objs ! k))) d1"
    using scan_object [OF dev ob k _ \<open>ok d\<close>, of 0 junk p] by auto
  have "all_found otype objs k = map (found otype (of_nat k)) (objs ! k) @ all_found otype objs (k + 1)"
    using k by (simp add: all_found_def upt_conv_Cons)
  with Suc.hyps(1) [of "k + 1" d1 "p @ map (found otype (of_nat k)) (objs ! k)"] Suc.hyps(2) k d1
  show ?case by auto
qed

text \<open>A device that has a property at every index of every object.\<close>

definition endless_device :: "'d bus \<Rightarrow> ('d \<Rightarrow> bool) \<Rightarrow> bool" where
  "endless_device b ok \<longleftrightarrow>
     (\<forall>d obj i. ok d \<longrightarrow>
        (\<exists>q d'. l4_get b (l4_send b [0x03, 0xD8, obj, 0, i] d) = (Some (description_packet obj i q), d') \<and>
           ok d' \<and> fst q \<noteq> 0 \<and> fst q \<noteq> 1))"

lemma endless_scan_turn:
  assumes "endless_device b ok" and "ok d"
  shows "\<exists>p1 d'. PropertyScan_turn junk b obj i d = Some (Some p1, d') \<and> ok d' \<and> pi_property p1 \<noteq> 0"
proof -
  obtain q d1 where "l4_get b (l4_send b [0x03, 0xD8, obj, 0, i] d) = (Some (description_packet obj i q), d1)"
    and q: "ok d1" "fst q \<noteq> 0" "fst q \<noteq> 1"
    using assms unfolding endless_device_def by blast
  then have "A_Property_Desc junk b obj 0 i d = Some (Some q, d1)" by (simp add: A_Property_Desc_answer)
  with q show ?thesis by (cases q) (simp add: PropertyScan_turn_def)
qed

lemma endless_scan:
  assumes "endless_device b ok"
  shows "ok d \<Longrightarrow> PropertyScan_lp junk b obj i p d = None"
proof -
  have ends: "endless_device b ok \<longrightarrow> \<not> ok d" if "PropertyScan_lp junk b obj i p d = Some y" for y
  proof (rule PropertyScan_lp.raw_induct [where P = "\<lambda>junk b obj i p d y. endless_device b ok \<longrightarrow> \<not> ok d", OF _ that])
    fix lp junk b obj i p d y
    assume IH: "\<And>junk b obj i p d y. lp junk b obj i p d = Some y \<Longrightarrow> endless_device b ok \<longrightarrow> \<not> ok d"
      and lp: "Option.bind (PropertyScan_turn junk b obj i d)
        (\<lambda>(r, d1). case r of None \<Rightarrow> Some (None, d1)
           | Some p1 \<Rightarrow> if pi_property p1 \<noteq> 0 then lp junk b obj (i + 1) (p @ [p1]) d1
               else if i + 1 \<noteq> 1 then lp junk b (obj + 1) 0 p d1 else Some (Some p, d1)) = Some y"
    show "endless_device b ok \<longrightarrow> \<not> ok d"
    proof (intro impI notI)
      assume dev: "endless_device b ok" "ok d"
      obtain p1 d1 where t: "PropertyScan_turn junk b obj i d = Some (Some p1, d1)" "ok d1" "pi_property p1 \<noteq> 0"
        using endless_scan_turn [OF dev, of junk obj i] by blast
      with lp have "lp junk b obj (i + 1) (p @ [p1]) d1 = Some y" by simp
      from IH [OF this] dev(1) t(2) show False by blast
    qed
  qed
  with assms show "ok d \<Longrightarrow> PropertyScan_lp junk b obj i p d = None"
    by (cases "PropertyScan_lp junk b obj i p d") auto
qed

section \<open>What is broadcast\<close>

text \<open>A bus that also records the packets that are broadcast.\<close>

definition logged :: "'d bus \<Rightarrow> ('d \<times> CArray list) bus" where
  "logged b =
     \<lparr>l4_open = (\<lambda>a (d, log). case l4_open b a d of (r, d') \<Rightarrow> (r, d', log)),
      l4_close = (\<lambda>(d, log). (l4_close b d, log)),
      l4_send = (\<lambda>c (d, log). (l4_send b c d, log)),
      l4_get = (\<lambda>(d, log). case l4_get b d of (r, d') \<Rightarrow> (r, d', log)),
      bc_open = (\<lambda>(d, log). case bc_open b d of (r, d') \<Rightarrow> (r, d', log)),
      bc_close = (\<lambda>(d, log). (bc_close b d, log)),
      bc_send = (\<lambda>c (d, log). (bc_send b c d, log @ [c])),
      bc_collect = (\<lambda>(d, log). case bc_collect b d of (r, d') \<Rightarrow> (r, d', log))\<rparr>"

definition with_log :: "CArray list \<Rightarrow> ('a \<times> 'd) option \<Rightarrow> ('a \<times> 'd \<times> CArray list) option" where
  "with_log log = map_option (\<lambda>(r, d). (r, d, log))"

lemma with_log_simps [simp]: "with_log log None = None" "with_log log (Some (r, d)) = Some (r, d, log)"
  by (simp_all add: with_log_def)

lemma logged_Request_Response: "Request_Response junk (logged b) r (d, log) = with_log log (Request_Response junk b r d)"
  by (auto simp: Request_Response_def logged_def Let_def split: option.split prod.split)

lemma logged_answer_part: "answer_part part (with_log log x) = with_log log (answer_part part x)"
  by (auto simp: answer_part_def with_log_def split: option.splits)

lemma logged_reads:
  "A_Device_Descriptor_Read junk (logged b) type (d, log) = with_log log (A_Device_Descriptor_Read junk b type d)"
  "A_Memory_Read junk (logged b) addr len (d, log) = with_log log (A_Memory_Read junk b addr len d)"
  by (simp_all add: A_Device_Descriptor_Read_def A_Memory_Read_def logged_Request_Response logged_answer_part)

lemma logged_X_Memory_Write: "X_Memory_Write junk (logged b) addr xs (d, log) = with_log log (X_Memory_Write junk b addr xs d)"
proof -
  obtain d1 where w: "A_Memory_Write junk b addr xs d = Some d1" by (simp add: A_Memory_Write_packet)
  moreover have "A_Memory_Write junk (logged b) addr xs (d, log) = Some (d1, log)"
    using w by (simp add: A_Memory_Write_packet) (simp add: logged_def)
  ultimately show ?thesis
    by (auto simp: X_Memory_Write_def logged_reads split: option.split)
qed

lemma logged_X_Progmode_Off: "X_Progmode_Off junk (logged b) (d, log) = with_log log (X_Progmode_Off junk b d)"
  by (auto simp: X_Progmode_Off_def X_Progmode_update_def logged_reads logged_X_Memory_Write split: option.split)

lemma logged_open:
  "l4_open (logged b) a (d, log) = (fst (l4_open b a d), snd (l4_open b a d), log)"
  "bc_open (logged b) (d, log) = (fst (bc_open b d), snd (bc_open b d), log)"
  "l4_close (logged b) (d, log) = (l4_close b d, log)"
  "bc_close (logged b) (d, log) = (bc_close b d, log)"
  by (simp_all add: logged_def split_beta)

lemma logged_address_in_use: "address_in_use junk (logged b) dst (d, log) = with_log log (address_in_use junk b dst d)"
  by (cases "l4_open b dst d")
    (auto simp: address_in_use_def logged_open logged_reads with_log_def split: bool.split option.split)

definition address_read_packet :: CArray where
  "address_read_packet = [0x01, 0x00]"

definition address_write_packet :: "eibaddr_t \<Rightarrow> CArray" where
  "address_write_packet addr = [0x00, 0xC0, hi8 addr, lo8 addr]"

lemma logged_A_IndividualAddress_Read:
  "A_IndividualAddress_Read junk (logged b) (d, log) =
     with_log (log @ [address_read_packet]) (A_IndividualAddress_Read junk b d)"
  by (simp add: A_IndividualAddress_Read_def A_IndividualAddress_Read_ToPacket_def logged_def address_read_packet_def split: prod.split)

lemma logged_assign_address:
  "assign_address junk (logged b) dst (d, log) =
     with_log (log @ [address_write_packet dst]) (assign_address junk b dst d)"
proof -
  define d1 where "d1 = bc_send b (address_write_packet dst) d"
  have w: "A_IndividualAddress_Write junk b dst d = Some d1"
    "A_IndividualAddress_Write junk (logged b) dst (d, log) = Some (d1, log @ [address_write_packet dst])"
    by (simp_all add: A_IndividualAddress_Write_def A_IndividualAddress_Write_ToPacket_def address_write_packet_def d1_def logged_def)
  show ?thesis
    by (cases "l4_open b dst d1")
      (auto simp: assign_address_def w logged_open logged_reads logged_X_Progmode_Off with_log_def split: bool.split option.split)
qed

lemma address_write_careful:
  assumes "WriteIndividualAddress junk (logged b) m (d, []) = Some (rs, d', log)"
    and "\<exists>c \<in> set log. c \<noteq> address_read_packet"
  shows "log = [address_read_packet, address_write_packet (mk16 (m ! 2) (m ! 3))] \<and>
    (\<exists>d1 d2 d3 a. bc_open b d = (True, d1) \<and> address_in_use junk b (mk16 (m ! 2) (m ! 3)) d1 = Some (Some False, d2) \<and>
       A_IndividualAddress_Read junk b d2 = Some ([a], d3))"
proof -
  have len: "\<not> length m < 4" "3 < length m" using assms by (auto simp: WriteIndividualAddress_def split: if_splits)
  define dst where "dst = mk16 (m ! 2) (m ! 3)"
  obtain r d1 where r: "bc_open b d = (r, d1)" by fastforce
  have r using assms len by (cases r) (auto simp: WriteIndividualAddress_def logged_open r Let_def)
  with r have op: "bc_open b d = (True, d1)" by simp
  obtain u d2 where use: "address_in_use junk b dst d1 = Some (u, d2)"
    using assms len by (cases "address_in_use junk b dst d1")
      (auto simp: WriteIndividualAddress_def logged_open op logged_address_in_use dst_def Let_def)
  have u: "u = Some False"
    using assms len use by (cases u) (auto simp: WriteIndividualAddress_def logged_open op logged_address_in_use dst_def Let_def split: bool.splits)
  obtain addr d3 where rd: "A_IndividualAddress_Read junk b d2 = Some (addr, d3)"
    using assms len by (cases "A_IndividualAddress_Read junk b d2")
      (auto simp: WriteIndividualAddress_def logged_open op logged_address_in_use dst_def [symmetric] use u logged_A_IndividualAddress_Read Let_def)
  note run = WriteIndividualAddress_def logged_open op logged_address_in_use dst_def [symmetric] use u logged_A_IndividualAddress_Read rd
    logged_assign_address
  have "\<not> 1 < length addr" "addr \<noteq> []"
    using assms len by (auto simp: run Let_def split: if_splits)
  then obtain a where a: "addr = [a]" by (cases addr) auto
  obtain t d4 where as: "assign_address junk b dst d3 = Some (t, d4)"
    using assms(1) len by (cases "assign_address junk b dst d3") (auto simp: run a Let_def)
  have "log = [address_read_packet, address_write_packet dst]"
    using assms(1) len by (simp add: run a as Let_def)
  with op use u rd a show ?thesis by (simp add: dst_def)
qed

end
