(* ===== verification/ManagementProps.thy ===== *)
theory ManagementProps
  imports ManagementProofs ClientApi
begin

text \<open>
  What management does for its clients, on devices whose services answer as the standard says, and
  what it does on any device. The witnesses run on \<open>sample_bus\<close>, a bus with one device.
\<close>

section \<open>A device\<close>

type_synonym device = "(memaddr_t \<Rightarrow> uchar) \<times> CArray option"

text \<open>Memory of which \<open>limit\<close> bytes can be read at once, and interface objects.\<close>

definition sample_send :: "nat \<Rightarrow> (uchar \<times> uchar \<times> 16 word \<times> uchar) list list \<Rightarrow> (uchar \<Rightarrow> 16 word) \<Rightarrow> CArray \<Rightarrow> device \<Rightarrow> device" where
  "sample_send limit objs otype c = (\<lambda>(m, q).
     case APDU_fromPacket c of
       A_Memory_Read_PDU n addr \<Rightarrow>
         (m, if unat n \<le> limit then Some ([0x02, 0x40 OR n, hi8 addr, lo8 addr] @ cells m addr (unat n)) else None)
     | A_Memory_Write_PDU n addr xs \<Rightarrow> (store_cells addr xs m, None)
     | A_PropertyDescription_Read_PDU obj prop i \<Rightarrow> (m, Some (description_packet obj i (described objs obj i)))
     | A_PropertyValue_Read_PDU obj prop cnt start \<Rightarrow>
         (m, Some [0x03, 0xD6, obj, 1, 0x10, 1, hi8 (otype obj), lo8 (otype obj)])
     | _ \<Rightarrow> (m, None))"

definition sample_bus :: "nat \<Rightarrow> (uchar \<times> uchar \<times> 16 word \<times> uchar) list list \<Rightarrow> (uchar \<Rightarrow> 16 word) \<Rightarrow> device bus" where
  "sample_bus limit objs otype =
     \<lparr>l4_open = (\<lambda>a d. (True, d)), l4_close = id, l4_send = sample_send limit objs otype,
      l4_get = (\<lambda>(m, q). (q, m, None)), bc_open = (\<lambda>d. (True, d)), bc_close = id,
      bc_send = (\<lambda>c d. d), bc_collect = (\<lambda>d. ([\<lparr>bc_data = [0x01, 0x40], bc_src = 0x1101\<rparr>], d))\<rparr>"

definition idle :: "device \<Rightarrow> bool" where
  "idle d \<longleftrightarrow> snd d = None"

lemma memory_request_parse:
  "n < 16 \<Longrightarrow> APDU_fromPacket [0x02, of_nat n, hi8 addr, lo8 addr] = A_Memory_Read_PDU (of_nat n) addr"
  by (rule apdu_encode_parse)
    (simp_all add: apdu_ok_def of_nat_low4 low4_of_nat apdu_misencoded_def A_Memory_Read_ToPacket_def)

lemma memory_write_parse:
  "length xs < 16 \<Longrightarrow> APDU_fromPacket (0x02 # (0x80 OR of_nat (length xs)) # hi8 addr # lo8 addr # xs) =
     A_Memory_Write_PDU (of_nat (length xs)) addr xs"
  by (rule apdu_encode_parse)
    (simp_all add: apdu_ok_def of_nat_low4 low4_of_nat apdu_misencoded_def A_Memory_Write_ToPacket_def unat_of_nat)

lemma sample_memory: "memory_device (sample_bus limit objs otype) limit idle fst"
  unfolding memory_device_def
proof (intro conjI allI impI)
  fix d :: device and n :: nat and addr :: memaddr_t
  assume "idle d \<and> n < 16"
  then show "\<exists>d'. l4_get (sample_bus limit objs otype) (l4_send (sample_bus limit objs otype) [0x02, of_nat n, hi8 addr, lo8 addr] d) =
      (if n \<le> limit then Some ([0x02, 0x40 OR of_nat n, hi8 addr, lo8 addr] @ map (\<lambda>k. fst d (addr + of_nat k)) [0..<n]) else None, d')
      \<and> idle d' \<and> fst d' = fst d"
    by (cases d) (auto simp: sample_bus_def sample_send_def memory_request_parse idle_def cells_def unat_of_nat)
next
  fix d :: device and xs :: CArray and addr :: memaddr_t
  let ?d = "l4_send (sample_bus limit objs otype) ([0x02, 0x80 OR of_nat (length xs), hi8 addr, lo8 addr] @ xs) d"
  assume "idle d \<and> length xs < 16"
  then have d: "?d = (store_cells addr xs (fst d), None)"
    by (cases d) (simp add: sample_bus_def sample_send_def memory_write_parse)
  show "idle ?d" unfolding d by (simp add: idle_def)
  fix a assume "a \<notin> (\<lambda>k. addr + of_nat k) ` {..<length xs}"
  moreover have "a = addr + of_nat (unat (a - addr))" by simp
  ultimately have "\<not> unat (a - addr) < length xs" by blast
  then show "fst ?d a = fst d a" unfolding d by (simp add: store_cells_def)
qed

lemma sample_writable: "memory_writable (sample_bus limit objs otype) idle fst"
  unfolding memory_writable_def
proof (intro allI impI)
  fix d :: device and xs :: CArray and addr :: memaddr_t and k
  assume "idle d \<and> length xs < 16 \<and> k < length xs"
  then show "fst (l4_send (sample_bus limit objs otype) ([0x02, 0x80 OR of_nat (length xs), hi8 addr, lo8 addr] @ xs) d) (addr + of_nat k) = xs ! k"
    by (cases d) (simp add: sample_bus_def sample_send_def memory_write_parse store_cells_def unat_of_nat)
qed

lemma sample_properties: "property_device (sample_bus limit objs otype) idle objs otype"
  unfolding property_device_def
proof (intro conjI allI impI)
  fix d :: device and obj i
  have "APDU_fromPacket [0x03, 0xD8, obj, 0, i] = A_PropertyDescription_Read_PDU obj 0 i"
    by (simp add: APDU_fromPacket_def APDU_select_escape A_PropertyDescription_Read_init_def)
  then show "\<exists>d'. l4_get (sample_bus limit objs otype) (l4_send (sample_bus limit objs otype) [0x03, 0xD8, obj, 0, i] d) =
      (Some (description_packet obj i (described objs obj i)), d') \<and> idle d'"
    by (cases d) (simp add: sample_bus_def sample_send_def idle_def)
next
  fix d :: device and obj
  have "APDU_fromPacket [0x03, 0xD5, obj, 1, 0x10, 1] = A_PropertyValue_Read_PDU obj 1 1 1"
    by (simp add: APDU_fromPacket_def APDU_select_escape A_PropertyValue_Read_init_def mk16_def)
  then show "\<exists>d'. l4_get (sample_bus limit objs otype) (l4_send (sample_bus limit objs otype) [0x03, 0xD5, obj, 1, 0x10, 1] d) =
      (Some [0x03, 0xD6, obj, 1, 0x10, 1, hi8 (otype obj), lo8 (otype obj)], d') \<and> idle d'"
    by (cases d) (simp add: sample_bus_def sample_send_def idle_def)
qed

section \<open>The properties\<close>

definition steady_bus :: "unit bus" where
  "steady_bus =
     \<lparr>l4_open = (\<lambda>a d. (True, d)), l4_close = id, l4_send = (\<lambda>c d. d), l4_get = (\<lambda>d. (Some [0x03, 0x40, 0x00, 0x12], d)),
      bc_open = (\<lambda>d. (True, d)), bc_close = id, bc_send = (\<lambda>c d. d), bc_collect = (\<lambda>d. ([], d))\<rparr>"



text \<open>C36: a session of a management connection ends in three cases and no others: the client resets
  it, reading the programming mode fails, or a memory write fails before its verification. In the
  last two the client has only been told of a failed request, as it is for requests whose
  failure leaves the session open.
\<close>

theorem management_session_ends:
  assumes "ManagementConnection_message junk junk' b m d = Some (rs, i, d')"
  shows "i = - 1 \<longleftrightarrow>
    EIBTYPE m = EIB_RESET_CONNECTION \<or>
    EIBTYPE m = EIB_MC_PROG_MODE \<and> 3 \<le> length m \<and> m ! 2 = 3 \<and> rs = [EIBSETTYPE EIB_INVALID_REQUEST] \<or>
    EIBTYPE m = EIB_MC_WRITE \<and> rs = [EIBSETTYPE EIB_PROCESSING_ERROR]"
  by (rule message_ends [OF assms])

text \<open>On a bus that gives the answer of another request, the mode cannot be read.\<close>

lemma steady_status:
  "ManagementConnection_message (\<lambda>_. 0) (\<lambda>_. 0) steady_bus (EIBSETTYPE EIB_MC_PROG_MODE @ [3]) () =
     Some ([EIBSETTYPE EIB_INVALID_REQUEST], - 1, ())"
  by code_simp

lemma management_session_ends_witness:
  "(- 1 :: int) = - 1 \<longleftrightarrow>
    EIBTYPE (EIBSETTYPE EIB_MC_PROG_MODE @ [3]) = EIB_RESET_CONNECTION \<or>
    EIBTYPE (EIBSETTYPE EIB_MC_PROG_MODE @ [3]) = EIB_MC_PROG_MODE \<and> 3 \<le> length (EIBSETTYPE EIB_MC_PROG_MODE @ [3]) \<and>
      (EIBSETTYPE EIB_MC_PROG_MODE @ [3]) ! 2 = 3 \<and> [EIBSETTYPE EIB_INVALID_REQUEST] = [EIBSETTYPE EIB_INVALID_REQUEST] \<or>
    EIBTYPE (EIBSETTYPE EIB_MC_PROG_MODE @ [3]) = EIB_MC_WRITE \<and> [EIBSETTYPE EIB_INVALID_REQUEST] = [EIBSETTYPE EIB_PROCESSING_ERROR]"
  by (rule management_session_ends [OF steady_status])

text \<open>C23: a block is written and verified. On a device that answers reads of up to 12 bytes and whose
  writes change nothing but the cells they name, writing a block returns 0 if afterwards the memory
  holds all of it and -2 if it does not, never anything else; no cell outside the block
  is changed; and if the device stores what is written, the result is 0.
\<close>

theorem memory_block_write_verified:
  assumes "memory_device b limit ok mem" "12 \<le> limit" "ok d" "length xs \<le> 2 ^ 16"
  shows "\<exists>d'. X_Memory_Write_Block junk junk' b addr xs d =
        Some (if cells (mem d') addr (length xs) = xs then 0 else - 2, d') \<and>
      ok d' \<and>
      (\<forall>a. a \<notin> (\<lambda>k. addr + of_nat k) ` {..<length xs} \<longrightarrow> mem d' a = mem d a) \<and>
      (memory_writable b ok mem \<longrightarrow> cells (mem d') addr (length xs) = xs)"
proof -
  obtain d' where d': "X_Memory_Write_Block junk junk' b addr xs d = Some (write_result (mem d') addr xs, d')" "ok d'"
    "\<And>a. a \<notin> (\<lambda>k. addr + of_nat k) ` {..<length xs} \<Longrightarrow> mem d' a = mem d a"
    "memory_writable b ok mem \<Longrightarrow> write_result (mem d') addr xs = 0"
    using device_write_block [OF assms, of junk junk' addr] by blast
  moreover have "memory_writable b ok mem \<longrightarrow> cells (mem d') addr (length xs) = xs"
  proof
    assume "memory_writable b ok mem"
    from d'(4) [OF this] show "cells (mem d') addr (length xs) = xs" by (simp add: write_result_def split: if_splits)
  qed
  ultimately show ?thesis unfolding write_result_def by blast
qed

lemma memory_block_write_verified_witness:
  "\<exists>d'. X_Memory_Write_Block (\<lambda>_. 0) (\<lambda>_. 0) (sample_bus 15 [] (\<lambda>_. 0)) 0x100 [1, 0, 3] (\<lambda>_. 0, None) =
      Some (if cells (fst d') 0x100 (length [1, 0, 3 :: uchar]) = [1, 0, 3] then 0 else - 2, d') \<and> idle d' \<and>
      (\<forall>a. a \<notin> (\<lambda>k. 0x100 + of_nat k) ` {..<length [1, 0, 3 :: uchar]} \<longrightarrow> fst d' a = fst (\<lambda>_. 0, None :: CArray option) a) \<and>
      (memory_writable (sample_bus 15 [] (\<lambda>_. 0)) idle fst \<longrightarrow> cells (fst d') 0x100 (length [1, 0, 3 :: uchar]) = [1, 0, 3])"
  by (rule memory_block_write_verified [OF sample_memory]) (simp_all add: idle_def)

text \<open>switching the programming mode works and keeps the parity. On a device with a writable memory,
  each of the three calls returns 0, the status read afterwards is on, off, or the opposite of what
  it was, no cell but 0x60 is changed, and the byte there keeps its parity.
\<close>

theorem programming_mode_switches:
  assumes "memory_device b limit ok mem" "memory_writable b ok mem" "1 \<le> limit" "ok d"
  shows "\<forall>(switch, status) \<in> {(X_Progmode_On, 1), (X_Progmode_Off, 0), (X_Progmode_Toggle, if mem d 0x60 AND 1 = 0 then 1 else 0)}.
    \<exists>d1 d2. switch junk b d = Some (0, d1) \<and> X_Progmode_Status junk b d1 = Some (status, d2) \<and>
      (\<forall>a. a \<noteq> 0x60 \<longrightarrow> mem d1 a = mem d a) \<and> odd_parity (mem d1 0x60) = odd_parity (mem d 0x60)"
proof -
  have switch: "\<exists>d1 d2. X_Progmode_update f junk b d = Some (0, d1) \<and> X_Progmode_Status junk b d1 = Some (status, d2) \<and>
      (\<forall>a. a \<noteq> 0x60 \<longrightarrow> mem d1 a = mem d a) \<and> odd_parity (mem d1 0x60) = odd_parity (mem d 0x60)"
    if f: "f (mem d 0x60) \<in> {mem d 0x60, mem d 0x60 XOR 0x81}"
      and status: "status = (if f (mem d 0x60) AND 1 \<noteq> 0 then 1 else 0)" for f status
  proof -
    obtain d1 where d1: "X_Progmode_update f junk b d = Some (0, d1)" "ok d1" "mem d1 = (mem d) (0x60 := f (mem d 0x60))"
      using device_progmode_update [OF assms] by blast
    obtain d2 where "X_Progmode_Status junk b d1 = Some (status, d2)"
      using device_progmode_status [OF assms(1,3) d1(2), of junk] by (auto simp: d1(3) status)
    with d1 f show ?thesis by (auto simp: odd_parity_flip)
  qed
  show ?thesis
    unfolding X_Progmode_On_def X_Progmode_Off_def X_Progmode_Toggle_def
    by (simp only: ball_simps(5) ball_simps(7) prod.case) (intro conjI switch ballI; simp add: flip_mode)
qed

lemma programming_mode_switches_witness:
  "\<exists>d1 d2. X_Progmode_On (\<lambda>_. 0) (sample_bus 15 [] (\<lambda>_. 0)) (\<lambda>_. 0, None) = Some (0, d1) \<and>
    X_Progmode_Status (\<lambda>_. 0) (sample_bus 15 [] (\<lambda>_. 0)) d1 = Some (1, d2) \<and>
    odd_parity (fst d1 0x60) = odd_parity 0"
proof -
  have idle: "idle (\<lambda>_. 0, None)" by (simp add: idle_def)
  have limit: "(1 :: nat) \<le> 15" by simp
  from bspec [OF programming_mode_switches [OF sample_memory sample_writable limit idle, of "\<lambda>_. 0" "[]" "\<lambda>_. 0"],
      of "(X_Progmode_On, 1)"]
  show ?thesis by (simp only: prod.case insertI1 simp_thms fst_conv) blast
qed

text \<open>C34: a property scan lists what the device has. On a device with at most 255 interface objects of at
  most 255 properties each, none empty, the scan ends and returns every property of every object, in
  order, with the type of the object instead of the number of elements for the property that holds it.
\<close>

theorem property_scan_complete:
  assumes "property_device b ok objs otype" and "scannable objs" and "ok d"
  shows "\<exists>d'. ok d' \<and> X_PropertyScan junk b d = Some (Some (all_found otype objs 0), d')"
  using scan_objects [OF assms(1,2) _ assms(3), of 0 junk "[]"] by (simp add: X_PropertyScan_def)

lemma property_scan_complete_witness:
  "\<exists>d'. idle d' \<and> X_PropertyScan (\<lambda>_. 0) (sample_bus 15 [[(1, 4, 1, 0x30)], [(1, 4, 1, 0x30), (5, 6, 2, 0x31)]] (\<lambda>k. ucast k + 7)) (\<lambda>_. 0, None) =
     Some (Some (all_found (\<lambda>k. ucast k + 7) [[(1, 4, 1, 0x30)], [(1, 4, 1, 0x30), (5, 6, 2, 0x31)]] 0), d')"
  by (rule property_scan_complete [OF sample_properties]) (simp_all add: scannable_def idle_def)

text \<open>The index of a property is a byte: on a device that answers for every index the scan never ends.\<close>

lemma property_scan_never_ends:
  "endless_device b ok \<Longrightarrow> ok d \<Longrightarrow> X_PropertyScan junk b d = None"
  by (simp add: X_PropertyScan_def endless_scan)

text \<open>C35: an address is only written when it is safe to do so. If a request to write an individual
  address broadcasts anything but the question which devices are in programming mode, then it
  broadcasts that question and one write of the requested address, and before the write no device
  answered at that address and exactly one was in programming mode.
\<close>

theorem address_written_carefully:
  assumes "WriteIndividualAddress junk (logged b) m (d, []) = Some (rs, d', log)"
    and "\<exists>c \<in> set log. c \<noteq> address_read_packet"
  shows "log = [address_read_packet, address_write_packet (mk16 (m ! 2) (m ! 3))] \<and>
    (\<exists>d1 d2 d3 a. bc_open b d = (True, d1) \<and> address_in_use junk b (mk16 (m ! 2) (m ! 3)) d1 = Some (Some False, d2) \<and>
       A_IndividualAddress_Read junk b d2 = Some ([a], d3))"
  by (rule address_write_careful [OF assms])

lemma sample_address_write:
  "\<exists>d'. WriteIndividualAddress (\<lambda>_. 0) (logged (sample_bus 15 [] (\<lambda>_. 0))) (EIBSETTYPE EIB_M_INDIVIDUAL_ADDRESS_WRITE @ [0x11, 0x02])
     ((\<lambda>_. 0, None), []) = Some ([EIBSETTYPE EIB_PROCESSING_ERROR], d', [address_read_packet, address_write_packet 0x1102])"
proof -
  have desc: "APDU_fromPacket [0x03, 0x00] = A_DeviceDescriptor_Read_PDU 0"
    "APDU_fromPacket [0x01, 0x40] = A_IndividualAddress_Response_PDU"
    by (simp_all add: APDU_fromPacket_def APDU_select_short A_DeviceDescriptor_Read_init_def A_IndividualAddress_Response_init_def)
  show ?thesis
    by (simp add: WriteIndividualAddress_def logged_def sample_bus_def address_in_use_def A_Device_Descriptor_Read_def
        Request_Response_def A_DeviceDescriptor_Read_ToPacket_def answer_part_def sample_send_def desc EIBSETTYPE_def Let_def
        A_IndividualAddress_Read_def A_IndividualAddress_Read_ToPacket_def APDU_isResponse_def A_IndividualAddress_Response_isResponse_def
        assign_address_def A_IndividualAddress_Write_def A_IndividualAddress_Write_ToPacket_def address_read_packet_def
        address_write_packet_def mk16_def)
qed

lemma address_written_carefully_witness:
  "[address_read_packet, address_write_packet 0x1102] = [address_read_packet, address_write_packet 0x1102] \<and>
    (\<exists>d1 d2 d3 a. bc_open (sample_bus 15 [] (\<lambda>_. 0)) (\<lambda>_. 0, None) = (True, d1) \<and>
       address_in_use (\<lambda>_. 0) (sample_bus 15 [] (\<lambda>_. 0)) 0x1102 d1 = Some (Some False, d2) \<and>
       A_IndividualAddress_Read (\<lambda>_. 0) (sample_bus 15 [] (\<lambda>_. 0)) d2 = Some ([a], d3))"
proof -
  obtain d' where w: "WriteIndividualAddress (\<lambda>_. 0) (logged (sample_bus 15 [] (\<lambda>_. 0)))
      (EIBSETTYPE EIB_M_INDIVIDUAL_ADDRESS_WRITE @ [0x11, 0x02]) ((\<lambda>_. 0, None), []) =
        Some ([EIBSETTYPE EIB_PROCESSING_ERROR], d', [address_read_packet, address_write_packet 0x1102])"
    using sample_address_write by blast
  have m: "mk16 ((EIBSETTYPE EIB_M_INDIVIDUAL_ADDRESS_WRITE @ [0x11, 0x02]) ! 2) ((EIBSETTYPE EIB_M_INDIVIDUAL_ADDRESS_WRITE @ [0x11, 0x02]) ! 3) = 0x1102"
    by (simp add: EIBSETTYPE_def mk16_def)
  have "\<exists>c \<in> set [address_read_packet, address_write_packet 0x1102]. c \<noteq> address_read_packet"
    by (simp add: address_read_packet_def address_write_packet_def)
  from address_written_carefully [OF w this, unfolded m] show ?thesis .
qed

section \<open>From the client library to the device\<close>



lemma mc_types:
  "EIBTYPE (EIBSETTYPE t @ xs) = t"
  by (simp add: EIBTYPE_def EIBSETTYPE_def)





text \<open>
  The writer verifies with single reads of up to 12 bytes, although the reader goes down to 2 bytes for
  a device that answers no more: on such a device the first longer block ends the write.
\<close>

lemma write_needs_long_reads:
  assumes "memory_device b limit ok mem" "2 \<le> limit" "limit < 12" "ok d" "limit < length xs" "length xs < 2 ^ 16"
    and "\<forall>k \<le> limit. xs ! k \<noteq> mem d (addr + of_nat k)"
  shows "\<exists>d'. X_Memory_Write_Block junk junk' b addr xs d = Some (- 1, d')"
proof -
  define prev where "prev = cells (mem d) addr (length xs)"
  obtain d1 where r: "X_Memory_Read_Block junk b addr (length xs) d = Some (Some prev, d1)" "ok d1" "mem d1 = mem d"
    using device_read_block [OF assms(1,2,4), of "length xs" junk addr] assms(6) by (auto simp: prev_def)
  have ne: "cell junk xs k \<noteq> cell junk' prev k" if "k \<le> limit" for k
    using that assms(5,7) by (simp add: cell_def prev_def)
  have run: "j \<le> limit + 1 \<Longrightarrow> limit + 1 \<le> differing junk junk' xs prev 0 j" for j
  proof (induction "limit + 1 - j" arbitrary: j)
    case 0
    then show ?case using differing_ge [of j junk junk' xs prev 0] by simp
  next
    case (Suc n)
    have j: "j \<le> limit" "j < 12" "j < length xs" using Suc.hyps(2) assms(3,5) by auto
    have "limit + 1 \<le> differing junk junk' xs prev 0 (j + 1)" by (rule Suc.hyps(1)) (use Suc.hyps(2) j in auto)
    then show ?case using ne [OF j(1)] j by (subst differing.simps) simp
  qed
  define j where "j = differing junk junk' xs prev 0 0"
  have j: "limit + 1 \<le> j" "j \<le> 12" "j \<le> length xs"
    using run [of 0] differing_bounds [of 0 0 xs junk junk' prev] by (simp_all add: j_def)
  obtain d2 where "X_Memory_Write junk b (addr + of_nat 0) (take j (drop 0 xs)) d1 = Some (- 1, d2)"
    using device_unverified_write [OF assms(1) r(2), of "take j xs" junk addr] j by auto
  moreover have "xs \<noteq> []" using assms(5) by auto
  ultimately have "X_Memory_Write_Block_lp junk junk' b addr xs prev 0 0 d1 = Some (- 1, d2)"
    using write_lp_differing [OF _ ne [of 0] j_def, where addr = addr and b = b and d = d1] assms(5) by simp
  with r(1) show ?thesis by (simp add: X_Memory_Write_Block_def)
qed

text \<open>
  The answer to a property write has no value: the client library, which returns what follows the type, gives its caller
  an empty buffer, whatever the device has answered.
\<close>

lemma property_write_answers_nothing:
  assumes "EIBTYPE m = EIB_MC_PROP_WRITE" and "7 \<le> length m"
    and "A_Property_Write junk b (m ! 2) (m ! 3) (mk16 (m ! 4) (m ! 5)) (m ! 6) (drop 7 m) d = Some (Some v, d')"
  shows "ManagementConnection_message junk junk' b m d = Some ([EIBSETTYPE EIB_MC_PROP_WRITE], 0, d')"
    and "EIB_MC_PropertyWrite_complete maxlen
      \<lparr>ei_readlen = r, ei_buf = EIBSETTYPE EIB_MC_PROP_WRITE, ei_size = length (EIBSETTYPE EIB_MC_PROP_WRITE)\<rparr> out =
        Returned (out\<lparr>eo_ret := 0, eo_buf := []\<rparr>)"
proof -
  show "ManagementConnection_message junk junk' b m d = Some ([EIBSETTYPE EIB_MC_PROP_WRITE], 0, d')"
    using assms by (simp add: ManagementConnection_message_eq mc_answer_def property_write_answer_eq mc_types Let_def)
  show "EIB_MC_PropertyWrite_complete maxlen
      \<lparr>ei_readlen = r, ei_buf = EIBSETTYPE EIB_MC_PROP_WRITE, ei_size = length (EIBSETTYPE EIB_MC_PROP_WRITE)\<rparr> out =
        Returned (out\<lparr>eo_ret := 0, eo_buf := []\<rparr>)"
    by (simp add: EIB_MC_PropertyWrite_complete_def EIBC_CHECKRESULT_def EIBC_RETURN_BUF_def EIBTYPE_def EIBSETTYPE_def Let_def)
qed

end
