(* ===== verification/Image.thy ===== *)
theory Image
  imports Arrays Formats
begin

text \<open>
  The memory images of \<open>common/image.cpp\<close>: an image is a header and a sequence of streams; a stream has
  a length, a type and the members of one of 13 classes. The classes are the constructors of a
  datatype, their methods \<open>init\<close>, \<open>toArray\<close> and \<open>decode\<close> functions on the members. The names in a
  stream are C strings, here their bytes without the final 0. A method that fails an \<open>assert\<close> or
  leaves an array is \<open>None\<close>; \<open>Some None\<close> is the \<open>return false\<close> of an \<open>init\<close>.
\<close>

section \<open>Streams\<close>

text \<open>\<open>LoadControlType\<close> of \<open>loadctl.h\<close>.\<close>

abbreviation (input) L_CODE :: "16 word" where "L_CODE \<equiv> 1"

abbreviation (input) L_BCU1_SIZE :: "16 word" where "L_BCU1_SIZE \<equiv> 2"

abbreviation (input) L_BCU2_SIZE :: "16 word" where "L_BCU2_SIZE \<equiv> 3"

abbreviation (input) L_BCU_TYPE :: "16 word" where "L_BCU_TYPE \<equiv> 100"

abbreviation (input) L_BCU2_INIT :: "16 word" where "L_BCU2_INIT \<equiv> 101"

abbreviation (input) L_BCU2_KEY :: "16 word" where "L_BCU2_KEY \<equiv> 102"

abbreviation (input) L_STRING_PAR :: "16 word" where "L_STRING_PAR \<equiv> 500"

abbreviation (input) L_INT_PAR :: "16 word" where "L_INT_PAR \<equiv> 501"

abbreviation (input) L_FLOAT_PAR :: "16 word" where "L_FLOAT_PAR \<equiv> 502"

abbreviation (input) L_LIST_PAR :: "16 word" where "L_LIST_PAR \<equiv> 503"

abbreviation (input) L_GROUP_OBJECT :: "16 word" where "L_GROUP_OBJECT \<equiv> 504"

datatype STR_Type =
    S_Invalid | S_Unknown | S_BCUType | S_Code | S_StringParameter | S_IntParameter | S_FloatParameter
  | S_ListParameter | S_GroupObject | S_BCU1Size | S_BCU2Size | S_BCU2Start | S_BCU2Key

text \<open>The members of \<open>STR_BCU2Start\<close>.\<close>

record bcu2_start =
  bs_addrtab_start :: "16 word"
  bs_addrtab_size :: "16 word"
  bs_assoctab_start :: "16 word"
  bs_assoctab_size :: "16 word"
  bs_readonly_start :: "16 word"
  bs_readonly_end :: "16 word"
  bs_param_start :: "16 word"
  bs_param_end :: "16 word"
  bs_obj_ptr :: "16 word"
  bs_obj_count :: "16 word"
  bs_appcallback :: "16 word"
  bs_groupobj_ptr :: "16 word"
  bs_seg0 :: "16 word"
  bs_seg1 :: "16 word"
  bs_sphandler :: "16 word"
  bs_initaddr :: "16 word"
  bs_runaddr :: "16 word"
  bs_saveaddr :: "16 word"
  bs_eeprom_start :: "16 word"
  bs_eeprom_end :: "16 word"
  bs_poll_addr :: "16 word"
  bs_poll_slot :: uchar

datatype str_stream =
    STR_Invalid CArray
  | STR_Unknown "16 word" CArray
  | STR_BCUType "16 word"
  | STR_Code CArray
  | STR_StringParameter "16 word" "16 word" CArray
  | STR_IntParameter "16 word" uchar CArray
  | STR_FloatParameter "16 word" CArray
  | STR_ListParameter "16 word" CArray "CArray list"
  | STR_GroupObject uchar CArray
  | STR_BCU1Size "16 word" "16 word" "16 word" "16 word"
  | STR_BCU2Size "16 word" "16 word" "16 word" "16 word" "16 word" "16 word"
  | STR_BCU2Start bcu2_start
  | STR_BCU2Key eibkey_type "eibkey_type list"

primrec STR_getType :: "str_stream \<Rightarrow> STR_Type" where
  "STR_getType (STR_Invalid d) = S_Invalid"
| "STR_getType (STR_Unknown t d) = S_Unknown"
| "STR_getType (STR_BCUType t) = S_BCUType"
| "STR_getType (STR_Code c) = S_Code"
| "STR_getType (STR_StringParameter a l n) = S_StringParameter"
| "STR_getType (STR_IntParameter a t n) = S_IntParameter"
| "STR_getType (STR_FloatParameter a n) = S_FloatParameter"
| "STR_getType (STR_ListParameter a n es) = S_ListParameter"
| "STR_getType (STR_GroupObject k n) = S_GroupObject"
| "STR_getType (STR_BCU1Size t s d b) = S_BCU1Size"
| "STR_getType (STR_BCU2Size t s ld lb xd xb) = S_BCU2Size"
| "STR_getType (STR_BCU2Start b) = S_BCU2Start"
| "STR_getType (STR_BCU2Key k ks) = S_BCU2Key"

section \<open>Reading a stream\<close>

text \<open>\<open>while (*d) d++\<close>: the position of the next 0; \<open>None\<close> when the loop leaves the array.\<close>

function cstr_end :: "CArray \<Rightarrow> nat \<Rightarrow> nat option" where
  "cstr_end c d = (if d < length c then (if c ! d \<noteq> 0 then cstr_end c (d + 1) else Some d) else None)"
  by pat_completeness auto
termination by (relation "measure (\<lambda>(c, d). length c - d)") auto

declare cstr_end.simps [simp del]

text \<open>The name that begins at \<open>k\<close> and must end with the last byte of the stream.\<close>

definition last_name :: "CArray \<Rightarrow> nat \<Rightarrow> CArray option option" where
  "last_name c k =
     (if c ! (length c - 1) \<noteq> 0 then Some None
      else case cstr_end c k of None \<Rightarrow> None
           | Some d \<Rightarrow> if d \<noteq> length c - 1 then Some None else Some (Some (take (d - k) (drop k c))))"

definition STR_Invalid_init :: "CArray \<Rightarrow> str_stream option option" where
  "STR_Invalid_init c = Some (Some (STR_Invalid c))"

definition STR_Unknown_init :: "CArray \<Rightarrow> str_stream option option" where
  "STR_Unknown_init c = Some (Some (STR_Unknown (mk16 (c ! 2) (c ! 3)) (drop 4 c)))"

definition STR_BCUType_init :: "CArray \<Rightarrow> str_stream option option" where
  "STR_BCUType_init c =
     (if length c \<noteq> 6 then Some None else Some (Some (STR_BCUType (mk16 (c ! 4) (c ! 5)))))"

definition STR_Code_init :: "CArray \<Rightarrow> str_stream option option" where
  "STR_Code_init c = Some (Some (STR_Code (drop 4 c)))"

definition STR_StringParameter_init :: "CArray \<Rightarrow> str_stream option option" where
  "STR_StringParameter_init c =
     (if length c < 9 then Some None
      else map_option (map_option (STR_StringParameter (mk16 (c ! 4) (c ! 5)) (mk16 (c ! 6) (c ! 7)))) (last_name c 8))"

definition STR_IntParameter_init :: "CArray \<Rightarrow> str_stream option option" where
  "STR_IntParameter_init c =
     (if length c < 8 then Some None
      else map_option (map_option (STR_IntParameter (mk16 (c ! 4) (c ! 5)) (c ! 6))) (last_name c 7))"

definition STR_FloatParameter_init :: "CArray \<Rightarrow> str_stream option option" where
  "STR_FloatParameter_init c =
     (if length c < 7 then Some None
      else map_option (map_option (STR_FloatParameter (mk16 (c ! 4) (c ! 5)))) (last_name c 6))"

text \<open>The elements of a list parameter; \<open>d\<close> may be the position behind the stream, where \<open>*d\<close> reads.\<close>

fun list_elements :: "CArray \<Rightarrow> nat \<Rightarrow> nat \<Rightarrow> (CArray list \<times> nat) option option" where
  "list_elements c 0 d = Some (Some ([], d))"
| "list_elements c (Suc n) d =
     (case cstr_end c d of None \<Rightarrow> None
      | Some e \<Rightarrow>
          if e > length c - 1 then Some None
          else if e + 1 > length c then Some None
          else map_option (map_option (\<lambda>(es, d'). (take (e - d) (drop d c) # es, d'))) (list_elements c n (e + 1)))"

definition STR_ListParameter_init :: "CArray \<Rightarrow> str_stream option option" where
  "STR_ListParameter_init c =
     (if length c < 9 then Some None
      else if c ! (length c - 1) \<noteq> 0 then Some None
      else case cstr_end c 8 of None \<Rightarrow> None
           | Some d \<Rightarrow>
               if d > length c - 1 then Some None
               else if d + 1 > length c - 1 then Some None
               else (case list_elements c (unat (mk16 (c ! 6) (c ! 7))) (d + 1) of
                       None \<Rightarrow> None
                     | Some None \<Rightarrow> Some None
                     | Some (Some (es, e)) \<Rightarrow>
                         if e \<noteq> length c then Some None
                         else Some (Some (STR_ListParameter (mk16 (c ! 4) (c ! 5)) (take (d - 8) (drop 8 c)) es))))"

definition STR_GroupObject_init :: "CArray \<Rightarrow> str_stream option option" where
  "STR_GroupObject_init c =
     (if length c < 6 then Some None
      else map_option (map_option (STR_GroupObject (c ! 4))) (last_name c 5))"

definition STR_BCU1Size_init :: "CArray \<Rightarrow> str_stream option option" where
  "STR_BCU1Size_init c =
     (if length c \<noteq> 12 then Some None
      else Some (Some (STR_BCU1Size (mk16 (c ! 4) (c ! 5)) (mk16 (c ! 6) (c ! 7)) (mk16 (c ! 8) (c ! 9)) (mk16 (c ! 10) (c ! 11)))))"

definition STR_BCU2Size_init :: "CArray \<Rightarrow> str_stream option option" where
  "STR_BCU2Size_init c =
     (if length c \<noteq> 16 then Some None
      else Some (Some (STR_BCU2Size (mk16 (c ! 4) (c ! 5)) (mk16 (c ! 6) (c ! 7)) (mk16 (c ! 8) (c ! 9))
        (mk16 (c ! 10) (c ! 11)) (mk16 (c ! 12) (c ! 13)) (mk16 (c ! 14) (c ! 15)))))"

definition STR_BCU2Start_init :: "CArray \<Rightarrow> str_stream option option" where
  "STR_BCU2Start_init c =
     (if length c \<noteq> 47 then Some None
      else Some (Some (STR_BCU2Start
        \<lparr>bs_addrtab_start = mk16 (c ! 4) (c ! 5),
         bs_addrtab_size = mk16 (c ! 6) (c ! 7),
         bs_assoctab_start = mk16 (c ! 8) (c ! 9),
         bs_assoctab_size = mk16 (c ! 10) (c ! 11),
         bs_readonly_start = mk16 (c ! 12) (c ! 13),
         bs_readonly_end = mk16 (c ! 14) (c ! 15),
         bs_param_start = mk16 (c ! 16) (c ! 17),
         bs_param_end = mk16 (c ! 18) (c ! 19),
         bs_obj_ptr = mk16 (c ! 20) (c ! 21),
         bs_obj_count = mk16 (c ! 22) (c ! 23),
         bs_appcallback = mk16 (c ! 24) (c ! 25),
         bs_groupobj_ptr = mk16 (c ! 26) (c ! 27),
         bs_seg0 = mk16 (c ! 28) (c ! 29),
         bs_seg1 = mk16 (c ! 30) (c ! 31),
         bs_sphandler = mk16 (c ! 32) (c ! 33),
         bs_initaddr = mk16 (c ! 34) (c ! 35),
         bs_runaddr = mk16 (c ! 36) (c ! 37),
         bs_saveaddr = mk16 (c ! 38) (c ! 39),
         bs_eeprom_start = mk16 (c ! 40) (c ! 41),
         bs_eeprom_end = mk16 (c ! 42) (c ! 43),
         bs_poll_addr = mk16 (c ! 44) (c ! 45),
         bs_poll_slot = c ! 46\<rparr>)))"

text \<open>\<open>for (i = 8; i < c (); i += 4) keys.add (...)\<close>\<close>

fun read_keys :: "CArray \<Rightarrow> eibkey_type list" where
  "read_keys (a # b # c # d # xs) = mk32 a b c d # read_keys xs"
| "read_keys xs = []"

definition STR_BCU2Key_init :: "CArray \<Rightarrow> str_stream option option" where
  "STR_BCU2Key_init c =
     (if length c mod 4 \<noteq> 0 then Some None
      else if length c < 8 then Some None
      else Some (Some (STR_BCU2Key (mk32 (c ! 4) (c ! 5) (c ! 6) (c ! 7)) (read_keys (drop 8 c)))))"

definition STR_select :: "16 word \<Rightarrow> CArray \<Rightarrow> str_stream option option" where
  "STR_select t =
     (if t = L_STRING_PAR then STR_StringParameter_init
      else if t = L_INT_PAR then STR_IntParameter_init
      else if t = L_FLOAT_PAR then STR_FloatParameter_init
      else if t = L_LIST_PAR then STR_ListParameter_init
      else if t = L_GROUP_OBJECT then STR_GroupObject_init
      else if t = L_BCU_TYPE then STR_BCUType_init
      else if t = L_BCU2_INIT then STR_BCU2Start_init
      else if t = L_CODE then STR_Code_init
      else if t = L_BCU1_SIZE then STR_BCU1Size_init
      else if t = L_BCU2_SIZE then STR_BCU2Size_init
      else if t = L_BCU2_KEY then STR_BCU2Key_init
      else STR_Unknown_init)"

definition STR_Stream_fromArray :: "CArray \<Rightarrow> str_stream option" where
  "STR_Stream_fromArray c =
     (if \<not> length c \<ge> 4 then None
      else if \<not> unat (mk16 (c ! 0) (c ! 1)) + 2 = length c then None
      else case STR_select (mk16 (c ! 2) (c ! 3)) c of
             None \<Rightarrow> None
           | Some (Some i) \<Rightarrow> Some i
           | Some None \<Rightarrow> Option.bind (STR_Invalid_init c) id)"

section \<open>Writing a stream\<close>

text \<open>
  \<open>d.resize (2 + len)\<close>, the bytes of \<open>len\<close>, and then the bytes \<open>hdr\<close>; \<open>len\<close> is a 16 bit number and may
  have wrapped.
\<close>

definition put_header :: "uchar memory \<Rightarrow> 16 word \<Rightarrow> CArray \<Rightarrow> CArray option" where
  "put_header junk len hdr =
     (if 2 + unat len < 2 + length hdr then None
      else Some ([hi8 len, lo8 len] @ hdr @ map junk [2 + length hdr..<2 + unat len]))"

text \<open>The same, followed by \<open>d.setpart (xs, 2 + length hdr)\<close>.\<close>

definition put_stream :: "uchar memory \<Rightarrow> 16 word \<Rightarrow> CArray \<Rightarrow> CArray \<Rightarrow> CArray option" where
  "put_stream junk len hdr xs =
     (case put_header junk len hdr of None \<Rightarrow> None
      | Some d \<Rightarrow> Array_setpart junk xs (of_nat (2 + length hdr)) (of_nat (length xs)) d)"

definition two :: "16 word \<Rightarrow> CArray" where
  "two x = [hi8 x, lo8 x]"

definition STR_Invalid_toArray :: "CArray \<Rightarrow> CArray option" where
  "STR_Invalid_toArray d = Some d"

definition STR_Unknown_toArray :: "uchar memory \<Rightarrow> 16 word \<Rightarrow> CArray \<Rightarrow> CArray option" where
  "STR_Unknown_toArray junk t d = put_stream junk (of_nat (2 + length d)) (two t) d"

definition STR_BCUType_toArray :: "uchar memory \<Rightarrow> 16 word \<Rightarrow> CArray option" where
  "STR_BCUType_toArray junk t = put_header junk 4 (two L_BCU_TYPE @ two t)"

definition STR_Code_toArray :: "uchar memory \<Rightarrow> CArray \<Rightarrow> CArray option" where
  "STR_Code_toArray junk d = put_stream junk (of_nat (2 + length d)) (two L_CODE) d"

definition STR_StringParameter_toArray :: "uchar memory \<Rightarrow> 16 word \<Rightarrow> 16 word \<Rightarrow> CArray \<Rightarrow> CArray option" where
  "STR_StringParameter_toArray junk addr len name =
     put_stream junk (of_nat (7 + length name)) (two L_STRING_PAR @ two addr @ two len) (name @ [0])"

definition STR_IntParameter_toArray :: "uchar memory \<Rightarrow> 16 word \<Rightarrow> uchar \<Rightarrow> CArray \<Rightarrow> CArray option" where
  "STR_IntParameter_toArray junk addr t name =
     put_stream junk (of_nat (6 + length name)) (two L_INT_PAR @ two addr @ [t]) (name @ [0])"

definition STR_FloatParameter_toArray :: "uchar memory \<Rightarrow> 16 word \<Rightarrow> CArray \<Rightarrow> CArray option" where
  "STR_FloatParameter_toArray junk addr name =
     put_stream junk (of_nat (5 + length name)) (two L_FLOAT_PAR @ two addr) (name @ [0])"

text \<open>The loop over the elements; the position \<open>p\<close> is a 16 bit number.\<close>

fun put_elements :: "uchar memory \<Rightarrow> 16 word \<Rightarrow> CArray list \<Rightarrow> CArray \<Rightarrow> CArray option" where
  "put_elements junk p [] d = Some d"
| "put_elements junk p (e # es) d =
     (case Array_setpart junk (e @ [0]) (ucast p) (of_nat (length e + 1)) d of None \<Rightarrow> None
      | Some d' \<Rightarrow> put_elements junk (p + of_nat (length e + 1)) es d')"

definition STR_ListParameter_toArray :: "uchar memory \<Rightarrow> 16 word \<Rightarrow> CArray \<Rightarrow> CArray list \<Rightarrow> CArray option" where
  "STR_ListParameter_toArray junk addr name elements =
     (case put_stream junk (of_nat (7 + length name + sum_list (map (\<lambda>e. length e + 1) elements)))
             (two L_LIST_PAR @ two addr @ two (of_nat (length elements))) (name @ [0]) of
        None \<Rightarrow> None
      | Some d \<Rightarrow> put_elements junk (of_nat (8 + length name + 1)) elements d)"

definition STR_GroupObject_toArray :: "uchar memory \<Rightarrow> uchar \<Rightarrow> CArray \<Rightarrow> CArray option" where
  "STR_GroupObject_toArray junk k name =
     put_stream junk (of_nat (4 + length name)) (two L_GROUP_OBJECT @ [k]) (name @ [0])"

definition STR_BCU1Size_toArray :: "uchar memory \<Rightarrow> 16 word \<Rightarrow> 16 word \<Rightarrow> 16 word \<Rightarrow> 16 word \<Rightarrow> CArray option" where
  "STR_BCU1Size_toArray junk textsize stacksize datasize bsssize =
     put_header junk 10 (two L_BCU1_SIZE @ two textsize @ two stacksize @ two datasize @ two bsssize)"

definition STR_BCU2Size_toArray ::
    "uchar memory \<Rightarrow> 16 word \<Rightarrow> 16 word \<Rightarrow> 16 word \<Rightarrow> 16 word \<Rightarrow> 16 word \<Rightarrow> 16 word \<Rightarrow> CArray option" where
  "STR_BCU2Size_toArray junk textsize stacksize lo_datasize lo_bsssize hi_datasize hi_bsssize =
     put_header junk 14 (two L_BCU2_SIZE @ two textsize @ two stacksize @ two lo_datasize @ two lo_bsssize @
       two hi_datasize @ two hi_bsssize)"

definition STR_BCU2Start_toArray :: "uchar memory \<Rightarrow> bcu2_start \<Rightarrow> CArray option" where
  "STR_BCU2Start_toArray junk b =
     put_header junk 45 (two L_BCU2_INIT @ two (bs_addrtab_start b) @
       two (bs_addrtab_size b) @
       two (bs_assoctab_start b) @
       two (bs_assoctab_size b) @
       two (bs_readonly_start b) @
       two (bs_readonly_end b) @
       two (bs_param_start b) @
       two (bs_param_end b) @
       two (bs_obj_ptr b) @
       two (bs_obj_count b) @
       two (bs_appcallback b) @
       two (bs_groupobj_ptr b) @
       two (bs_seg0 b) @
       two (bs_seg1 b) @
       two (bs_sphandler b) @
       two (bs_initaddr b) @
       two (bs_runaddr b) @
       two (bs_saveaddr b) @
       two (bs_eeprom_start b) @
       two (bs_eeprom_end b) @
       two (bs_poll_addr b) @ [bs_poll_slot b])"

definition key_bytes :: "eibkey_type \<Rightarrow> CArray" where
  "key_bytes k = [byte32 24 k, byte32 16 k, byte32 8 k, byte32 0 k]"

definition STR_BCU2Key_toArray :: "uchar memory \<Rightarrow> eibkey_type \<Rightarrow> eibkey_type list \<Rightarrow> CArray option" where
  "STR_BCU2Key_toArray junk installkey keys =
     put_header junk (of_nat (length keys * 4 + 4 + 2)) (two L_BCU2_KEY @ key_bytes installkey @ concat (map key_bytes keys))"

primrec STR_toArray :: "uchar memory \<Rightarrow> str_stream \<Rightarrow> CArray option" where
  "STR_toArray junk (STR_Invalid d) = STR_Invalid_toArray d"
| "STR_toArray junk (STR_Unknown t d) = STR_Unknown_toArray junk t d"
| "STR_toArray junk (STR_BCUType t) = STR_BCUType_toArray junk t"
| "STR_toArray junk (STR_Code c) = STR_Code_toArray junk c"
| "STR_toArray junk (STR_StringParameter a l n) = STR_StringParameter_toArray junk a l n"
| "STR_toArray junk (STR_IntParameter a t n) = STR_IntParameter_toArray junk a t n"
| "STR_toArray junk (STR_FloatParameter a n) = STR_FloatParameter_toArray junk a n"
| "STR_toArray junk (STR_ListParameter a n es) = STR_ListParameter_toArray junk a n es"
| "STR_toArray junk (STR_GroupObject k n) = STR_GroupObject_toArray junk k n"
| "STR_toArray junk (STR_BCU1Size t s d b) = STR_BCU1Size_toArray junk t s d b"
| "STR_toArray junk (STR_BCU2Size t s ld lb xd xb) = STR_BCU2Size_toArray junk t s ld lb xd xb"
| "STR_toArray junk (STR_BCU2Start b) = STR_BCU2Start_toArray junk b"
| "STR_toArray junk (STR_BCU2Key k ks) = STR_BCU2Key_toArray junk k ks"

section \<open>Images\<close>

type_synonym image = "str_stream list"

text \<open>\<open>data.setpart (str[i]->toArray (), data ())\<close> for each stream.\<close>

fun put_streams :: "uchar memory \<Rightarrow> str_stream list \<Rightarrow> CArray \<Rightarrow> CArray option" where
  "put_streams junk [] d = Some d"
| "put_streams junk (s # ss) d =
     (case STR_toArray junk s of None \<Rightarrow> None
      | Some x \<Rightarrow>
          (case Array_setpart junk x (of_nat (length d)) (of_nat (length x)) d of None \<Rightarrow> None
           | Some d' \<Rightarrow> put_streams junk ss d'))"

definition Image_magic :: CArray where
  "Image_magic = [0xbc, 0x68, 0x0c, 0x05, 0xbc, 0x68, 0x0c, 0x05]"

definition Image_toArray :: "uchar memory \<Rightarrow> image \<Rightarrow> CArray option" where
  "Image_toArray junk i =
     map_option (\<lambda>d. d[8 := hi8 (of_nat (length d)), 9 := lo8 (of_nat (length d))])
       (put_streams junk i (Image_magic @ map junk [8..<10]))"

definition Image_findStreamNumber :: "STR_Type \<Rightarrow> image \<Rightarrow> int" where
  "Image_findStreamNumber t i =
     (case List.find (\<lambda>k. STR_getType (i ! k) = t) [0..<length i] of None \<Rightarrow> - 1 | Some k \<Rightarrow> int k)"

definition Image_findStream :: "STR_Type \<Rightarrow> image \<Rightarrow> str_stream option" where
  "Image_findStream t i =
     (let k = Image_findStreamNumber t i in if k = - 1 then None else Some (i ! nat k))"

text \<open>
  The loop of \<open>fromArray\<close>: \<open>Some None\<close> is \<open>return 0\<close>. The position is a 16 bit number; for an array of
  more than \<open>2^16\<close> bytes it can wrap, and the loop need not end: then the result is \<open>None\<close>.
\<close>

partial_function (option) Image_fromArray_lp :: "CArray \<Rightarrow> 16 word \<Rightarrow> image \<Rightarrow> image option option" where
  "Image_fromArray_lp c pos i =
     (if unat pos < length c then
        if unat pos + 4 \<ge> length c then Some None
        else let len = mk16 (c ! unat pos) (c ! (unat pos + 1))
             in if unat pos + 2 + unat len > length c \<or> unat len < 2 then Some None
                else Option.bind (STR_Stream_fromArray (take (unat len + 2) (drop (unat pos) c)))
                       (\<lambda>s. Image_fromArray_lp c (pos + (2 + len)) (i @ [s]))
      else Some (Some i))"

definition Image_fromArray :: "CArray \<Rightarrow> image option option" where
  "Image_fromArray c =
     (if length c < 10 then Some None
      else if take 8 c \<noteq> Image_magic then Some None
      else if c ! 8 \<noteq> hi8 (of_nat (length c)) then Some None
      else if c ! 9 \<noteq> lo8 (of_nat (length c)) then Some None
      else Image_fromArray_lp c 10 [])"

definition Image_isValid :: "image \<Rightarrow> bool" where
  "Image_isValid i \<longleftrightarrow> Image_findStreamNumber S_Invalid i = - 1"

section \<open>Decoding to text\<close>

text \<open>\<open>sprintf (buf, ...)\<close> into a buffer of \<open>n\<close> characters; \<open>None\<close> when the text does not fit.\<close>

definition sprintf_buf :: "nat \<Rightarrow> string \<Rightarrow> string option" where
  "sprintf_buf n s = (if length s < n then Some s else None)"

definition lower_digit :: "nat \<Rightarrow> char" where
  "lower_digit n = (if n < 10 then char_of (48 + n) else char_of (87 + n))"

text \<open>\<open>%x\<close> and \<open>%X\<close>, given the digits; \<open>hex_pad\<close> is \<open>%0nx\<close>.\<close>

fun hex_str :: "(nat \<Rightarrow> char) \<Rightarrow> nat \<Rightarrow> string" where
  "hex_str dig v = (if v < 16 then [dig v] else hex_str dig (v div 16) @ [dig (v mod 16)])"

declare hex_str.simps [simp del]

definition hex_pad :: "(nat \<Rightarrow> char) \<Rightarrow> nat \<Rightarrow> nat \<Rightarrow> string" where
  "hex_pad dig n v = replicate (n - length (hex_str dig v)) (dig 0) @ hex_str dig v"

definition low4 :: "16 word \<Rightarrow> string" where
  "low4 x = hex_pad lower_digit 4 (unat x)"

definition up4 :: "16 word \<Rightarrow> string" where
  "up4 x = hex_pad hex_digit 4 (unat x)"

definition up8 :: "32 word \<Rightarrow> string" where
  "up8 x = hex_pad hex_digit 8 (unat x)"

definition dec16 :: "16 word \<Rightarrow> string" where
  "dec16 x = dec_str (unat x)"

definition newline :: string where
  "newline = [CHR 0x0A]"

text \<open>The characters of a C string.\<close>

definition c_str :: "CArray \<Rightarrow> string" where
  "c_str bs = map (\<lambda>b. char_of (unat b)) bs"

text \<open>The loop of \<open>HexDump\<close> from index \<open>i\<close>.\<close>

fun HexDump_from :: "nat \<Rightarrow> CArray \<Rightarrow> string" where
  "HexDump_from i [] = []"
| "HexDump_from i (b # bs) =
     hex_pad lower_digit 2 (unat b) @ '' '' @
     (if i mod 16 = 15 then newline @ hex_pad hex_digit 4 (i + 1) @ '' '' else []) @ HexDump_from (i + 1) bs"

definition HexDump :: "CArray \<Rightarrow> string" where
  "HexDump d = hex_pad hex_digit 4 0 @ '' '' @ HexDump_from 0 d @ newline"

definition STR_Invalid_decode :: "CArray \<Rightarrow> string option" where
  "STR_Invalid_decode d = map_option (\<lambda>s. s @ HexDump d) (sprintf_buf 200 (''Invalid:'' @ newline))"

definition STR_Unknown_decode :: "16 word \<Rightarrow> CArray \<Rightarrow> string option" where
  "STR_Unknown_decode t d = map_option (\<lambda>s. s @ HexDump d) (sprintf_buf 200 (''Unknown '' @ low4 t @ '':'' @ newline))"

definition STR_BCUType_decode :: "16 word \<Rightarrow> string option" where
  "STR_BCUType_decode t = sprintf_buf 200 (''Maskversion: '' @ low4 t @ newline)"

definition STR_Code_decode :: "CArray \<Rightarrow> string option" where
  "STR_Code_decode c = map_option (\<lambda>s. s @ HexDump c) (sprintf_buf 200 (''Code:'' @ newline))"

definition STR_StringParameter_decode :: "16 word \<Rightarrow> 16 word \<Rightarrow> CArray \<Rightarrow> string option" where
  "STR_StringParameter_decode addr len name =
     sprintf_buf 200 (''StringParameter: addr='' @ low4 addr @ '' id='' @ c_str name @ '' length='' @ dec16 len @ newline)"

text \<open>\<open>1 << (abs (type) - 1)\<close> in an \<open>int\<close>; \<open>None\<close> when the shift is undefined.\<close>

definition int_width :: "uchar \<Rightarrow> nat option" where
  "int_width t = (let a = nat \<bar>sint t\<bar> in if a = 0 \<or> a > 31 then None else Some (2 ^ (a - 1)))"

definition STR_IntParameter_decode :: "16 word \<Rightarrow> uchar \<Rightarrow> CArray \<Rightarrow> string option" where
  "STR_IntParameter_decode addr t name =
     Option.bind (int_width t) (\<lambda>w.
       sprintf_buf 200 (''IntParameter: addr='' @ low4 addr @ '' id='' @ c_str name @ '' type='' @
         (if sint t < 0 then ''signed'' else ''unsigned'') @ '' '' @ dec_str w @ '' bytes'' @ newline))"

definition STR_FloatParameter_decode :: "16 word \<Rightarrow> CArray \<Rightarrow> string option" where
  "STR_FloatParameter_decode addr name =
     sprintf_buf 200 (''FloatParameter: addr='' @ low4 addr @ '' id='' @ c_str name @ newline)"

fun decode_elements :: "CArray list \<Rightarrow> string option" where
  "decode_elements [] = Some []"
| "decode_elements (e # es) =
     Option.bind (sprintf_buf 200 (c_str e @ '','')) (\<lambda>s. map_option ((@) s) (decode_elements es))"

definition STR_ListParameter_decode :: "16 word \<Rightarrow> CArray \<Rightarrow> CArray list \<Rightarrow> string option" where
  "STR_ListParameter_decode addr name elements =
     Option.bind (sprintf_buf 200 (''ListParameter: addr='' @ low4 addr @ '' id='' @ c_str name @ '' elements=''))
       (\<lambda>s. map_option (\<lambda>es. s @ es @ newline) (decode_elements elements))"

definition STR_GroupObject_decode :: "uchar \<Rightarrow> CArray \<Rightarrow> string option" where
  "STR_GroupObject_decode k name =
     sprintf_buf 200 (''GROUP_OBJECT '' @ dec_str (unat k) @ '': id='' @ c_str name @ newline)"

definition STR_BCU1Size_decode :: "16 word \<Rightarrow> 16 word \<Rightarrow> 16 word \<Rightarrow> 16 word \<Rightarrow> string option" where
  "STR_BCU1Size_decode textsize stacksize datasize bsssize =
     sprintf_buf 200 (''BCU1_SIZE: text:'' @ dec16 textsize @ '' stack:'' @ dec16 stacksize @
       '' data:'' @ dec16 datasize @ '' bss:'' @ dec16 bsssize @ newline)"

definition STR_BCU2Size_decode ::
    "16 word \<Rightarrow> 16 word \<Rightarrow> 16 word \<Rightarrow> 16 word \<Rightarrow> 16 word \<Rightarrow> 16 word \<Rightarrow> string option" where
  "STR_BCU2Size_decode textsize stacksize lo_datasize lo_bsssize hi_datasize hi_bsssize =
     sprintf_buf 200 (''BCU2_SIZE: text:'' @ dec16 textsize @ '' stack:'' @ dec16 stacksize @
       '' lo_data:'' @ dec16 lo_datasize @ '' lo_bss:'' @ dec16 lo_bsssize @
       '' hi_data:'' @ dec16 hi_datasize @ '' hi_bss:'' @ dec16 hi_bsssize @ newline)"

definition STR_BCU2Start_decode :: "bcu2_start \<Rightarrow> string option" where
  "STR_BCU2Start_decode b =
     sprintf_buf 600 (''BCU2_INIT: init:'' @ up4 (bs_initaddr b) @ '' run:'' @ up4 (bs_runaddr b) @
       '' save:'' @ up4 (bs_saveaddr b) @ '' addr_tab:'' @ up4 (bs_addrtab_start b) @
       ''('' @ dec16 (bs_addrtab_size b) @ '') assoc_tab:'' @ up4 (bs_assoctab_start b) @
       ''('' @ dec16 (bs_assoctab_size b) @ '') text:'' @ up4 (bs_readonly_start b) @ ''-'' @ up4 (bs_readonly_end b) @ newline @
       '' param:'' @ up4 (bs_param_start b) @ ''-'' @ up4 (bs_param_end b) @ '' obj:'' @ up4 (bs_obj_ptr b) @
       ''('' @ dec16 (bs_obj_count b) @ '') appcallback:'' @ up4 (bs_appcallback b) @ newline @
       '' groupobj:'' @ up4 (bs_groupobj_ptr b) @ '' seg0:'' @ up4 (bs_seg0 b) @ '' seg1:'' @ up4 (bs_seg1 b) @
       '' sphandler:'' @ up4 (bs_sphandler b) @ '' eeprom:'' @ up4 (bs_eeprom_start b) @ ''-'' @ up4 (bs_eeprom_end b) @
       '' poll_addr:'' @ up4 (bs_poll_addr b) @ '' poll_slot:'' @ dec_str (unat (bs_poll_slot b)) @ newline)"

fun decode_keys :: "nat \<Rightarrow> eibkey_type list \<Rightarrow> string option" where
  "decode_keys i [] = Some []"
| "decode_keys i (k # ks) =
     Option.bind (sprintf_buf 200 (''level'' @ dec_str i @ '': '' @ up8 k @ '' ''))
       (\<lambda>s. map_option ((@) s) (decode_keys (i + 1) ks))"

definition STR_BCU2Key_decode :: "eibkey_type \<Rightarrow> eibkey_type list \<Rightarrow> string option" where
  "STR_BCU2Key_decode installkey keys =
     Option.bind (sprintf_buf 200 (''BCU2_KEY: install:'' @ up8 installkey @ '' ''))
       (\<lambda>s. map_option ((@) s) (decode_keys 0 keys))"

primrec STR_decode :: "str_stream \<Rightarrow> string option" where
  "STR_decode (STR_Invalid d) = STR_Invalid_decode d"
| "STR_decode (STR_Unknown t d) = STR_Unknown_decode t d"
| "STR_decode (STR_BCUType t) = STR_BCUType_decode t"
| "STR_decode (STR_Code c) = STR_Code_decode c"
| "STR_decode (STR_StringParameter a l n) = STR_StringParameter_decode a l n"
| "STR_decode (STR_IntParameter a t n) = STR_IntParameter_decode a t n"
| "STR_decode (STR_FloatParameter a n) = STR_FloatParameter_decode a n"
| "STR_decode (STR_ListParameter a n es) = STR_ListParameter_decode a n es"
| "STR_decode (STR_GroupObject k n) = STR_GroupObject_decode k n"
| "STR_decode (STR_BCU1Size t s d b) = STR_BCU1Size_decode t s d b"
| "STR_decode (STR_BCU2Size t s ld lb xd xb) = STR_BCU2Size_decode t s ld lb xd xb"
| "STR_decode (STR_BCU2Start b) = STR_BCU2Start_decode b"
| "STR_decode (STR_BCU2Key k ks) = STR_BCU2Key_decode k ks"

fun decode_streams :: "str_stream list \<Rightarrow> string option" where
  "decode_streams [] = Some []"
| "decode_streams (s # ss) = Option.bind (STR_decode s) (\<lambda>x. map_option ((@) x) (decode_streams ss))"

definition Image_decode :: "image \<Rightarrow> string option" where
  "Image_decode i = map_option ((@) (''BCU Memory Image'' @ newline)) (decode_streams i)"

end
