(* ===== verification/Loading.thy ===== *)
theory Loading
  imports Image Management
begin

text \<open>
  Loading a memory image into a device: \<open>PrepareLoadImage\<close> of \<open>common/loadimage.cpp\<close> checks an image and
  plans the load, \<open>LoadImage\<close> of \<open>eibd/libserver/managementclient.cpp\<close> executes the plan on the device.
  \<open>None\<close> is an access outside an array, or an image whose parsing does not end.
\<close>

section \<open>Results\<close>

text \<open>\<open>common/eibloadresult.h\<close>.\<close>

type_synonym BCU_LOAD_RESULT = int

abbreviation (input) IMG_UNKNOWN_ERROR :: BCU_LOAD_RESULT where "IMG_UNKNOWN_ERROR \<equiv> 0"

abbreviation (input) IMG_UNRECOG_FORMAT :: BCU_LOAD_RESULT where "IMG_UNRECOG_FORMAT \<equiv> 1"

abbreviation (input) IMG_INVALID_FORMAT :: BCU_LOAD_RESULT where "IMG_INVALID_FORMAT \<equiv> 2"

abbreviation (input) IMG_NO_BCUTYPE :: BCU_LOAD_RESULT where "IMG_NO_BCUTYPE \<equiv> 3"

abbreviation (input) IMG_UNKNOWN_BCUTYPE :: BCU_LOAD_RESULT where "IMG_UNKNOWN_BCUTYPE \<equiv> 4"

abbreviation (input) IMG_NO_CODE :: BCU_LOAD_RESULT where "IMG_NO_CODE \<equiv> 5"

abbreviation (input) IMG_NO_SIZE :: BCU_LOAD_RESULT where "IMG_NO_SIZE \<equiv> 6"

abbreviation (input) IMG_LODATA_OVERFLOW :: BCU_LOAD_RESULT where "IMG_LODATA_OVERFLOW \<equiv> 7"

abbreviation (input) IMG_HIDATA_OVERFLOW :: BCU_LOAD_RESULT where "IMG_HIDATA_OVERFLOW \<equiv> 8"

abbreviation (input) IMG_TEXT_OVERFLOW :: BCU_LOAD_RESULT where "IMG_TEXT_OVERFLOW \<equiv> 9"

abbreviation (input) IMG_NO_ADDRESS :: BCU_LOAD_RESULT where "IMG_NO_ADDRESS \<equiv> 10"

abbreviation (input) IMG_WRONG_SIZE :: BCU_LOAD_RESULT where "IMG_WRONG_SIZE \<equiv> 11"

abbreviation (input) IMG_IMAGE_LOADABLE :: BCU_LOAD_RESULT where "IMG_IMAGE_LOADABLE \<equiv> 12"

abbreviation (input) IMG_NO_DEVICE_CONNECTION :: BCU_LOAD_RESULT where "IMG_NO_DEVICE_CONNECTION \<equiv> 13"

abbreviation (input) IMG_MASK_READ_FAILED :: BCU_LOAD_RESULT where "IMG_MASK_READ_FAILED \<equiv> 14"

abbreviation (input) IMG_WRONG_MASK_VERSION :: BCU_LOAD_RESULT where "IMG_WRONG_MASK_VERSION \<equiv> 15"

abbreviation (input) IMG_CLEAR_ERROR :: BCU_LOAD_RESULT where "IMG_CLEAR_ERROR \<equiv> 16"

abbreviation (input) IMG_RESET_ADDR_TAB :: BCU_LOAD_RESULT where "IMG_RESET_ADDR_TAB \<equiv> 17"

abbreviation (input) IMG_LOAD_HEADER :: BCU_LOAD_RESULT where "IMG_LOAD_HEADER \<equiv> 18"

abbreviation (input) IMG_LOAD_MAIN :: BCU_LOAD_RESULT where "IMG_LOAD_MAIN \<equiv> 19"

abbreviation (input) IMG_ZERO_RAM :: BCU_LOAD_RESULT where "IMG_ZERO_RAM \<equiv> 20"

abbreviation (input) IMG_FINALIZE_ADDR_TAB :: BCU_LOAD_RESULT where "IMG_FINALIZE_ADDR_TAB \<equiv> 21"

abbreviation (input) IMG_PREPARE_RUN :: BCU_LOAD_RESULT where "IMG_PREPARE_RUN \<equiv> 22"

abbreviation (input) IMG_RESTART :: BCU_LOAD_RESULT where "IMG_RESTART \<equiv> 23"

abbreviation (input) IMG_LOADED :: BCU_LOAD_RESULT where "IMG_LOADED \<equiv> 24"

abbreviation (input) IMG_NO_START :: BCU_LOAD_RESULT where "IMG_NO_START \<equiv> 25"

abbreviation (input) IMG_WRONG_ADDRTAB :: BCU_LOAD_RESULT where "IMG_WRONG_ADDRTAB \<equiv> 26"

abbreviation (input) IMG_ADDRTAB_OVERFLOW :: BCU_LOAD_RESULT where "IMG_ADDRTAB_OVERFLOW \<equiv> 27"

abbreviation (input) IMG_OVERLAP_ASSOCTAB :: BCU_LOAD_RESULT where "IMG_OVERLAP_ASSOCTAB \<equiv> 28"

abbreviation (input) IMG_OVERLAP_TEXT :: BCU_LOAD_RESULT where "IMG_OVERLAP_TEXT \<equiv> 29"

abbreviation (input) IMG_NEGATIV_TEXT_SIZE :: BCU_LOAD_RESULT where "IMG_NEGATIV_TEXT_SIZE \<equiv> 30"

abbreviation (input) IMG_OVERLAP_PARAM :: BCU_LOAD_RESULT where "IMG_OVERLAP_PARAM \<equiv> 31"

abbreviation (input) IMG_OVERLAP_EEPROM :: BCU_LOAD_RESULT where "IMG_OVERLAP_EEPROM \<equiv> 32"

abbreviation (input) IMG_OBJTAB_OVERFLOW :: BCU_LOAD_RESULT where "IMG_OBJTAB_OVERFLOW \<equiv> 33"

abbreviation (input) IMG_WRONG_LOADCTL :: BCU_LOAD_RESULT where "IMG_WRONG_LOADCTL \<equiv> 34"

abbreviation (input) IMG_UNLOAD_ADDR :: BCU_LOAD_RESULT where "IMG_UNLOAD_ADDR \<equiv> 35"

abbreviation (input) IMG_UNLOAD_ASSOC :: BCU_LOAD_RESULT where "IMG_UNLOAD_ASSOC \<equiv> 36"

abbreviation (input) IMG_UNLOAD_PROG :: BCU_LOAD_RESULT where "IMG_UNLOAD_PROG \<equiv> 37"

abbreviation (input) IMG_LOAD_ADDR :: BCU_LOAD_RESULT where "IMG_LOAD_ADDR \<equiv> 38"

abbreviation (input) IMG_WRITE_ADDR :: BCU_LOAD_RESULT where "IMG_WRITE_ADDR \<equiv> 39"

abbreviation (input) IMG_SET_ADDR :: BCU_LOAD_RESULT where "IMG_SET_ADDR \<equiv> 40"

abbreviation (input) IMG_FINISH_ADDR :: BCU_LOAD_RESULT where "IMG_FINISH_ADDR \<equiv> 41"

abbreviation (input) IMG_LOAD_ASSOC :: BCU_LOAD_RESULT where "IMG_LOAD_ASSOC \<equiv> 42"

abbreviation (input) IMG_WRITE_ASSOC :: BCU_LOAD_RESULT where "IMG_WRITE_ASSOC \<equiv> 43"

abbreviation (input) IMG_SET_ASSOC :: BCU_LOAD_RESULT where "IMG_SET_ASSOC \<equiv> 44"

abbreviation (input) IMG_FINISH_ASSOC :: BCU_LOAD_RESULT where "IMG_FINISH_ASSOC \<equiv> 45"

abbreviation (input) IMG_LOAD_PROG :: BCU_LOAD_RESULT where "IMG_LOAD_PROG \<equiv> 46"

abbreviation (input) IMG_ALLOC_LORAM :: BCU_LOAD_RESULT where "IMG_ALLOC_LORAM \<equiv> 47"

abbreviation (input) IMG_ALLOC_HIRAM :: BCU_LOAD_RESULT where "IMG_ALLOC_HIRAM \<equiv> 48"

abbreviation (input) IMG_ALLOC_INIT :: BCU_LOAD_RESULT where "IMG_ALLOC_INIT \<equiv> 49"

abbreviation (input) IMG_ALLOC_RO :: BCU_LOAD_RESULT where "IMG_ALLOC_RO \<equiv> 50"

abbreviation (input) IMG_ALLOC_EEPROM :: BCU_LOAD_RESULT where "IMG_ALLOC_EEPROM \<equiv> 51"

abbreviation (input) IMG_ALLOC_PARAM :: BCU_LOAD_RESULT where "IMG_ALLOC_PARAM \<equiv> 52"

abbreviation (input) IMG_SET_PROG :: BCU_LOAD_RESULT where "IMG_SET_PROG \<equiv> 53"

abbreviation (input) IMG_SET_TASK_PTR :: BCU_LOAD_RESULT where "IMG_SET_TASK_PTR \<equiv> 54"

abbreviation (input) IMG_SET_OBJ :: BCU_LOAD_RESULT where "IMG_SET_OBJ \<equiv> 55"

abbreviation (input) IMG_SET_TASK2 :: BCU_LOAD_RESULT where "IMG_SET_TASK2 \<equiv> 56"

abbreviation (input) IMG_FINISH_PROC :: BCU_LOAD_RESULT where "IMG_FINISH_PROC \<equiv> 57"

abbreviation (input) IMG_WRONG_CHECKLIM :: BCU_LOAD_RESULT where "IMG_WRONG_CHECKLIM \<equiv> 58"

abbreviation (input) IMG_INVALID_KEY :: BCU_LOAD_RESULT where "IMG_INVALID_KEY \<equiv> 59"

abbreviation (input) IMG_AUTHORIZATION_FAILED :: BCU_LOAD_RESULT where "IMG_AUTHORIZATION_FAILED \<equiv> 60"

abbreviation (input) IMG_KEY_WRITE :: BCU_LOAD_RESULT where "IMG_KEY_WRITE \<equiv> 61"

section \<open>The plan\<close>

record EIBLoadRequest =
  lr_error :: BCU_LOAD_RESULT
  lr_obj :: uchar
  lr_prop :: uchar
  lr_start :: "16 word"
  lr_req :: CArray
  lr_result :: CArray
  lr_memaddr :: "16 word"
  lr_len :: "16 word"

datatype BCUType = B_bcu1 | B_bcu20 | B_bcu21

record BCUImage =
  im_BCUType :: BCUType
  im_code :: CArray
  im_load :: "EIBLoadRequest list"
  im_addr :: eibaddr_t
  im_installkey :: eibkey_type
  im_keys :: "eibkey_type list"

definition zero10 :: CArray where
  "zero10 = replicate 10 0"

definition GenAlloc :: "16 word \<Rightarrow> 16 word \<Rightarrow> uchar \<Rightarrow> uchar \<Rightarrow> bool \<Rightarrow> CArray" where
  "GenAlloc start len acc t check =
     zero10[0 := 0x03, 2 := hi8 start, 3 := lo8 start, 4 := hi8 len, 5 := lo8 len, 6 := acc, 7 := t,
            8 := (if check then 0x80 else 0)]"

text \<open>A segment: its start and its length. The bounds are computed as \<open>int\<close>.\<close>

type_synonym segment = "16 word \<times> 16 word"

definition overlap :: "16 word \<Rightarrow> 16 word \<Rightarrow> segment \<Rightarrow> bool" where
  "overlap start len = (\<lambda>(s, l).
     unat start \<ge> unat s \<and> unat start < unat s + unat l \<or> unat s \<ge> unat start \<and> unat s < unat start + unat len)"

definition AddSegmentOverlap :: "segment list \<Rightarrow> 16 word \<Rightarrow> 16 word \<Rightarrow> bool \<times> segment list" where
  "AddSegmentOverlap s start len =
     (if len = 0 then (True, s) else if list_ex (overlap start len) s then (False, s) else (True, s @ [(start, len)]))"

text \<open>
  \<open>r.req[0] = 0x03; r.req[1] = 0x02; ...; r.req.setpart (c->code.array () + 0x03, 5, 5)\<close>: the request
  that sets the start of a segment, with the application of the image.
\<close>

definition set_start :: "16 word \<Rightarrow> CArray \<Rightarrow> CArray" where
  "set_start start code = [0x03, 0x02, hi8 start, lo8 start, code ! 9] @ take 5 (drop 3 code)"

text \<open>
  The requests, as the code builds them by changing one \<open>EIBLoadRequest\<close>. \<open>u\<close> is the value of its
  member \<open>len\<close> before it is first assigned.
\<close>

definition unload_requests :: "16 word \<Rightarrow> EIBLoadRequest list" where
  "unload_requests u =
     (let r = \<lparr>lr_error = IMG_UNLOAD_ADDR, lr_obj = 1, lr_prop = 5, lr_start = 1, lr_req = zero10[0 := 0x04],
               lr_result = [0x00], lr_memaddr = 0xffff, lr_len = u\<rparr>
      in [r, r\<lparr>lr_obj := 2, lr_error := IMG_UNLOAD_ASSOC\<rparr>, r\<lparr>lr_obj := 3, lr_error := IMG_UNLOAD_PROG\<rparr>])"

definition addrtab_requests :: "EIBLoadRequest \<Rightarrow> bcu2_start \<Rightarrow> CArray \<Rightarrow> EIBLoadRequest list" where
  "addrtab_requests r s1 code =
     (let r1 = r\<lparr>lr_req := zero10[0 := 0x01], lr_obj := 1, lr_result := [0x02], lr_error := IMG_LOAD_ADDR\<rparr>;
          r2 = r1\<lparr>lr_req := GenAlloc (bs_addrtab_start s1) (bs_addrtab_size s1) 0x31 0x03 True,
                  lr_memaddr := bs_addrtab_start s1, lr_len := 1, lr_error := IMG_WRITE_ADDR\<rparr>;
          r3 = r2\<lparr>lr_obj := 0xff, lr_memaddr := lr_memaddr r2 + 3, lr_len := bs_addrtab_size s1 - 4\<rparr>;
          r4 = r3\<lparr>lr_obj := 1, lr_memaddr := 0xffff, lr_req := set_start (bs_addrtab_start s1) code, lr_error := IMG_SET_ADDR\<rparr>;
          r5 = r4\<lparr>lr_req := zero10[0 := 0x02], lr_result := [0x01], lr_error := IMG_FINISH_ADDR\<rparr>
      in [r1, r2, r3, r4, r5])"

definition assoctab_requests :: "EIBLoadRequest \<Rightarrow> bcu2_start \<Rightarrow> CArray \<Rightarrow> EIBLoadRequest list" where
  "assoctab_requests r s1 code =
     (let r1 = r\<lparr>lr_req := zero10[0 := 0x01], lr_obj := 2, lr_result := [0x02], lr_error := IMG_LOAD_ASSOC\<rparr>;
          r2 = r1\<lparr>lr_req := GenAlloc (bs_assoctab_start s1) (bs_assoctab_size s1) 0x31 0x03 True,
                  lr_memaddr := bs_assoctab_start s1, lr_len := bs_assoctab_size s1 - 1, lr_error := IMG_WRITE_ASSOC\<rparr>;
          r3 = r2\<lparr>lr_memaddr := 0xffff, lr_req := set_start (bs_assoctab_start s1) code, lr_error := IMG_SET_ASSOC\<rparr>;
          r4 = r3\<lparr>lr_req := zero10[0 := 0x02], lr_result := [0x01], lr_error := IMG_FINISH_ASSOC\<rparr>
      in [r1, r2, r3, r4])"

definition alloc_requests :: "EIBLoadRequest \<Rightarrow> bcu2_start \<Rightarrow> EIBLoadRequest list" where
  "alloc_requests r s1 =
     (let r1 = r\<lparr>lr_req := zero10[0 := 0x01], lr_obj := 3, lr_result := [0x02], lr_error := IMG_LOAD_PROG\<rparr>;
          r2 = r1\<lparr>lr_req := GenAlloc 0x00C8 0x0018 0x32 0x01 False, lr_error := IMG_ALLOC_LORAM\<rparr>;
          r3 = r2\<lparr>lr_req := GenAlloc 0x0972 0x004A 0x32 0x02 False, lr_error := IMG_ALLOC_HIRAM\<rparr>;
          r4 = r3\<lparr>lr_req := GenAlloc 0x0100 0x0016 0x32 0x03 False, lr_error := IMG_ALLOC_INIT, lr_len := 1, lr_memaddr := 0x100\<rparr>;
          r5 = r4\<lparr>lr_obj := 0xff, lr_memaddr := 0x103, lr_len := 0x13\<rparr>
      in [r1, r2, r3, r4, r5])"

text \<open>The three segments of the program, each only when it is long enough; and the object that is left.\<close>

definition ro_request :: "EIBLoadRequest \<Rightarrow> bcu2_start \<Rightarrow> EIBLoadRequest" where
  "ro_request r s1 =
     r\<lparr>lr_req := GenAlloc (bs_readonly_start s1) (bs_readonly_end s1 - bs_readonly_start s1) 0x30 0x03 True,
       lr_error := IMG_ALLOC_RO, lr_len := bs_readonly_end s1 - bs_readonly_start s1 - 1, lr_memaddr := bs_readonly_start s1\<rparr>"

definition eeprom_request :: "EIBLoadRequest \<Rightarrow> bcu2_start \<Rightarrow> EIBLoadRequest" where
  "eeprom_request r s1 =
     r\<lparr>lr_req := GenAlloc (bs_eeprom_start s1) (bs_eeprom_end s1 - bs_eeprom_start s1) 0x31 0x03 False,
       lr_error := IMG_ALLOC_EEPROM, lr_len := bs_eeprom_end s1 - bs_eeprom_start s1, lr_memaddr := bs_eeprom_start s1\<rparr>"

definition param_request :: "EIBLoadRequest \<Rightarrow> bcu2_start \<Rightarrow> EIBLoadRequest" where
  "param_request r s1 =
     r\<lparr>lr_req := GenAlloc (bs_param_start s1) (bs_param_end s1 - bs_param_start s1) 0x32 0x03 True,
       lr_error := IMG_ALLOC_PARAM, lr_len := bs_param_end s1 - bs_param_start s1, lr_memaddr := bs_param_start s1\<rparr>"

definition segment_requests :: "EIBLoadRequest \<Rightarrow> bcu2_start \<Rightarrow> EIBLoadRequest list" where
  "segment_requests r s1 =
     (let ro = ro_request r s1; ee = eeprom_request ro s1; pa = param_request ee s1
      in (if lr_len ro \<noteq> 0 then [ro] else []) @ (if lr_len ee \<noteq> 0 then [ee] else []) @ (if lr_len pa > 1 then [pa] else []))"

definition finish_requests :: "EIBLoadRequest \<Rightarrow> bcu2_start \<Rightarrow> CArray \<Rightarrow> EIBLoadRequest list" where
  "finish_requests r s1 code =
     (let r1 = r\<lparr>lr_memaddr := 0xffff, lr_req := set_start (bs_runaddr s1) code, lr_error := IMG_SET_PROG\<rparr>;
          r2 = r1\<lparr>lr_req := zero10[0 := 0x03, 1 := 0x03, 2 := hi8 (bs_initaddr s1), 3 := lo8 (bs_initaddr s1),
                    4 := hi8 (bs_saveaddr s1), 5 := lo8 (bs_saveaddr s1), 6 := hi8 (bs_sphandler s1), 7 := lo8 (bs_sphandler s1)],
                  lr_error := IMG_SET_TASK_PTR\<rparr>;
          r3 = r2\<lparr>lr_req := zero10[0 := 0x03, 1 := 0x04, 2 := hi8 (bs_obj_ptr s1), 3 := lo8 (bs_obj_ptr s1), 4 := lo8 (bs_obj_count s1)],
                  lr_error := IMG_SET_OBJ\<rparr>;
          r4 = r3\<lparr>lr_req := zero10[0 := 0x03, 1 := 0x05, 2 := hi8 (bs_appcallback s1), 3 := lo8 (bs_appcallback s1),
                    4 := hi8 (bs_groupobj_ptr s1), 5 := lo8 (bs_groupobj_ptr s1), 6 := hi8 (bs_seg0 s1), 7 := lo8 (bs_seg0 s1),
                    8 := hi8 (bs_seg1 s1), 9 := lo8 (bs_seg1 s1)],
                  lr_error := IMG_SET_TASK2\<rparr>;
          r5 = r4\<lparr>lr_req := zero10[0 := 0x02], lr_result := [0x01], lr_error := IMG_FINISH_PROC\<rparr>
      in [r1, r2, r3, r4, r5])"

definition load_requests :: "16 word \<Rightarrow> bcu2_start \<Rightarrow> CArray \<Rightarrow> EIBLoadRequest list" where
  "load_requests u s1 code =
     (let un = unload_requests u;
          ad = addrtab_requests (last un) s1 code;
          as = assoctab_requests (last ad) s1 code;
          al = alloc_requests (last as) s1;
          r = (last al)\<lparr>lr_obj := 3\<rparr>
      in un @ ad @ as @ al @ segment_requests r s1 @
         finish_requests (param_request (eeprom_request (ro_request r s1) s1) s1) s1 code)"

section \<open>Checking an image\<close>

text \<open>\<open>(c->code[0x17] << 8) | (c->code[0x18])\<close>\<close>

definition code_addr :: "CArray \<Rightarrow> eibaddr_t option" where
  "code_addr code =
     (case rd code 0x17 of None \<Rightarrow> None
      | Some h \<Rightarrow> (case rd code 0x18 of None \<Rightarrow> None | Some l \<Rightarrow> Some (mk16 h l)))"

text \<open>
  The branch of BCU1 images, and the checks of the branch of BCU2 images. \<open>k\<close> is the value of the members
  that are left unset.
\<close>

definition check_bcu1 :: "image \<Rightarrow> CArray \<Rightarrow> BCU_LOAD_RESULT" where
  "check_bcu1 i code =
     (case Image_findStream S_BCU1Size i of
        Some (STR_BCU1Size textsize stacksize datasize bsssize) \<Rightarrow>
          if unat datasize + unat bsssize + unat stacksize > 18 then IMG_LODATA_OVERFLOW
          else if textsize > 0xfe then IMG_TEXT_OVERFLOW
          else if unat textsize \<noteq> length code then IMG_WRONG_SIZE
          else if textsize < 0x18 then IMG_NO_ADDRESS
          else if code ! 8 < 8 \<or> unat (code ! 8) > length code + 1 then IMG_WRONG_CHECKLIM
          else IMG_IMAGE_LOADABLE
      | _ \<Rightarrow> IMG_NO_SIZE)"

definition check_size2 :: "image \<Rightarrow> CArray \<Rightarrow> BCU_LOAD_RESULT" where
  "check_size2 i code =
     (case Image_findStream S_BCU2Size i of
        Some (STR_BCU2Size textsize stacksize lo_datasize lo_bsssize hi_datasize hi_bsssize) \<Rightarrow>
          if unat lo_datasize + unat lo_bsssize > 18 then IMG_LODATA_OVERFLOW
          else if unat hi_datasize + unat hi_bsssize > 24 then IMG_HIDATA_OVERFLOW
          else if textsize > 0x36f then IMG_TEXT_OVERFLOW
          else if unat textsize \<noteq> length code then IMG_WRONG_SIZE
          else if textsize < 0x18 then IMG_NO_ADDRESS
          else IMG_IMAGE_LOADABLE
      | _ \<Rightarrow> IMG_NO_SIZE)"

definition check_start2 :: "bcu2_start \<Rightarrow> CArray \<Rightarrow> BCU_LOAD_RESULT" where
  "check_start2 s1 code =
     (if bs_addrtab_start s1 \<noteq> 0x116 \<or> bs_addrtab_size s1 < 4 then IMG_WRONG_ADDRTAB
      else if bs_addrtab_size s1 > 0xff then IMG_ADDRTAB_OVERFLOW
      else
        let seg1 = snd (AddSegmentOverlap [] (bs_addrtab_start s1) (bs_addrtab_size s1));
            (ok2, seg2) = AddSegmentOverlap seg1 (bs_assoctab_start s1) (bs_assoctab_size s1)
        in if \<not> ok2 then IMG_OVERLAP_ASSOCTAB
           else if bs_assoctab_size s1 > 0xff then IMG_ADDRTAB_OVERFLOW
           else if bs_readonly_end s1 < bs_readonly_start s1 then IMG_NEGATIV_TEXT_SIZE
           else
             let (ok3, seg3) = AddSegmentOverlap seg2 (bs_readonly_start s1) (bs_readonly_end s1 - bs_readonly_start s1)
             in if \<not> ok3 then IMG_OVERLAP_TEXT
                else if bs_param_end s1 < bs_param_start s1 then IMG_NEGATIV_TEXT_SIZE
                else if bs_eeprom_end s1 < bs_eeprom_start s1 then IMG_NEGATIV_TEXT_SIZE
                else
                  let (ok4, seg4) = AddSegmentOverlap seg3 (bs_eeprom_start s1) (bs_eeprom_end s1 - bs_eeprom_start s1);
                      (ok5, seg5) = AddSegmentOverlap seg4 (bs_param_start s1) (bs_param_end s1 - bs_param_start s1)
                  in if \<not> ok4 then IMG_OVERLAP_EEPROM
                     else if \<not> ok5 then IMG_OVERLAP_PARAM
                     else if bs_obj_count s1 > 0xff then IMG_OBJTAB_OVERFLOW
                     else if unat (bs_param_end s1) > length code + 0x100 then IMG_WRONG_LOADCTL
                     else IMG_IMAGE_LOADABLE)"

text \<open>The keys of the image, or the default ones; \<open>None\<close> is \<open>IMG_INVALID_KEY\<close>.\<close>

definition image_keys :: "image \<Rightarrow> (eibkey_type \<times> eibkey_type list) option" where
  "image_keys i =
     (case Image_findStream S_BCU2Key i of
        Some (STR_BCU2Key installkey keys) \<Rightarrow> if length keys \<noteq> 3 then None else Some (installkey, keys)
      | _ \<Rightarrow> Some (0xFFFFFFFF, [0xFFFFFFFF, 0xFFFFFFFF, 0xFFFFFFFF]))"

definition prepare_bcu1 :: "eibkey_type \<Rightarrow> image \<Rightarrow> CArray \<Rightarrow> (BCU_LOAD_RESULT \<times> BCUImage option) option" where
  "prepare_bcu1 k i code =
     (let r = check_bcu1 i code
      in if r \<noteq> IMG_IMAGE_LOADABLE then Some (r, None)
         else case code_addr code of None \<Rightarrow> None
              | Some a \<Rightarrow> Some (IMG_IMAGE_LOADABLE,
                  Some \<lparr>im_BCUType = B_bcu1, im_code = code, im_load = [], im_addr = a, im_installkey = k, im_keys = []\<rparr>))"

definition prepare_bcu2 :: "16 word \<Rightarrow> BCUType \<Rightarrow> image \<Rightarrow> CArray \<Rightarrow> (BCU_LOAD_RESULT \<times> BCUImage option) option" where
  "prepare_bcu2 u t i code =
     (let r = check_size2 i code
      in if r \<noteq> IMG_IMAGE_LOADABLE then Some (r, None)
         else case Image_findStream S_BCU2Start i of
                Some (STR_BCU2Start s1) \<Rightarrow>
                  let r = check_start2 s1 code
                  in if r \<noteq> IMG_IMAGE_LOADABLE then Some (r, None)
                     else (case image_keys i of None \<Rightarrow> Some (IMG_INVALID_KEY, None)
                           | Some (installkey, keys) \<Rightarrow>
                               (case code_addr code of None \<Rightarrow> None
                                | Some a \<Rightarrow> Some (IMG_IMAGE_LOADABLE,
                                    Some \<lparr>im_BCUType = t, im_code = code, im_load = load_requests u s1 code, im_addr = a,
                                          im_installkey = installkey, im_keys = keys\<rparr>)))
              | _ \<Rightarrow> Some (IMG_NO_START, None))"

definition PrepareLoadImage :: "16 word \<Rightarrow> eibkey_type \<Rightarrow> CArray \<Rightarrow> (BCU_LOAD_RESULT \<times> BCUImage option) option" where
  "PrepareLoadImage u k im =
     (case Image_fromArray im of
        None \<Rightarrow> None
      | Some None \<Rightarrow> Some (IMG_UNRECOG_FORMAT, None)
      | Some (Some i) \<Rightarrow>
          if \<not> Image_isValid i then Some (IMG_INVALID_FORMAT, None)
          else case Image_findStream S_BCUType i of
                 Some (STR_BCUType bcutype) \<Rightarrow>
                   (case Image_findStream S_Code i of
                      Some (STR_Code code) \<Rightarrow>
                        if bcutype = 0x0012 then prepare_bcu1 k i code
                        else if bcutype = 0x0020 \<or> bcutype = 0x0021
                        then prepare_bcu2 u (if bcutype = 0x0020 then B_bcu20 else B_bcu21) i code
                        else Some (IMG_UNKNOWN_BCUTYPE, None)
                    | _ \<Rightarrow> Some (IMG_NO_CODE, None))
               | _ \<Rightarrow> Some (IMG_NO_BCUTYPE, None))"

section \<open>Loading\<close>

text \<open>\<open>CArray (i->code.array () + from, n)\<close>\<close>

definition code_part :: "CArray \<Rightarrow> int \<Rightarrow> int \<Rightarrow> CArray option" where
  "code_part code from n =
     (if n = 0 then Some []
      else if from < 0 \<or> n < 0 \<or> from + n > int (length code) then None
      else Some (take (nat n) (drop (nat from) code)))"

text \<open>\<open>if (m.X_Memory_Write_Block (addr, ...) != 0) goto out;\<close> with the result \<open>r\<close>, else on with \<open>k\<close>.\<close>

definition write_or ::
    "uchar memory \<Rightarrow> uchar memory \<Rightarrow> 'd bus \<Rightarrow> BCU_LOAD_RESULT \<Rightarrow> memaddr_t \<Rightarrow> CArray option \<Rightarrow>
     ('d \<Rightarrow> (BCU_LOAD_RESULT \<times> 'd) option) \<Rightarrow> 'd \<Rightarrow> (BCU_LOAD_RESULT \<times> 'd) option" where
  "write_or junk junk' b r addr part k d =
     (case part of None \<Rightarrow> None
      | Some xs \<Rightarrow>
          (case X_Memory_Write_Block junk junk' b addr xs d of None \<Rightarrow> None
           | Some (v, d1) \<Rightarrow> if v \<noteq> 0 then Some (r, d1) else k d1))"

definition restart_device :: "uchar memory \<Rightarrow> 'd bus \<Rightarrow> 'd \<Rightarrow> (BCU_LOAD_RESULT \<times> 'd) option" where
  "restart_device junk b d = map_option (\<lambda>d1. (IMG_LOADED, d1)) (A_Restart junk b d)"

text \<open>The writes of a BCU1 image: result on failure, address and data.\<close>

definition bcu1_writes :: "CArray \<Rightarrow> (BCU_LOAD_RESULT \<times> memaddr_t \<times> CArray option) list" where
  "bcu1_writes code =
     [(IMG_CLEAR_ERROR, 0x010d, Some [0]),
      (IMG_RESET_ADDR_TAB, 0x0116, Some [1]),
      (IMG_LOAD_HEADER, 0x0100, Some [0xff]),
      (IMG_LOAD_HEADER, 0x0103, code_part code 0x03 10),
      (IMG_LOAD_HEADER, 0x010E, code_part code 0x0E 8),
      (IMG_LOAD_MAIN, 0x119, code_part code 0x19 (int (length code) - 0x19)),
      (IMG_LOAD_MAIN, 0x0100, code_part code 0 1),
      (IMG_ZERO_RAM, 0x00ce, Some (replicate 18 0)),
      (IMG_FINALIZE_ADDR_TAB, 0x0116, code_part code 0x16 1),
      (IMG_PREPARE_RUN, 0x010d, Some [0xff])]"

fun write_all ::
    "uchar memory \<Rightarrow> uchar memory \<Rightarrow> 'd bus \<Rightarrow> (BCU_LOAD_RESULT \<times> memaddr_t \<times> CArray option) list \<Rightarrow> 'd \<Rightarrow>
     (BCU_LOAD_RESULT \<times> 'd) option" where
  "write_all junk junk' b [] d = restart_device junk b d"
| "write_all junk junk' b ((r, addr, part) # ws) d = write_or junk junk' b r addr part (write_all junk junk' b ws) d"

definition load_bcu1 :: "uchar memory \<Rightarrow> uchar memory \<Rightarrow> 'd bus \<Rightarrow> CArray \<Rightarrow> 'd \<Rightarrow> (BCU_LOAD_RESULT \<times> 'd) option" where
  "load_bcu1 junk junk' b code d = write_all junk junk' b (bcu1_writes code) d"

text \<open>The loop that writes the keys; \<open>None\<close> in the result when all are written.\<close>

fun write_keys :: "uchar memory \<Rightarrow> 'd bus \<Rightarrow> eibkey_type list \<Rightarrow> nat \<Rightarrow> nat \<Rightarrow> 'd \<Rightarrow> (BCU_LOAD_RESULT option \<times> 'd) option" where
  "write_keys junk b keys j 0 d = Some (None, d)"
| "write_keys junk b keys j (Suc n) d =
     (case rd keys j of None \<Rightarrow> None
      | Some key \<Rightarrow>
          (case A_KeyWrite junk b key (of_nat j) d of
             None \<Rightarrow> None
           | Some (None, d1) \<Rightarrow> Some (Some IMG_KEY_WRITE, d1)
           | Some (Some level, d1) \<Rightarrow>
               if j \<noteq> unat level then Some (Some IMG_KEY_WRITE, d1) else write_keys junk b keys (j + 1) n d1))"

text \<open>The loop over the load requests.\<close>

fun execute_requests ::
    "uchar memory \<Rightarrow> uchar memory \<Rightarrow> 'd bus \<Rightarrow> CArray \<Rightarrow> EIBLoadRequest list \<Rightarrow> 'd \<Rightarrow> (BCU_LOAD_RESULT \<times> 'd) option" where
  "execute_requests junk junk' b code [] d = restart_device junk b d"
| "execute_requests junk junk' b code (l # ls) d =
     (let memory = \<lambda>d.
        if lr_memaddr l \<noteq> 0xffff
        then write_or junk junk' b (lr_error l) (lr_memaddr l)
               (code_part code (int (unat (lr_memaddr l)) - 0x100) (int (unat (lr_len l))))
               (execute_requests junk junk' b code ls) d
        else execute_requests junk junk' b code ls d
      in if lr_obj l \<noteq> 0xff
         then (case A_Property_Write junk b (lr_obj l) (lr_prop l) (lr_start l) 1 (lr_req l) d of
                 None \<Rightarrow> None
               | Some (None, d1) \<Rightarrow> Some (lr_error l, d1)
               | Some (Some erg, d1) \<Rightarrow> if erg \<noteq> lr_result l then Some (lr_error l, d1) else memory d1)
         else memory d)"

definition load_bcu2 :: "uchar memory \<Rightarrow> uchar memory \<Rightarrow> 'd bus \<Rightarrow> BCUImage \<Rightarrow> 'd \<Rightarrow> (BCU_LOAD_RESULT \<times> 'd) option" where
  "load_bcu2 junk junk' b i d =
     (case A_Authorize junk b (im_installkey i) d of
        None \<Rightarrow> None
      | Some (None, d1) \<Rightarrow> Some (IMG_AUTHORIZATION_FAILED, d1)
      | Some (Some level, d1) \<Rightarrow>
          if level \<noteq> 0 then Some (IMG_AUTHORIZATION_FAILED, d1)
          else (case write_keys junk b (im_keys i) 0 3 d1 of
                  None \<Rightarrow> None
                | Some (Some r, d2) \<Rightarrow> Some (r, d2)
                | Some (None, d2) \<Rightarrow> execute_requests junk junk' b (im_code i) (im_load i) d2))"

definition bcu_maskver :: "BCUType \<Rightarrow> 16 word" where
  "bcu_maskver t = (case t of B_bcu1 \<Rightarrow> 0x0012 | B_bcu20 \<Rightarrow> 0x0020 | B_bcu21 \<Rightarrow> 0x0021)"

definition load_device :: "uchar memory \<Rightarrow> uchar memory \<Rightarrow> 'd bus \<Rightarrow> BCUImage \<Rightarrow> 'd \<Rightarrow> (BCU_LOAD_RESULT \<times> 'd) option" where
  "load_device junk junk' b i d =
     (case l4_open b (im_addr i) d of
        (False, d1) \<Rightarrow> Some (IMG_NO_DEVICE_CONNECTION, d1)
      | (True, d1) \<Rightarrow>
          map_option (\<lambda>(r, d2). (r, l4_close b d2))
            (case A_Device_Descriptor_Read junk b 0 d1 of
               None \<Rightarrow> None
             | Some (None, d2) \<Rightarrow> Some (IMG_MASK_READ_FAILED, d2)
             | Some (Some maskver, d2) \<Rightarrow>
                 if maskver \<noteq> bcu_maskver (im_BCUType i) then Some (IMG_WRONG_MASK_VERSION, d2)
                 else if im_BCUType i = B_bcu1 then load_bcu1 junk junk' b (im_code i) d2
                 else load_bcu2 junk junk' b i d2))"

definition load_answer :: "BCU_LOAD_RESULT \<Rightarrow> CArray" where
  "load_answer r = EIBSETTYPE EIB_LOAD_IMAGE @ [hi8 (of_int r), lo8 (of_int r)]"

definition LoadImage ::
    "16 word \<Rightarrow> eibkey_type \<Rightarrow> uchar memory \<Rightarrow> uchar memory \<Rightarrow> 'd bus \<Rightarrow> CArray \<Rightarrow> 'd \<Rightarrow> (CArray list \<times> 'd) option" where
  "LoadImage u k junk junk' b m d =
     (case PrepareLoadImage u k (drop 2 m) of
        None \<Rightarrow> None
      | Some (r, None) \<Rightarrow> Some ([load_answer r], d)
      | Some (r, Some i) \<Rightarrow>
          map_option (\<lambda>(r', d1). ([load_answer r'], d1)) (load_device junk junk' b i d))"

section \<open>decodeBCULoadResult\<close>

definition decodeBCULoadResult :: "BCU_LOAD_RESULT \<Rightarrow> string" where
  "decodeBCULoadResult r =
     (if r = IMG_UNKNOWN_ERROR then ''unknown error''
      else if r = IMG_UNRECOG_FORMAT then ''data not regcognized as image''
      else if r = IMG_INVALID_FORMAT then ''invalid streams in the image''
      else if r = IMG_NO_BCUTYPE then ''no bcu type specified''
      else if r = IMG_UNKNOWN_BCUTYPE then ''don'' @ [CHR 0x27] @ ''t know how to load the bcutype''
      else if r = IMG_NO_CODE then ''no text segment found''
      else if r = IMG_NO_SIZE then ''size information not found''
      else if r = IMG_LODATA_OVERFLOW then ''too many data for low-ram''
      else if r = IMG_HIDATA_OVERFLOW then ''too many data for hi-ram''
      else if r = IMG_TEXT_OVERFLOW then ''too many data for eeprom''
      else if r = IMG_IMAGE_LOADABLE then ''Image is loadable''
      else if r = IMG_NO_ADDRESS then ''no address found in the image''
      else if r = IMG_WRONG_SIZE then ''unexpected size of the text segment''
      else if r = IMG_NO_DEVICE_CONNECTION then ''connection to the device failed''
      else if r = IMG_MASK_READ_FAILED then ''read of mask version failed''
      else if r = IMG_WRONG_MASK_VERSION then ''incompatible mask version''
      else if r = IMG_CLEAR_ERROR then ''reseting of RunFlags failed''
      else if r = IMG_RESET_ADDR_TAB then ''reseting of the address table failed''
      else if r = IMG_LOAD_HEADER then ''loading of the header failed''
      else if r = IMG_LOAD_MAIN then ''loading of the code in the eeprom failed''
      else if r = IMG_ZERO_RAM then ''cleaning the ram failed''
      else if r = IMG_FINALIZE_ADDR_TAB then ''finalizing the address table failed''
      else if r = IMG_PREPARE_RUN then ''setting the RunFlags failed''
      else if r = IMG_RESTART then ''restart failed''
      else if r = IMG_LOADED then ''image successful loaded''
      else if r = IMG_NO_START then ''no BCU2 load control information present''
      else if r = IMG_WRONG_ADDRTAB then ''wrong start address of the address table''
      else if r = IMG_ADDRTAB_OVERFLOW then ''address table too big''
      else if r = IMG_OVERLAP_ASSOCTAB then ''association table overlaps with an other segment''
      else if r = IMG_OVERLAP_TEXT then ''text segement overlaps with an other segment''
      else if r = IMG_NEGATIV_TEXT_SIZE then ''segment end < text segment''
      else if r = IMG_OVERLAP_PARAM then ''param segment overlaps with an other segment''
      else if r = IMG_OVERLAP_EEPROM then ''eeprom segment overlaps with an other segment''
      else if r = IMG_OBJTAB_OVERFLOW then ''too many objects''
      else if r = IMG_WRONG_LOADCTL then ''param end not in the text segment''
      else if r = IMG_UNLOAD_ADDR then ''error unloading address table''
      else if r = IMG_UNLOAD_ASSOC then ''error unloading assocation table''
      else if r = IMG_UNLOAD_PROG then ''error unloading user programm''
      else if r = IMG_LOAD_ADDR then ''error start loading address table''
      else if r = IMG_WRITE_ADDR then ''error allocation address table''
      else if r = IMG_SET_ADDR then ''error setting address table start''
      else if r = IMG_FINISH_ADDR then ''error finishing address table''
      else if r = IMG_LOAD_ASSOC then ''error start loading association table''
      else if r = IMG_WRITE_ASSOC then ''error allocation assocation table''
      else if r = IMG_SET_ASSOC then ''error setting assocation table start''
      else if r = IMG_FINISH_ASSOC then ''error finishing assocation table''
      else if r = IMG_LOAD_PROG then ''error start loading programm''
      else if r = IMG_ALLOC_LORAM then ''error allocation low ram''
      else if r = IMG_ALLOC_HIRAM then ''error allocation high ram''
      else if r = IMG_ALLOC_INIT then ''error allocation config section''
      else if r = IMG_ALLOC_RO then ''error loading text segment''
      else if r = IMG_ALLOC_EEPROM then ''error loading eeprom segment''
      else if r = IMG_ALLOC_PARAM then ''error loading parameter segement''
      else if r = IMG_SET_PROG then ''error setting programm entry''
      else if r = IMG_SET_TASK_PTR then ''error setting task pointer''
      else if r = IMG_SET_OBJ then ''error setting object pointer''
      else if r = IMG_SET_TASK2 then ''error setting group object pointer''
      else if r = IMG_FINISH_PROC then ''error finishing application programm''
      else if r = IMG_WRONG_CHECKLIM then ''wrong check limit''
      else if r = IMG_AUTHORIZATION_FAILED then ''authorization failed''
      else if r = IMG_INVALID_KEY then ''invalid key information''
      else if r = IMG_KEY_WRITE then ''key write failed''
      else ''errorcode not defined'')"

end
