(* ===== verification/ImageProofs.thy ===== *)
theory ImageProofs
  imports Image
begin

text \<open>
  Reading and writing memory images: a stream that was read is written back byte for byte, and so is
  an image.
\<close>

section \<open>Writing\<close>

lemma put_header_exact: "unat len = length hdr \<Longrightarrow> put_header junk len hdr = Some ([hi8 len, lo8 len] @ hdr)"
  by (simp add: put_header_def)

lemma Array_setpart_inside:
  assumes "unat start = length as" "unat cnt = length xs" "length xs = length bs" "length as + length bs + length cs < 2 ^ 32"
  shows "Array_setpart junk xs start cnt (as @ bs @ cs) = Some (as @ xs @ cs)"
  using assms by (simp add: Array_setpart_eq Let_def)

lemma put_stream_room:
  assumes len: "unat len = length hdr + length xs + k"
  shows "put_stream junk len hdr xs =
    Some ([hi8 len, lo8 len] @ hdr @ xs @ map junk [2 + length hdr + length xs..<2 + unat len])"
proof -
  have "unat len < 2 ^ 16" using unsigned_less [of len] by simp
  with len have small: "length hdr + length xs + k < 65536" by simp
  then have n: "unat (of_nat (2 + length hdr) :: unsigned) = length ([hi8 len, lo8 len] @ hdr)"
    "unat (of_nat (length xs) :: unsigned) = length xs"
    by (simp_all only: unat_of_nat, simp_all)
  have "[2 + length hdr..<2 + unat len] = [2 + length hdr..<2 + length hdr + length xs] @ [2 + length hdr + length xs..<2 + unat len]"
    using upt_add_eq_append [of "2 + length hdr" "2 + length hdr + length xs" k] by (simp add: len add_ac del: upt_Suc)
  then have d: "put_header junk len hdr = Some (([hi8 len, lo8 len] @ hdr) @ map junk [2 + length hdr..<2 + length hdr + length xs]
      @ map junk [2 + length hdr + length xs..<2 + unat len])"
    by (simp add: put_header_def len del: upt_Suc)
  have m: "length xs = length (map junk [2 + length hdr..<2 + length hdr + length xs])"
    by (simp only: length_map length_upt)
  show ?thesis
    unfolding put_stream_def d option.case
    by (subst Array_setpart_inside [OF n m]) (use small in \<open>simp_all add: len del: upt_Suc\<close>)
qed

lemma put_stream_exact:
  "unat len = length hdr + length xs \<Longrightarrow> put_stream junk len hdr xs = Some ([hi8 len, lo8 len] @ hdr @ xs)"
  by (simp add: put_stream_room [where k = 0])

lemma of_nat_unat_16: "n = unat w \<Longrightarrow> of_nat n = w" for w :: "16 word"
  by simp

section \<open>Names\<close>

lemma cstr_end_spec:
  "cstr_end c d = Some e \<Longrightarrow> d \<le> e \<and> e < length c \<and> c ! e = 0 \<and> 0 \<notin> set (take (e - d) (drop d c))"
proof (induction c d rule: cstr_end.induct)
  case (1 c d)
  from 1(2) have d: "d < length c"
    by (simp add: cstr_end.simps [of c d] split: if_splits)
  show ?case
  proof (cases "c ! d = 0")
    case True
    with 1(2) d show ?thesis by (simp add: cstr_end.simps [of c d])
  next
    case False
    with 1(2) d have "cstr_end c (d + 1) = Some e" by (simp add: cstr_end.simps [of c d])
    from 1(1) [OF d False this] False d show ?thesis
      by (simp add: take_Cons' Cons_nth_drop_Suc [OF d, symmetric] Suc_diff_le)
  qed
qed

lemma cstr_end_split:
  assumes "cstr_end c d = Some e"
  shows "drop d c = take (e - d) (drop d c) @ 0 # drop (e + 1) c"
proof -
  note e = cstr_end_spec [OF assms]
  have "drop (e - d) (drop d c) = drop e c" using e by simp
  also have "\<dots> = 0 # drop (e + 1) c" using e Cons_nth_drop_Suc [of e c] by simp
  finally show ?thesis by (metis append_take_drop_id)
qed

lemma last_name_spec:
  assumes "last_name c k = Some (Some n)"
  shows "drop k c = n @ [0]"
proof -
  from assms obtain d where d: "cstr_end c k = Some d" "d = length c - 1" "n = take (d - k) (drop k c)"
    by (auto simp: last_name_def split: if_splits option.splits)
  from cstr_end_split [OF d(1)] cstr_end_spec [OF d(1)] d(2,3) show ?thesis by simp
qed

lemma list_prefix_nth: "k \<le> length c \<Longrightarrow> c = map ((!) c) [0..<k] @ drop k c"
proof -
  assume "k \<le> length c"
  then have "take k c = map ((!) c) [0..<k]" by (intro nth_equalityI) simp_all
  then show ?thesis by (metis append_take_drop_id)
qed

section \<open>Streams\<close>

text \<open>\<open>stream_of c s\<close>: the bytes \<open>c\<close> are a stream of type \<open>t\<close> as \<open>STR_Stream::fromArray\<close> expects it.\<close>

definition framed :: "CArray \<Rightarrow> bool" where
  "framed c \<longleftrightarrow> 4 \<le> length c \<and> unat (mk16 (c ! 0) (c ! 1)) + 2 = length c"

lemma framed_len: "framed c \<Longrightarrow> 4 \<le> length c"
  by (simp add: framed_def)

lemma framed_split:
  assumes "framed c" and "hdr = drop 2 c"
  shows "c = [c ! 0, c ! 1] @ hdr" "unat (mk16 (c ! 0) (c ! 1)) = length hdr"
proof -
  have len: "4 \<le> length c" "unat (mk16 (c ! 0) (c ! 1)) + 2 = length c" using assms(1) by (simp_all add: framed_def)
  then show "c = [c ! 0, c ! 1] @ hdr"
    using list_prefix_nth [of 2 c] assms(2) by (simp add: upt_rec numeral_eq_Suc)
  show "unat (mk16 (c ! 0) (c ! 1)) = length hdr"
    unfolding assms(2) length_drop using len by linarith
qed

lemma put_header_framed:
  assumes "framed c" and "hdr = drop 2 c" and "len = mk16 (c ! 0) (c ! 1)"
  shows "put_header junk len hdr = Some c"
  using framed_split [OF assms(1,2)] by (simp add: put_header_exact assms(3))

lemma put_stream_framed:
  assumes "framed c" and "hdr @ xs = drop 2 c" and "len = mk16 (c ! 0) (c ! 1)"
  shows "put_stream junk len hdr xs = Some c"
  using framed_split [OF assms(1,2)] by (simp add: put_stream_exact assms(3))

lemma framed_length: "framed c \<Longrightarrow> n + 2 = length c \<Longrightarrow> of_nat n = mk16 (c ! 0) (c ! 1)"
  by (rule of_nat_unat_16) (simp add: framed_def)

lemma drop_two_bytes: "n + 2 \<le> length c \<Longrightarrow> drop n c = two (mk16 (c ! n) (c ! (n + 1))) @ drop (n + 2) c"
  by (simp add: two_def Cons_nth_drop_Suc)

lemma drop_byte: "n + 1 \<le> length c \<Longrightarrow> drop n c = c ! n # drop (n + 1) c"
  by (simp add: Cons_nth_drop_Suc)

lemma init_round_trip_names:
  assumes "framed c" and "mk16 (c ! 2) (c ! 3) = t"
  shows "t = L_STRING_PAR \<Longrightarrow> STR_StringParameter_init c = Some (Some s) \<Longrightarrow> STR_toArray junk s = Some c"
    and "t = L_INT_PAR \<Longrightarrow> STR_IntParameter_init c = Some (Some s) \<Longrightarrow> STR_toArray junk s = Some c"
    and "t = L_FLOAT_PAR \<Longrightarrow> STR_FloatParameter_init c = Some (Some s) \<Longrightarrow> STR_toArray junk s = Some c"
    and "t = L_GROUP_OBJECT \<Longrightarrow> STR_GroupObject_init c = Some (Some s) \<Longrightarrow> STR_toArray junk s = Some c"
proof -
  have named: "put_stream junk (of_nat (length hdr + length n + 1)) hdr (n @ [0]) = Some c"
    if "last_name c k = Some (Some n)" and "drop 2 c = hdr @ drop k c" for k n hdr
  proof (rule put_stream_framed [OF assms(1)])
    have name: "drop k c = n @ [0]" by (rule last_name_spec [OF that(1)])
    then show hdr: "hdr @ n @ [0] = drop 2 c" by (simp add: that(2))
    have "length hdr + length n + 1 + 2 = length (drop 2 c) + 2" by (simp add: hdr [symmetric])
    also have "\<dots> = length c" using framed_len [OF assms(1)] by simp
    finally show "of_nat (length hdr + length n + 1) = mk16 (c ! 0) (c ! 1)"
      by (rule framed_length [OF assms(1)])
  qed
  have t: "drop 2 c = two t @ drop 4 c"
    using assms drop_two_bytes [of 2 c] by (simp add: framed_def)
  show "STR_toArray junk s = Some c" if "t = L_STRING_PAR" and "STR_StringParameter_init c = Some (Some s)"
  proof -
    from that(2) obtain n where s: "s = STR_StringParameter (mk16 (c ! 4) (c ! 5)) (mk16 (c ! 6) (c ! 7)) n"
      and n: "last_name c 8 = Some (Some n)" and len: "9 \<le> length c"
      by (auto simp: STR_StringParameter_init_def split: if_splits)
    from len have "drop 2 c = (two t @ two (mk16 (c ! 4) (c ! 5)) @ two (mk16 (c ! 6) (c ! 7))) @ drop 8 c"
      using drop_two_bytes [of 4 c] drop_two_bytes [of 6 c] t by simp
    from named [OF n this] that(1) show ?thesis
      by (simp add: s STR_StringParameter_toArray_def two_def add.commute)
  qed
  show "STR_toArray junk s = Some c" if "t = L_INT_PAR" and "STR_IntParameter_init c = Some (Some s)"
  proof -
    from that(2) obtain n where s: "s = STR_IntParameter (mk16 (c ! 4) (c ! 5)) (c ! 6) n"
      and n: "last_name c 7 = Some (Some n)" and len: "8 \<le> length c"
      by (auto simp: STR_IntParameter_init_def split: if_splits)
    from len have "drop 2 c = (two t @ two (mk16 (c ! 4) (c ! 5)) @ [c ! 6]) @ drop 7 c"
      using drop_two_bytes [of 4 c] drop_byte [of 6 c] t by simp
    from named [OF n this] that(1) show ?thesis
      by (simp add: s STR_IntParameter_toArray_def two_def add.commute)
  qed
  show "STR_toArray junk s = Some c" if "t = L_FLOAT_PAR" and "STR_FloatParameter_init c = Some (Some s)"
  proof -
    from that(2) obtain n where s: "s = STR_FloatParameter (mk16 (c ! 4) (c ! 5)) n"
      and n: "last_name c 6 = Some (Some n)" and len: "7 \<le> length c"
      by (auto simp: STR_FloatParameter_init_def split: if_splits)
    from len have "drop 2 c = (two t @ two (mk16 (c ! 4) (c ! 5))) @ drop 6 c"
      using drop_two_bytes [of 4 c] t by simp
    from named [OF n this] that(1) show ?thesis
      by (simp add: s STR_FloatParameter_toArray_def two_def add.commute)
  qed
  show "STR_toArray junk s = Some c" if "t = L_GROUP_OBJECT" and "STR_GroupObject_init c = Some (Some s)"
  proof -
    from that(2) obtain n where s: "s = STR_GroupObject (c ! 4) n"
      and n: "last_name c 5 = Some (Some n)" and len: "6 \<le> length c"
      by (auto simp: STR_GroupObject_init_def split: if_splits)
    from len have "drop 2 c = (two t @ [c ! 4]) @ drop 5 c"
      using drop_byte [of 4 c] t by simp
    from named [OF n this] that(1) show ?thesis
      by (simp add: s STR_GroupObject_toArray_def two_def add.commute)
  qed
qed

lemma all_bytes: "length c = n \<Longrightarrow> drop k c = map ((!) c) [k..<n]"
  by (intro nth_equalityI) simp_all

lemma init_round_trip_sizes:
  assumes "framed c" and "mk16 (c ! 2) (c ! 3) = t"
  shows "t = L_BCU_TYPE \<Longrightarrow> STR_BCUType_init c = Some (Some s) \<Longrightarrow> STR_toArray junk s = Some c"
    and "t = L_BCU1_SIZE \<Longrightarrow> STR_BCU1Size_init c = Some (Some s) \<Longrightarrow> STR_toArray junk s = Some c"
    and "t = L_BCU2_SIZE \<Longrightarrow> STR_BCU2Size_init c = Some (Some s) \<Longrightarrow> STR_toArray junk s = Some c"
    and "t = L_BCU2_INIT \<Longrightarrow> STR_BCU2Start_init c = Some (Some s) \<Longrightarrow> STR_toArray junk s = Some c"
proof -
  have fixed: "put_header junk (of_nat n) (two t @ map ((!) c) [4..<n + 2]) = Some c"
    if "length c = n + 2" for n
  proof (rule put_header_framed [OF assms(1)])
    show "two t @ map ((!) c) [4..<n + 2] = drop 2 c"
      using framed_len [OF assms(1)] assms(2) all_bytes [OF that, of 4] drop_two_bytes [of 2 c] by simp
    show "of_nat n = mk16 (c ! 0) (c ! 1)"
      by (rule framed_length [OF assms(1)]) (simp add: that)
  qed
  show "STR_toArray junk s = Some c" if "t = L_BCU_TYPE" and "STR_BCUType_init c = Some (Some s)"
    using that fixed [of 4]
    by (auto simp: STR_BCUType_init_def STR_BCUType_toArray_def two_def upt_rec split: if_splits)
  show "STR_toArray junk s = Some c" if "t = L_BCU1_SIZE" and "STR_BCU1Size_init c = Some (Some s)"
    using that fixed [of 10]
    by (auto simp: STR_BCU1Size_init_def STR_BCU1Size_toArray_def two_def upt_rec split: if_splits)
  show "STR_toArray junk s = Some c" if "t = L_BCU2_SIZE" and "STR_BCU2Size_init c = Some (Some s)"
    using that fixed [of 14]
    by (auto simp: STR_BCU2Size_init_def STR_BCU2Size_toArray_def two_def upt_rec split: if_splits)
  show "STR_toArray junk s = Some c" if "t = L_BCU2_INIT" and "STR_BCU2Start_init c = Some (Some s)"
    using that fixed [of 45]
    by (auto simp: STR_BCU2Start_init_def STR_BCU2Start_toArray_def two_def upt_rec split: if_splits)
qed

lemma read_keys_bytes:
  "length xs mod 4 = 0 \<Longrightarrow> concat (map key_bytes (read_keys xs)) = xs \<and> length (read_keys xs) * 4 = length xs"
proof (induction xs rule: read_keys.induct)
  case (1 a b c d xs)
  then have "length xs mod 4 = 0" by simp
  with 1 show ?case by (simp add: key_bytes_def)
qed auto

lemma init_round_trip_rest:
  assumes "framed c" and "mk16 (c ! 2) (c ! 3) = t"
  shows "t = L_CODE \<Longrightarrow> STR_Code_init c = Some (Some s) \<Longrightarrow> STR_toArray junk s = Some c"
    and "STR_Unknown_init c = Some (Some s) \<Longrightarrow> STR_toArray junk s = Some c"
    and "t = L_BCU2_KEY \<Longrightarrow> STR_BCU2Key_init c = Some (Some s) \<Longrightarrow> STR_toArray junk s = Some c"
proof -
  have t: "drop 2 c = two t @ drop 4 c"
    using framed_len [OF assms(1)] assms(2) drop_two_bytes [of 2 c] by simp
  have rest: "put_stream junk (of_nat (2 + length (drop 4 c))) (two t) (drop 4 c) = Some c"
    by (rule put_stream_framed [OF assms(1) t [symmetric]], rule framed_length [OF assms(1)])
       (use framed_len [OF assms(1)] in simp)
  show "STR_toArray junk s = Some c" if "t = L_CODE" and "STR_Code_init c = Some (Some s)"
    using rest that by (auto simp: STR_Code_init_def STR_Code_toArray_def)
  show "STR_toArray junk s = Some c" if "STR_Unknown_init c = Some (Some s)"
    using rest that assms(2) by (auto simp: STR_Unknown_init_def STR_Unknown_toArray_def)
  show "STR_toArray junk s = Some c" if "t = L_BCU2_KEY" and "STR_BCU2Key_init c = Some (Some s)"
  proof -
    let ?k = "mk32 (c ! 4) (c ! 5) (c ! 6) (c ! 7)" and ?ks = "read_keys (drop 8 c)"
    from that(2) have s: "s = STR_BCU2Key ?k ?ks" and len: "8 \<le> length c" "length c mod 4 = 0"
      by (auto simp: STR_BCU2Key_init_def split: if_splits)
    then have "length (drop 8 c) mod 4 = 0" by (simp add: mod_diff_left_eq mod_eq_0_iff_dvd)
    note keys = read_keys_bytes [OF this]
    have "drop 4 c = key_bytes ?k @ drop 8 c"
      using drop_byte [of 4 c] drop_byte [of 5 c] drop_byte [of 6 c] drop_byte [of 7 c] len by (simp add: key_bytes_def)
    with t keys have "two t @ key_bytes ?k @ concat (map key_bytes ?ks) = drop 2 c" by simp
    moreover have "of_nat (length ?ks * 4 + 4 + 2) = mk16 (c ! 0) (c ! 1)"
      by (rule framed_length [OF assms(1)]) (use keys len in simp)
    ultimately show ?thesis
      unfolding s STR_toArray.simps STR_BCU2Key_toArray_def that(1) [symmetric]
      by (intro put_header_framed [OF assms(1)])
  qed
qed

text \<open>A list parameter.\<close>

definition elements_bytes :: "CArray list \<Rightarrow> CArray" where
  "elements_bytes es = concat (map (\<lambda>e. e @ [0]) es)"

lemma length_elements_bytes: "length (elements_bytes es) = sum_list (map (\<lambda>e. length e + 1) es)"
  by (simp add: elements_bytes_def length_concat comp_def)

lemma list_elements_bytes:
  "list_elements c n d = Some (Some (es, e)) \<Longrightarrow> drop d c = elements_bytes es @ drop e c \<and> length es = n"
proof (induction c n d arbitrary: es e rule: list_elements.induct)
  case (1 c d)
  then show ?case by (simp add: elements_bytes_def)
next
  case (2 c n d)
  from 2(2) obtain k es' where k: "cstr_end c d = Some k" "\<not> k > length c - 1" "\<not> k + 1 > length c"
    and rest: "list_elements c n (k + 1) = Some (Some (es', e))" and es: "es = take (k - d) (drop d c) # es'"
    by (auto split: option.splits if_splits)
  from 2(1) [OF k(1-3) rest] cstr_end_split [OF k(1)] es show ?case
    by (simp add: elements_bytes_def)
qed

lemma unat_ucast_16_32: "unat (ucast p :: 32 word) = unat p" for p :: "16 word"
proof -
  have "unat p < 2 ^ 16" using unsigned_less [of p] by simp
  then show ?thesis by (simp add: unsigned_ucast_eq take_bit_nat_eq_self)
qed

lemma put_elements_exact:
  "length as = unat p \<Longrightarrow> length bs = length (elements_bytes es) \<Longrightarrow> length as + length bs < 2 ^ 16 \<Longrightarrow>
   put_elements junk p es (as @ bs) = Some (as @ elements_bytes es)"
proof (induction es arbitrary: p as bs)
  case Nil
  then show ?case by (simp add: elements_bytes_def)
next
  case (Cons e es)
  let ?n = "length e + 1"
  have p: "unat (ucast p :: unsigned) = length as" 
    using Cons.prems(1) by (simp add: unat_ucast_16_32)
  have small: "unat p + ?n < 2 ^ 16" using Cons.prems by (simp add: elements_bytes_def)
  then have n: "unat (of_nat ?n :: unsigned) = length (e @ [0 :: uchar])" "unat (p + of_nat ?n) = unat p + ?n"
    by (simp_all only: unat_of_nat unat_word_ariths, simp_all add: unat_of_nat)
  have m: "length (e @ [0]) = length (take ?n bs)" using Cons.prems by (simp add: elements_bytes_def)
  have "Array_setpart junk (e @ [0]) (ucast p) (of_nat ?n) (as @ take ?n bs @ drop ?n bs) = Some (as @ (e @ [0]) @ drop ?n bs)"
    by (rule Array_setpart_inside [OF p n(1) m]) (use Cons.prems in simp)
  then have put: "Array_setpart junk (e @ [0]) (ucast p) (of_nat ?n) (as @ bs) = Some ((as @ e @ [0]) @ drop ?n bs)" by simp
  have "put_elements junk (p + of_nat ?n) es ((as @ e @ [0]) @ drop ?n bs) = Some ((as @ e @ [0]) @ elements_bytes es)"
    by (rule Cons.IH) (use Cons.prems n(2) in \<open>simp_all add: elements_bytes_def\<close>)
  then show ?case unfolding put_elements.simps put option.case by (simp add: elements_bytes_def)
qed

lemma init_round_trip_list:
  assumes "framed c" and "mk16 (c ! 2) (c ! 3) = t" and small: "length c < 2 ^ 16"
    and tl: "t = L_LIST_PAR" and init: "STR_ListParameter_init c = Some (Some s)"
  shows "STR_toArray junk s = Some c"
proof -
  from init obtain d es where len: "9 \<le> length c" and d: "cstr_end c 8 = Some d"
    and es: "list_elements c (unat (mk16 (c ! 6) (c ! 7))) (d + 1) = Some (Some (es, length c))"
    and s: "s = STR_ListParameter (mk16 (c ! 4) (c ! 5)) (take (d - 8) (drop 8 c)) es"
    by (auto simp: STR_ListParameter_init_def split: if_splits option.splits)
  let ?name = "take (d - 8) (drop 8 c)" and ?n = "mk16 (c ! 6) (c ! 7)"
  let ?hdr = "two t @ two (mk16 (c ! 4) (c ! 5)) @ two ?n" and ?len = "mk16 (c ! 0) (c ! 1)"
  from list_elements_bytes [OF es] have bytes: "drop (d + 1) c = elements_bytes es" and n: "of_nat (length es) = ?n"
    by (simp_all add: of_nat_unat_16)
  have "drop 2 c = ?hdr @ drop 8 c"
    using framed_len [OF assms(1)] assms(2) len drop_two_bytes [of 2 c] drop_two_bytes [of 4 c] drop_two_bytes [of 6 c] by simp
  moreover have "drop 8 c = (?name @ [0]) @ elements_bytes es"
    using cstr_end_split [OF d] bytes by simp
  ultimately have all: "drop 2 c = ?hdr @ (?name @ [0]) @ elements_bytes es" by simp
  note c = framed_split [OF assms(1) all [symmetric]]
  have unat_len: "unat ?len = length ?hdr + length (?name @ [0]) + length (elements_bytes es)" using c(2) by simp
  have "length (take (d - 8) (drop 8 c)) + length (elements_bytes es) + 7 + 2 = length c"
    using arg_cong [OF c(1), of length] by (simp add: two_def)
  from framed_length [OF assms(1), of "length ?name + length (elements_bytes es) + 7"] this
  have len_eq: "of_nat (7 + length ?name + sum_list (map (\<lambda>e. length e + 1) es)) = ?len"
    by (simp only: length_elements_bytes add_ac)
  let ?d = "[hi8 ?len, lo8 ?len] @ ?hdr @ ?name @ [0]"
  let ?room = "map junk [2 + length ?hdr + length (?name @ [0])..<2 + unat ?len]"
  have put: "put_stream junk ?len ?hdr (?name @ [0]) = Some (?d @ ?room)"
    using put_stream_room [OF unat_len, of junk] by simp
  have "put_elements junk (of_nat (8 + length ?name + 1)) es (?d @ ?room) = Some (?d @ elements_bytes es)"
  proof (rule put_elements_exact)
    have len_d: "length ?d = 8 + length ?name + 1" by (simp add: two_def)
    show room: "length ?room = length (elements_bytes es)" by (simp only: length_map length_upt unat_len)
    have "length ?d + length (elements_bytes es) = length c"
      using arg_cong [OF c(1), of length] by simp
    then show total: "length ?d + length ?room < 2 ^ 16" using small by (simp only: room)
    have "8 + length ?name + 1 < 2 ^ 16" using total unfolding len_d by linarith
    then show "length ?d = unat (of_nat (8 + length ?name + 1) :: 16 word)"
      unfolding len_d by (simp only: unat_of_nat, simp)
  qed
  also have "?d @ elements_bytes es = c" by (subst (7) c(1)) simp
  finally show ?thesis
    unfolding s STR_toArray.simps STR_ListParameter_toArray_def len_eq n tl [symmetric] put option.case .
qed

lemma stream_round_trip:
  assumes "STR_Stream_fromArray c = Some s" and "length c < 2 ^ 16"
  shows "STR_toArray junk s = Some c"
proof -
  let ?t = "mk16 (c ! 2) (c ! 3)"
  have framed: "framed c"
    using assms(1) by (auto simp: STR_Stream_fromArray_def framed_def split: if_splits)
  from assms(1) consider "STR_select ?t c = Some (Some s)" | "s = STR_Invalid c"
    by (auto simp: STR_Stream_fromArray_def STR_Invalid_init_def split: if_splits option.splits)
  then show ?thesis
  proof cases
    case 1
    with init_round_trip_names [OF framed refl] init_round_trip_sizes [OF framed refl]
      init_round_trip_rest [OF framed refl] init_round_trip_list [OF framed refl assms(2)]
    show ?thesis unfolding STR_select_def by (auto split: if_split_asm)
  next
    case 2
    then show ?thesis by (simp add: STR_Invalid_toArray_def)
  qed
qed

section \<open>Images\<close>


lemma Image_lp_round_trip:
  assumes "Image_fromArray_lp c pos i = Some (Some ss)" and "length c < 2 ^ 16" and "unat pos \<le> length c"
  shows "\<exists>ts. ss = i @ ts \<and> (\<forall>d. length d = unat pos \<longrightarrow> put_streams junk ts d = Some (d @ drop (unat pos) c))"
proof -
  let ?P = "\<lambda>c (pos :: 16 word) (i :: image) y. length c < 2 ^ 16 \<longrightarrow> unat pos \<le> length c \<longrightarrow> y = Some ss \<longrightarrow>
      (\<exists>ts. ss = i @ ts \<and> (\<forall>d. length d = unat pos \<longrightarrow> put_streams junk ts d = Some (d @ drop (unat pos) c)))"
  have "?P c pos i y" if "Image_fromArray_lp c pos i = Some y" for y c pos i
  proof (rule Image_fromArray_lp.raw_induct [where P = ?P, OF _ that], intro impI)
    fix lp :: "CArray \<Rightarrow> 16 word \<Rightarrow> image \<Rightarrow> image option option" and c :: CArray and pos :: "16 word" and i :: image and y :: "image option"
    let ?len = "mk16 (c ! unat pos) (c ! (unat pos + 1))"
    let ?x = "take (unat ?len + 2) (drop (unat pos) c)"
    assume IH: "\<And>c pos i y. lp c pos i = Some y \<Longrightarrow> ?P c pos i y"
      and step: "(if unat pos < length c then
        if unat pos + 4 \<ge> length c then Some None
        else let len = ?len
             in if unat pos + 2 + unat len > length c \<or> unat len < 2 then Some None
                else Option.bind (STR_Stream_fromArray (take (unat len + 2) (drop (unat pos) c)))
                       (\<lambda>s. lp c (pos + (2 + len)) (i @ [s]))
      else Some (Some i)) = Some y"
      and small: "length c < 2 ^ 16" "unat pos \<le> length c" and y: "y = Some ss"
    show "\<exists>ts. ss = i @ ts \<and> (\<forall>d. length d = unat pos \<longrightarrow> put_streams junk ts d = Some (d @ drop (unat pos) c))"
    proof (cases "unat pos < length c")
      case False
      with step y small(2) show ?thesis by (intro exI [of _ "[]"]) auto
    next
      case True
      with step y obtain s where fits: "unat pos + 2 + unat ?len \<le> length c"
        and s: "STR_Stream_fromArray ?x = Some s" and rest: "lp c (pos + (2 + ?len)) (i @ [s]) = Some (Some ss)"
        by (auto simp: Let_def split: if_splits bind_splits)
      have x: "length ?x = unat ?len + 2" using fits by simp
      have pos: "unat (pos + (2 + ?len)) = unat pos + (2 + unat ?len)"
        using fits small(1) by (simp add: unat_word_ariths)
      from IH [OF rest] obtain ts where ts: "ss = (i @ [s]) @ ts"
        and put: "\<forall>d. length d = unat pos + (2 + unat ?len) \<longrightarrow>
          put_streams junk ts d = Some (d @ drop (unat pos + (2 + unat ?len)) c)"
        unfolding pos using fits small(1) by auto
      have x_out: "STR_toArray junk s = Some ?x"
        by (rule stream_round_trip [OF s]) (use fits small(1) in \<open>unfold x, linarith\<close>)
      have "put_streams junk (s # ts) d = Some (d @ drop (unat pos) c)" if d: "length d = unat pos" for d
      proof -
        have n: "unat (of_nat (unat pos) :: unsigned) = unat pos" "unat (of_nat (unat ?len + 2) :: unsigned) = unat ?len + 2"
          using small fits by (simp_all only: unat_of_nat, simp_all)
        have "Array_setpart junk ?x (of_nat (length d)) (of_nat (length ?x)) d = Some (d @ ?x)"
          unfolding d x using n d small fits by (simp add: Array_setpart_eq Let_def x)
        moreover have "put_streams junk ts (d @ ?x) = Some ((d @ ?x) @ drop (unat pos + (2 + unat ?len)) c)"
          by (rule put [rule_format]) (simp only: length_append x d)
        moreover have "?x @ drop (unat pos + (2 + unat ?len)) c = drop (unat pos) c"
          using append_take_drop_id [of "unat ?len + 2" "drop (unat pos) c"] by (simp add: add_ac)
        ultimately show ?thesis using x_out by simp
      qed
      with ts show ?thesis by (intro exI [of _ "s # ts"]) simp
    qed
  qed
  with assms show ?thesis by blast
qed

lemma image_round_trip:
  assumes "Image_fromArray c = Some (Some ss)" and "length c < 2 ^ 16"
  shows "Image_toArray junk ss = Some c"
proof -
  let ?n = "of_nat (length c) :: 16 word"
  from assms(1) have c: "10 \<le> length c" "take 8 c = Image_magic" "c ! 8 = hi8 ?n" "c ! 9 = lo8 ?n"
    and lp: "Image_fromArray_lp c 10 [] = Some (Some ss)"
    by (auto simp: Image_fromArray_def split: if_splits)
  have "drop 8 c = hi8 ?n # lo8 ?n # drop 10 c"
    using c(1,3,4) Cons_nth_drop_Suc [of 8 c] Cons_nth_drop_Suc [of 9 c] by simp
  then have all: "c = Image_magic @ [hi8 ?n, lo8 ?n] @ drop 10 c"
    using append_take_drop_id [of 8 c] c(2) by simp
  let ?d = "Image_magic @ map junk [8..<10]"
  have d: "length ?d = unat (10 :: 16 word)" by (simp add: Image_magic_def)
  have "put_streams junk ss ?d = Some (?d @ drop 10 c)"
    using Image_lp_round_trip [OF lp assms(2), of junk] c(1) d by auto
  moreover have "length (?d @ drop 10 c) = length c" using c(1) by (simp add: Image_magic_def)
  moreover have "(?d @ drop 10 c)[8 := hi8 ?n, 9 := lo8 ?n] = c"
    using all by (simp add: Image_magic_def upt_rec)
  ultimately show ?thesis
    unfolding Image_toArray_def by simp
qed

end
