(* ===== verification/LoadingProofs.thy ===== *)
theory LoadingProofs
  imports Loading ImageProofs ManagementProofs
begin

text \<open>
  Loading proved correct on every device whose memory behaves as \<open>memory_device\<close> of theory
  \<open>Layer7Proofs\<close> says; and what the checks of an image guarantee.
\<close>

section \<open>Memory after a sequence of writes\<close>

lemma store_cells_nat:
  assumes "base + length xs \<le> 2 ^ 16" and "a < 2 ^ 16"
  shows "store_cells (of_nat base) xs m (of_nat a) = (if base \<le> a \<and> a < base + length xs then xs ! (a - base) else m (of_nat a))"
proof (cases "xs = []")
  case True
  then show ?thesis by (auto simp: store_cells_def)
next
  case False
  with assms have base: "base < 2 ^ 16" by (cases xs) auto
  have u: "unat (of_nat a :: 16 word) = a" "unat (of_nat base :: 16 word) = base"
    using assms base by (simp_all add: unat_of_nat)
  show ?thesis
  proof (cases "base \<le> a")
    case True
    then have "unat (of_nat a - of_nat base :: 16 word) = a - base"
      by (subst unat_sub_le) (simp_all add: word_le_nat_alt u)
    with True show ?thesis by (auto simp: store_cells_def)
  next
    case below: False
    have "unat (of_nat a - of_nat base :: 16 word) + base = a + 2 ^ 16"
      using below base u by (subst unat_sub_if') simp
    with assms have "length xs \<le> unat (of_nat a - of_nat base :: 16 word)" by simp
    with below show ?thesis by (simp add: store_cells_def)
  qed
qed

lemma cells_stored:
  assumes cells: "cells m addr (length xs) = xs" and small: "length xs \<le> 2 ^ 16"
    and others: "\<And>a. a \<notin> (\<lambda>k. addr + of_nat k) ` {..<length xs} \<Longrightarrow> m a = m0 a"
  shows "m = store_cells addr xs m0"
proof
  fix a
  let ?k = "unat (a - addr)"
  have a: "a = addr + of_nat ?k" by simp
  show "m a = store_cells addr xs m0 a"
  proof (cases "?k < length xs")
    case True
    then have "m (addr + of_nat ?k) = xs ! ?k"
      using cells_nth [of ?k "length xs" m addr] cells by metis
    with a True show ?thesis by (simp add: store_cells_def)
  next
    case False
    have "a \<notin> (\<lambda>k. addr + of_nat k) ` {..<length xs}"
    proof
      assume "a \<in> (\<lambda>k. addr + of_nat k) ` {..<length xs}"
      then obtain k where "a = addr + of_nat k" "k < length xs" by auto
      moreover from this small have "unat (of_nat k :: 16 word) = k" by (simp add: unat_of_nat)
      ultimately show False using False by simp
    qed
    from others [OF this] False show ?thesis by (simp add: store_cells_def)
  qed
qed

lemma device_stores_block:
  assumes "memory_device b limit ok mem" "12 \<le> limit" "ok d" "length xs \<le> 2 ^ 16"
  obtains v d1 where "X_Memory_Write_Block junk junk' b addr xs d = Some (v, d1)" "ok d1"
    "v = 0 \<Longrightarrow> mem d1 = store_cells addr xs (mem d)"
    "\<And>a. length xs \<le> unat (a - addr) \<Longrightarrow> mem d1 a = mem d a"
    "memory_writable b ok mem \<Longrightarrow> v = 0"
proof -
  obtain d1 where d1: "X_Memory_Write_Block junk junk' b addr xs d = Some (write_result (mem d1) addr xs, d1)" "ok d1"
    "\<And>a. a \<notin> (\<lambda>k. addr + of_nat k) ` {..<length xs} \<Longrightarrow> mem d1 a = mem d a"
    "memory_writable b ok mem \<Longrightarrow> write_result (mem d1) addr xs = 0"
    using device_write_block [OF assms] by metis
  show thesis
  proof (rule that [OF d1(1,2)])
    assume "write_result (mem d1) addr xs = 0"
    then have "cells (mem d1) addr (length xs) = xs" by (simp add: write_result_def split: if_splits)
    then show "mem d1 = store_cells addr xs (mem d)" by (rule cells_stored [OF _ assms(4) d1(3)])
  next
    fix a assume far: "length xs \<le> unat (a - addr)"
    show "mem d1 a = mem d a"
    proof (rule d1(3), rule notI)
      assume "a \<in> (\<lambda>k. addr + of_nat k) ` {..<length xs}"
      then obtain k where "a = addr + of_nat k" "k < length xs" by auto
      moreover from this assms(4) have "unat (of_nat k :: 16 word) = k" by (simp add: unat_of_nat)
      ultimately show False using far by simp
    qed
  qed (rule d1(4))
qed

text \<open>The memory after the first writes of a list.\<close>

definition after_writes :: "(BCU_LOAD_RESULT \<times> memaddr_t \<times> CArray option) list \<Rightarrow> (memaddr_t \<Rightarrow> uchar) \<Rightarrow> memaddr_t \<Rightarrow> uchar" where
  "after_writes ws m = fold (\<lambda>(r, addr, part). store_cells addr (the part)) ws m"

definition writes_ok :: "(BCU_LOAD_RESULT \<times> memaddr_t \<times> CArray option) list \<Rightarrow> bool" where
  "writes_ok ws \<longleftrightarrow> (\<forall>(r, addr, part) \<in> set ws. part \<noteq> None \<and> length (the part) \<le> 2 ^ 16)"

lemma write_all_device:
  assumes "memory_device b limit ok mem" "12 \<le> limit"
  shows "ok d \<Longrightarrow> writes_ok ws \<Longrightarrow>
    (\<exists>d1 d'. ok d1 \<and> mem d1 = after_writes ws (mem d) \<and> A_Restart junk b d1 = Some d' \<and>
      write_all junk junk' b ws d = Some (IMG_LOADED, d')) \<or>
    (\<exists>n d'. \<not> memory_writable b ok mem \<and> n < length ws \<and> ok d' \<and> write_all junk junk' b ws d = Some (fst (ws ! n), d') \<and>
      (\<forall>a. length (the (snd (snd (ws ! n)))) \<le> unat (a - fst (snd (ws ! n))) \<longrightarrow> mem d' a = after_writes (take n ws) (mem d) a))"
proof (induction ws arbitrary: d)
  case Nil
  obtain d' where "A_Restart junk b d = Some d'" using A_Restart_total by metis
  with Nil show ?case by (intro disjI1) (auto simp: restart_device_def after_writes_def)
next
  case (Cons w ws)
  obtain r addr xs where w: "w = (r, addr, Some xs)" "length xs \<le> 2 ^ 16" and ws: "writes_ok ws"
    using Cons.prems(2) by (cases w) (auto simp: writes_ok_def)
  obtain v d1 where v: "X_Memory_Write_Block junk junk' b addr xs d = Some (v, d1)" "ok d1"
    "v = 0 \<Longrightarrow> mem d1 = store_cells addr xs (mem d)" "\<And>a. length xs \<le> unat (a - addr) \<Longrightarrow> mem d1 a = mem d a"
    "memory_writable b ok mem \<Longrightarrow> v = 0"
    by (rule device_stores_block [OF assms Cons.prems(1) w(2)]) blast
  show ?case
  proof (cases "v = 0")
    case True
    then have step: "write_all junk junk' b (w # ws) d = write_all junk junk' b ws d1"
      by (simp add: w(1) write_or_def v(1))
    have after: "after_writes ws' (mem d1) = after_writes (w # ws') (mem d)" for ws'
      by (simp add: after_writes_def w(1) v(3) [OF True])
    from Cons.IH [OF v(2) ws] show ?thesis
    proof (elim disjE exE conjE, goal_cases)
      case (1 d2 d')
      then show ?thesis unfolding step after by blast
    next
      case (2 n d')
      then show ?thesis unfolding step after by (intro disjI2 exI [of _ "Suc n"] exI [of _ d']) simp
    qed
  next
    case False
    then have "write_all junk junk' b (w # ws) d = Some (r, d1)"
      by (simp add: w(1) write_or_def v(1))
    with False v w show ?thesis
      by (intro disjI2 exI [of _ 0] exI [of _ d1]) (auto simp: after_writes_def)
  qed
qed

section \<open>BCU1 images\<close>

lemma store_cells_base:
  assumes "addr = of_nat base" and "base + length xs \<le> 2 ^ 16" and "a < 2 ^ 16"
  shows "store_cells addr xs m (of_nat a) = (if base \<le> a \<and> a < base + length xs then xs ! (a - base) else m (of_nat a))"
  unfolding assms(1) by (rule store_cells_nat [OF assms(2,3)])

lemma code_part_inside: "f + n \<le> length code \<Longrightarrow> code_part code (int f) (int n) = Some (take n (drop f code))"
  by (auto simp: code_part_def)

lemma bcu1_writes_parts:
  assumes "0x19 \<le> length code"
  shows "bcu1_writes code =
     [(IMG_CLEAR_ERROR, 0x010d, Some [0]),
      (IMG_RESET_ADDR_TAB, 0x0116, Some [1]),
      (IMG_LOAD_HEADER, 0x0100, Some [0xff]),
      (IMG_LOAD_HEADER, 0x0103, Some (take 10 (drop 3 code))),
      (IMG_LOAD_HEADER, 0x010E, Some (take 8 (drop 0x0E code))),
      (IMG_LOAD_MAIN, 0x119, Some (drop 0x19 code)),
      (IMG_LOAD_MAIN, 0x0100, Some [code ! 0]),
      (IMG_ZERO_RAM, 0x00ce, Some (replicate 18 0)),
      (IMG_FINALIZE_ADDR_TAB, 0x0116, Some [code ! 0x16]),
      (IMG_PREPARE_RUN, 0x010d, Some [0xff])]"
proof -
  have one: "take 1 (drop k code) = [code ! k]" if "k < length code" for k
    using that by (simp add: take_Suc hd_drop_conv_nth)
  from assms have "code \<noteq> []" by auto
  with assms one [of 22] one [of 0] code_part_inside [of 3 10 code] code_part_inside [of 14 8 code] code_part_inside [of 25 "length code - 25" code]
    code_part_inside [of 0 1 code] code_part_inside [of 22 1 code]
  show ?thesis unfolding bcu1_writes_def by (simp add: of_nat_diff)
qed

lemma bcu1_writes_ok: "0x19 \<le> length code \<Longrightarrow> length code \<le> 0xfe \<Longrightarrow> writes_ok (bcu1_writes code)"
  by (simp add: bcu1_writes_parts writes_ok_def)

lemma after_bcu1:
  assumes len: "0x19 \<le> length code" "length code \<le> 0xfe" and a: "a < 2 ^ 16"
  shows "after_writes (bcu1_writes code) m (of_nat a) =
    (if a = 0x10d then 0xff
     else if 0xce \<le> a \<and> a < 0xe0 then 0
     else if 0x100 \<le> a \<and> a < 0x100 + length code \<and> a - 0x100 \<notin> {1, 2, 0x17, 0x18} then code ! (a - 0x100)
     else m (of_nat a))"
proof -
  have w0: "store_cells 0x10d [v] m' (of_nat a) = (if a = 0x10d then v else m' (of_nat a))" for v :: uchar and m'
    using store_cells_base [where addr = "0x10d" and base = "0x10d" and xs = "[v]" and a = a and m = m'] len a by (auto split: if_splits)
  have w1: "store_cells 0x116 [v] m' (of_nat a) = (if a = 0x116 then v else m' (of_nat a))" for v :: uchar and m'
    using store_cells_base [where addr = "0x116" and base = "0x116" and xs = "[v]" and a = a and m = m'] len a by (auto split: if_splits)
  have w2: "store_cells 0x100 [v] m' (of_nat a) = (if a = 0x100 then v else m' (of_nat a))" for v :: uchar and m'
    using store_cells_base [where addr = "0x100" and base = "0x100" and xs = "[v]" and a = a and m = m'] len a by (auto split: if_splits)
  have w3: "store_cells 0x103 (take 10 (drop 3 code)) m' (of_nat a) = (if 0x103 \<le> a \<and> a < 0x10d then code ! (a - 0x100) else m' (of_nat a))" for v :: uchar and m'
    using store_cells_base [where addr = "0x103" and base = "0x103" and xs = "(take 10 (drop 3 code))" and a = a and m = m'] len a by (auto split: if_splits)
  have w4: "store_cells 0x10e (take 8 (drop 0xe code)) m' (of_nat a) = (if 0x10e \<le> a \<and> a < 0x116 then code ! (a - 0x100) else m' (of_nat a))" for v :: uchar and m'
    using store_cells_base [where addr = "0x10e" and base = "0x10e" and xs = "(take 8 (drop 0xe code))" and a = a and m = m'] len a by (auto split: if_splits)
  have w5: "store_cells 0x119 (drop 0x19 code) m' (of_nat a) = (if 0x119 \<le> a \<and> a < 0x100 + length code then code ! (a - 0x100) else m' (of_nat a))" for v :: uchar and m'
    using store_cells_base [where addr = "0x119" and base = "0x119" and xs = "(drop 0x19 code)" and a = a and m = m'] len a by (auto split: if_splits)
  have w6: "store_cells 0xce (replicate 18 0) m' (of_nat a) = (if 0xce \<le> a \<and> a < 0xe0 then 0 else m' (of_nat a))" for v :: uchar and m'
    using store_cells_base [where addr = "0xce" and base = "0xce" and xs = "(replicate 18 0)" and a = a and m = m'] len a by (auto split: if_splits)
  show ?thesis
    unfolding bcu1_writes_parts [OF len(1)] after_writes_def using len
    by (auto simp: w0 w1 w2 w3 w4 w5 w6)
qed
lemma prepare_bcu2_type: "prepare_bcu2 u t i code = Some (r, Some b) \<Longrightarrow> im_BCUType b = t \<and> im_code b = code"
  by (auto simp: prepare_bcu2_def Let_def split: if_splits option.splits str_stream.splits)

lemma check_bcu1_length:
  "check_bcu1 i code = IMG_IMAGE_LOADABLE \<Longrightarrow> 0x18 \<le> length code \<and> length code \<le> 0xfe"
  by (auto simp: check_bcu1_def word_le_nat_alt word_less_nat_alt split: option.splits str_stream.splits if_splits)

lemma prepared_bcu1:
  assumes "PrepareLoadImage u k im = Some (r, Some i)" and "im_BCUType i = B_bcu1"
  shows "0x19 \<le> length (im_code i) \<and> length (im_code i) \<le> 0xfe"
proof -
  obtain img code where "prepare_bcu1 k img code = Some (r, Some i)"
    using assms by (auto simp: PrepareLoadImage_def split: option.splits str_stream.splits if_splits dest!: prepare_bcu2_type)
  then show ?thesis
    using check_bcu1_length [of img code]
    by (auto simp: prepare_bcu1_def Let_def code_addr_def rd_def split: if_splits option.splits)
qed

lemma LoadImage_bcu1:
  assumes "PrepareLoadImage u k im = Some (r, Some i)" "im_BCUType i = B_bcu1"
    and "l4_open b (im_addr i) d = (True, d1)" "A_Device_Descriptor_Read junk b 0 d1 = Some (Some 0x0012, d2)"
    and "write_all junk junk' b (bcu1_writes (im_code i)) d2 = Some (r', d3)"
  shows "LoadImage u k junk junk' b (t0 # t1 # im) d = Some ([load_answer r'], l4_close b d3)"
  using assms by (simp add: LoadImage_def load_device_def bcu_maskver_def load_bcu1_def)

text \<open>The memory a loaded program leaves: all of its code but the cells the device keeps for itself,
  the RAM of the user cleared and the error flags reset.\<close>

definition bcu1_loaded :: "CArray \<Rightarrow> (memaddr_t \<Rightarrow> uchar) \<Rightarrow> (memaddr_t \<Rightarrow> uchar) \<Rightarrow> bool" where
  "bcu1_loaded code m0 m \<longleftrightarrow>
     (\<forall>k < length code. k \<notin> {1, 2, 0xd, 0x17, 0x18} \<longrightarrow> m (of_nat (0x100 + k)) = code ! k) \<and>
     m 0x10d = 0xff \<and> (\<forall>a \<in> {0xce..0xdf}. m (of_nat a) = 0) \<and>
     (\<forall>a < 2 ^ 16. a \<notin> {0xce..0xdf} \<union> {0x100..<0x100 + length code} \<union> {0x10d} \<or> a \<in> {0x101, 0x102, 0x117, 0x118} \<longrightarrow>
        m (of_nat a) = m0 (of_nat a))"

lemma after_bcu1_loaded:
  assumes len: "0x19 \<le> length code" "length code \<le> 0xfe"
  shows "bcu1_loaded code m (after_writes (bcu1_writes code) m)"
proof -
  note at = after_bcu1 [OF len, where m = m]
  have "after_writes (bcu1_writes code) m (of_nat (0x100 + k)) = code ! k"
    if "k < length code" "k \<notin> {1, 2, 0xd, 0x17, 0x18}" for k
    using that len by (subst at) auto
  moreover have "after_writes (bcu1_writes code) m 0x10d = 0xff" using at [where a = "0x10d"] by simp
  moreover have "after_writes (bcu1_writes code) m (of_nat a) = 0" if "a \<in> {0xce..0xdf}" for a
    using that by (subst at) auto
  moreover have "after_writes (bcu1_writes code) m (of_nat a) = m (of_nat a)"
    if "a < 2 ^ 16" "a \<notin> {0xce..0xdf} \<union> {0x100..<0x100 + length code} \<union> {0x10d} \<or> a \<in> {0x101, 0x102, 0x117, 0x118}" for a
    using that by (subst at) auto
  ultimately show ?thesis unfolding bcu1_loaded_def by blast
qed

text \<open>While the load is under way the error flags are those of a device that must not run.\<close>

lemma stopped_while_loading:
  assumes len: "0x19 \<le> length code" "length code \<le> 0xfe" and n: "1 \<le> n" "n < 10"
  shows "after_writes (take n (bcu1_writes code)) m 0x10d = 0"
    and "n < 9 \<Longrightarrow> length (the (snd (snd (bcu1_writes code ! n)))) \<le> unat (0x10d - fst (snd (bcu1_writes code ! n)))"
proof -
  have far: "store_cells addr xs m 0x10d = m 0x10d" if "length xs \<le> unat (0x10d - addr)" for addr xs m
    using that by (simp add: store_cells_def)
  have minus_one: "unat (- 1 :: 16 word) = 65535" by (simp add: unsigned_minus_1_eq_mask mask_eq_exp_minus_1)
  from n have "n \<in> {1, 2, 3, 4, 5, 6, 7, 8, 9}" by auto
  then show "after_writes (take n (bcu1_writes code)) m 0x10d = 0"
    unfolding bcu1_writes_parts [OF len(1)] after_writes_def using len
    by (auto simp: far minus_one) (auto simp: store_cells_def minus_one)
  assume "n < 9"
  with \<open>n \<in> {1, 2, 3, 4, 5, 6, 7, 8, 9}\<close>
  show "length (the (snd (snd (bcu1_writes code ! n)))) \<le> unat (0x10d - fst (snd (bcu1_writes code ! n)))"
    unfolding bcu1_writes_parts [OF len(1)] using len minus_one by auto
qed

lemma bcu1_load_outcome:
  assumes "memory_device b limit ok mem" "12 \<le> limit"
    and "PrepareLoadImage u k im = Some (r, Some i)" "im_BCUType i = B_bcu1"
    and "l4_open b (im_addr i) d = (True, d1)" "A_Device_Descriptor_Read junk b 0 d1 = Some (Some 0x0012, d2)" "ok d2"
  shows "\<exists>r' d3 d4. LoadImage u k junk junk' b (t0 # t1 # im) d = Some ([load_answer r'], l4_close b d4) \<and> ok d3 \<and>
    (r' = IMG_LOADED \<longrightarrow> bcu1_loaded (im_code i) (mem d2) (mem d3) \<and> A_Restart junk b d3 = Some d4) \<and>
    (memory_writable b ok mem \<longrightarrow> r' = IMG_LOADED) \<and>
    (r' \<notin> {IMG_CLEAR_ERROR, IMG_PREPARE_RUN, IMG_LOADED} \<longrightarrow> d4 = d3 \<and> mem d3 0x10d = 0)"
proof -
  let ?ws = "bcu1_writes (im_code i)"
  note len = prepared_bcu1 [OF assms(3,4)]
  note load = LoadImage_bcu1 [OF assms(3-6)]
  have "writes_ok ?ws" using len by (intro bcu1_writes_ok) simp_all
  from write_all_device [OF assms(1,2,7) this, of junk junk'] show ?thesis
  proof (elim disjE exE conjE, goal_cases)
    case (1 d3 d4)
    then show ?thesis
      using load [OF 1(4), of t0 t1] after_bcu1_loaded [of "im_code i" "mem d2"] len
      by (intro exI [of _ IMG_LOADED] exI [of _ d3] exI [of _ d4]) simp
  next
    case (2 n d3)
    have n: "n < 10" using 2(2) len by (simp add: bcu1_writes_parts)
    have results: "fst (?ws ! n) = [IMG_CLEAR_ERROR, IMG_RESET_ADDR_TAB, IMG_LOAD_HEADER, IMG_LOAD_HEADER, IMG_LOAD_HEADER,
        IMG_LOAD_MAIN, IMG_LOAD_MAIN, IMG_ZERO_RAM, IMG_FINALIZE_ADDR_TAB, IMG_PREPARE_RUN] ! n"
      unfolding bcu1_writes_def using n by (auto simp: less_Suc_eq numeral_eq_Suc)
    have stop: "mem d3 0x10d = 0" if "1 \<le> n" "n < 9"
      using 2(5) stopped_while_loading [of "im_code i" n] len that n by simp
    have "n = 0 \<or> n = 9 \<or> 1 \<le> n \<and> n < 9" using n by auto
    then show ?thesis
      using load [OF 2(4), of t0 t1] 2(1,3) stop
      by (intro exI [of _ "fst (?ws ! n)"] exI [of _ d3]) (auto simp: results nth_Cons split: nat.splits)
  qed
qed

section \<open>BCU2 images\<close>

definition region :: "segment \<Rightarrow> nat set" where
  "region s = {unat (fst s)..<unat (fst s) + unat (snd s)}"

definition disjoint_segments :: "segment list \<Rightarrow> bool" where
  "disjoint_segments = sorted_wrt (\<lambda>x y. region x \<inter> region y = {})"

lemma overlap_iff: "overlap start len s \<longleftrightarrow> region s \<inter> region (start, len) \<noteq> {}" if "len \<noteq> 0" "snd s \<noteq> 0"
proof -
  have len: "0 < unat len" "0 < unat (snd s)" using that by (simp_all add: unat_gt_0)
  show ?thesis
  proof
    assume "overlap start len s"
    then have "unat start \<in> region s \<inter> region (start, len) \<or> unat (fst s) \<in> region s \<inter> region (start, len)"
      using len by (auto simp: overlap_def region_def split: prod.splits)
    then show "region s \<inter> region (start, len) \<noteq> {}" by blast
  next
    assume "region s \<inter> region (start, len) \<noteq> {}"
    then show "overlap start len s" by (auto simp: overlap_def region_def split: prod.splits)
  qed
qed

lemma AddSegmentOverlap_disjoint:
  assumes "disjoint_segments segs" and "\<forall>s \<in> set segs. snd s \<noteq> 0" and "AddSegmentOverlap segs start len = (True, segs')"
  shows "disjoint_segments (segs @ [(start, len)])" "disjoint_segments segs'" "\<forall>s \<in> set segs'. snd s \<noteq> 0"
    "\<forall>x. disjoint_segments (segs' @ x) \<longrightarrow> disjoint_segments (segs @ (start, len) # x)"
proof -
  have empty: "region (start, 0) = {}" by (simp add: region_def)
  from assms(3) have segs': "segs' = (if len = 0 then segs else segs @ [(start, len)])"
    by (auto simp: AddSegmentOverlap_def split: if_splits)
  from assms show disjoint: "disjoint_segments (segs @ [(start, len)])"
    by (cases "len = 0") (auto simp: disjoint_segments_def sorted_wrt_append empty AddSegmentOverlap_def list_ex_iff overlap_iff split: if_splits)
  with assms(1) show "disjoint_segments segs'" by (simp add: segs')
  from assms(2) show "\<forall>s \<in> set segs'. snd s \<noteq> 0" by (auto simp: segs')
  show "\<forall>x. disjoint_segments (segs' @ x) \<longrightarrow> disjoint_segments (segs @ (start, len) # x)"
    by (auto simp: segs' disjoint_segments_def sorted_wrt_append empty)
qed

definition program_segments :: "bcu2_start \<Rightarrow> segment list" where
  "program_segments s1 =
     [(bs_addrtab_start s1, bs_addrtab_size s1), (bs_assoctab_start s1, bs_assoctab_size s1),
      (bs_readonly_start s1, bs_readonly_end s1 - bs_readonly_start s1),
      (bs_eeprom_start s1, bs_eeprom_end s1 - bs_eeprom_start s1),
      (bs_param_start s1, bs_param_end s1 - bs_param_start s1)]"

lemma check_start2_disjoint:
  assumes "check_start2 s1 code = IMG_IMAGE_LOADABLE"
  shows "disjoint_segments (program_segments s1)"
proof -
  obtain g1 g2 g3 g4 g5 where
    g1: "AddSegmentOverlap [] (bs_addrtab_start s1) (bs_addrtab_size s1) = (True, g1)" and
    g2: "AddSegmentOverlap g1 (bs_assoctab_start s1) (bs_assoctab_size s1) = (True, g2)" and
    g3: "AddSegmentOverlap g2 (bs_readonly_start s1) (bs_readonly_end s1 - bs_readonly_start s1) = (True, g3)" and
    g4: "AddSegmentOverlap g3 (bs_eeprom_start s1) (bs_eeprom_end s1 - bs_eeprom_start s1) = (True, g4)" and
    g5: "AddSegmentOverlap g4 (bs_param_start s1) (bs_param_end s1 - bs_param_start s1) = (True, g5)"
    using assms by (auto simp: check_start2_def AddSegmentOverlap_def [of "[]"] Let_def split: if_splits prod.splits)
  have "disjoint_segments []" by (simp add: disjoint_segments_def)
  note a1 = AddSegmentOverlap_disjoint [OF this _ g1, simplified]
  note a2 = AddSegmentOverlap_disjoint [OF a1(2,3) g2]
  note a3 = AddSegmentOverlap_disjoint [OF a2(2,3) g3]
  note a4 = AddSegmentOverlap_disjoint [OF a3(2,3) g4]
  note a5 = AddSegmentOverlap_disjoint [OF a4(2,3) g5]
  show ?thesis
    unfolding program_segments_def using a5(1) a4(4) a3(4) a2(4) a1(4) by simp
qed

lemma prepared_segments:
  assumes "PrepareLoadImage u k im = Some (r, Some i)" and "im_BCUType i \<noteq> B_bcu1"
  shows "\<exists>s1. im_load i = load_requests u s1 (im_code i) \<and> disjoint_segments (program_segments s1) \<and>
    unat (bs_param_end s1) \<le> 0x100 + length (im_code i) \<and> 0x19 \<le> length (im_code i) \<and> length (im_keys i) = 3"
proof -
  obtain t img code where "prepare_bcu2 u t img code = Some (r, Some i)"
    using assms by (auto simp: PrepareLoadImage_def prepare_bcu1_def Let_def split: option.splits str_stream.splits if_splits)
  then obtain s1 where s1: "check_start2 s1 code = IMG_IMAGE_LOADABLE" "im_load i = load_requests u s1 code" "im_code i = code"
    and a: "code_addr code \<noteq> None" and keys: "length (im_keys i) = 3"
    by (auto simp: prepare_bcu2_def image_keys_def Let_def split: if_splits option.splits str_stream.splits)
  have "unat (bs_param_end s1) \<le> 0x100 + length code"
    using s1(1) by (auto simp: check_start2_def Let_def split: if_splits prod.splits)
  moreover have "0x19 \<le> length code"
    using a by (auto simp: code_addr_def rd_def split: if_splits)
  ultimately show ?thesis using check_start2_disjoint [OF s1(1)] s1(2,3) keys by blast
qed

section \<open>What the checks do not catch\<close>

text \<open>A text segment of 0x18 bytes is accepted, but the address of the device is read behind it.\<close>

lemma address_behind_code:
  "check_bcu1 i code = IMG_IMAGE_LOADABLE \<Longrightarrow> length code = 0x18 \<Longrightarrow> prepare_bcu1 k i code = None"
  by (simp add: prepare_bcu1_def code_addr_def rd_def)

text \<open>The association table need not lie in the text segment: the load reads behind the code.\<close>

definition far_table :: bcu2_start where
  "far_table = \<lparr>bs_addrtab_start = 0x116, bs_addrtab_size = 5, bs_assoctab_start = 0x4000, bs_assoctab_size = 3,
     bs_readonly_start = 0x120, bs_readonly_end = 0x120, bs_param_start = 0x120, bs_param_end = 0x120,
     bs_obj_ptr = 0, bs_obj_count = 0, bs_appcallback = 0, bs_groupobj_ptr = 0, bs_seg0 = 0, bs_seg1 = 0,
     bs_sphandler = 0, bs_initaddr = 0, bs_runaddr = 0, bs_saveaddr = 0, bs_eeprom_start = 0x120, bs_eeprom_end = 0x120,
     bs_poll_addr = 0, bs_poll_slot = 0\<rparr>"

lemma assoctab_behind_code:
  assumes "0x20 \<le> length code" and "length code \<le> 0x36f"
  shows "check_start2 far_table code = IMG_IMAGE_LOADABLE"
    and "\<exists>l \<in> set (load_requests u far_table code). lr_memaddr l = 0x4000 \<and>
      code_part code (int (unat (lr_memaddr l)) - 0x100) (int (unat (lr_len l))) = None"
proof -
  show "check_start2 far_table code = IMG_IMAGE_LOADABLE"
    using assms by (simp add: check_start2_def far_table_def AddSegmentOverlap_def overlap_def)
  show "\<exists>l \<in> set (load_requests u far_table code). lr_memaddr l = 0x4000 \<and>
      code_part code (int (unat (lr_memaddr l)) - 0x100) (int (unat (lr_len l))) = None"
    using assms
    by (simp add: load_requests_def unload_requests_def addrtab_requests_def assoctab_requests_def Let_def far_table_def code_part_def)
qed

text \<open>An image whose last stream has no data is written but not read back.\<close>

lemma empty_last_stream:
  "Image_toArray junk [STR_Code []] = Some (Image_magic @ [0, 14, 0, 2, 0, 1])"
  "Image_fromArray (Image_magic @ [0, 14, 0, 2, 0, 1]) = Some None"
proof -
  have "put_stream junk 2 [0, 1] [] = Some [0, 2, 0, 1]"
    by (subst put_stream_exact) (simp_all add: hi8_def lo8_def)
  then show "Image_toArray junk [STR_Code []] = Some (Image_magic @ [0, 14, 0, 2, 0, 1])"
    by (simp add: Image_toArray_def STR_Code_toArray_def two_def hi8_def lo8_def Image_magic_def upt_rec
        Array_setpart_eq Let_def)
  show "Image_fromArray (Image_magic @ [0, 14, 0, 2, 0, 1]) = Some None"
    by (simp add: Image_fromArray_def Image_magic_def hi8_def lo8_def Image_fromArray_lp.simps)
qed

text \<open>A list parameter without elements is never read as a list parameter.\<close>

lemma no_empty_list_parameter: "STR_ListParameter_init c \<noteq> Some (Some (STR_ListParameter a n []))"
proof
  assume init: "STR_ListParameter_init c = Some (Some (STR_ListParameter a n []))"
  then obtain d where d: "d + 1 \<le> length c - 1" "9 \<le> length c"
    "list_elements c (unat (mk16 (c ! 6) (c ! 7))) (d + 1) = Some (Some ([], length c))"
    by (auto simp: STR_ListParameter_init_def not_less split: if_splits option.splits)
  from list_elements_bytes [OF d(3)] have "drop (d + 1) c = []" by (simp add: elements_bytes_def)
  with d(1,2) show False by simp
qed

text \<open>A long name leaves the buffer of \<open>decode\<close>.\<close>

lemma decode_long_name: "200 \<le> length name \<Longrightarrow> STR_GroupObject_decode k name = None"
  by (simp add: STR_GroupObject_decode_def sprintf_buf_def c_str_def)

end
