(* ===== verification/LoadingProps.thy ===== *)
theory LoadingProps
  imports LoadingProofs ManagementProps
begin

text \<open>
  Memory images and the load of an image into a device. The witnesses load a small image into
  \<open>sample_bcu1\<close>, a bus with one device.
\<close>

section \<open>An image and a device\<close>

definition sample_code :: CArray where
  "sample_code = [0, 0, 0, 1, 2, 3, 4, 5, 8, 9, 10, 11, 12, 13, 14, 15, 16, 17, 18, 19, 20, 21, 1, 0x11, 5]"

definition sample_image :: CArray where
  "sample_image = Image_magic @ [0, 57] @ [0, 4, 0, 100, 0, 0x12] @ [0, 27, 0, 1] @ sample_code @
     [0, 10, 0, 2, 0, 25, 0, 0, 0, 0, 0, 0]"

lemma sample_image_streams:
  "Image_fromArray sample_image = Some (Some [STR_BCUType 0x12, STR_Code sample_code, STR_BCU1Size 25 0 0 0])"
  by (simp add: Image_fromArray_def sample_image_def sample_code_def Image_magic_def hi8_def lo8_def mk16_def
    Image_fromArray_lp.simps STR_Stream_fromArray_def STR_select_def STR_BCUType_init_def STR_Code_init_def STR_BCU1Size_init_def)
definition sample_bcu1 :: "device bus" where
  "sample_bcu1 = (sample_bus 15 [] (\<lambda>_. 0))
     \<lparr>l4_send := (\<lambda>c d. if c = [0x03, 0x00] then (fst d, Some [0x03, 0x40, 0x00, 0x12]) else sample_send 15 [] (\<lambda>_. 0) c d)\<rparr>"

lemma sample_bcu1_memory: "memory_device sample_bcu1 15 idle fst" "memory_writable sample_bcu1 idle fst"
proof -
  have "l4_send sample_bcu1 (0x02 # c) = l4_send (sample_bus 15 [] (\<lambda>_. 0)) (0x02 # c)"
    "l4_get sample_bcu1 = l4_get (sample_bus 15 [] (\<lambda>_. 0))" for c
    by (simp_all add: sample_bcu1_def sample_bus_def fun_eq_iff)
  with sample_memory [of 15 "[]" "\<lambda>_. 0"] sample_writable [of 15 "[]" "\<lambda>_. 0"]
  show "memory_device sample_bcu1 15 idle fst" "memory_writable sample_bcu1 idle fst"
    by (simp_all add: memory_device_def memory_writable_def)
qed

text \<open>The same device with a memory that does not take what is written.\<close>

definition rom_bcu1 :: "device bus" where
  "rom_bcu1 = sample_bcu1
     \<lparr>l4_send := (\<lambda>c d. case APDU_fromPacket c of A_Memory_Write_PDU n addr xs \<Rightarrow> (fst d, None) | _ \<Rightarrow> l4_send sample_bcu1 c d)\<rparr>"

lemma rom_bcu1_memory: "memory_device rom_bcu1 15 idle fst"
proof -
  have get: "l4_get rom_bcu1 = l4_get sample_bcu1" by (simp add: rom_bcu1_def)
  have read: "l4_send rom_bcu1 [0x02, of_nat n, hi8 addr, lo8 addr] = l4_send sample_bcu1 [0x02, of_nat n, hi8 addr, lo8 addr]"
    if "n < 16" for n addr
    using memory_request_parse [OF that, of addr] by (simp add: rom_bcu1_def fun_eq_iff)
  have stores: "l4_send rom_bcu1 ([0x02, 0x80 OR of_nat (length xs), hi8 addr, lo8 addr] @ xs) d = (fst d, None)"
    if "length xs < 16" for xs addr d
    using memory_write_parse [OF that, of addr] by (simp add: rom_bcu1_def)
  from sample_bcu1_memory(1) show ?thesis
    unfolding memory_device_def get by (auto simp: read stores idle_def simp del: append_Cons append_Nil)
qed

lemma descriptor_answer:
  "l4_get b (l4_send b [0x03, 0x00] d) = (Some [0x03, 0x40, 0x00, 0x12], d') \<Longrightarrow>
   A_Device_Descriptor_Read junk b 0 d = Some (Some 0x0012, d')"
proof -
  assume get: "l4_get b (l4_send b [0x03, 0x00] d) = (Some [0x03, 0x40, 0x00, 0x12], d')"
  have "APDU_fromPacket [0x03, 0x40, 0x00, 0x12] = A_DeviceDescriptor_Response_PDU 0 0x12" by code_simp
  moreover have "APDU_isResponse (A_DeviceDescriptor_Response_PDU 0 0x12) (A_DeviceDescriptor_Read_PDU 0)" by code_simp
  moreover have "APDU_ToPacket junk (A_DeviceDescriptor_Read_PDU 0) = Some [0x03, 0x00]"
    by (simp add: A_DeviceDescriptor_Read_ToPacket_def)
  ultimately show ?thesis
    using get by (simp add: A_Device_Descriptor_Read_def Request_Response_def answer_part_def device_descriptor_def Let_def)
qed

lemma sample_prepared:
  "PrepareLoadImage u k sample_image =
     Some (IMG_IMAGE_LOADABLE, Some \<lparr>im_BCUType = B_bcu1, im_code = sample_code, im_load = [], im_addr = 0x1105,
       im_installkey = k, im_keys = []\<rparr>)"
  unfolding PrepareLoadImage_def sample_image_streams
  by (simp add: Image_isValid_def Image_findStream_def Image_findStreamNumber_def upt_rec prepare_bcu1_def check_bcu1_def
      sample_code_def code_addr_def rd_def mk16_def)

section \<open>Images\<close>

text \<open>C27: reading a memory image loses nothing. What \<open>Image::fromArray\<close> reads from an array of less than
  64 KiB, valid or invalid streams of all classes, \<open>toArray\<close> writes back as the same array.
\<close>

theorem image_lossless:
  assumes "Image_fromArray c = Some (Some i)" and "length c < 2 ^ 16"
  shows "Image_toArray junk i = Some c"
  by (rule image_round_trip [OF assms])

lemma image_lossless_witness:
  "Image_toArray (\<lambda>_. 7) [STR_BCUType 0x12, STR_Code sample_code, STR_BCU1Size 25 0 0 0] = Some sample_image"
  by (rule image_lossless [OF sample_image_streams]) (simp add: sample_image_def sample_code_def Image_magic_def)

text \<open>C25: a load that reports success has loaded the program. On every device that opens a connection, has the mask version 0x0012,
  answers a read of up to 12 bytes with what its memory holds and changes no other cells in a write than those named,
  \<open>LoadImage\<close> with a BCU1 image that passes the checks answers one message. If it is \<open>IMG_LOADED\<close>, then before the
  restart the device holds the code at 0x100 but for the cells it keeps for itself, the error flags are
  reset, the RAM of the user is cleared and no other cell has changed, the address of the device included.
  And if such a device also stores what is written, the answer is \<open>IMG_LOADED\<close>.
\<close>

theorem loaded_means_loaded:
  assumes "memory_device b limit ok mem" "12 \<le> limit"
    and "PrepareLoadImage u k im = Some (r, Some i)" "im_BCUType i = B_bcu1"
    and "l4_open b (im_addr i) d = (True, d1)" "A_Device_Descriptor_Read junk b 0 d1 = Some (Some 0x0012, d2)" "ok d2"
  shows "\<exists>r' d3 d4. LoadImage u k junk junk' b (t0 # t1 # im) d = Some ([load_answer r'], l4_close b d4) \<and>
    (r' = IMG_LOADED \<longrightarrow> bcu1_loaded (im_code i) (mem d2) (mem d3) \<and> A_Restart junk b d3 = Some d4) \<and>
    (memory_writable b ok mem \<longrightarrow> r' = IMG_LOADED)"
  using bcu1_load_outcome [OF assms] by blast

lemma loaded_means_loaded_witness:
  "\<exists>d3 d4. LoadImage 0 0 (\<lambda>_. 0) (\<lambda>_. 0) sample_bcu1 (0 # 0x63 # sample_image) (\<lambda>_. 0, None) =
      Some ([load_answer IMG_LOADED], l4_close sample_bcu1 d4) \<and>
    bcu1_loaded sample_code (\<lambda>_. 0) (fst d3) \<and> A_Restart (\<lambda>_. 0) sample_bcu1 d3 = Some d4"
proof -
  have limit: "(12 :: nat) \<le> 15" by simp
  have opened: "l4_open sample_bcu1 0x1105 (\<lambda>_. 0, None) = (True, (\<lambda>_. 0, None))"
    by (simp add: sample_bcu1_def sample_bus_def)
  have mask: "A_Device_Descriptor_Read (\<lambda>_. 0) sample_bcu1 0 (\<lambda>_. 0, None) = Some (Some 0x0012, (\<lambda>_. 0, None))"
    by (rule descriptor_answer) (simp add: sample_bcu1_def sample_bus_def)
  have idle: "idle (\<lambda>_. 0, None)" by (simp add: idle_def)
  from loaded_means_loaded [OF sample_bcu1_memory(1) limit sample_prepared [of 0 0], simplified,
      OF opened mask idle, of "\<lambda>_. 0" 0 "0x63"] sample_bcu1_memory(2)
  show ?thesis by simp
qed

text \<open>C26: a load that fails leaves a device that does not run. On every device that opens a connection, has the mask version 0x0012,
  answers a read of up to 12 bytes with what its memory holds and changes no other cells in a write than those named - but
  may store what it likes in these -, when \<open>LoadImage\<close> with a BCU1 image that passes the checks fails after its first
  write, and not in its last, the error flags at 0x10D are 0.
\<close>

theorem failed_load_leaves_stopped:
  assumes "memory_device b limit ok mem" "12 \<le> limit"
    and "PrepareLoadImage u k im = Some (r, Some i)" "im_BCUType i = B_bcu1"
    and "l4_open b (im_addr i) d = (True, d1)" "A_Device_Descriptor_Read junk b 0 d1 = Some (Some 0x0012, d2)" "ok d2"
  shows "\<exists>r' d3. LoadImage u k junk junk' b (t0 # t1 # im) d = Some ([load_answer r'], l4_close b d3) \<and>
    (r' \<in> {IMG_LOADED, IMG_CLEAR_ERROR, IMG_PREPARE_RUN} \<or> mem d3 0x10d = 0)"
  using bcu1_load_outcome [OF assms, of junk' t0 t1] by blast

lemma failed_load_leaves_stopped_witness:
  "\<exists>r' d3. LoadImage 0 0 (\<lambda>_. 0) (\<lambda>_. 0) rom_bcu1 (0 # 0x63 # sample_image) (\<lambda>_. 0, None) =
      Some ([load_answer r'], l4_close rom_bcu1 d3) \<and>
    (r' \<in> {IMG_LOADED, IMG_CLEAR_ERROR, IMG_PREPARE_RUN} \<or> fst d3 0x10d = 0)"
proof -
  have limit: "(12 :: nat) \<le> 15" by simp
  have opened: "l4_open rom_bcu1 0x1105 (\<lambda>_. 0, None) = (True, (\<lambda>_. 0, None))"
    by (simp add: rom_bcu1_def sample_bcu1_def sample_bus_def)
  have "APDU_fromPacket [0x03, 0x00] = A_DeviceDescriptor_Read_PDU 0" by code_simp
  then have mask: "A_Device_Descriptor_Read (\<lambda>_. 0) rom_bcu1 0 (\<lambda>_. 0, None) = Some (Some 0x0012, (\<lambda>_. 0, None))"
    by (intro descriptor_answer) (simp add: rom_bcu1_def sample_bcu1_def sample_bus_def)
  have idle: "idle (\<lambda>_. 0, None)" by (simp add: idle_def)
  from failed_load_leaves_stopped [OF rom_bcu1_memory limit sample_prepared [of 0 0], simplified,
      OF opened mask idle, of "\<lambda>_. 0" 0 "0x63"]
  show ?thesis by simp
qed

text \<open>C28: the segments of a BCU2 image do not overlap. If \<open>PrepareLoadImage\<close> plans the load of a BCU2
  image, then the address table, the association table and the text, EEPROM and parameter segments are
  pairwise disjoint, the parameters end inside the text segment, and there are the three keys the load writes.
\<close>

theorem accepted_segments_disjoint:
  assumes "PrepareLoadImage u k im = Some (r, Some i)" and "im_BCUType i \<noteq> B_bcu1"
  shows "\<exists>s1. im_load i = load_requests u s1 (im_code i) \<and> disjoint_segments (program_segments s1) \<and>
    unat (bs_param_end s1) \<le> 0x100 + length (im_code i) \<and> length (im_keys i) = 3"
  using prepared_segments [OF assms] by blast

definition sample_code2 :: CArray where
  "sample_code2 = [0, 0, 0, 1, 2, 3, 4, 5, 6, 7, 0, 0, 0, 0, 0, 0, 0, 0, 0, 0, 0, 0, 1, 0x11, 5, 0, 1, 2, 3, 4, 5, 6]"

definition sample_start2 :: bcu2_start where
  "sample_start2 = \<lparr>bs_addrtab_start = 0x116, bs_addrtab_size = 4, bs_assoctab_start = 0x11a, bs_assoctab_size = 2,
     bs_readonly_start = 0x11c, bs_readonly_end = 0x11e, bs_param_start = 0x11f, bs_param_end = 0x120,
     bs_obj_ptr = 0, bs_obj_count = 0, bs_appcallback = 0, bs_groupobj_ptr = 0, bs_seg0 = 0, bs_seg1 = 0,
     bs_sphandler = 0, bs_initaddr = 0, bs_runaddr = 0, bs_saveaddr = 0, bs_eeprom_start = 0x11e, bs_eeprom_end = 0x11f,
     bs_poll_addr = 0, bs_poll_slot = 0\<rparr>"

definition sample_image2 :: CArray where
  "sample_image2 = Image_magic @ [0, 115] @ [0, 4, 0, 100, 0, 0x20] @ [0, 34, 0, 1] @ sample_code2 @
     [0, 14, 0, 3, 0, 0x20, 0, 0, 0, 0, 0, 0, 0, 0, 0, 0] @
     [0, 45, 0, 101, 1, 0x16, 0, 4, 1, 0x1a, 0, 2, 1, 0x1c, 1, 0x1e, 1, 0x1f, 1, 0x20, 0, 0, 0, 0, 0, 0, 0, 0, 0, 0, 0, 0,
      0, 0, 0, 0, 0, 0, 0, 0, 1, 0x1e, 1, 0x1f, 0, 0, 0]"

lemma sample_image2_streams:
  "Image_fromArray sample_image2 =
     Some (Some [STR_BCUType 0x20, STR_Code sample_code2, STR_BCU2Size 0x20 0 0 0 0 0, STR_BCU2Start sample_start2])"
  by (simp add: Image_fromArray_def sample_image2_def sample_code2_def sample_start2_def Image_magic_def hi8_def lo8_def mk16_def
    Image_fromArray_lp.simps STR_Stream_fromArray_def STR_select_def STR_BCUType_init_def STR_Code_init_def
    STR_BCU2Size_init_def STR_BCU2Start_init_def)

lemma sample_prepared2:
  "PrepareLoadImage 0 0 sample_image2 =
     Some (IMG_IMAGE_LOADABLE, Some \<lparr>im_BCUType = B_bcu20, im_code = sample_code2,
       im_load = load_requests 0 sample_start2 sample_code2, im_addr = 0x1105,
       im_installkey = 0xFFFFFFFF, im_keys = [0xFFFFFFFF, 0xFFFFFFFF, 0xFFFFFFFF]\<rparr>)"
proof -
  have "check_start2 sample_start2 sample_code2 = IMG_IMAGE_LOADABLE"
    by (simp add: check_start2_def sample_start2_def sample_code2_def AddSegmentOverlap_def overlap_def)
  then show ?thesis
    unfolding PrepareLoadImage_def sample_image2_streams
    by (simp add: Image_isValid_def Image_findStream_def Image_findStreamNumber_def upt_rec prepare_bcu2_def check_size2_def
        image_keys_def sample_code2_def code_addr_def rd_def mk16_def)
qed

lemma accepted_segments_disjoint_witness:
  "\<exists>s1. load_requests 0 sample_start2 sample_code2 = load_requests 0 s1 sample_code2 \<and> disjoint_segments (program_segments s1) \<and>
    unat (bs_param_end s1) \<le> 0x100 + length sample_code2"
  using accepted_segments_disjoint [OF sample_prepared2] by auto

end
