(* ===== verification/FT12.thy ===== *)
theory FT12
  imports Arrays "HOL-Library.Monad_Syntax"
begin

text \<open>
  The FT1.2 driver of a serial bus interface, \<open>eibd/backend/ft12.cpp\<close>: a packet is sent in a frame with
  a sequence flag and repeated until the byte 0xE5 acknowledges it; received frames are acknowledged and
  repetitions recognised by their flag. The loop of \<open>Run\<close> is a sequence of turns. A turn gets the bytes
  that were read, whether the timer has run out and how many bytes of a frame the line takes; what is
  written is recorded. The received bytes are read with checked access (\<open>rd\<close>): \<open>None\<close> is an access
  outside the array, a failed \<open>assert\<close>, or a loop that does not end.
\<close>

section \<open>State\<close>

text \<open>
  The members of the class, the variable \<open>last\<close> of \<open>Run\<close>, and what has been written. \<open>ft_insignal\<close> and
  \<open>ft_outsignal\<close> count semaphores, \<open>ft_sendempty\<close> says whether \<open>send_empty\<close> is not 0.
\<close>

record ft12 =
  ft_sendflag :: bool
  ft_recvflag :: bool
  ft_inqueue :: "CArray list"
  ft_insignal :: nat
  ft_outqueue :: "CArray list"
  ft_outsignal :: nat
  ft_akt :: CArray
  ft_repeatcount :: int
  ft_mode :: int
  ft_sendempty :: bool
  ft_last :: CArray
  ft_wire :: "CArray list"

text \<open>The constructor, when the device could be opened.\<close>

definition FT12_new :: ft12 where
  "FT12_new =
     \<lparr>ft_sendflag = False, ft_recvflag = False, ft_inqueue = [], ft_insignal = 0, ft_outqueue = [], ft_outsignal = 0,
      ft_akt = [], ft_repeatcount = 0, ft_mode = 0, ft_sendempty = True, ft_last = [], ft_wire = []\<rparr>"

section \<open>Operations\<close>

text \<open>\<open>inqueue.put (pdu); pth_sem_set_value (&send_empty, 0); pth_sem_inc (&in_signal, TRUE);\<close>\<close>

definition ft12_put :: "CArray \<Rightarrow> ft12 \<Rightarrow> ft12" where
  "ft12_put pdu s = s\<lparr>ft_inqueue := ft_inqueue s @ [pdu], ft_sendempty := False, ft_insignal := ft_insignal s + 1\<rparr>"

text \<open>The frame around a packet, with its control byte; \<open>c\<close> is the sum of the control byte and the packet.\<close>

definition ft12_frame :: "uchar \<Rightarrow> CArray \<Rightarrow> CArray" where
  "ft12_frame ctl l =
     [0x68, of_nat (length l + 1), of_nat (length l + 1), 0x68, ctl] @ l @ [foldl (+) ctl l, 0x16]"

definition FT12_Send_Packet :: "CArray \<Rightarrow> ft12 \<Rightarrow> ft12 option" where
  "FT12_Send_Packet l s =
     (if \<not> length l \<le> 32 then None
      else Some (ft12_put (ft12_frame (if ft_sendflag s then 0x53 else 0x73) l) (s\<lparr>ft_sendflag := \<not> ft_sendflag s\<rparr>)))"

definition FT12_SendReset :: "ft12 \<Rightarrow> ft12" where
  "FT12_SendReset s = ft12_put [0x10, 0x40, 0x40, 0x16] (s\<lparr>ft_sendflag := False, ft_recvflag := False\<rparr>)"

definition FT12_Send_Queue_Empty :: "ft12 \<Rightarrow> bool" where
  "FT12_Send_Queue_Empty s \<longleftrightarrow> ft_inqueue s = []"

definition FT12_Connection_Lost :: "ft12 \<Rightarrow> bool" where
  "FT12_Connection_Lost s \<longleftrightarrow> ft_repeatcount s > 10"

text \<open>The result is \<open>None\<close> for a stopped wait.\<close>

definition FT12_Get_Packet :: "ft12 \<Rightarrow> (CArray option \<times> ft12) option" where
  "FT12_Get_Packet s =
     (if ft_outsignal s > 0 then
        (case ft_outqueue s of
           [] \<Rightarrow> None
         | c # q \<Rightarrow> Some (Some c, s\<lparr>ft_outqueue := q, ft_outsignal := ft_outsignal s - 1\<rparr>))
      else Some (None, s))"

section \<open>The loop over the bytes received\<close>

text \<open>\<open>outqueue.put (c); pth_sem_inc (&out_signal, TRUE);\<close>\<close>

definition ft12_out :: "CArray \<Rightarrow> ft12 \<Rightarrow> ft12" where
  "ft12_out c s = s\<lparr>ft_outqueue := ft_outqueue s @ [c], ft_outsignal := ft_outsignal s + 1\<rparr>"

definition ft12_write :: "CArray \<Rightarrow> ft12 \<Rightarrow> ft12" where
  "ft12_write c s = s\<lparr>ft_wire := ft_wire s @ [c]\<rparr>"

text \<open>\<open>akt.deletepart (0, n)\<close>\<close>

definition ft12_delete :: "nat \<Rightarrow> ft12 \<Rightarrow> ft12" where
  "ft12_delete n s = s\<lparr>ft_akt := drop n (ft_akt s)\<rparr>"

text \<open>The sequence flag a control byte has.\<close>

definition right_sequence :: "uchar \<Rightarrow> ft12 \<Rightarrow> bool" where
  "right_sequence ctl s \<longleftrightarrow> ctl = 0xF3 \<and> \<not> ft_recvflag s \<or> ctl = 0xD3 \<and> ft_recvflag s"

definition wrong_sequence :: "uchar \<Rightarrow> ft12 \<Rightarrow> bool" where
  "wrong_sequence ctl s \<longleftrightarrow> ctl = 0xF3 \<and> ft_recvflag s \<or> ctl = 0xD3 \<and> \<not> ft_recvflag s"

text \<open>The acknowledgement.\<close>

definition ft12_acked :: "ft12 \<Rightarrow> ft12 option" where
  "ft12_acked s =
     (case ft_inqueue s of
        [] \<Rightarrow> None
      | c # q \<Rightarrow>
          if ft_insignal s = 0 then None
          else Some (s\<lparr>ft_insignal := ft_insignal s - 1, ft_inqueue := q,
            ft_sendempty := (if q = [] then True else ft_sendempty s), ft_akt := drop 1 (ft_akt s), ft_mode := 0, ft_repeatcount := 0\<rparr>))"

text \<open>\<open>p || q\<close> and \<open>p && q\<close>, where \<open>q\<close> is only evaluated when \<open>p\<close> does not decide.\<close>

definition sc_or :: "bool option \<Rightarrow> bool option \<Rightarrow> bool option" where
  "sc_or p q = Option.bind p (\<lambda>b. if b then Some True else q)"

definition sc_and :: "bool option \<Rightarrow> bool option \<Rightarrow> bool option" where
  "sc_and p q = Option.bind p (\<lambda>b. if b then q else Some False)"

text \<open>A frame of four bytes.\<close>

definition ft12_short :: "ft12 \<Rightarrow> ft12 option" where
  "ft12_short s = do {
     let a = ft_akt s;
     a1 \<leftarrow> rd a 1;
     good \<leftarrow> sc_and (map_option (\<lambda>x. a1 = x) (rd a 2)) (map_option (\<lambda>x. x = 0x16) (rd a 3));
     Some (if good then
             let s1 = ft12_write [0xE5] s;
                 s2 = (if right_sequence a1 s1 then s1\<lparr>ft_recvflag := \<not> ft_recvflag s1\<rparr> else s1);
                 s3 = (if a1 AND 0x0f = 0 then ft12_out [0xA0] s2 else s2)
             in ft12_delete 4 s3
           else ft12_delete 4 s)
   }"

text \<open>\<open>for (i = 4; i < akt[1] + 4; i++) c1 += akt[i]\<close>, from position \<open>i\<close> for \<open>n\<close> bytes.\<close>

primrec ft12_sum :: "CArray \<Rightarrow> nat \<Rightarrow> nat \<Rightarrow> uchar \<Rightarrow> uchar option" where
  "ft12_sum a i 0 c = Some c"
| "ft12_sum a i (Suc n) c = Option.bind (rd a i) (\<lambda>x. ft12_sum a (i + 1) n (c + x))"

text \<open>The packet in a frame, \<open>akt[1] - 1\<close> bytes from position 5.\<close>

definition ft12_packet :: "CArray \<Rightarrow> CArray option" where
  "ft12_packet a = do {
     n \<leftarrow> rd a 1;
     if n = 0 \<or> length a < unat n + 4 then None else Some (take (unat n - 1) (drop 5 a))
   }"

text \<open>
  A frame with a packet whose checksum is right. \<open>len\<close> is a local variable without an initial value, and
  is only assigned where the packet is accepted: \<open>u\<close> is the value it has otherwise.
\<close>

definition ft12_long :: "unsigned \<Rightarrow> ft12 \<Rightarrow> ft12 option" where
  "ft12_long u s = do {
     let a = ft_akt s;
     let s1 = ft12_write [0xE5] s;
     ctl \<leftarrow> rd a 4;
     jump \<leftarrow> sc_and (Some (wrong_sequence ctl s1)) (map_option (\<lambda>p. p \<noteq> ft_last s1) (ft12_packet a));
     let s2 = (if jump then s1\<lparr>ft_recvflag := \<not> ft_recvflag s1\<rparr> else s1);
     if right_sequence ctl s2 then do {
       c \<leftarrow> ft12_packet a;
       n \<leftarrow> rd a 1;
       Some (ft12_delete (unat n + 6) (ft12_out c (s2\<lparr>ft_recvflag := \<not> ft_recvflag s2, ft_last := c\<rparr>)))
     }
     else Some (ft12_delete (unat u) s2)
   }"

text \<open>One iteration: \<open>False\<close> is \<open>break\<close>.\<close>

definition ft12_step :: "unsigned \<Rightarrow> ft12 \<Rightarrow> (bool \<times> ft12) option" where
  "ft12_step u s = do {
     let a = ft_akt s;
     a0 \<leftarrow> rd a 0;
     if a0 = 0xE5 \<and> ft_mode s = 1 then map_option (Pair True) (ft12_acked s)
     else if a0 = 0x10 then
       (if length a < 4 then Some (False, s) else map_option (Pair True) (ft12_short s))
     else if a0 = 0x68 then
       (if length a < 7 then Some (False, s)
        else do {
          n \<leftarrow> rd a 1;
          garbled \<leftarrow> sc_or (map_option (\<lambda>x. n \<noteq> x) (rd a 2)) (map_option (\<lambda>x. x \<noteq> 0x68) (rd a 3));
          if garbled then Some (True, ft12_delete 1 s)
          else if length a < unat n + 6 then Some (False, s)
          else do {
            c1 \<leftarrow> ft12_sum a 4 (unat n) 0;
            wrong \<leftarrow> sc_or (map_option (\<lambda>x. x \<noteq> c1) (rd a (unat n + 4))) (map_option (\<lambda>x. x \<noteq> 0x16) (rd a (unat n + 5)));
            if wrong then Some (True, ft12_delete (unat n + 6) s)
            else map_option (Pair True) (ft12_long u s)
          }
        })
     else Some (True, ft12_delete 1 s)
   }"

partial_function (option) ft12_parse :: "(ft12 \<Rightarrow> unsigned) \<Rightarrow> ft12 \<Rightarrow> ft12 option" where
  "ft12_parse u s =
     (if ft_akt s = [] then Some s
      else case ft12_step (u s) s of
             None \<Rightarrow> None
           | Some (go, s1) \<Rightarrow> if go then ft12_parse u s1 else Some s1)"

section \<open>A turn of the thread\<close>

text \<open>
  The end of a turn: the first frame of the queue is written when none waits for its acknowledgement. \<open>n\<close> is the
  number of bytes that \<open>pth_write_ev\<close> writes before it returns, 0 for an error.
\<close>

definition ft12_send :: "nat \<Rightarrow> ft12 \<Rightarrow> ft12" where
  "ft12_send n s =
     (case ft_inqueue s of
        [] \<Rightarrow> s
      | c # q \<Rightarrow>
          if ft_mode s = 0 then
            let s1 = s\<lparr>ft_repeatcount := ft_repeatcount s + 1\<rparr>;
                s2 = (if n = 0 then s1 else ft12_write (take n c) s1)
            in if n \<ge> length c then s2\<lparr>ft_mode := 1\<rparr> else s2
          else s)"

definition ft12_turn :: "(ft12 \<Rightarrow> unsigned) \<Rightarrow> CArray \<Rightarrow> bool \<Rightarrow> nat \<Rightarrow> ft12 \<Rightarrow> ft12 option" where
  "ft12_turn u d expired n s =
     map_option (\<lambda>s1. ft12_send n (if ft_mode s1 = 1 \<and> expired then s1\<lparr>ft_mode := 0\<rparr> else s1))
       (ft12_parse u (s\<lparr>ft_akt := ft_akt s @ take 255 d\<rparr>))"

end
