(* ===== verification/Streams.thy ===== *)
theory Streams
  imports Main "HOL-Library.Sublist"
begin

text \<open>
  Bytes that arrive in pieces: a stream is the concatenation of the encodings of items, and every prefix of it
  consists of complete items and a part of the next one.
\<close>

definition stream_of :: "('a \<Rightarrow> 'b list) \<Rightarrow> 'a list \<Rightarrow> 'b list" where
  "stream_of f its = concat (map f its)"

definition partial_of :: "('a \<Rightarrow> 'b list) \<Rightarrow> 'b list \<Rightarrow> 'a list \<Rightarrow> bool" where
  "partial_of f a its \<longleftrightarrow> a = [] \<or> (\<exists>it its'. its = it # its' \<and> strict_prefix a (f it))"

lemma stream_simps [simp]: "stream_of f [] = []" "stream_of f (it # its) = f it @ stream_of f its"
  "stream_of f (xs @ ys) = stream_of f xs @ stream_of f ys"
  by (simp_all add: stream_of_def)

lemma prefix_of_stream:
  "prefix a (stream_of f its) \<Longrightarrow> \<exists>done part rest. its = done @ rest \<and> a = stream_of f done @ part \<and> partial_of f part rest"
proof (induction its arbitrary: a)
  case Nil
  then show ?case by (intro exI [of _ "[]"]) (simp add: partial_of_def)
next
  case (Cons it its)
  show ?case
  proof (cases "prefix (f it) a")
    case True
    then obtain b where b: "a = f it @ b" by (auto simp: prefix_def)
    with Cons.prems have "prefix b (stream_of f its)" by simp
    from Cons.IH [OF this] obtain "done" part rest where "its = done @ rest" "b = stream_of f done @ part" "partial_of f part rest"
      by blast
    with b show ?thesis by (intro exI [of _ "it # done"]) auto
  next
    case False
    with Cons.prems have "strict_prefix a (f it)"
      by (auto simp: prefix_append strict_prefix_def)
    then show ?thesis
      by (intro exI [of _ "[]"] exI [of _ a] exI [of _ "it # its"]) (simp add: partial_of_def)
  qed
qed

lemma stream_complete:
  assumes "\<And>it. f it \<noteq> []" and "partial_of f (stream_of f rest) rest"
  shows "rest = []"
  using assms by (cases rest) (auto simp: partial_of_def strict_prefix_def)

end
