(* ===== verification/FT12Proofs.thy ===== *)
theory FT12Proofs
  imports FT12 Streams
begin

text \<open>
  The FT1.2 driver: its invariant, that a turn always ends when the uninitialised length is not 0, what it does with a
  stream of frames however the stream is cut into reads, and what it writes for the packets it is given.
\<close>

section \<open>The invariant\<close>

definition ft12_ok :: "ft12 \<Rightarrow> bool" where
  "ft12_ok s \<longleftrightarrow> ft_insignal s = length (ft_inqueue s) \<and> ft_outsignal s = length (ft_outqueue s) \<and>
     ft_mode s \<in> {0, 1} \<and> (ft_mode s = 1 \<longrightarrow> ft_inqueue s \<noteq> []) \<and> ft_sendempty s = (ft_inqueue s = [])"

lemma ft12_ok_new: "ft12_ok FT12_new"
  by (simp add: ft12_ok_def FT12_new_def)

lemma ft12_ok_put: "ft12_ok s \<Longrightarrow> ft12_ok (ft12_put c s)"
  by (simp add: ft12_ok_def ft12_put_def)

lemma ft12_ok_reset: "ft12_ok s \<Longrightarrow> ft12_ok (FT12_SendReset s)"
  by (auto simp: ft12_ok_def ft12_put_def FT12_SendReset_def)

lemma ft12_ok_out: "ft12_ok s \<Longrightarrow> ft12_ok (ft12_out c s)"
  by (simp add: ft12_ok_def ft12_out_def)

lemma ft12_ok_update [simp]:
  "ft12_ok (s\<lparr>ft_akt := a\<rparr>) = ft12_ok s" "ft12_ok (s\<lparr>ft_recvflag := b\<rparr>) = ft12_ok s"
  "ft12_ok (s\<lparr>ft_last := c\<rparr>) = ft12_ok s" "ft12_ok (s\<lparr>ft_sendflag := b\<rparr>) = ft12_ok s"
  "ft12_ok (s\<lparr>ft_repeatcount := n\<rparr>) = ft12_ok s" "ft12_ok (s\<lparr>ft_wire := w\<rparr>) = ft12_ok s"
  by (simp_all add: ft12_ok_def)

lemma ft12_ok_write [simp]: "ft12_ok (ft12_write c s) = ft12_ok s" "ft12_ok (ft12_delete n s) = ft12_ok s"
  by (simp_all add: ft12_write_def ft12_delete_def)

lemma ft12_acked_ok:
  assumes "ft12_ok s" and "ft_mode s = 1"
  obtains s' where "ft12_acked s = Some s'" "ft12_ok s'" "ft_akt s' = drop 1 (ft_akt s)" "ft_inqueue s' = tl (ft_inqueue s)"
    "ft_wire s' = ft_wire s" "ft_mode s' = 0" "ft_recvflag s' = ft_recvflag s" "ft_last s' = ft_last s"
    "ft_outqueue s' = ft_outqueue s" "ft_sendflag s' = ft_sendflag s"
  using assms by (cases "ft_inqueue s") (auto simp: ft12_acked_def ft12_ok_def)

section \<open>One iteration\<close>

text \<open>What the iteration does when the tests of the lengths keep it inside the received bytes.\<close>

lemma ft12_sum_eq: "i + n \<le> length a \<Longrightarrow> ft12_sum a i n c = Some (foldl (+) c (take n (drop i a)))"
proof (induction n arbitrary: i c)
  case (Suc n)
  then have "take (Suc n) (drop i a) = a ! i # take n (drop (Suc i) a)" by (simp add: Cons_nth_drop_Suc [symmetric])
  moreover have "ft12_sum a (i + 1) n (c + a ! i) = Some (foldl (+) (c + a ! i) (take n (drop (i + 1) a)))"
    using Suc.prems by (intro Suc.IH) simp
  ultimately show ?case using Suc.prems by (simp add: rd_def)
qed simp

lemma ft12_short_eq:
  assumes "4 \<le> length (ft_akt s)"
  shows "ft12_short s = Some
    (if ft_akt s ! 1 = ft_akt s ! 2 \<and> ft_akt s ! 3 = 0x16 then
       let s1 = ft12_write [0xE5] s;
           s2 = (if right_sequence (ft_akt s ! 1) s1 then s1\<lparr>ft_recvflag := \<not> ft_recvflag s1\<rparr> else s1);
           s3 = (if ft_akt s ! 1 AND 0x0f = 0 then ft12_out [0xA0] s2 else s2)
       in ft12_delete 4 s3
     else ft12_delete 4 s)"
proof -
  have r: "rd (ft_akt s) 1 = Some (ft_akt s ! 1)" "rd (ft_akt s) 2 = Some (ft_akt s ! 2)" "rd (ft_akt s) 3 = Some (ft_akt s ! 3)"
    using assms by (simp_all add: rd_def)
  show ?thesis
    unfolding ft12_short_def Let_def r sc_and_def option.map bind.bind_lunit
    by (cases "ft_akt s ! 1 = ft_akt s ! 2") (simp_all only: if_True if_False bind.bind_lunit simp_thms)
qed

lemma ft12_packet_eq:
  assumes "7 \<le> length a" and "unat (a ! 1) + 6 \<le> length a"
  shows "ft12_packet a = (if a ! 1 = 0 then None else Some (take (unat (a ! 1) - 1) (drop 5 a)))"
  using assms by (simp add: ft12_packet_def rd_def)

lemma ft12_long_eq:
  assumes "7 \<le> length (ft_akt s)" and "unat (ft_akt s ! 1) + 6 \<le> length (ft_akt s)"
  shows "ft12_long u s =
     (let a = ft_akt s; n = unat (a ! 1); s1 = ft12_write [0xE5] s
      in if wrong_sequence (a ! 4) s1 \<and> n = 0 then None
         else
           let s2 = (if wrong_sequence (a ! 4) s1 \<and> take (n - 1) (drop 5 a) \<noteq> ft_last s1
                     then s1\<lparr>ft_recvflag := \<not> ft_recvflag s1\<rparr> else s1)
           in if right_sequence (a ! 4) s2 then
                if n = 0 then None
                else
                  let c = take (n - 1) (drop 5 a)
                  in Some (ft12_delete (n + 6) (ft12_out c (s2\<lparr>ft_recvflag := \<not> ft_recvflag s2, ft_last := c\<rparr>)))
              else Some (ft12_delete (unat u) s2))"
  using assms(1) by (auto simp: ft12_long_def ft12_packet_eq [OF assms] rd_def sc_and_def Let_def unat_eq_0)

lemma ft12_step_eq:
  assumes "ft_akt s \<noteq> []"
  shows "ft12_step u s =
    (if ft_akt s ! 0 = 0xE5 \<and> ft_mode s = 1 then map_option (Pair True) (ft12_acked s)
     else if ft_akt s ! 0 = 0x10 then
       (if length (ft_akt s) < 4 then Some (False, s) else map_option (Pair True) (ft12_short s))
     else if ft_akt s ! 0 = 0x68 then
       (if length (ft_akt s) < 7 then Some (False, s)
        else if ft_akt s ! 1 \<noteq> ft_akt s ! 2 \<or> ft_akt s ! 3 \<noteq> 0x68 then Some (True, ft12_delete 1 s)
        else if length (ft_akt s) < unat (ft_akt s ! 1) + 6 then Some (False, s)
        else if ft_akt s ! (unat (ft_akt s ! 1) + 4) \<noteq> foldl (+) 0 (take (unat (ft_akt s ! 1)) (drop 4 (ft_akt s))) \<or>
          ft_akt s ! (unat (ft_akt s ! 1) + 5) \<noteq> 0x16
        then Some (True, ft12_delete (unat (ft_akt s ! 1) + 6) s)
        else map_option (Pair True) (ft12_long u s))
     else Some (True, ft12_delete 1 s))"
proof -
  have r: "rd (ft_akt s) i = Some (ft_akt s ! i)" if "i < length (ft_akt s)" for i using that by (simp add: rd_def)
  have 0: "rd (ft_akt s) 0 = Some (ft_akt s ! 0)" using assms by (simp add: rd_def)
  have 7: "rd (ft_akt s) 1 = Some (ft_akt s ! 1)" "rd (ft_akt s) 2 = Some (ft_akt s ! 2)" "rd (ft_akt s) 3 = Some (ft_akt s ! 3)"
    if "\<not> length (ft_akt s) < 7" using that by (simp_all add: rd_def)
  have n: "rd (ft_akt s) (unat (ft_akt s ! 1) + 4) = Some (ft_akt s ! (unat (ft_akt s ! 1) + 4))"
    "rd (ft_akt s) (unat (ft_akt s ! 1) + 5) = Some (ft_akt s ! (unat (ft_akt s ! 1) + 5))"
    "ft12_sum (ft_akt s) 4 (unat (ft_akt s ! 1)) 0 = Some (foldl (+) 0 (take (unat (ft_akt s ! 1)) (drop 4 (ft_akt s))))"
    if "\<not> length (ft_akt s) < unat (ft_akt s ! 1) + 6"
    using that by (auto intro!: r ft12_sum_eq)
  show ?thesis unfolding ft12_step_def Let_def 0 bind.bind_lunit
    by (cases "length (ft_akt s) < 7"; cases "length (ft_akt s) < unat (ft_akt s ! 1) + 6")
       (simp_all only: 7 n sc_or_def bind.bind_lunit option.map if_True if_False simp_thms, auto)
qed

lemma ft12_long_total:
  assumes "ft12_ok s" and len: "7 \<le> length (ft_akt s)" "unat (ft_akt s ! 1) + 6 \<le> length (ft_akt s)"
    and "0 < unat u" and "unat (ft_akt s ! 1) = 0 \<longrightarrow> ft_akt s ! 4 = 0"
  shows "\<exists>s'. ft12_long u s = Some s' \<and> ft12_ok s' \<and> length (ft_akt s') < length (ft_akt s)"
proof -
  have zero: "\<not> right_sequence 0 t" "\<not> wrong_sequence 0 t" for t
    by (simp_all add: right_sequence_def wrong_sequence_def)
  have "ft_akt s \<noteq> []" using len(1) by auto
  then show ?thesis
    using assms(1,4,5) unfolding ft12_long_eq [OF len]
    by (cases "ft_akt s ! 1 = 0")
       (auto simp: Let_def zero ft12_delete_def ft12_write_def intro!: ft12_ok_out, auto simp: ft12_out_def)
qed

lemma ft12_short_total:
  assumes "ft12_ok s" and "4 \<le> length (ft_akt s)"
  shows "\<exists>s'. ft12_short s = Some s' \<and> ft12_ok s' \<and> length (ft_akt s') < length (ft_akt s)"
proof -
  have "ft_akt s \<noteq> []" using assms(2) by auto
  then show ?thesis
    using assms(1) unfolding ft12_short_eq [OF assms(2)]
    by (auto simp: Let_def ft12_delete_def intro!: ft12_ok_out, auto simp: ft12_out_def ft12_write_def)
qed

lemma ft12_step_total:
  assumes "ft12_ok s" and "ft_akt s \<noteq> []" and "0 < unat u"
  obtains go s' where "ft12_step u s = Some (go, s')" "ft12_ok s'"
    "go \<longrightarrow> length (ft_akt s') < length (ft_akt s)" "\<not> go \<longrightarrow> s' = s"
proof -
  let ?a = "ft_akt s"
  consider (ack) "?a ! 0 = 0xE5" "ft_mode s = 1" | (short) "\<not> (?a ! 0 = 0xE5 \<and> ft_mode s = 1)" "?a ! 0 = 0x10" |
    (long) "\<not> (?a ! 0 = 0xE5 \<and> ft_mode s = 1)" "?a ! 0 = 0x68" |
    (other) "\<not> (?a ! 0 = 0xE5 \<and> ft_mode s = 1)" "?a ! 0 \<noteq> 0x10" "?a ! 0 \<noteq> 0x68"
    by blast
  then show thesis
  proof cases
    case ack
    obtain s' where s': "ft12_acked s = Some s'" "ft12_ok s'" "ft_akt s' = drop 1 ?a"
      using ft12_acked_ok [OF assms(1) ack(2)] by blast
    show ?thesis
      by (rule that [of True s']) (use ack s' assms(2) in \<open>simp_all add: ft12_step_eq [OF assms(2)]\<close>)
  next
    case short
    show ?thesis
    proof (cases "length ?a < 4")
      case True
      then show ?thesis using short assms(1) that [of False s] by (simp add: ft12_step_eq [OF assms(2)])
    next
      case False
      then have "4 \<le> length ?a" by simp
      from ft12_short_total [OF assms(1) this] obtain s' where
        "ft12_short s = Some s'" "ft12_ok s'" "length (ft_akt s') < length ?a" by blast
      with False show ?thesis using short that [of True s'] by (simp add: ft12_step_eq [OF assms(2)])
    qed
  next
    case other
    have "ft12_step u s = Some (True, ft12_delete 1 s)"
      unfolding ft12_step_eq [OF assms(2)] if_not_P [OF other(1)] if_not_P [OF other(2)] if_not_P [OF other(3)] ..
    then show ?thesis using assms(1,2) that [of True "ft12_delete 1 s"] by (simp add: ft12_delete_def)
  next
    case long
    let ?n = "unat (?a ! 1)"
    have step: "ft12_step u s = (if length ?a < 7 then Some (False, s)
        else if ?a ! 1 \<noteq> ?a ! 2 \<or> ?a ! 3 \<noteq> 0x68 then Some (True, ft12_delete 1 s)
        else if length ?a < ?n + 6 then Some (False, s)
        else if ?a ! (?n + 4) \<noteq> foldl (+) 0 (take ?n (drop 4 ?a)) \<or> ?a ! (?n + 5) \<noteq> 0x16
        then Some (True, ft12_delete (?n + 6) s)
        else map_option (Pair True) (ft12_long u s))"
      unfolding ft12_step_eq [OF assms(2)] if_not_P [OF long(1)] long(2) by simp
    consider "length ?a < 7" | "7 \<le> length ?a" "?a ! 1 \<noteq> ?a ! 2 \<or> ?a ! 3 \<noteq> 0x68" |
      "7 \<le> length ?a" "?a ! 1 = ?a ! 2" "?a ! 3 = 0x68" "length ?a < ?n + 6" |
      "7 \<le> length ?a" "?a ! 1 = ?a ! 2" "?a ! 3 = 0x68" "\<not> length ?a < ?n + 6"
        "?a ! (?n + 4) \<noteq> foldl (+) 0 (take ?n (drop 4 ?a)) \<or> ?a ! (?n + 5) \<noteq> 0x16" |
      "7 \<le> length ?a" "?a ! 1 = ?a ! 2" "?a ! 3 = 0x68" "\<not> length ?a < ?n + 6"
        "\<not> (?a ! (?n + 4) \<noteq> foldl (+) 0 (take ?n (drop 4 ?a)) \<or> ?a ! (?n + 5) \<noteq> 0x16)"
      by linarith
    then show ?thesis
    proof cases
      case 1
      then show ?thesis using assms(1) that [of False s] by (simp add: step)
    next
      case 2
      then show ?thesis using assms that [of True "ft12_delete 1 s"] by (simp add: step ft12_delete_def)
    next
      case 3
      then show ?thesis using assms(1) that [of False s] by (simp add: step)
    next
      case 4
      then show ?thesis using assms that [of True "ft12_delete (?n + 6) s"] by (simp add: step ft12_delete_def)
    next
      case 5
      then have "?n = 0 \<longrightarrow> ?a ! 4 = 0" "?n + 6 \<le> length ?a" by auto
      from ft12_long_total [OF assms(1) 5(1) this(2) assms(3) this(1)] obtain s' where "ft12_long u s = Some s'" "ft12_ok s'" "length (ft_akt s') < length ?a" by blast
      then show ?thesis using 5 that [of True s'] by (simp add: step)
    qed
  qed
qed

text \<open>The loop ends and keeps the invariant.\<close>

lemma ft12_parse_total:
  assumes "\<And>s. 0 < unat (u s)"
  shows "ft12_ok s \<Longrightarrow> \<exists>s'. ft12_parse u s = Some s' \<and> ft12_ok s'"
proof (induction "length (ft_akt s)" arbitrary: s rule: less_induct)
  case less
  show ?case
  proof (cases "ft_akt s = []")
    case True
    with less.prems show ?thesis by (simp add: ft12_parse.simps)
  next
    case False
    obtain go s' where "ft12_step (u s) s = Some (go, s')" "ft12_ok s'"
      "go \<longrightarrow> length (ft_akt s') < length (ft_akt s)" "\<not> go \<longrightarrow> s' = s"
      by (rule ft12_step_total [OF less.prems False assms])
    with False less.hyps [of s'] show ?thesis by (cases go) (simp_all add: ft12_parse.simps [of u s])
  qed
qed

lemma ft12_ok_send: "ft12_ok s \<Longrightarrow> ft12_ok (ft12_send works s)"
  by (auto simp: ft12_send_def ft12_ok_def ft12_write_def Let_def split: list.splits)

lemma ft12_turn_total:
  assumes "\<And>s. 0 < unat (u s)" and "ft12_ok s"
  shows "\<exists>s'. ft12_turn u d expired works s = Some s' \<and> ft12_ok s'"
proof -
  obtain s1 where s1: "ft12_parse u (s\<lparr>ft_akt := ft_akt s @ take 255 d\<rparr>) = Some s1" "ft12_ok s1"
    using ft12_parse_total [where u = u, OF assms(1), of "s\<lparr>ft_akt := ft_akt s @ take 255 d\<rparr>"] assms(2) by auto
  then have "ft12_ok (s1\<lparr>ft_mode := 0\<rparr>)" by (simp add: ft12_ok_def)
  with s1 show ?thesis by (simp add: ft12_turn_def ft12_ok_send)
qed

section \<open>A stream of frames\<close>

datatype ft12_item = FT_Ack | FT_Data uchar CArray

primrec item_bytes :: "ft12_item \<Rightarrow> CArray" where
  "item_bytes FT_Ack = [0xE5]"
| "item_bytes (FT_Data ctl p) = ft12_frame ctl p"

primrec item_ok :: "ft12_item \<Rightarrow> bool" where
  "item_ok FT_Ack \<longleftrightarrow> True"
| "item_ok (FT_Data ctl p) \<longleftrightarrow> ctl \<in> {0xD3, 0xF3} \<and> length p \<le> 254"

text \<open>What a receiver knows, and what an item does to it.\<close>

type_synonym ft12_view = "bool \<times> CArray \<times> CArray list"

definition ft12_view :: "ft12 \<Rightarrow> ft12_view" where
  "ft12_view s = (ft_recvflag s, ft_last s, ft_outqueue s)"

fun take_item :: "ft12_item \<Rightarrow> ft12_view \<Rightarrow> ft12_view" where
  "take_item FT_Ack v = v"
| "take_item (FT_Data ctl p) (f, l, q) =
     (if (ctl = 0xD3) = f \<or> p \<noteq> l then (ctl = 0xF3, p, q @ [p]) else (f, l, q))"

text \<open>
  What \<open>len\<close> must hold where it is read without having been assigned: the value that was assigned when the last
  packet was accepted.
\<close>

definition good_len :: "(ft12 \<Rightarrow> unsigned) \<Rightarrow> bool" where
  "good_len u \<longleftrightarrow> (\<forall>s. length (ft_last s) \<le> 254 \<longrightarrow> unat (u s) = length (ft_last s) + 7)"

lemma ft12_frame_length [simp]: "length (ft12_frame ctl p) = length p + 7"
  by (simp add: ft12_frame_def)

lemma frame_parts:
  assumes "length p \<le> 254" and "a = ft12_frame ctl p @ rest"
  shows "a ! 0 = 0x68" "a ! 1 = of_nat (length p + 1)" "a ! 2 = of_nat (length p + 1)" "a ! 3 = 0x68" "a ! 4 = ctl"
    "unat (a ! 1) = length p + 1" "take (length p + 1) (drop 4 a) = ctl # p" "take (length p) (drop 5 a) = p"
    "a ! (length p + 5) = foldl (+) ctl p" "a ! (length p + 6) = 0x16" "drop (length p + 7) a = rest"
    "\<not> length a < length p + 7"
proof -
  have a: "a = [0x68, of_nat (length p + 1), of_nat (length p + 1), 0x68, ctl] @ p @ [foldl (+) ctl p, 0x16] @ rest"
    by (simp add: assms(2) ft12_frame_def)
  then show "a ! 0 = 0x68" "a ! 1 = of_nat (length p + 1)" "a ! 2 = of_nat (length p + 1)" "a ! 3 = 0x68" "a ! 4 = ctl"
    "take (length p + 1) (drop 4 a) = ctl # p" "take (length p) (drop 5 a) = p"
    "\<not> length a < length p + 7"
    by (simp_all only: append.simps, simp_all)
  show "drop (length p + 7) a = rest" unfolding assms(2) by simp
  have "a ! 1 = of_nat (length p + 1)" by (simp add: a)
  then show "unat (a ! 1) = length p + 1" using assms(1) by (simp only: unat_of_nat, simp)
  have a': "a = ([0x68, of_nat (length p + 1), of_nat (length p + 1), 0x68, ctl] @ p) @ [foldl (+) ctl p, 0x16] @ rest"
    using a by simp
  have "length ([0x68, of_nat (length p + 1), of_nat (length p + 1), 0x68, ctl] @ p) = length p + 5" by simp
  then show "a ! (length p + 5) = foldl (+) ctl p" "a ! (length p + 6) = 0x16"
    unfolding a' by (simp_all only: nth_append, simp_all)
qed

lemma step_frame:
  assumes akt: "ft_akt s = ft12_frame ctl p @ rest" and p: "length p \<le> 254"
  shows "ft12_step u s =
    (let s1 = ft12_write [0xE5] s;
         s2 = (if wrong_sequence ctl s1 \<and> p \<noteq> ft_last s1 then s1\<lparr>ft_recvflag := \<not> ft_recvflag s1\<rparr> else s1)
     in if right_sequence ctl s2
        then Some (True, ft12_delete (length p + 7) (ft12_out p (s2\<lparr>ft_recvflag := \<not> ft_recvflag s2, ft_last := p\<rparr>)))
        else Some (True, ft12_delete (unat u) s2))"
proof -
  note a = frame_parts [OF p akt]
  have sum: "foldl (+) 0 (take (unat (ft_akt s ! 1)) (drop 4 (ft_akt s))) = foldl (+) ctl p"
    by (simp only: a(6,7), simp)
  have n: "unat (ft_akt s ! 1) + 4 = length p + 5" "unat (ft_akt s ! 1) + 5 = length p + 6"
    "unat (ft_akt s ! 1) - 1 = length p" "unat (ft_akt s ! 1) + 6 = length p + 7" "unat (ft_akt s ! 1) \<noteq> 0"
    using a(6) by linarith+
  have ne: "ft_akt s \<noteq> []" using akt by (simp add: ft12_frame_def)
  have len: "7 \<le> length (ft_akt s)" "unat (ft_akt s ! 1) + 6 \<le> length (ft_akt s)" using a(6,12) by simp_all
  have "ft12_step u s = map_option (Pair True) (ft12_long u s)"
    unfolding ft12_step_eq [OF ne] using a(12) trans [OF a(3) a(2) [symmetric]]
    by (simp add: a(1,4) sum n a(9,10) del: One_nat_def)
  moreover have "ft12_long u s =
    (let s1 = ft12_write [0xE5] s;
         s2 = (if wrong_sequence ctl s1 \<and> p \<noteq> ft_last s1 then s1\<lparr>ft_recvflag := \<not> ft_recvflag s1\<rparr> else s1)
     in if right_sequence ctl s2
        then Some (ft12_delete (length p + 7) (ft12_out p (s2\<lparr>ft_recvflag := \<not> ft_recvflag s2, ft_last := p\<rparr>)))
        else Some (ft12_delete (unat u) s2))"
    unfolding ft12_long_eq [OF len] Let_def using n(5) by (simp only: n(3,4) a(5,8) simp_thms if_False)
  ultimately show ?thesis by (simp add: Let_def)
qed

lemma step_data:
  assumes ok: "ft12_ok s" and akt: "ft_akt s = ft12_frame ctl p @ rest" and item: "ctl \<in> {0xD3, 0xF3}" "length p \<le> 254"
    and u: "p = ft_last s \<Longrightarrow> unat u = length p + 7"
  obtains s' where "ft12_step u s = Some (True, s')" "ft_akt s' = rest" "ft12_view s' = take_item (FT_Data ctl p) (ft12_view s)"
    "ft12_ok s'"
proof -
  let ?s1 = "ft12_write [0xE5] s"
  have "drop (length p + 7) (ft_akt ?s1) = rest" "ft_last ?s1 = ft_last s" "ft_recvflag ?s1 = ft_recvflag s"
    "ft_outqueue ?s1 = ft_outqueue s" "ft12_ok ?s1"
    using frame_parts(11) [OF item(2) akt] ok by (simp_all add: ft12_write_def)
  note s1 = this step_frame [OF akt item(2)] Let_def right_sequence_def wrong_sequence_def ft12_view_def ft12_delete_def
    ft12_out_def ft12_ok_def
  have "\<exists>s'. ft12_step u s = Some (True, s') \<and> ft_akt s' = rest \<and>
      ft12_view s' = take_item (FT_Data ctl p) (ft12_view s) \<and> ft12_ok s'"
  proof (cases "p = ft_last s")
    case True
    with u have "unat u = length p + 7" by simp
    with item(1) True s1(1) [unfolded True] s1(5) show ?thesis by (cases "ft_recvflag s") (auto simp: s1)
  next
    case False
    with item(1) s1(5) show ?thesis by (cases "ft_recvflag s") (auto simp: s1)
  qed
  with that show thesis by blast
qed

lemma step_ack:
  assumes ok: "ft12_ok s" and akt: "ft_akt s = 0xE5 # rest"
  obtains s' where "ft12_step u s = Some (True, s')" "ft_akt s' = rest" "ft12_view s' = ft12_view s" "ft12_ok s'"
proof (cases "ft_mode s = 1")
  case True
  obtain s' where s': "ft12_acked s = Some s'" "ft12_ok s'" "ft_akt s' = drop 1 (ft_akt s)" and
    v: "ft_recvflag s' = ft_recvflag s" "ft_last s' = ft_last s" "ft_outqueue s' = ft_outqueue s"
    by (rule ft12_acked_ok [OF ok True]) blast
  have "ft12_step u s = Some (True, s')" using s'(1) by (simp add: ft12_step_eq akt True)
  then show thesis by (rule that) (simp_all add: s'(2,3) akt v ft12_view_def)
next
  case False
  then show thesis
    using that [of "ft12_delete 1 s"] ok akt by (simp add: ft12_step_eq ft12_delete_def ft12_view_def)
qed

lemma step_item:
  assumes "ft12_ok s" and "ft_akt s = item_bytes it @ rest" and "item_ok it" and "good_len u"
  obtains s' where "ft12_step (u s) s = Some (True, s')" "ft_akt s' = rest" "ft12_view s' = take_item it (ft12_view s)" "ft12_ok s'"
proof (cases it)
  case FT_Ack
  with assms(2) have "ft_akt s = 0xE5 # rest" by simp
  from step_ack [OF assms(1) this, of "u s"] obtain s' where "ft12_step (u s) s = Some (True, s')" "ft_akt s' = rest"
    "ft12_view s' = ft12_view s" "ft12_ok s'" by blast
  with FT_Ack that [of s'] show thesis by (simp add: ft12_view_def)
next
  case (FT_Data ctl p)
  with assms have "ft_akt s = ft12_frame ctl p @ rest" "ctl \<in> {0xD3, 0xF3}" "length p \<le> 254" by simp_all
  moreover from this assms(4) have "p = ft_last s \<Longrightarrow> unat (u s) = length p + 7" by (simp add: good_len_def)
  ultimately show thesis using that FT_Data step_data [OF assms(1)] by metis
qed

text \<open>An item that has not arrived completely is waited for.\<close>

lemma step_incomplete:
  assumes "strict_prefix (ft_akt s) (item_bytes it)" and "ft_akt s \<noteq> []" and "item_ok it"
  shows "ft12_step u s = Some (False, s)"
proof (cases it)
  case FT_Ack
  with assms show ?thesis by (auto simp: strict_prefix_def prefix_Cons)
next
  case (FT_Data ctl p)
  let ?a = "ft_akt s"
  obtain zs where zs: "ft12_frame ctl p = ?a @ zs" "zs \<noteq> []"
    using assms(1) FT_Data by (auto simp: strict_prefix_def prefix_def)
  have p: "length p \<le> 254" using assms(3) FT_Data by simp
  note f = frame_parts [OF p, of "ft12_frame ctl p" ctl "[]", simplified]
  have at: "?a ! k = ft12_frame ctl p ! k" if "k < length ?a" for k using that by (simp add: zs(1) nth_append)
  have len: "length ?a < length p + 7" using arg_cong [OF zs(1), of length] zs(2) by (cases zs) simp_all
  have a0: "?a ! 0 = 0x68" using at [of 0] assms(2) f(1) by simp
  show ?thesis
  proof (cases "length ?a < 7")
    case True
    then show ?thesis using a0 by (simp add: ft12_step_eq [OF assms(2)])
  next
    case False
    then have "?a ! 1 = of_nat (length p + 1)" "?a ! 2 = of_nat (length p + 1)" "?a ! 3 = 0x68"
      using at [of 1] at [of 2] at [of 3] f(2-4) by simp_all
    moreover from this(1) have "unat (?a ! 1) = length p + 1" using f(2,6) by simp
    ultimately show ?thesis using a0 False len by (simp add: ft12_step_eq [OF assms(2)] del: One_nat_def)
  qed
qed

abbreviation partial_item :: "CArray \<Rightarrow> ft12_item list \<Rightarrow> bool" where
  "partial_item \<equiv> partial_of item_bytes"

abbreviation stream :: "ft12_item list \<Rightarrow> CArray" where
  "stream \<equiv> stream_of item_bytes"

lemma ft12_parse_stream:
  assumes "good_len u"
  shows "ft12_ok s \<Longrightarrow> ft_akt s = stream done @ part \<Longrightarrow> list_all item_ok (done @ rest) \<Longrightarrow> partial_item part rest \<Longrightarrow>
    \<exists>s'. ft12_parse u s = Some s' \<and> ft_akt s' = part \<and> ft12_view s' = fold take_item done (ft12_view s) \<and> ft12_ok s'"
proof (induction "done" arbitrary: s)
  case Nil
  show ?case
  proof (cases "part = []")
    case True
    with Nil show ?thesis by (simp add: ft12_parse.simps)
  next
    case False
    with Nil.prems obtain it where "strict_prefix (ft_akt s) (item_bytes it)" "item_ok it"
      by (auto simp: partial_of_def)
    from step_incomplete [OF this(1) _ this(2)] False Nil.prems
    show ?thesis by (simp add: ft12_parse.simps [of u s])
  qed
next
  case (Cons it "done")
  have "ft_akt s = item_bytes it @ (stream done @ part)" "item_ok it" using Cons.prems by simp_all
  from step_item [OF Cons.prems(1) this assms] obtain s1 where s1: "ft12_step (u s) s = Some (True, s1)"
    "ft_akt s1 = stream done @ part" "ft12_view s1 = take_item it (ft12_view s)" "ft12_ok s1" by blast
  have "ft_akt s \<noteq> []" using Cons.prems(2) by (cases it) (simp_all add: ft12_frame_def)
  then have "ft12_parse u s = ft12_parse u s1" by (simp add: ft12_parse.simps [of u s] s1(1))
  with Cons.IH [OF s1(4,2) _ Cons.prems(4)] Cons.prems(3) s1(3) show ?case by simp
qed

section \<open>Runs\<close>

text \<open>What happens to a driver: turns of its thread, and calls of its owner.\<close>

datatype ft12_event = FT_Turn CArray bool nat | FT_Send CArray | FT_Get | FT_Reset

text \<open>A run returns the packets that \<open>Get_Packet\<close> returned and the last state.\<close>

fun ft12_run :: "(ft12 \<Rightarrow> unsigned) \<Rightarrow> ft12_event list \<Rightarrow> ft12 \<Rightarrow> (CArray list \<times> ft12) option" where
  "ft12_run u [] s = Some ([], s)"
| "ft12_run u (FT_Turn d expired works # es) s = Option.bind (ft12_turn u d expired works s) (ft12_run u es)"
| "ft12_run u (FT_Send l # es) s = Option.bind (FT12_Send_Packet l s) (ft12_run u es)"
| "ft12_run u (FT_Get # es) s =
     Option.bind (FT12_Get_Packet s)
       (\<lambda>(c, s1). map_option (\<lambda>(g, t). ((case c of None \<Rightarrow> g | Some x \<Rightarrow> x # g), t)) (ft12_run u es s1))"
| "ft12_run u (FT_Reset # es) s = ft12_run u es (FT12_SendReset s)"

fun bytes_read :: "ft12_event list \<Rightarrow> CArray" where
  "bytes_read [] = []"
| "bytes_read (FT_Turn d expired works # es) = take 255 d @ bytes_read es"
| "bytes_read (_ # es) = bytes_read es"

fun packets_sent :: "ft12_event list \<Rightarrow> CArray list" where
  "packets_sent [] = []"
| "packets_sent (FT_Send l # es) = l # packets_sent es"
| "packets_sent (_ # es) = packets_sent es"

text \<open>A turn that writes a frame completely, or nothing of it; the longest frame has 39 bytes.\<close>

fun whole_write :: "ft12_event \<Rightarrow> bool" where
  "whole_write (FT_Turn d expired n) \<longleftrightarrow> n = 0 \<or> 39 \<le> n"
| "whole_write _ \<longleftrightarrow> True"

text \<open>No run aborts.\<close>

lemma ft12_get_ok:
  assumes "ft12_ok s"
  obtains (none) "FT12_Get_Packet s = Some (None, s)" "ft_outqueue s = []"
    | (some) c s' where "FT12_Get_Packet s = Some (Some c, s')" "ft12_ok s'" "ft_outqueue s = c # ft_outqueue s'"
        "ft_akt s' = ft_akt s" "ft_recvflag s' = ft_recvflag s" "ft_last s' = ft_last s"
        "ft_inqueue s' = ft_inqueue s" "ft_mode s' = ft_mode s" "ft_wire s' = ft_wire s" "ft_sendflag s' = ft_sendflag s"
proof (cases "ft_outqueue s")
  case Nil
  with assms none show thesis by (simp add: FT12_Get_Packet_def ft12_ok_def)
next
  case (Cons c q)
  with assms some [of c "s\<lparr>ft_outqueue := q, ft_outsignal := ft_outsignal s - 1\<rparr>"] show thesis
    by (simp add: FT12_Get_Packet_def ft12_ok_def)
qed

lemma ft12_send_ok:
  assumes "ft12_ok s" and "length l \<le> 32"
  obtains s' where "FT12_Send_Packet l s = Some s'" "ft12_ok s'" "ft_akt s' = ft_akt s" "ft12_view s' = ft12_view s"
  using assms that [of "ft12_put (ft12_frame (if ft_sendflag s then 0x53 else 0x73) l) (s\<lparr>ft_sendflag := \<not> ft_sendflag s\<rparr>)"]
  by (simp add: FT12_Send_Packet_def ft12_ok_put) (simp add: ft12_put_def ft12_view_def)

lemma ft12_run_total:
  assumes u: "\<And>s. 0 < unat (u s)"
  shows "ft12_ok s \<Longrightarrow> \<forall>l \<in> set (packets_sent es). length l \<le> 32 \<Longrightarrow> \<exists>g s'. ft12_run u es s = Some (g, s') \<and> ft12_ok s'"
proof (induction es arbitrary: s)
  case (Cons e es)
  show ?case
  proof (cases e)
    case (FT_Turn d expired works)
    obtain s1 where "ft12_turn u d expired works s = Some s1" "ft12_ok s1"
      using ft12_turn_total [where u = u, OF u Cons.prems(1)] by blast
    with Cons.IH [of s1] Cons.prems(2) FT_Turn show ?thesis by simp
  next
    case (FT_Send l)
    obtain s1 where "FT12_Send_Packet l s = Some s1" "ft12_ok s1"
      by (rule ft12_send_ok [OF Cons.prems(1), of l]) (use Cons.prems(2) FT_Send in auto)
    with Cons.IH [of s1] Cons.prems(2) FT_Send show ?thesis by simp
  next
    case FT_Get
    show ?thesis
    proof (rule ft12_get_ok [OF Cons.prems(1)], goal_cases)
      case 1
      with Cons.IH [of s] Cons.prems FT_Get show ?thesis by auto
    next
      case (2 c s1)
      with Cons.IH [of s1] Cons.prems FT_Get show ?thesis by auto
    qed
  next
    case FT_Reset
    with Cons.IH [OF ft12_ok_reset [OF Cons.prems(1)]] Cons.prems(2) show ?thesis by simp
  qed
qed simp

section \<open>Receiving\<close>

text \<open>The packets taken before do not matter.\<close>

definition behind :: "CArray list \<Rightarrow> ft12_view \<Rightarrow> ft12_view" where
  "behind g = (\<lambda>(f, l, q). (f, l, g @ q))"

lemma take_item_behind: "take_item it (behind g v) = behind g (take_item it v)"
  by (cases it; cases v) (simp_all add: behind_def)

lemma fold_behind: "fold take_item its (behind g v) = behind g (fold take_item its v)"
  by (induction its arbitrary: v) (simp_all add: take_item_behind)

lemma behind_append: "behind (g @ h) v = behind g (behind h v)"
  by (cases v) (simp add: behind_def)

lemma ft12_send_view: "ft12_view (ft12_send works s) = ft12_view s" "ft_akt (ft12_send works s) = ft_akt s"
  by (simp_all add: ft12_send_def ft12_view_def ft12_write_def Let_def split: list.split)

lemma ft12_turn_stream:
  assumes "good_len u" "ft12_ok s" "ft_akt s @ take 255 d = stream done @ part" "list_all item_ok (done @ rest)" "partial_item part rest"
  obtains s' where "ft12_turn u d expired works s = Some s'" "ft_akt s' = part"
    "ft12_view s' = fold take_item done (ft12_view s)" "ft12_ok s'"
proof -
  let ?s = "s\<lparr>ft_akt := ft_akt s @ take 255 d\<rparr>"
  have "ft12_ok ?s" "ft_akt ?s = stream done @ part" "ft12_view ?s = ft12_view s"
    using assms(2,3) by (simp_all add: ft12_view_def)
  with ft12_parse_stream [OF assms(1) _ _ assms(4,5), of ?s] obtain s1 where s1: "ft12_parse u ?s = Some s1"
    "ft_akt s1 = part" "ft12_view s1 = fold take_item done (ft12_view s)" "ft12_ok s1" by auto
  let ?s2 = "if ft_mode s1 = 1 \<and> expired then s1\<lparr>ft_mode := 0\<rparr> else s1"
  have "ft12_ok ?s2" "ft_akt ?s2 = part" "ft12_view ?s2 = ft12_view s1"
    using s1(2,4) by (simp_all add: ft12_ok_def ft12_view_def)
  then show thesis
    using that [of "ft12_send works ?s2"] s1(1,3) by (simp add: ft12_turn_def ft12_ok_send ft12_send_view)
qed

lemma ft12_run_stream:
  assumes u: "good_len u"
  shows "ft12_ok s \<Longrightarrow> FT_Reset \<notin> set es \<and> (\<forall>l \<in> set (packets_sent es). length l \<le> 32) \<Longrightarrow> list_all item_ok its \<Longrightarrow>
    partial_item (ft_akt s) its \<Longrightarrow> prefix (ft_akt s @ bytes_read es) (stream its) \<Longrightarrow>
    \<exists>g s' done rest. ft12_run u es s = Some (g, s') \<and> ft12_ok s' \<and> its = done @ rest \<and>
      ft_akt s @ bytes_read es = stream done @ ft_akt s' \<and> partial_item (ft_akt s') rest \<and>
      behind g (ft12_view s') = fold take_item done (ft12_view s)"
proof (induction es arbitrary: s its)
  case Nil
  then show ?case by (intro exI [of _ "[]"] exI [of _ s] exI [of _ its]) (simp add: behind_def split: prod.split)
next
  case (Cons e es)
  show ?case
  proof (cases e)
    case (FT_Turn d expired works)
    have "prefix (ft_akt s @ take 255 d) (stream its)"
      using Cons.prems(5) FT_Turn by (simp add: prefix_def) (metis append.assoc)
    from prefix_of_stream [OF this] obtain done1 part rest1 where its: "its = done1 @ rest1"
      "ft_akt s @ take 255 d = stream done1 @ part" "partial_item part rest1" by blast
    obtain s1 where s1: "ft12_turn u d expired works s = Some s1" "ft_akt s1 = part"
      "ft12_view s1 = fold take_item done1 (ft12_view s)" "ft12_ok s1"
      by (rule ft12_turn_stream [OF u Cons.prems(1) its(2) _ its(3)]) (use Cons.prems(3) its(1) in simp)
    have "prefix ((ft_akt s @ take 255 d) @ bytes_read es) (stream its)"
      using Cons.prems(5) FT_Turn by simp
    then have "prefix (stream done1 @ (part @ bytes_read es)) (stream done1 @ stream rest1)"
      unfolding its(2) unfolding its(1) by simp
    then have "prefix (part @ bytes_read es) (stream rest1)" by (simp only: same_prefix_prefix)
    with Cons.IH [OF s1(4), of rest1] Cons.prems(2,3) FT_Turn its(1,3) s1(2)
    obtain g s' "done" rest where ih: "ft12_run u es s1 = Some (g, s')" "ft12_ok s'" "rest1 = done @ rest"
      "part @ bytes_read es = stream done @ ft_akt s'" "partial_item (ft_akt s') rest"
      "behind g (ft12_view s') = fold take_item done (ft12_view s1)" by auto
    show ?thesis
    proof (intro exI conjI)
      show "ft12_run u (e # es) s = Some (g, s')" using FT_Turn s1(1) ih(1) by simp
      show "its = (done1 @ done) @ rest" using its(1) ih(3) by simp
      show "ft_akt s @ bytes_read (e # es) = stream (done1 @ done) @ ft_akt s'"
        unfolding FT_Turn bytes_read.simps append_assoc [symmetric] its(2)
        unfolding append_assoc stream_simps ih(4) ..
      show "behind g (ft12_view s') = fold take_item (done1 @ done) (ft12_view s)" using ih(6) s1(3) by simp
    qed (rule ih(2,5))+
  next
    case (FT_Send l)
    obtain s1 where s1: "FT12_Send_Packet l s = Some s1" "ft12_ok s1" "ft_akt s1 = ft_akt s" "ft12_view s1 = ft12_view s"
      by (rule ft12_send_ok [OF Cons.prems(1), of l]) (use Cons.prems(2) FT_Send in auto)
    with Cons.IH [OF s1(2), of its] Cons.prems FT_Send show ?thesis by simp
  next
    case FT_Get
    show ?thesis
    proof (rule ft12_get_ok [OF Cons.prems(1)], goal_cases)
      case 1
      with Cons.IH [of s its] Cons.prems FT_Get show ?thesis by simp
    next
      case (2 c s1)
      with Cons.IH [of s1 its] Cons.prems FT_Get obtain g s' "done" rest where ih: "ft12_run u es s1 = Some (g, s')"
        "ft12_ok s'" "its = done @ rest" "ft_akt s @ bytes_read es = stream done @ ft_akt s'" "partial_item (ft_akt s') rest"
        "behind g (ft12_view s') = fold take_item done (ft12_view s1)" by auto
      have "ft12_view s = behind [c] (ft12_view s1)" using 2 by (simp add: ft12_view_def behind_def)
      then have "behind (c # g) (ft12_view s') = fold take_item done (ft12_view s)"
        using behind_append [of "[c]" g "ft12_view s'"] ih(6) fold_behind [of "done" "[c]"] by simp
      with 2 ih FT_Get show ?thesis
        by (intro exI [of _ "c # g"] exI [of _ s'] exI [of _ "done"] exI [of _ rest]) simp
    qed
  qed (use Cons.prems(2) in simp)
qed

lemma item_bytes_ne: "item_bytes it \<noteq> []"
  by (cases it) (simp_all add: ft12_frame_def)

text \<open>Packets with alternating sequence flags.\<close>

fun numbered :: "bool \<Rightarrow> CArray list \<Rightarrow> ft12_item list" where
  "numbered b [] = []"
| "numbered b (p # ps) = FT_Data (if b then 0xD3 else 0xF3) p # numbered (\<not> b) ps"

lemma take_item_again: "item_ok it \<Longrightarrow> take_item it (take_item it v) = take_item it v"
  by (cases it; cases v) auto

lemma fold_repeated: "list_all item_ok its \<Longrightarrow> fold take_item (remdups_adj its) v = fold take_item its v"
proof (induction its arbitrary: v rule: remdups_adj.induct)
  case (3 x y xs)
  then show ?case by (cases "x = y") (simp_all add: take_item_again)
qed simp_all

lemma fold_data: "fold take_item (filter (\<lambda>it. it \<noteq> FT_Ack) its) v = fold take_item its v"
  by (induction its arbitrary: v) auto

lemma fold_numbered: "\<exists>f' l'. fold take_item (numbered f ps) (f, l, q) = (f', l', q @ ps)"
proof (induction ps arbitrary: f l q)
  case (Cons p ps)
  show ?case using Cons.IH [of "\<not> f" p "q @ [p]"] by (cases f) simp_all
qed simp

lemma ft12_receives:
  assumes u: "good_len u" and s: "ft12_ok s" "ft_akt s = []"
    and sent: "FT_Reset \<notin> set es \<and> (\<forall>l \<in> set (packets_sent es). length l \<le> 32)"
    and its: "list_all item_ok its" "bytes_read es = stream its"
      "remdups_adj (filter (\<lambda>it. it \<noteq> FT_Ack) its) = numbered (ft_recvflag s) ps"
  obtains g s' where "ft12_run u es s = Some (g, s')" "ft12_ok s'" "ft_akt s' = []" "g @ ft_outqueue s' = ft_outqueue s @ ps"
proof -
  have "partial_item (ft_akt s) its" "prefix (ft_akt s @ bytes_read es) (stream its)"
    using s(2) its(2) by (simp_all add: partial_of_def)
  from ft12_run_stream [OF u s(1) sent its(1) this] obtain g s' "done" rest where
    run: "ft12_run u es s = Some (g, s')" "ft12_ok s'" and split: "its = done @ rest" "bytes_read es = stream done @ ft_akt s'"
    and part: "partial_item (ft_akt s') rest" and v: "behind g (ft12_view s') = fold take_item done (ft12_view s)"
    using s(2) by auto
  have "ft_akt s' = stream rest" using split its(2) by simp
  with part stream_complete [of item_bytes rest, OF item_bytes_ne] have rest: "rest = []" by simp
  have "list_all item_ok (filter (\<lambda>it. it \<noteq> FT_Ack) its)" using its(1) by (auto simp: list_all_iff)
  from fold_repeated [OF this] have "fold take_item its (ft12_view s) = fold take_item (numbered (ft_recvflag s) ps) (ft12_view s)"
    by (simp add: fold_data its(3))
  then have "\<exists>f' l'. behind g (ft12_view s') = (f', l', ft_outqueue s @ ps)"
    using v split(1) rest fold_numbered [of "ft_recvflag s" ps "ft_last s" "ft_outqueue s"] by (simp add: ft12_view_def)
  then have "g @ ft_outqueue s' = ft_outqueue s @ ps" by (simp add: behind_def ft12_view_def)
  with that run \<open>ft_akt s' = stream rest\<close> rest show thesis by simp
qed

section \<open>Sending\<close>

definition frames_written :: "ft12 \<Rightarrow> CArray list" where
  "frames_written s = filter (\<lambda>c. c \<noteq> [0xE5]) (ft_wire s)"

text \<open>The part of the state the sender depends on.\<close>

definition send_view :: "ft12 \<Rightarrow> CArray list \<times> int \<times> CArray list \<times> bool" where
  "send_view s = (ft_inqueue s, ft_mode s, frames_written s, ft_sendflag s)"

lemma step_send_view:
  assumes "ft12_step u s = Some (go, s')"
  shows "send_view s' = send_view s \<or>
    ft_mode s = 1 \<and> ft_inqueue s \<noteq> [] \<and> send_view s' = (tl (ft_inqueue s), 0, frames_written s, ft_sendflag s)"
proof -
  have long: "send_view t' = send_view t" if "ft12_long v t = Some t'" for v t t'
    using that by (auto simp: ft12_long_def Let_def send_view_def frames_written_def ft12_write_def ft12_delete_def ft12_out_def
        split: if_splits bind_splits)
  have short: "send_view t' = send_view t" if "ft12_short t = Some t'" for t t'
    using that by (auto simp: ft12_short_def Let_def send_view_def frames_written_def ft12_write_def ft12_delete_def ft12_out_def
        split: if_splits bind_splits)
  have del: "send_view (ft12_delete n t) = send_view t" for n t
    by (simp add: send_view_def frames_written_def ft12_delete_def)
  have ack: "ft_inqueue t \<noteq> [] \<and> send_view t' = (tl (ft_inqueue t), 0, frames_written t, ft_sendflag t)" if "ft12_acked t = Some t'" for t t'
    using that by (auto simp: ft12_acked_def send_view_def frames_written_def split: list.splits if_splits)
  have "ft_akt s \<noteq> []" using assms by (auto simp: ft12_step_def rd_def Let_def)
  with assms show ?thesis
    by (auto simp: ft12_step_eq del split: if_split_asm dest!: short long ack)
qed

text \<open>The frames of the packets, with alternating sequence flags.\<close>

fun frames_from :: "bool \<Rightarrow> CArray list \<Rightarrow> CArray list" where
  "frames_from b [] = []"
| "frames_from b (l # ls) = ft12_frame (if b then 0x53 else 0x73) l # frames_from (\<not> b) ls"

lemma frames_from_append:
  "frames_from b (xs @ [l]) = frames_from b xs @ [ft12_frame (if b = even (length xs) then 0x53 else 0x73) l]"
  by (induction xs arbitrary: b) auto

lemma length_frames_from [simp]: "length (frames_from b ls) = length ls"
  by (induction ls arbitrary: b) simp_all

lemma frame_control: "ft12_frame c l ! 4 = c"
  by (simp add: ft12_frame_def)

lemma frames_from_nth: "k < length ls \<Longrightarrow> frames_from b ls ! k ! 4 = (if b = even k then 0x53 else 0x73)"
  by (induction ls arbitrary: b k) (auto simp: nth_Cons frame_control split: nat.splits)

lemma frames_alternate: "Suc k < length ls \<Longrightarrow> frames_from b ls ! k \<noteq> frames_from b ls ! Suc k"
  using frames_from_nth [of k ls b] frames_from_nth [of "Suc k" ls b] by (auto split: if_splits)

lemma remdups_adj_snoc:
  "remdups_adj (xs @ [x]) = (if xs \<noteq> [] \<and> last xs = x then remdups_adj xs else remdups_adj xs @ [x])"
  by (induction xs rule: remdups_adj.induct) auto

text \<open>
  The first \<open>n\<close> of all frames have been written, each once or several times in a row; the queue holds the
  frames that have not been acknowledged, of which only the first can have been written.
\<close>

definition sender_inv :: "CArray list \<Rightarrow> ft12 \<Rightarrow> bool" where
  "sender_inv ls s \<longleftrightarrow>
     (\<exists>n k. k + length (ft_inqueue s) = length ls \<and> ft_inqueue s = drop k (frames_from False ls) \<and>
        remdups_adj (frames_written s) = take n (frames_from False ls) \<and>
        (n = k \<and> ft_mode s \<noteq> 1 \<or> n = k + 1 \<and> ft_inqueue s \<noteq> []) \<and> ft_sendflag s = odd (length ls))"

lemma sender_inv_cong: "send_view s' = send_view s \<Longrightarrow> sender_inv ls s \<Longrightarrow> sender_inv ls s'"
  by (simp add: sender_inv_def send_view_def)

lemma sender_inv_ack:
  assumes "sender_inv ls s" "ft_mode s = 1" "send_view s' = (tl (ft_inqueue s), 0, frames_written s, ft_sendflag s)"
  shows "sender_inv ls s'"
proof -
  from assms(1,2) obtain k where k: "k + length (ft_inqueue s) = length ls" "ft_inqueue s = drop k (frames_from False ls)"
    "remdups_adj (frames_written s) = take (k + 1) (frames_from False ls)" "ft_inqueue s \<noteq> []" "ft_sendflag s = odd (length ls)"
    unfolding sender_inv_def by blast
  with assms(3) show ?thesis
    unfolding sender_inv_def
    by (intro exI [of _ "k + 1"]) (auto simp: send_view_def tl_drop drop_Suc simp flip: drop_tl length_greater_0_conv)
qed

lemma sender_inv_parse: "ft12_parse u s = Some s' \<Longrightarrow> sender_inv ls s \<Longrightarrow> sender_inv ls s'"
proof -
  assume run: "ft12_parse u s = Some s'" and inv: "sender_inv ls s"
  have "sender_inv ls s \<longrightarrow> sender_inv ls s'"
  proof (rule ft12_parse.raw_induct [where P = "\<lambda>u s s'. sender_inv ls s \<longrightarrow> sender_inv ls s'", OF _ run], intro impI)
    fix lp u s s'
    assume IH: "\<And>u s s'. lp u s = Some s' \<Longrightarrow> sender_inv ls s \<longrightarrow> sender_inv ls s'" and inv: "sender_inv ls s"
      and step: "(if ft_akt s = [] then Some s else case ft12_step (u s) s of None \<Rightarrow> None
          | Some (go, s1) \<Rightarrow> if go then lp u s1 else Some s1) = Some s'"
    show "sender_inv ls s'"
    proof (cases "ft_akt s = []")
      case True
      with step inv show ?thesis by simp
    next
      case False
      with step obtain go s1 where s1: "ft12_step (u s) s = Some (go, s1)" "if go then lp u s1 = Some s' else s1 = s'"
        by (auto split: option.splits prod.splits if_splits)
      have "sender_inv ls s1"
        using step_send_view [OF s1(1)] sender_inv_cong [of s1 s ls] sender_inv_ack [of ls s s1] inv by blast
      with s1(2) IH show ?thesis by (auto split: if_splits)
    qed
  qed
  with inv show ?thesis by blast
qed

lemma frame_not_ack: "f \<in> set (frames_from b ls) \<Longrightarrow> f \<noteq> [0xE5]"
  by (induction ls arbitrary: b) (auto simp: ft12_frame_def)

lemma frames_from_set: "f \<in> set (frames_from b ls) \<Longrightarrow> \<exists>c l. f = ft12_frame c l \<and> c \<in> {0x53, 0x73} \<and> l \<in> set ls"
proof (induction ls arbitrary: b)
  case (Cons l ls)
  then consider "f = ft12_frame (if b then 0x53 else 0x73) l" | "f \<in> set (frames_from (\<not> b) ls)" by auto
  then show ?case
  proof cases
    case 1
    then show ?thesis by (cases b) auto
  next
    case 2
    from Cons.IH [OF this] show ?thesis by auto
  qed
qed simp

lemma frame_not_nil: "f \<in> set (frames_from b ls) \<Longrightarrow> f \<noteq> []"
  by (induction ls arbitrary: b) (auto simp: ft12_frame_def)

lemma sender_inv_short: "sender_inv ls s \<Longrightarrow> \<forall>l \<in> set ls. length l \<le> 32 \<Longrightarrow> \<forall>c \<in> set (ft_inqueue s). length c \<le> 39"
proof
  fix c assume "sender_inv ls s" "\<forall>l \<in> set ls. length l \<le> 32" "c \<in> set (ft_inqueue s)"
  then have "c \<in> set (frames_from False ls)" unfolding sender_inv_def by (metis in_set_dropD)
  from frames_from_set [OF this] \<open>\<forall>l \<in> set ls. _\<close> show "length c \<le> 39" by auto
qed

lemma sender_inv_send:
  assumes inv: "sender_inv ls s" and whole: "w = 0 \<or> (\<forall>c \<in> set (ft_inqueue s). length c \<le> w)"
  shows "sender_inv ls (ft12_send w s)"
proof (cases "ft_inqueue s")
  case Nil
  with inv show ?thesis by (simp add: ft12_send_def)
next
  case (Cons c q)
  let ?Q = "frames_from False ls"
  show ?thesis
  proof (cases "ft_mode s = 0 \<and> w \<noteq> 0")
    case False
    have "c \<noteq> []" using inv Cons frame_not_nil [of c False ls] unfolding sender_inv_def by (metis in_set_dropD list.set_intros(1))
    with False have "send_view (ft12_send w s) = send_view s"
      using Cons by (auto simp: ft12_send_def send_view_def frames_written_def Let_def)
    from sender_inv_cong [OF this inv] show ?thesis .
  next
    case True
    obtain n k where k: "k + length (ft_inqueue s) = length ls" "ft_inqueue s = drop k ?Q"
      "remdups_adj (frames_written s) = take n ?Q" "n = k \<or> n = k + 1" "ft_sendflag s = odd (length ls)"
      using inv unfolding sender_inv_def by blast
    have kl: "k < length ls" using k(1) Cons by simp
    then have c: "c = ?Q ! k" using k(2) Cons by (simp add: Cons_nth_drop_Suc [symmetric])
    have len: "length c \<le> w" "take w c = c" using whole True Cons by simp_all
    have "c \<noteq> [0xE5]" by (rule frame_not_ack [of _ False ls]) (use c kl in simp)
    then have written: "frames_written (ft12_send w s) = frames_written s @ [c]"
      using Cons True len by (simp add: ft12_send_def frames_written_def ft12_write_def Let_def)
    have "remdups_adj (frames_written s @ [c]) = take (k + 1) ?Q"
    proof (cases "n = k + 1")
      case True
      then have e: "last (remdups_adj (frames_written s)) = c" "frames_written s \<noteq> []"
        using k(3) kl c by (auto simp: take_Suc_conv_app_nth)
      from e(1) have "last (frames_written s) = c" by (metis last_remdups_adj)
      with True k(3) e(2) show ?thesis by (simp add: remdups_adj_snoc)
    next
      case False
      then have n: "n = k" using k(4) by simp
      have "last (frames_written s) \<noteq> c" if "frames_written s \<noteq> []"
      proof -
        have "k \<noteq> 0" using that k(3) n by (metis remdups_adj_Nil_iff take_0)
        then obtain j where j: "k = Suc j" by (cases k) auto
        then have "last (remdups_adj (frames_written s)) = ?Q ! j"
          using k(3) n kl by (simp add: take_Suc_conv_app_nth)
        then show ?thesis using frames_alternate [of j ls False] kl j c by simp
      qed
      then show ?thesis using k(3) n kl c by (auto simp: remdups_adj_snoc take_Suc_conv_app_nth)
    qed
    moreover have "ft_inqueue (ft12_send w s) = ft_inqueue s" "ft_mode (ft12_send w s) = 1"
      "ft_sendflag (ft12_send w s) = ft_sendflag s"
      using Cons True len by (simp_all add: ft12_send_def ft12_write_def Let_def)
    ultimately show ?thesis
      unfolding sender_inv_def
      by - (rule exI [of _ "k + 1"], rule exI [of _ k], use k(1,2,5) kl written Cons in simp)
  qed
qed

lemma sender_inv_turn:
  assumes "ft12_turn u d expired w s = Some s'" and "sender_inv ls s" and "w = 0 \<or> 39 \<le> w" and "\<forall>l \<in> set ls. length l \<le> 32"
  shows "sender_inv ls s'"
proof -
  let ?s = "s\<lparr>ft_akt := ft_akt s @ take 255 d\<rparr>"
  from assms(1) obtain s1 where s1: "ft12_parse u ?s = Some s1"
    and s': "s' = ft12_send w (if ft_mode s1 = 1 \<and> expired then s1\<lparr>ft_mode := 0\<rparr> else s1)"
    by (auto simp: ft12_turn_def)
  have "send_view ?s = send_view s" by (simp add: send_view_def frames_written_def)
  from sender_inv_cong [OF this assms(2)] sender_inv_parse [OF s1] have inv: "sender_inv ls s1" by blast
  have same: "ft_inqueue (if ft_mode s1 = 1 \<and> expired then s1\<lparr>ft_mode := 0\<rparr> else s1) = ft_inqueue s1" by simp
  have whole: "w = 0 \<or> (\<forall>c \<in> set (ft_inqueue (if ft_mode s1 = 1 \<and> expired then s1\<lparr>ft_mode := 0\<rparr> else s1)). length c \<le> w)"
    unfolding same using sender_inv_short [OF inv assms(4)] assms(3) by (meson order_trans)
  show ?thesis unfolding s'
  proof (rule sender_inv_send [OF _ whole], cases "ft_mode s1 = 1 \<and> expired")
    case True
    with inv show "sender_inv ls (if ft_mode s1 = 1 \<and> expired then s1\<lparr>ft_mode := 0\<rparr> else s1)"
      unfolding sender_inv_def by (auto simp: frames_written_def)
  next
    case False
    then show "sender_inv ls (if ft_mode s1 = 1 \<and> expired then s1\<lparr>ft_mode := 0\<rparr> else s1)" using inv by auto
  qed
qed

lemma sender_inv_put:
  assumes "FT12_Send_Packet l s = Some s'" and "sender_inv ls s"
  shows "sender_inv (ls @ [l]) s'"
proof -
  let ?f = "ft12_frame (if ft_sendflag s then 0x53 else 0x73) l"
  from assms(1) have s': "ft_inqueue s' = ft_inqueue s @ [?f]" "ft_mode s' = ft_mode s" "frames_written s' = frames_written s"
    "ft_sendflag s' = (\<not> ft_sendflag s)"
    by (auto simp: FT12_Send_Packet_def ft12_put_def frames_written_def split: if_splits)
  from assms(2) obtain n k where k: "k + length (ft_inqueue s) = length ls" "ft_inqueue s = drop k (frames_from False ls)"
    "remdups_adj (frames_written s) = take n (frames_from False ls)"
    "n = k \<and> ft_mode s \<noteq> 1 \<or> n = k + 1 \<and> ft_inqueue s \<noteq> []" "ft_sendflag s = odd (length ls)"
    unfolding sender_inv_def by blast
  have f: "frames_from False (ls @ [l]) = frames_from False ls @ [?f]" using k(5) by (simp add: frames_from_append)
  have "n \<le> length ls" "k \<le> length ls" using k(1,4) by (auto simp: Suc_le_eq neq_Nil_conv)
  then have "ft_inqueue s' = drop k (frames_from False (ls @ [l]))"
    "remdups_adj (frames_written s') = take n (frames_from False (ls @ [l]))"
    using k(2,3) s' f by simp_all
  moreover have "k + length (ft_inqueue s') = length (ls @ [l])" using k(1) s'(1) by simp
  moreover have "n = k \<and> ft_mode s' \<noteq> 1 \<or> n = k + 1 \<and> ft_inqueue s' \<noteq> []" using k(4) s'(1,2) by auto
  moreover have "ft_sendflag s' = odd (length (ls @ [l]))" using k(5) s'(4) by simp
  ultimately show ?thesis unfolding sender_inv_def by blast
qed

lemma sender_inv_run:
  "ft12_run u es s = Some (g, s') \<Longrightarrow> FT_Reset \<notin> set es \<and> list_all whole_write es \<Longrightarrow>
    \<forall>l \<in> set (ls @ packets_sent es). length l \<le> 32 \<Longrightarrow> sender_inv ls s \<Longrightarrow> sender_inv (ls @ packets_sent es) s'"
proof (induction es arbitrary: s ls g)
  case (Cons e es)
  show ?case
  proof (cases e)
    case (FT_Turn d expired w)
    with Cons.prems(1) obtain s1 where s1: "ft12_turn u d expired w s = Some s1" "ft12_run u es s1 = Some (g, s')"
      by (auto split: bind_splits)
    have "sender_inv ls s1" using Cons.prems FT_Turn by (intro sender_inv_turn [OF s1(1)]) auto
    with Cons.IH [OF s1(2)] Cons.prems(2,3) FT_Turn show ?thesis by simp
  next
    case (FT_Send l)
    with Cons.prems(1) obtain s1 where "FT12_Send_Packet l s = Some s1" "ft12_run u es s1 = Some (g, s')"
      by (auto split: bind_splits)
    with Cons.IH [of s1 g "ls @ [l]"] sender_inv_put Cons.prems(2-4) FT_Send show ?thesis by simp
  next
    case FT_Get
    with Cons.prems(1) obtain c s1 g1 where "FT12_Get_Packet s = Some (c, s1)" "ft12_run u es s1 = Some (g1, s')"
      by (auto split: bind_splits)
    moreover from this(1) have "send_view s1 = send_view s"
      by (auto simp: FT12_Get_Packet_def send_view_def frames_written_def split: if_splits list.splits)
    ultimately show ?thesis using Cons.IH [of s1 g1 ls] sender_inv_cong Cons.prems(2-4) FT_Get by simp
  qed (use Cons.prems(2) in simp)
qed simp

lemma sender_inv_new: "sender_inv [] FT12_new"
  by (simp add: sender_inv_def FT12_new_def frames_written_def)

lemma ft12_sends:
  assumes "ft12_run u es FT12_new = Some (g, s)" and "FT_Reset \<notin> set es \<and> list_all whole_write es"
    and "\<forall>l \<in> set (packets_sent es). length l \<le> 32"
  obtains n where "remdups_adj (frames_written s) = take n (frames_from False (packets_sent es))"
    "length (packets_sent es) \<le> n + length (ft_inqueue s)" "n \<le> length (packets_sent es)"
    "ft_inqueue s = drop (length (packets_sent es) - length (ft_inqueue s)) (frames_from False (packets_sent es))"
proof -
  have "sender_inv (packets_sent es) s" using sender_inv_run [OF assms(1,2) _ sender_inv_new] assms(3) by simp
  then obtain n k where "k + length (ft_inqueue s) = length (packets_sent es)" "ft_inqueue s = drop k (frames_from False (packets_sent es))"
    "remdups_adj (frames_written s) = take n (frames_from False (packets_sent es))" "n = k \<or> n = k + 1 \<and> ft_inqueue s \<noteq> []"
    unfolding sender_inv_def by blast
  then show thesis using that [of n] by (auto simp flip: length_greater_0_conv)
qed

section \<open>Two drivers\<close>

text \<open>
  The frames of a device are those of the driver with the bit of the direction set in the control
  byte; the other bytes that are written are acknowledgements.
\<close>

definition mirror :: "CArray \<Rightarrow> CArray" where
  "mirror c = (if length c < 7 then c else ft12_frame (c ! 4 OR 0x80) (take (length c - 7) (drop 5 c)))"

definition mirrored_item :: "CArray \<Rightarrow> ft12_item" where
  "mirrored_item c = (if length c < 7 then FT_Ack else FT_Data (c ! 4 OR 0x80) (take (length c - 7) (drop 5 c)))"

lemma mirrored_frame: "mirrored_item (ft12_frame ctl l) = FT_Data (ctl OR 0x80) l"
  by (simp add: mirrored_item_def frame_control) (simp add: ft12_frame_def)

lemma mirror_bytes: "c = [0xE5] \<or> 7 \<le> length c \<Longrightarrow> item_bytes (mirrored_item c) = mirror c"
  by (auto simp: mirrored_item_def mirror_def)

lemma mirrored_frames: "map mirrored_item (frames_from b ls) = numbered b ls"
  by (induction ls arbitrary: b) (simp_all add: mirrored_frame)

lemma numbered_take: "take n (numbered b ps) = numbered b (take n ps)"
  by (induction ps arbitrary: b n) (auto simp: take_Cons')

lemma mirrored_inj: "inj_on mirrored_item (set (frames_from b ls))"
proof (rule inj_onI)
  fix x y assume "x \<in> set (frames_from b ls)" "y \<in> set (frames_from b ls)" and same: "mirrored_item x = mirrored_item y"
  then obtain c l c' l' where "x = ft12_frame c l" "c \<in> {0x53, 0x73}" "y = ft12_frame c' l'" "c' \<in> {0x53, 0x73}"
    using frames_from_set by metis
  with same show "x = y" by (auto simp: mirrored_frame)
qed

lemma remdups_adj_map_inj: "inj_on f (set xs) \<Longrightarrow> remdups_adj (map f xs) = map f (remdups_adj xs)"
proof (induction xs rule: remdups_adj.induct)
  case (3 x y xs)
  have "inj_on f (set (x # xs))" "inj_on f (set (y # xs))" "f x = f y \<longleftrightarrow> x = y"
    using "3.prems" by (auto simp: inj_on_def)
  with "3.IH" show ?case by simp
qed simp_all

lemma ft12_wire:
  assumes "remdups_adj (frames_written s) = take n (frames_from False ls)" and "\<forall>l \<in> set ls. length l \<le> 32"
  shows "stream (map mirrored_item (ft_wire s)) = concat (map mirror (ft_wire s))"
    and "list_all item_ok (map mirrored_item (ft_wire s))"
    and "remdups_adj (filter (\<lambda>it. it \<noteq> FT_Ack) (map mirrored_item (ft_wire s))) = numbered False (take n ls)"
proof -
  have "set (frames_written s) \<subseteq> set (frames_from False ls)"
    using set_take_subset [of n "frames_from False ls"] arg_cong [OF assms(1), of set] by simp
  then have wire: "c = [0xE5] \<or> c \<in> set (frames_from False ls)" if "c \<in> set (ft_wire s)" for c
    using that by (auto simp: frames_written_def)
  have long: "7 \<le> length c" if "c \<in> set (frames_from False ls)" for c
    using frames_from_set [OF that] by auto
  show "stream (map mirrored_item (ft_wire s)) = concat (map mirror (ft_wire s))"
    unfolding stream_of_def map_map comp_def
    by (intro arg_cong [where f = concat] map_cong refl mirror_bytes) (use wire long in blast)
  have "item_ok (mirrored_item c)" if "c \<in> set (ft_wire s)" for c
    using wire [OF that]
  proof
    assume "c \<in> set (frames_from False ls)"
    from frames_from_set [OF this] assms(2) show ?thesis by (auto simp: mirrored_frame)
  qed (simp add: mirrored_item_def)
  then show "list_all item_ok (map mirrored_item (ft_wire s))" by (simp add: list_all_iff)
  have "mirrored_item c \<noteq> FT_Ack \<longleftrightarrow> c \<noteq> [0xE5]" if "c \<in> set (ft_wire s)" for c
    using wire [OF that] long [of c] by (auto simp: mirrored_item_def)
  then have "filter (\<lambda>it. it \<noteq> FT_Ack) (map mirrored_item (ft_wire s)) = map mirrored_item (frames_written s)"
    by (simp add: filter_map comp_def frames_written_def cong: filter_cong)
  moreover have "inj_on mirrored_item (set (frames_written s))"
    using mirrored_inj \<open>set (frames_written s) \<subseteq> _\<close> by (rule inj_on_subset)
  ultimately show "remdups_adj (filter (\<lambda>it. it \<noteq> FT_Ack) (map mirrored_item (ft_wire s))) = numbered False (take n ls)"
    by (simp add: remdups_adj_map_inj assms(1) take_map [symmetric] mirrored_frames numbered_take)
qed

lemma ft12_end_to_end_run:
  assumes run: "ft12_run u es FT12_new = Some (g, s)" 
    and sent: "FT_Reset \<notin> set es \<and> list_all whole_write es" "\<forall>l \<in> set (packets_sent es). length l \<le> 32"
    and peer: "good_len u'" "bytes_read es' = concat (map mirror (ft_wire s))"
      "FT_Reset \<notin> set es' \<and> (\<forall>l \<in> set (packets_sent es'). length l \<le> 32)"
  obtains g' s' n where "ft12_run u' es' FT12_new = Some (g', s')" "g' @ ft_outqueue s' = take n (packets_sent es)"
    "length (packets_sent es) \<le> n + length (ft_inqueue s)"
proof -
  obtain n where n: "remdups_adj (frames_written s) = take n (frames_from False (packets_sent es))"
    "length (packets_sent es) \<le> n + length (ft_inqueue s)"
    by (rule ft12_sends [OF run sent]) blast
  note wire = ft12_wire [OF n(1) sent(2)]
  have new: "ft_akt FT12_new = []" "ft_outqueue FT12_new = []" "ft_recvflag FT12_new = False" by (simp_all add: FT12_new_def)
  have "remdups_adj (filter (\<lambda>it. it \<noteq> FT_Ack) (map mirrored_item (ft_wire s))) =
      numbered (ft_recvflag FT12_new) (take n (packets_sent es))"
    unfolding new by (rule wire(3))
  from ft12_receives [OF peer(1) ft12_ok_new new(1) peer(3) wire(2) _ this] peer(2) wire(1) new(2)
  obtain g' s' where "ft12_run u' es' FT12_new = Some (g', s')" "g' @ ft_outqueue s' = take n (packets_sent es)"
    by (metis append_Nil)
  with that n(2) show thesis by blast
qed

text \<open>
  After every turn the received bytes are none or the beginning of a frame, and the loop has nothing to do with them
  until more arrive.
\<close>

definition ft12_waiting :: "ft12 \<Rightarrow> bool" where
  "ft12_waiting s \<longleftrightarrow> ft_akt s = [] \<or> ft_akt s ! 0 \<in> {0x10, 0x68} \<and> ft12_step 0 s = Some (False, s)"

lemma ft12_break:
  assumes "ft12_step u s = Some (False, s')"
  shows "s' = s" and "ft_akt s ! 0 \<in> {0x10, 0x68}"
proof -
  have "ft_akt s \<noteq> []" using assms by (auto simp: ft12_step_def rd_def Let_def)
  with assms show "s' = s" "ft_akt s ! 0 \<in> {0x10, 0x68}"
    by (auto simp: ft12_step_eq split: if_split_asm)
qed

text \<open>Neither the timer nor a write changes that.\<close>

lemma ft12_break_cong:
  assumes "ft12_step u s = Some (False, s)" and "ft_akt t = ft_akt s"
  shows "ft12_step v t = Some (False, t)"
proof -
  have ne: "ft_akt s \<noteq> []" using assms(1) by (auto simp: ft12_step_def rd_def Let_def)
  then have ne': "ft_akt t \<noteq> []" using assms(2) by simp
  show ?thesis using assms(1) ft12_break(2) [OF assms(1)]
    by (auto simp: ft12_step_eq [OF ne] ft12_step_eq [OF ne'] assms(2) split: if_split_asm)
qed

lemma ft12_waiting_cong: "ft12_waiting s \<Longrightarrow> ft_akt t = ft_akt s \<Longrightarrow> ft12_waiting t"
  using ft12_break_cong [of 0 s t 0] by (auto simp: ft12_waiting_def)

lemma ft12_parse_waiting: "ft12_waiting s \<Longrightarrow> ft12_parse u s = Some s"
  using ft12_break_cong [of 0 s s "u s"] by (auto simp: ft12_waiting_def ft12_parse.simps [of u s])

lemma ft12_parse_waits: "ft12_parse u s = Some s' \<Longrightarrow> ft12_waiting s'"
proof -
  assume run: "ft12_parse u s = Some s'"
  show ?thesis
  proof (rule ft12_parse.raw_induct [where P = "\<lambda>u s s'. ft12_waiting s'", OF _ run])
    fix lp :: "(ft12 \<Rightarrow> unsigned) \<Rightarrow> ft12 \<Rightarrow> ft12 option" and u :: "ft12 \<Rightarrow> unsigned" and s s'
    assume IH: "\<And>u s s'. lp u s = Some s' \<Longrightarrow> ft12_waiting s'"
      and step: "(if ft_akt s = [] then Some s else case ft12_step (u s) s of None \<Rightarrow> None
          | Some (go, s1) \<Rightarrow> if go then lp u s1 else Some s1) = Some s'"
    show "ft12_waiting s'"
    proof (cases "ft_akt s = []")
      case True
      with step show ?thesis by (auto simp: ft12_waiting_def)
    next
      case False
      with step obtain go s1 where s1: "ft12_step (u s) s = Some (go, s1)" "if go then lp u s1 = Some s' else s1 = s'"
        by (auto split: option.splits prod.splits if_splits)
      show ?thesis
      proof (cases go)
        case True
        with s1(2) IH show ?thesis by simp
      next
        case False
        with s1 ft12_break [of "u s" s s1] have "s' = s" "ft_akt s ! 0 \<in> {0x10, 0x68}" "ft12_step (u s) s = Some (False, s)" by auto
        with ft12_break_cong [of "u s" s s 0] show ?thesis by (simp add: ft12_waiting_def)
      qed
    qed
  qed
qed

text \<open>Silence: a frame that is never acknowledged is repeated until the connection counts as lost.\<close>

definition ft12_idle :: "ft12 \<Rightarrow> bool" where
  "ft12_idle s \<longleftrightarrow> ft12_waiting s \<and> ft_mode s \<in> {0, 1} \<and> 0 \<le> ft_repeatcount s"

lemma ft12_send_fields:
  "ft_akt (ft12_send n s) = ft_akt s" "ft_inqueue (ft12_send n s) = ft_inqueue s"
  "ft_mode s \<in> {0, 1} \<Longrightarrow> ft_mode (ft12_send n s) \<in> {0, 1}"
  "ft_repeatcount (ft12_send n s) = ft_repeatcount s + (if ft_mode s = 0 \<and> ft_inqueue s \<noteq> [] then 1 else 0)"
  by (auto simp: ft12_send_def ft12_write_def Let_def split: list.split)

lemma ft12_idle_send: "ft12_idle s \<Longrightarrow> ft12_idle (ft12_send n s)"
  using ft12_waiting_cong [of s "ft12_send n s"] ft12_send_fields [where n = n and s = s] by (auto simp: ft12_idle_def)

lemma step_fields:
  assumes "ft12_step u s = Some (go, s')" and "ft_mode s \<in> {0, 1}" and "0 \<le> ft_repeatcount s"
  shows "ft_mode s' \<in> {0, 1} \<and> 0 \<le> ft_repeatcount s'"
proof -
  have long: "ft_mode t' = ft_mode t \<and> ft_repeatcount t' = ft_repeatcount t" if "ft12_long v t = Some t'" for v t t'
    using that by (auto simp: ft12_long_def Let_def ft12_write_def ft12_delete_def ft12_out_def split: if_splits bind_splits)
  have short: "ft_mode t' = ft_mode t \<and> ft_repeatcount t' = ft_repeatcount t" if "ft12_short t = Some t'" for t t'
    using that by (auto simp: ft12_short_def Let_def ft12_write_def ft12_delete_def ft12_out_def split: if_splits bind_splits)
  have ack: "ft_mode t' = 0 \<and> ft_repeatcount t' = 0" if "ft12_acked t = Some t'" for t t'
    using that by (auto simp: ft12_acked_def split: list.splits if_splits)
  have "ft_akt s \<noteq> []" using assms(1) by (auto simp: ft12_step_def rd_def Let_def)
  with assms show ?thesis
    by (auto simp: ft12_step_eq ft12_delete_def split: if_split_asm dest!: short long ack)
qed

lemma ft12_parse_fields:
  assumes "ft12_parse u s = Some s'" and "ft_mode s \<in> {0, 1}" "0 \<le> ft_repeatcount s"
  shows "ft_mode s' \<in> {0, 1} \<and> 0 \<le> ft_repeatcount s'"
proof -
  have "ft_mode s \<in> {0, 1} \<and> 0 \<le> ft_repeatcount s \<longrightarrow> ft_mode s' \<in> {0, 1} \<and> 0 \<le> ft_repeatcount s'"
  proof (rule ft12_parse.raw_induct [where P = "\<lambda>u s s'. ft_mode s \<in> {0, 1} \<and> 0 \<le> ft_repeatcount s \<longrightarrow>
        ft_mode s' \<in> {0, 1} \<and> 0 \<le> ft_repeatcount s'", OF _ assms(1)], intro impI)
    fix lp :: "(ft12 \<Rightarrow> unsigned) \<Rightarrow> ft12 \<Rightarrow> ft12 option" and u :: "ft12 \<Rightarrow> unsigned" and s s'
    assume IH: "\<And>u s s'. lp u s = Some s' \<Longrightarrow> ft_mode s \<in> {0, 1} \<and> 0 \<le> ft_repeatcount s \<longrightarrow> ft_mode s' \<in> {0, 1} \<and> 0 \<le> ft_repeatcount s'"
      and step: "(if ft_akt s = [] then Some s else case ft12_step (u s) s of None \<Rightarrow> None
          | Some (go, s1) \<Rightarrow> if go then lp u s1 else Some s1) = Some s'"
      and s: "ft_mode s \<in> {0, 1} \<and> 0 \<le> ft_repeatcount s"
    show "ft_mode s' \<in> {0, 1} \<and> 0 \<le> ft_repeatcount s'"
    proof (cases "ft_akt s = []")
      case True
      with step s show ?thesis by simp
    next
      case False
      with step obtain go s1 where s1: "ft12_step (u s) s = Some (go, s1)" "if go then lp u s1 = Some s' else s1 = s'"
        by (auto split: option.splits prod.splits if_splits)
      with step_fields [OF s1(1)] s IH [of u s1 s'] show ?thesis by (cases go) auto
    qed
  qed
  with assms(2,3) show ?thesis by simp
qed

lemma ft12_idle_turn:
  assumes "ft12_turn u d expired n s = Some s'" and "ft12_idle s"
  shows "ft12_idle s'"
proof -
  let ?s = "s\<lparr>ft_akt := ft_akt s @ take 255 d\<rparr>"
  from assms(1) obtain s1 where s1: "ft12_parse u ?s = Some s1"
    and s': "s' = ft12_send n (if ft_mode s1 = 1 \<and> expired then s1\<lparr>ft_mode := 0\<rparr> else s1)"
    by (auto simp: ft12_turn_def)
  have "ft12_idle s1" using ft12_parse_waits [OF s1] ft12_parse_fields [OF s1] assms(2) by (simp add: ft12_idle_def)
  then have "ft12_idle (if ft_mode s1 = 1 \<and> expired then s1\<lparr>ft_mode := 0\<rparr> else s1)"
    using ft12_waiting_cong [of s1 "s1\<lparr>ft_mode := 0\<rparr>"] by (auto simp: ft12_idle_def)
  then show ?thesis unfolding s' by (rule ft12_idle_send)
qed

lemma ft12_idle_keep: "ft12_idle s \<Longrightarrow> ft_akt t = ft_akt s \<Longrightarrow> ft_mode t = ft_mode s \<Longrightarrow> ft_repeatcount t = ft_repeatcount s \<Longrightarrow> ft12_idle t"
  using ft12_waiting_cong [of s t] by (simp add: ft12_idle_def)

lemma ft12_idle_run: "ft12_run u es s = Some (g, s') \<Longrightarrow> ft12_idle s \<Longrightarrow> ft12_idle s'"
proof (induction es arbitrary: s g)
  case (Cons e es)
  show ?case
  proof (cases e)
    case (FT_Turn d expired n)
    with Cons.prems(1) obtain s1 where s1: "ft12_turn u d expired n s = Some s1" "ft12_run u es s1 = Some (g, s')"
      by (auto split: bind_splits)
    from Cons.IH [OF s1(2) ft12_idle_turn [OF s1(1) Cons.prems(2)]] show ?thesis .
  next
    case (FT_Send l)
    with Cons.prems(1) obtain s1 where s1: "FT12_Send_Packet l s = Some s1" "ft12_run u es s1 = Some (g, s')"
      by (auto split: bind_splits)
    from s1(1) have "ft12_idle s1"
      by (intro ft12_idle_keep [OF Cons.prems(2)]) (auto simp: FT12_Send_Packet_def ft12_put_def split: if_splits)
    from Cons.IH [OF s1(2) this] show ?thesis .
  next
    case FT_Get
    with Cons.prems(1) obtain c s1 g1 where s1: "FT12_Get_Packet s = Some (c, s1)" "ft12_run u es s1 = Some (g1, s')"
      by (auto split: bind_splits)
    from s1(1) have "ft12_idle s1"
      by (intro ft12_idle_keep [OF Cons.prems(2)]) (auto simp: FT12_Get_Packet_def split: if_splits list.splits)
    from Cons.IH [OF s1(2) this] show ?thesis .
  next
    case FT_Reset
    with Cons.prems(1) have s1: "ft12_run u es (FT12_SendReset s) = Some (g, s')" by simp
    have "ft12_idle (FT12_SendReset s)"
      by (rule ft12_idle_keep [OF Cons.prems(2)]) (simp_all add: FT12_SendReset_def ft12_put_def)
    from Cons.IH [OF s1 this] show ?thesis .
  qed
qed simp

lemma ft12_idle_new: "ft12_idle FT12_new"
  by (simp add: ft12_idle_def ft12_waiting_def FT12_new_def)

lemma silent_turn:
  assumes "ft12_idle s" "ft_inqueue s \<noteq> []"
  obtains s' where "ft12_turn u [] True n s = Some s'" "ft_repeatcount s' = ft_repeatcount s + 1"
    "ft12_idle s'" "ft_inqueue s' = ft_inqueue s"
proof -
  let ?s1 = "if ft_mode s = 1 then s\<lparr>ft_mode := 0\<rparr> else s"
  have "s\<lparr>ft_akt := ft_akt s @ take 255 []\<rparr> = s" by simp
  then have turn: "ft12_turn u [] True n s = Some (ft12_send n ?s1)"
    using ft12_parse_waiting [of s u] assms(1) by (simp add: ft12_turn_def ft12_idle_def)
  have "ft_mode ?s1 = 0" "ft_inqueue ?s1 = ft_inqueue s" "ft_repeatcount ?s1 = ft_repeatcount s"
    using assms(1) by (auto simp: ft12_idle_def)
  then show thesis
    using that [OF turn] ft12_idle_turn [OF turn assms(1)] assms(2) by (simp add: ft12_send_fields)
qed

lemma silent_turns:
  "ft12_idle s \<Longrightarrow> ft_inqueue s \<noteq> [] \<Longrightarrow>
   \<exists>s'. ft12_run u (map (FT_Turn [] True) ns) s = Some ([], s') \<and> ft_repeatcount s' = ft_repeatcount s + int (length ns)"
proof (induction ns arbitrary: s)
  case (Cons n ns)
  obtain s1 where "ft12_turn u [] True n s = Some s1" "ft_repeatcount s1 = ft_repeatcount s + 1"
    "ft12_idle s1" "ft_inqueue s1 = ft_inqueue s"
    by (rule silent_turn [OF Cons.prems, where u = u and n = n]) blast
  with Cons.IH [of s1] Cons.prems(2) show ?case by auto
qed simp

end
