(* ===== verification/FT12Props.thy ===== *)
theory FT12Props
  imports FT12Proofs
begin

text \<open>What the FT1.2 driver promises: packets cross the line once and in order, and silence is noticed.\<close>

text \<open>The uninitialised variable, when it still holds what was assigned for the last packet that was accepted.\<close>

definition kept_len :: "ft12 \<Rightarrow> unsigned" where
  "kept_len s = of_nat (length (ft_last s) + 7)"

lemma good_kept_len: "good_len kept_len"
  by (simp only: good_len_def kept_len_def unat_of_nat) simp

text \<open>C29: packets cross a serial line once and in order. Let one driver be given packets of at most 32 bytes and
  no reset, whatever it reads and whenever its timer runs out, where each of its writes of a frame is complete or
  fails before the first byte. Let a second driver, which is given no reset and packets of at most 32 bytes, too,
  read what the first has written, cut into reads in any way, in the direction of a device. Then the packets the second one hands out are the first packets of
  those given to the first, in order and each once, and all that are no longer in the queue of the first are
  among them. One thing is assumed of the uninitialised variable \<open>len\<close> of the second driver: where it reads \<open>len\<close>
  without having assigned it, which is when a frame is a repetition, it holds the value assigned when the last packet
  was accepted. Without that the statement is false (\<open>repeated_frame_loops\<close>).
\<close>

theorem ft12_end_to_end:
  assumes "ft12_run u es FT12_new = Some (g, s)" and "FT_Reset \<notin> set es \<and> list_all whole_write es"
    and "\<forall>l \<in> set (packets_sent es). length l \<le> 32"
    and "good_len u'" and "bytes_read es' = concat (map mirror (ft_wire s))"
    and "FT_Reset \<notin> set es' \<and> (\<forall>l \<in> set (packets_sent es'). length l \<le> 32)"
  shows "\<exists>g' s' n. ft12_run u' es' FT12_new = Some (g', s') \<and> g' @ ft_outqueue s' = take n (packets_sent es) \<and>
    length (packets_sent es) \<le> n + length (ft_inqueue s)"
  by (rule ft12_end_to_end_run [OF assms]) blast

definition sample_events :: "ft12_event list" where
  "sample_events = [FT_Send [1, 2], FT_Turn [] False 39, FT_Turn [] True 39, FT_Turn [0xE5] False 39,
     FT_Send [3], FT_Turn [] False 39]"

lemma sample_events_run:
  "\<exists>s. ft12_run kept_len sample_events FT12_new = Some ([], s) \<and>
     ft_wire s = [ft12_frame 0x73 [1, 2], ft12_frame 0x73 [1, 2], ft12_frame 0x53 [3]] \<and> ft_inqueue s = [ft12_frame 0x53 [3]]"
  by (simp add: sample_events_def FT12_new_def FT12_Send_Packet_def ft12_put_def ft12_turn_def ft12_parse.simps ft12_send_def
      ft12_write_def ft12_step_def ft12_acked_def rd_def Let_def)

lemma ft12_end_to_end_witness:
  "\<exists>g' s' n. ft12_run kept_len
      [FT_Turn (concat (map mirror [ft12_frame 0x73 [1, 2], ft12_frame 0x73 [1, 2], ft12_frame 0x53 [3]])) False 0, FT_Get] FT12_new =
      Some (g', s') \<and> g' @ ft_outqueue s' = take n [[1, 2], [3]] \<and> 2 \<le> n + 1"
proof -
  obtain s where s: "ft12_run kept_len sample_events FT12_new = Some ([], s)"
    "ft_wire s = [ft12_frame 0x73 [1, 2], ft12_frame 0x73 [1, 2], ft12_frame 0x53 [3]]" "ft_inqueue s = [ft12_frame 0x53 [3]]"
    using sample_events_run by blast
  let ?d = "concat (map mirror [ft12_frame 0x73 [1, 2], ft12_frame 0x73 [1, 2], ft12_frame 0x53 [3]])"
  have "length ?d \<le> 255" by (simp add: mirror_def frame_control)
  then have "bytes_read [FT_Turn ?d False 0, FT_Get] = concat (map mirror (ft_wire s))" by (simp add: s(2))
  from ft12_end_to_end [OF s(1) _ _ good_kept_len this] s(3) show ?thesis
    by (simp add: sample_events_def)
qed

text \<open>C31: the driver survives whatever the line brings. No sequence of turns, with any bytes read, lost and
  delayed and frames written in part, and of calls, resets and packets of at most 32 bytes trips an \<open>assert\<close>, reads
  behind the bytes received or makes the loop over them run forever, as long as the value of \<open>len\<close>, where it is
  read uninitialised, is not 0; and both semaphores count their queues.
\<close>

theorem ft12_survives:
  assumes "\<forall>s. 0 < unat (u s)" and "\<forall>l \<in> set (packets_sent es). length l \<le> 32"
  shows "\<exists>g s. ft12_run u es FT12_new = Some (g, s) \<and> ft_insignal s = length (ft_inqueue s) \<and>
    ft_outsignal s = length (ft_outqueue s) \<and> ft_sendempty s = FT12_Send_Queue_Empty s"
  using ft12_run_total [where u = u, OF _ ft12_ok_new assms(2)] assms(1)
  by (auto simp: ft12_ok_def FT12_Send_Queue_Empty_def)

lemma ft12_survives_witness:
  "\<exists>g s. ft12_run (\<lambda>_. 1) [FT_Reset, FT_Send [1], FT_Turn [0x68, 0xE5, 7] False 3, FT_Get] FT12_new = Some (g, s) \<and>
    ft_insignal s = length (ft_inqueue s) \<and> ft_outsignal s = length (ft_outqueue s) \<and> ft_sendempty s = FT12_Send_Queue_Empty s"
  by (rule ft12_survives) simp_all

text \<open>C33: a dead line is noticed. At any moment of any run, whatever was received before, the beginning of a frame that was cut off
  included: while a packet waits and nothing more is read, eleven turns with an expired timer are enough for
  \<open>Connection_Lost\<close>, whether their writes work, fail or stop half way.
\<close>

theorem ft12_silence_noticed:
  assumes "ft12_run u es FT12_new = Some (g, s)" and "ft_inqueue s \<noteq> []" and "11 \<le> length ns"
  shows "\<exists>s'. ft12_run u (map (FT_Turn [] True) ns) s = Some ([], s') \<and> FT12_Connection_Lost s'"
proof -
  have "ft12_idle s" by (rule ft12_idle_run [OF assms(1) ft12_idle_new])
  with silent_turns [OF this assms(2), of u ns] assms(3) show ?thesis
    by (auto simp: FT12_Connection_Lost_def ft12_idle_def)
qed

lemma ft12_silence_noticed_witness:
  "\<exists>s s'. ft12_run kept_len [FT_Send [1], FT_Turn [0x68, 3] False 39] FT12_new = Some ([], s) \<and> ft_akt s = [0x68, 3] \<and>
     ft12_run kept_len (map (FT_Turn [] True) (replicate 11 5)) s = Some ([], s') \<and> FT12_Connection_Lost s'"
proof -
  have "\<exists>s. ft12_run kept_len [FT_Send [1], FT_Turn [0x68, 3] False 39] FT12_new = Some ([], s) \<and> ft_akt s = [0x68, 3] \<and> ft_inqueue s \<noteq> []"
    by (simp add: FT12_new_def FT12_Send_Packet_def ft12_put_def ft12_turn_def ft12_parse.simps ft12_send_def
      ft12_write_def ft12_step_def rd_def Let_def)
  then obtain s where s: "ft12_run kept_len [FT_Send [1], FT_Turn [0x68, 3] False 39] FT12_new = Some ([], s)" "ft_akt s = [0x68, 3]"
    "ft_inqueue s \<noteq> []" by blast
  from ft12_silence_noticed [OF s(1,3), of "replicate 11 5"] s(1,2) show ?thesis by auto
qed

text \<open>
  Where \<open>len\<close> happens to be 0, a frame that is repeated because its acknowledgement was lost keeps the
  loop running forever.
\<close>

lemma repeated_frame_loops:
  assumes p: "length p \<le> 254"
    and s: "ft_recvflag s" "ft_last s = p" "ft_akt s = ft12_frame 0xF3 p"
  shows "ft12_parse (\<lambda>_. 0) s = None"
proof -
  have "\<not> (ft_recvflag s \<and> ft_last s = p \<and> ft_akt s = ft12_frame 0xF3 p)" if "ft12_parse u s = Some y" "u = (\<lambda>_. 0)" for u s y
  proof -
    have "u = (\<lambda>_. 0) \<longrightarrow> \<not> (ft_recvflag s \<and> ft_last s = p \<and> ft_akt s = ft12_frame 0xF3 p)"
    proof (rule ft12_parse.raw_induct [where P = "\<lambda>u s y. u = (\<lambda>_. 0) \<longrightarrow> \<not> (ft_recvflag s \<and> ft_last s = p \<and> ft_akt s = ft12_frame 0xF3 p)",
          OF _ that(1)], intro impI notI)
      fix lp :: "(ft12 \<Rightarrow> unsigned) \<Rightarrow> ft12 \<Rightarrow> ft12 option" and u :: "ft12 \<Rightarrow> unsigned" and s y
      assume IH: "\<And>u s y. lp u s = Some y \<Longrightarrow> u = (\<lambda>_. 0) \<longrightarrow> \<not> (ft_recvflag s \<and> ft_last s = p \<and> ft_akt s = ft12_frame 0xF3 p)"
        and run: "(if ft_akt s = [] then Some s else case ft12_step (u s) s of None \<Rightarrow> None
          | Some (go, s1) \<Rightarrow> if go then lp u s1 else Some s1) = Some y"
        and u: "u = (\<lambda>_. 0)" and s: "ft_recvflag s \<and> ft_last s = p \<and> ft_akt s = ft12_frame 0xF3 p"
      let ?s1 = "ft12_write [0xE5] s"
      have "ft12_step 0 s = Some (True, ?s1)"
        using s step_frame [of s "0xF3" p "[]" 0] p
        by (simp add: wrong_sequence_def right_sequence_def ft12_write_def ft12_delete_def Let_def)
      moreover have "ft_akt s \<noteq> []" using s by (simp add: ft12_frame_def)
      ultimately have "lp u ?s1 = Some y" using run u by simp
      from IH [OF this] u s show False by (simp add: ft12_write_def)
    qed
    with that(2) show ?thesis by simp
  qed
  from this [of "\<lambda>_. 0" s] s show ?thesis by (cases "ft12_parse (\<lambda>_. 0) s") auto
qed

end
