(* ===== verification/EmiDriver.thy ===== *)
theory EmiDriver
  imports Emi
begin

text \<open>
  The bus access layers \<open>EMI1Layer2Interface\<close> and \<open>EMI2Layer2Interface\<close>, \<open>eibd/libserver/emi1.cpp\<close> and
  \<open>emi2.cpp\<close>: they drive a bus interface through messages over a low level driver. The two files
  are the same but for the messages, which are the record \<open>emi_version\<close>. The low level driver
  is what the operations hand to it: a list of commands; waiting for its queue to be sent returns. The loop of
  \<open>Run\<close> is a sequence of turns; a turn gets what \<open>Get_Packet\<close> returned and whether the timer has run
  out. \<open>None\<close> is a failed \<open>assert\<close>.
\<close>

section \<open>The two versions\<close>

record emi_version =
  ev_enterBusmonitor :: "CArray list"
  ev_leaveBusmonitor :: CArray
  ev_open :: "CArray list"
  ev_close :: CArray
  ev_confirm :: uchar
  ev_indication :: uchar
  ev_busmonitor :: uchar

definition emi1 :: emi_version where
  "emi1 =
     \<lparr>ev_enterBusmonitor = [[0x46, 0x01, 0x00, 0x60, 0x90]], ev_leaveBusmonitor = [0x46, 0x01, 0x00, 0x60, 0xc0],
      ev_open = [[0x46, 0x01, 0x00, 0x60, 0x12]], ev_close = [0x46, 0x01, 0x00, 0x60, 0xc0],
      ev_confirm = 0x4E, ev_indication = 0x49, ev_busmonitor = 0x49\<rparr>"

definition emi2 :: emi_version where
  "emi2 =
     \<lparr>ev_enterBusmonitor = [[0xa9, 0x1E, 0x12, 0x34, 0x56, 0x78, 0x9a], [0xa9, 0x90, 0x18, 0x34, 0x45, 0x67, 0x8a]],
      ev_leaveBusmonitor = [0xa9, 0x1E, 0x12, 0x34, 0x56, 0x78, 0x9a],
      ev_open = [[0xa9, 0x1E, 0x12, 0x34, 0x56, 0x78, 0x9a], [0xa9, 0x00, 0x18, 0x34, 0x56, 0x78, 0x0a]],
      ev_close = [0xa9, 0x1E, 0x12, 0x34, 0x56, 0x78, 0x9a],
      ev_confirm = 0x2E, ev_indication = 0x29, ev_busmonitor = 0x2B\<rparr>"

section \<open>State\<close>

text \<open>The calls of the low level driver: \<open>SendReset ()\<close> and \<open>Send_Packet (c)\<close>.\<close>

datatype ll_command = LL_Reset | LL_Packet CArray

record emi_driver =
  em_mode :: int
  em_vmode :: int
  em_noqueue :: bool
  em_sendmode :: int
  em_inqueue :: "l_data list"
  em_insignal :: nat
  em_outqueue :: "lpdu list"
  em_outsignal :: nat
  em_iface :: "ll_command list"

text \<open>The constructor, when the low level driver could be initialised, and the first statement of \<open>Run\<close>.\<close>

definition EMI_new :: "bool \<Rightarrow> emi_driver" where
  "EMI_new noqueue =
     \<lparr>em_mode = 0, em_vmode = 0, em_noqueue = noqueue, em_sendmode = 0, em_inqueue = [], em_insignal = 0,
      em_outqueue = [], em_outsignal = 0, em_iface = []\<rparr>"

definition emi_commands :: "ll_command list \<Rightarrow> emi_driver \<Rightarrow> emi_driver" where
  "emi_commands cs s = s\<lparr>em_iface := em_iface s @ cs\<rparr>"

text \<open>\<open>outqueue.put (l); pth_sem_inc (&out_signal, 1);\<close>\<close>

definition emi_out :: "lpdu \<Rightarrow> emi_driver \<Rightarrow> emi_driver" where
  "emi_out l s = s\<lparr>em_outqueue := em_outqueue s @ [l], em_outsignal := em_outsignal s + 1\<rparr>"

section \<open>Operations\<close>

definition EMI_addAddress :: "eibaddr_t \<Rightarrow> bool" where
  "EMI_addAddress a = False"

definition EMI_addGroupAddress :: "eibaddr_t \<Rightarrow> bool" where
  "EMI_addGroupAddress a = True"

definition EMI_removeAddress :: "eibaddr_t \<Rightarrow> bool" where
  "EMI_removeAddress a = False"

definition EMI_removeGroupAddress :: "eibaddr_t \<Rightarrow> bool" where
  "EMI_removeGroupAddress a = True"

definition EMI_getDefaultAddr :: eibaddr_t where
  "EMI_getDefaultAddr = 0"

definition EMI_openVBusmonitor :: "emi_driver \<Rightarrow> bool \<times> emi_driver" where
  "EMI_openVBusmonitor s = (True, s\<lparr>em_vmode := 1\<rparr>)"

definition EMI_closeVBusmonitor :: "emi_driver \<Rightarrow> bool \<times> emi_driver" where
  "EMI_closeVBusmonitor s = (True, s\<lparr>em_vmode := 0\<rparr>)"

definition EMI_enterBusmonitor :: "emi_version \<Rightarrow> emi_driver \<Rightarrow> bool \<times> emi_driver" where
  "EMI_enterBusmonitor v s =
     (if em_mode s \<noteq> 0 then (False, s)
      else (True, (emi_commands (LL_Reset # map LL_Packet (ev_enterBusmonitor v)) s)\<lparr>em_mode := 1\<rparr>))"

definition EMI_leaveBusmonitor :: "emi_version \<Rightarrow> emi_driver \<Rightarrow> bool \<times> emi_driver" where
  "EMI_leaveBusmonitor v s =
     (if em_mode s \<noteq> 1 then (False, s)
      else (True, (emi_commands [LL_Packet (ev_leaveBusmonitor v)] s)\<lparr>em_mode := 0\<rparr>))"

definition EMI_Open :: "emi_version \<Rightarrow> emi_driver \<Rightarrow> bool \<times> emi_driver" where
  "EMI_Open v s =
     (if em_mode s \<noteq> 0 then (False, s)
      else (True, (emi_commands (LL_Reset # map LL_Packet (ev_open v)) s)\<lparr>em_mode := 2\<rparr>))"

definition EMI_Close :: "emi_version \<Rightarrow> emi_driver \<Rightarrow> bool \<times> emi_driver" where
  "EMI_Close v s =
     (if em_mode s \<noteq> 2 then (False, s)
      else (True, (emi_commands [LL_Packet (ev_close v)] s)\<lparr>em_mode := 0\<rparr>))"

text \<open>\<open>Send_Queue_Empty\<close>, given that of the low level driver.\<close>

definition EMI_Send_Queue_Empty :: "bool \<Rightarrow> emi_driver \<Rightarrow> bool" where
  "EMI_Send_Queue_Empty iface_empty s \<longleftrightarrow> iface_empty \<and> em_inqueue s = []"

text \<open>Frames that are not of type \<open>L_Data\<close> are discarded, incomplete ones among them; the cast of any other class is \<open>None\<close>.\<close>

definition EMI_Send_L_Data :: "lpdu \<Rightarrow> emi_driver \<Rightarrow> emi_driver option" where
  "EMI_Send_L_Data l s =
     (if LPDU_getType l \<noteq> L_Data then Some s
      else
        case l of
          L_Data_PDU l1 \<Rightarrow>
            if \<not> length (data l1) \<ge> 1 then None
            else if length (data l1) > 0x10 then Some s
            else if hopcount l1 AND 0xf8 \<noteq> 0 then None
            else Some (s\<lparr>em_inqueue := em_inqueue s @ [l1], em_insignal := em_insignal s + 1\<rparr>)
        | _ \<Rightarrow> None)"

definition EMI_Send :: "l_data \<Rightarrow> emi_driver \<Rightarrow> emi_driver option" where
  "EMI_Send l1 s =
     (let s1 = emi_commands [LL_Packet (L_Data_ToEMI 0x11 l1)] s
      in if em_vmode s1 \<noteq> 0 then
           (case L_Data_ToPacket l1 of
              None \<Rightarrow> None
            | Some p \<Rightarrow> Some (emi_out (L_Data_PDU l1) (emi_out (L_Busmonitor_PDU p 0 0) s1)))
         else Some (emi_out (L_Data_PDU l1) s1))"

text \<open>The result is \<open>None\<close> for a stopped wait.\<close>

definition EMI_Get_L_Data :: "emi_driver \<Rightarrow> (lpdu option \<times> emi_driver) option" where
  "EMI_Get_L_Data s =
     (if em_outsignal s > 0 then
        (case em_outqueue s of
           [] \<Rightarrow> None
         | c # q \<Rightarrow> Some (Some c, s\<lparr>em_outqueue := q, em_outsignal := em_outsignal s - 1\<rparr>))
      else Some (None, s))"

section \<open>A turn of the thread\<close>

text \<open>
  The first half: a frame of the queue is sent when none waits for its confirmation. The semaphore \<open>in_signal\<close>
  is not decremented.
\<close>

definition emi_transmit :: "bool \<Rightarrow> emi_driver \<Rightarrow> emi_driver option" where
  "emi_transmit expired s =
     (case em_inqueue s of
        l1 # q \<Rightarrow>
          if em_sendmode s = 0 then
            map_option (\<lambda>s1. s1\<lparr>em_sendmode := (if em_noqueue s1 then 1 else 0)\<rparr>) (EMI_Send l1 (s\<lparr>em_inqueue := q\<rparr>))
          else if em_sendmode s = 1 \<and> expired then Some (s\<lparr>em_sendmode := 0\<rparr>)
          else Some s
      | [] \<Rightarrow> if em_sendmode s = 1 \<and> expired then Some (s\<lparr>em_sendmode := 0\<rparr>) else Some s)"

text \<open>After a reset of the interface the mode is entered again.\<close>

definition emi_reopen :: "emi_version \<Rightarrow> CArray \<Rightarrow> emi_driver \<Rightarrow> emi_driver" where
  "emi_reopen v c s =
     (let s1 = (if c = [0xA0] \<and> em_mode s = 2 then snd (EMI_Open v (s\<lparr>em_mode := 0\<rparr>)) else s)
      in if c = [0xA0] \<and> em_mode s1 = 1 then snd (EMI_enterBusmonitor v (s1\<lparr>em_mode := 0\<rparr>)) else s1)"

text \<open>A frame from the bus, and one seen by the busmonitor.\<close>

definition emi_frame :: "l_data \<Rightarrow> emi_driver \<Rightarrow> emi_driver option" where
  "emi_frame p s =
     (let p1 = (if AddrType p = IndividualAddress then p\<lparr>dest := 0\<rparr> else p)
      in if em_vmode s \<noteq> 0 then
           (case L_Data_ToPacket p1 of
              None \<Rightarrow> None
            | Some b \<Rightarrow> Some (emi_out (L_Data_PDU p1) (emi_out (L_Busmonitor_PDU b 0 0) s)))
         else Some (emi_out (L_Data_PDU p1) s))"

definition emi_monitored :: "emi_version \<Rightarrow> CArray \<Rightarrow> emi_driver \<Rightarrow> emi_driver" where
  "emi_monitored v c s =
     (if length c > 4 \<and> c ! 0 = ev_busmonitor v \<and> em_mode s = 1
      then emi_out (L_Busmonitor_PDU (drop 4 c) (c ! 1) (push_bit 24 (ucast (c ! 2)) OR push_bit 16 (ucast (c ! 3)))) s
      else s)"

definition emi_receive :: "emi_version \<Rightarrow> CArray \<Rightarrow> emi_driver \<Rightarrow> emi_driver option" where
  "emi_receive v c s =
     (let s1 = emi_reopen v c s;
          s2 = (if c \<noteq> [] \<and> c ! 0 = ev_confirm v then s1\<lparr>em_sendmode := 0\<rparr> else s1)
      in if c \<noteq> [] \<and> c ! 0 = ev_indication v \<and> em_mode s2 = 2 then
           (case EMI_to_L_Data c of
              Some p \<Rightarrow> emi_frame p s2
            | None \<Rightarrow> Some (emi_monitored v c s2))
         else Some (emi_monitored v c s2))"

definition emi_turn :: "emi_version \<Rightarrow> CArray option \<Rightarrow> bool \<Rightarrow> emi_driver \<Rightarrow> emi_driver option" where
  "emi_turn v c expired s =
     Option.bind (emi_transmit expired s) (\<lambda>s1. case c of None \<Rightarrow> Some s1 | Some p \<Rightarrow> emi_receive v p s1)"

end
