(* ===== verification/EmiDriverProofs.thy ===== *)
theory EmiDriverProofs
  imports EmiDriver
begin

text \<open>
  The EMI bus access layers: the calls and turns of a driver as runs, and the one invariant that carries their
  properties, preserved by every step.
\<close>

section \<open>Runs\<close>

datatype emi_event =
  EE_Send lpdu | EE_Get | EE_Turn "CArray option" bool | EE_Open | EE_Close | EE_Enter | EE_Leave | EE_VOpen | EE_VClose

text \<open>A step returns the frames that \<open>Get_L_Data\<close> returned.\<close>

primrec emi_step :: "emi_version \<Rightarrow> emi_event \<Rightarrow> emi_driver \<Rightarrow> (lpdu list \<times> emi_driver) option" where
  "emi_step v (EE_Send l) s = map_option (Pair []) (EMI_Send_L_Data l s)"
| "emi_step v EE_Get s = map_option (\<lambda>(c, t). (case c of None \<Rightarrow> [] | Some x \<Rightarrow> [x], t)) (EMI_Get_L_Data s)"
| "emi_step v (EE_Turn c expired) s = map_option (Pair []) (emi_turn v c expired s)"
| "emi_step v EE_Open s = Some ([], snd (EMI_Open v s))"
| "emi_step v EE_Close s = Some ([], snd (EMI_Close v s))"
| "emi_step v EE_Enter s = Some ([], snd (EMI_enterBusmonitor v s))"
| "emi_step v EE_Leave s = Some ([], snd (EMI_leaveBusmonitor v s))"
| "emi_step v EE_VOpen s = Some ([], snd (EMI_openVBusmonitor s))"
| "emi_step v EE_VClose s = Some ([], snd (EMI_closeVBusmonitor s))"

primrec emi_run :: "emi_version \<Rightarrow> emi_event list \<Rightarrow> emi_driver \<Rightarrow> (lpdu list \<times> emi_driver) option" where
  "emi_run v [] s = Some ([], s)"
| "emi_run v (e # es) s =
     Option.bind (emi_step v e s) (\<lambda>(g, s1). map_option (\<lambda>(h, t). (g @ h, t)) (emi_run v es s1))"

text \<open>The frames a driver takes, and what its asserts require of a frame of type \<open>L_Data\<close>.\<close>

fun emi_accepted :: "emi_event \<Rightarrow> l_data list" where
  "emi_accepted (EE_Send (L_Data_PDU d)) = (if valid_length d \<and> length (data d) \<le> 16 then [d] else [])"
| "emi_accepted _ = []"

fun emi_sendable :: "emi_event \<Rightarrow> bool" where
  "emi_sendable (EE_Send (L_Data_PDU d)) \<longleftrightarrow> \<not> valid_length d \<or> 1 \<le> length (data d) \<and> hopcount d AND 0xf8 = 0"
| "emi_sendable _ \<longleftrightarrow> True"

text \<open>How often a step allows the next frame: a timer that ran out, a confirmation.\<close>

fun emi_permits :: "emi_version \<Rightarrow> emi_event \<Rightarrow> nat" where
  "emi_permits v (EE_Turn c expired) =
     (if expired then 1 else 0) + (case c of Some (b # _) \<Rightarrow> if b = ev_confirm v then 1 else 0 | _ \<Rightarrow> 0)"
| "emi_permits v _ = 0"

section \<open>The invariant\<close>

text \<open>A command the low level driver takes, and a frame that can be encoded again.\<close>

primrec ll_fits :: "ll_command \<Rightarrow> bool" where
  "ll_fits LL_Reset \<longleftrightarrow> True"
| "ll_fits (LL_Packet c) \<longleftrightarrow> length c \<le> 32"

fun lpdu_fits :: "lpdu \<Rightarrow> bool" where
  "lpdu_fits (L_Data_PDU d) \<longleftrightarrow> L_Data_asserts d"
| "lpdu_fits _ \<longleftrightarrow> True"

text \<open>The requests for a transmission among the commands.\<close>

fun handed :: "ll_command list \<Rightarrow> CArray list" where
  "handed [] = []"
| "handed (LL_Reset # cs) = handed cs"
| "handed (LL_Packet c # cs) = (if take 1 c = [0x11] then c # handed cs else handed cs)"

lemma handed_append [simp]: "handed (as @ bs) = handed as @ handed bs"
  by (induction as rule: handed.induct) simp_all

definition short_frame :: "l_data \<Rightarrow> bool" where
  "short_frame d \<longleftrightarrow> 1 \<le> length (data d) \<and> length (data d) \<le> 16 \<and> hopcount d AND 0xf8 = 0"

lemma short_frame_asserts: "short_frame d \<Longrightarrow> L_Data_asserts d"
  by (simp add: short_frame_def L_Data_asserts_def)

definition emi_ok :: "emi_driver \<Rightarrow> bool" where
  "emi_ok s \<longleftrightarrow> em_outsignal s = length (em_outqueue s) \<and> em_sendmode s \<in> {0, 1} \<and> list_all ll_fits (em_iface s) \<and>
     list_all lpdu_fits (em_outqueue s) \<and> list_all short_frame (em_inqueue s)"

text \<open>\<open>k\<close> frames have been handed over, \<open>acc\<close> taken, and \<open>p\<close> times the next frame was allowed.\<close>

definition emi_inv :: "bool \<Rightarrow> nat \<Rightarrow> nat \<Rightarrow> l_data list \<Rightarrow> emi_driver \<Rightarrow> bool" where
  "emi_inv nq k p acc s \<longleftrightarrow> emi_ok s \<and> handed (em_iface s) = map (L_Data_ToEMI 0x11) (take k acc) \<and> em_inqueue s = drop k acc \<and>
     k \<le> length acc \<and> em_noqueue s = nq \<and> (nq \<longrightarrow> int k \<le> int p + em_sendmode s)"

lemma emi_inv_new: "emi_inv nq 0 0 [] (EMI_new nq)"
  by (simp add: emi_inv_def emi_ok_def EMI_new_def)

text \<open>The updates that leave it alone.\<close>

lemma emi_ok_out [simp]: "lpdu_fits l \<Longrightarrow> emi_ok (emi_out l s) = emi_ok s"
  by (auto simp: emi_ok_def emi_out_def)

lemma emi_out_fields [simp]:
  "em_iface (emi_out l s) = em_iface s" "em_inqueue (emi_out l s) = em_inqueue s" "em_noqueue (emi_out l s) = em_noqueue s"
  "em_sendmode (emi_out l s) = em_sendmode s" "em_mode (emi_out l s) = em_mode s" "em_vmode (emi_out l s) = em_vmode s"
  by (simp_all add: emi_out_def)

lemma emi_inv_out [simp]: "lpdu_fits l \<Longrightarrow> emi_inv nq k p acc (emi_out l s) = emi_inv nq k p acc s"
  by (simp add: emi_inv_def)

lemma emi_ok_modes [simp]: "emi_ok (s\<lparr>em_mode := m\<rparr>) = emi_ok s" "emi_ok (s\<lparr>em_vmode := m\<rparr>) = emi_ok s"
  by (simp_all add: emi_ok_def)

lemma emi_inv_modes [simp]:
  "emi_inv nq k p acc (s\<lparr>em_mode := m\<rparr>) = emi_inv nq k p acc s" "emi_inv nq k p acc (s\<lparr>em_vmode := m\<rparr>) = emi_inv nq k p acc s"
  by (simp_all add: emi_inv_def)

lemma emi_inv_more: "emi_inv nq k p acc s \<Longrightarrow> p \<le> p' \<Longrightarrow> emi_inv nq k p' acc s"
  by (auto simp: emi_inv_def)

lemma emi_inv_ready: "emi_inv nq k p acc s \<Longrightarrow> emi_inv nq k (Suc p) acc (s\<lparr>em_sendmode := 0\<rparr>)"
  by (auto simp: emi_inv_def emi_ok_def)

text \<open>The commands of a mode switch are no transmissions.\<close>

definition no_transmission :: "ll_command list \<Rightarrow> bool" where
  "no_transmission cs \<longleftrightarrow> handed cs = [] \<and> list_all ll_fits cs"

lemma emi_inv_commands: "no_transmission cs \<Longrightarrow> emi_inv nq k p acc (emi_commands cs s) = emi_inv nq k p acc s"
  by (auto simp: emi_inv_def emi_ok_def emi_commands_def no_transmission_def)

lemma mode_switches:
  assumes "v \<in> {emi1, emi2}"
  shows "no_transmission (LL_Reset # map LL_Packet (ev_enterBusmonitor v))" "no_transmission [LL_Packet (ev_leaveBusmonitor v)]"
    "no_transmission (LL_Reset # map LL_Packet (ev_open v))" "no_transmission [LL_Packet (ev_close v)]"
  using assms by (auto simp: no_transmission_def emi1_def emi2_def)

lemma emi_inv_switch:
  assumes "v \<in> {emi1, emi2}" and "emi_inv nq k p acc s"
  shows "emi_inv nq k p acc (snd (EMI_Open v s))" "emi_inv nq k p acc (snd (EMI_Close v s))"
    "emi_inv nq k p acc (snd (EMI_enterBusmonitor v s))" "emi_inv nq k p acc (snd (EMI_leaveBusmonitor v s))"
  using assms(2) by (simp_all add: EMI_Open_def EMI_Close_def EMI_enterBusmonitor_def EMI_leaveBusmonitor_def
      emi_inv_commands mode_switches [OF assms(1)])

section \<open>Every step preserves it\<close>

lemma emi_send_ok:
  assumes "emi_inv nq k p acc s" and "emi_sendable (EE_Send l)"
  shows "\<exists>s'. EMI_Send_L_Data l s = Some s' \<and> emi_inv nq k p (acc @ emi_accepted (EE_Send l)) s'"
  using assms by (cases l) (auto simp: EMI_Send_L_Data_def emi_inv_def emi_ok_def short_frame_def)

lemma emi_get_ok:
  assumes "emi_inv nq k p acc s"
  obtains c s' where "EMI_Get_L_Data s = Some (c, s')" "emi_inv nq k p acc s'" "\<And>l. c = Some l \<Longrightarrow> lpdu_fits l"
proof (cases "em_outqueue s")
  case Nil
  then have "em_outsignal s = 0" using assms by (simp add: emi_inv_def emi_ok_def)
  with that [of None s] assms show ?thesis by (simp add: EMI_Get_L_Data_def)
next
  case (Cons l q)
  have "emi_ok s" using assms by (simp add: emi_inv_def)
  with Cons have "emi_ok (s\<lparr>em_outqueue := q, em_outsignal := em_outsignal s - 1\<rparr>)" "lpdu_fits l" "0 < em_outsignal s"
    by (simp_all add: emi_ok_def)
  with assms have "emi_inv nq k p acc (s\<lparr>em_outqueue := q, em_outsignal := em_outsignal s - 1\<rparr>)" "lpdu_fits l" "0 < em_outsignal s"
    by (simp_all add: emi_inv_def)
  with that [of "Some l" "s\<lparr>em_outqueue := q, em_outsignal := em_outsignal s - 1\<rparr>"] Cons show ?thesis
    by (simp add: EMI_Get_L_Data_def)
qed

lemma ToPacket_total: "L_Data_asserts d \<Longrightarrow> \<exists>p. L_Data_ToPacket d = Some p"
  by (simp add: L_Data_ToPacket_def Let_def)

text \<open>A frame is handed over.\<close>

lemma emi_handed: "take 1 (L_Data_ToEMI 0x11 d) = [0x11]" "length (L_Data_ToEMI 0x11 d) = length (data d) + 7"
  by (simp_all add: L_Data_ToEMI_def)

lemma EMI_Send_ok:
  assumes "emi_inv nq k p acc s" and "em_inqueue s = d # q" and "em_sendmode s = 0"
  obtains s' where "EMI_Send d (s\<lparr>em_inqueue := q\<rparr>) = Some s'"
    "emi_inv nq (Suc k) p acc (s'\<lparr>em_sendmode := (if em_noqueue s' then 1 else 0)\<rparr>)"
proof -
  have d: "short_frame d" "lpdu_fits (L_Data_PDU d)"
    using assms(1,2) short_frame_asserts [of d] by (simp_all add: emi_inv_def emi_ok_def)
  have dk: "drop k acc = d # q" using assms(1,2) by (simp add: emi_inv_def)
  then have k: "k < length acc" "acc ! k = d" "drop (Suc k) acc = q"
    by (metis drop_all leI list.distinct(1), metis nth_via_drop, metis drop_Suc list.sel(3) tl_drop)
  let ?c = "emi_commands [LL_Packet (L_Data_ToEMI 0x11 d)] (s\<lparr>em_inqueue := q\<rparr>)"
  have c: "emi_inv nq (Suc k) p acc (?c\<lparr>em_sendmode := (if em_noqueue s then 1 else 0)\<rparr>)"
    using assms(1,3) d(1) k dk emi_handed [of d]
    by (auto simp: emi_inv_def emi_ok_def emi_commands_def take_Suc_conv_app_nth short_frame_def)
  obtain b where b: "L_Data_ToPacket d = Some b" using ToPacket_total [of d] d(2) by auto
  let ?s = "emi_out (L_Data_PDU d) (if em_vmode s \<noteq> 0 then emi_out (L_Busmonitor_PDU b 0 0) ?c else ?c)"
  have "EMI_Send d (s\<lparr>em_inqueue := q\<rparr>) = Some ?s" by (simp add: EMI_Send_def emi_commands_def b Let_def)
  moreover have "(?s\<lparr>em_sendmode := m\<rparr>) =
      emi_out (L_Data_PDU d) (if em_vmode s \<noteq> 0 then emi_out (L_Busmonitor_PDU b 0 0) (?c\<lparr>em_sendmode := m\<rparr>) else ?c\<lparr>em_sendmode := m\<rparr>)" for m
    by (simp add: emi_out_def)
  moreover have "em_noqueue ?s = em_noqueue s" by (simp add: emi_commands_def)
  ultimately show ?thesis using that [of ?s] c d(2) by (cases "em_vmode s = 0") simp_all
qed

lemma emi_waiting:
  assumes "emi_inv nq k p acc s"
  shows "emi_inv nq k (p + (if expired then 1 else 0)) acc (if em_sendmode s = 1 \<and> expired then s\<lparr>em_sendmode := 0\<rparr> else s)"
  using emi_inv_ready [OF assms] emi_inv_more [OF assms, of "Suc p"] assms by simp

lemma emi_transmit_idle:
  "em_inqueue s = [] \<or> em_sendmode s \<noteq> 0 \<Longrightarrow>
   emi_transmit expired s = Some (if em_sendmode s = 1 \<and> expired then s\<lparr>em_sendmode := 0\<rparr> else s)"
  by (cases "em_inqueue s") (simp_all add: emi_transmit_def)

lemma emi_transmit_ok:
  assumes "emi_inv nq k p acc s"
  obtains k' s' where "emi_transmit expired s = Some s'" "emi_inv nq k' (p + (if expired then 1 else 0)) acc s'"
proof (cases "em_inqueue s = [] \<or> em_sendmode s \<noteq> 0")
  case True
  with that emi_transmit_idle emi_waiting [OF assms] show ?thesis by blast
next
  case False
  then obtain d q where q: "em_inqueue s = d # q" "em_sendmode s = 0" by (auto simp: neq_Nil_conv)
  from EMI_Send_ok [OF assms q] obtain s1 where s1: "EMI_Send d (s\<lparr>em_inqueue := q\<rparr>) = Some s1"
    "emi_inv nq (Suc k) p acc (s1\<lparr>em_sendmode := (if em_noqueue s1 then 1 else 0)\<rparr>)" by blast
  then have "emi_transmit expired s = Some (s1\<lparr>em_sendmode := (if em_noqueue s1 then 1 else 0)\<rparr>)"
    by (simp add: emi_transmit_def q)
  from that [OF this emi_inv_more [OF s1(2)]] show ?thesis by simp
qed

text \<open>The received packet: a decoded frame can be encoded again.\<close>

lemma EMI_decoded:
  assumes "EMI_to_L_Data c = Some d"
  shows "L_Data_asserts d" and "L_Data_asserts (d\<lparr>dest := a\<rparr>)"
proof -
  have n: "8 \<le> length c" and d: "length (data d) = min (unat (c ! 6 AND 0x0f) + 1) (length c - 7)"
    "hopcount d = drop_bit 4 (c ! 6) AND 0x07"
    using assms by (auto simp: EMI_to_L_Data_def Let_def split: if_splits)
  have "unat (c ! 6 AND 0x0f) \<le> 15"
    using word_and_le1 [of "c ! 6" "0x0f"] by (simp add: word_le_nat_alt)
  with n d(1) have "1 \<le> length (data d)" "length (data d) \<le> 0xff" by linarith+
  then show "L_Data_asserts d" by (simp add: L_Data_asserts_def d(2) hop_small)
  then show "L_Data_asserts (d\<lparr>dest := a\<rparr>)" by (simp add: L_Data_asserts_def)
qed

lemma emi_frame_ok:
  assumes "emi_inv nq k p acc s" and "EMI_to_L_Data c = Some d"
  obtains s' where "emi_frame d s = Some s'" "emi_inv nq k p acc s'"
proof -
  define d1 where "d1 = (if AddrType d = IndividualAddress then d\<lparr>dest := 0\<rparr> else d)"
  have d1: "L_Data_asserts d1" using EMI_decoded [OF assms(2)] by (simp add: d1_def)
  then obtain b where "L_Data_ToPacket d1 = Some b" using ToPacket_total by blast
  with that d1 assms(1) show ?thesis
    by (cases "em_vmode s = 0") (simp_all add: emi_frame_def d1_def [symmetric] Let_def)
qed

lemma emi_reopen_ok: "v \<in> {emi1, emi2} \<Longrightarrow> emi_inv nq k p acc s \<Longrightarrow> emi_inv nq k p acc (emi_reopen v c s)"
  by (simp add: emi_reopen_def emi_inv_switch Let_def)

lemma emi_monitored_ok: "emi_inv nq k p acc s \<Longrightarrow> emi_inv nq k p acc (emi_monitored v c s)"
  by (simp add: emi_monitored_def)

lemma emi_receive_ok:
  assumes "v \<in> {emi1, emi2}" and "emi_inv nq k p acc s"
  obtains s' where "emi_receive v c s = Some s'"
    "emi_inv nq k (p + (case c of b # _ \<Rightarrow> if b = ev_confirm v then 1 else 0 | _ \<Rightarrow> 0)) acc s'"
proof -
  let ?p = "p + (case c of b # _ \<Rightarrow> if b = ev_confirm v then 1 else 0 | _ \<Rightarrow> 0)"
  define s2 where "s2 = (if c \<noteq> [] \<and> c ! 0 = ev_confirm v then (emi_reopen v c s)\<lparr>em_sendmode := 0\<rparr> else emi_reopen v c s)"
  have s2: "emi_inv nq k ?p acc s2"
    using emi_inv_ready [OF emi_reopen_ok [OF assms]] emi_reopen_ok [OF assms]
    by (cases c) (simp_all add: s2_def)
  have receive: "emi_receive v c s =
      (if c \<noteq> [] \<and> c ! 0 = ev_indication v \<and> em_mode s2 = 2 then
         (case EMI_to_L_Data c of Some p \<Rightarrow> emi_frame p s2 | None \<Rightarrow> Some (emi_monitored v c s2))
       else Some (emi_monitored v c s2))"
    by (simp only: emi_receive_def Let_def s2_def)
  show ?thesis
  proof (cases "c \<noteq> [] \<and> c ! 0 = ev_indication v \<and> em_mode s2 = 2 \<and> EMI_to_L_Data c \<noteq> None")
    case True
    then obtain d where d: "EMI_to_L_Data c = Some d" by blast
    from emi_frame_ok [OF s2 d] obtain s' where "emi_frame d s2 = Some s'" "emi_inv nq k ?p acc s'" by blast
    with that [of s'] True d show ?thesis unfolding receive by simp
  next
    case False
    then have "emi_receive v c s = Some (emi_monitored v c s2)"
      unfolding receive by (cases "EMI_to_L_Data c") auto
    with that emi_monitored_ok [OF s2] show ?thesis by blast
  qed
qed

lemma emi_step_ok:
  assumes v: "v \<in> {emi1, emi2}" and inv: "emi_inv nq k p acc s" and e: "emi_sendable e"
  obtains g k' s' where "emi_step v e s = Some (g, s')" "list_all lpdu_fits g"
    "emi_inv nq k' (p + emi_permits v e) (acc @ emi_accepted e) s'"
proof (cases e)
  case (EE_Send l)
  with emi_send_ok [OF inv, of l] e that show ?thesis by force
next
  case EE_Get
  from emi_get_ok [OF inv] obtain c s' where c: "EMI_Get_L_Data s = Some (c, s')" "emi_inv nq k p acc s'" "\<And>l. c = Some l \<Longrightarrow> lpdu_fits l"
    by blast
  with EE_Get that show ?thesis by (cases c) simp_all
next
  case (EE_Turn c expired)
  from emi_transmit_ok [OF inv, of expired] obtain k' s1 where
    s1: "emi_transmit expired s = Some s1" "emi_inv nq k' (p + (if expired then 1 else 0)) acc s1" by blast
  show ?thesis
  proof (cases c)
    case None
    with s1 EE_Turn that [of "[]" s1 k'] show ?thesis by (simp add: emi_turn_def)
  next
    case (Some m)
    from emi_receive_ok [OF v s1(2), of m] obtain s2 where "emi_receive v m s1 = Some s2"
      "emi_inv nq k' (p + (if expired then 1 else 0) + (case m of b # _ \<Rightarrow> if b = ev_confirm v then 1 else 0 | _ \<Rightarrow> 0)) acc s2"
      by blast
    with Some s1(1) EE_Turn that [of "[]" s2 k'] show ?thesis by (simp add: emi_turn_def add.assoc)
  qed
next
  case EE_Open
  then show ?thesis using that [of "[]" "snd (EMI_Open v s)" k] emi_inv_switch [OF v inv] by simp
next
  case EE_Close
  then show ?thesis using that [of "[]" "snd (EMI_Close v s)" k] emi_inv_switch [OF v inv] by simp
next
  case EE_Enter
  then show ?thesis using that [of "[]" "snd (EMI_enterBusmonitor v s)" k] emi_inv_switch [OF v inv] by simp
next
  case EE_Leave
  then show ?thesis using that [of "[]" "snd (EMI_leaveBusmonitor v s)" k] emi_inv_switch [OF v inv] by simp
next
  case EE_VOpen
  then show ?thesis using that [of "[]" "snd (EMI_openVBusmonitor s)" k] inv by (simp add: EMI_openVBusmonitor_def)
next
  case EE_VClose
  then show ?thesis using that [of "[]" "snd (EMI_closeVBusmonitor s)" k] inv by (simp add: EMI_closeVBusmonitor_def)
qed

lemma emi_run_ok:
  assumes v: "v \<in> {emi1, emi2}" and "list_all emi_sendable es" and "emi_inv nq k p acc s"
  shows "\<exists>g k' s'. emi_run v es s = Some (g, s') \<and> list_all lpdu_fits g \<and>
    emi_inv nq k' (p + sum_list (map (emi_permits v) es)) (acc @ concat (map emi_accepted es)) s'"
  using assms(2,3)
proof (induction es arbitrary: k p acc s)
  case Nil
  then show ?case by auto
next
  case (Cons e es)
  have e: "emi_sendable e" "list_all emi_sendable es" using Cons.prems(1) by simp_all
  from emi_step_ok [OF v Cons.prems(2) e(1)] obtain g k1 s1 where
    s1: "emi_step v e s = Some (g, s1)" "list_all lpdu_fits g" "emi_inv nq k1 (p + emi_permits v e) (acc @ emi_accepted e) s1"
    by blast
  from Cons.IH [OF e(2) s1(3)] obtain h k' s' where "emi_run v es s1 = Some (h, s')" "list_all lpdu_fits h"
    "emi_inv nq k' (p + emi_permits v e + sum_list (map (emi_permits v) es))
       ((acc @ emi_accepted e) @ concat (map emi_accepted es)) s'" by blast
  with s1 show ?case by (auto simp: add.assoc)
qed

lemma accepted_short: "list_all emi_sendable es \<Longrightarrow> list_all short_frame (concat (map emi_accepted es))"
proof (induction es)
  case (Cons e es)
  moreover have "emi_sendable e \<Longrightarrow> list_all short_frame (emi_accepted e)"
    by (cases e rule: emi_accepted.cases) (simp_all add: short_frame_def)
  ultimately show ?case by simp
qed simp

end
