(* ===== verification/EmiDriverProps.thy ===== *)
theory EmiDriverProps
  imports EmiDriverProofs
begin

text \<open>What the EMI bus access layers promise: no abort, frames in order, and flow control.\<close>

definition emi_sample :: "uchar \<Rightarrow> lpdu" where
  "emi_sample b = L_Data_PDU (L_Data_new\<lparr>dest := 0x0901, AddrType := GroupAddress, data := [0, 0x80 OR b], hopcount := 6\<rparr>)"

lemma emi_sample_ok: "emi_sendable (EE_Send (emi_sample b))" "emi_accepted (EE_Send (emi_sample b)) =
    [L_Data_new\<lparr>dest := 0x0901, AddrType := GroupAddress, data := [0, 0x80 OR b], hopcount := 6\<rparr>]"
  by (simp_all add: emi_sample_def L_Data_new_def)

text \<open>C30: frames reach the interface once and in order. Whatever an EMI driver is asked to do and whatever
  the interface sends, as long as no frame given to it has an empty payload or more than three bits of hop count: the
  transmission requests it hands to the low level driver are read by the interface as
  the first frames the driver was given, in order and each once; the rest waits in the queue. A frame arrives with
  its addresses, hop count and payload, but without the source address and the repeat flag, for which a request has no place,
  and with the priorities normal and urgent exchanged, which the two coders number differently. Incomplete frames and frames of
  more than 16 bytes are not taken. A driver that may not use the queue of
  the interface hands over at most one frame more than it got confirmations and timeouts.
\<close>

theorem emi_frames_in_order:
  assumes "v \<in> {emi1, emi2}" and "list_all emi_sendable es"
  shows "\<exists>g s n. emi_run v es (EMI_new noqueue) = Some (g, s) \<and>
    map EMI_to_L_Data (handed (em_iface s)) =
      map (\<lambda>d. Some ((frame_read_back d)\<lparr>source := 0, repeated := False\<rparr>)) (take n (concat (map emi_accepted es))) \<and>
    n + length (em_inqueue s) = length (concat (map emi_accepted es)) \<and>
    n \<le> (if noqueue then Suc (sum_list (map (emi_permits v) es)) else length (concat (map emi_accepted es)))"
proof -
  let ?acc = "concat (map emi_accepted es)"
  from emi_run_ok [OF assms emi_inv_new [of noqueue]] obtain g n s where s: "emi_run v es (EMI_new noqueue) = Some (g, s)"
    "emi_inv noqueue n (sum_list (map (emi_permits v) es)) ?acc s" by auto
  have "list_all short_frame ?acc" using assms(2) by (rule accepted_short)
  then have "map EMI_to_L_Data (map (L_Data_ToEMI 0x11) (take n ?acc)) =
      map (\<lambda>d. Some ((frame_read_back d)\<lparr>source := 0, repeated := False\<rparr>)) (take n ?acc)"
    by (auto simp: list_all_iff short_frame_def dest!: in_set_takeD intro!: EMI_round_trip_eq)
  moreover have "handed (em_iface s) = map (L_Data_ToEMI 0x11) (take n ?acc)"
    "n + length (em_inqueue s) = length ?acc"
    "n \<le> (if noqueue then Suc (sum_list (map (emi_permits v) es)) else length ?acc)"
    using s(2) by (auto simp: emi_inv_def emi_ok_def)
  ultimately show ?thesis using s(1) by (intro exI [of _ g] exI [of _ s] exI [of _ n]) simp
qed

lemma emi_frames_in_order_witness:
  "\<exists>g s n. emi_run emi1 [EE_Open, EE_Send (emi_sample 1), EE_Send (emi_sample 0), EE_Turn None False] (EMI_new True) = Some (g, s) \<and>
     map EMI_to_L_Data (handed (em_iface s)) =
       map (\<lambda>d. Some ((frame_read_back d)\<lparr>source := 0, repeated := False\<rparr>))
         (take n (concat (map emi_accepted [EE_Send (emi_sample 1), EE_Send (emi_sample 0)]))) \<and>
     n + length (em_inqueue s) = 2 \<and> n \<le> 1"
  using emi_frames_in_order [of emi1 "[EE_Open, EE_Send (emi_sample 1), EE_Send (emi_sample 0), EE_Turn None False]" True]
  by (simp add: emi_sample_ok numeral_2_eq_2 del: emi_run.simps emi_accepted.simps(1))

text \<open>C32: an EMI driver survives its users and its interface. When every complete frame given to it has a payload that is
  not empty and a hop count of three bits, no sequence of calls and turns trips an \<open>assert\<close>, whatever the interface sends; every
  packet handed to the low level driver has at most the 32 bytes it asserts, every frame handed up
  can be encoded again, and the semaphore counts the frames that wait.
\<close>

theorem emi_driver_survives:
  assumes "v \<in> {emi1, emi2}" and "list_all emi_sendable es"
  shows "\<exists>g s. emi_run v es (EMI_new noqueue) = Some (g, s) \<and> list_all ll_fits (em_iface s) \<and>
    list_all lpdu_fits (g @ em_outqueue s) \<and> em_outsignal s = length (em_outqueue s)"
proof -
  from emi_run_ok [OF assms emi_inv_new [of noqueue]] obtain g n s where "emi_run v es (EMI_new noqueue) = Some (g, s)" "list_all lpdu_fits g"
    "emi_inv noqueue n (0 + sum_list (map (emi_permits v) es)) ([] @ concat (map emi_accepted es)) s" by blast
  then show ?thesis by (auto simp: emi_inv_def emi_ok_def)
qed

lemma emi_driver_survives_witness:
  "\<exists>g s. emi_run emi2 [EE_VOpen, EE_Open, EE_Send (emi_sample 1), EE_Turn (Some [0x29, 0, 0, 0, 0, 0, 0xff, 1]) False, EE_Get]
       (EMI_new False) = Some (g, s) \<and> list_all ll_fits (em_iface s) \<and>
     list_all lpdu_fits (g @ em_outqueue s) \<and> em_outsignal s = length (em_outqueue s)"
  by (rule emi_driver_survives) (simp_all add: emi_sample_ok)

end
