(* ===== verification/Spec2Isabelle.thy ===== *)
theory Spec2Isabelle
  imports ContainerProps CodecProps Endpoints TransportProps Formats DispatchProps FramingProps DaemonProps GroupCacheProps
    SessionProps ManagementProps LoadingProps FT12Props EmiDriverProps
begin

text \<open>
  The bcusdk repository: \<open>eibd\<close>, a daemon that gives its clients access to an EIB/KNX bus, the
  library the clients use, and tools. This development models the daemon from the messages of its
  clients down to the packets of the bus, the C client library, and EIBnet/IP in both roles.

  \<^bold>\<open>How the parts interact.\<close> A client calls the library (\<open>eibd/client\<close>), which sends messages of a
  two byte length and a body over a socket. In the daemon a \<open>ClientConnection\<close> (\<open>client.cpp\<close>) reads
  them and starts a handler (\<open>connection.cpp\<close>, \<open>busmonitor.cpp\<close>), which owns a transport layer endpoint
  (\<open>layer4.cpp\<close>). Endpoints, busmonitors, the group cache and the EIBnet/IP server register as callbacks
  of the dispatcher (\<open>layer3.cpp\<close>), which receives frames from a driver of the bus and hands each to the
  callbacks registered for it. Frames carry TPDUs and these APDUs (\<open>lpdu.cpp\<close>, \<open>tpdu.cpp\<close>, \<open>apdu.cpp\<close>).
  The tunnelling client and the router are drivers that reach a bus over EIBnet/IP, the server gives a bus
  to others. The classes \<open>Array\<close>, \<open>String\<close>, \<open>Stack\<close> and \<open>Queue\<close> carry the data.

  \<^bold>\<open>Theories and sources.\<close> Names follow the sources; a method \<open>C::m\<close> is \<open>C_m\<close>, the member variables of
  a class are a record.
  \<^item> \<open>Base\<close>: the C integer types as words, splitting into bytes, shared lemmas and collections.
  \<^item> \<open>Arrays\<close>, \<open>Queues\<close> (\<open>common/array.h\<close>, \<open>stack.h\<close>, \<open>my_strings.h\<close>, \<open>queue.h\<close>): arrays as lists with 32 bit
    counts, the queue as a linked list on an explicit heap; \<open>ContainerProps\<close>.
  \<^item> \<open>Formats\<close> (\<open>common.cpp\<close>), \<open>Apdu\<close>, \<open>Tpdu\<close>, \<open>Lpdu\<close>: one record per PDU class with \<open>init\<close>, \<open>ToPacket\<close>,
    \<open>Decode\<close>; \<open>Codec\<close>, \<open>ApduCodec\<close>, \<open>TpduCodec\<close>, \<open>LpduCodec\<close>: the proofs; \<open>CodecProps\<close>.
  \<^item> \<open>Layer4\<close>, \<open>Endpoints\<close> (\<open>layer4.cpp\<close>): the connection-oriented state machine and the connectionless
    endpoints; \<open>Transport\<close>: the abstract protocol, its refinement and the channel; \<open>TransportProps\<close>.
  \<^item> \<open>Layer3\<close> (\<open>layer3.cpp\<close>): registrations, the loop body for each kind of frame, the destructor;
    \<open>Dispatch\<close>, \<open>DispatchProps\<close>.
  \<^item> \<open>Framing\<close> (\<open>client.cpp\<close>, \<open>client/c/io.c\<close>): messages on the wire, read piece by piece; \<open>FramingProofs\<close>,
    \<open>FramingProps\<close>.
  \<^item> \<open>EibTypes\<close>, \<open>Clients\<close>, \<open>Daemon\<close> (\<open>client.cpp\<close>, \<open>connection.cpp\<close>, \<open>busmonitor.cpp\<close>): handlers and the whole
    daemon as one state; \<open>ClientApi\<close> (\<open>client/def/*.inc\<close>): every function of the client library;
    \<open>DaemonProofs\<close>, \<open>DaemonProps\<close>.
  \<^item> \<open>GroupCache\<close> (\<open>groupcache.cpp\<close>, \<open>groupcacheclient.cpp\<close>), \<open>GroupCacheProofs\<close>, \<open>GroupCacheProps\<close>.
  \<^item> \<open>Emi\<close> (\<open>emi.cpp\<close>): frames as CEMI and EMI. \<open>EibNetIp\<close> (\<open>eibnetip.cpp\<close>): packets, addresses and the 14
    kinds of messages; \<open>EibNetIpProofs\<close>: that each is read as it was sent.
  \<^item> \<open>EibNetServer\<close> (\<open>eibnetserver.cpp\<close>), \<open>EibNetServerProofs\<close>: the server and its invariant.
  \<^item> \<open>Tunnel\<close> (\<open>backend/eibnettunnel.cpp\<close>), \<open>TunnelProofs\<close>: the tunnelling client, the ranges of its variables
    and that it does not abort.
  \<^item> \<open>EibNetSocket\<close> (the socket of \<open>eibnetip.cpp\<close>, \<open>backend/eibnetrouter.cpp\<close>): the socket and the router.
  \<^item> \<open>TunnelNet\<close>, \<open>Session\<close>: a client and a server joined by a network that loses and repeats packets, the
    stop-and-wait protocol between them and the invariant of a session; \<open>SessionProps\<close>.
  \<^item> \<open>Layer7\<close> (\<open>layer7.cpp\<close>): requests to a device and the blocks of memory built on them; \<open>Management\<close>
    (\<open>management.cpp\<close>, \<open>managementclient.cpp\<close>): the management calls and the requests of clients;
    \<open>Layer7Proofs\<close>, \<open>ManagementProofs\<close>, \<open>ManagementProps\<close>. The transport endpoint and the devices behind it
    are a record \<open>bus\<close> of functions, an argument. The messages of clients are read with checked access.
  \<^item> \<open>Image\<close> (\<open>common/image.cpp\<close>), \<open>Loading\<close> (\<open>common/loadimage.cpp\<close>, \<open>LoadImage\<close> of \<open>managementclient.cpp\<close>):
    the streams of a memory image, the checks and the plan of a load, and its execution;
    \<open>ImageProofs\<close>, \<open>LoadingProofs\<close>, \<open>LoadingProps\<close>.
  \<^item> \<open>Streams\<close>: bytes that arrive in pieces. \<open>FT12\<close> (\<open>backend/ft12.cpp\<close>): the driver of a serial line with
    acknowledged frames, whose received bytes are read with checked access and whose writes may stop half way; \<open>FT12Proofs\<close>: its
    invariant, what it does with a stream of frames however it is cut into reads, and what it writes;
    \<open>FT12Props\<close>: two drivers, survival, silence.
  \<^item> \<open>EmiDriver\<close> (\<open>emi1.cpp\<close>, \<open>emi2.cpp\<close>): the bus access layers above a low level driver, once for both
    versions; \<open>EmiDriverProofs\<close>: the invariant of a run; \<open>EmiDriverProps\<close>.

  \<^bold>\<open>Conventions.\<close> A failed \<open>assert\<close> is the value \<open>None\<close> of an option type, and so is a checked access (\<open>rd\<close>)
  outside an array; a theorem that says a run is
  \<open>Some\<close> therefore says that the program is not aborted. Threads are sequences of turns: a turn is the
  code between two waits of a thread, and gets as arguments what the wait returned. Theorems quantify
  over the sequence of turns, so they hold for every scheduling. Memory that is allocated and not written
  is a function \<open>junk\<close> from positions to values. The following code is not part of the repository and is an
  argument of the definitions that use it: the answers of the bus driver (\<open>Layer2Interface\<close>), the pieces a
  socket returns and whether sending works, the routing of the operating system (\<open>gsa\<close>), the clock and the
  timers that have run out, the devices behind a transport endpoint (\<open>bus\<close>), and the memory left on the C stack.

  \<^bold>\<open>What the lemmas show.\<close> For the containers: agreement with lists and with sorting. For the PDUs: every
  encoder is inverted by the parser, parsed PDUs can be printed and encoded again, and a corrupted frame is
  noticed. For the transport layer: the code refines a small abstract protocol, which delivers every payload
  at most once and in order over a lossy channel, sends it at most four times, and ends when the peer is
  silent. For the dispatcher: the protocol towards the driver, mutual exclusion of registrations, delivery to
  exactly the registered callbacks, suppression of repeated frames. For the daemon: no turn of any thread
  trips an \<open>assert\<close>, and what one client writes another reads. For the cache: it is a map, and following the
  updates loses nothing. For EIBnet/IP: the packets survive the network, neither side aborts, the
  handshake opens a session, and a tunnel delivers every frame once and in order. For management: no request
  aborts on any bus; on a device that reads its memory truthfully a block write that reports success has
  written the block, and what a client writes it reads back; a scan finds every property, and an address is
  written only when one device waits for it. For images: reading one loses nothing, the segments of an accepted
  BCU2 image are disjoint, a BCU1 load that reports success has loaded the program, and one that fails leaves
  the device stopped. For a serial line: two FT1.2 drivers pass packets on once and in order over lost bytes and
  repetitions, neither aborts or reads behind the bytes it has received, and a dead line is noticed; an EMI driver hands its frames over in order, waits for
  confirmations and does not abort. The error theorems show
  inputs where the code does not do what it means to; the findings of the manifest list these places.

  \<^bold>\<open>Bounds and fuel.\<close> The destructor of the dispatcher (\<open>Layer3_close\<close>) gets fuel; \<open>dispatcher_close_ends\<close>
  shows that one unit for each registration is enough. \<open>endpoint_drain\<close> takes as much fuel as its queue has
  entries. The search for a free channel, the loops of the cache (a ring of 256 entries) and the expiry of
  address translations terminate by measures. A silent peer ends a connection after six turns for each
  buffered frame and five more. A received EIBnet/IP packet has at most 255 bytes, the size of the receive
  buffer, so a body has at most 249; frames from the bus have 1 to 254 data bytes and a hop count of three
  bits. Under these bounds the conversions to CEMI do not abort; longer frames, which the dispatcher passes on,
  make them abort (\<open>long_frame_stops_server\<close>, \<open>long_frame_stops_tunnel\<close>, \<open>long_payload_reaches_driver\<close>). Three loops may run forever and are partial
  functions with \<open>None\<close> for that: the property scan, which ends when every object has fewer than 256
  properties, and the loop over the streams of an image, whose 16 bit position wraps in images of 64 KiB,
  and the loop over the bytes of a serial line, which deletes a number of bytes that is read from an uninitialised variable:
  its values are an argument \<open>u\<close>; \<open>ft12_survives\<close> holds when they are not 0, and \<open>ft12_end_to_end\<close> when
  they are the length the last accepted frame had.

  \<^bold>\<open>Not modelled.\<close> Tracing (the calls of \<open>TRACEPRINTF\<close>, except for the \<open>Decode\<close> methods they use, which
  are modelled), null pointers and a failing \<open>malloc\<close>, setting up sockets and threads, the drivers of
  TPUART, BCU1 and USB interfaces and the opening of serial devices, the copy of libusb, the generator of BCU code (\<open>bcugen\<close>) and the
  command line programs. The
  address lookups \<open>GetHostIP\<close> and \<open>GetSourceAddress\<close> ask the operating system. A session of a tunnel is
  modelled until it is closed or a frame is given up, since after that the sequence numbers of the two
  sides may disagree (\<open>tunnel_giveup_loses_frame\<close>).
\<close>

end
